(* ===== verification/Prelude.thy ===== *)
theory Prelude
  imports Main "HOL-Library.Word" "HOL-Library.Sublist" "HOL-Library.AList"
begin

unbundle bit_operations_syntax

text \<open>
  What the components share: bytes and texts, Python's number formatting and parsing on
  them, little-endian packing, checksums, and two interfaces for data that arrives in
  chunks.  \<^verbatim>\<open>bytes\<close> is a list of 8-bit words; a Python text is a list of
  characters, and the latin-1 decoding of the captures is the bijection between the two.
\<close>

section \<open>Types\<close>

type_synonym byte = "8 word"
type_synonym bytes = "8 word list"

named_theorems model_defs \<open>definitions a component unfolds when a concrete input is evaluated\<close>

section \<open>Texts\<close>

definition latin1_decode :: "bytes \<Rightarrow> string" where
  "latin1_decode bs = map (\<lambda>b. char_of (unat b)) bs"

definition latin1_encode :: "string \<Rightarrow> bytes" where
  "latin1_encode s = map (\<lambda>c. word_of_nat (of_char c)) s"

lemma latin1_roundtrip [simp]: "latin1_decode (latin1_encode s) = s"
  by (simp add: latin1_decode_def latin1_encode_def comp_def unat_of_nat take_bit_eq_mod map_idI)

lemma latin1_decode_append [simp]: "latin1_decode (xs @ ys) = latin1_decode xs @ latin1_decode ys"
  by (simp add: latin1_decode_def)

lemma length_latin1_decode [simp]: "length (latin1_decode xs) = length xs"
  by (simp add: latin1_decode_def)

text \<open>The whitespace of \<^verbatim>\<open>str.strip()\<close> and \<^verbatim>\<open>str.split()\<close> in the latin-1 range.\<close>

definition py_space :: "char \<Rightarrow> bool" where
  "py_space c \<longleftrightarrow> of_char c \<in> {9, 10, 11, 12, 13, 28, 29, 30, 31, 32, 133, 160 :: nat}"

definition py_strip :: "string \<Rightarrow> string" where
  "py_strip s = rev (dropWhile py_space (rev (dropWhile py_space s)))"

fun py_split_aux :: "string \<Rightarrow> string \<Rightarrow> string list" where
  "py_split_aux cur [] = (if cur = [] then [] else [rev cur])"
| "py_split_aux cur (c # cs) =
     (if py_space c then (if cur = [] then py_split_aux [] cs else rev cur # py_split_aux [] cs)
      else py_split_aux (c # cur) cs)"

definition py_split :: "string \<Rightarrow> string list" where
  "py_split s = py_split_aux [] s"

fun join_with :: "string \<Rightarrow> string list \<Rightarrow> string" where
  "join_with sep [] = []"
| "join_with sep [x] = x"
| "join_with sep (x # y # xs) = x @ sep @ join_with sep (y # xs)"

text \<open>\<^verbatim>\<open>"\n".join(lines) + ("\n" if lines else "")\<close>, as the decoders render their logs.\<close>

definition newline :: string where
  "newline = [CHR 0x0A]"

definition render_lines :: "string list \<Rightarrow> string" where
  "render_lines ls = join_with newline ls @ (if ls = [] then [] else newline)"

lemma render_lines_Nil [simp]: "render_lines [] = []"
  by (simp add: render_lines_def)

lemma render_lines_Cons: "render_lines (l # ls) = l @ newline @ render_lines ls"
  by (cases ls) (simp_all add: render_lines_def)

text \<open>\<^verbatim>\<open>token in text\<close> and \<^verbatim>\<open>text.count(token)\<close> (non-overlapping occurrences).\<close>

fun contains_text :: "string \<Rightarrow> string \<Rightarrow> bool" where
  "contains_text tok [] = (tok = [])"
| "contains_text tok (c # cs) = (prefix tok (c # cs) \<or> contains_text tok cs)"

lemma contains_text_sublist: "contains_text tok s \<longleftrightarrow> sublist tok s"
  by (induction s) (auto simp: sublist_Cons_right)

fun count_text :: "string \<Rightarrow> string \<Rightarrow> nat" where
  "count_text tok [] = 0"
| "count_text tok (c # cs) =
     (if tok \<noteq> [] \<and> prefix tok (c # cs) then Suc (count_text tok (drop (length tok - 1) cs))
      else count_text tok cs)"

lemma count_text_pos: "tok \<noteq> [] \<Longrightarrow> 0 < count_text tok s \<longleftrightarrow> contains_text tok s"
  by (induction tok s rule: count_text.induct) auto

section \<open>Numbers as text\<close>

definition hex_digit :: "nat \<Rightarrow> char" where
  "hex_digit n = ''0123456789ABCDEF'' ! n"

fun hex_str :: "nat \<Rightarrow> string" where
  "hex_str n = (if n < 16 then [hex_digit n] else hex_str (n div 16) @ [hex_digit (n mod 16)])"

declare hex_str.simps [simp del]

text \<open>\<^verbatim>\<open>f"{n:0wX}"\<close>\<close>

definition fmt_X :: "nat \<Rightarrow> nat \<Rightarrow> string" where
  "fmt_X w n = (let s = hex_str n in replicate (w - length s) (CHR ''0'') @ s)"

text \<open>\<^verbatim>\<open>f"0x{n:0wX}"\<close>\<close>

definition fmt_0x :: "nat \<Rightarrow> nat \<Rightarrow> string" where
  "fmt_0x w n = ''0x'' @ fmt_X w n"

fun dec_str :: "nat \<Rightarrow> string" where
  "dec_str n = (if n < 10 then [hex_digit n] else dec_str (n div 10) @ [hex_digit (n mod 10)])"

declare dec_str.simps [simp del]

text \<open>The value of one digit character in a base up to 16, as \<^verbatim>\<open>int(text, base)\<close> reads it.\<close>

definition digit_val :: "char \<Rightarrow> nat option" where
  "digit_val c = (let k = of_char c :: nat in
     if 48 \<le> k \<and> k \<le> 57 then Some (k - 48)
     else if 65 \<le> k \<and> k \<le> 70 then Some (k - 55)
     else if 97 \<le> k \<and> k \<le> 102 then Some (k - 87)
     else None)"

definition is_hex :: "char \<Rightarrow> bool" where
  "is_hex c \<longleftrightarrow> digit_val c \<noteq> None"

definition is_dec :: "char \<Rightarrow> bool" where
  "is_dec c \<longleftrightarrow> (case digit_val c of None \<Rightarrow> False | Some d \<Rightarrow> d < 10)"

text \<open>
  The digits of \<^verbatim>\<open>int(text, base)\<close>: at least one digit, single underscores between
  digits.  The flag says whether the previous character was a digit.
\<close>

fun digits_val :: "nat \<Rightarrow> bool \<Rightarrow> nat \<Rightarrow> string \<Rightarrow> nat option" where
  "digits_val b prev acc [] = (if prev then Some acc else None)"
| "digits_val b prev acc (c # cs) =
     (if c = CHR ''_'' then (if prev then digits_val b False acc cs else None)
      else case digit_val c of
        None \<Rightarrow> None
      | Some d \<Rightarrow> if d < b then digits_val b True (acc * b + d) cs else None)"

fun drop_0x :: "string \<Rightarrow> string" where
  "drop_0x (a # x # cs) =
     (if a = CHR ''0'' \<and> (x = CHR ''x'' \<or> x = CHR ''X'')
      then (case cs of d # ds \<Rightarrow> if d = CHR ''_'' then ds else cs | [] \<Rightarrow> cs)
      else a # x # cs)"
| "drop_0x cs = cs"

text \<open>\<^verbatim>\<open>int(text, 16)\<close>; \<^term>\<open>None\<close> is its \<^verbatim>\<open>ValueError\<close>.\<close>

definition py_int16 :: "string \<Rightarrow> int option" where
  "py_int16 s = (case py_strip s of
       [] \<Rightarrow> None
     | c # cs \<Rightarrow>
         if c = CHR ''-'' then map_option (\<lambda>n. - int n) (digits_val 16 False 0 (drop_0x cs))
         else if c = CHR ''+'' then map_option int (digits_val 16 False 0 (drop_0x cs))
         else map_option int (digits_val 16 False 0 (drop_0x (c # cs))))"

text \<open>The value of a run of hex digits a pattern has already matched.\<close>

definition hex_value :: "string \<Rightarrow> nat" where
  "hex_value s = foldl (\<lambda>acc c. 16 * acc + (case digit_val c of Some d \<Rightarrow> d | None \<Rightarrow> 0)) 0 s"

definition dec_value :: "string \<Rightarrow> nat" where
  "dec_value s = foldl (\<lambda>acc c. 10 * acc + (case digit_val c of Some d \<Rightarrow> d | None \<Rightarrow> 0)) 0 s"

lemma hex_digit_cases:
  assumes "n < 16"
  shows "digit_val (hex_digit n) = Some n \<and> \<not> py_space (hex_digit n) \<and> hex_digit n \<noteq> CHR ''_''
    \<and> hex_digit n \<notin> {CHR ''-'', CHR ''+'', CHR ''x'', CHR ''X'', CHR ''@'', CHR ''/'', CHR ''#''}"
proof -
  have "n \<in> set [0..<16]"
    using assms by simp
  moreover have "\<forall>k \<in> set [0..<16]. digit_val (hex_digit k) = Some k \<and> \<not> py_space (hex_digit k)
    \<and> hex_digit k \<noteq> CHR ''_''
    \<and> hex_digit k \<notin> {CHR ''-'', CHR ''+'', CHR ''x'', CHR ''X'', CHR ''@'', CHR ''/'', CHR ''#''}"
    by code_simp
  ultimately show ?thesis
    by blast
qed

lemma hex_str_nonempty [simp]: "hex_str n \<noteq> []"
  by (subst hex_str.simps) simp

lemma hex_str_chars: "c \<in> set (hex_str n) \<Longrightarrow> \<exists>k < 16. c = hex_digit k"
proof (induction n rule: hex_str.induct)
  case (1 n)
  show ?case
  proof (cases "n < 16")
    case True
    with "1.prems" show ?thesis by (subst (asm) hex_str.simps) auto
  next
    case False
    with "1.prems" have "c \<in> set (hex_str (n div 16)) \<or> c = hex_digit (n mod 16)"
      by (subst (asm) hex_str.simps) auto
    with False "1.IH" show ?thesis by (auto intro: exI [of _ "n mod 16"])
  qed
qed

section \<open>Text files\<close>

text \<open>
  \<^verbatim>\<open>for line in file\<close> of a file opened in text mode, without the line terminators: LF, CR and
  CR LF all end a line.
\<close>

fun text_lines_aux :: "string \<Rightarrow> string \<Rightarrow> string list" where
  "text_lines_aux cur [] = (if cur = [] then [] else [rev cur])"
| "text_lines_aux cur (c # cs) =
     (if c = CHR 0x0A then rev cur # text_lines_aux [] cs
      else if c = CHR 0x0D then
        rev cur # (case cs of d # ds \<Rightarrow> if d = CHR 0x0A then text_lines_aux [] ds else text_lines_aux [] (d # ds)
          | [] \<Rightarrow> [])
      else text_lines_aux (c # cur) cs)"

definition text_lines :: "string \<Rightarrow> string list" where
  "text_lines s = text_lines_aux [] s"

lemma text_lines_aux_line:
  "CHR 0x0A \<notin> set l \<Longrightarrow> CHR 0x0D \<notin> set l \<Longrightarrow>
     text_lines_aux cur (l @ newline @ s) = (rev cur @ l) # text_lines_aux [] s"
  by (induction l arbitrary: cur) (auto simp: newline_def)

lemma text_lines_line:
  "CHR 0x0A \<notin> set l \<Longrightarrow> CHR 0x0D \<notin> set l \<Longrightarrow> text_lines (l @ newline @ s) = l # text_lines s"
  using text_lines_aux_line [of l "[]" s] by (simp add: text_lines_def)

lemma text_lines_Nil [simp]: "text_lines [] = []"
  by (simp add: text_lines_def)

lemma text_lines_render:
  "\<forall>l \<in> set ls. CHR 0x0A \<notin> set l \<and> CHR 0x0D \<notin> set l \<Longrightarrow> text_lines (render_lines ls) = ls"
  by (induction ls) (simp_all add: render_lines_Cons text_lines_line)

text \<open>\<^verbatim>\<open>str.lower()\<close> in the latin-1 range.\<close>

definition py_lower :: "string \<Rightarrow> string" where
  "py_lower s = map (\<lambda>c. let k = of_char c :: nat in
     if 65 \<le> k \<and> k \<le> 90 \<or> 192 \<le> k \<and> k \<le> 222 \<and> k \<noteq> 215 then char_of (k + 32) else c) s"

text \<open>\<^verbatim>\<open>f"{n:0wx}"\<close>\<close>

definition fmt_x :: "nat \<Rightarrow> nat \<Rightarrow> string" where
  "fmt_x w n = py_lower (fmt_X w n)"

text \<open>\<^verbatim>\<open>int(text)\<close>; \<^term>\<open>None\<close> is its \<^verbatim>\<open>ValueError\<close>.\<close>

definition py_int10 :: "string \<Rightarrow> int option" where
  "py_int10 s = (case py_strip s of
       [] \<Rightarrow> None
     | c # cs \<Rightarrow>
         if c = CHR ''-'' then map_option (\<lambda>n. - int n) (digits_val 10 False 0 cs)
         else if c = CHR ''+'' then map_option int (digits_val 10 False 0 cs)
         else map_option int (digits_val 10 False 0 (c # cs)))"

text \<open>A loop over a list whose body may raise.\<close>

fun try_fold :: "('a \<Rightarrow> 's \<Rightarrow> 's option) \<Rightarrow> 'a list \<Rightarrow> 's \<Rightarrow> 's option" where
  "try_fold f [] s = Some s"
| "try_fold f (x # xs) s = (case f x s of None \<Rightarrow> None | Some s' \<Rightarrow> try_fold f xs s')"

lemma try_fold_append:
  "try_fold f (xs @ ys) s = (case try_fold f xs s of None \<Rightarrow> None | Some s' \<Rightarrow> try_fold f ys s')"
  by (induction xs arbitrary: s) (auto split: option.splits)

lemma try_fold_inv:
  "try_fold f xs s = Some t \<Longrightarrow> P s \<Longrightarrow> (\<And>x s s'. f x s = Some s' \<Longrightarrow> P s \<Longrightarrow> P s') \<Longrightarrow> P t"
  by (induction xs arbitrary: s) (auto split: option.splits)

text \<open>\<^verbatim>\<open>str()\<close> of numbers, truth values and lists, and the width form of a signed number.\<close>

definition str_int :: "int \<Rightarrow> string" where
  "str_int n = (if n < 0 then CHR ''-'' # dec_str (nat (- n)) else dec_str (nat n))"

definition str_bool :: "bool \<Rightarrow> string" where
  "str_bool b = (if b then ''True'' else ''False'')"

definition str_opt_int :: "int option \<Rightarrow> string" where
  "str_opt_int x = (case x of None \<Rightarrow> ''None'' | Some n \<Rightarrow> str_int n)"

definition str_int_list :: "int list \<Rightarrow> string" where
  "str_int_list xs = ''['' @ join_with '', '' (map str_int xs) @ '']''"

definition quoted :: "string \<Rightarrow> string" where
  "quoted s = CHR 0x27 # s @ [CHR 0x27]"

definition str_text_list :: "string list \<Rightarrow> string" where
  "str_text_list xs = ''['' @ join_with '', '' (map quoted xs) @ '']''"

text \<open>\<^verbatim>\<open>f"{n:0wX}"\<close> of a signed number.\<close>

definition fmt_X_int :: "nat \<Rightarrow> int \<Rightarrow> string" where
  "fmt_X_int w n = (if n < 0 then CHR ''-'' # fmt_X (w - 1) (nat (- n)) else fmt_X w (nat n))"

text \<open>\<^verbatim>\<open>max(candidates, key=...)\<close>: the first of the largest; the code guards the empty list.\<close>

definition max_by :: "('a \<Rightarrow> 'k :: linorder) \<Rightarrow> 'a list \<Rightarrow> 'a option" where
  "max_by key xs = (case xs of [] \<Rightarrow> None
     | y # ys \<Rightarrow> Some (foldl (\<lambda>best z. if key best < key z then z else best) y ys))"

lemma max_by_Some:
  assumes "max_by key xs = Some m"
  shows "m \<in> set xs \<and> (\<forall>x \<in> set xs. key x \<le> key m)"
proof -
  have step: "foldl (\<lambda>best z. if key best < key z then z else best) y ys \<in> set (y # ys)
      \<and> (\<forall>x \<in> set (y # ys). key x \<le> key (foldl (\<lambda>best z. if key best < key z then z else best) y ys))" for y ys
  proof (induction ys rule: rev_induct)
    case (snoc z ys)
    then show ?case by (auto simp: not_less intro: order.trans)
  qed simp
  then show ?thesis
    using assms by (auto simp: max_by_def split: list.splits)
qed

lemma max_by_None: "max_by key xs = None \<longleftrightarrow> xs = []"
  by (simp add: max_by_def split: list.split)

section \<open>Association lists\<close>

lemma update_new: "k \<notin> fst ` set m \<Longrightarrow> AList.update k v m = m @ [(k, v)]"
  by (induction m) auto

lemma in_update_cases: "x \<in> set (AList.update k v m) \<Longrightarrow> x = (k, v) \<or> x \<in> set m"
  by (induction m) (auto split: if_splits)

section \<open>Little-endian words and checksums\<close>

text \<open>\<^verbatim>\<open>struct.pack("<I", value & 0xFFFFFFFF)\<close>\<close>

definition pack_u32_le :: "nat \<Rightarrow> bytes" where
  "pack_u32_le v = (let n = v mod 2 ^ 32 in
     [word_of_nat n, word_of_nat (n div 2 ^ 8), word_of_nat (n div 2 ^ 16), word_of_nat (n div 2 ^ 24)])"

definition unpack_u32_le :: "bytes \<Rightarrow> nat option" where
  "unpack_u32_le bs = (case bs of
     [a, b, c, d] \<Rightarrow> Some (unat a + 2 ^ 8 * unat b + 2 ^ 16 * unat c + 2 ^ 24 * unat d)
   | _ \<Rightarrow> None)"

text \<open>\<^verbatim>\<open>sum(payload) & 0xFFFFFFFF\<close>\<close>

definition checksum32 :: "bytes \<Rightarrow> nat" where
  "checksum32 bs = sum_list (map unat bs) mod 2 ^ 32"

lemma length_pack_u32_le [simp]: "length (pack_u32_le v) = 4"
  by (simp add: pack_u32_le_def Let_def)

lemma nat_bytes_eq:
  assumes "n < 2 ^ 32"
  shows "n mod 256 + 256 * (n div 256 mod 256) + 65536 * (n div 65536 mod 256)
    + 16777216 * (n div 16777216 mod 256) = (n :: nat)"
proof -
  have top: "n div 16777216 < 256"
    using assms by (simp add: less_mult_imp_div_less)
  have "n div 256 div 256 = n div 65536" "n div 65536 div 256 = n div 16777216"
    by (simp_all flip: div_mult2_eq)
  then have "n mod 256 + 256 * (n div 256 mod 256) + 65536 * (n div 65536 mod 256)
      + 16777216 * (n div 16777216) = n"
    using div_mult_mod_eq [of n 256] div_mult_mod_eq [of "n div 256" 256]
      div_mult_mod_eq [of "n div 65536" 256] by linarith
  with top show ?thesis
    by simp
qed

lemma unpack_pack_u32_le: "unpack_u32_le (pack_u32_le v) = Some (v mod 2 ^ 32)"
  using nat_bytes_eq [of "v mod 2 ^ 32"]
  by (simp add: pack_u32_le_def unpack_u32_le_def Let_def unat_of_nat del: mod_less)

lemma checksum32_bound: "checksum32 bs < 2 ^ 32"
  by (simp add: checksum32_def)

lemma checksum32_append: "checksum32 (xs @ ys) = (checksum32 xs + checksum32 ys) mod 2 ^ 32"
  by (simp add: checksum32_def mod_add_eq)

section \<open>Data that arrives in chunks\<close>

text \<open>
  A consumer of a serial stream takes the bytes of one read at a time.  Its result must
  not depend on where the reads cut the stream: that is the law of \<^verbatim>\<open>chunked_sink\<close>,
  and the consequence is that any sequence of reads ends in the state one read of
  everything would give.
\<close>

locale chunked_sink =
  fixes sink :: "'s \<Rightarrow> 'i list \<Rightarrow> 's"
    and good :: "'s \<Rightarrow> bool"
  assumes sink_append: "good s \<Longrightarrow> sink s (xs @ ys) = sink (sink s xs) ys"
    and sink_Nil: "good s \<Longrightarrow> sink s [] = s"
    and good_sink: "good s \<Longrightarrow> good (sink s xs)"
begin

lemma fold_chunks: "good s \<Longrightarrow> foldl sink s cs = sink s (concat cs)"
proof (induction cs arbitrary: s)
  case Nil
  then show ?case by (simp add: sink_Nil)
next
  case (Cons c cs)
  then show ?case by (simp add: sink_append good_sink)
qed

lemma rechunk: "good s \<Longrightarrow> concat cs = concat ds \<Longrightarrow> foldl sink s cs = foldl sink s ds"
  by (simp add: fold_chunks)

lemma good_fold: "good s \<Longrightarrow> good (foldl sink s cs)"
  by (simp add: fold_chunks good_sink)

end

text \<open>
  A transducer also emits output for every chunk.  Collecting the output next to the
  state makes it a sink.
\<close>

definition collect_feed :: "('s \<Rightarrow> 'i list \<Rightarrow> 'o list \<times> 's) \<Rightarrow> 'o list \<times> 's \<Rightarrow> 'i list \<Rightarrow> 'o list \<times> 's" where
  "collect_feed feed acc xs = (case feed (snd acc) xs of (out, s) \<Rightarrow> (fst acc @ out, s))"

locale chunked_feed =
  fixes feed :: "'s \<Rightarrow> 'i list \<Rightarrow> 'o list \<times> 's"
    and inv :: "'s \<Rightarrow> bool"
  assumes feed_append: "inv s \<Longrightarrow> feed s (xs @ ys) =
      (fst (feed s xs) @ fst (feed (snd (feed s xs)) ys), snd (feed (snd (feed s xs)) ys))"
    and feed_Nil: "inv s \<Longrightarrow> feed s [] = ([], s)"
    and inv_feed: "inv s \<Longrightarrow> inv (snd (feed s xs))"

sublocale chunked_feed \<subseteq> collected: chunked_sink "collect_feed feed" "\<lambda>acc. inv (snd acc)"
  by unfold_locales (simp_all add: collect_feed_def split_beta feed_append feed_Nil inv_feed)

end
