(* ===== verification/Pattern.thy ===== *)
theory Pattern
  imports Prelude
begin

text \<open>
  The regular expressions the program searches its logs with.  All of them are sequences of
  literals, runs of characters of a class and captured fields, where a run is followed by something
  outside its class; for those the greedy run is what the regular-expression search of Python
  finds, and no other match of the same start exists.  The main result is the round trip: a
  rendered line is found again with its fields.
\<close>

section \<open>Patterns\<close>

text \<open>
  \<^term>\<open>Lit\<close> is literal text, \<^term>\<open>Fixed\<close> a captured field of exactly that many characters of a class
  (\<^verbatim>\<open>([0-9A-Fa-f]{8})\<close>), \<^term>\<open>Run\<close> a captured greedy run of at least that many (\<^verbatim>\<open>([0-9]+)\<close>), and
  \<^term>\<open>Skip\<close> a greedy run that is not captured (\<^verbatim>\<open>\s+\<close>, \<^verbatim>\<open>\s*\<close>).
\<close>

datatype item = Lit string | Fixed nat "char \<Rightarrow> bool" | Run nat "char \<Rightarrow> bool" | Skip nat "char \<Rightarrow> bool"

fun match_items :: "item list \<Rightarrow> string \<Rightarrow> (string list \<times> string) option" where
  "match_items [] s = Some ([], s)"
| "match_items (Lit t # ps) s = (if prefix t s then match_items ps (drop (length t) s) else None)"
| "match_items (Fixed n c # ps) s =
     (if n \<le> length s \<and> list_all c (take n s) then map_option (apfst (Cons (take n s))) (match_items ps (drop n s))
      else None)"
| "match_items (Run n c # ps) s =
     (let w = takeWhile c s in
      if n \<le> length w then map_option (apfst (Cons w)) (match_items ps (drop (length w) s)) else None)"
| "match_items (Skip n c # ps) s =
     (let w = takeWhile c s in if n \<le> length w then match_items ps (drop (length w) s) else None)"

text \<open>
  \<^verbatim>\<open>re.findall\<close>: the captures of the matches from left to right, none overlapping the one before
  it.  The patterns match no empty text.
\<close>

fun findall :: "item list \<Rightarrow> string \<Rightarrow> string list list" where
  "findall ps [] = []"
| "findall ps (c # cs) =
     (case match_items ps (c # cs) of
        None \<Rightarrow> findall ps cs
      | Some (caps, rest) \<Rightarrow> if length rest \<le> length cs then caps # findall ps rest else findall ps cs)"

declare findall.simps(2) [simp del]

text \<open>\<^verbatim>\<open>matches[-1]\<close> of a search, and \<^verbatim>\<open>re.search\<close>.\<close>

definition last_match :: "item list \<Rightarrow> string \<Rightarrow> string list option" where
  "last_match ps s = (case rev (findall ps s) of [] \<Rightarrow> None | m # _ \<Rightarrow> Some m)"

definition first_match :: "item list \<Rightarrow> string \<Rightarrow> string list option" where
  "first_match ps s = (case findall ps s of [] \<Rightarrow> None | m # _ \<Rightarrow> Some m)"

section \<open>Words, lines and slices of a text\<close>

text \<open>A word character of \<^verbatim>\<open>\b\<close> in the latin-1 range.\<close>

definition word_char :: "char \<Rightarrow> bool" where
  "word_char c \<longleftrightarrow> (let k = of_char c :: nat in
     (48 \<le> k \<and> k \<le> 57) \<or> (65 \<le> k \<and> k \<le> 90) \<or> k = 95 \<or> (97 \<le> k \<and> k \<le> 122)
     \<or> k \<in> {170, 178, 179, 181, 185, 186, 188, 189, 190} \<or> (192 \<le> k \<and> k \<noteq> 215 \<and> k \<noteq> 247))"

definition word_start :: "char option \<Rightarrow> bool" where
  "word_start prev \<longleftrightarrow> (case prev of None \<Rightarrow> True | Some c \<Rightarrow> \<not> word_char c)"

text \<open>\<^verbatim>\<open>re.search(r"\bword\b", text)\<close> for a word that starts and ends with word characters.\<close>

fun search_word :: "string \<Rightarrow> char option \<Rightarrow> string \<Rightarrow> bool" where
  "search_word w prev [] = False"
| "search_word w prev (c # cs) =
     (word_start prev \<and> prefix w (c # cs)
        \<and> (case drop (length w) (c # cs) of [] \<Rightarrow> True | d # _ \<Rightarrow> \<not> word_char d)
      \<or> search_word w (Some c) cs)"

definition not_newline :: "char \<Rightarrow> bool" where
  "not_newline c \<longleftrightarrow> c \<noteq> CHR 0x0A"

text \<open>\<^verbatim>\<open>text.rfind(token)\<close> and the text from there on.\<close>

fun rfind_from :: "string \<Rightarrow> string \<Rightarrow> string option" where
  "rfind_from tok [] = (if tok = [] then Some [] else None)"
| "rfind_from tok (c # cs) =
     (case rfind_from tok cs of Some t \<Rightarrow> Some t | None \<Rightarrow> if prefix tok (c # cs) then Some (c # cs) else None)"

text \<open>\<^verbatim>\<open>str.splitlines()\<close> in the latin-1 range: a CR LF pair is one boundary.\<close>

definition line_end :: "char \<Rightarrow> bool" where
  "line_end c \<longleftrightarrow> of_char c \<in> {10, 11, 12, 13, 28, 29, 30, 133 :: nat}"

fun splitlines_aux :: "string \<Rightarrow> string \<Rightarrow> string list" where
  "splitlines_aux cur [] = (if cur = [] then [] else [rev cur])"
| "splitlines_aux cur (c # cs) =
     (if line_end c then
        rev cur # (case cs of d # ds \<Rightarrow>
            if c = CHR 0x0D \<and> d = CHR 0x0A then splitlines_aux [] ds else splitlines_aux [] (d # ds)
          | [] \<Rightarrow> splitlines_aux [] [])
      else splitlines_aux (c # cur) cs)"

definition splitlines :: "string \<Rightarrow> string list" where
  "splitlines s = splitlines_aux [] s"

section \<open>Rendered lines are found\<close>

text \<open>The text a pattern stands for with given fields; what it skips is written as single spaces.\<close>

fun render_items :: "item list \<Rightarrow> string list \<Rightarrow> string" where
  "render_items [] caps = []"
| "render_items (Lit t # ps) caps = t @ render_items ps caps"
| "render_items (Fixed n c # ps) caps = (case caps of [] \<Rightarrow> [] | w # ws \<Rightarrow> w @ render_items ps ws)"
| "render_items (Run n c # ps) caps = (case caps of [] \<Rightarrow> [] | w # ws \<Rightarrow> w @ render_items ps ws)"
| "render_items (Skip n c # ps) caps = replicate n (CHR '' '') @ render_items ps caps"

definition stops :: "(char \<Rightarrow> bool) \<Rightarrow> string \<Rightarrow> bool" where
  "stops c s \<longleftrightarrow> (case s of [] \<Rightarrow> True | x # _ \<Rightarrow> \<not> c x)"

fun fits :: "item list \<Rightarrow> string list \<Rightarrow> string \<Rightarrow> bool" where
  "fits [] caps rest = (caps = [])"
| "fits (Lit t # ps) caps rest = fits ps caps rest"
| "fits (Fixed n c # ps) caps rest =
     (case caps of [] \<Rightarrow> False | w # ws \<Rightarrow> length w = n \<and> list_all c w \<and> fits ps ws rest)"
| "fits (Run n c # ps) caps rest =
     (case caps of [] \<Rightarrow> False
      | w # ws \<Rightarrow> n \<le> length w \<and> list_all c w \<and> stops c (render_items ps ws @ rest) \<and> fits ps ws rest)"
| "fits (Skip n c # ps) caps rest =
     (c (CHR '' '') \<and> stops c (render_items ps caps @ rest) \<and> fits ps caps rest)"

lemma takeWhile_stops:
  assumes "list_all c w" and "stops c s"
  shows "takeWhile c (w @ s) = w"
proof -
  have "takeWhile c s = []"
    using assms(2) by (cases s) (auto simp: stops_def)
  with assms(1) show ?thesis
    by (simp add: takeWhile_append2 list_all_iff)
qed

lemma match_render: "fits ps caps rest \<Longrightarrow> match_items ps (render_items ps caps @ rest) = Some (caps, rest)"
proof (induction ps caps rest rule: fits.induct)
  case (3 n c ps caps rest)
  then show ?case
    by (auto split: list.splits)
next
  case (4 n c ps caps rest)
  then show ?case
    by (auto simp: takeWhile_stops Let_def split: list.splits)
next
  case (5 n c ps caps rest)
  moreover have "list_all c (replicate n (CHR '' ''))"
    using 5 by (simp add: list_all_iff)
  ultimately show ?case
    by (simp add: takeWhile_stops Let_def)
qed auto

lemma match_rest_suffix: "match_items ps s = Some (caps, rest) \<Longrightarrow> suffix rest s"
proof (induction ps s arbitrary: caps rule: match_items.induct)
  case (4 n c ps s)
  then show ?case
    by (auto simp: Let_def split: if_splits) (meson suffix_drop suffix_order.trans)
next
  case (5 n c ps s)
  then show ?case
    by (auto simp: Let_def split: if_splits) (meson suffix_drop suffix_order.trans)
qed (auto split: if_splits dest: suffix_order.trans [OF _ suffix_drop])

lemma findall_none: "match_items ps (c # cs) = None \<Longrightarrow> findall ps (c # cs) = findall ps cs"
  by (simp add: findall.simps(2))

lemma findall_hit:
  "match_items ps (c # cs) = Some (caps, rest) \<Longrightarrow> length rest \<le> length cs \<Longrightarrow>
     findall ps (c # cs) = caps # findall ps rest"
  by (simp add: findall.simps(2))

lemma findall_noise:
  "x \<notin> set noise \<Longrightarrow> findall (Lit (x # t) # ps) (noise @ s) = findall (Lit (x # t) # ps) s"
  by (induction noise) (auto simp: findall_none)

lemma findall_render:
  assumes "fits (Lit (x # t) # ps) caps rest"
  shows "findall (Lit (x # t) # ps) (render_items (Lit (x # t) # ps) caps @ rest)
    = caps # findall (Lit (x # t) # ps) rest"
  using findall_hit [of "Lit (x # t) # ps" x "t @ render_items ps caps @ rest" caps rest]
    match_render [OF assms] by simp

text \<open>A log of lines, each after some noise without the first character of the pattern.\<close>

definition render_log :: "item list \<Rightarrow> (string \<times> string list) list \<Rightarrow> string \<Rightarrow> string" where
  "render_log ps segs tail = concat (map (\<lambda>(noise, caps). noise @ render_items ps caps) segs) @ tail"

fun log_fits :: "item list \<Rightarrow> (string \<times> string list) list \<Rightarrow> string \<Rightarrow> bool" where
  "log_fits ps [] tail = True"
| "log_fits ps ((noise, caps) # segs) tail =
     (fits ps caps (render_log ps segs tail) \<and> log_fits ps segs tail)"

lemma findall_render_log:
  assumes "log_fits (Lit (x # t) # ps) segs tail"
    and "\<forall>seg \<in> set segs. x \<notin> set (fst seg)" and "x \<notin> set tail"
  shows "findall (Lit (x # t) # ps) (render_log (Lit (x # t) # ps) segs tail) = map snd segs"
  using assms
proof (induction segs)
  case Nil
  then show ?case
    using findall_noise [of x tail t ps "[]"] by (simp add: render_log_def)
next
  case (Cons seg segs)
  obtain noise caps where seg: "seg = (noise, caps)" by (cases seg)
  have split: "render_log (Lit (x # t) # ps) (seg # segs) tail
      = noise @ render_items (Lit (x # t) # ps) caps @ render_log (Lit (x # t) # ps) segs tail"
    by (simp add: render_log_def seg)
  show ?case
    unfolding split using Cons seg findall_noise findall_render by auto
qed

lemma fits_fixed: "list_all (\<lambda>p. case p of Lit _ \<Rightarrow> True | Fixed _ _ \<Rightarrow> True | _ \<Rightarrow> False) ps \<Longrightarrow>
    fits ps caps rest = fits ps caps []"
proof (induction ps arbitrary: caps)
  case (Cons p ps)
  then show ?case by (cases p) (auto split: list.splits)
qed simp

section \<open>Numbers in a line\<close>

lemma hex_digit_value: "n < 16 \<Longrightarrow> digit_val (hex_digit n) = Some n"
  using hex_digit_cases by blast

lemma is_hex_hex_digit: "n < 16 \<Longrightarrow> is_hex (hex_digit n)"
  by (simp add: is_hex_def hex_digit_value)

lemma hex_value_snoc: "hex_value (s @ [c]) = 16 * hex_value s + (case digit_val c of Some d \<Rightarrow> d | None \<Rightarrow> 0)"
  by (simp add: hex_value_def)

lemma hex_value_hex_str [simp]: "hex_value (hex_str n) = n"
proof (induction n rule: hex_str.induct)
  case (1 n)
  show ?case
  proof (cases "n < 16")
    case True
    then show ?thesis
      by (subst hex_str.simps) (simp add: hex_value_def hex_digit_value)
  next
    case False
    then have "hex_value (hex_str n) = 16 * (n div 16) + n mod 16"
      using 1 by (subst hex_str.simps) (simp add: hex_value_snoc hex_digit_value)
    then show ?thesis by simp
  qed
qed

lemma hex_value_zeros: "hex_value (replicate k (CHR ''0'') @ s) = hex_value s"
  by (induction k) (simp_all add: hex_value_def digit_val_def)

lemma hex_value_fmt_X [simp]: "hex_value (fmt_X w n) = n"
  by (simp add: fmt_X_def Let_def hex_value_zeros)

lemma length_hex_str: "n < 16 ^ k \<Longrightarrow> 0 < k \<Longrightarrow> length (hex_str n) \<le> k"
proof (induction k arbitrary: n)
  case (Suc k)
  show ?case
  proof (cases "n < 16")
    case True
    then show ?thesis by (subst hex_str.simps) simp
  next
    case False
    then have k: "0 < k"
      using Suc.prems by (cases k) auto
    have "n div 16 < 16 ^ k"
      using Suc.prems by (simp add: less_mult_imp_div_less mult.commute)
    then have "length (hex_str (n div 16)) \<le> k"
      using Suc.IH k by blast
    with False show ?thesis
      by (subst hex_str.simps) simp
  qed
qed simp

lemma length_fmt_X: "n < 16 ^ w \<Longrightarrow> 0 < w \<Longrightarrow> length (fmt_X w n) = w"
  using length_hex_str [of n w] by (simp add: fmt_X_def Let_def)

lemma is_hex_hex_str: "list_all is_hex (hex_str n)"
  using hex_str_chars [of _ n] is_hex_hex_digit by (auto simp: list_all_iff)

lemma is_hex_fmt_X [simp]: "list_all is_hex (fmt_X w n)"
proof -
  have "is_hex (CHR ''0'')"
    by (simp add: is_hex_def digit_val_def)
  then show ?thesis
    using is_hex_hex_str [of n] by (auto simp: fmt_X_def Let_def list_all_iff)
qed

end
