(* ===== verification/Uart.thy ===== *)
theory Uart
  imports Pattern
begin

text \<open>
  The host's side of the block protocol in \<^verbatim>\<open>run_fpga_benchmark_ddr3.py\<close>: writing bytes at the pace the
  board can follow, sending a payload in acknowledged chunks, and sending it in blocks with a checksum
  each, with retries.  The serial port, the callbacks and the log are parameters, as in the code; what
  is proved about the bytes on the wire assumes of them only that nothing else writes to the port.
  Times are in microseconds.
\<close>

section \<open>Parameters\<close>

text \<open>The \<^verbatim>\<open>ser\<close> object and \<^verbatim>\<open>time.sleep\<close>, over the state of the host and its surroundings.\<close>

record 'e serial_port =
  op_write :: "bytes \<Rightarrow> 'e \<Rightarrow> 'e"
  op_flush :: "'e \<Rightarrow> 'e"
  op_sleep :: "int \<Rightarrow> 'e \<Rightarrow> 'e"

text \<open>The replies \<^verbatim>\<open>"ack"\<close>, \<^verbatim>\<open>"nack"\<close> and \<^verbatim>\<open>"timeout"\<close> of \<^verbatim>\<open>wait_for_block_reply\<close>.\<close>

datatype block_reply = Reply_ack | Reply_nack | Reply_timeout

fun reply_text :: "block_reply \<Rightarrow> string" where
  "reply_text Reply_ack = ''ack''"
| "reply_text Reply_nack = ''nack''"
| "reply_text Reply_timeout = ''timeout''"

text \<open>The callbacks; the last two may be \<^verbatim>\<open>None\<close>.\<close>

record 'e uart_host =
  wait_ack :: "'e \<Rightarrow> bool \<times> 'e"
  wait_reply :: "'e \<Rightarrow> block_reply \<times> 'e"
  after_nack :: "('e \<Rightarrow> 'e) option"
  trace_event :: "(string \<Rightarrow> 'e \<Rightarrow> 'e) option"

record uart_params =
  chunk_bytes :: nat
  block_bytes :: nat
  byte_delay :: int
  chunk_gap :: int
  pre_block_checksum_gap :: int
  checksum_byte_delay :: int
  checksum_retry_gap :: int
  checksum_retry_limit :: int
  block_gap :: int
  block_retry_gap :: int
  retry_limit :: int
  allow_ack_miss :: bool

definition run_trace :: "'e uart_host \<Rightarrow> string \<Rightarrow> 'e \<Rightarrow> 'e" where
  "run_trace host msg e = (case trace_event host of None \<Rightarrow> e | Some f \<Rightarrow> f msg e)"

section \<open>Writing and chunks\<close>

definition write_uart_bytes_slow :: "'e serial_port \<Rightarrow> bytes \<Rightarrow> int \<Rightarrow> 'e \<Rightarrow> 'e" where
  "write_uart_bytes_slow ser payload byte_delay_us e =
     (if byte_delay_us \<le> 0 then op_flush ser (op_write ser payload e)
      else fold (\<lambda>b e. op_sleep ser byte_delay_us (op_flush ser (op_write ser [b] e))) payload e)"

definition write_uart_u32_le_slow :: "'e serial_port \<Rightarrow> nat \<Rightarrow> int \<Rightarrow> 'e \<Rightarrow> 'e" where
  "write_uart_u32_le_slow ser v byte_delay_us e = write_uart_bytes_slow ser (pack_u32_le v) byte_delay_us e"

text \<open>
  \<^verbatim>\<open>for off in range(0, len(xs), step)\<close> with \<^verbatim>\<open>xs[off : off + step]\<close>.  A step of zero makes \<^verbatim>\<open>range\<close>
  raise; the module refuses such a block size when it is loaded, and chunks have four bytes.
\<close>

fun slices :: "nat \<Rightarrow> nat \<Rightarrow> 'a list \<Rightarrow> (nat \<times> 'a list) list" where
  "slices step off xs =
     (if xs = [] \<or> step = 0 then [] else (off, take step xs) # slices step (off + step) (drop step xs))"

declare slices.simps [simp del]

record chunk_result =
  chunks_sent :: nat
  ack_timeout :: bool
  chunk_ack_miss :: nat

definition no_chunks :: chunk_result where
  "no_chunks = \<lparr>chunks_sent = 0, ack_timeout = False, chunk_ack_miss = 0\<rparr>"

definition hex_bytes :: "bytes \<Rightarrow> string" where
  "hex_bytes bs = concat (map (\<lambda>b. map (\<lambda>c. if 65 \<le> (of_char c :: nat) then char_of ((of_char c :: nat) + 32) else c)
     (fmt_X 2 (unat b))) bs)"

definition send_chunk_line :: "nat \<Rightarrow> nat \<Rightarrow> bytes \<Rightarrow> string" where
  "send_chunk_line block_idx off chunk = ''SEND_CHUNK block='' @ dec_str block_idx @ '' off='' @ fmt_0x 8 off
     @ '' len='' @ dec_str (length chunk) @ '' data='' @ hex_bytes chunk"

definition ack_chunk_line :: "nat \<Rightarrow> nat \<Rightarrow> bool \<Rightarrow> string" where
  "ack_chunk_line block_idx off seen = ''ACK_CHUNK block='' @ dec_str block_idx @ '' off='' @ fmt_0x 8 off
     @ '' seen='' @ (if seen then ''1'' else ''0'')"

text \<open>The loop over the chunks of a payload of \<^term>\<open>total_len\<close> bytes.\<close>

fun send_chunks :: "'e serial_port \<Rightarrow> 'e uart_host \<Rightarrow> uart_params \<Rightarrow> nat \<Rightarrow> nat \<Rightarrow> nat \<Rightarrow>
    (nat \<times> bytes) list \<Rightarrow> chunk_result \<Rightarrow> 'e \<Rightarrow> chunk_result \<times> 'e" where
  "send_chunks ser host p block_idx block_start total_len [] r e = (r, e)"
| "send_chunks ser host p block_idx block_start total_len ((off, chunk) # rest) r e =
     (let e1 = run_trace host (send_chunk_line block_idx (block_start + off) chunk) e;
          e2 = write_uart_bytes_slow ser chunk (byte_delay p) e1;
          r1 = r\<lparr>chunks_sent := Suc (chunks_sent r)\<rparr>
      in case wait_ack host e2 of (ack_seen, e3) \<Rightarrow>
        let e4 = run_trace host (ack_chunk_line block_idx (block_start + off) ack_seen) e3;
            r2 = (if ack_seen then r1 else r1\<lparr>chunk_ack_miss := Suc (chunk_ack_miss r1)\<rparr>)
        in if \<not> ack_seen \<and> \<not> allow_ack_miss p then (r2\<lparr>ack_timeout := True\<rparr>, e4)
           else send_chunks ser host p block_idx block_start total_len rest r2
             (if off + chunk_bytes p < total_len then op_sleep ser (chunk_gap p) e4 else e4))"

definition send_uart_payload_with_ack :: "'e serial_port \<Rightarrow> 'e uart_host \<Rightarrow> uart_params \<Rightarrow> nat \<Rightarrow> nat \<Rightarrow>
    bytes \<Rightarrow> 'e \<Rightarrow> chunk_result \<times> 'e" where
  "send_uart_payload_with_ack ser host p block_idx block_start payload e =
     send_chunks ser host p block_idx block_start (length payload) (slices (chunk_bytes p) 0 payload) no_chunks e"

section \<open>Blocks with checksums\<close>

record block_counts =
  payload_chunks_sent :: nat
  payload_ack_timeout :: bool
  payload_chunk_ack_miss_count :: nat
  payload_checksum_ack_miss_count :: nat
  payload_block_ack_count :: nat
  payload_block_nack_count :: nat
  payload_block_retry_count :: nat
  payload_block_retry_limit_hit :: bool
  payload_failed_block :: int

definition block_counts_init :: block_counts where
  "block_counts_init = \<lparr>payload_chunks_sent = 0, payload_ack_timeout = False, payload_chunk_ack_miss_count = 0,
     payload_checksum_ack_miss_count = 0, payload_block_ack_count = 0, payload_block_nack_count = 0,
     payload_block_retry_count = 0, payload_block_retry_limit_hit = False, payload_failed_block = - 1\<rparr>"

definition fail_block :: "nat \<Rightarrow> block_counts \<Rightarrow> block_counts" where
  "fail_block block_idx r = r\<lparr>payload_ack_timeout := True, payload_failed_block := int block_idx\<rparr>"

text \<open>
  \<^verbatim>\<open>for checksum_try in range(checksum_attempts)\<close>: the reply known when the loop ends.  Where the code
  sets \<^verbatim>\<open>payload_ack_timeout\<close> and leaves, so does the result.
\<close>

fun checksum_tries :: "'e serial_port \<Rightarrow> 'e uart_host \<Rightarrow> uart_params \<Rightarrow> nat \<Rightarrow> nat \<Rightarrow> nat \<Rightarrow> nat \<Rightarrow>
    block_counts \<Rightarrow> 'e \<Rightarrow> block_reply \<times> block_counts \<times> 'e" where
  "checksum_tries ser host p block_idx checksum 0 checksum_try r e = (Reply_timeout, r, e)"
| "checksum_tries ser host p block_idx checksum (Suc n) checksum_try r e =
     (let label = '' block='' @ dec_str block_idx;
          e1 = (if checksum_try \<noteq> 0 then op_sleep ser (checksum_retry_gap p) e else e);
          e2 = run_trace host (''SEND_BLOCK_CHECKSUM'' @ label @ '' try='' @ dec_str checksum_try @ '' value=''
             @ fmt_0x 8 checksum) e1;
          e3 = write_uart_u32_le_slow ser checksum (checksum_byte_delay p) e2
      in case wait_ack host e3 of
        (True, e4) \<Rightarrow>
          (Reply_timeout, r,
            run_trace host (''ACK_BLOCK_CHECKSUM'' @ label @ '' try='' @ dec_str checksum_try @ '' seen=1'') e4)
      | (False, e4) \<Rightarrow>
          (let r1 = r\<lparr>payload_checksum_ack_miss_count := Suc (payload_checksum_ack_miss_count r)\<rparr>;
               e5 = run_trace host (''ACK_BLOCK_CHECKSUM'' @ label @ '' try='' @ dec_str checksum_try @ '' seen=0'') e4
           in if allow_ack_miss p then
                (case wait_reply host e5 of (reply, e6) \<Rightarrow>
                   let e7 = run_trace host (''BLOCK_REPLY_AFTER_CSUM_MISS'' @ label @ '' reply='' @ reply_text reply) e6
                   in if reply \<noteq> Reply_timeout then (reply, r1, e7)
                      else checksum_tries ser host p block_idx checksum n (Suc checksum_try) r1 e7)
              else (Reply_timeout, fail_block block_idx r1, e5)))"

text \<open>How one iteration of \<^verbatim>\<open>for attempt in range(retry_limit)\<close> leaves its body.\<close>

datatype attempt_end = Block_done | Block_again | Block_failed

definition block_attempt :: "'e serial_port \<Rightarrow> 'e uart_host \<Rightarrow> uart_params \<Rightarrow> nat \<Rightarrow> nat \<Rightarrow> bytes \<Rightarrow> nat \<Rightarrow>
    block_counts \<Rightarrow> 'e \<Rightarrow> attempt_end \<times> block_counts \<times> 'e" where
  "block_attempt ser host p block_idx block_start block attempt r e =
     (let e1 = run_trace host (''BLOCK_BEGIN block='' @ dec_str block_idx @ '' attempt='' @ dec_str attempt) e in
      case send_uart_payload_with_ack ser host p block_idx block_start block e1 of (send_result, e2) \<Rightarrow>
      let r1 = r\<lparr>payload_chunks_sent := payload_chunks_sent r + chunks_sent send_result,
                 payload_chunk_ack_miss_count := payload_chunk_ack_miss_count r + chunk_ack_miss send_result\<rparr>
      in if ack_timeout send_result then (Block_failed, fail_block block_idx r1, e2)
         else case checksum_tries ser host p block_idx (checksum32 block) (nat (max 1 (checksum_retry_limit p))) 0 r1
             (op_sleep ser (pre_block_checksum_gap p) e2) of (reply0, r2, e3) \<Rightarrow>
           if payload_ack_timeout r2 then (Block_failed, r2, e3)
           else case (if reply0 = Reply_timeout then wait_reply host e3 else (reply0, e3)) of (reply, e4) \<Rightarrow>
             let e5 = run_trace host (''BLOCK_REPLY block='' @ dec_str block_idx @ '' reply='' @ reply_text reply) e4
             in case reply of
               Reply_ack \<Rightarrow>
                 (Block_done, r2\<lparr>payload_block_ack_count := Suc (payload_block_ack_count r2)\<rparr>,
                   op_sleep ser (block_gap p) e5)
             | Reply_nack \<Rightarrow>
                 (Block_again, r2\<lparr>payload_block_nack_count := Suc (payload_block_nack_count r2),
                    payload_block_retry_count := Suc (payload_block_retry_count r2)\<rparr>,
                   op_sleep ser (block_retry_gap p) (case after_nack host of None \<Rightarrow> e5 | Some f \<Rightarrow> f e5))
             | Reply_timeout \<Rightarrow> (Block_failed, fail_block block_idx r2, e5))"

fun block_attempts :: "'e serial_port \<Rightarrow> 'e uart_host \<Rightarrow> uart_params \<Rightarrow> nat \<Rightarrow> nat \<Rightarrow> bytes \<Rightarrow> nat \<Rightarrow> nat \<Rightarrow>
    block_counts \<Rightarrow> 'e \<Rightarrow> bool \<times> block_counts \<times> 'e" where
  "block_attempts ser host p block_idx block_start block 0 attempt r e = (False, r, e)"
| "block_attempts ser host p block_idx block_start block (Suc n) attempt r e =
     (case block_attempt ser host p block_idx block_start block attempt r e of
        (Block_done, r1, e1) \<Rightarrow> (True, r1, e1)
      | (Block_again, r1, e1) \<Rightarrow> block_attempts ser host p block_idx block_start block n (Suc attempt) r1 e1
      | (Block_failed, r1, e1) \<Rightarrow> (False, r1, e1))"

fun send_blocks :: "'e serial_port \<Rightarrow> 'e uart_host \<Rightarrow> uart_params \<Rightarrow> nat \<Rightarrow> (nat \<times> bytes) list \<Rightarrow>
    block_counts \<Rightarrow> 'e \<Rightarrow> block_counts \<times> 'e" where
  "send_blocks ser host p block_idx [] r e = (r, e)"
| "send_blocks ser host p block_idx ((block_start, block) # rest) r e =
     (case block_attempts ser host p block_idx block_start block (nat (retry_limit p)) 0 r e of
        (block_done, r1, e1) \<Rightarrow>
          if payload_ack_timeout r1 then (r1, e1)
          else if \<not> block_done then
            (r1\<lparr>payload_block_retry_limit_hit := True, payload_failed_block := int block_idx\<rparr>, e1)
          else send_blocks ser host p (Suc block_idx) rest r1 e1)"

definition send_uart_payload_with_block_checksums ::
  "'e serial_port \<Rightarrow> 'e uart_host \<Rightarrow> uart_params \<Rightarrow> bytes \<Rightarrow> 'e \<Rightarrow> block_counts \<times> 'e" where
  "send_uart_payload_with_block_checksums ser host p payload e =
     send_blocks ser host p 0 (slices (block_bytes p) 0 payload) block_counts_init e"

section \<open>Slices\<close>

lemma slices_Nil [simp]: "slices step off [] = []"
  by (simp add: slices.simps)

lemma slices_Cons: "0 < step \<Longrightarrow> xs \<noteq> [] \<Longrightarrow>
    slices step off xs = (off, take step xs) # slices step (off + step) (drop step xs)"
  by (simp add: slices.simps [of step off xs])

lemma concat_slices: "0 < step \<Longrightarrow> concat (map snd (slices step off xs)) = xs"
proof (induction step off xs rule: slices.induct)
  case (1 step off xs)
  then show ?case
    by (cases "xs = []") (simp_all add: slices_Cons)
qed

lemma slices_blocks: "0 < step \<Longrightarrow> (o', b) \<in> set (slices step off xs) \<Longrightarrow> b \<noteq> [] \<and> length b \<le> step"
proof (induction step off xs rule: slices.induct)
  case (1 step off xs)
  then show ?case
    by (cases "xs = []") (auto simp: slices_Cons)
qed

lemma length_slices: "0 < step \<Longrightarrow> length (slices step off xs) = (length xs + step - 1) div step"
proof (induction step off xs rule: slices.induct)
  case (1 step off xs)
  show ?case
  proof (cases "xs = []")
    case True
    with 1 show ?thesis by simp
  next
    case False
    with 1 have IH: "length (slices step (off + step) (drop step xs)) = (length xs - step + step - 1) div step"
      by simp
    show ?thesis
    proof (cases "step \<le> length xs")
      case True
      then have "(length xs + step - 1) div step = Suc ((length xs - 1) div step)"
        using 1(2) by (subst le_div_geq) auto
      with True False IH 1(2) show ?thesis
        by (simp add: slices_Cons)
    next
      case less: False
      then have "(length xs + step - 1) div step = 1"
        using False 1(2) by (subst le_div_geq) (cases xs; auto)+
      with less False IH 1(2) show ?thesis
        by (simp add: slices_Cons)
    qed
  qed
qed

section \<open>The counters\<close>

lemma send_chunks_counts:
  assumes "send_chunks ser host p i b n cs r e = (r', e')"
  shows "chunks_sent r \<le> chunks_sent r' \<and> chunks_sent r' \<le> chunks_sent r + length cs
    \<and> chunk_ack_miss r \<le> chunk_ack_miss r'
    \<and> chunk_ack_miss r' + chunks_sent r \<le> chunk_ack_miss r + chunks_sent r'
    \<and> (ack_timeout r' = ack_timeout r \<longrightarrow> \<not> ack_timeout r \<longrightarrow> chunks_sent r' = chunks_sent r + length cs)
    \<and> (allow_ack_miss p \<longrightarrow> ack_timeout r' = ack_timeout r)"
  using assms
proof (induction cs arbitrary: r e)
  case (Cons c cs)
  obtain off chunk where c: "c = (off, chunk)" by (cases c)
  let ?e = "write_uart_bytes_slow ser chunk (byte_delay p)
    (run_trace host (send_chunk_line i (b + off) chunk) e)"
  obtain ack e3 where w: "wait_ack host ?e = (ack, e3)" by (cases "wait_ack host ?e")
  show ?case
  proof (cases "\<not> ack \<and> \<not> allow_ack_miss p")
    case True
    with Cons.prems w show ?thesis
      by (auto simp: c Let_def)
  next
    case False
    from Cons.IH [OF Cons.prems [simplified c send_chunks.simps Let_def w split_conv False if_False simp_thms]]
    show ?thesis
      by (cases ack) simp_all
  qed
qed simp

lemma checksum_tries_counts:
  assumes "checksum_tries ser host p i ck n t r e = (reply, r', e')" and "\<not> payload_ack_timeout r"
  shows "payload_checksum_ack_miss_count r \<le> payload_checksum_ack_miss_count r'
    \<and> payload_checksum_ack_miss_count r' \<le> payload_checksum_ack_miss_count r + n
    \<and> r' = (if payload_ack_timeout r' then fail_block i else id)
        (r\<lparr>payload_checksum_ack_miss_count := payload_checksum_ack_miss_count r'\<rparr>)"
  using assms
proof (induction n arbitrary: t r e)
  case (Suc n)
  let ?e = "write_uart_u32_le_slow ser ck (checksum_byte_delay p) (run_trace host
      (''SEND_BLOCK_CHECKSUM'' @ ('' block='' @ dec_str i) @ '' try='' @ dec_str t @ '' value='' @ fmt_0x 8 ck)
      (if t \<noteq> 0 then op_sleep ser (checksum_retry_gap p) e else e))"
  let ?e5 = "\<lambda>e4. run_trace host (''ACK_BLOCK_CHECKSUM'' @ ('' block='' @ dec_str i) @ '' try='' @ dec_str t @ '' seen=0'') e4"
  obtain ack e4 where w: "wait_ack host ?e = (ack, e4)" by (cases "wait_ack host ?e")
  obtain rep e6 where w2: "wait_reply host (?e5 e4) = (rep, e6)" by (cases "wait_reply host (?e5 e4)")
  show ?case
  proof (cases "\<not> ack \<and> allow_ack_miss p \<and> rep = Reply_timeout")
    case True
    with Suc.prems w w2
    have "checksum_tries ser host p i ck n (Suc t)
        (r\<lparr>payload_checksum_ack_miss_count := Suc (payload_checksum_ack_miss_count r)\<rparr>)
        (run_trace host (''BLOCK_REPLY_AFTER_CSUM_MISS'' @ ('' block='' @ dec_str i) @ '' reply='' @ reply_text rep) e6)
        = (reply, r', e')"
      by (simp add: Let_def)
    from Suc.IH [OF this] Suc.prems(2) show ?thesis
      by (auto simp: fail_block_def split: if_splits)
  next
    case False
    with Suc.prems w w2 show ?thesis
      by (cases ack) (auto simp: Let_def fail_block_def split: if_splits)
  qed
qed simp

text \<open>What one attempt does to the counters, by how it ends.\<close>

definition attempt_effect :: "nat \<Rightarrow> attempt_end \<Rightarrow> block_counts \<Rightarrow> block_counts \<Rightarrow> bool" where
  "attempt_effect i oc r r' \<longleftrightarrow>
     payload_block_retry_limit_hit r' = payload_block_retry_limit_hit r
     \<and> payload_block_ack_count r' = payload_block_ack_count r + (if oc = Block_done then 1 else 0)
     \<and> payload_block_nack_count r' = payload_block_nack_count r + (if oc = Block_again then 1 else 0)
     \<and> payload_block_retry_count r' = payload_block_retry_count r + (if oc = Block_again then 1 else 0)
     \<and> (payload_ack_timeout r' \<longleftrightarrow> oc = Block_failed)
     \<and> payload_failed_block r' = (if oc = Block_failed then int i else payload_failed_block r)"

lemma block_attempt_effect:
  assumes "block_attempt ser host p i b block a r e = (oc, r', e')" and "\<not> payload_ack_timeout r"
  shows "attempt_effect i oc r r'
    \<and> payload_chunks_sent r' \<le> payload_chunks_sent r + length (slices (chunk_bytes p) 0 block)"
proof -
  let ?e1 = "run_trace host (''BLOCK_BEGIN block='' @ dec_str i @ '' attempt='' @ dec_str a) e"
  obtain cr e2 where cr: "send_uart_payload_with_ack ser host p i b block ?e1 = (cr, e2)"
    by (cases "send_uart_payload_with_ack ser host p i b block ?e1")
  let ?r1 = "r\<lparr>payload_chunks_sent := payload_chunks_sent r + chunks_sent cr,
      payload_chunk_ack_miss_count := payload_chunk_ack_miss_count r + chunk_ack_miss cr\<rparr>"
  obtain reply0 r2 e3 where ct: "checksum_tries ser host p i (checksum32 block) (nat (max 1 (checksum_retry_limit p))) 0
      ?r1 (op_sleep ser (pre_block_checksum_gap p) e2) = (reply0, r2, e3)"
    by (metis prod_cases3)
  obtain reply e4 where rp: "(if reply0 = Reply_timeout then wait_reply host e3 else (reply0, e3)) = (reply, e4)"
    by fastforce
  have chunks: "chunks_sent cr \<le> length (slices (chunk_bytes p) 0 block)"
    using send_chunks_counts [OF cr [unfolded send_uart_payload_with_ack_def]] by (simp add: no_chunks_def)
  have r2: "r2 = (if payload_ack_timeout r2 then fail_block i else id)
      (?r1\<lparr>payload_checksum_ack_miss_count := payload_checksum_ack_miss_count r2\<rparr>)"
    using checksum_tries_counts [OF ct] assms(2) by simp
  have fields: "payload_block_retry_limit_hit r2 = payload_block_retry_limit_hit r"
    "payload_block_ack_count r2 = payload_block_ack_count r"
    "payload_block_nack_count r2 = payload_block_nack_count r"
    "payload_block_retry_count r2 = payload_block_retry_count r"
    "payload_failed_block r2 = (if payload_ack_timeout r2 then int i else payload_failed_block r)"
    "payload_chunks_sent r2 = payload_chunks_sent r + chunks_sent cr"
    by (subst r2, simp add: fail_block_def)+
  consider "ack_timeout cr" | "\<not> ack_timeout cr" "payload_ack_timeout r2"
    | "\<not> ack_timeout cr" "\<not> payload_ack_timeout r2"
    by blast
  then show ?thesis
  proof cases
    case 1
    with assms(1) cr chunks show ?thesis
      by (auto simp: block_attempt_def Let_def attempt_effect_def fail_block_def)
  next
    case 2
    with assms(1) cr ct have "oc = Block_failed" "r' = r2"
      by (simp_all add: block_attempt_def Let_def)
    with 2 chunks fields show ?thesis
      by (simp add: attempt_effect_def)
  next
    case 3
    with assms(1) cr ct rp chunks fields show ?thesis
      by (auto simp: block_attempt_def Let_def attempt_effect_def fail_block_def split: block_reply.splits)
  qed
qed

text \<open>What the attempts for one block do: delivered, failed with a timeout, or out of attempts.\<close>

lemma block_attempts_effect:
  assumes "block_attempts ser host p i b block n a r e = (fin, r', e')" and "\<not> payload_ack_timeout r"
  shows "payload_block_retry_limit_hit r' = payload_block_retry_limit_hit r
    \<and> payload_block_ack_count r' = payload_block_ack_count r + (if fin then 1 else 0)
    \<and> payload_block_nack_count r \<le> payload_block_nack_count r'
    \<and> payload_block_nack_count r' \<le> payload_block_nack_count r + n
    \<and> (\<not> fin \<longrightarrow> \<not> payload_ack_timeout r' \<longrightarrow> payload_block_nack_count r' = payload_block_nack_count r + n)
    \<and> payload_block_retry_count r' + payload_block_nack_count r = payload_block_retry_count r + payload_block_nack_count r'
    \<and> payload_failed_block r' = (if payload_ack_timeout r' then int i else payload_failed_block r)
    \<and> (fin \<longrightarrow> \<not> payload_ack_timeout r')
    \<and> payload_chunks_sent r' \<le> payload_chunks_sent r + n * length (slices (chunk_bytes p) 0 block)"
  using assms
proof (induction n arbitrary: a r e)
  case (Suc n)
  obtain oc r1 e1 where at: "block_attempt ser host p i b block a r e = (oc, r1, e1)"
    by (metis prod_cases3)
  note eff = block_attempt_effect [OF at Suc.prems(2)]
  show ?case
  proof (cases oc)
    case Block_again
    with eff have "\<not> payload_ack_timeout r1"
      by (simp add: attempt_effect_def)
    moreover from Block_again at Suc.prems(1)
    have "block_attempts ser host p i b block n (Suc a) r1 e1 = (fin, r', e')"
      by simp
    ultimately show ?thesis
      using Suc.IH eff Block_again by (fastforce simp: attempt_effect_def)
  next
    case Block_done
    with at eff Suc.prems(1) show ?thesis
      by (auto simp: attempt_effect_def)
  next
    case Block_failed
    with at eff Suc.prems(1) show ?thesis
      by (auto simp: attempt_effect_def)
  qed
qed simp

definition block_count :: "uart_params \<Rightarrow> bytes \<Rightarrow> nat" where
  "block_count p payload = length (slices (block_bytes p) 0 payload)"

definition chunk_total :: "uart_params \<Rightarrow> (nat \<times> bytes) list \<Rightarrow> nat" where
  "chunk_total p blocks = sum_list (map (\<lambda>b. length (slices (chunk_bytes p) 0 (snd b))) blocks)"

text \<open>
  The three ways a transfer can end, for blocks numbered from \<^term>\<open>i\<close> and counters \<^term>\<open>r\<close> before them:
  everything acknowledged, a timeout, or a block out of attempts.
\<close>

definition transfer_end :: "nat \<Rightarrow> nat \<Rightarrow> block_counts \<Rightarrow> block_counts \<Rightarrow> bool" where
  "transfer_end i n r r' \<longleftrightarrow>
     (\<not> payload_ack_timeout r' \<and> \<not> payload_block_retry_limit_hit r'
       \<and> payload_failed_block r' = payload_failed_block r
       \<and> payload_block_ack_count r' = payload_block_ack_count r + n)
     \<or> (payload_ack_timeout r' \<noteq> payload_block_retry_limit_hit r'
       \<and> (\<exists>k < n. payload_failed_block r' = int (i + k)
            \<and> payload_block_ack_count r' = payload_block_ack_count r + k))"

lemma send_blocks_effect:
  assumes "send_blocks ser host p i blocks r e = (r', e')"
    and "\<not> payload_ack_timeout r" and "\<not> payload_block_retry_limit_hit r"
  shows "transfer_end i (length blocks) r r'
    \<and> payload_block_retry_count r' + payload_block_nack_count r = payload_block_retry_count r + payload_block_nack_count r'
    \<and> payload_block_nack_count r' \<le> payload_block_nack_count r + length blocks * nat (retry_limit p)
    \<and> (payload_block_retry_limit_hit r' \<longrightarrow> payload_block_nack_count r + nat (retry_limit p) \<le> payload_block_nack_count r')
    \<and> payload_chunks_sent r' \<le> payload_chunks_sent r + nat (retry_limit p) * chunk_total p blocks"
  using assms
proof (induction blocks arbitrary: i r e)
  case Nil
  then show ?case
    by (simp add: transfer_end_def chunk_total_def)
next
  case (Cons b blocks)
  obtain start block where b: "b = (start, block)" by (cases b)
  obtain fin r1 e1 where at: "block_attempts ser host p i start block (nat (retry_limit p)) 0 r e = (fin, r1, e1)"
    by (metis prod_cases3)
  note eff = block_attempts_effect [OF at Cons.prems(2)]
  have total: "nat (retry_limit p) * chunk_total p (b # blocks)
      = nat (retry_limit p) * length (slices (chunk_bytes p) 0 block) + nat (retry_limit p) * chunk_total p blocks"
    by (simp add: b chunk_total_def distrib_left)
  consider "payload_ack_timeout r1" | "\<not> payload_ack_timeout r1" "\<not> fin" | "\<not> payload_ack_timeout r1" "fin"
    by blast
  then show ?case
  proof cases
    case 1
    with at Cons.prems(1) have "r' = r1"
      by (simp add: b)
    moreover have "payload_failed_block r1 = int (i + 0)"
      using 1 eff by simp
    ultimately show ?thesis
      using 1 eff Cons.prems(3) total unfolding transfer_end_def by auto
  next
    case 2
    with at Cons.prems(1)
    have r': "r' = r1\<lparr>payload_block_retry_limit_hit := True, payload_failed_block := int i\<rparr>"
      by (simp add: b)
    have "payload_failed_block r' = int (i + 0)"
      by (simp add: r')
    with 2 eff total r' show ?thesis
      unfolding transfer_end_def by auto
  next
    case 3
    with at Cons.prems(1) have rec: "send_blocks ser host p (Suc i) blocks r1 e1 = (r', e')"
      by (simp add: b)
    have IH: "transfer_end (Suc i) (length blocks) r1 r'"
      "payload_block_retry_count r' + payload_block_nack_count r1 = payload_block_retry_count r1 + payload_block_nack_count r'"
      "payload_block_nack_count r' \<le> payload_block_nack_count r1 + length blocks * nat (retry_limit p)"
      "payload_block_retry_limit_hit r' \<longrightarrow> payload_block_nack_count r1 + nat (retry_limit p) \<le> payload_block_nack_count r'"
      "payload_chunks_sent r' \<le> payload_chunks_sent r1 + nat (retry_limit p) * chunk_total p blocks"
      using Cons.IH [OF rec 3(1)] eff Cons.prems(3) by simp_all
    have "transfer_end i (length (b # blocks)) r r'"
    proof -
      have r1: "payload_block_ack_count r1 = Suc (payload_block_ack_count r)"
        "payload_failed_block r1 = payload_failed_block r"
        using eff 3 by simp_all
      have shift: "\<exists>k < Suc (length blocks). payload_failed_block r' = int (i + k)
          \<and> payload_block_ack_count r' = payload_block_ack_count r + k"
        if "k < length blocks" "payload_failed_block r' = int (Suc i + k)"
          "payload_block_ack_count r' = payload_block_ack_count r1 + k" for k
        using that r1 by (intro exI [of _ "Suc k"]) simp
      show ?thesis
        using IH(1) shift r1 unfolding transfer_end_def by fastforce
    qed
    with IH(2-5) eff total show ?thesis
      by auto
  qed
qed

text \<open>
  C6. How a transfer ends.  Either every block was acknowledged, or exactly one of the two failure
  flags is set, the failed block's index is one of the payload's and is the number of blocks that were
  acknowledged before it.  Every NACK is counted as a retry, no block is tried more often than the limit
  allows, the limit flag is set only after that many NACKs, and the chunks written are bounded by the
  limit.
\<close>

theorem transfer_outcome:
  fixes ser :: "'e serial_port" and host :: "'e uart_host" and p :: uart_params and payload :: bytes and e :: 'e
  defines "r \<equiv> fst (send_uart_payload_with_block_checksums ser host p payload e)"
    and "n \<equiv> block_count p payload"
  shows "((\<not> payload_ack_timeout r \<and> \<not> payload_block_retry_limit_hit r \<and> payload_failed_block r = - 1
        \<and> payload_block_ack_count r = n)
      \<or> (payload_ack_timeout r \<noteq> payload_block_retry_limit_hit r
        \<and> 0 \<le> payload_failed_block r \<and> payload_failed_block r < int n
        \<and> int (payload_block_ack_count r) = payload_failed_block r))
    \<and> payload_block_retry_count r = payload_block_nack_count r
    \<and> payload_block_nack_count r \<le> n * nat (retry_limit p)
    \<and> (if payload_block_retry_limit_hit r then nat (retry_limit p) else 0) \<le> payload_block_nack_count r
    \<and> payload_chunks_sent r \<le> nat (retry_limit p) * chunk_total p (slices (block_bytes p) 0 payload)"
proof -
  obtain r' e' where se: "send_blocks ser host p 0 (slices (block_bytes p) 0 payload) block_counts_init e = (r', e')"
    by (metis surj_pair)
  have r: "r = r'"
    by (simp add: r_def send_uart_payload_with_block_checksums_def se)
  have init: "\<not> payload_ack_timeout block_counts_init" "\<not> payload_block_retry_limit_hit block_counts_init"
    by (simp_all add: block_counts_init_def)
  show ?thesis
    using send_blocks_effect [OF se init]
    unfolding r transfer_end_def n_def block_count_def
    by (auto simp: block_counts_init_def)
qed

section \<open>What a transfer keeps\<close>

text \<open>
  The interface for an invariant of the surroundings: every operation of the port and every callback
  keeps it, so a whole transfer does.
\<close>

locale uart_keeps =
  fixes ser :: "'e serial_port" and host :: "'e uart_host" and keeps :: "'e \<Rightarrow> bool"
  assumes keeps_write: "keeps e \<Longrightarrow> keeps (op_write ser bs e)"
    and keeps_flush: "keeps e \<Longrightarrow> keeps (op_flush ser e)"
    and keeps_sleep: "keeps e \<Longrightarrow> keeps (op_sleep ser d e)"
    and keeps_ack: "keeps e \<Longrightarrow> wait_ack host e = (b, e') \<Longrightarrow> keeps e'"
    and keeps_reply: "keeps e \<Longrightarrow> wait_reply host e = (rep, e') \<Longrightarrow> keeps e'"
    and keeps_nack: "keeps e \<Longrightarrow> after_nack host = Some f \<Longrightarrow> keeps (f e)"
    and keeps_trace: "keeps e \<Longrightarrow> trace_event host = Some g \<Longrightarrow> keeps (g msg e)"
begin

lemma keeps_run_trace: "keeps e \<Longrightarrow> keeps (run_trace host msg e)"
  by (simp add: run_trace_def keeps_trace split: option.split)

lemma keeps_bytes: "keeps e \<Longrightarrow> keeps (write_uart_bytes_slow ser bs d e)"
proof -
  assume "keeps e"
  then have "keeps (fold (\<lambda>b e. op_sleep ser d (op_flush ser (op_write ser [b] e))) bs e)"
    by (induction bs arbitrary: e) (simp_all add: keeps_write keeps_flush keeps_sleep)
  with \<open>keeps e\<close> show ?thesis
    by (simp add: write_uart_bytes_slow_def keeps_write keeps_flush)
qed

lemma keeps_chunks: "send_chunks ser host p i b n cs r e = (r', e') \<Longrightarrow> keeps e \<Longrightarrow> keeps e'"
proof (induction cs arbitrary: r e)
  case (Cons c cs)
  obtain off chunk where c: "c = (off, chunk)" by (cases c)
  let ?e = "write_uart_bytes_slow ser chunk (byte_delay p)
    (run_trace host (send_chunk_line i (b + off) chunk) e)"
  obtain ack e3 where w: "wait_ack host ?e = (ack, e3)" by (cases "wait_ack host ?e")
  have e3: "keeps (run_trace host msg e3)" for msg
    using keeps_ack [OF _ w] Cons.prems(2) by (simp add: keeps_bytes keeps_run_trace)
  show ?case
  proof (cases "\<not> ack \<and> \<not> allow_ack_miss p")
    case True
    with Cons.prems(1) w e3 show ?thesis
      by (auto simp: c Let_def)
  next
    case False
    from Cons.IH [OF Cons.prems(1) [simplified c send_chunks.simps Let_def w split_conv False if_False simp_thms]]
    show ?thesis
      using e3 by (simp add: keeps_sleep)
  qed
qed simp

lemma keeps_tries: "checksum_tries ser host p i ck n t r e = (reply, r', e') \<Longrightarrow> keeps e \<Longrightarrow> keeps e'"
proof (induction n arbitrary: t r e)
  case (Suc n)
  let ?e = "write_uart_u32_le_slow ser ck (checksum_byte_delay p) (run_trace host
      (''SEND_BLOCK_CHECKSUM'' @ ('' block='' @ dec_str i) @ '' try='' @ dec_str t @ '' value='' @ fmt_0x 8 ck)
      (if t \<noteq> 0 then op_sleep ser (checksum_retry_gap p) e else e))"
  let ?e5 = "\<lambda>e4. run_trace host (''ACK_BLOCK_CHECKSUM'' @ ('' block='' @ dec_str i) @ '' try='' @ dec_str t @ '' seen=0'') e4"
  obtain ack e4 where w: "wait_ack host ?e = (ack, e4)" by (cases "wait_ack host ?e")
  obtain rep e6 where w2: "wait_reply host (?e5 e4) = (rep, e6)" by (cases "wait_reply host (?e5 e4)")
  have e4: "keeps (run_trace host msg e4)" for msg
    using keeps_ack [OF _ w] Suc.prems(2)
    by (simp add: write_uart_u32_le_slow_def keeps_bytes keeps_run_trace keeps_sleep)
  have e6: "keeps (run_trace host msg e6)" for msg
    using keeps_reply [OF _ w2] e4 keeps_run_trace by blast
  show ?case
  proof (cases "\<not> ack \<and> allow_ack_miss p \<and> rep = Reply_timeout")
    case True
    with Suc.prems(1) w w2
    have "checksum_tries ser host p i ck n (Suc t)
        (r\<lparr>payload_checksum_ack_miss_count := Suc (payload_checksum_ack_miss_count r)\<rparr>)
        (run_trace host (''BLOCK_REPLY_AFTER_CSUM_MISS'' @ ('' block='' @ dec_str i) @ '' reply='' @ reply_text rep) e6)
        = (reply, r', e')"
      by (simp add: Let_def)
    from Suc.IH [OF this e6] show ?thesis .
  next
    case False
    with Suc.prems(1) w w2 e4 e6 show ?thesis
      by (cases ack) (auto simp: Let_def split: if_splits)
  qed
qed simp

lemma keeps_attempt:
  assumes "block_attempt ser host p i b block a r e = (oc, r', e')" and "keeps e"
  shows "keeps e'"
proof -
  let ?e1 = "run_trace host (''BLOCK_BEGIN block='' @ dec_str i @ '' attempt='' @ dec_str a) e"
  obtain cr e2 where cr: "send_uart_payload_with_ack ser host p i b block ?e1 = (cr, e2)"
    by (cases "send_uart_payload_with_ack ser host p i b block ?e1")
  let ?r1 = "r\<lparr>payload_chunks_sent := payload_chunks_sent r + chunks_sent cr,
      payload_chunk_ack_miss_count := payload_chunk_ack_miss_count r + chunk_ack_miss cr\<rparr>"
  obtain reply0 r2 e3 where ct: "checksum_tries ser host p i (checksum32 block) (nat (max 1 (checksum_retry_limit p))) 0
      ?r1 (op_sleep ser (pre_block_checksum_gap p) e2) = (reply0, r2, e3)"
    by (metis prod_cases3)
  obtain reply e4 where rp: "(if reply0 = Reply_timeout then wait_reply host e3 else (reply0, e3)) = (reply, e4)"
    by fastforce
  have e2: "keeps e2"
    using keeps_chunks [OF cr [unfolded send_uart_payload_with_ack_def]] assms(2) keeps_run_trace by blast
  have e3: "keeps e3"
    using keeps_tries [OF ct] e2 keeps_sleep by blast
  have e4: "keeps (run_trace host msg e4)" for msg
    using rp e3 keeps_reply keeps_run_trace by (metis prod.inject)
  consider "ack_timeout cr" | "\<not> ack_timeout cr" "payload_ack_timeout r2"
    | "\<not> ack_timeout cr" "\<not> payload_ack_timeout r2"
    by blast
  then show ?thesis
  proof cases
    case 3
    with assms(1) cr ct rp e4 show ?thesis
      by (auto simp: block_attempt_def Let_def keeps_sleep keeps_nack split: block_reply.splits option.splits)
  qed (use assms(1) cr ct e2 e3 in \<open>auto simp: block_attempt_def Let_def\<close>)
qed

lemma keeps_attempts: "block_attempts ser host p i b block n a r e = (fin, r', e') \<Longrightarrow> keeps e \<Longrightarrow> keeps e'"
proof (induction n arbitrary: a r e)
  case (Suc n)
  obtain oc r1 e1 where at: "block_attempt ser host p i b block a r e = (oc, r1, e1)"
    by (metis prod_cases3)
  from keeps_attempt [OF at Suc.prems(2)] Suc.IH [of "Suc a" r1 e1] at Suc.prems(1) show ?case
    by (cases oc) auto
qed simp

lemma keeps_blocks: "send_blocks ser host p i blocks r e = (r', e') \<Longrightarrow> keeps e \<Longrightarrow> keeps e'"
proof (induction blocks arbitrary: i r e)
  case (Cons b blocks)
  obtain start block where b: "b = (start, block)" by (cases b)
  obtain fin r1 e1 where at: "block_attempts ser host p i start block (nat (retry_limit p)) 0 r e = (fin, r1, e1)"
    by (metis prod_cases3)
  from keeps_attempts [OF at Cons.prems(2)] Cons.IH [of "Suc i" r1 e1] at Cons.prems(1) show ?case
    by (auto simp: b split: if_splits)
qed simp

lemma keeps_transfer:
  "send_uart_payload_with_block_checksums ser host p payload e = (r, e') \<Longrightarrow> keeps e \<Longrightarrow> keeps e'"
  by (simp add: send_uart_payload_with_block_checksums_def keeps_blocks)

lemma keeps_payload:
  "send_uart_payload_with_ack ser host p i b payload e = (r, e') \<Longrightarrow> keeps e \<Longrightarrow> keeps e'"
  by (simp add: send_uart_payload_with_ack_def keeps_chunks)

end

section \<open>The bytes on the wire\<close>

text \<open>One attempt for a block: the block and its checksum, the checksum once or more.\<close>

definition wire_attempt :: "bytes \<Rightarrow> nat \<Rightarrow> bytes" where
  "wire_attempt block k = block @ concat (replicate k (pack_u32_le (checksum32 block)))"

text \<open>What is on the wire for a list of blocks, each attempted at least once.\<close>

definition wire_blocks :: "uart_params \<Rightarrow> bytes list \<Rightarrow> bytes \<Rightarrow> bool" where
  "wire_blocks p blocks ws \<longleftrightarrow> (\<exists>kss. list_all2 (\<lambda>block ks. ks \<noteq> [] \<and> length ks \<le> nat (retry_limit p)
       \<and> (\<forall>k \<in> set ks. 1 \<le> k \<and> k \<le> nat (max 1 (checksum_retry_limit p)))) blocks kss
     \<and> ws = concat (map2 (\<lambda>block ks. concat (map (wire_attempt block) ks)) blocks kss))"

text \<open>
  The interface: a port and callbacks where \<^term>\<open>sent\<close> records what was written, and nothing but
  \<^verbatim>\<open>ser.write\<close> writes.
\<close>

locale uart_wire =
  fixes ser :: "'e serial_port" and host :: "'e uart_host" and sent :: "'e \<Rightarrow> bytes"
  assumes sent_write [simp]: "sent (op_write ser bs e) = sent e @ bs"
    and sent_flush [simp]: "sent (op_flush ser e) = sent e"
    and sent_sleep [simp]: "sent (op_sleep ser d e) = sent e"
    and sent_ack: "wait_ack host e = (b, e') \<Longrightarrow> sent e' = sent e"
    and sent_reply: "wait_reply host e = (rep, e') \<Longrightarrow> sent e' = sent e"
    and sent_nack: "after_nack host = Some f \<Longrightarrow> sent (f e) = sent e"
    and sent_trace: "trace_event host = Some g \<Longrightarrow> sent (g msg e) = sent e"
begin

lemma sent_run_trace [simp]: "sent (run_trace host msg e) = sent e"
  by (simp add: run_trace_def sent_trace split: option.split)

lemma sent_bytes [simp]: "sent (write_uart_bytes_slow ser bs d e) = sent e @ bs"
proof -
  have "sent (fold (\<lambda>b e. op_sleep ser d (op_flush ser (op_write ser [b] e))) bs e) = sent e @ bs"
    by (induction bs arbitrary: e) simp_all
  then show ?thesis
    by (simp add: write_uart_bytes_slow_def)
qed

lemma sent_u32 [simp]: "sent (write_uart_u32_le_slow ser v d e) = sent e @ pack_u32_le v"
  by (simp add: write_uart_u32_le_slow_def)

lemma sent_chunks:
  "send_chunks ser host p i b n cs r e = (r', e') \<Longrightarrow>
     sent e' = sent e @ concat (map snd (take (chunks_sent r' - chunks_sent r) cs))"
proof (induction cs arbitrary: r e)
  case (Cons c cs)
  obtain off chunk where c: "c = (off, chunk)" by (cases c)
  let ?e = "write_uart_bytes_slow ser chunk (byte_delay p)
    (run_trace host (send_chunk_line i (b + off) chunk) e)"
  obtain ack e3 where w: "wait_ack host ?e = (ack, e3)" by (cases "wait_ack host ?e")
  have e3: "sent e3 = sent e @ chunk"
    using sent_ack [OF w] by simp
  show ?case
  proof (cases "\<not> ack \<and> \<not> allow_ack_miss p")
    case True
    with Cons.prems w e3 show ?thesis
      by (auto simp: c Let_def)
  next
    case False
    note rec = Cons.prems [simplified c send_chunks.simps Let_def w split_conv False if_False simp_thms]
    from send_chunks_counts [OF rec] have "chunks_sent r' - chunks_sent r = Suc (chunks_sent r' - Suc (chunks_sent r))"
      by (auto split: if_splits)
    moreover from Cons.IH [OF rec]
    have "sent e' = sent e3 @ concat (map snd (take (chunks_sent r' - Suc (chunks_sent r)) cs))"
      by (auto split: if_splits)
    ultimately show ?thesis
      by (simp add: c e3)
  qed
qed simp

lemma sent_payload:
  assumes "send_uart_payload_with_ack ser host p i b payload e = (r, e')" and "0 < chunk_bytes p"
    and "\<not> ack_timeout r"
  shows "sent e' = sent e @ payload"
proof -
  note sc = assms(1) [unfolded send_uart_payload_with_ack_def]
  have "chunks_sent r = length (slices (chunk_bytes p) 0 payload)"
    using send_chunks_counts [OF sc] assms(3) by (simp add: no_chunks_def)
  then show ?thesis
    using sent_chunks [OF sc] concat_slices [OF assms(2), of 0 payload] by (simp add: no_chunks_def)
qed

lemma sent_tries:
  "checksum_tries ser host p i ck n t r e = (reply, r', e') \<Longrightarrow>
     \<exists>k. k \<le> n \<and> (0 < n \<longrightarrow> 1 \<le> k) \<and> sent e' = sent e @ concat (replicate k (pack_u32_le ck))"
proof (induction n arbitrary: t r e)
  case (Suc n)
  let ?e = "write_uart_u32_le_slow ser ck (checksum_byte_delay p) (run_trace host
      (''SEND_BLOCK_CHECKSUM'' @ ('' block='' @ dec_str i) @ '' try='' @ dec_str t @ '' value='' @ fmt_0x 8 ck)
      (if t \<noteq> 0 then op_sleep ser (checksum_retry_gap p) e else e))"
  let ?e5 = "\<lambda>e4. run_trace host (''ACK_BLOCK_CHECKSUM'' @ ('' block='' @ dec_str i) @ '' try='' @ dec_str t @ '' seen=0'') e4"
  obtain ack e4 where w: "wait_ack host ?e = (ack, e4)" by (cases "wait_ack host ?e")
  obtain rep e6 where w2: "wait_reply host (?e5 e4) = (rep, e6)" by (cases "wait_reply host (?e5 e4)")
  have e4: "sent e4 = sent e @ pack_u32_le ck"
    using sent_ack [OF w] by simp
  have e6: "sent e6 = sent e @ pack_u32_le ck"
    using sent_reply [OF w2] e4 by simp
  show ?case
  proof (cases "\<not> ack \<and> allow_ack_miss p \<and> rep = Reply_timeout")
    case True
    with Suc.prems w w2
    have "checksum_tries ser host p i ck n (Suc t)
        (r\<lparr>payload_checksum_ack_miss_count := Suc (payload_checksum_ack_miss_count r)\<rparr>)
        (run_trace host (''BLOCK_REPLY_AFTER_CSUM_MISS'' @ ('' block='' @ dec_str i) @ '' reply='' @ reply_text rep) e6)
        = (reply, r', e')"
      by (simp add: Let_def)
    from Suc.IH [OF this] obtain k where "k \<le> n" "sent e' = sent e6 @ concat (replicate k (pack_u32_le ck))"
      by auto
    then show ?thesis
      by (intro exI [of _ "Suc k"]) (simp add: e6)
  next
    case False
    with Suc.prems w w2 e4 e6 have "sent e' = sent e @ concat (replicate 1 (pack_u32_le ck))"
      by (cases ack) (auto simp: Let_def split: if_splits)
    then show ?thesis
      by (intro exI [of _ 1]) simp
  qed
qed simp

lemma sent_attempt:
  assumes "block_attempt ser host p i b block a r e = (oc, r', e')" and "oc \<noteq> Block_failed"
    and "0 < chunk_bytes p"
  shows "\<exists>k. 1 \<le> k \<and> k \<le> nat (max 1 (checksum_retry_limit p)) \<and> sent e' = sent e @ wire_attempt block k"
proof -
  let ?n = "nat (max 1 (checksum_retry_limit p))"
  let ?e1 = "run_trace host (''BLOCK_BEGIN block='' @ dec_str i @ '' attempt='' @ dec_str a) e"
  obtain cr e2 where cr: "send_uart_payload_with_ack ser host p i b block ?e1 = (cr, e2)"
    by (cases "send_uart_payload_with_ack ser host p i b block ?e1")
  let ?r1 = "r\<lparr>payload_chunks_sent := payload_chunks_sent r + chunks_sent cr,
      payload_chunk_ack_miss_count := payload_chunk_ack_miss_count r + chunk_ack_miss cr\<rparr>"
  obtain reply0 r2 e3 where ct: "checksum_tries ser host p i (checksum32 block) ?n 0
      ?r1 (op_sleep ser (pre_block_checksum_gap p) e2) = (reply0, r2, e3)"
    by (metis prod_cases3)
  obtain reply e4 where rp: "(if reply0 = Reply_timeout then wait_reply host e3 else (reply0, e3)) = (reply, e4)"
    by fastforce
  have ok: "\<not> ack_timeout cr" "\<not> payload_ack_timeout r2"
    using assms(1,2) cr ct by (auto simp: block_attempt_def Let_def split: if_splits)
  have e2: "sent e2 = sent e @ block"
    using sent_payload [OF cr assms(3) ok(1)] by simp
  obtain k where k: "k \<le> ?n" "1 \<le> k" "sent e3 = sent e2 @ concat (replicate k (pack_u32_le (checksum32 block)))"
    using sent_tries [OF ct] by auto
  have "sent e4 = sent e3"
    using rp sent_reply by (auto split: if_splits)
  then have "sent e' = sent e3"
    using assms(1,2) cr ct rp ok sent_nack
    by (auto simp: block_attempt_def Let_def split: block_reply.splits option.splits)
  with k e2 show ?thesis
    by (intro exI [of _ k]) (simp add: wire_attempt_def)
qed

lemma sent_attempts:
  assumes "block_attempts ser host p i b block n a r e = (fin, r', e')" and "fin" and "0 < chunk_bytes p"
  shows "\<exists>ks. ks \<noteq> [] \<and> length ks \<le> n \<and> (\<forall>k \<in> set ks. 1 \<le> k \<and> k \<le> nat (max 1 (checksum_retry_limit p)))
    \<and> sent e' = sent e @ concat (map (wire_attempt block) ks)"
  using assms(1,2)
proof (induction n arbitrary: a r e)
  case (Suc n)
  obtain oc r1 e1 where at: "block_attempt ser host p i b block a r e = (oc, r1, e1)"
    by (metis prod_cases3)
  have oc: "oc \<noteq> Block_failed"
    using at Suc.prems by auto
  from sent_attempt [OF at oc assms(3)] obtain k where k: "1 \<le> k" "k \<le> nat (max 1 (checksum_retry_limit p))"
    "sent e1 = sent e @ wire_attempt block k" by blast
  show ?case
  proof (cases "oc = Block_done")
    case True
    with at Suc.prems have "e' = e1" by simp
    with k show ?thesis
      by (intro exI [of _ "[k]"]) simp
  next
    case False
    with oc at Suc.prems(1) have "block_attempts ser host p i b block n (Suc a) r1 e1 = (fin, r', e')"
      by (cases oc) simp_all
    from Suc.IH [OF this Suc.prems(2)] obtain ks where "ks \<noteq> []" "length ks \<le> n"
      "\<forall>k \<in> set ks. 1 \<le> k \<and> k \<le> nat (max 1 (checksum_retry_limit p))"
      "sent e' = sent e1 @ concat (map (wire_attempt block) ks)" by blast
    with k show ?thesis
      by (intro exI [of _ "k # ks"]) auto
  qed
qed simp

lemma sent_blocks:
  assumes "send_blocks ser host p i blocks r e = (r', e')" and "0 < chunk_bytes p"
    and "\<not> payload_ack_timeout r'" and "\<not> payload_block_retry_limit_hit r'"
  shows "\<exists>ws. wire_blocks p (map snd blocks) ws \<and> sent e' = sent e @ ws"
  using assms(1,3,4)
proof (induction blocks arbitrary: i r e)
  case Nil
  then show ?case
    by (auto simp: wire_blocks_def intro: exI [of _ "[]"])
next
  case (Cons b blocks)
  obtain start block where b: "b = (start, block)" by (cases b)
  obtain fin r1 e1 where at: "block_attempts ser host p i start block (nat (retry_limit p)) 0 r e = (fin, r1, e1)"
    by (metis prod_cases3)
  have ok: "\<not> payload_ack_timeout r1" "fin"
    using Cons.prems at by (auto simp: b split: if_splits)
  with at Cons.prems(1) have rec: "send_blocks ser host p (Suc i) blocks r1 e1 = (r', e')"
    by (simp add: b)
  from sent_attempts [OF at ok(2) assms(2)] obtain ks where ks: "ks \<noteq> []" "length ks \<le> nat (retry_limit p)"
    "\<forall>k \<in> set ks. 1 \<le> k \<and> k \<le> nat (max 1 (checksum_retry_limit p))"
    "sent e1 = sent e @ concat (map (wire_attempt block) ks)" by blast
  from Cons.IH [OF rec Cons.prems(2,3)] obtain ws where "wire_blocks p (map snd blocks) ws" "sent e' = sent e1 @ ws"
    by blast
  then obtain kss where kss: "list_all2 (\<lambda>block ks. ks \<noteq> [] \<and> length ks \<le> nat (retry_limit p)
       \<and> (\<forall>k \<in> set ks. 1 \<le> k \<and> k \<le> nat (max 1 (checksum_retry_limit p)))) (map snd blocks) kss"
    "sent e' = sent e1 @ concat (map2 (\<lambda>block ks. concat (map (wire_attempt block) ks)) (map snd blocks) kss)"
    unfolding wire_blocks_def by blast
  show ?case
    unfolding wire_blocks_def
    by (rule exI, rule conjI, rule exI [of _ "ks # kss"], rule conjI)
      (use ks kss b in simp_all)
qed

text \<open>What a successful transfer put on the wire.\<close>

lemma sent_transfer:
  assumes "send_uart_payload_with_block_checksums ser host p payload e = (r, e')"
    and "0 < chunk_bytes p" and "\<not> payload_ack_timeout r" and "\<not> payload_block_retry_limit_hit r"
  shows "\<exists>ws. wire_blocks p (map snd (slices (block_bytes p) 0 payload)) ws \<and> sent e' = sent e @ ws"
  using sent_blocks [OF assms(1) [unfolded send_uart_payload_with_block_checksums_def] assms(2-4)] .

end

text \<open>Whatever happens, a transfer only appends to what was sent.\<close>

sublocale uart_wire \<subseteq> appends: uart_keeps ser host "\<lambda>e. \<exists>ws. sent e = base @ ws" for base
  by unfold_locales (auto dest: sent_ack sent_reply simp: sent_nack sent_trace)

section \<open>A link that answers\<close>

definition answering :: "'e uart_host \<Rightarrow> bool" where
  "answering host \<longleftrightarrow> (\<forall>e. fst (wait_ack host e)) \<and> (\<forall>e. fst (wait_reply host e) = Reply_ack)"

lemma answering_ack: "answering host \<Longrightarrow> \<exists>e'. wait_ack host e = (True, e')"
  unfolding answering_def by (metis prod.collapse)

lemma answering_reply: "answering host \<Longrightarrow> \<exists>e'. wait_reply host e = (Reply_ack, e')"
  unfolding answering_def by (metis prod.collapse)

lemma answering_chunks:
  assumes "answering host"
  shows "\<exists>e'. send_chunks ser host p i b n cs r e = (r\<lparr>chunks_sent := chunks_sent r + length cs\<rparr>, e')"
proof (induction cs arbitrary: r e)
  case (Cons c cs)
  obtain off chunk where c: "c = (off, chunk)" by (cases c)
  obtain e3 where "wait_ack host (write_uart_bytes_slow ser chunk (byte_delay p)
      (run_trace host (send_chunk_line i (b + off) chunk) e)) = (True, e3)"
    using answering_ack [OF assms] by blast
  moreover obtain e' where "send_chunks ser host p i b n cs (r\<lparr>chunks_sent := Suc (chunks_sent r)\<rparr>)
      (if off + chunk_bytes p < n then op_sleep ser (chunk_gap p)
         (run_trace host (ack_chunk_line i (b + off) True) e3)
       else run_trace host (ack_chunk_line i (b + off) True) e3)
      = (r\<lparr>chunks_sent := Suc (chunks_sent r) + length cs\<rparr>, e')"
    using Cons.IH [of "r\<lparr>chunks_sent := Suc (chunks_sent r)\<rparr>"] by simp blast
  ultimately show ?case
    by (simp add: c Let_def)
qed simp

lemma answering_tries:
  assumes "answering host"
  shows "\<exists>e'. checksum_tries ser host p i ck (Suc m) 0 r e = (Reply_timeout, r, e')"
proof -
  let ?e = "write_uart_u32_le_slow ser ck (checksum_byte_delay p) (run_trace host
      (''SEND_BLOCK_CHECKSUM'' @ ('' block='' @ dec_str i) @ '' try='' @ dec_str 0 @ '' value='' @ fmt_0x 8 ck) e)"
  obtain e4 where "wait_ack host ?e = (True, e4)"
    using answering_ack [OF assms] by blast
  then show ?thesis
    by (simp add: Let_def)
qed

lemma answering_block:
  assumes "answering host" and "\<not> payload_ack_timeout r"
  shows "\<exists>e'. block_attempt ser host p i b block a r e =
    (Block_done, r\<lparr>payload_chunks_sent := payload_chunks_sent r + length (slices (chunk_bytes p) 0 block),
       payload_block_ack_count := Suc (payload_block_ack_count r)\<rparr>, e')"
proof -
  let ?e1 = "run_trace host (''BLOCK_BEGIN block='' @ dec_str i @ '' attempt='' @ dec_str a) e"
  let ?r1 = "r\<lparr>payload_chunks_sent := payload_chunks_sent r + length (slices (chunk_bytes p) 0 block)\<rparr>"
  obtain e2 where cr: "send_uart_payload_with_ack ser host p i b block ?e1
      = (no_chunks\<lparr>chunks_sent := length (slices (chunk_bytes p) 0 block)\<rparr>, e2)"
    using answering_chunks [OF assms(1), of ser p i b "length block" "slices (chunk_bytes p) 0 block" no_chunks ?e1]
    by (auto simp: send_uart_payload_with_ack_def no_chunks_def)
  obtain m where m: "nat (max 1 (checksum_retry_limit p)) = Suc m"
    by (cases "nat (max 1 (checksum_retry_limit p))") auto
  obtain e3 where ct: "checksum_tries ser host p i (checksum32 block) (Suc m) 0 ?r1
      (op_sleep ser (pre_block_checksum_gap p) e2) = (Reply_timeout, ?r1, e3)"
    using answering_tries [OF assms(1)] by blast
  obtain e4 where rp: "wait_reply host e3 = (Reply_ack, e4)"
    using answering_reply [OF assms(1)] by blast
  show ?thesis
    using assms(2) cr ct rp m by (simp add: block_attempt_def Let_def no_chunks_def del: checksum_tries.simps)
qed

lemma answering_blocks:
  assumes "answering host" and "1 \<le> retry_limit p"
  shows "\<not> payload_ack_timeout r \<Longrightarrow> \<exists>e'. send_blocks ser host p i blocks r e =
    (r\<lparr>payload_chunks_sent := payload_chunks_sent r + chunk_total p blocks,
       payload_block_ack_count := payload_block_ack_count r + length blocks\<rparr>, e')"
proof (induction blocks arbitrary: i r e)
  case Nil
  then show ?case by (simp add: chunk_total_def)
next
  case (Cons b blocks)
  obtain start block where b: "b = (start, block)" by (cases b)
  obtain n where n: "nat (retry_limit p) = Suc n"
    using assms(2) by (cases "nat (retry_limit p)") auto
  let ?r1 = "r\<lparr>payload_chunks_sent := payload_chunks_sent r + length (slices (chunk_bytes p) 0 block),
       payload_block_ack_count := Suc (payload_block_ack_count r)\<rparr>"
  obtain e1 where "block_attempt ser host p i start block 0 r e = (Block_done, ?r1, e1)"
    using answering_block [OF assms(1) Cons.prems] by blast
  then have at: "block_attempts ser host p i start block (nat (retry_limit p)) 0 r e = (True, ?r1, e1)"
    by (simp add: n)
  obtain e' where "send_blocks ser host p (Suc i) blocks ?r1 e1 =
      (?r1\<lparr>payload_chunks_sent := payload_chunks_sent ?r1 + chunk_total p blocks,
         payload_block_ack_count := payload_block_ack_count ?r1 + length blocks\<rparr>, e')"
    using Cons.IH [of ?r1 "Suc i" e1] Cons.prems by auto
  then show ?case
    using at Cons.prems by (simp add: b chunk_total_def)
qed

text \<open>
  C18. On a link that answers, a transfer succeeds on the first attempt: when every wait for an
  acknowledge is answered and every block reply is an ACK, all blocks are acknowledged, with exactly
  the chunks the payload has and no retry, no miss and no failure.
\<close>

theorem transfer_succeeds:
  assumes "answering host" and "1 \<le> retry_limit p"
  shows "fst (send_uart_payload_with_block_checksums ser host p payload e) =
    block_counts_init\<lparr>payload_chunks_sent := chunk_total p (slices (block_bytes p) 0 payload),
      payload_block_ack_count := block_count p payload\<rparr>"
proof -
  have "\<not> payload_ack_timeout block_counts_init"
    by (simp add: block_counts_init_def)
  from answering_blocks [OF assms this, of ser 0 "slices (block_bytes p) 0 payload" e] show ?thesis
    by (auto simp: send_uart_payload_with_block_checksums_def block_counts_init_def block_count_def)
qed

definition unit_port :: "unit serial_port" where
  "unit_port = \<lparr>op_write = (\<lambda>bs e. e), op_flush = (\<lambda>e. e), op_sleep = (\<lambda>d e. e)\<rparr>"

definition unit_host :: "unit uart_host" where
  "unit_host = \<lparr>wait_ack = (\<lambda>e. (True, e)), wait_reply = (\<lambda>e. (Reply_ack, e)), after_nack = None, trace_event = None\<rparr>"

definition unit_params :: uart_params where
  "unit_params = \<lparr>chunk_bytes = 4, block_bytes = 64, byte_delay = 3000, chunk_gap = 50000,
     pre_block_checksum_gap = 100000, checksum_byte_delay = 3000, checksum_retry_gap = 500000,
     checksum_retry_limit = 3, block_gap = 100000, block_retry_gap = 1500000, retry_limit = 12, allow_ack_miss = True\<rparr>"

lemma transfer_succeeds_witness:
  "payload_block_ack_count
     (fst (send_uart_payload_with_block_checksums unit_port unit_host unit_params (replicate 100 7) ())) = 2"
  using transfer_succeeds [of unit_host unit_params unit_port "replicate 100 7" "()"]
    length_slices [of 64 0 "replicate 100 (7 :: byte)"]
  by (simp add: answering_def unit_host_def unit_params_def block_count_def)

end
