(* ===== verification/Beacon.thy ===== *)
theory Beacon
  imports Prelude
begin

unbundle bit_operations_syntax

text \<open>
  The beacon framing of \<^verbatim>\<open>fpga/scripts/run_fpga_benchmark_ddr3.py\<close>.  The FPGA sends
  five-byte frames (start byte, sequence number, event type, argument, checksum) mixed
  with plain console bytes.  \<^verbatim>\<open>decode_loader_beacon_frames\<close> takes a whole capture
  apart; \<^verbatim>\<open>LoaderBeaconStreamFilter\<close> strips the frames from the stream as it arrives.
\<close>

section \<open>Frames\<close>

abbreviation STEP2_BEACON_SOF :: byte where
  "STEP2_BEACON_SOF \<equiv> 0xA5"

text \<open>An event is the tuple (offset, seq, type, arg) of the code.\<close>

type_synonym event = "nat \<times> byte \<times> byte \<times> byte"

abbreviation ev_offset :: "event \<Rightarrow> nat" where "ev_offset e \<equiv> fst e"
abbreviation ev_seq :: "event \<Rightarrow> byte" where "ev_seq e \<equiv> fst (snd e)"
abbreviation ev_type :: "event \<Rightarrow> byte" where "ev_type e \<equiv> fst (snd (snd e))"
abbreviation ev_arg :: "event \<Rightarrow> byte" where "ev_arg e \<equiv> snd (snd (snd e))"

definition frame_chk :: "byte \<Rightarrow> byte \<Rightarrow> byte \<Rightarrow> byte" where
  "frame_chk seq evt_type evt_arg = STEP2_BEACON_SOF XOR seq XOR evt_type XOR evt_arg"

text \<open>The sender's side of the format: the frame of one event.\<close>

definition frame :: "byte \<times> byte \<times> byte \<Rightarrow> bytes" where
  "frame e = (case e of (seq, evt_type, evt_arg) \<Rightarrow>
     [STEP2_BEACON_SOF, seq, evt_type, evt_arg, frame_chk seq evt_type evt_arg])"

section \<open>Decoding a capture\<close>

record decoded =
  dec_events :: "event list"
  dec_lines :: "string list"
  dec_passthrough :: bytes
  dec_bad_frames :: nat

definition empty_decoded :: decoded where
  "empty_decoded = \<lparr>dec_events = [], dec_lines = [], dec_passthrough = [], dec_bad_frames = 0\<rparr>"

definition bad_frame_line :: "nat \<Rightarrow> byte \<Rightarrow> byte \<Rightarrow> byte \<Rightarrow> byte \<Rightarrow> byte \<Rightarrow> string" where
  "bad_frame_line off seq evt_type evt_arg evt_chk exp_chk =
     ''BAD_FRAME off='' @ fmt_0x 4 off @ '' seq='' @ fmt_0x 2 (unat seq) @ '' type='' @ fmt_0x 2 (unat evt_type)
     @ '' arg='' @ fmt_0x 2 (unat evt_arg) @ '' chk='' @ fmt_0x 2 (unat evt_chk) @ '' exp='' @ fmt_0x 2 (unat exp_chk)"

definition event_line :: "(byte \<Rightarrow> string) \<Rightarrow> nat \<Rightarrow> byte \<Rightarrow> byte \<Rightarrow> byte \<Rightarrow> string" where
  "event_line event_name off seq evt_type evt_arg =
     ''EVT off='' @ fmt_0x 4 off @ '' seq='' @ fmt_0x 2 (unat seq) @ '' '' @ event_name evt_type
     @ '' arg='' @ fmt_0x 2 (unat evt_arg)"

text \<open>
  The loop of \<^verbatim>\<open>decode_loader_beacon_frames\<close>: \<^term>\<open>idx\<close> is the loop's index and the list
  is the capture from there on.  Each case gives what the iteration appends, in front of what
  the rest of the loop appends.  The event names come from \<^verbatim>\<open>loader_event_name\<close>, a parameter
  here because its table belongs to the event layer.
\<close>

definition add_passthrough :: "byte \<Rightarrow> decoded \<Rightarrow> decoded" where
  "add_passthrough b d = d\<lparr>dec_passthrough := b # dec_passthrough d\<rparr>"

definition add_bad_frame :: "string \<Rightarrow> decoded \<Rightarrow> decoded" where
  "add_bad_frame line d = d\<lparr>dec_bad_frames := Suc (dec_bad_frames d), dec_lines := line # dec_lines d\<rparr>"

definition add_event :: "string \<Rightarrow> event \<Rightarrow> decoded \<Rightarrow> decoded" where
  "add_event line e d = d\<lparr>dec_events := e # dec_events d, dec_lines := line # dec_lines d\<rparr>"

fun decode_from :: "(byte \<Rightarrow> string) \<Rightarrow> nat \<Rightarrow> bytes \<Rightarrow> decoded" where
  "decode_from event_name idx [] = empty_decoded"
| "decode_from event_name idx (b # rest) =
     (if b \<noteq> STEP2_BEACON_SOF then add_passthrough b (decode_from event_name (idx + 1) rest)
      else case rest of
        seq # evt_type # evt_arg # evt_chk # rest' \<Rightarrow>
          (let exp_chk = frame_chk seq evt_type evt_arg in
           if evt_chk \<noteq> exp_chk then
             add_bad_frame (bad_frame_line idx seq evt_type evt_arg evt_chk exp_chk)
               (add_passthrough b (decode_from event_name (idx + 1) rest))
           else add_event (event_line event_name idx seq evt_type evt_arg) (idx, seq, evt_type, evt_arg)
               (decode_from event_name (idx + 5) rest'))
      | _ \<Rightarrow> empty_decoded)"

definition decode_loader_beacon_frames :: "(byte \<Rightarrow> string) \<Rightarrow> bytes \<Rightarrow> decoded" where
  "decode_loader_beacon_frames event_name raw_bytes = decode_from event_name 0 raw_bytes"

section \<open>Filtering the stream\<close>

record stream_filter =
  pending :: bytes

definition new_filter :: stream_filter where
  "new_filter = \<lparr>pending = []\<rparr>"

text \<open>The \<^verbatim>\<open>while self._pending\<close> loop of \<^verbatim>\<open>feed\<close>: the bytes passed through, and what stays pending.\<close>

fun drain :: "bytes \<Rightarrow> bytes \<times> bytes" where
  "drain [] = ([], [])"
| "drain (b # rest) =
     (if b \<noteq> STEP2_BEACON_SOF then apfst (Cons b) (drain rest)
      else case rest of
        seq # evt_type # evt_arg # evt_chk # rest' \<Rightarrow>
          (if evt_chk = frame_chk seq evt_type evt_arg then drain rest'
           else apfst (Cons b) (drain rest))
      | _ \<Rightarrow> ([], b # rest))"

definition feed :: "stream_filter \<Rightarrow> bytes \<Rightarrow> bytes \<times> stream_filter" where
  "feed f chunk = (case drain (pending f @ chunk) of (out, p) \<Rightarrow> (out, f\<lparr>pending := p\<rparr>))"

section \<open>Basic facts\<close>

lemmas decoded_simps = empty_decoded_def add_passthrough_def add_bad_frame_def add_event_def

lemma length_frame [simp]: "length (frame e) = 5"
  by (simp add: frame_def split: prod.split)

text \<open>
  One case analysis for everything that reads the stream: a plain byte, a start byte too
  close to the end, a complete frame candidate.
\<close>

lemma four_bytes: "4 \<le> length rest \<Longrightarrow> \<exists>s t a c r. rest = s # t # a # c # r"
  by (auto simp: Suc_le_length_iff numeral_eq_Suc)

lemma stream_cases [case_names Nil other short candidate]:
  assumes "xs = [] \<Longrightarrow> P"
    and "\<And>b rest. xs = b # rest \<Longrightarrow> b \<noteq> STEP2_BEACON_SOF \<Longrightarrow> P"
    and "\<And>rest. xs = STEP2_BEACON_SOF # rest \<Longrightarrow> length rest < 4 \<Longrightarrow> P"
    and "\<And>s t a c r. xs = STEP2_BEACON_SOF # s # t # a # c # r \<Longrightarrow> P"
  shows P
proof (cases xs)
  case Nil
  with assms(1) show P by simp
next
  case (Cons b rest)
  consider "b \<noteq> STEP2_BEACON_SOF" | "b = STEP2_BEACON_SOF" "length rest < 4"
    | "b = STEP2_BEACON_SOF" "4 \<le> length rest"
    by linarith
  then show P
  proof cases
    case 1
    with Cons assms(2) show P by blast
  next
    case 2
    with Cons assms(3) show P by blast
  next
    case 3
    with Cons assms(4) four_bytes show P by blast
  qed
qed

lemma stream_induct [case_names Nil other short candidate]:
  assumes "P []"
    and "\<And>b rest. b \<noteq> STEP2_BEACON_SOF \<Longrightarrow> P rest \<Longrightarrow> P (b # rest)"
    and "\<And>rest. length rest < 4 \<Longrightarrow> P (STEP2_BEACON_SOF # rest)"
    and "\<And>s t a c r. (c \<noteq> frame_chk s t a \<Longrightarrow> P (s # t # a # c # r)) \<Longrightarrow> (c = frame_chk s t a \<Longrightarrow> P r)
      \<Longrightarrow> P (STEP2_BEACON_SOF # s # t # a # c # r)"
  shows "P xs"
proof (induction xs rule: length_induct)
  case (1 xs)
  show ?case
  proof (cases xs rule: stream_cases)
    case Nil
    with assms(1) show ?thesis by simp
  next
    case (other b rest)
    with 1 have "P rest" by simp
    with other assms(2) show ?thesis by blast
  next
    case (short rest)
    with assms(3) show ?thesis by blast
  next
    case (candidate s t a c r)
    with 1 have "P (s # t # a # c # r)" "P r" by simp_all
    with candidate assms(4) show ?thesis by blast
  qed
qed

declare drain.simps(2) [simp del] decode_from.simps(2) [simp del]

lemma drain_other: "b \<noteq> STEP2_BEACON_SOF \<Longrightarrow> drain (b # rest) = apfst (Cons b) (drain rest)"
  by (simp add: drain.simps(2))

lemma drain_short: "length rest < 4 \<Longrightarrow> drain (STEP2_BEACON_SOF # rest) = ([], STEP2_BEACON_SOF # rest)"
  by (subst drain.simps(2), simp split: list.split, intro allI impI conjI, simp_all)

lemma drain_candidate: "drain (STEP2_BEACON_SOF # s # t # a # c # r) =
    (if c = frame_chk s t a then drain r else apfst (Cons STEP2_BEACON_SOF) (drain (s # t # a # c # r)))"
  by (subst drain.simps(2)) simp

lemma decode_other: "b \<noteq> STEP2_BEACON_SOF \<Longrightarrow>
    decode_from nm idx (b # rest) = add_passthrough b (decode_from nm (idx + 1) rest)"
  by (simp add: decode_from.simps(2))

lemma decode_short: "length rest < 4 \<Longrightarrow> decode_from nm idx (STEP2_BEACON_SOF # rest) = empty_decoded"
  by (subst decode_from.simps(2), simp split: list.split, intro allI impI conjI, simp_all)

lemma decode_candidate: "decode_from nm idx (STEP2_BEACON_SOF # s # t # a # c # r) =
    (if c = frame_chk s t a
     then add_event (event_line nm idx s t a) (idx, s, t, a) (decode_from nm (idx + 5) r)
     else add_bad_frame (bad_frame_line idx s t a c (frame_chk s t a))
       (add_passthrough STEP2_BEACON_SOF (decode_from nm (idx + 1) (s # t # a # c # r))))"
  by (subst decode_from.simps(2)) (simp add: Let_def)

lemmas stream_steps = drain_other drain_short drain_candidate decode_other decode_short decode_candidate

lemma drain_pending_short: "length (snd (drain xs)) < 5"
  by (induction xs rule: stream_induct) (auto simp: stream_steps)

lemma drain_pending_idem: "drain (snd (drain xs)) = ([], snd (drain xs))"
  by (induction xs rule: stream_induct) (auto simp: stream_steps)

lemma drain_append:
  "drain (xs @ ys) = (fst (drain xs) @ fst (drain (snd (drain xs) @ ys)), snd (drain (snd (drain xs) @ ys)))"
  by (induction xs rule: stream_induct) (auto simp: stream_steps apfst_def map_prod_def split_beta)

text \<open>The decoder's passthrough is what the filter lets through.\<close>

lemma decode_passthrough_drain: "dec_passthrough (decode_from nm idx xs) = fst (drain xs)"
  by (induction xs arbitrary: idx rule: stream_induct)
    (auto simp: stream_steps decoded_simps simp del: One_nat_def)

section \<open>The filter does not depend on the cuts of the stream\<close>

definition filter_settled :: "stream_filter \<Rightarrow> bool" where
  "filter_settled f \<longleftrightarrow> drain (pending f) = ([], pending f)"

lemma feed_drain: "feed f chunk =
    (fst (drain (pending f @ chunk)), f\<lparr>pending := snd (drain (pending f @ chunk))\<rparr>)"
  by (simp add: feed_def split_beta)

lemma filter_settled_new: "filter_settled new_filter"
  by (simp add: filter_settled_def new_filter_def)

interpretation flt: chunked_feed feed filter_settled
proof
  fix f :: stream_filter and xs ys :: bytes
  assume "filter_settled f"
  show "feed f (xs @ ys) = (fst (feed f xs) @ fst (feed (snd (feed f xs)) ys), snd (feed (snd (feed f xs)) ys))"
    using drain_append [of "pending f @ xs" ys] by (simp add: feed_drain)
next
  fix f :: stream_filter
  assume "filter_settled f"
  then show "feed f [] = ([], f)"
    by (simp add: feed_drain filter_settled_def)
next
  fix f :: stream_filter and xs :: bytes
  show "filter_settled (snd (feed f xs))"
    by (simp add: feed_drain filter_settled_def drain_pending_idem)
qed

text \<open>
  C7. The incremental filter agrees with the decoder of the whole capture: however the reads
  cut the stream, the bytes let through are the decoder's passthrough bytes.  The bytes the
  filter still holds are fewer than a frame.
\<close>

theorem filter_matches_decoder:
  "fst (foldl (collect_feed feed) ([], new_filter) chunks)
     = dec_passthrough (decode_loader_beacon_frames event_name (concat chunks))
   \<and> length (pending (snd (foldl (collect_feed feed) ([], new_filter) chunks))) < 5"
proof -
  have "foldl (collect_feed feed) ([], new_filter) chunks = collect_feed feed ([], new_filter) (concat chunks)"
    by (rule flt.collected.fold_chunks) (simp add: filter_settled_new)
  then show ?thesis
    by (simp add: collect_feed_def feed_drain new_filter_def split_beta decode_loader_beacon_frames_def
        decode_passthrough_drain drain_pending_short)
qed

section \<open>What the decoder reports\<close>

lemma decode_counts:
  "length xs = length (dec_passthrough (decode_from nm idx xs)) + 5 * length (dec_events (decode_from nm idx xs))
     + length (snd (drain xs))
   \<and> length (dec_lines (decode_from nm idx xs))
     = length (dec_events (decode_from nm idx xs)) + dec_bad_frames (decode_from nm idx xs)"
proof (induction xs arbitrary: idx rule: stream_induct)
  case (other b rest)
  show ?case
    using other.hyps other.IH [of "idx + 1"] by (simp add: stream_steps decoded_simps)
next
  case (candidate s t a c r)
  show ?case
    using candidate.IH(1) [of "idx + 1"] candidate.IH(2) [of "idx + 5"]
    by (cases "c = frame_chk s t a") (simp_all add: stream_steps decoded_simps)
qed (simp_all add: stream_steps decoded_simps)

text \<open>
  C21. Nothing of a capture is lost or counted twice: its bytes are the passthrough bytes, five
  for each event, and an undecided tail of less than a frame; the log has one line for each
  event and each bad frame.
\<close>

theorem decode_conserves_bytes:
  fixes raw :: bytes and event_name :: "byte \<Rightarrow> string"
  defines "d \<equiv> decode_loader_beacon_frames event_name raw"
  shows "\<exists>tail. length raw = length (dec_passthrough d) + 5 * length (dec_events d) + tail \<and> tail < 5
    \<and> length (dec_lines d) = length (dec_events d) + dec_bad_frames d"
  using decode_counts [of raw event_name 0] drain_pending_short [of raw]
  by (auto simp: d_def decode_loader_beacon_frames_def)

definition frame_at :: "bytes \<Rightarrow> event \<Rightarrow> bool" where
  "frame_at raw e \<longleftrightarrow> take 5 (drop (ev_offset e) raw) = frame (ev_seq e, ev_type e, ev_arg e)"

lemma decode_sound:
  "e \<in> set (dec_events (decode_from nm idx xs)) \<Longrightarrow>
     idx \<le> ev_offset e \<and> take 5 (drop (ev_offset e - idx) xs) = frame (ev_seq e, ev_type e, ev_arg e)"
proof (induction xs arbitrary: idx rule: stream_induct)
  case (other b rest)
  then have "idx + 1 \<le> ev_offset e"
    and "take 5 (drop (ev_offset e - (idx + 1)) rest) = frame (ev_seq e, ev_type e, ev_arg e)"
    by (fastforce simp: stream_steps decoded_simps)+
  then show ?case
    by (cases "ev_offset e - idx") (auto simp: Suc_diff_Suc diff_Suc)
next
  case (candidate s t a c r)
  show ?case
  proof (cases "c = frame_chk s t a")
    case True
    show ?thesis
    proof (cases "e = (idx, s, t, a)")
      case True
      with \<open>c = frame_chk s t a\<close> show ?thesis
        by (simp add: frame_def)
    next
      case False
      with candidate True have "idx + 5 \<le> ev_offset e"
        and "take 5 (drop (ev_offset e - (idx + 5)) r) = frame (ev_seq e, ev_type e, ev_arg e)"
        by (fastforce simp: stream_steps decoded_simps)+
      moreover from this have "ev_offset e - idx = Suc (Suc (Suc (Suc (Suc (ev_offset e - (idx + 5))))))"
        by simp
      ultimately show ?thesis by simp
    qed
  next
    case False
    with candidate have "idx + 1 \<le> ev_offset e"
      and "take 5 (drop (ev_offset e - (idx + 1)) (s # t # a # c # r)) = frame (ev_seq e, ev_type e, ev_arg e)"
      by (fastforce simp: stream_steps decoded_simps)+
    moreover from this have "ev_offset e - idx = Suc (ev_offset e - (idx + 1))"
      by simp
    ultimately show ?thesis by simp
  qed
qed (auto simp: stream_steps decoded_simps)

lemma decode_offsets_sorted:
  "sorted_wrt (\<lambda>e f. ev_offset e + 5 \<le> ev_offset f) (dec_events (decode_from nm idx xs))"
proof (induction xs arbitrary: idx rule: stream_induct)
  case (candidate s t a c r)
  then show ?case
    using decode_sound [of _ nm "idx + 5" r] by (auto simp: stream_steps decoded_simps)
qed (auto simp: stream_steps decoded_simps)

text \<open>
  Every reported event is a frame that stands in the capture at the reported offset with a
  correct checksum, and the frames of two events never overlap: each event starts at least five
  bytes after the one before it.
\<close>

theorem decode_events_are_frames:
  fixes raw :: bytes and event_name :: "byte \<Rightarrow> string"
  defines "es \<equiv> dec_events (decode_loader_beacon_frames event_name raw)"
  shows "list_all (frame_at raw) es \<and> sorted_wrt (\<lambda>e f. ev_offset e + 5 \<le> ev_offset f) es"
  using decode_sound [of _ event_name 0 raw] decode_offsets_sorted [of event_name 0 raw]
  by (auto simp: es_def decode_loader_beacon_frames_def list_all_iff frame_at_def)

section \<open>Encoding and decoding\<close>

text \<open>A sender that writes console text before each frame, and some after the last.\<close>

definition encode_stream :: "(bytes \<times> byte \<times> byte \<times> byte) list \<Rightarrow> bytes \<Rightarrow> bytes" where
  "encode_stream segs end_text = concat (map (\<lambda>(tx, e). tx @ frame e) segs) @ end_text"

fun expected_events :: "nat \<Rightarrow> (bytes \<times> byte \<times> byte \<times> byte) list \<Rightarrow> event list" where
  "expected_events idx [] = []"
| "expected_events idx ((tx, e) # segs) =
     (idx + length tx, e) # expected_events (idx + length tx + 5) segs"

lemma decode_text:
  "STEP2_BEACON_SOF \<notin> set tx \<Longrightarrow> decode_from nm idx (tx @ xs) =
     foldr add_passthrough tx (decode_from nm (idx + length tx) xs)"
  by (induction tx arbitrary: idx) (auto simp: decode_other)

lemma foldr_add_passthrough:
  "foldr add_passthrough tx d = d\<lparr>dec_passthrough := tx @ dec_passthrough d\<rparr>"
  by (induction tx) (simp_all add: add_passthrough_def)

lemma decode_frame:
  "decode_from nm idx (frame e @ xs) =
     add_event (event_line nm idx (fst e) (fst (snd e)) (snd (snd e))) (idx, e) (decode_from nm (idx + 5) xs)"
  by (cases e) (simp add: frame_def decode_candidate)

lemma decode_encode_from:
  assumes "STEP2_BEACON_SOF \<notin> set end_text" "\<forall>seg \<in> set segs. STEP2_BEACON_SOF \<notin> set (fst seg)"
  shows "dec_events (decode_from nm idx (encode_stream segs end_text)) = expected_events idx segs
    \<and> dec_passthrough (decode_from nm idx (encode_stream segs end_text)) = concat (map fst segs) @ end_text
    \<and> dec_bad_frames (decode_from nm idx (encode_stream segs end_text)) = 0"
  using assms
proof (induction segs arbitrary: idx)
  case Nil
  then show ?case
    using decode_text [of end_text nm idx "[]"]
    by (simp add: encode_stream_def foldr_add_passthrough empty_decoded_def)
next
  case (Cons seg segs)
  obtain tx e where seg: "seg = (tx, e)" by (cases seg)
  have "encode_stream (seg # segs) end_text = tx @ frame e @ encode_stream segs end_text"
    by (simp add: encode_stream_def seg)
  with Cons seg show ?case
    by (simp add: decode_text decode_frame foldr_add_passthrough add_event_def)
qed

text \<open>
  C14. Round trip: when console text without the start byte is interleaved with frames, the
  decoder returns exactly the events sent, at their offsets, the text as passthrough, and no
  bad frame.
\<close>

theorem decode_encode_stream:
  assumes "STEP2_BEACON_SOF \<notin> set end_text"
    and "\<forall>seg \<in> set segs. STEP2_BEACON_SOF \<notin> set (fst seg)"
  shows "dec_events (decode_loader_beacon_frames event_name (encode_stream segs end_text)) = expected_events 0 segs
    \<and> dec_passthrough (decode_loader_beacon_frames event_name (encode_stream segs end_text))
        = concat (map fst segs) @ end_text
    \<and> dec_bad_frames (decode_loader_beacon_frames event_name (encode_stream segs end_text)) = 0"
  using decode_encode_from [OF assms] by (simp add: decode_loader_beacon_frames_def)

lemma decode_encode_stream_witness:
  "dec_events (decode_loader_beacon_frames (\<lambda>_. ''X'') (encode_stream [([0x41], 0, 1, 2), ([], 1, 3, 4)] [0x42]))
     = [(1, 0, 1, 2), (6, 1, 3, 4)]"
  using decode_encode_stream [of "[0x42]" "[([0x41], 0, 1, 2), ([], 1, 3, 4)]" "\<lambda>_. ''X''"] by simp

lemma xor_left_cancel: "(a :: byte) XOR b = a XOR c \<longleftrightarrow> b = c"
  by (metis xor.assoc xor.left_neutral xor_self_eq)

lemma xor_right_cancel: "(b :: byte) XOR a = c XOR a \<longleftrightarrow> b = c"
  by (metis xor.commute xor_left_cancel)

text \<open>
  The checksum catches every error confined to one of the four bytes after the start byte:
  a frame whose sequence, type, argument or checksum byte alone was changed yields no event at
  its offset but is counted as a bad frame.
\<close>

theorem one_byte_error_detected:
  assumes "1 \<le> k" and "k < 5" and "x \<noteq> frame e ! k"
  shows "dec_bad_frames (decode_loader_beacon_frames event_name ((frame e)[k := x] @ rest)) > 0
    \<and> (\<forall>ev \<in> set (dec_events (decode_loader_beacon_frames event_name ((frame e)[k := x] @ rest))). 0 < ev_offset ev)"
proof -
  obtain s t a where e: "e = (s, t, a)" by (cases e)
  have "k = 1 \<or> k = 2 \<or> k = 3 \<or> k = 4"
    using assms by linarith
  then obtain s' t' a' c where f: "(frame e)[k := x] = [STEP2_BEACON_SOF, s', t', a', c]"
    and bad: "c \<noteq> frame_chk s' t' a'"
    using assms(3)
    by (elim disjE) (auto simp: e frame_def frame_chk_def xor.assoc xor_left_cancel xor_right_cancel)
  show ?thesis
    using decode_sound [of _ event_name 1 "s' # t' # a' # c # rest"] bad
    by (fastforce simp: f decode_loader_beacon_frames_def decode_candidate decoded_simps)
qed

lemma one_byte_error_detected_witness:
  "dec_bad_frames (decode_loader_beacon_frames (\<lambda>_. ''X'') ((frame (0, 1, 2))[3 := 7] @ [])) > 0"
  using one_byte_error_detected [of 3 7 "(0, 1, 2)" "\<lambda>_. ''X''" "[]"] by (simp add: frame_def)

end
