(* ===== verification/LoaderEvents.thy ===== *)
theory LoaderEvents
  imports Beacon
begin

unbundle bit_operations_syntax

text \<open>
  The loader's event layer of \<^verbatim>\<open>run_fpga_benchmark_ddr3.py\<close>: event names, the choice of the
  session in a capture (\<^verbatim>\<open>split_loader_session\<close>), the reduction of a session to flags and
  counters (\<^verbatim>\<open>reduce_loader_events\<close>) and the analysis of a whole capture
  (\<^verbatim>\<open>analyze_loader_beacon\<close>).  Frames are sent more than once; every reduction skips a
  sequence number it has already seen, and \<^verbatim>\<open>seq_dedup_loop\<close> states what that buys.
\<close>

section \<open>Loops that skip repeated sequence numbers\<close>

text \<open>The events a reduction takes notice of: the first with each sequence number.\<close>

fun first_per_seq :: "byte set \<Rightarrow> event list \<Rightarrow> event list" where
  "first_per_seq S [] = []"
| "first_per_seq S (e # es) =
     (if ev_seq e \<in> S then first_per_seq S es else e # first_per_seq (insert (ev_seq e) S) es)"

lemma first_per_seq_append: "first_per_seq S (es @ fs) =
    first_per_seq S es @ first_per_seq (S \<union> ev_seq ` set es) fs"
  by (induction S es rule: first_per_seq.induct) (auto simp: insert_absorb)

lemma first_per_seq_snoc: "first_per_seq S (es @ [e]) =
    first_per_seq S es @ (if ev_seq e \<in> S \<union> ev_seq ` set es then [] else [e])"
  by (simp add: first_per_seq_append)

lemma set_first_per_seq: "set (first_per_seq S es) \<subseteq> set es"
  by (induction S es rule: first_per_seq.induct) auto

lemma seqs_first_per_seq: "ev_seq ` set (first_per_seq S es) = ev_seq ` set es - S"
  by (induction S es rule: first_per_seq.induct) auto

lemma distinct_first_per_seq: "distinct (map ev_seq (first_per_seq S es))"
proof (induction S es rule: first_per_seq.induct)
  case (2 S e es)
  then show ?case
    using seqs_first_per_seq [of "insert (ev_seq e) S" es] by auto
qed simp

lemma first_per_seq_id: "distinct (map ev_seq es) \<Longrightarrow> ev_seq ` set es \<inter> S = {} \<Longrightarrow> first_per_seq S es = es"
  by (induction S es rule: first_per_seq.induct) auto

lemma card_bytes: "card (S :: byte set) \<le> 256"
  using card_mono [of "UNIV :: byte set" S] by (simp add: card_word)

lemma length_first_per_seq: "length (first_per_seq {} es) = card (ev_seq ` set es)"
  using seqs_first_per_seq [of "{}" es] distinct_card [OF distinct_first_per_seq [of "{}" es]]
  by (simp flip: image_set)

text \<open>
  The contract of a loop that drops duplicates: \<^term>\<open>core\<close> is what its result depends on
  (everything but the counters of dropped frames), and an iteration on a sequence number already
  seen leaves the core alone.
\<close>

locale seq_dedup_loop =
  fixes step :: "event \<Rightarrow> 's \<Rightarrow> 's"
    and core :: "'s \<Rightarrow> 'c"
    and seen :: "'c \<Rightarrow> byte set"
  assumes step_core: "core s = core s' \<Longrightarrow> core (step e s) = core (step e s')"
    and step_dup: "ev_seq e \<in> seen (core s) \<Longrightarrow> core (step e s) = core s"
    and step_fresh: "ev_seq e \<notin> seen (core s) \<Longrightarrow> seen (core (step e s)) = insert (ev_seq e) (seen (core s))"
begin

lemma fold_core: "core s = core s' \<Longrightarrow> core (fold step es s) = core (fold step es s')"
proof (induction es arbitrary: s s')
  case (Cons e es)
  show ?case
    using Cons.IH [OF step_core [OF Cons.prems]] by simp
qed simp

lemma fold_dedup: "core (fold step es s) = core (fold step (first_per_seq (seen (core s)) es) s)"
proof (induction es arbitrary: s)
  case (Cons e es)
  show ?case
  proof (cases "ev_seq e \<in> seen (core s)")
    case True
    then show ?thesis
      using Cons.IH [of "step e s"] fold_core [OF step_dup [OF True]] by (simp add: step_dup)
  next
    case False
    then show ?thesis
      using Cons.IH [of "step e s"] by (simp add: step_fresh)
  qed
qed simp

lemma seen_fold: "seen (core (fold step es s)) = seen (core s) \<union> ev_seq ` set es"
proof (induction es arbitrary: s)
  case (Cons e es)
  then show ?case
    by (cases "ev_seq e \<in> seen (core s)") (auto simp: step_dup step_fresh)
qed simp

text \<open>Sending frames again, anywhere later, changes nothing.\<close>

lemma fold_resend: "set (map ev_seq fs) \<subseteq> seen (core s) \<union> ev_seq ` set es \<Longrightarrow>
    core (fold step (es @ fs) s) = core (fold step es s)"
proof (induction fs rule: rev_induct)
  case (snoc e fs)
  then have "core (fold step (es @ fs) s) = core (fold step es s)"
    and "ev_seq e \<in> seen (core (fold step (es @ fs) s))"
    by (auto simp: seen_fold)
  then show ?case
    using step_dup [of e "fold step (es @ fs) s"] by simp
qed simp

end

section \<open>Event codes and names\<close>

abbreviation LOADER_EVT_READY :: byte where "LOADER_EVT_READY \<equiv> 0x01"
abbreviation LOADER_EVT_LOAD_START :: byte where "LOADER_EVT_LOAD_START \<equiv> 0x02"
abbreviation LOADER_EVT_BOOT :: byte where "LOADER_EVT_BOOT \<equiv> 0x03"
abbreviation LOADER_EVT_BLOCK_ACK :: byte where "LOADER_EVT_BLOCK_ACK \<equiv> 0x11"
abbreviation LOADER_EVT_BLOCK_NACK :: byte where "LOADER_EVT_BLOCK_NACK \<equiv> 0x12"
abbreviation LOADER_EVT_BLOCK_DATA_DONE :: byte where "LOADER_EVT_BLOCK_DATA_DONE \<equiv> 0x13"
abbreviation LOADER_EVT_BLOCK_CSUM_RX :: byte where "LOADER_EVT_BLOCK_CSUM_RX \<equiv> 0x14"
abbreviation LOADER_EVT_CHUNK_START :: byte where "LOADER_EVT_CHUNK_START \<equiv> 0x16"
abbreviation LOADER_EVT_CHUNK_PACKED :: byte where "LOADER_EVT_CHUNK_PACKED \<equiv> 0x18"
abbreviation LOADER_EVT_CHUNK_STORED :: byte where "LOADER_EVT_CHUNK_STORED \<equiv> 0x19"
abbreviation LOADER_EVT_RX_ENTER :: byte where "LOADER_EVT_RX_ENTER \<equiv> 0x1A"
abbreviation LOADER_EVT_RX_POLL :: byte where "LOADER_EVT_RX_POLL \<equiv> 0x1B"
abbreviation LOADER_EVT_RX_LSR :: byte where "LOADER_EVT_RX_LSR \<equiv> 0x1C"
abbreviation LOADER_EVT_HW_M1_NOT_READY :: byte where "LOADER_EVT_HW_M1_NOT_READY \<equiv> 0xD1"
abbreviation LOADER_EVT_HW_MMIO_WATCHDOG :: byte where "LOADER_EVT_HW_MMIO_WATCHDOG \<equiv> 0xD2"
abbreviation LOADER_EVT_HW_SB_STUCK :: byte where "LOADER_EVT_HW_SB_STUCK \<equiv> 0xD3"
abbreviation LOADER_EVT_HW_RX_STALLED :: byte where "LOADER_EVT_HW_RX_STALLED \<equiv> 0xD4"
abbreviation LOADER_EVT_HW_RX_ERROR :: byte where "LOADER_EVT_HW_RX_ERROR \<equiv> 0xD5"
abbreviation LOADER_EVT_HW_CORE_PC_LO :: byte where "LOADER_EVT_HW_CORE_PC_LO \<equiv> 0xD6"
abbreviation LOADER_EVT_HW_CORE_PC_HI :: byte where "LOADER_EVT_HW_CORE_PC_HI \<equiv> 0xD7"
abbreviation LOADER_EVT_HW_CORE_FLAGS :: byte where "LOADER_EVT_HW_CORE_FLAGS \<equiv> 0xD8"
abbreviation LOADER_EVT_HW_CORE_BR_ISSUE :: byte where "LOADER_EVT_HW_CORE_BR_ISSUE \<equiv> 0xD9"
abbreviation LOADER_EVT_HW_CORE_BR_COMPLETE :: byte where "LOADER_EVT_HW_CORE_BR_COMPLETE \<equiv> 0xDA"
abbreviation LOADER_EVT_HW_CORE_BR_STATE :: byte where "LOADER_EVT_HW_CORE_BR_STATE \<equiv> 0xDB"
abbreviation LOADER_EVT_HW_CORE_BR_COUNTS :: byte where "LOADER_EVT_HW_CORE_BR_COUNTS \<equiv> 0xDC"
abbreviation LOADER_EVT_HW_CORE_ISSUE_PC_LO :: byte where "LOADER_EVT_HW_CORE_ISSUE_PC_LO \<equiv> 0xDD"
abbreviation LOADER_EA_EVT_HDR_B0_RX :: byte where "LOADER_EA_EVT_HDR_B0_RX \<equiv> 0x31"
abbreviation LOADER_EA_EVT_HDR_B1_RX :: byte where "LOADER_EA_EVT_HDR_B1_RX \<equiv> 0x32"
abbreviation LOADER_EA_EVT_HDR_B2_RX :: byte where "LOADER_EA_EVT_HDR_B2_RX \<equiv> 0x33"
abbreviation LOADER_EA_EVT_HDR_B3_RX :: byte where "LOADER_EA_EVT_HDR_B3_RX \<equiv> 0x34"
abbreviation LOADER_EA_EVT_HDR_MAGIC_OK :: byte where "LOADER_EA_EVT_HDR_MAGIC_OK \<equiv> 0x35"
abbreviation LOADER_EA_EVT_IDLE_OK :: byte where "LOADER_EA_EVT_IDLE_OK \<equiv> 0x36"
abbreviation LOADER_EA_EVT_TRAIN_START :: byte where "LOADER_EA_EVT_TRAIN_START \<equiv> 0x37"
abbreviation LOADER_EA_EVT_TRAIN_DONE :: byte where "LOADER_EA_EVT_TRAIN_DONE \<equiv> 0x38"
abbreviation LOADER_EA_EVT_FLUSH_DONE :: byte where "LOADER_EA_EVT_FLUSH_DONE \<equiv> 0x39"
abbreviation LOADER_EA_EVT_HEADER_ENTER :: byte where "LOADER_EA_EVT_HEADER_ENTER \<equiv> 0x3A"
abbreviation LOADER_EVT_READ_OK :: byte where "LOADER_EVT_READ_OK \<equiv> 0x21"
abbreviation LOADER_EVT_LOAD_OK :: byte where "LOADER_EVT_LOAD_OK \<equiv> 0x22"
abbreviation LOADER_EVT_JUMP :: byte where "LOADER_EVT_JUMP \<equiv> 0x23"
abbreviation LOADER_EVT_CAL_FAIL :: byte where "LOADER_EVT_CAL_FAIL \<equiv> 0xE0"
abbreviation LOADER_EVT_BAD_MAGIC :: byte where "LOADER_EVT_BAD_MAGIC \<equiv> 0xE1"
abbreviation LOADER_EVT_CHECKSUM_FAIL :: byte where "LOADER_EVT_CHECKSUM_FAIL \<equiv> 0xE2"
abbreviation LOADER_EVT_READBACK_FAIL :: byte where "LOADER_EVT_READBACK_FAIL \<equiv> 0xE3"
abbreviation LOADER_EVT_READBACK_BLOCK_FAIL :: byte where "LOADER_EVT_READBACK_BLOCK_FAIL \<equiv> 0xE4"
abbreviation LOADER_EVT_RX_OVERRUN :: byte where "LOADER_EVT_RX_OVERRUN \<equiv> 0xE5"
abbreviation LOADER_EVT_RX_FRAME_ERR :: byte where "LOADER_EVT_RX_FRAME_ERR \<equiv> 0xE6"
abbreviation LOADER_EVT_DRAIN_TIMEOUT :: byte where "LOADER_EVT_DRAIN_TIMEOUT \<equiv> 0xE7"
abbreviation LOADER_EVT_SIZE_TOO_BIG :: byte where "LOADER_EVT_SIZE_TOO_BIG \<equiv> 0xE8"
abbreviation LOADER_EVT_RX_TIMEOUT :: byte where "LOADER_EVT_RX_TIMEOUT \<equiv> 0xEC"
abbreviation LOADER_EA_EVT_TRAIN_TIMEOUT :: byte where "LOADER_EA_EVT_TRAIN_TIMEOUT \<equiv> 0xE9"
abbreviation LOADER_EA_EVT_FLUSH_TIMEOUT :: byte where "LOADER_EA_EVT_FLUSH_TIMEOUT \<equiv> 0xEA"
abbreviation LOADER_EVT_TRAP :: byte where "LOADER_EVT_TRAP \<equiv> 0xEF"
abbreviation LOADER_EVT_SUMMARY :: byte where "LOADER_EVT_SUMMARY \<equiv> 0xF0"
abbreviation LOADER_SUM_READY :: byte where "LOADER_SUM_READY \<equiv> 0x01"
abbreviation LOADER_SUM_LOAD_START :: byte where "LOADER_SUM_LOAD_START \<equiv> 0x02"
abbreviation LOADER_SUM_READ_OK :: byte where "LOADER_SUM_READ_OK \<equiv> 0x04"
abbreviation LOADER_SUM_LOAD_OK :: byte where "LOADER_SUM_LOAD_OK \<equiv> 0x08"
abbreviation LOADER_SUM_JUMP :: byte where "LOADER_SUM_JUMP \<equiv> 0x10"
abbreviation LOADER_SUM_ANY_BAD :: byte where "LOADER_SUM_ANY_BAD \<equiv> 0x80"
abbreviation LOADER_EA_SUM_READY :: byte where "LOADER_EA_SUM_READY \<equiv> 0x01"
abbreviation LOADER_EA_SUM_HDR_MAGIC_OK :: byte where "LOADER_EA_SUM_HDR_MAGIC_OK \<equiv> 0x02"
abbreviation LOADER_EA_SUM_LOAD_START :: byte where "LOADER_EA_SUM_LOAD_START \<equiv> 0x04"
abbreviation LOADER_EA_SUM_FIRST_BLOCK_ACK :: byte where "LOADER_EA_SUM_FIRST_BLOCK_ACK \<equiv> 0x08"

definition loader_event_names :: "(byte \<times> string) list" where
  "loader_event_names =
     [(LOADER_EVT_READY, ''READY''),
      (LOADER_EVT_LOAD_START, ''LOAD_START''),
      (LOADER_EVT_BOOT, ''BOOT''),
      (LOADER_EVT_BLOCK_ACK, ''BLOCK_ACK''),
      (LOADER_EVT_BLOCK_NACK, ''BLOCK_NACK''),
      (LOADER_EVT_BLOCK_DATA_DONE, ''BLOCK_DATA_DONE''),
      (LOADER_EVT_BLOCK_CSUM_RX, ''BLOCK_CSUM_RX''),
      (LOADER_EVT_CHUNK_START, ''CHUNK_START''),
      (LOADER_EVT_CHUNK_PACKED, ''CHUNK_PACKED''),
      (LOADER_EVT_CHUNK_STORED, ''CHUNK_STORED''),
      (LOADER_EVT_RX_ENTER, ''RX_ENTER''),
      (LOADER_EVT_RX_POLL, ''RX_POLL''),
      (LOADER_EVT_RX_LSR, ''RX_LSR''),
      (LOADER_EVT_HW_M1_NOT_READY, ''HW_M1_NOT_READY''),
      (LOADER_EVT_HW_MMIO_WATCHDOG, ''HW_MMIO_WATCHDOG''),
      (LOADER_EVT_HW_SB_STUCK, ''HW_SB_STUCK''),
      (LOADER_EVT_HW_RX_STALLED, ''HW_RX_STALLED''),
      (LOADER_EVT_HW_RX_ERROR, ''HW_RX_ERROR''),
      (LOADER_EVT_HW_CORE_PC_LO, ''HW_CORE_PC_LO''),
      (LOADER_EVT_HW_CORE_PC_HI, ''HW_CORE_PC_HI''),
      (LOADER_EVT_HW_CORE_FLAGS, ''HW_CORE_FLAGS''),
      (LOADER_EVT_HW_CORE_BR_ISSUE, ''HW_CORE_BR_ISSUE''),
      (LOADER_EVT_HW_CORE_BR_COMPLETE, ''HW_CORE_BR_COMPLETE''),
      (LOADER_EVT_HW_CORE_BR_STATE, ''HW_CORE_BR_STATE''),
      (LOADER_EVT_HW_CORE_BR_COUNTS, ''HW_CORE_BR_COUNTS''),
      (LOADER_EVT_HW_CORE_ISSUE_PC_LO, ''HW_CORE_ISSUE_PC_LO''),
      (LOADER_EA_EVT_HDR_B0_RX, ''HDR_B0_RX''),
      (LOADER_EA_EVT_HDR_B1_RX, ''HDR_B1_RX''),
      (LOADER_EA_EVT_HDR_B2_RX, ''HDR_B2_RX''),
      (LOADER_EA_EVT_HDR_B3_RX, ''HDR_B3_RX''),
      (LOADER_EA_EVT_HDR_MAGIC_OK, ''HDR_MAGIC_OK''),
      (LOADER_EA_EVT_IDLE_OK, ''IDLE_OK''),
      (LOADER_EA_EVT_TRAIN_START, ''TRAIN_START''),
      (LOADER_EA_EVT_TRAIN_DONE, ''TRAIN_DONE''),
      (LOADER_EA_EVT_FLUSH_DONE, ''FLUSH_DONE''),
      (LOADER_EA_EVT_HEADER_ENTER, ''HEADER_ENTER''),
      (LOADER_EVT_READ_OK, ''READ_OK''),
      (LOADER_EVT_LOAD_OK, ''LOAD_OK''),
      (LOADER_EVT_JUMP, ''JUMP''),
      (LOADER_EVT_CAL_FAIL, ''CAL_FAIL''),
      (LOADER_EVT_BAD_MAGIC, ''BAD_MAGIC''),
      (LOADER_EVT_CHECKSUM_FAIL, ''CHECKSUM_FAIL''),
      (LOADER_EVT_READBACK_FAIL, ''READBACK_FAIL''),
      (LOADER_EVT_READBACK_BLOCK_FAIL, ''READBACK_BLOCK_FAIL''),
      (LOADER_EVT_RX_OVERRUN, ''RX_OVERRUN''),
      (LOADER_EVT_RX_FRAME_ERR, ''RX_FRAME_ERR''),
      (LOADER_EVT_DRAIN_TIMEOUT, ''DRAIN_TIMEOUT''),
      (LOADER_EVT_SIZE_TOO_BIG, ''SIZE_TOO_BIG''),
      (LOADER_EVT_RX_TIMEOUT, ''RX_TIMEOUT''),
      (LOADER_EA_EVT_TRAIN_TIMEOUT, ''TRAIN_TIMEOUT''),
      (LOADER_EA_EVT_FLUSH_TIMEOUT, ''FLUSH_TIMEOUT''),
      (LOADER_EVT_TRAP, ''TRAP''),
      (LOADER_EVT_SUMMARY, ''SUMMARY'')]"

definition loader_event_name :: "byte \<Rightarrow> string" where
  "loader_event_name evt_type = (case map_of loader_event_names evt_type of
     Some n \<Rightarrow> n | None \<Rightarrow> ''TYPE_'' @ fmt_X 2 (unat evt_type))"

text \<open>
  The mask is \<^term>\<open>None\<close> until a SUMMARY was seen, which the code's \<^verbatim>\<open>isinstance\<close> test covers.
\<close>

definition loader_summary_ok :: "byte option \<Rightarrow> bool" where
  "loader_summary_ok summary_mask = (case summary_mask of
     Some m \<Rightarrow> m AND 0x1F = 0x1F \<and> m AND LOADER_SUM_ANY_BAD = 0 | None \<Rightarrow> False)"

definition loader_early_audit_summary_ok :: "byte option \<Rightarrow> bool" where
  "loader_early_audit_summary_ok summary_mask = (case summary_mask of
     Some m \<Rightarrow> m AND 0x0F = 0x0F \<and> m AND LOADER_SUM_ANY_BAD = 0 | None \<Rightarrow> False)"

section \<open>The session of a capture\<close>

record loader_session =
  session_events :: "event list"
  pre_session_frame_count :: nat
  session_start_offset :: "nat option"
  session_ready_seq :: "byte option"
  session_start_not_found :: bool

text \<open>
  The two search loops: each remembers the last match (index, seq, offset) of the enumeration.
\<close>

fun last_ready :: "bool \<Rightarrow> nat \<Rightarrow> event list \<Rightarrow> (nat \<times> byte \<times> nat) option \<Rightarrow> (nat \<times> byte \<times> nat) option" where
  "last_ready only_seq0 idx [] found = found"
| "last_ready only_seq0 idx (e # es) found =
     last_ready only_seq0 (Suc idx) es
       (if ev_type e = LOADER_EVT_READY \<and> (only_seq0 \<longrightarrow> ev_seq e = 0) then Some (idx, ev_seq e, ev_offset e)
        else found)"

definition split_loader_session :: "event list \<Rightarrow> bool \<Rightarrow> loader_session" where
  "split_loader_session events require_ready_seq0 =
     (let first = last_ready True 0 events None;
          start = (if first = None \<and> \<not> require_ready_seq0 then last_ready False 0 events None else first)
      in case start of
        None \<Rightarrow> \<lparr>session_events = [], pre_session_frame_count = length events,
                 session_start_offset = None, session_ready_seq = None, session_start_not_found = True\<rparr>
      | Some (idx, seq, offset) \<Rightarrow>
          \<lparr>session_events = drop idx events, pre_session_frame_count = idx,
           session_start_offset = Some offset, session_ready_seq = Some seq, session_start_not_found = False\<rparr>)"

section \<open>Reducing a session\<close>

text \<open>The flags and counters the loop computes; the loop itself also keeps the seen sequence numbers.\<close>

record loader_flags =
  ready_seen :: bool
  load_start_seen :: bool
  read_ok_seen :: bool
  load_ok_seen :: bool
  jump_seen :: bool
  summary_seen :: bool
  summary_mask :: "byte option"
  bad_seen :: bool
  bad_code :: "byte option"
  bad_block :: "byte option"
  first_bad_event_offset :: "nat option"
  block_ack_events :: nat
  block_nack_events :: nat
  max_block_ack_arg :: "byte option"
  good_frames :: nat
  dropped_duplicates :: nat

record loader_loop = loader_flags +
  seen_seq :: "byte set"
  event_idx :: nat

definition loader_loop_init :: loader_loop where
  "loader_loop_init = \<lparr>ready_seen = False, load_start_seen = False, read_ok_seen = False, load_ok_seen = False,
     jump_seen = False, summary_seen = False, summary_mask = None, bad_seen = False, bad_code = None,
     bad_block = None, first_bad_event_offset = None, block_ack_events = 0, block_nack_events = 0,
     max_block_ack_arg = None, good_frames = 0, dropped_duplicates = 0, seen_seq = {}, event_idx = 0\<rparr>"

text \<open>The branches on the event type, for an event that is not a duplicate.\<close>

definition loader_dispatch :: "byte \<Rightarrow> byte \<Rightarrow> loader_loop \<Rightarrow> loader_loop" where
  "loader_dispatch evt_type evt_arg s =
     (if evt_type = LOADER_EVT_READY then s
      else if evt_type = LOADER_EVT_BOOT then s
      else if evt_type = LOADER_EVT_LOAD_START then s\<lparr>load_start_seen := True\<rparr>
      else if evt_type = LOADER_EVT_BLOCK_ACK then
        s\<lparr>block_ack_events := Suc (block_ack_events s),
          max_block_ack_arg := (case max_block_ack_arg s of
             None \<Rightarrow> Some evt_arg
           | Some m \<Rightarrow> if m < evt_arg then Some evt_arg else Some m)\<rparr>
      else if evt_type = LOADER_EVT_BLOCK_NACK then s\<lparr>block_nack_events := Suc (block_nack_events s)\<rparr>
      else if evt_type = LOADER_EVT_BLOCK_DATA_DONE then s
      else if evt_type = LOADER_EVT_BLOCK_CSUM_RX then s
      else if evt_type = LOADER_EVT_CHUNK_START then s
      else if evt_type = LOADER_EVT_CHUNK_PACKED then s
      else if evt_type = LOADER_EVT_CHUNK_STORED then s
      else if evt_type \<in> {LOADER_EVT_RX_ENTER, LOADER_EVT_RX_POLL, LOADER_EVT_RX_LSR} then s
      else if evt_type = LOADER_EVT_READ_OK then s\<lparr>read_ok_seen := True\<rparr>
      else if evt_type = LOADER_EVT_LOAD_OK then s\<lparr>load_ok_seen := True\<rparr>
      else if evt_type = LOADER_EVT_JUMP then s\<lparr>jump_seen := True\<rparr>
      else if evt_type = LOADER_EVT_SUMMARY then s\<lparr>summary_seen := True, summary_mask := Some evt_arg\<rparr>
      else s\<lparr>bad_seen := True, bad_code := Some evt_type, bad_block := Some evt_arg,
             first_bad_event_offset := (case first_bad_event_offset s of
                None \<Rightarrow> Some (event_idx s) | Some k \<Rightarrow> Some k)\<rparr>)"

text \<open>One iteration of \<^verbatim>\<open>for event_idx, (...) in enumerate(events)\<close>.\<close>

definition loader_event_step :: "bool \<Rightarrow> event \<Rightarrow> loader_loop \<Rightarrow> loader_loop" where
  "loader_event_step start_not_found e s =
     (let s1 = (if ev_type e = LOADER_EVT_READY then s\<lparr>ready_seen := True\<rparr> else s);
          s2 = (if start_not_found then s1
                else if ev_seq e \<in> seen_seq s1 then s1\<lparr>dropped_duplicates := Suc (dropped_duplicates s1)\<rparr>
                else loader_dispatch (ev_type e) (ev_arg e)
                  (s1\<lparr>seen_seq := insert (ev_seq e) (seen_seq s1), good_frames := Suc (good_frames s1)\<rparr>))
      in s2\<lparr>event_idx := Suc (event_idx s2)\<rparr>)"

record loader_result = loader_flags +
  summary_ok_seen :: bool
  bad_reason :: string
  bad_frames :: nat
  res_pre_session_frame_count :: nat
  res_session_start_offset :: "nat option"
  res_session_ready_seq :: "byte option"
  res_session_start_not_found :: bool
  decoded_text :: string
  passthrough_bytes :: bytes

text \<open>
  \<^verbatim>\<open>reduce_loader_events\<close> on a session record (the code passes its items one by one).  The
  caller adds \<^verbatim>\<open>passthrough_bytes\<close> to the dict, here the last argument.
\<close>

definition reduce_loader_events :: "loader_session \<Rightarrow> string list \<Rightarrow> nat \<Rightarrow> bytes \<Rightarrow> loader_result" where
  "reduce_loader_events session decoded_lines bad_frame_count passthrough =
     (let s = fold (loader_event_step (session_start_not_found session)) (session_events session) loader_loop_init
      in loader_flags.extend (loader_flags.truncate s)
          (loader_result.fields
            (loader_summary_ok (summary_mask s))
            (case bad_code s of Some c \<Rightarrow> if bad_seen s then loader_event_name c else ''none'' | None \<Rightarrow> ''none'')
            bad_frame_count
            (pre_session_frame_count session)
            (session_start_offset session)
            (session_ready_seq session)
            (session_start_not_found session)
            (render_lines decoded_lines)
            passthrough))"

text \<open>
  \<^verbatim>\<open>analyze_loader_beacon\<close>: a capture with events but no READY is analysed from its first event.
\<close>

definition loader_session_or_all :: "event list \<Rightarrow> loader_session" where
  "loader_session_or_all events =
     (let session = split_loader_session events False
      in if session_start_not_found session \<and> events \<noteq> [] then
           \<lparr>session_events = events, pre_session_frame_count = 0,
            session_start_offset = Some (ev_offset (hd events)), session_ready_seq = None,
            session_start_not_found = False\<rparr>
         else session)"

definition analyze_loader_beacon :: "bytes \<Rightarrow> loader_result" where
  "analyze_loader_beacon raw_bytes =
     (let decoded = decode_loader_beacon_frames loader_event_name raw_bytes
      in reduce_loader_events (loader_session_or_all (dec_events decoded)) (dec_lines decoded)
           (dec_bad_frames decoded) (dec_passthrough decoded))"

text \<open>The gate on a prefix of blocks.\<close>

definition loader_prefix_target_ok :: "loader_result \<Rightarrow> nat \<Rightarrow> bool" where
  "loader_prefix_target_ok r target \<longleftrightarrow>
     ready_seen r \<and> load_start_seen r \<and> target \<le> block_ack_events r
     \<and> (case max_block_ack_arg r of Some m \<Rightarrow> int target - 1 \<le> int (unat m) | None \<Rightarrow> False)
     \<and> block_nack_events r = 0 \<and> \<not> bad_seen r"

section \<open>Properties of the reduction\<close>

text \<open>Everything the loop computes but the fields that see duplicates.\<close>

definition loader_core :: "loader_loop \<Rightarrow> loader_loop" where
  "loader_core s = s\<lparr>ready_seen := False, first_bad_event_offset := None, dropped_duplicates := 0, event_idx := 0\<rparr>"

lemmas loader_step_simps = loader_event_step_def loader_dispatch_def Let_def

lemma loader_core_step: "loader_core (loader_event_step nf e (loader_core s)) = loader_core (loader_event_step nf e s)"
  by (simp add: loader_core_def loader_step_simps)

interpretation ldr: seq_dedup_loop "loader_event_step False" loader_core seen_seq
proof
  fix s s' :: loader_loop and e
  assume "loader_core s = loader_core s'"
  then show "loader_core (loader_event_step False e s) = loader_core (loader_event_step False e s')"
    by (metis loader_core_step)
next
  fix s :: loader_loop and e :: event
  assume "ev_seq e \<in> seen_seq (loader_core s)"
  then show "loader_core (loader_event_step False e s) = loader_core s"
    by (simp add: loader_core_def loader_event_step_def)
next
  fix s :: loader_loop and e :: event
  assume "ev_seq e \<notin> seen_seq (loader_core s)"
  then show "seen_seq (loader_core (loader_event_step False e s)) = insert (ev_seq e) (seen_seq (loader_core s))"
    by (simp add: loader_core_def loader_step_simps)
qed

text \<open>The last value a list of events reports for one event type.\<close>

definition last_arg :: "(event \<Rightarrow> bool) \<Rightarrow> event list \<Rightarrow> event option" where
  "last_arg P es = (if filter P es = [] then None else Some (last (filter P es)))"

lemma last_arg_snoc [simp]: "last_arg P (es @ [e]) = (if P e then Some e else last_arg P es)"
  by (simp add: last_arg_def)

lemma last_arg_Nil [simp]: "last_arg P [] = None"
  by (simp add: last_arg_def)

definition of_type :: "byte \<Rightarrow> event \<Rightarrow> bool" where
  "of_type t e \<longleftrightarrow> ev_type e = t"

text \<open>The event types the reduction knows to be harmless; any other type marks the session bad.\<close>

definition loader_known_types :: "byte list" where
  "loader_known_types =
     [LOADER_EVT_READY, LOADER_EVT_BOOT, LOADER_EVT_LOAD_START, LOADER_EVT_BLOCK_ACK, LOADER_EVT_BLOCK_NACK,
      LOADER_EVT_BLOCK_DATA_DONE, LOADER_EVT_BLOCK_CSUM_RX, LOADER_EVT_CHUNK_START, LOADER_EVT_CHUNK_PACKED,
      LOADER_EVT_CHUNK_STORED, LOADER_EVT_RX_ENTER, LOADER_EVT_RX_POLL, LOADER_EVT_RX_LSR, LOADER_EVT_READ_OK,
      LOADER_EVT_LOAD_OK, LOADER_EVT_JUMP, LOADER_EVT_SUMMARY]"

definition bad_event :: "event \<Rightarrow> bool" where
  "bad_event e \<longleftrightarrow> ev_type e \<notin> set loader_known_types"

abbreviation loader_fold :: "event list \<Rightarrow> loader_loop" where
  "loader_fold es \<equiv> fold (loader_event_step False) es loader_loop_init"

lemma loader_fold_seen: "seen_seq (loader_fold es) = ev_seq ` set es"
  using ldr.seen_fold [of es loader_loop_init] by (simp add: loader_core_def loader_loop_init_def)

lemma loader_init_flags:
  "\<not> load_start_seen loader_loop_init" "\<not> read_ok_seen loader_loop_init" "\<not> load_ok_seen loader_loop_init"
  "\<not> jump_seen loader_loop_init" "\<not> ready_seen loader_loop_init" "\<not> summary_seen loader_loop_init"
  "summary_mask loader_loop_init = None" "\<not> bad_seen loader_loop_init" "bad_code loader_loop_init = None"
  "block_ack_events loader_loop_init = 0" "block_nack_events loader_loop_init = 0"
  "good_frames loader_loop_init = 0" "dropped_duplicates loader_loop_init = 0"
  "max_block_ack_arg loader_loop_init = None"
  by (simp_all add: loader_loop_init_def)

text \<open>What one more event does: nothing but a count for a duplicate, its branch for a new one.\<close>

lemma loader_fold_snoc:
  "loader_fold (es @ [e]) =
     (let s = loader_fold es; s1 = (if ev_type e = LOADER_EVT_READY then s\<lparr>ready_seen := True\<rparr> else s) in
      (if ev_seq e \<in> ev_seq ` set es then s1\<lparr>dropped_duplicates := Suc (dropped_duplicates s1)\<rparr>
       else loader_dispatch (ev_type e) (ev_arg e)
         (s1\<lparr>seen_seq := insert (ev_seq e) (seen_seq s1), good_frames := Suc (good_frames s1)\<rparr>))
      \<lparr>event_idx := Suc (event_idx s)\<rparr>)"
  by (simp add: loader_event_step_def Let_def loader_fold_seen [symmetric] loader_dispatch_def)

lemma loader_fold_flags:
  defines "D \<equiv> first_per_seq {}"
  shows "load_start_seen (loader_fold es) \<longleftrightarrow> (\<exists>e \<in> set (D es). of_type LOADER_EVT_LOAD_START e)"
    and "read_ok_seen (loader_fold es) \<longleftrightarrow> (\<exists>e \<in> set (D es). of_type LOADER_EVT_READ_OK e)"
    and "load_ok_seen (loader_fold es) \<longleftrightarrow> (\<exists>e \<in> set (D es). of_type LOADER_EVT_LOAD_OK e)"
    and "jump_seen (loader_fold es) \<longleftrightarrow> (\<exists>e \<in> set (D es). of_type LOADER_EVT_JUMP e)"
    and "summary_mask (loader_fold es) = map_option ev_arg (last_arg (of_type LOADER_EVT_SUMMARY) (D es))"
    and "bad_seen (loader_fold es) \<longleftrightarrow> (\<exists>e \<in> set (D es). bad_event e)"
    and "bad_code (loader_fold es) = map_option ev_type (last_arg bad_event (D es))"
    and "block_ack_events (loader_fold es) = length (filter (of_type LOADER_EVT_BLOCK_ACK) (D es))"
    and "block_nack_events (loader_fold es) = length (filter (of_type LOADER_EVT_BLOCK_NACK) (D es))"
    and "good_frames (loader_fold es) = length (D es)"
    and "good_frames (loader_fold es) + dropped_duplicates (loader_fold es) = length es"
  by (induction es rule: rev_induct)
    (simp_all add: D_def loader_fold_snoc first_per_seq_snoc loader_init_flags Let_def loader_dispatch_def
      of_type_def bad_event_def loader_known_types_def del: fold_append)

lemma loader_fold_max_ack:
  "max_block_ack_arg (loader_fold es) = Some m \<Longrightarrow>
     \<exists>e \<in> set (first_per_seq {} es). of_type LOADER_EVT_BLOCK_ACK e \<and> ev_arg e = m"
  by (induction es arbitrary: m rule: rev_induct)
    (auto simp: loader_fold_snoc first_per_seq_snoc loader_init_flags Let_def loader_dispatch_def of_type_def
      split: option.splits if_splits simp del: fold_append)

lemma reduce_loader_fields:
  assumes "\<not> session_start_not_found S"
  shows "load_start_seen (reduce_loader_events S ls b pt) = load_start_seen (loader_fold (session_events S))"
    and "read_ok_seen (reduce_loader_events S ls b pt) = read_ok_seen (loader_fold (session_events S))"
    and "load_ok_seen (reduce_loader_events S ls b pt) = load_ok_seen (loader_fold (session_events S))"
    and "jump_seen (reduce_loader_events S ls b pt) = jump_seen (loader_fold (session_events S))"
    and "summary_mask (reduce_loader_events S ls b pt) = summary_mask (loader_fold (session_events S))"
    and "summary_ok_seen (reduce_loader_events S ls b pt)
           = loader_summary_ok (summary_mask (loader_fold (session_events S)))"
    and "bad_seen (reduce_loader_events S ls b pt) = bad_seen (loader_fold (session_events S))"
    and "bad_code (reduce_loader_events S ls b pt) = bad_code (loader_fold (session_events S))"
    and "bad_block (reduce_loader_events S ls b pt) = bad_block (loader_fold (session_events S))"
    and "block_ack_events (reduce_loader_events S ls b pt) = block_ack_events (loader_fold (session_events S))"
    and "block_nack_events (reduce_loader_events S ls b pt) = block_nack_events (loader_fold (session_events S))"
    and "max_block_ack_arg (reduce_loader_events S ls b pt) = max_block_ack_arg (loader_fold (session_events S))"
    and "good_frames (reduce_loader_events S ls b pt) = good_frames (loader_fold (session_events S))"
    and "dropped_duplicates (reduce_loader_events S ls b pt) = dropped_duplicates (loader_fold (session_events S))"
  using assms
  by (simp_all add: reduce_loader_events_def Let_def loader_flags.defs loader_result.defs)

text \<open>
  C17. What the reduction of a session says, in terms of the events without retransmissions (the
  first frame of each sequence number): a flag is set exactly when an event of its type is there,
  the summary mask is the last SUMMARY's argument, the counters count ACK and NACK events, and the
  session is bad exactly when an event of an unknown type is there.  Every frame is counted either
  as good or as a dropped duplicate.
\<close>

theorem reduce_loader_functional:
  assumes "\<not> session_start_not_found S"
  shows "let r = reduce_loader_events S ls b pt; D = first_per_seq {} (session_events S) in
      (load_start_seen r \<longleftrightarrow> list_ex (of_type LOADER_EVT_LOAD_START) D)
    \<and> (read_ok_seen r \<longleftrightarrow> list_ex (of_type LOADER_EVT_READ_OK) D)
    \<and> (load_ok_seen r \<longleftrightarrow> list_ex (of_type LOADER_EVT_LOAD_OK) D)
    \<and> (jump_seen r \<longleftrightarrow> list_ex (of_type LOADER_EVT_JUMP) D)
    \<and> summary_mask r = map_option ev_arg (last_arg (of_type LOADER_EVT_SUMMARY) D)
    \<and> (bad_seen r \<longleftrightarrow> list_ex bad_event D)
    \<and> bad_code r = map_option ev_type (last_arg bad_event D)
    \<and> block_ack_events r = length (filter (of_type LOADER_EVT_BLOCK_ACK) D)
    \<and> block_nack_events r = length (filter (of_type LOADER_EVT_BLOCK_NACK) D)
    \<and> good_frames r = length D
    \<and> good_frames r + dropped_duplicates r = length (session_events S)"
  using loader_fold_flags [of "session_events S"]
  by (simp add: Let_def reduce_loader_fields [OF assms] list_ex_iff)

definition sample_session :: loader_session where
  "sample_session =
     \<lparr>session_events = [(0, 0, LOADER_EVT_READY, 0), (5, 1, LOADER_EVT_LOAD_START, 0), (10, 1, LOADER_EVT_LOAD_START, 0),
        (15, 2, LOADER_EVT_BLOCK_ACK, 0), (20, 3, LOADER_EVT_SUMMARY, 0x1F)],
      pre_session_frame_count = 0, session_start_offset = Some 0, session_ready_seq = Some 0,
      session_start_not_found = False\<rparr>"

lemma reduce_loader_functional_witness:
  "dropped_duplicates (reduce_loader_events sample_session [] 0 []) = 1
   \<and> block_ack_events (reduce_loader_events sample_session [] 0 []) = 1"
  using reduce_loader_functional [of sample_session "[]" 0 "[]"]
  by (simp add: sample_session_def Let_def of_type_def)

text \<open>The fields of the result a caller judges a session by.\<close>

definition loader_verdict where
  "loader_verdict r = (load_start_seen r, read_ok_seen r, load_ok_seen r, jump_seen r, summary_mask r,
     summary_ok_seen r, bad_seen r, bad_code r, bad_block r, block_ack_events r, block_nack_events r,
     max_block_ack_arg r, good_frames r)"

lemma loader_core_fields:
  assumes "loader_core s = loader_core t"
  shows "load_start_seen s = load_start_seen t" "read_ok_seen s = read_ok_seen t"
    "load_ok_seen s = load_ok_seen t" "jump_seen s = jump_seen t" "summary_mask s = summary_mask t"
    "bad_seen s = bad_seen t" "bad_code s = bad_code t" "bad_block s = bad_block t"
    "block_ack_events s = block_ack_events t" "block_nack_events s = block_nack_events t"
    "max_block_ack_arg s = max_block_ack_arg t" "good_frames s = good_frames t"
  using assms by (cases s; cases t; simp add: loader_core_def)+

text \<open>
  Retransmission does not change the verdict: appending frames whose sequence numbers the
  session already has leaves every verdict field of the reduction as it was.
\<close>

theorem reduce_loader_resend:
  assumes "\<not> session_start_not_found S"
    and "set (map ev_seq fs) \<subseteq> set (map ev_seq (session_events S))"
  shows "loader_verdict (reduce_loader_events (S\<lparr>session_events := session_events S @ fs\<rparr>) ls b pt)
       = loader_verdict (reduce_loader_events S ls b pt)"
proof -
  have core: "loader_core (loader_fold (session_events S @ fs)) = loader_core (loader_fold (session_events S))"
    by (rule ldr.fold_resend) (use assms(2) in auto)
  show ?thesis
    using assms(1) loader_core_fields [OF core]
    by (simp add: loader_verdict_def reduce_loader_fields del: fold_append)
qed

lemma reduce_loader_resend_witness:
  "loader_verdict (reduce_loader_events
       (sample_session\<lparr>session_events := session_events sample_session @ [(40, 2, LOADER_EVT_BLOCK_ACK, 0)]\<rparr>) [] 0 [])
     = loader_verdict (reduce_loader_events sample_session [] 0 [])"
  using reduce_loader_resend [of sample_session "[(40, 2, LOADER_EVT_BLOCK_ACK, 0)]" "[]" 0 "[]"]
  by (simp add: sample_session_def)

text \<open>
  The sequence number is one byte and never forgotten, so a session has at most 256 good
  frames, however long it is: as many as it has different sequence numbers.
\<close>

theorem reduce_loader_frame_bound:
  "good_frames (reduce_loader_events S ls b pt)
     = (if session_start_not_found S then 0 else card (set (map ev_seq (session_events S))))
   \<and> good_frames (reduce_loader_events S ls b pt) \<le> 256"
proof (cases "session_start_not_found S")
  case True
  have "good_frames (fold (loader_event_step True) es s) = good_frames s" for es s
    by (induction es arbitrary: s) (simp_all add: loader_event_step_def)
  with True show ?thesis
    by (simp add: reduce_loader_events_def Let_def loader_flags.defs loader_result.defs loader_init_flags)
next
  case False
  then show ?thesis
    by (simp add: reduce_loader_fields loader_fold_flags length_first_per_seq card_bytes)
qed

section \<open>The prefix gate\<close>

lemma prefix_gate_content:
  assumes "\<not> session_start_not_found S"
    and "loader_prefix_target_ok (reduce_loader_events S ls b pt) target"
  shows "let D = first_per_seq {} (session_events S) in
      target \<le> length (filter (of_type LOADER_EVT_BLOCK_ACK) D)
    \<and> (\<exists>e \<in> set D. of_type LOADER_EVT_BLOCK_ACK e \<and> target \<le> Suc (unat (ev_arg e)))
    \<and> list_ex (of_type LOADER_EVT_LOAD_START) D
    \<and> \<not> list_ex (of_type LOADER_EVT_BLOCK_NACK) D \<and> \<not> list_ex bad_event D"
proof -
  let ?D = "first_per_seq {} (session_events S)"
  from assms obtain m where m: "max_block_ack_arg (loader_fold (session_events S)) = Some m"
    and "target \<le> Suc (unat m)"
    by (auto simp: loader_prefix_target_ok_def reduce_loader_fields split: option.splits)
  with loader_fold_max_ack [OF m]
  have "\<exists>e \<in> set ?D. of_type LOADER_EVT_BLOCK_ACK e \<and> target \<le> Suc (unat (ev_arg e))"
    by blast
  moreover have "\<not> list_ex (of_type LOADER_EVT_BLOCK_NACK) ?D"
    using assms(2) by (simp add: loader_prefix_target_ok_def reduce_loader_fields [OF assms(1)]
        loader_fold_flags filter_empty_conv list_ex_iff)
  ultimately show ?thesis
    using assms(2) loader_fold_flags [of "session_events S"]
    by (simp add: loader_prefix_target_ok_def reduce_loader_fields [OF assms(1)] list_ex_iff Let_def)
qed

text \<open>
  C13. The gate on a prefix of blocks is sound: when it accepts \<^term>\<open>target\<close> blocks, the session
  really has that many BLOCK ACK events with different sequence numbers, one of them for the last
  block of the prefix (or a later one), a LOAD START, and neither a NACK nor an unknown event.
\<close>

theorem prefix_target_ok_sound:
  assumes "\<not> session_start_not_found S"
    and "loader_prefix_target_ok (reduce_loader_events S ls b pt) target"
  shows "let D = first_per_seq {} (session_events S) in
      target \<le> length (filter (of_type LOADER_EVT_BLOCK_ACK) D)
    \<and> (\<exists>e \<in> set D. of_type LOADER_EVT_BLOCK_ACK e \<and> target \<le> Suc (unat (ev_arg e)))
    \<and> list_ex (of_type LOADER_EVT_LOAD_START) D
    \<and> \<not> list_ex (of_type LOADER_EVT_BLOCK_NACK) D \<and> \<not> list_ex bad_event D"
  using assms by (rule prefix_gate_content)

lemma prefix_target_ok_sound_witness:
  "loader_prefix_target_ok (reduce_loader_events sample_session [] 0 []) 1
   \<and> \<not> list_ex bad_event (first_per_seq {} (session_events sample_session))"
proof -
  have ok: "loader_prefix_target_ok (reduce_loader_events sample_session [] 0 []) 1"
    by (simp add: loader_prefix_target_ok_def reduce_loader_events_def Let_def loader_flags.defs loader_result.defs
        sample_session_def loader_step_simps loader_loop_init_def)
  show ?thesis
    using ok prefix_target_ok_sound [OF _ ok] by (simp add: sample_session_def Let_def)
qed

section \<open>The choice of the session\<close>

definition ready_event :: "bool \<Rightarrow> event \<Rightarrow> bool" where
  "ready_event only_seq0 e \<longleftrightarrow> ev_type e = LOADER_EVT_READY \<and> (only_seq0 \<longrightarrow> ev_seq e = 0)"

lemma last_ready_None: "last_ready o0 idx es found = None \<longleftrightarrow> found = None \<and> \<not> list_ex (ready_event o0) es"
  by (induction es arbitrary: idx found) (auto simp: ready_event_def)

lemma last_ready_Some:
  "last_ready o0 idx es found = Some (k, seq, off) \<Longrightarrow>
     (found = Some (k, seq, off) \<and> \<not> list_ex (ready_event o0) es)
   \<or> (\<exists>pre e post. es = pre @ e # post \<and> k = idx + length pre \<and> ready_event o0 e \<and> ev_seq e = seq
        \<and> ev_offset e = off \<and> \<not> list_ex (ready_event o0) post)"
proof (induction es arbitrary: idx found)
  case (Cons e es)
  let ?found = "if ready_event o0 e then Some (idx, ev_seq e, ev_offset e) else found"
  have "last_ready o0 (Suc idx) es ?found = Some (k, seq, off)"
    using Cons.prems by (simp add: ready_event_def)
  from Cons.IH [OF this] show ?case
  proof (elim disjE conjE exE)
    assume "?found = Some (k, seq, off)" "\<not> list_ex (ready_event o0) es"
    then show ?thesis
    proof (cases "ready_event o0 e")
      case True
      with \<open>?found = _\<close> \<open>\<not> list_ex (ready_event o0) es\<close> show ?thesis
        by (intro disjI2 exI [of _ "[]"] exI [of _ e] exI [of _ es]) simp
    qed simp
  next
    fix pre e' post
    assume "es = pre @ e' # post" "k = Suc idx + length pre" "ready_event o0 e'" "ev_seq e' = seq"
      "ev_offset e' = off" "\<not> list_ex (ready_event o0) post"
    then show ?thesis
      by (intro disjI2 exI [of _ "e # pre"] exI [of _ e'] exI [of _ post]) simp
  qed
qed simp

lemma split_found:
  assumes "last_ready o0 0 es None = Some (k, seq, off)"
  obtains pre e post where "es = pre @ e # post" "k = length pre" "ready_event o0 e" "ev_seq e = seq"
    "ev_offset e = off" "\<not> list_ex (ready_event o0) post"
  using last_ready_Some [OF assms] by auto

text \<open>
  The session is a suffix of the capture that starts at the last READY with sequence number
  zero; only where there is none, and the caller allows it, at the last READY of any number.  The
  counted frames before it are exactly the rest, and \<^verbatim>\<open>session_start_not_found\<close> is set exactly
  when no acceptable READY exists.
\<close>

theorem split_loader_session_spec:
  "let S = split_loader_session es require_seq0 in
     take (pre_session_frame_count S) es @ session_events S = es
   \<and> (session_start_not_found S \<longleftrightarrow> \<not> list_ex (ready_event require_seq0) es)
   \<and> (list_ex (ready_event require_seq0) es \<longrightarrow>
       (\<exists>e post. session_events S = e # post \<and> ready_event False e
          \<and> session_start_offset S = Some (ev_offset e) \<and> session_ready_seq S = Some (ev_seq e)
          \<and> \<not> list_ex (ready_event True) post
          \<and> (if list_ex (ready_event True) es then ev_seq e = 0 else \<not> list_ex (ready_event False) post)))"
proof (cases "last_ready True 0 es None")
  case (Some t)
  obtain k seq off where t: "t = (k, seq, off)" by (cases t)
  from Some t obtain pre e post where *: "es = pre @ e # post" "k = length pre" "ready_event True e"
    "ev_seq e = seq" "ev_offset e = off" "\<not> list_ex (ready_event True) post"
    by (auto elim: split_found)
  then have "ready_event False e" "ready_event require_seq0 e" "seq = 0"
    by (auto simp: ready_event_def)
  with * Some t show ?thesis
    by (cases e) (simp add: split_loader_session_def Let_def)
next
  case None
  then have none: "\<not> list_ex (ready_event True) es"
    by (simp add: last_ready_None)
  show ?thesis
  proof (cases "last_ready False 0 es None")
    case (Some t)
    obtain k seq off where t: "t = (k, seq, off)" by (cases t)
    from Some t obtain pre e post where *: "es = pre @ e # post" "k = length pre" "ready_event False e"
      "ev_seq e = seq" "ev_offset e = off" "\<not> list_ex (ready_event False) post"
      by (auto elim: split_found)
    with None none Some t show ?thesis
      by (cases e; cases require_seq0) (simp_all add: split_loader_session_def Let_def)
  next
    case False: None
    then have "\<not> list_ex (ready_event False) es"
      by (simp add: last_ready_None)
    with None none False show ?thesis
      by (cases require_seq0) (simp_all add: split_loader_session_def Let_def)
  qed
qed

lemma split_loader_session_spec_witness:
  "session_ready_seq (split_loader_session [(0, 0, LOADER_EVT_READY, 0), (9, 0, LOADER_EVT_READY, 7)] True) = Some 0
   \<and> pre_session_frame_count (split_loader_session [(0, 0, LOADER_EVT_READY, 0), (9, 0, LOADER_EVT_READY, 7)] True) = 1"
  using split_loader_session_spec [of "[(0, 0, LOADER_EVT_READY, 0), (9, 0, LOADER_EVT_READY, 7)]" True]
  by (simp add: split_loader_session_def)

end
