(* ===== verification/EarlyAudit.thy ===== *)
theory EarlyAudit
  imports LoaderEvents "HOL-Library.List_Lexorder"
begin

unbundle bit_operations_syntax

text \<open>
  The early audit of \<^verbatim>\<open>run_fpga_benchmark_ddr3.py\<close>: the reduction of an early-audit session
  (\<^verbatim>\<open>reduce_loader_early_audit_events\<close>), the validator of the event order, the summary and
  classification of one session, the grouping of a capture into sessions, and the choice of the
  session that got furthest.
\<close>

section \<open>Reducing a session\<close>

record early_flags =
  ea_header_bytes :: "byte option list"
  ea_ready_seen :: bool
  ea_idle_ok_seen :: bool
  ea_train_start_seen :: bool
  ea_train_done_seen :: bool
  ea_train_done_count :: "byte option"
  ea_flush_done_seen :: bool
  ea_flush_done_count :: "byte option"
  ea_header_enter_seen :: bool
  ea_train_timeout_seen :: bool
  ea_train_timeout_count :: "byte option"
  ea_flush_timeout_seen :: bool
  ea_flush_timeout_count :: "byte option"
  ea_header_magic_ok :: bool
  ea_load_start_seen :: bool
  ea_first_block_ack_seen :: bool
  ea_summary_seen :: bool
  ea_summary_mask :: "byte option"
  ea_bad_magic_seen :: bool
  ea_bad_magic_byte_index :: "byte option"
  ea_bad_seen :: bool
  ea_bad_code :: "byte option"
  ea_good_frames :: nat
  ea_dropped_duplicates :: nat

record early_loop = early_flags +
  ea_seen_seq :: "byte set"

definition early_loop_init :: early_loop where
  "early_loop_init = \<lparr>ea_header_bytes = [None, None, None, None], ea_ready_seen = False, ea_idle_ok_seen = False,
     ea_train_start_seen = False, ea_train_done_seen = False, ea_train_done_count = None, ea_flush_done_seen = False,
     ea_flush_done_count = None, ea_header_enter_seen = False, ea_train_timeout_seen = False,
     ea_train_timeout_count = None, ea_flush_timeout_seen = False, ea_flush_timeout_count = None,
     ea_header_magic_ok = False, ea_load_start_seen = False, ea_first_block_ack_seen = False,
     ea_summary_seen = False, ea_summary_mask = None, ea_bad_magic_seen = False, ea_bad_magic_byte_index = None,
     ea_bad_seen = False, ea_bad_code = None, ea_good_frames = 0, ea_dropped_duplicates = 0, ea_seen_seq = {}\<rparr>"

text \<open>The event types that mark a session bad without further detail.\<close>

definition early_bad_types :: "byte list" where
  "early_bad_types =
     [LOADER_EVT_BLOCK_NACK, LOADER_EVT_CAL_FAIL, LOADER_EVT_CHECKSUM_FAIL, LOADER_EVT_READBACK_FAIL,
      LOADER_EVT_READBACK_BLOCK_FAIL, LOADER_EVT_RX_OVERRUN, LOADER_EVT_RX_FRAME_ERR, LOADER_EVT_DRAIN_TIMEOUT,
      LOADER_EVT_SIZE_TOO_BIG]"

definition early_dispatch :: "byte \<Rightarrow> byte \<Rightarrow> early_loop \<Rightarrow> early_loop" where
  "early_dispatch evt_type evt_arg s =
     (if evt_type = LOADER_EA_EVT_HDR_B0_RX then s\<lparr>ea_header_bytes := (ea_header_bytes s)[0 := Some evt_arg]\<rparr>
      else if evt_type = LOADER_EA_EVT_IDLE_OK then s\<lparr>ea_idle_ok_seen := True\<rparr>
      else if evt_type = LOADER_EA_EVT_TRAIN_START then s\<lparr>ea_train_start_seen := True\<rparr>
      else if evt_type = LOADER_EA_EVT_TRAIN_DONE then
        s\<lparr>ea_train_done_seen := True, ea_train_done_count := Some evt_arg\<rparr>
      else if evt_type = LOADER_EA_EVT_FLUSH_DONE then
        s\<lparr>ea_flush_done_seen := True, ea_flush_done_count := Some evt_arg\<rparr>
      else if evt_type = LOADER_EA_EVT_HEADER_ENTER then s\<lparr>ea_header_enter_seen := True\<rparr>
      else if evt_type = LOADER_EA_EVT_HDR_B1_RX then s\<lparr>ea_header_bytes := (ea_header_bytes s)[1 := Some evt_arg]\<rparr>
      else if evt_type = LOADER_EA_EVT_HDR_B2_RX then s\<lparr>ea_header_bytes := (ea_header_bytes s)[2 := Some evt_arg]\<rparr>
      else if evt_type = LOADER_EA_EVT_HDR_B3_RX then s\<lparr>ea_header_bytes := (ea_header_bytes s)[3 := Some evt_arg]\<rparr>
      else if evt_type = LOADER_EA_EVT_HDR_MAGIC_OK then s\<lparr>ea_header_magic_ok := True\<rparr>
      else if evt_type = LOADER_EVT_LOAD_START then s\<lparr>ea_load_start_seen := True\<rparr>
      else if evt_type = LOADER_EVT_BLOCK_ACK \<and> evt_arg = 0 then s\<lparr>ea_first_block_ack_seen := True\<rparr>
      else if evt_type = LOADER_EVT_BAD_MAGIC then
        s\<lparr>ea_bad_magic_seen := True, ea_bad_magic_byte_index := Some evt_arg, ea_bad_seen := True,
          ea_bad_code := Some evt_type\<rparr>
      else if evt_type = LOADER_EA_EVT_TRAIN_TIMEOUT then
        s\<lparr>ea_train_timeout_seen := True, ea_train_timeout_count := Some evt_arg, ea_bad_seen := True,
          ea_bad_code := Some evt_type\<rparr>
      else if evt_type = LOADER_EA_EVT_FLUSH_TIMEOUT then
        s\<lparr>ea_flush_timeout_seen := True, ea_flush_timeout_count := Some evt_arg, ea_bad_seen := True,
          ea_bad_code := Some evt_type\<rparr>
      else if evt_type = LOADER_EVT_SUMMARY then s\<lparr>ea_summary_seen := True, ea_summary_mask := Some evt_arg\<rparr>
      else if evt_type = LOADER_EVT_TRAP then s\<lparr>ea_bad_seen := True, ea_bad_code := Some evt_type\<rparr>
      else if evt_type \<in> set early_bad_types then s\<lparr>ea_bad_seen := True, ea_bad_code := Some evt_type\<rparr>
      else s)"

definition early_event_step :: "bool \<Rightarrow> event \<Rightarrow> early_loop \<Rightarrow> early_loop" where
  "early_event_step start_not_found e s =
     (let s1 = (if ev_type e = LOADER_EVT_READY then s\<lparr>ea_ready_seen := True\<rparr> else s) in
      if start_not_found then s1
      else if ev_seq e \<in> ea_seen_seq s1 then s1\<lparr>ea_dropped_duplicates := Suc (ea_dropped_duplicates s1)\<rparr>
      else early_dispatch (ev_type e) (ev_arg e)
        (s1\<lparr>ea_seen_seq := insert (ev_seq e) (ea_seen_seq s1), ea_good_frames := Suc (ea_good_frames s1)\<rparr>))"

record early_result = early_flags +
  ea_summary_ok_seen :: bool
  ea_bad_reason :: string
  ea_bad_frames :: nat
  ea_session :: loader_session
  ea_decoded_text :: string

text \<open>
  The dict repeats the session's four items; here the session record is kept whole
  (its \<^verbatim>\<open>session_events\<close> are not part of the dict).
\<close>

definition reduce_loader_early_audit_events :: "loader_session \<Rightarrow> string list \<Rightarrow> nat \<Rightarrow> early_result" where
  "reduce_loader_early_audit_events session decoded_lines bad_frame_count =
     (let s = fold (early_event_step (session_start_not_found session)) (session_events session) early_loop_init
      in early_flags.extend (early_flags.truncate s)
          (early_result.fields
            (loader_early_audit_summary_ok (ea_summary_mask s))
            (case ea_bad_code s of Some c \<Rightarrow> loader_event_name c | None \<Rightarrow> ''none'')
            bad_frame_count
            session
            (render_lines decoded_lines)))"

section \<open>The order validator\<close>

definition order_singletons :: "byte list" where
  "order_singletons =
     [LOADER_EVT_READY, LOADER_EA_EVT_IDLE_OK, LOADER_EA_EVT_TRAIN_START, LOADER_EA_EVT_TRAIN_DONE,
      LOADER_EA_EVT_TRAIN_TIMEOUT, LOADER_EA_EVT_FLUSH_DONE, LOADER_EA_EVT_FLUSH_TIMEOUT,
      LOADER_EA_EVT_HEADER_ENTER, LOADER_EA_EVT_HDR_MAGIC_OK, LOADER_EVT_LOAD_START, LOADER_EVT_SUMMARY]"

text \<open>The checks of one iteration, in the code's order, after \<^term>\<open>seen\<close> was updated.\<close>

definition order_check :: "byte set \<Rightarrow> byte \<Rightarrow> string option" where
  "order_check seen t =
     (if t = LOADER_EA_EVT_TRAIN_DONE \<and> LOADER_EA_EVT_TRAIN_START \<notin> seen
        then Some ''train_done_before_train_start''
      else if t = LOADER_EA_EVT_TRAIN_TIMEOUT \<and> LOADER_EA_EVT_TRAIN_START \<notin> seen
        then Some ''train_timeout_before_train_start''
      else if t = LOADER_EA_EVT_FLUSH_DONE
          \<and> \<not> (LOADER_EA_EVT_TRAIN_DONE \<in> seen \<or> LOADER_EA_EVT_TRAIN_TIMEOUT \<in> seen)
        then Some ''flush_done_before_train_done''
      else if t = LOADER_EA_EVT_FLUSH_TIMEOUT
          \<and> \<not> (LOADER_EA_EVT_TRAIN_DONE \<in> seen \<or> LOADER_EA_EVT_TRAIN_TIMEOUT \<in> seen)
        then Some ''flush_timeout_before_train_done''
      else if t = LOADER_EA_EVT_HEADER_ENTER
          \<and> \<not> (LOADER_EA_EVT_FLUSH_DONE \<in> seen \<or> LOADER_EA_EVT_FLUSH_TIMEOUT \<in> seen)
        then Some ''header_enter_before_flush_done''
      else if t = LOADER_EA_EVT_HDR_B0_RX \<and> LOADER_EA_EVT_HEADER_ENTER \<notin> seen
        then Some ''hdr_b0_before_header_enter''
      else if t = LOADER_EA_EVT_HDR_B1_RX \<and> LOADER_EA_EVT_HDR_B0_RX \<notin> seen
        then Some ''hdr_b1_before_hdr_b0''
      else if t = LOADER_EA_EVT_HDR_B2_RX \<and> LOADER_EA_EVT_HDR_B1_RX \<notin> seen
        then Some ''hdr_b2_before_hdr_b1''
      else if t = LOADER_EA_EVT_HDR_B3_RX \<and> LOADER_EA_EVT_HDR_B2_RX \<notin> seen
        then Some ''hdr_b3_before_hdr_b2''
      else if t = LOADER_EA_EVT_HDR_MAGIC_OK \<and> LOADER_EA_EVT_HDR_B3_RX \<notin> seen
        then Some ''hdr_magic_ok_before_hdr_b3''
      else if t = LOADER_EVT_LOAD_START \<and> LOADER_EA_EVT_HDR_MAGIC_OK \<notin> seen
        then Some ''load_start_before_hdr_magic_ok''
      else if t = LOADER_EVT_BLOCK_ACK \<and> LOADER_EVT_LOAD_START \<notin> seen
        then Some ''block_ack_before_load_start''
      else None)"

fun validate_order :: "byte set \<Rightarrow> event list \<Rightarrow> bool \<times> string" where
  "validate_order seen [] = (True, [])"
| "validate_order seen (e # es) =
     (let t = ev_type e in
      if t \<in> set order_singletons \<and> t \<in> seen then (False, ''duplicate_'' @ loader_event_name t)
      else let seen' = (if t \<in> set order_singletons then insert t seen else seen) in
        case order_check seen' t of
          Some err \<Rightarrow> (False, err)
        | None \<Rightarrow> validate_order seen' es)"

definition validate_loader_early_audit_session_order :: "event list \<Rightarrow> bool \<times> string" where
  "validate_loader_early_audit_session_order dedup_events = validate_order {} dedup_events"

section \<open>The summary of one session\<close>

record session_loop =
  sl_seen_seq :: "byte set"
  sl_dedup_events :: "event list"
  sl_header_bytes :: "byte option list"
  sl_bad_magic_seen :: bool
  sl_bad_magic_byte_index :: "byte option"
  sl_summary_mask :: "byte option"
  sl_bad_code :: "byte option"
  sl_idle_ok_seen :: bool
  sl_train_start_seen :: bool
  sl_train_done_seen :: bool
  sl_train_done_count :: "byte option"
  sl_flush_done_seen :: bool
  sl_flush_done_count :: "byte option"
  sl_header_enter_seen :: bool
  sl_train_timeout_seen :: bool
  sl_train_timeout_count :: "byte option"
  sl_flush_timeout_seen :: bool
  sl_flush_timeout_count :: "byte option"
  sl_ready_arg :: "byte option"

definition session_loop_init :: session_loop where
  "session_loop_init = \<lparr>sl_seen_seq = {}, sl_dedup_events = [], sl_header_bytes = [None, None, None, None],
     sl_bad_magic_seen = False, sl_bad_magic_byte_index = None, sl_summary_mask = None, sl_bad_code = None,
     sl_idle_ok_seen = False, sl_train_start_seen = False, sl_train_done_seen = False, sl_train_done_count = None,
     sl_flush_done_seen = False, sl_flush_done_count = None, sl_header_enter_seen = False,
     sl_train_timeout_seen = False, sl_train_timeout_count = None, sl_flush_timeout_seen = False,
     sl_flush_timeout_count = None, sl_ready_arg = None\<rparr>"

definition session_dispatch :: "byte \<Rightarrow> byte \<Rightarrow> session_loop \<Rightarrow> session_loop" where
  "session_dispatch evt_type evt_arg s =
     (if evt_type = LOADER_EVT_READY then s\<lparr>sl_ready_arg := Some evt_arg\<rparr>
      else if evt_type = LOADER_EA_EVT_IDLE_OK then s\<lparr>sl_idle_ok_seen := True\<rparr>
      else if evt_type = LOADER_EA_EVT_TRAIN_START then s\<lparr>sl_train_start_seen := True\<rparr>
      else if evt_type = LOADER_EA_EVT_TRAIN_DONE then
        s\<lparr>sl_train_done_seen := True, sl_train_done_count := Some evt_arg\<rparr>
      else if evt_type = LOADER_EA_EVT_FLUSH_DONE then
        s\<lparr>sl_flush_done_seen := True, sl_flush_done_count := Some evt_arg\<rparr>
      else if evt_type = LOADER_EA_EVT_HEADER_ENTER then s\<lparr>sl_header_enter_seen := True\<rparr>
      else if evt_type = LOADER_EA_EVT_HDR_B0_RX then s\<lparr>sl_header_bytes := (sl_header_bytes s)[0 := Some evt_arg]\<rparr>
      else if evt_type = LOADER_EA_EVT_HDR_B1_RX then s\<lparr>sl_header_bytes := (sl_header_bytes s)[1 := Some evt_arg]\<rparr>
      else if evt_type = LOADER_EA_EVT_HDR_B2_RX then s\<lparr>sl_header_bytes := (sl_header_bytes s)[2 := Some evt_arg]\<rparr>
      else if evt_type = LOADER_EA_EVT_HDR_B3_RX then s\<lparr>sl_header_bytes := (sl_header_bytes s)[3 := Some evt_arg]\<rparr>
      else if evt_type = LOADER_EVT_BAD_MAGIC then
        s\<lparr>sl_bad_magic_seen := True, sl_bad_magic_byte_index := Some evt_arg, sl_bad_code := Some evt_type\<rparr>
      else if evt_type = LOADER_EA_EVT_TRAIN_TIMEOUT then
        s\<lparr>sl_train_timeout_seen := True, sl_train_timeout_count := Some evt_arg, sl_bad_code := Some evt_type\<rparr>
      else if evt_type = LOADER_EA_EVT_FLUSH_TIMEOUT then
        s\<lparr>sl_flush_timeout_seen := True, sl_flush_timeout_count := Some evt_arg, sl_bad_code := Some evt_type\<rparr>
      else if evt_type = LOADER_EVT_SUMMARY then s\<lparr>sl_summary_mask := Some evt_arg\<rparr>
      else if evt_type = LOADER_EVT_TRAP then s\<lparr>sl_bad_code := Some evt_type\<rparr>
      else if evt_type \<in> set early_bad_types then s\<lparr>sl_bad_code := Some evt_type\<rparr>
      else s)"

definition session_event_step :: "event \<Rightarrow> session_loop \<Rightarrow> session_loop" where
  "session_event_step e s =
     (if ev_seq e \<in> sl_seen_seq s then s
      else session_dispatch (ev_type e) (ev_arg e)
        (s\<lparr>sl_seen_seq := insert (ev_seq e) (sl_seen_seq s), sl_dedup_events := sl_dedup_events s @ [e]\<rparr>))"

definition any_type :: "byte \<Rightarrow> event list \<Rightarrow> bool" where
  "any_type t es \<longleftrightarrow> list_ex (\<lambda>e. ev_type e = t) es"

definition header_rx_types :: "byte list" where
  "header_rx_types =
     [LOADER_EA_EVT_HDR_B0_RX, LOADER_EA_EVT_HDR_B1_RX, LOADER_EA_EVT_HDR_B2_RX, LOADER_EA_EVT_HDR_B3_RX]"

definition header_rx_count :: "event list \<Rightarrow> nat" where
  "header_rx_count es = length (filter (\<lambda>e. ev_type e \<in> set header_rx_types) es)"

definition first_block_acked :: "event list \<Rightarrow> bool" where
  "first_block_acked es \<longleftrightarrow> list_ex (\<lambda>e. ev_type e = LOADER_EVT_BLOCK_ACK \<and> ev_arg e = 0) es"

text \<open>The chain of \<^verbatim>\<open>elif\<close>s that names what happened in the session.\<close>

definition classify_session :: "session_loop \<Rightarrow> bool \<Rightarrow> string" where
  "classify_session s event_order_valid =
     (let es = sl_dedup_events s;
          header_magic_ok = any_type LOADER_EA_EVT_HDR_MAGIC_OK es;
          load_started = any_type LOADER_EVT_LOAD_START es;
          rx_count = header_rx_count es;
          b0 = sl_header_bytes s ! 0;
          b1 = sl_header_bytes s ! 1
      in if es = [] then ''empty_session''
         else if \<not> event_order_valid then ''beacon_transport_corruption''
         else if header_magic_ok \<and> load_started \<and> first_block_acked es
             \<and> loader_early_audit_summary_ok (sl_summary_mask s) then ''pass''
         else if sl_train_timeout_seen s then ''train_timeout''
         else if sl_flush_timeout_seen s then ''flush_timeout''
         else if any_type LOADER_EVT_RX_OVERRUN es \<and> \<not> header_magic_ok then ''rx_overrun_before_magic_complete''
         else if b0 \<in> {Some 0x00, Some 0x4D, Some 0x4B} \<or> b1 = Some 0x31 then ''leading_zero_or_shifted_magic''
         else if sl_bad_code s = Some LOADER_EVT_TRAP then ''trap_fail''
         else if sl_bad_magic_seen s then ''magic_byte_fail''
         else if sl_header_enter_seen s \<and> rx_count = 0 then ''stuck_before_header_byte0''
         else if 0 < rx_count \<and> \<not> header_magic_ok then ''magic_byte_fail''
         else if sl_flush_done_seen s \<and> \<not> sl_header_enter_seen s then ''stuck_in_flush''
         else if sl_train_done_seen s \<and> \<not> (sl_flush_done_seen s \<or> sl_flush_timeout_seen s) then ''stuck_in_flush''
         else if sl_train_start_seen s \<and> \<not> (sl_train_done_seen s \<or> sl_train_timeout_seen s) then ''stuck_in_train''
         else if sl_idle_ok_seen s \<and> \<not> sl_train_start_seen s then ''stuck_in_train''
         else if sl_summary_mask s \<noteq> None then ''ready_then_summary_only''
         else if \<not> sl_idle_ok_seen s then ''stuck_before_idle_ok''
         else ''other'')"

record early_session =
  es_session_index :: nat
  es_start_offset :: "nat option"
  es_ready_seq :: "byte option"
  es_first_event_types :: "string list"
  es_loop :: session_loop
  es_header_magic_ok :: bool
  es_load_start_seen :: bool
  es_first_block_ack_seen :: bool
  es_event_count :: nat
  es_classification :: string
  es_event_order_valid :: bool
  es_event_order_error :: string

text \<open>
  The dict repeats the loop's variables under their own names; here \<^term>\<open>es_loop\<close> holds them.
\<close>

definition summarize_loader_early_audit_session :: "event list \<Rightarrow> nat \<Rightarrow> early_session" where
  "summarize_loader_early_audit_session events session_index =
     (let s = fold session_event_step events session_loop_init;
          dedup = sl_dedup_events s;
          order = validate_loader_early_audit_session_order dedup
      in \<lparr>es_session_index = session_index,
          es_start_offset = (case dedup of [] \<Rightarrow> None | e # _ \<Rightarrow> Some (ev_offset e)),
          es_ready_seq = (case dedup of [] \<Rightarrow> None | e # _ \<Rightarrow> Some (ev_seq e)),
          es_first_event_types = map (\<lambda>e. loader_event_name (ev_type e)) (take 8 dedup),
          es_loop = s,
          es_header_magic_ok = any_type LOADER_EA_EVT_HDR_MAGIC_OK dedup,
          es_load_start_seen = any_type LOADER_EVT_LOAD_START dedup,
          es_first_block_ack_seen = first_block_acked dedup,
          es_event_count = length dedup,
          es_classification = classify_session s (fst order),
          es_event_order_valid = fst order,
          es_event_order_error = snd order\<rparr>)"

section \<open>The sessions of a capture\<close>

text \<open>The loop of \<^verbatim>\<open>build_loader_early_audit_sessions\<close>: finished sessions, current group, last READY's signature.\<close>

definition sessions_step ::
  "event \<Rightarrow> early_session list \<times> event list \<times> (byte \<times> byte) option
     \<Rightarrow> early_session list \<times> event list \<times> (byte \<times> byte) option" where
  "sessions_step e st = (case st of (sessions, current, prev) \<Rightarrow>
     if ev_type e = LOADER_EVT_READY then
       (let ready_sig = (ev_seq e, ev_arg e) in
        if current \<noteq> [] \<and> prev \<noteq> Some ready_sig
        then (sessions @ [summarize_loader_early_audit_session current (length sessions)], [e], Some ready_sig)
        else (sessions, current @ [e], Some ready_sig))
     else (sessions, current @ [e], prev))"

definition build_loader_early_audit_sessions :: "event list \<Rightarrow> early_session list" where
  "build_loader_early_audit_sessions events =
     (case fold sessions_step events ([], [], None) of (sessions, current, _) \<Rightarrow>
        if current \<noteq> [] then sessions @ [summarize_loader_early_audit_session current (length sessions)]
        else sessions)"

definition flag_int :: "bool \<Rightarrow> int" where
  "flag_int b = (if b then 1 else 0)"

text \<open>
  The key tuple as a list, compared lexicographically.  A session without an offset would raise in
  the code's \<^verbatim>\<open>int(None)\<close>; the sessions the choice looks at all have one.
\<close>

definition loader_early_audit_session_progress_key :: "early_session \<Rightarrow> int list" where
  "loader_early_audit_session_progress_key x =
     (let s = es_loop x in
      [flag_int (es_header_magic_ok x \<and> es_load_start_seen x \<and> es_first_block_ack_seen x
         \<and> loader_early_audit_summary_ok (sl_summary_mask s)),
       flag_int (es_first_block_ack_seen x),
       flag_int (es_load_start_seen x),
       flag_int (es_header_magic_ok x),
       int (length (filter (\<lambda>b. b \<noteq> None) (sl_header_bytes s))),
       flag_int (sl_header_enter_seen s),
       flag_int (sl_flush_done_seen s \<or> sl_flush_timeout_seen s),
       flag_int (sl_train_done_seen s \<or> sl_train_timeout_seen s),
       flag_int (sl_train_start_seen s),
       flag_int (sl_idle_ok_seen s),
       flag_int (sl_summary_mask s \<noteq> None),
       flag_int (sl_bad_magic_seen s \<or> sl_bad_code s \<noteq> None),
       int (es_event_count x),
       (case es_start_offset x of Some off \<Rightarrow> int off | None \<Rightarrow> - 1)])"

definition choose_loader_early_audit_session ::
  "early_session list \<Rightarrow> nat option \<Rightarrow> byte option \<Rightarrow> early_session option" where
  "choose_loader_early_audit_session sessions start_offset ready_seq =
     (let has_offset = (\<lambda>x. es_start_offset x \<noteq> None);
          late = (\<lambda>x. case (start_offset, es_start_offset x) of
             (Some lo, Some off) \<Rightarrow> lo \<le> off | _ \<Rightarrow> True);
          c1 = filter (\<lambda>x. has_offset x \<and> late x) sessions;
          c2 = (if c1 = [] \<and> ready_seq \<noteq> None then filter (\<lambda>x. es_ready_seq x = ready_seq) sessions else c1);
          c3 = (if c2 = [] then filter has_offset sessions else c2)
      in max_by loader_early_audit_session_progress_key c3)"

record early_analysis =
  ean_result :: early_result
  ean_passthrough_bytes :: bytes
  ean_sessions :: "early_session list"
  ean_chosen :: "early_session option"
  ean_session_classification :: string

definition early_audit_classification :: "loader_session \<Rightarrow> early_session option \<Rightarrow> string" where
  "early_audit_classification session chosen =
     (case chosen of Some x \<Rightarrow> es_classification x
      | None \<Rightarrow> if session_start_not_found session then ''session_start_not_found'' else ''other'')"

text \<open>
  \<^verbatim>\<open>analyze_loader_early_audit_beacon\<close>; the dict's \<^verbatim>\<open>chosen_session_*\<close> items are the fields of the
  chosen session.
\<close>

definition analyze_early_events ::
  "event list \<Rightarrow> string list \<Rightarrow> nat \<Rightarrow> bytes \<Rightarrow> early_analysis" where
  "analyze_early_events events decoded_lines bad_frame_count passthrough =
     (let sessions = build_loader_early_audit_sessions events;
          session = split_loader_session events True;
          chosen = choose_loader_early_audit_session sessions (session_start_offset session) (session_ready_seq session)
      in \<lparr>ean_result = reduce_loader_early_audit_events session decoded_lines bad_frame_count,
          ean_passthrough_bytes = passthrough,
          ean_sessions = sessions,
          ean_chosen = chosen,
          ean_session_classification = early_audit_classification session chosen\<rparr>)"

definition analyze_loader_early_audit_beacon :: "bytes \<Rightarrow> early_analysis" where
  "analyze_loader_early_audit_beacon raw_bytes =
     (let decoded = decode_loader_beacon_frames loader_event_name raw_bytes
      in analyze_early_events (dec_events decoded) (dec_lines decoded) (dec_bad_frames decoded)
           (dec_passthrough decoded))"

section \<open>What the order validator accepts\<close>

definition singleton_seen :: "event list \<Rightarrow> byte set" where
  "singleton_seen es = ev_type ` set es \<inter> set order_singletons"

lemma any_type_image: "any_type t es \<longleftrightarrow> t \<in> ev_type ` set es"
  by (induction es) (auto simp: any_type_def)

lemma any_type_append [simp]: "any_type t (es @ fs) \<longleftrightarrow> any_type t es \<or> any_type t fs"
  by (simp add: any_type_def)

lemma singleton_seen_iff: "t \<in> singleton_seen es \<longleftrightarrow> any_type t es \<and> t \<in> set order_singletons"
  by (simp add: singleton_seen_def any_type_image)

lemma any_type_split: "any_type t es \<Longrightarrow> \<exists>pre e post. es = pre @ e # post \<and> ev_type e = t"
  unfolding any_type_def list_ex_iff by (meson split_list)

text \<open>What a passed check says, as one requirement per event type.\<close>

lemma order_check_None: "order_check S t = None \<longleftrightarrow>
    (t \<in> {LOADER_EA_EVT_TRAIN_DONE, LOADER_EA_EVT_TRAIN_TIMEOUT} \<longrightarrow> LOADER_EA_EVT_TRAIN_START \<in> S)
  \<and> (t \<in> {LOADER_EA_EVT_FLUSH_DONE, LOADER_EA_EVT_FLUSH_TIMEOUT} \<longrightarrow>
       LOADER_EA_EVT_TRAIN_DONE \<in> S \<or> LOADER_EA_EVT_TRAIN_TIMEOUT \<in> S)
  \<and> (t = LOADER_EA_EVT_HEADER_ENTER \<longrightarrow> LOADER_EA_EVT_FLUSH_DONE \<in> S \<or> LOADER_EA_EVT_FLUSH_TIMEOUT \<in> S)
  \<and> (t = LOADER_EA_EVT_HDR_B0_RX \<longrightarrow> LOADER_EA_EVT_HEADER_ENTER \<in> S)
  \<and> (t = LOADER_EA_EVT_HDR_B1_RX \<longrightarrow> LOADER_EA_EVT_HDR_B0_RX \<in> S)
  \<and> (t = LOADER_EA_EVT_HDR_B2_RX \<longrightarrow> LOADER_EA_EVT_HDR_B1_RX \<in> S)
  \<and> (t = LOADER_EA_EVT_HDR_B3_RX \<longrightarrow> LOADER_EA_EVT_HDR_B2_RX \<in> S)
  \<and> (t = LOADER_EA_EVT_HDR_MAGIC_OK \<longrightarrow> LOADER_EA_EVT_HDR_B3_RX \<in> S)
  \<and> (t = LOADER_EVT_LOAD_START \<longrightarrow> LOADER_EA_EVT_HDR_MAGIC_OK \<in> S)
  \<and> (t = LOADER_EVT_BLOCK_ACK \<longrightarrow> LOADER_EVT_LOAD_START \<in> S)"
  by (simp add: order_check_def)

lemma validate_order_at:
  "fst (validate_order seen (pre @ e # post)) \<Longrightarrow>
     let seen' = seen \<union> singleton_seen pre; t = ev_type e in
       \<not> (t \<in> set order_singletons \<and> t \<in> seen')
     \<and> order_check (if t \<in> set order_singletons then insert t seen' else seen') t = None"
proof (induction pre arbitrary: seen)
  case Nil
  then show ?case
    by (auto simp: Let_def singleton_seen_def split: if_splits option.splits)
next
  case (Cons x pre)
  let ?seen' = "if ev_type x \<in> set order_singletons then insert (ev_type x) seen else seen"
  have "fst (validate_order ?seen' (pre @ e # post))"
    using Cons.prems by (auto simp: Let_def split: if_splits option.splits)
  moreover have "?seen' \<union> singleton_seen pre = seen \<union> singleton_seen (x # pre)"
    by (auto simp: singleton_seen_def)
  ultimately show ?case
    using Cons.IH [of ?seen'] by simp
qed

text \<open>
  The header byte events are not among the events the validator records, so a check that asks for
  an earlier header byte never succeeds.
\<close>

lemma header_rx_not_singleton: "set header_rx_types \<inter> set order_singletons = {}"
  by (simp add: header_rx_types_def order_singletons_def)

lemma valid_order_at:
  assumes "fst (validate_loader_early_audit_session_order es)" and "es = pre @ e # post"
  shows "order_check (insert (ev_type e) (singleton_seen pre)) (ev_type e) = None"
    and "ev_type e \<notin> set order_singletons \<Longrightarrow> order_check (singleton_seen pre) (ev_type e) = None"
    and "ev_type e \<in> set order_singletons \<Longrightarrow> \<not> any_type (ev_type e) pre"
proof -
  have at: "\<not> (ev_type e \<in> set order_singletons \<and> ev_type e \<in> singleton_seen pre)"
    "order_check (if ev_type e \<in> set order_singletons then insert (ev_type e) (singleton_seen pre)
       else singleton_seen pre) (ev_type e) = None"
    using validate_order_at [of "{}" pre e post] assms
    by (auto simp: validate_loader_early_audit_session_order_def Let_def)
  have mono: "order_check S t = None \<Longrightarrow> order_check (insert t S) t = None" for S t
    unfolding order_check_None by blast
  show "order_check (insert (ev_type e) (singleton_seen pre)) (ev_type e) = None"
    using at(2) mono by (cases "ev_type e \<in> set order_singletons") simp_all
  show "ev_type e \<notin> set order_singletons \<Longrightarrow> order_check (singleton_seen pre) (ev_type e) = None"
    using at(2) by simp
  show "ev_type e \<in> set order_singletons \<Longrightarrow> \<not> any_type (ev_type e) pre"
    using at(1) by (simp add: singleton_seen_iff)
qed

lemma no_type_if:
  assumes "fst (validate_loader_early_audit_session_order es)"
    and "\<And>pre. order_check (insert t (singleton_seen pre)) t = None \<Longrightarrow> \<not> any_type t' es
      \<Longrightarrow> any_type t' pre"
    and "\<not> any_type t' es"
  shows "\<not> any_type t es"
proof
  assume "any_type t es"
  then obtain pre e post where es: "es = pre @ e # post" and "ev_type e = t"
    by (blast dest: any_type_split)
  with assms valid_order_at(1) [OF assms(1) es] show False
    by auto
qed

lemma validate_rejects_type:
  assumes "fst (validate_loader_early_audit_session_order es)"
    and "t \<in> {LOADER_EA_EVT_HDR_B1_RX, LOADER_EA_EVT_HDR_B2_RX, LOADER_EA_EVT_HDR_B3_RX, LOADER_EA_EVT_HDR_MAGIC_OK}"
  shows "\<not> any_type t es"
proof
  assume "any_type t es"
  then obtain pre e post where es: "es = pre @ e # post" and t: "ev_type e = t"
    by (blast dest: any_type_split)
  have "order_check (insert t (singleton_seen pre)) t = None"
    using valid_order_at(1) [OF assms(1) es] t by simp
  then show False
    using assms(2) by (auto simp: order_check_None singleton_seen_iff order_singletons_def)
qed

text \<open>
  The order validator accepts no session in which the loader acknowledged the header: it
  refuses every sequence that contains one of the events HDR\_B1\_RX, HDR\_B2\_RX, HDR\_B3\_RX,
  HDR\_MAGIC\_OK, LOAD\_START or BLOCK\_ACK, also when they stand in the protocol's order.
\<close>

theorem validator_rejects_header_progress:
  assumes "t \<in> {LOADER_EA_EVT_HDR_B1_RX, LOADER_EA_EVT_HDR_B2_RX, LOADER_EA_EVT_HDR_B3_RX,
      LOADER_EA_EVT_HDR_MAGIC_OK, LOADER_EVT_LOAD_START, LOADER_EVT_BLOCK_ACK}"
    and "any_type t es"
  shows "\<not> fst (validate_loader_early_audit_session_order es)"
proof
  assume ok: "fst (validate_loader_early_audit_session_order es)"
  have no_magic: "\<not> any_type LOADER_EA_EVT_HDR_MAGIC_OK es"
    using validate_rejects_type [OF ok] by blast
  have no_start: "\<not> any_type LOADER_EVT_LOAD_START es"
    by (rule no_type_if [OF ok _ no_magic]) (simp add: order_check_None singleton_seen_iff)
  have "\<not> any_type LOADER_EVT_BLOCK_ACK es"
    by (rule no_type_if [OF ok _ no_start]) (simp add: order_check_None singleton_seen_iff)
  with no_start no_magic assms validate_rejects_type [OF ok] show False
    by auto
qed

text \<open>The fourteen events a fault-free early audit sends, in the order the protocol prescribes.\<close>

definition good_early_events :: "event list" where
  "good_early_events =
     [(0, 0, LOADER_EVT_READY, 0xA1), (5, 1, LOADER_EA_EVT_IDLE_OK, 0), (10, 2, LOADER_EA_EVT_TRAIN_START, 0),
      (15, 3, LOADER_EA_EVT_TRAIN_DONE, 0x14), (20, 4, LOADER_EA_EVT_FLUSH_DONE, 5),
      (25, 5, LOADER_EA_EVT_HEADER_ENTER, 0), (30, 6, LOADER_EA_EVT_HDR_B0_RX, 0x42),
      (35, 7, LOADER_EA_EVT_HDR_B1_RX, 0x4D), (40, 8, LOADER_EA_EVT_HDR_B2_RX, 0x4B),
      (45, 9, LOADER_EA_EVT_HDR_B3_RX, 0x31), (50, 10, LOADER_EA_EVT_HDR_MAGIC_OK, 0),
      (55, 11, LOADER_EVT_LOAD_START, 0), (60, 12, LOADER_EVT_BLOCK_ACK, 0), (65, 13, LOADER_EVT_SUMMARY, 0x0F)]"

lemma validator_rejects_header_progress_witness:
  "\<not> fst (validate_loader_early_audit_session_order good_early_events)"
  by (rule validator_rejects_header_progress [of LOADER_EA_EVT_HDR_MAGIC_OK])
    (simp_all add: any_type_def good_early_events_def)

lemma classify_not_pass:
  "classify_session s (fst (validate_loader_early_audit_session_order (sl_dedup_events s))) \<noteq> ''pass''"
  using validate_rejects_type [of "sl_dedup_events s" LOADER_EA_EVT_HDR_MAGIC_OK]
  by (auto simp: classify_session_def Let_def)

text \<open>
  Where the validator accepts, the events stand in the order of the training phase: each
  TRAIN\_DONE and TRAIN\_TIMEOUT comes after a TRAIN\_START, each FLUSH\_DONE and FLUSH\_TIMEOUT after
  an end of training, HEADER\_ENTER after an end of the flush, HDR\_B0\_RX after HEADER\_ENTER, and
  no event the validator records comes twice.
\<close>

theorem validator_accepts_ordered:
  assumes "fst (validate_loader_early_audit_session_order (pre @ e # post))"
  shows "(ev_type e \<in> {LOADER_EA_EVT_TRAIN_DONE, LOADER_EA_EVT_TRAIN_TIMEOUT} \<longrightarrow>
            any_type LOADER_EA_EVT_TRAIN_START pre)
    \<and> (ev_type e \<in> {LOADER_EA_EVT_FLUSH_DONE, LOADER_EA_EVT_FLUSH_TIMEOUT} \<longrightarrow>
            any_type LOADER_EA_EVT_TRAIN_DONE pre \<or> any_type LOADER_EA_EVT_TRAIN_TIMEOUT pre)
    \<and> (ev_type e = LOADER_EA_EVT_HEADER_ENTER \<longrightarrow>
            any_type LOADER_EA_EVT_FLUSH_DONE pre \<or> any_type LOADER_EA_EVT_FLUSH_TIMEOUT pre)
    \<and> (ev_type e = LOADER_EA_EVT_HDR_B0_RX \<longrightarrow> any_type LOADER_EA_EVT_HEADER_ENTER pre)
    \<and> (ev_type e \<in> set order_singletons \<longrightarrow> \<not> any_type (ev_type e) pre)"
  using valid_order_at [OF assms refl] by (auto simp: order_check_None singleton_seen_iff)

lemma validator_accepts_ordered_witness:
  "\<not> any_type LOADER_EA_EVT_TRAIN_START [(0, 0, LOADER_EVT_READY, 0), (5, 1, LOADER_EA_EVT_IDLE_OK, 0)]
   \<and> fst (validate_loader_early_audit_session_order
        ([(0, 0, LOADER_EVT_READY, 0), (5, 1, LOADER_EA_EVT_IDLE_OK, 0)] @ (10, 2, LOADER_EA_EVT_TRAIN_START, 0) # []))"
  (is "_ \<and> ?ok")
proof -
  have ok: ?ok
    by (simp add: validate_loader_early_audit_session_order_def order_singletons_def order_check_def Let_def)
  show ?thesis
    using ok validator_accepts_ordered [OF ok] by (simp add: order_singletons_def)
qed

section \<open>The two reductions of a session\<close>

lemmas early_step_simps = early_event_step_def early_dispatch_def Let_def
lemmas session_step_simps = session_event_step_def session_dispatch_def

definition early_core :: "early_loop \<Rightarrow> early_loop" where
  "early_core s = s\<lparr>ea_ready_seen := False, ea_dropped_duplicates := 0\<rparr>"

lemma early_core_step: "early_core (early_event_step nf e (early_core s)) = early_core (early_event_step nf e s)"
  by (simp add: early_core_def early_step_simps)

interpretation erl: seq_dedup_loop "early_event_step False" early_core ea_seen_seq
proof
  fix s s' :: early_loop and e
  assume "early_core s = early_core s'"
  then show "early_core (early_event_step False e s) = early_core (early_event_step False e s')"
    by (metis early_core_step)
next
  fix s :: early_loop and e :: event
  assume "ev_seq e \<in> ea_seen_seq (early_core s)"
  then show "early_core (early_event_step False e s) = early_core s"
    by (simp add: early_core_def early_event_step_def)
next
  fix s :: early_loop and e :: event
  assume "ev_seq e \<notin> ea_seen_seq (early_core s)"
  then show "ea_seen_seq (early_core (early_event_step False e s)) = insert (ev_seq e) (ea_seen_seq (early_core s))"
    by (simp add: early_core_def early_step_simps)
qed

text \<open>The summary's loop ignores a duplicate altogether: its core is the whole state.\<close>

interpretation ses: seq_dedup_loop session_event_step "\<lambda>s. s" sl_seen_seq
  by unfold_locales (simp_all add: session_step_simps)

lemma session_dedup_events:
  "sl_dedup_events (fold session_event_step es s) = sl_dedup_events s @ first_per_seq (sl_seen_seq s) es"
proof (induction es arbitrary: s)
  case (Cons e es)
  then show ?case
    by (cases "ev_seq e \<in> sl_seen_seq s") (simp_all add: ses.step_fresh ses.step_dup session_step_simps)
qed simp

text \<open>The summary's own view of a fault-free session: everything was seen, yet the order is refused.\<close>

lemma good_early_order:
  "validate_loader_early_audit_session_order good_early_events = (False, ''hdr_b1_before_hdr_b0'')"
  by code_simp

lemma good_early_session_refused:
  "es_classification (summarize_loader_early_audit_session good_early_events 0) = ''beacon_transport_corruption''
   \<and> es_event_order_error (summarize_loader_early_audit_session good_early_events 0) = ''hdr_b1_before_hdr_b0''
   \<and> es_start_offset (summarize_loader_early_audit_session good_early_events 0) = Some 0"
proof -
  have "first_per_seq {} good_early_events = good_early_events"
    by (rule first_per_seq_id) (simp_all add: good_early_events_def)
  then have dedup: "sl_dedup_events (fold session_event_step good_early_events session_loop_init) = good_early_events"
    by (simp add: session_dedup_events session_loop_init_def)
  have "good_early_events \<noteq> []"
    and offset: "(case good_early_events of [] \<Rightarrow> None | e # _ \<Rightarrow> Some (ev_offset e)) = Some 0"
    by (simp_all add: good_early_events_def)
  then show ?thesis
    by (simp add: summarize_loader_early_audit_session_def Let_def dedup good_early_order classify_session_def)
qed

lemma early_reduction_of_good_session:
  "ea_summary_ok_seen (reduce_loader_early_audit_events (split_loader_session good_early_events True) [] 0)
   \<and> \<not> ea_bad_seen (reduce_loader_early_audit_events (split_loader_session good_early_events True) [] 0)"
  by (simp add: reduce_loader_early_audit_events_def early_flags.defs early_result.defs split_loader_session_def
      good_early_events_def early_event_step_def early_dispatch_def early_loop_init_def early_bad_types_def
      loader_early_audit_summary_ok_def Let_def)

text \<open>
  The two views of a capture contradict each other on a fault-free session: the reduction of
  \<^verbatim>\<open>good_early_events\<close> reports a good summary and no error, and the session summary of the same events
  reports \<^verbatim>\<open>beacon_transport_corruption\<close> with the order error \<^verbatim>\<open>hdr_b1_before_hdr_b0\<close>.
\<close>

theorem good_session_contradiction:
  "ean_session_classification (analyze_early_events good_early_events ls b pt) = ''beacon_transport_corruption''
   \<and> ea_summary_ok_seen (reduce_loader_early_audit_events (split_loader_session good_early_events True) [] 0)
   \<and> \<not> ea_bad_seen (reduce_loader_early_audit_events (split_loader_session good_early_events True) [] 0)
   \<and> es_event_order_error (summarize_loader_early_audit_session good_early_events 0) = ''hdr_b1_before_hdr_b0''"
proof -
  have one: "build_loader_early_audit_sessions good_early_events
      = [summarize_loader_early_audit_session good_early_events 0]"
    by (simp add: build_loader_early_audit_sessions_def sessions_step_def good_early_events_def Let_def)
  have "session_start_offset (split_loader_session good_early_events True) = Some 0"
    by (simp add: split_loader_session_def good_early_events_def)
  with one good_early_session_refused have "choose_loader_early_audit_session (build_loader_early_audit_sessions good_early_events)
      (session_start_offset (split_loader_session good_early_events True))
      (session_ready_seq (split_loader_session good_early_events True))
    = Some (summarize_loader_early_audit_session good_early_events 0)"
    by (simp add: choose_loader_early_audit_session_def max_by_def)
  then show ?thesis
    using good_early_session_refused early_reduction_of_good_session
    by (simp add: analyze_early_events_def early_audit_classification_def Let_def)
qed

lemma session_dedup_from_init:
  "sl_dedup_events (fold session_event_step es session_loop_init) = first_per_seq {} es"
  by (simp add: session_dedup_events session_loop_init_def)

text \<open>
  A session summary does not depend on retransmissions: summarising a session with frames
  appended whose sequence numbers it already has gives the same summary, and the events it is
  based on are the first frame of each sequence number, in order.
\<close>

theorem session_summary_resend:
  assumes "set (map ev_seq fs) \<subseteq> set (map ev_seq es)"
  shows "summarize_loader_early_audit_session (es @ fs) i = summarize_loader_early_audit_session es i
    \<and> sl_dedup_events (es_loop (summarize_loader_early_audit_session es i)) = first_per_seq {} es"
proof -
  have "fold session_event_step (es @ fs) session_loop_init = fold session_event_step es session_loop_init"
    by (rule ses.fold_resend) (use assms in auto)
  then show ?thesis
    by (simp add: summarize_loader_early_audit_session_def Let_def session_dedup_from_init)
qed

lemma session_summary_resend_witness:
  "summarize_loader_early_audit_session (good_early_events @ [(99, 0, LOADER_EVT_READY, 0xA1)]) 0
     = summarize_loader_early_audit_session good_early_events 0"
  using session_summary_resend [of "[(99, 0, LOADER_EVT_READY, 0xA1)]" good_early_events 0]
  by (simp add: good_early_events_def)

text \<open>How the states of the two loops correspond after the same events.\<close>

definition loops_agree :: "early_loop \<Rightarrow> session_loop \<Rightarrow> bool" where
  "loops_agree a s \<longleftrightarrow>
     ea_seen_seq a = sl_seen_seq s \<and> ea_header_bytes a = sl_header_bytes s
   \<and> ea_idle_ok_seen a = sl_idle_ok_seen s \<and> ea_train_start_seen a = sl_train_start_seen s
   \<and> ea_train_done_seen a = sl_train_done_seen s \<and> ea_train_done_count a = sl_train_done_count s
   \<and> ea_flush_done_seen a = sl_flush_done_seen s \<and> ea_flush_done_count a = sl_flush_done_count s
   \<and> ea_header_enter_seen a = sl_header_enter_seen s
   \<and> ea_train_timeout_seen a = sl_train_timeout_seen s \<and> ea_train_timeout_count a = sl_train_timeout_count s
   \<and> ea_flush_timeout_seen a = sl_flush_timeout_seen s \<and> ea_flush_timeout_count a = sl_flush_timeout_count s
   \<and> ea_summary_mask a = sl_summary_mask s \<and> ea_bad_magic_seen a = sl_bad_magic_seen s
   \<and> ea_bad_magic_byte_index a = sl_bad_magic_byte_index s \<and> ea_bad_code a = sl_bad_code s
   \<and> ea_bad_seen a = (sl_bad_code s \<noteq> None) \<and> ea_summary_seen a = (sl_summary_mask s \<noteq> None)
   \<and> ea_good_frames a = length (sl_dedup_events s)
   \<and> ea_header_magic_ok a = any_type LOADER_EA_EVT_HDR_MAGIC_OK (sl_dedup_events s)
   \<and> ea_load_start_seen a = any_type LOADER_EVT_LOAD_START (sl_dedup_events s)
   \<and> ea_first_block_ack_seen a = first_block_acked (sl_dedup_events s)"

lemma loops_agree_init: "loops_agree early_loop_init session_loop_init"
  by (simp add: loops_agree_def early_loop_init_def session_loop_init_def any_type_def first_block_acked_def)

lemma loops_agree_step: "loops_agree a s \<Longrightarrow> loops_agree (early_event_step False e a) (session_event_step e s)"
  by (simp add: loops_agree_def early_step_simps session_step_simps any_type_def first_block_acked_def
      early_bad_types_def, blast)

lemma loops_agree_fold:
  "loops_agree a s \<Longrightarrow> loops_agree (fold (early_event_step False) es a) (fold session_event_step es s)"
  by (induction es arbitrary: a s) (simp_all add: loops_agree_step)



section \<open>Grouping and choosing\<close>

definition same_ready :: "event list \<Rightarrow> bool" where
  "same_ready g \<longleftrightarrow> (\<forall>e \<in> set g. \<forall>f \<in> set g. ev_type e = LOADER_EVT_READY \<longrightarrow> ev_type f = LOADER_EVT_READY \<longrightarrow>
     (ev_seq e, ev_arg e) = (ev_seq f, ev_arg f))"

definition summarize_groups :: "event list list \<Rightarrow> early_session list" where
  "summarize_groups gs = map (\<lambda>(i, g). summarize_loader_early_audit_session g i) (enumerate 0 gs)"

lemma summarize_groups_snoc:
  "summarize_groups (gs @ [g]) = summarize_groups gs @ [summarize_loader_early_audit_session g (length gs)]"
  by (simp add: summarize_groups_def enumerate_append_eq)

lemma length_summarize_groups [simp]: "length (summarize_groups gs) = length gs"
  by (simp add: summarize_groups_def)

definition grouping_inv :: "event list \<Rightarrow> early_session list \<times> event list \<times> (byte \<times> byte) option \<Rightarrow> bool" where
  "grouping_inv es st \<longleftrightarrow> (\<exists>gs. fst st = summarize_groups gs \<and> concat gs @ fst (snd st) = es
     \<and> [] \<notin> set gs \<and> (\<forall>g \<in> set gs. same_ready g)
     \<and> (\<forall>e \<in> set (fst (snd st)). ev_type e = LOADER_EVT_READY \<longrightarrow> snd (snd st) = Some (ev_seq e, ev_arg e)))"

lemma grouping_inv_step:
  assumes "grouping_inv es st"
  shows "grouping_inv (es @ [e]) (sessions_step e st)"
proof -
  obtain sessions cur prev where st: "st = (sessions, cur, prev)" by (cases st)
  from assms obtain gs where gs: "sessions = summarize_groups gs" "concat gs @ cur = es" "[] \<notin> set gs"
    "\<forall>g \<in> set gs. same_ready g"
    "\<forall>e \<in> set cur. ev_type e = LOADER_EVT_READY \<longrightarrow> prev = Some (ev_seq e, ev_arg e)"
    by (auto simp: grouping_inv_def st)
  show ?thesis
  proof (cases "ev_type e = LOADER_EVT_READY \<and> cur \<noteq> [] \<and> prev \<noteq> Some (ev_seq e, ev_arg e)")
    case True
    have "same_ready cur"
      using gs(5) unfolding same_ready_def by (metis option.inject)
    with True gs show ?thesis
      unfolding grouping_inv_def
      by (intro exI [of _ "gs @ [cur]"]) (auto simp: st sessions_step_def Let_def summarize_groups_snoc)
  next
    case False
    with gs show ?thesis
      unfolding grouping_inv_def
      by (intro exI [of _ gs]) (auto simp: st sessions_step_def Let_def)
  qed
qed

lemma grouping_inv_fold: "grouping_inv es (fold sessions_step es ([], [], None))"
proof (induction es rule: rev_induct)
  case Nil
  show ?case
    unfolding grouping_inv_def by (intro exI [of _ "[]"]) (simp add: summarize_groups_def)
next
  case (snoc e es)
  then show ?case
    by (simp add: grouping_inv_step)
qed

lemma sessions_grouped:
  "\<exists>groups. build_loader_early_audit_sessions es = summarize_groups groups \<and> concat groups = es
     \<and> list_all (\<lambda>g. g \<noteq> [] \<and> same_ready g) groups"
proof -
  obtain sessions cur prev where st: "fold sessions_step es ([], [], None) = (sessions, cur, prev)"
    by (metis prod_cases3)
  from grouping_inv_fold [of es] obtain gs where gs: "sessions = summarize_groups gs" "concat gs @ cur = es"
    "[] \<notin> set gs" "\<forall>g \<in> set gs. same_ready g"
    "\<forall>e \<in> set cur. ev_type e = LOADER_EVT_READY \<longrightarrow> prev = Some (ev_seq e, ev_arg e)"
    by (auto simp: grouping_inv_def st)
  show ?thesis
  proof (cases "cur = []")
    case True
    with gs show ?thesis
      by (intro exI [of _ gs]) (auto simp: build_loader_early_audit_sessions_def st list_all_iff)
  next
    case False
    moreover have "same_ready cur"
      using gs(5) unfolding same_ready_def by (metis option.inject)
    ultimately show ?thesis
      using gs by (intro exI [of _ "gs @ [cur]"])
        (auto simp: build_loader_early_audit_sessions_def st list_all_iff summarize_groups_snoc)
  qed
qed

text \<open>
  The sessions of a capture partition its events: they are the summaries, numbered from zero,
  of consecutive non-empty groups whose concatenation is the event list, and all READY events of a
  group carry the same sequence number and argument.
\<close>

theorem sessions_partition:
  "\<exists>groups. build_loader_early_audit_sessions es = summarize_groups groups \<and> concat groups = es
     \<and> list_all (\<lambda>g. g \<noteq> [] \<and> same_ready g) groups"
  by (rule sessions_grouped)

lemma summary_start_offset:
  "g \<noteq> [] \<Longrightarrow> es_start_offset (summarize_loader_early_audit_session g i) = Some (ev_offset (hd g))"
  unfolding summarize_loader_early_audit_session_def Let_def session_dedup_from_init
  by (cases g) simp_all

lemma sessions_have_offset: "x \<in> set (build_loader_early_audit_sessions es) \<Longrightarrow> es_start_offset x \<noteq> None"
proof -
  assume x: "x \<in> set (build_loader_early_audit_sessions es)"
  obtain gs where "build_loader_early_audit_sessions es = summarize_groups gs"
    and ne: "list_all (\<lambda>g. g \<noteq> [] \<and> same_ready g) gs"
    using sessions_grouped by blast
  with x obtain i g where "(i, g) \<in> set (enumerate 0 gs)" and "x = summarize_loader_early_audit_session g i"
    by (auto simp: summarize_groups_def)
  moreover from this(1) have "g \<in> set gs"
    by (auto simp: enumerate_eq_zip dest: set_zip_rightD)
  ultimately show ?thesis
    using ne by (simp add: list_all_iff summary_start_offset)
qed

lemma no_sessions_iff: "build_loader_early_audit_sessions es = [] \<longleftrightarrow> es = []"
proof -
  obtain gs where gs: "build_loader_early_audit_sessions es = summarize_groups gs" "concat gs = es"
    "list_all (\<lambda>g. g \<noteq> [] \<and> same_ready g) gs"
    using sessions_grouped by blast
  then show ?thesis
    by (cases gs) (auto simp: summarize_groups_def)
qed

text \<open>
  The choice is the session that got furthest: it is one of the capture's sessions, none is
  chosen only when the capture has no event, and no session that starts at or after the session
  start has a larger progress key.
\<close>

theorem chosen_session_is_best:
  "let a = analyze_early_events es ls b pt; start = session_start_offset (split_loader_session es True);
       key = loader_early_audit_session_progress_key in
     (ean_chosen a = None \<longleftrightarrow> es = [])
   \<and> (\<forall>x. ean_chosen a = Some x \<longrightarrow> x \<in> set (ean_sessions a)
        \<and> (\<forall>y \<in> set (ean_sessions a). (\<forall>lo off. start = Some lo \<longrightarrow> es_start_offset y = Some off \<longrightarrow> lo \<le> off)
             \<longrightarrow> key y \<le> key x))"
proof -
  define sessions where "sessions = build_loader_early_audit_sessions es"
  define start where "start = session_start_offset (split_loader_session es True)"
  define rseq where "rseq = session_ready_seq (split_loader_session es True)"
  define late where "late = (\<lambda>y :: early_session. case (start, es_start_offset y) of (Some lo, Some off) \<Rightarrow> lo \<le> off | _ \<Rightarrow> True)"
  have off: "\<forall>y \<in> set sessions. es_start_offset y \<noteq> None"
    by (simp add: sessions_def sessions_have_offset)
  then have c1: "filter (\<lambda>y. es_start_offset y \<noteq> None \<and> late y) sessions = filter late sessions"
    by (auto intro!: filter_cong)
  have c0: "filter (\<lambda>y. es_start_offset y \<noteq> None) sessions = sessions"
    using off by (simp add: filter_id_conv)
  define cands where "cands = (if filter late sessions = [] \<and> rseq \<noteq> None
      then filter (\<lambda>x. es_ready_seq x = rseq) sessions else filter late sessions)"
  have choose: "choose_loader_early_audit_session sessions start rseq =
      max_by loader_early_audit_session_progress_key (if cands = [] then sessions else cands)"
    unfolding choose_loader_early_audit_session_def Let_def
    by (simp only: c0 c1 [unfolded late_def] cands_def late_def)
  have none: "choose_loader_early_audit_session sessions start rseq = None \<longleftrightarrow> es = []"
    unfolding choose max_by_None using no_sessions_iff [of es] by (auto simp: sessions_def cands_def)
  have best: "x \<in> set sessions \<and> (\<forall>y \<in> set sessions. late y \<longrightarrow>
      loader_early_audit_session_progress_key y \<le> loader_early_audit_session_progress_key x)"
    if "choose_loader_early_audit_session sessions start rseq = Some x" for x
  proof (cases "filter late sessions = []")
    case True
    then have "\<forall>y \<in> set sessions. \<not> late y"
      by (simp add: filter_empty_conv)
    with max_by_Some [OF that [unfolded choose]] show ?thesis
      by (auto simp: cands_def split: if_splits)
  next
    case False
    with max_by_Some [OF that [unfolded choose]] show ?thesis
      by (auto simp: cands_def)
  qed
  have late_iff: "late y" if "\<forall>lo off. start = Some lo \<longrightarrow> es_start_offset y = Some off \<longrightarrow> lo \<le> off" for y
    using that by (auto simp: late_def split: option.split)
  show ?thesis
    using none best late_iff
    by (simp add: analyze_early_events_def Let_def flip: sessions_def start_def rseq_def)
qed

lemma chosen_session_is_best_witness:
  "ean_chosen (analyze_early_events good_early_events [] 0 []) \<noteq> None"
  using chosen_session_is_best [of good_early_events "[]" 0 "[]"] by (simp add: Let_def good_early_events_def)

lemma chosen_is_session:
  assumes "choose_loader_early_audit_session sessions start rseq = Some x"
  shows "x \<in> set sessions"
  using max_by_Some(1) [OF assms [unfolded choose_loader_early_audit_session_def Let_def]]
  by (auto split: if_splits)

text \<open>
  C9. No capture ever passes: whatever bytes arrived, none of its sessions has the classification
  \<^verbatim>\<open>pass\<close>, and the analysis does not report it.
\<close>

theorem early_audit_never_passes:
  "let a = analyze_loader_early_audit_beacon raw in
     list_all (\<lambda>x. es_classification x \<noteq> ''pass'') (ean_sessions a) \<and> ean_session_classification a \<noteq> ''pass''"
proof -
  obtain es ls b pt where a: "analyze_loader_early_audit_beacon raw = analyze_early_events es ls b pt"
    by (auto simp: analyze_loader_early_audit_beacon_def Let_def)
  have sessions: "es_classification x \<noteq> ''pass''" if "x \<in> set (build_loader_early_audit_sessions es)" for x
    using that sessions_grouped [of es]
    by (auto simp: summarize_groups_def summarize_loader_early_audit_session_def Let_def classify_not_pass)
  show ?thesis
    unfolding a
    by (auto simp: analyze_early_events_def early_audit_classification_def Let_def list_all_iff sessions
        dest!: chosen_is_session split: option.split)
qed

end
