(* ===== verification/Selftest.thy ===== *)
theory Selftest
  imports EarlyAudit
begin

unbundle bit_operations_syntax

text \<open>
  The beacon self-test of \<^verbatim>\<open>run_fpga_benchmark_ddr3.py\<close>: collapsing repeated frames, comparing a
  session with the expected sequence, grouping a capture into sessions and the verdict on it.
\<close>

section \<open>The expected sequence\<close>

definition BEACON_SELFTEST_EXPECTED_SEQUENCE :: "(byte \<times> byte) list" where
  "BEACON_SELFTEST_EXPECTED_SEQUENCE =
     [(LOADER_EVT_READY, 0xA1), (LOADER_EA_EVT_IDLE_OK, 0xB2), (LOADER_EA_EVT_TRAIN_START, 0xC3),
      (LOADER_EA_EVT_TRAIN_DONE, 0x14), (LOADER_EA_EVT_FLUSH_DONE, 0x05), (LOADER_EA_EVT_HEADER_ENTER, 0xD6),
      (LOADER_EA_EVT_HDR_B0_RX, 0x42), (LOADER_EA_EVT_HDR_B1_RX, 0x4D), (LOADER_EA_EVT_HDR_B2_RX, 0x4B),
      (LOADER_EA_EVT_HDR_B3_RX, 0x31), (LOADER_EA_EVT_HDR_MAGIC_OK, 0xE7), (LOADER_EVT_LOAD_START, 0xF8),
      (LOADER_EVT_BLOCK_ACK, 0x00), (LOADER_EVT_SUMMARY, 0x0F)]"

section \<open>One session\<close>

text \<open>\<^verbatim>\<open>item[1:] == collapsed[-1][1:]\<close>: the frames are equal but for the offset.\<close>

definition collapse_step :: "event \<Rightarrow> event list \<times> nat \<Rightarrow> event list \<times> nat" where
  "collapse_step item st = (case st of (collapsed, duplicate_count) \<Rightarrow>
     if collapsed \<noteq> [] \<and> snd item = snd (last collapsed) then (collapsed, Suc duplicate_count)
     else (collapsed @ [item], duplicate_count))"

definition collapse_exact_duplicate_beacon_frames :: "event list \<Rightarrow> event list \<times> nat" where
  "collapse_exact_duplicate_beacon_frames events = fold collapse_step events ([], 0)"

text \<open>
  The first loop: events until a sequence number comes again with other contents; the mismatch text
  is empty while there is none.  (A repetition of the very same frame after others counts too.)
\<close>

fun selftest_dedup :: "byte set \<Rightarrow> event list \<Rightarrow> event list \<times> string" where
  "selftest_dedup seen [] = ([], [])"
| "selftest_dedup seen (e # es) =
     (if ev_seq e \<in> seen then
        ([], ''duplicate_seq_'' @ fmt_X 2 (unat (ev_seq e)) @ ''_'' @ loader_event_name (ev_type e) @ ''_''
           @ fmt_X 2 (unat (ev_arg e)))
      else apfst (Cons e) (selftest_dedup (insert (ev_seq e) seen) es))"

text \<open>
  The second loop: the length of the matched prefix, and the mismatch text it sets, if any.
\<close>

fun selftest_match :: "nat \<Rightarrow> event list \<Rightarrow> nat \<times> string option" where
  "selftest_match idx [] = (0, None)"
| "selftest_match idx (e # es) =
     (if length BEACON_SELFTEST_EXPECTED_SEQUENCE \<le> idx then
        (0, Some (''extra_event_'' @ loader_event_name (ev_type e)))
      else case BEACON_SELFTEST_EXPECTED_SEQUENCE ! idx of (exp_type, exp_arg) \<Rightarrow>
        if ev_type e \<noteq> exp_type \<or> ev_arg e \<noteq> exp_arg then
          (0, Some (''idx'' @ dec_str idx @ ''_'' @ loader_event_name (ev_type e) @ ''_'' @ fmt_X 2 (unat (ev_arg e))
             @ ''_expected_'' @ loader_event_name exp_type @ ''_'' @ fmt_X 2 (unat exp_arg)))
        else apfst Suc (selftest_match (Suc idx) es))"

record selftest_session =
  st_session_index :: nat
  st_start_offset :: "nat option"
  st_ready_seq :: "byte option"
  st_ready_arg :: "byte option"
  st_first_event_types :: "string list"
  st_matched_prefix_len :: nat
  st_event_count :: nat
  st_duplicate_frame_count :: nat
  st_event_order_valid :: bool
  st_event_order_error :: string
  st_classification :: string
  st_pass_seen :: bool
  st_summary_seen :: bool

definition first_ready_arg :: "event list \<Rightarrow> byte option" where
  "first_ready_arg es = map_option ev_arg (List.find (\<lambda>e. ev_type e = LOADER_EVT_READY) es)"

definition summarize_loader_beacon_selftest_session :: "event list \<Rightarrow> nat \<Rightarrow> selftest_session" where
  "summarize_loader_beacon_selftest_session events session_index =
     (case collapse_exact_duplicate_beacon_frames events of (collapsed, duplicate_count) \<Rightarrow>
      case selftest_dedup {} collapsed of (dedup, mismatch1) \<Rightarrow>
      case selftest_match 0 dedup of (matched, mismatch2) \<Rightarrow>
        let mismatch = (case mismatch2 of Some m \<Rightarrow> m | None \<Rightarrow> mismatch1);
            n = length BEACON_SELFTEST_EXPECTED_SEQUENCE;
            pass = (matched = n \<and> length dedup = n \<and> mismatch = [])
        in \<lparr>st_session_index = session_index,
            st_start_offset = (case dedup of [] \<Rightarrow> None | e # _ \<Rightarrow> Some (ev_offset e)),
            st_ready_seq = (case dedup of [] \<Rightarrow> None | e # _ \<Rightarrow> Some (ev_seq e)),
            st_ready_arg = first_ready_arg dedup,
            st_first_event_types = map (\<lambda>e. loader_event_name (ev_type e)) (take 8 dedup),
            st_matched_prefix_len = matched,
            st_event_count = length dedup,
            st_duplicate_frame_count = duplicate_count,
            st_event_order_valid = (mismatch = []),
            st_event_order_error = mismatch,
            st_classification = (if pass then ''pass''
              else if mismatch \<noteq> [] then ''beacon_transport_corruption'' else ''incomplete_sequence''),
            st_pass_seen = pass,
            st_summary_seen = any_type LOADER_EVT_SUMMARY dedup\<rparr>)"

section \<open>The sessions of a capture\<close>

definition selftest_sessions_step ::
  "event \<Rightarrow> selftest_session list \<times> event list \<Rightarrow> selftest_session list \<times> event list" where
  "selftest_sessions_step item st = (case st of (sessions, current) \<Rightarrow>
     if ev_type item = LOADER_EVT_READY \<and> current \<noteq> [] \<and> any_type LOADER_EVT_SUMMARY current
     then (sessions @ [summarize_loader_beacon_selftest_session current (length sessions)], [item])
     else if current \<noteq> [] then (sessions, current @ [item])
     else (sessions, [item]))"

definition build_loader_beacon_selftest_sessions :: "event list \<Rightarrow> selftest_session list" where
  "build_loader_beacon_selftest_sessions events =
     (case fold selftest_sessions_step events ([], []) of (sessions, current) \<Rightarrow>
        if current \<noteq> [] then sessions @ [summarize_loader_beacon_selftest_session current (length sessions)]
        else sessions)"

definition loader_beacon_selftest_session_progress_key :: "selftest_session \<Rightarrow> int list" where
  "loader_beacon_selftest_session_progress_key x =
     [flag_int (st_pass_seen x), int (st_matched_prefix_len x), flag_int (st_summary_seen x),
      int (st_event_count x), (case st_start_offset x of Some off \<Rightarrow> int off | None \<Rightarrow> - 1)]"

definition choose_loader_beacon_selftest_session :: "selftest_session list \<Rightarrow> selftest_session option" where
  "choose_loader_beacon_selftest_session sessions =
     max_by loader_beacon_selftest_session_progress_key (filter (\<lambda>x. st_start_offset x \<noteq> None) sessions)"

record selftest_result =
  sr_pass :: bool
  sr_session_count :: nat
  sr_pass_session_count :: nat
  sr_bad_frames :: nat
  sr_good_frames :: nat
  sr_decoded_text :: string
  sr_passthrough_bytes :: bytes
  sr_sessions :: "selftest_session list"
  sr_chosen :: "selftest_session option"
  sr_session_classification :: string
  sr_summary_seen :: bool

text \<open>The dict's \<^verbatim>\<open>chosen_session_*\<close> items are the fields of the chosen session.\<close>

definition analyze_loader_beacon_selftest_events ::
  "event list \<Rightarrow> string list \<Rightarrow> nat \<Rightarrow> bytes \<Rightarrow> selftest_result" where
  "analyze_loader_beacon_selftest_events events decoded_lines bad_frame_count passthrough =
     (let sessions = build_loader_beacon_selftest_sessions events;
          chosen = choose_loader_beacon_selftest_session sessions;
          pass_count = length (filter st_pass_seen sessions);
          overall = (bad_frame_count = 0 \<and> length sessions = 1 \<and> pass_count = 1
            \<and> (case chosen of Some x \<Rightarrow> st_pass_seen x | None \<Rightarrow> False));
          class0 = (if overall then ''pass''
            else case chosen of Some x \<Rightarrow> st_classification x | None \<Rightarrow> ''no_ready_session'');
          class1 = (if 0 < bad_frame_count \<and> class0 = ''pass'' then ''bad_frame''
            else if 0 < bad_frame_count \<and> class0 = ''no_ready_session'' then ''bad_frame'' else class0)
      in \<lparr>sr_pass = overall, sr_session_count = length sessions, sr_pass_session_count = pass_count,
          sr_bad_frames = bad_frame_count, sr_good_frames = length events,
          sr_decoded_text = render_lines decoded_lines, sr_passthrough_bytes = passthrough,
          sr_sessions = sessions, sr_chosen = chosen, sr_session_classification = class1,
          sr_summary_seen = (case chosen of Some x \<Rightarrow> st_summary_seen x | None \<Rightarrow> False)\<rparr>)"

definition analyze_loader_beacon_selftest_beacon :: "bytes \<Rightarrow> selftest_result" where
  "analyze_loader_beacon_selftest_beacon raw_bytes =
     (let decoded = decode_loader_beacon_frames loader_event_name raw_bytes
      in analyze_loader_beacon_selftest_events (dec_events decoded) (dec_lines decoded)
           (dec_bad_frames decoded) (dec_passthrough decoded))"

section \<open>When a session passes\<close>

lemma remdups_adj_snoc:
  assumes "xs \<noteq> []"
  shows "remdups_adj (xs @ [y]) = remdups_adj xs @ (if last xs = y then [] else [y])"
  using remdups_adj_append_two [of "butlast xs" "last xs" y] append_butlast_last_id [OF assms]
  by (metis append.assoc append_Cons append_Nil)

lemma collapse_fold:
  "fold collapse_step es ([], 0) = (c, n) \<Longrightarrow>
     map snd c = remdups_adj (map snd es) \<and> n + length c = length es"
proof (induction es arbitrary: c n rule: rev_induct)
  case (snoc e es)
  obtain c' n' where c': "fold collapse_step es ([], 0) = (c', n')" by fastforce
  then have IH: "map snd c' = remdups_adj (map snd es)" "n' + length c' = length es"
    using snoc.IH by blast+
  then have ne: "c' = [] \<longleftrightarrow> es = []"
    by (metis map_is_Nil_conv remdups_adj_Nil_iff)
  show ?case
  proof (cases "es = []")
    case True
    with snoc.prems show ?thesis
      by (auto simp: collapse_step_def)
  next
    case False
    then have "last (map snd es) = snd (last c')"
      using ne IH(1) by (metis last_map last_remdups_adj map_is_Nil_conv)
    with False have "remdups_adj (map snd (es @ [e])) = remdups_adj (map snd es) @ (if snd (last c') = snd e then [] else [snd e])"
      using remdups_adj_snoc [of "map snd es" "snd e"] by simp
    moreover have "collapse_step e (c', n') = (c, n)"
      using snoc.prems c' by simp
    ultimately show ?thesis
      using False IH ne by (auto simp: collapse_step_def split: if_splits)
  qed
qed simp

lemma collapse_spec:
  "map snd (fst (collapse_exact_duplicate_beacon_frames es)) = remdups_adj (map snd es)
   \<and> snd (collapse_exact_duplicate_beacon_frames es) + length (remdups_adj (map snd es)) = length es"
proof -
  obtain c n where cn: "fold collapse_step es ([], 0) = (c, n)" by fastforce
  from collapse_fold [OF this] have "map snd c = remdups_adj (map snd es)" "n + length c = length es"
    by blast+
  moreover from this(1) have "length (remdups_adj (map snd es)) = length c"
    by (metis length_map)
  ultimately show ?thesis
    by (simp add: collapse_exact_duplicate_beacon_frames_def cn)
qed

lemma selftest_dedup_distinct:
  "snd (selftest_dedup S es) = [] \<longleftrightarrow> distinct (map ev_seq es) \<and> ev_seq ` set es \<inter> S = {}"
  by (induction S es rule: selftest_dedup.induct) auto

lemma selftest_dedup_all: "snd (selftest_dedup S es) = [] \<Longrightarrow> fst (selftest_dedup S es) = es"
  by (induction S es rule: selftest_dedup.induct) auto

lemma selftest_match_ok:
  "snd (selftest_match idx es) = None \<longleftrightarrow>
     map (snd \<circ> snd) es = take (length es) (drop idx BEACON_SELFTEST_EXPECTED_SEQUENCE)
     \<and> (es = [] \<or> idx + length es \<le> length BEACON_SELFTEST_EXPECTED_SEQUENCE)"
proof (induction idx es rule: selftest_match.induct)
  case (2 idx e es)
  show ?case
  proof (cases "idx < length BEACON_SELFTEST_EXPECTED_SEQUENCE")
    case True
    then have "drop idx BEACON_SELFTEST_EXPECTED_SEQUENCE =
        BEACON_SELFTEST_EXPECTED_SEQUENCE ! idx # drop (Suc idx) BEACON_SELFTEST_EXPECTED_SEQUENCE"
      by (simp add: Cons_nth_drop_Suc)
    moreover obtain t a where "BEACON_SELFTEST_EXPECTED_SEQUENCE ! idx = (t, a)"
      by fastforce
    ultimately show ?thesis
      using 2 True by auto
  qed simp
qed simp

lemma selftest_match_count:
  "snd (selftest_match idx es) = None \<Longrightarrow> fst (selftest_match idx es) = length es"
  by (induction idx es rule: selftest_match.induct) (auto split: if_splits prod.splits)

lemma selftest_match_short:
  "fst (selftest_match idx es) \<le> length es"
  by (induction idx es rule: selftest_match.induct) (auto split: prod.splits)

lemma selftest_match_full:
  "fst (selftest_match idx es) = length es \<longleftrightarrow> snd (selftest_match idx es) = None"
  by (induction idx es rule: selftest_match.induct) (auto split: prod.splits)

definition selftest_pattern :: "event list \<Rightarrow> bool" where
  "selftest_pattern es \<longleftrightarrow> (let ks = remdups_adj (map snd es) in
     map snd ks = BEACON_SELFTEST_EXPECTED_SEQUENCE \<and> distinct (map fst ks))"

text \<open>
  A session passes exactly when its frames, repetitions of the frame just before them left
  out, are the fourteen expected events in order with pairwise different sequence numbers.
\<close>

lemma session_pass_pattern:
  "st_pass_seen (summarize_loader_beacon_selftest_session es i) \<longleftrightarrow> selftest_pattern es"
proof -
  let ?n = "length BEACON_SELFTEST_EXPECTED_SEQUENCE"
  obtain c k where ck: "collapse_exact_duplicate_beacon_frames es = (c, k)" by fastforce
  obtain d m1 where d: "selftest_dedup {} c = (d, m1)" by fastforce
  obtain p m2 where p: "selftest_match 0 d = (p, m2)" by fastforce
  have keys: "remdups_adj (map snd es) = map snd c"
    using collapse_spec [of es] ck by simp
  have m1: "m1 = [] \<longleftrightarrow> distinct (map ev_seq c)" and dc: "m1 = [] \<Longrightarrow> d = c"
    using selftest_dedup_distinct [of "{}" c] selftest_dedup_all [of "{}" c] d by auto
  have pass: "st_pass_seen (summarize_loader_beacon_selftest_session es i) \<longleftrightarrow>
      p = ?n \<and> length d = ?n \<and> (case m2 of Some m \<Rightarrow> m | None \<Rightarrow> m1) = []"
    by (simp add: summarize_loader_beacon_selftest_session_def ck d p Let_def)
  also have "\<dots> \<longleftrightarrow> m2 = None \<and> length d = ?n \<and> m1 = []"
    using selftest_match_full [of 0 d] p by auto
  also have "\<dots> \<longleftrightarrow> map (snd \<circ> snd) d = BEACON_SELFTEST_EXPECTED_SEQUENCE \<and> m1 = []"
  proof -
    have "map (snd \<circ> snd) d = BEACON_SELFTEST_EXPECTED_SEQUENCE \<Longrightarrow> length d = ?n"
      by (metis length_map)
    then show ?thesis
      using selftest_match_ok [of 0 d] p by auto
  qed
  also have "\<dots> \<longleftrightarrow> selftest_pattern es"
    using m1 dc by (auto simp: selftest_pattern_def keys Let_def comp_def)
  finally show ?thesis .
qed

lemma selftest_session_offset:
  "es \<noteq> [] \<Longrightarrow> st_start_offset (summarize_loader_beacon_selftest_session es i) \<noteq> None"
proof -
  assume "es \<noteq> []"
  obtain c k where ck: "collapse_exact_duplicate_beacon_frames es = (c, k)" by fastforce
  from \<open>es \<noteq> []\<close> have "c \<noteq> []"
    using collapse_spec [of es] ck by (metis fst_conv map_is_Nil_conv remdups_adj_Nil_iff)
  then obtain e r where c: "c = e # r" by (cases c) auto
  obtain d m1 where d: "selftest_dedup (insert (ev_seq e) {}) r = (d, m1)" by fastforce
  then show ?thesis
    by (simp add: summarize_loader_beacon_selftest_session_def ck c Let_def split_beta)
qed

section \<open>When a capture passes\<close>

lemma subseq_remdups_adj: "x \<noteq> y \<Longrightarrow> subseq [x, y] xs \<Longrightarrow> subseq [x, y] (remdups_adj xs)"
  by (induction xs rule: remdups_adj.induct)
    (auto simp: subseq_Cons2_iff subseq_singleton_left split: if_splits)

lemma selftest_pattern_order:
  assumes "selftest_pattern (pre @ r # post)" and "any_type LOADER_EVT_SUMMARY pre"
  shows "ev_type r \<noteq> LOADER_EVT_READY"
proof
  assume r: "ev_type r = LOADER_EVT_READY"
  obtain s where s: "s \<in> set pre" "ev_type s = LOADER_EVT_SUMMARY"
    using assms(2) by (auto simp: any_type_def list_ex_iff)
  then have "subseq [s, r] (pre @ r # post)"
    using subseq_singleton_left [of s pre] list_emb_append_mono [of "(=)" "[s]" pre "[r]" "r # post"] by simp
  then have "subseq (map snd [s, r]) (map snd (pre @ r # post))"
    by (rule subseq_map)
  moreover have "snd s \<noteq> snd r"
    using r s(2) by auto
  ultimately have "subseq [snd s, snd r] (remdups_adj (map snd (pre @ r # post)))"
    by (simp add: subseq_remdups_adj)
  then have "subseq (map fst (map snd [snd s, snd r]))
      (map fst (map snd (remdups_adj (map snd (pre @ r # post)))))"
    by (intro subseq_map) simp
  moreover have "map snd (remdups_adj (map snd (pre @ r # post))) = BEACON_SELFTEST_EXPECTED_SEQUENCE"
    using assms(1) by (simp only: selftest_pattern_def Let_def)
  ultimately have "subseq (map fst (map snd [snd s, snd r])) (map fst BEACON_SELFTEST_EXPECTED_SEQUENCE)"
    by (simp only:)
  then have "subseq [LOADER_EVT_SUMMARY, LOADER_EVT_READY] (map fst BEACON_SELFTEST_EXPECTED_SEQUENCE)"
    using r s(2) by simp
  then show False
    by (simp add: BEACON_SELFTEST_EXPECTED_SEQUENCE_def)
qed

lemma selftest_single_group:
  "\<forall>pre r post. es = pre @ r # post \<longrightarrow> any_type LOADER_EVT_SUMMARY pre \<longrightarrow> ev_type r \<noteq> LOADER_EVT_READY \<Longrightarrow>
     fold selftest_sessions_step es ([], []) = ([], es)"
proof (induction es rule: rev_induct)
  case (snoc e es)
  have IH: "fold selftest_sessions_step es ([], []) = ([], es)"
    by (rule snoc.IH) (metis snoc.prems append.assoc append_Cons)
  have "any_type LOADER_EVT_SUMMARY es \<Longrightarrow> ev_type e \<noteq> LOADER_EVT_READY"
    using snoc.prems by blast
  then have "selftest_sessions_step e ([], es) = ([], es @ [e])"
    by (auto simp: selftest_sessions_step_def)
  then show ?case
    by (simp add: IH)
qed simp

lemma selftest_step_keeps:
  assumes "selftest_sessions_step e (ss, cur) = (ss', cur')"
  shows "cur' \<noteq> [] \<and> length ss \<le> length ss' \<and> (ss' = ss \<longrightarrow> cur' = cur @ [e])"
  using assms by (auto simp: selftest_sessions_step_def split: if_splits)

lemma selftest_fold_keeps:
  "fold selftest_sessions_step es ([], []) = (ss, cur) \<Longrightarrow>
     (es \<noteq> [] \<longrightarrow> cur \<noteq> []) \<and> (ss = [] \<longrightarrow> cur = es)"
proof (induction es arbitrary: ss cur rule: rev_induct)
  case (snoc e es)
  obtain ss' cur' where st: "fold selftest_sessions_step es ([], []) = (ss', cur')" by fastforce
  with snoc.prems have step: "selftest_sessions_step e (ss', cur') = (ss, cur)"
    by simp
  from selftest_step_keeps [OF step] snoc.IH [OF st] show ?case
    by auto
qed simp

lemma events_pass_pattern:
  "sr_pass (analyze_loader_beacon_selftest_events es ls bad pt) \<longleftrightarrow> bad = 0 \<and> selftest_pattern es"
proof -
  obtain ss cur where st: "fold selftest_sessions_step es ([], []) = (ss, cur)" by fastforce
  have pat_ne: "selftest_pattern es \<Longrightarrow> es \<noteq> []"
    by (auto simp: selftest_pattern_def BEACON_SELFTEST_EXPECTED_SEQUENCE_def)
  have single: "build_loader_beacon_selftest_sessions es = [summarize_loader_beacon_selftest_session es 0]"
    if "selftest_pattern es"
  proof -
    have "fold selftest_sessions_step es ([], []) = ([], es)"
      by (rule selftest_single_group) (use selftest_pattern_order that in blast)
    with pat_ne [OF that] show ?thesis
      by (simp add: build_loader_beacon_selftest_sessions_def)
  qed
  have one: "build_loader_beacon_selftest_sessions es = [summarize_loader_beacon_selftest_session es 0]"
    if "length (build_loader_beacon_selftest_sessions es) = 1"
    using that selftest_fold_keeps [OF st]
    by (cases "es = []") (auto simp: build_loader_beacon_selftest_sessions_def st split: if_splits)
  have choice: "choose_loader_beacon_selftest_session [summarize_loader_beacon_selftest_session es 0]
      = Some (summarize_loader_beacon_selftest_session es 0)" if "es \<noteq> []"
    using selftest_session_offset [OF that, of 0]
    by (simp add: choose_loader_beacon_selftest_session_def max_by_def)
  show ?thesis
  proof
    assume l: "sr_pass (analyze_loader_beacon_selftest_events es ls bad pt)"
    then have "length (build_loader_beacon_selftest_sessions es) = 1" "bad = 0"
      "length (filter st_pass_seen (build_loader_beacon_selftest_sessions es)) = 1"
      by (simp_all add: analyze_loader_beacon_selftest_events_def Let_def)
    with one show "bad = 0 \<and> selftest_pattern es"
      by (auto simp: session_pass_pattern split: if_splits)
  next
    assume "bad = 0 \<and> selftest_pattern es"
    with single choice pat_ne show "sr_pass (analyze_loader_beacon_selftest_events es ls bad pt)"
      by (simp add: analyze_loader_beacon_selftest_events_def Let_def session_pass_pattern)
  qed
qed

text \<open>
  The self-test of a capture passes exactly when it has no bad frame and its events as a
  whole are the fourteen expected ones in order with pairwise different sequence numbers, where
  a frame may be repeated right after itself: one session, nothing before it and nothing after.
\<close>

theorem selftest_capture_pass_iff:
  "sr_pass (analyze_loader_beacon_selftest_beacon raw) \<longleftrightarrow>
     dec_bad_frames (decode_loader_beacon_frames loader_event_name raw) = 0
     \<and> selftest_pattern (dec_events (decode_loader_beacon_frames loader_event_name raw))"
  by (simp add: analyze_loader_beacon_selftest_beacon_def Let_def events_pass_pattern)

lemma keys_expected_events: "map snd (expected_events idx segs) = map snd segs"
  by (induction idx segs rule: expected_events.induct) auto

lemma selftest_stream_pass:
  assumes "STEP2_BEACON_SOF \<notin> set end_text"
    and "\<forall>seg \<in> set segs. STEP2_BEACON_SOF \<notin> set (fst seg)"
  shows "sr_pass (analyze_loader_beacon_selftest_beacon (encode_stream segs end_text)) \<longleftrightarrow>
    (let ks = remdups_adj (map snd segs) in
       map snd ks = BEACON_SELFTEST_EXPECTED_SEQUENCE \<and> distinct (map fst ks))"
  using decode_encode_from [OF assms, of loader_event_name 0]
  by (simp add: analyze_loader_beacon_selftest_beacon_def Let_def events_pass_pattern
      decode_loader_beacon_frames_def selftest_pattern_def keys_expected_events)

text \<open>
  End to end: for frames sent with console text between them, the self-test of the captured
  bytes passes exactly when the frames sent, adjacent repetitions left out, are the expected
  sequence with pairwise different sequence numbers; the console text does not matter.
\<close>

theorem selftest_stream_pass_iff:
  assumes "STEP2_BEACON_SOF \<notin> set end_text"
    and "\<forall>seg \<in> set segs. STEP2_BEACON_SOF \<notin> set (fst seg)"
  shows "sr_pass (analyze_loader_beacon_selftest_beacon (encode_stream segs end_text)) \<longleftrightarrow>
    (let ks = remdups_adj (map snd segs) in
       map snd ks = BEACON_SELFTEST_EXPECTED_SEQUENCE \<and> distinct (map fst ks))"
  using assms by (rule selftest_stream_pass)

definition selftest_segments :: "(bytes \<times> byte \<times> byte \<times> byte) list" where
  "selftest_segments = zip (replicate 14 [0x0D, 0x0A])
     (zip [0, 1, 2, 3, 4, 5, 6, 7, 8, 9, 10, 11, 12, 13] BEACON_SELFTEST_EXPECTED_SEQUENCE)"

lemma selftest_segments_ok:
  "(\<forall>seg \<in> set selftest_segments. STEP2_BEACON_SOF \<notin> set (fst seg))
   \<and> (let ks = remdups_adj (map snd selftest_segments) in
        map snd ks = BEACON_SELFTEST_EXPECTED_SEQUENCE \<and> distinct (map fst ks))"
  by code_simp

lemma selftest_stream_pass_iff_witness:
  "sr_pass (analyze_loader_beacon_selftest_beacon (encode_stream selftest_segments [0x41]))"
  using selftest_stream_pass_iff [of "[0x41]" selftest_segments] selftest_segments_ok by simp

end
