(* ===== verification/SerialHost.thy ===== *)
theory SerialHost
  imports Uart Selftest
begin

text \<open>
  The host at the other end of the UART, as the drivers of \<^verbatim>\<open>run_fpga_benchmark_ddr3.py\<close> see it: the serial
  port and the clock, the bytes received so far with their analysis, and the credits and replies the
  board has sent.  The nested functions of \<^verbatim>\<open>drive_uart_loader\<close> and \<^verbatim>\<open>drive_uart_loader_early_audit\<close>,
  which differ in the analysis only, are the operations on this state.

  The port is a script: for each \<^verbatim>\<open>ser.read\<close> that will be made, how long it takes and what it
  returns.  Any behaviour of the board up to the end of a run is one script, so what is proved for all
  scripts holds for all boards.  After the script the line is silent and a read returns nothing after
  the port's timeout of 50 ms, so every wait of the code ends and the functions are total.  The clock
  is in microseconds and moves in reads and sleeps.
\<close>

section \<open>The port\<close>

record port =
  clock :: int
  incoming :: "(nat \<times> bytes) list"
  outgoing :: bytes

definition serial_timeout :: int where
  "serial_timeout = 50000"

definition ser_read :: "('m port_scheme) \<Rightarrow> bytes \<times> 'm port_scheme" where
  "ser_read h = (case incoming h of
       [] \<Rightarrow> ([], h\<lparr>clock := clock h + serial_timeout\<rparr>)
     | (dt, bs) # rest \<Rightarrow> (bs, h\<lparr>clock := clock h + int dt, incoming := rest\<rparr>))"

definition sleep :: "int \<Rightarrow> 'm port_scheme \<Rightarrow> 'm port_scheme" where
  "sleep d h = h\<lparr>clock := clock h + max 0 d\<rparr>"

definition serial :: "'m port_scheme serial_port" where
  "serial = \<lparr>op_write = (\<lambda>bs h. h\<lparr>outgoing := outgoing h @ bs\<rparr>), op_flush = (\<lambda>h. h), op_sleep = sleep\<rparr>"

text \<open>How much a run can still do: the script gets shorter, or the clock moves on.\<close>

definition time_left :: "int \<Rightarrow> 'm port_scheme \<Rightarrow> nat" where
  "time_left t h = nat (t - clock h)"

text \<open>Writing puts the bytes on the line and takes time.\<close>

lemma slow_write_effect:
  "\<exists>t. clock h \<le> t \<and> write_uart_bytes_slow serial bs d h = h\<lparr>clock := t, outgoing := outgoing h @ bs\<rparr>"
proof -
  have "\<exists>t. clock h \<le> t \<and> fold (\<lambda>b e. sleep d (e\<lparr>outgoing := outgoing e @ [b]\<rparr>)) bs h
      = h\<lparr>clock := t, outgoing := outgoing h @ bs\<rparr>"
  proof (induction bs arbitrary: h)
    case (Cons b bs)
    let ?h = "sleep d (h\<lparr>outgoing := outgoing h @ [b]\<rparr>)"
    obtain t where "clock ?h \<le> t" "fold (\<lambda>b e. sleep d (e\<lparr>outgoing := outgoing e @ [b]\<rparr>)) bs ?h
        = ?h\<lparr>clock := t, outgoing := outgoing ?h @ bs\<rparr>"
      using Cons by blast
    then show ?case
      by (intro exI [of _ t]) (simp add: sleep_def)
  qed (auto intro: exI [of _ "clock h"])
  then show ?thesis
    by (auto simp: write_uart_bytes_slow_def serial_def intro: exI [of _ "clock h"])
qed

section \<open>The state of a driver\<close>

record 'a loader_host = port +
  raw_bytes :: bytes
  beacon_filter :: stream_filter
  analysis :: 'a
  ack_credit :: nat
  ack_count :: nat
  pending_block_replies :: "block_reply list"
  host_trace_lines :: "string list"
  start_time :: int

abbreviation UART_PAYLOAD_ACK :: byte where "UART_PAYLOAD_ACK \<equiv> 0x06"
abbreviation UART_BLOCK_ACK :: byte where "UART_BLOCK_ACK \<equiv> 0x17"
abbreviation UART_BLOCK_NACK :: byte where "UART_BLOCK_NACK \<equiv> 0x15"

definition ingest_byte :: "byte \<Rightarrow> ('a, 'm) loader_host_scheme \<Rightarrow> ('a, 'm) loader_host_scheme" where
  "ingest_byte b h =
     (if b = UART_PAYLOAD_ACK then h\<lparr>ack_credit := Suc (ack_credit h), ack_count := Suc (ack_count h)\<rparr>
      else if b = UART_BLOCK_ACK then h\<lparr>pending_block_replies := pending_block_replies h @ [Reply_ack]\<rparr>
      else if b = UART_BLOCK_NACK then h\<lparr>pending_block_replies := pending_block_replies h @ [Reply_nack]\<rparr>
      else h)"

definition ingest_serial_bytes ::
  "(bytes \<Rightarrow> 'a) \<Rightarrow> bytes \<Rightarrow> ('a, 'm) loader_host_scheme \<Rightarrow> ('a, 'm) loader_host_scheme" where
  "ingest_serial_bytes analyze chunk h =
     (if chunk = [] then h
      else case feed (beacon_filter h) chunk of (new_passthrough, f) \<Rightarrow>
        fold ingest_byte new_passthrough
          (h\<lparr>raw_bytes := raw_bytes h @ chunk, beacon_filter := f, analysis := analyze (raw_bytes h @ chunk)\<rparr>))"

section \<open>What ingesting leaves alone\<close>

lemma ser_read_clock: "ser_read h = (bs, h') \<Longrightarrow> clock h \<le> clock h'"
  by (auto simp: ser_read_def serial_timeout_def split: list.splits)

lemma ser_read_out: "ser_read h = (bs, h') \<Longrightarrow> outgoing h' = outgoing h"
  by (auto simp: ser_read_def split: list.splits)

text \<open>A read uses up the script, or time passes on the silent line.\<close>

lemma ser_read_progress:
  "ser_read h = (bs, h') \<Longrightarrow> length (incoming h') < length (incoming h)
     \<or> (bs = [] \<and> incoming h' = incoming h \<and> clock h' = clock h + serial_timeout)"
  by (auto simp: ser_read_def split: list.splits)

lemma sleep_simps [simp]: "incoming (sleep d h) = incoming h" "outgoing (sleep d h) = outgoing h"
  "clock h \<le> clock (sleep d h)"
  by (simp_all add: sleep_def)

lemma ingest_byte_port [simp]:
  "clock (ingest_byte b h) = clock h" "incoming (ingest_byte b h) = incoming h"
  "outgoing (ingest_byte b h) = outgoing h"
  by (simp_all add: ingest_byte_def)

lemma fold_ingest_port [simp]:
  "clock (fold ingest_byte bs h) = clock h" "incoming (fold ingest_byte bs h) = incoming h"
  "outgoing (fold ingest_byte bs h) = outgoing h"
  by (induction bs arbitrary: h) simp_all

lemma ingest_port [simp]:
  "clock (ingest_serial_bytes an c h) = clock h" "incoming (ingest_serial_bytes an c h) = incoming h"
  "outgoing (ingest_serial_bytes an c h) = outgoing h"
  by (simp_all add: ingest_serial_bytes_def split_beta)

lemma poll_chunk: "(c, h1) = ser_read h \<Longrightarrow> c \<noteq> [] \<Longrightarrow> length (incoming h1) < length (incoming h)"
  using ser_read_progress [of h c h1] by auto

lemma poll_silent:
  assumes "([], h1) = ser_read h" and "clock h < stop"
  shows "length (incoming h1) < length (incoming h)
    \<or> (incoming h1 = incoming h \<and> time_left stop (sleep d h1) < time_left stop h)"
  using ser_read_progress [OF assms(1) [symmetric]] assms(2)
  by (auto simp: time_left_def serial_timeout_def sleep_def)

section \<open>Waiting\<close>

function wait_ack_loop :: "(bytes \<Rightarrow> 'a) \<Rightarrow> int \<Rightarrow> ('a, 'm) loader_host_scheme \<Rightarrow> bool \<times> ('a, 'm) loader_host_scheme" where
  "wait_ack_loop analyze stop h =
     (if clock h < stop then
        (case ser_read h of (ack_chunk, h1) \<Rightarrow>
           if ack_chunk \<noteq> [] then
             (let h2 = ingest_serial_bytes analyze ack_chunk h1 in
              if 0 < ack_credit h2 then (True, h2\<lparr>ack_credit := ack_credit h2 - 1\<rparr>)
              else wait_ack_loop analyze stop h2)
           else wait_ack_loop analyze stop (sleep 1000 h1))
      else (False, h))"
  by pat_completeness auto
termination
proof (relation "measures [\<lambda>(an, stop, h). length (incoming h), \<lambda>(an, stop, h). time_left stop h]",
    goal_cases)
  case (2 an stop h c h1 h2)
  then show ?case using poll_chunk [of c h1 h] by simp
next
  case (3 an stop h c h1)
  then show ?case using poll_silent [of h1 h stop 1000] by auto
qed simp

declare wait_ack_loop.simps [simp del]

definition wait_payload_ack :: "(bytes \<Rightarrow> 'a) \<Rightarrow> int \<Rightarrow> ('a, 'm) loader_host_scheme \<Rightarrow> bool \<times> ('a, 'm) loader_host_scheme" where
  "wait_payload_ack analyze timeout h =
     (if 0 < ack_credit h then (True, h\<lparr>ack_credit := ack_credit h - 1\<rparr>)
      else wait_ack_loop analyze (clock h + timeout) h)"

definition pop_reply :: "('a, 'm) loader_host_scheme \<Rightarrow> block_reply \<times> ('a, 'm) loader_host_scheme" where
  "pop_reply h = (hd (pending_block_replies h), h\<lparr>pending_block_replies := tl (pending_block_replies h)\<rparr>)"

function wait_reply_loop ::
  "(bytes \<Rightarrow> 'a) \<Rightarrow> int \<Rightarrow> ('a, 'm) loader_host_scheme \<Rightarrow> block_reply \<times> ('a, 'm) loader_host_scheme" where
  "wait_reply_loop analyze stop h =
     (if clock h < stop then
        (case ser_read h of (reply_chunk, h1) \<Rightarrow>
           if reply_chunk \<noteq> [] then
             (let h2 = ingest_serial_bytes analyze reply_chunk h1 in
              if pending_block_replies h2 \<noteq> [] then pop_reply h2 else wait_reply_loop analyze stop h2)
           else wait_reply_loop analyze stop (sleep 1000 h1))
      else (Reply_timeout, h))"
  by pat_completeness auto
termination
proof (relation "measures [\<lambda>(an, stop, h). length (incoming h), \<lambda>(an, stop, h). time_left stop h]",
    goal_cases)
  case (2 an stop h c h1 h2)
  then show ?case using poll_chunk [of c h1 h] by simp
next
  case (3 an stop h c h1)
  then show ?case using poll_silent [of h1 h stop 1000] by auto
qed simp

declare wait_reply_loop.simps [simp del]

definition wait_block_reply ::
  "(bytes \<Rightarrow> 'a) \<Rightarrow> int \<Rightarrow> ('a, 'm) loader_host_scheme \<Rightarrow> block_reply \<times> ('a, 'm) loader_host_scheme" where
  "wait_block_reply analyze timeout h =
     (if pending_block_replies h \<noteq> [] then pop_reply h else wait_reply_loop analyze (clock h + timeout) h)"

text \<open>\<^verbatim>\<open>drain_serial_quiet\<close>: every chunk that arrives starts the quiet time anew.\<close>

function drain_loop ::
  "(bytes \<Rightarrow> 'a) \<Rightarrow> int \<Rightarrow> int \<Rightarrow> ('a, 'm) loader_host_scheme \<Rightarrow> ('a, 'm) loader_host_scheme" where
  "drain_loop analyze quiet stop h =
     (if clock h < stop then
        (case ser_read h of (reply_chunk, h1) \<Rightarrow>
           if reply_chunk \<noteq> [] then
             (let h2 = ingest_serial_bytes analyze reply_chunk h1 in drain_loop analyze quiet (clock h2 + quiet) h2)
           else drain_loop analyze quiet stop (sleep 1000 h1))
      else h)"
  by pat_completeness auto
termination
proof (relation "measures [\<lambda>(an, q, stop, h). length (incoming h), \<lambda>(an, q, stop, h). time_left stop h]",
    goal_cases)
  case (2 an q stop h c h1 h2)
  then show ?case using poll_chunk [of c h1 h] by simp
next
  case (3 an q stop h c h1)
  then show ?case using poll_silent [of h1 h stop 1000] by auto
qed simp

declare drain_loop.simps [simp del]

definition drain_serial_quiet :: "(bytes \<Rightarrow> 'a) \<Rightarrow> int \<Rightarrow> ('a, 'm) loader_host_scheme \<Rightarrow> ('a, 'm) loader_host_scheme" where
  "drain_serial_quiet analyze quiet h = drain_loop analyze quiet (clock h + quiet) h"

text \<open>\<^verbatim>\<open>f"{t:10.6f} {message}"\<close> for a time in microseconds.\<close>

definition fmt_seconds :: "int \<Rightarrow> string" where
  "fmt_seconds us = (let frac = dec_str (nat us mod 1000000);
        s = dec_str (nat us div 1000000) @ ''.'' @ replicate (6 - length frac) (CHR ''0'') @ frac
     in replicate (10 - length s) (CHR '' '') @ s)"

definition host_trace_event :: "string \<Rightarrow> ('a, 'm) loader_host_scheme \<Rightarrow> ('a, 'm) loader_host_scheme" where
  "host_trace_event msg h =
     h\<lparr>host_trace_lines := host_trace_lines h @ [fmt_seconds (clock h - start_time h) @ '' '' @ msg]\<rparr>"

text \<open>The callbacks a driver passes to the transfer; the early-audit driver passes no trace.\<close>

definition loader_callbacks ::
  "(bytes \<Rightarrow> 'a) \<Rightarrow> int \<Rightarrow> int \<Rightarrow> int \<Rightarrow> bool \<Rightarrow> ('a, 'm) loader_host_scheme uart_host" where
  "loader_callbacks analyze ack_us reply_us quiet tracing =
     \<lparr>wait_ack = wait_payload_ack analyze ack_us,
      wait_reply = wait_block_reply analyze reply_us,
      after_nack = Some (drain_serial_quiet analyze quiet),
      trace_event = (if tracing then Some host_trace_event else None)\<rparr>"

section \<open>What waiting keeps\<close>

text \<open>The recursion of all the waits: after a chunk with any new end of the wait, after silence with the same.\<close>

lemma poll_induct [case_names poll]:
  fixes an :: "bytes \<Rightarrow> 'a" and h :: "('a, 'm) loader_host_scheme"
  assumes step: "\<And>stop h. (\<And>c h1 stop'. clock h < stop \<Longrightarrow> ser_read h = (c, h1) \<Longrightarrow> c \<noteq> [] \<Longrightarrow>
        P stop' (ingest_serial_bytes an c h1)) \<Longrightarrow>
      (\<And>h1. clock h < stop \<Longrightarrow> ser_read h = ([], h1) \<Longrightarrow> P stop (sleep 1000 h1)) \<Longrightarrow> P stop h"
  shows "P stop h"
proof -
  let ?R = "measures [\<lambda>x :: int \<times> ('a, 'm) loader_host_scheme. length (incoming (snd x)),
    \<lambda>x. time_left (fst x) (snd x)]"
  have "wf ?R" by simp
  then have "P (fst x) (snd x)" for x
  proof (induction x rule: wf_induct_rule)
    case (less x)
    show ?case
    proof (rule step)
      fix c h1 stop' assume "ser_read (snd x) = (c, h1)" "c \<noteq> []"
      then have "((stop', ingest_serial_bytes an c h1), x) \<in> ?R"
        using poll_chunk [of c h1 "snd x"] by simp
      from less [OF this] show "P stop' (ingest_serial_bytes an c h1)" by simp
    next
      fix h1 assume "clock (snd x) < fst x" "ser_read (snd x) = ([], h1)"
      then have "((fst x, sleep 1000 h1), x) \<in> ?R"
        using poll_silent [of h1 "snd x" "fst x" 1000] by auto
      from less [OF this] show "P (fst x) (sleep 1000 h1)" by simp
    qed
  qed
  from this [of "(stop, h)"] show ?thesis by simp
qed

text \<open>
  The interface for an invariant of the host's state: it survives a read with what is done with the
  bytes, time passing, and taking a credit or a reply.  Every wait of the drivers then keeps it.
\<close>

locale listening =
  fixes an :: "bytes \<Rightarrow> 'a" and holds :: "('a, 'm) loader_host_scheme \<Rightarrow> bool"
  assumes holds_read: "holds h \<Longrightarrow> ser_read h = (c, h1) \<Longrightarrow> holds (ingest_serial_bytes an c h1)"
    and holds_sleep: "holds h \<Longrightarrow> holds (sleep d h)"
    and holds_credit: "holds h \<Longrightarrow> 0 < ack_credit h \<Longrightarrow> holds (h\<lparr>ack_credit := ack_credit h - 1\<rparr>)"
    and holds_reply: "holds h \<Longrightarrow> pending_block_replies h = r # rs \<Longrightarrow> holds (h\<lparr>pending_block_replies := rs\<rparr>)"
begin

lemma holds_silent: "holds h \<Longrightarrow> ser_read h = ([], h1) \<Longrightarrow> holds h1"
  using holds_read [of h "[]" h1] by (simp add: ingest_serial_bytes_def)

lemma holds_pop: "holds h \<Longrightarrow> pending_block_replies h \<noteq> [] \<Longrightarrow> holds (snd (pop_reply h))"
  by (cases "pending_block_replies h") (auto simp: pop_reply_def holds_reply)

lemma holds_take: "holds h \<Longrightarrow> 0 < ack_credit h \<Longrightarrow> holds (h\<lparr>ack_credit := ack_credit h - Suc 0\<rparr>)"
  using holds_credit by simp

lemma holds_ack_loop: "holds h \<Longrightarrow> holds (snd (wait_ack_loop an stop h))"
proof (induction stop h rule: poll_induct [where an = "an"])
  case (poll stop h)
  obtain c h1 where rd: "ser_read h = (c, h1)" by (cases "ser_read h")
  show ?case
    using poll(1) [OF _ rd] poll(2) rd holds_read [OF poll(3) rd] holds_silent [OF poll(3)] poll(3)
    by (subst wait_ack_loop.simps) (simp add: Let_def holds_take holds_sleep)
qed

lemma holds_reply_loop: "holds h \<Longrightarrow> holds (snd (wait_reply_loop an stop h))"
proof (induction stop h rule: poll_induct [where an = "an"])
  case (poll stop h)
  obtain c h1 where rd: "ser_read h = (c, h1)" by (cases "ser_read h")
  show ?case
    using poll(1) [OF _ rd] poll(2) rd holds_read [OF poll(3) rd] holds_silent [OF poll(3)] poll(3)
    by (subst wait_reply_loop.simps) (simp add: Let_def holds_pop holds_sleep)
qed

lemma holds_drain_loop: "holds h \<Longrightarrow> holds (drain_loop an quiet stop h)"
proof (induction stop h rule: poll_induct [where an = "an"])
  case (poll stop h)
  obtain c h1 where rd: "ser_read h = (c, h1)" by (cases "ser_read h")
  show ?case
    using poll(1) [OF _ rd] poll(2) rd holds_read [OF poll(3) rd] holds_silent [OF poll(3)] poll(3)
    by (subst drain_loop.simps) (simp add: Let_def holds_sleep)
qed

lemma holds_wait_ack: "holds h \<Longrightarrow> holds (snd (wait_payload_ack an timeout h))"
  by (simp add: wait_payload_ack_def holds_take holds_ack_loop)

lemma holds_wait_reply: "holds h \<Longrightarrow> holds (snd (wait_block_reply an timeout h))"
  by (simp add: wait_block_reply_def holds_pop holds_reply_loop)

lemma holds_drain: "holds h \<Longrightarrow> holds (drain_serial_quiet an quiet h)"
  by (simp add: drain_serial_quiet_def holds_drain_loop)

end

text \<open>An invariant that what the host writes and logs does not matter for: a transfer keeps it.\<close>

locale listening_writer = listening +
  assumes holds_write: "holds h \<Longrightarrow> holds (h\<lparr>outgoing := ws\<rparr>)"
    and holds_trace: "holds h \<Longrightarrow> holds (h\<lparr>host_trace_lines := ls\<rparr>)"

sublocale listening_writer \<subseteq> transfer: uart_keeps serial "loader_callbacks an ack_us reply_us quiet tracing" holds
  for ack_us reply_us quiet tracing
proof unfold_locales
  fix h h' :: "('a, 'b) loader_host_scheme" and b rep
  assume "holds h"
  show "wait_ack (loader_callbacks an ack_us reply_us quiet tracing) h = (b, h') \<Longrightarrow> holds h'"
    using holds_wait_ack [OF \<open>holds h\<close>, of ack_us] by (simp add: loader_callbacks_def)
  show "wait_reply (loader_callbacks an ack_us reply_us quiet tracing) h = (rep, h') \<Longrightarrow> holds h'"
    using holds_wait_reply [OF \<open>holds h\<close>, of reply_us] by (simp add: loader_callbacks_def)
qed (auto simp: serial_def holds_write holds_sleep loader_callbacks_def holds_drain host_trace_event_def holds_trace
    split: if_splits)

section \<open>A driver's own variables\<close>

text \<open>What a driver adds to the state is out of reach of every callback.\<close>

lemma more_fold_ingest: "loader_host.more (fold ingest_byte bs h) = loader_host.more h"
  by (induction bs arbitrary: h) (simp_all add: ingest_byte_def)

lemma more_ingest: "loader_host.more (ingest_serial_bytes an c h) = loader_host.more h"
  by (simp add: ingest_serial_bytes_def split_beta more_fold_ingest)

lemma more_read: "ser_read h = (c, h1) \<Longrightarrow> loader_host.more h1 = loader_host.more h"
  by (auto simp: ser_read_def split: list.splits)

lemma more_sleep [simp]: "loader_host.more (sleep d h) = loader_host.more h"
  by (simp add: sleep_def)

interpretation own: listening_writer an "\<lambda>h. loader_host.more h = x" for an x
  by unfold_locales (auto simp: more_ingest more_read)

section \<open>Nothing but the transfer writes\<close>

interpretation quiet: listening an "\<lambda>h. outgoing h = ws" for an ws
  by unfold_locales (auto simp: ser_read_out)

interpretation wire: uart_wire serial "loader_callbacks an ack_us reply_us quiet tracing" outgoing
  for an ack_us reply_us quiet tracing
proof unfold_locales
  fix h h' :: "('a, 'b) loader_host_scheme" and b rep
  show "wait_ack (loader_callbacks an ack_us reply_us quiet tracing) h = (b, h') \<Longrightarrow> outgoing h' = outgoing h"
    using quiet.holds_wait_ack [of h "outgoing h" "an" ack_us] by (simp add: loader_callbacks_def)
  show "wait_reply (loader_callbacks an ack_us reply_us quiet tracing) h = (rep, h') \<Longrightarrow> outgoing h' = outgoing h"
    using quiet.holds_wait_reply [of h "outgoing h" "an" reply_us] by (simp add: loader_callbacks_def)
qed (auto simp: serial_def loader_callbacks_def quiet.holds_drain host_trace_event_def split: if_splits)

section \<open>What the host knows is what it heard\<close>

definition replies_in :: "bytes \<Rightarrow> block_reply list" where
  "replies_in bs = map (\<lambda>b. if b = UART_BLOCK_ACK then Reply_ack else Reply_nack)
     (filter (\<lambda>b. b = UART_BLOCK_ACK \<or> b = UART_BLOCK_NACK) bs)"

lemma replies_in_append [simp]: "replies_in (xs @ ys) = replies_in xs @ replies_in ys"
  by (simp add: replies_in_def)

lemma fold_ingest_effect:
  "ack_count (fold ingest_byte bs h) = ack_count h + count_list bs UART_PAYLOAD_ACK
   \<and> ack_credit (fold ingest_byte bs h) = ack_credit h + count_list bs UART_PAYLOAD_ACK
   \<and> pending_block_replies (fold ingest_byte bs h) = pending_block_replies h @ replies_in bs
   \<and> raw_bytes (fold ingest_byte bs h) = raw_bytes h \<and> beacon_filter (fold ingest_byte bs h) = beacon_filter h
   \<and> analysis (fold ingest_byte bs h) = analysis h"
  by (induction bs arbitrary: h) (simp_all add: ingest_byte_def replies_in_def)

text \<open>The bytes of the board that are not part of a frame.\<close>

definition heard_text :: "bytes \<Rightarrow> bytes" where
  "heard_text raw = fst (feed new_filter raw)"

definition heard :: "(bytes \<Rightarrow> 'a) \<Rightarrow> ('a, 'm) loader_host_scheme \<Rightarrow> bool" where
  "heard an h \<longleftrightarrow> analysis h = an (raw_bytes h) \<and> beacon_filter h = snd (feed new_filter (raw_bytes h))
     \<and> ack_count h = count_list (heard_text (raw_bytes h)) UART_PAYLOAD_ACK
     \<and> ack_credit h \<le> ack_count h
     \<and> suffix (pending_block_replies h) (replies_in (heard_text (raw_bytes h)))"

lemma heard_text_decoder: "heard_text raw = dec_passthrough (decode_loader_beacon_frames nm raw)"
  by (simp add: heard_text_def feed_drain new_filter_def decode_passthrough_drain decode_loader_beacon_frames_def
      split_beta)

lemma heard_text_append:
  "heard_text (raw @ c) = heard_text raw @ fst (feed (snd (feed new_filter raw)) c)"
  "snd (feed new_filter (raw @ c)) = snd (feed (snd (feed new_filter raw)) c)"
  using flt.feed_append [OF filter_settled_new, of raw c] by (simp_all add: heard_text_def)

lemma count_list_append' [simp]: "count_list (xs @ ys) x = count_list xs x + count_list ys x"
  by (induction xs) simp_all

lemma heard_ingest:
  assumes "heard an h"
  shows "heard an (ingest_serial_bytes an c h)"
proof (cases "c = []")
  case False
  obtain out f where fd: "feed (beacon_filter h) c = (out, f)" by fastforce
  with assms have "heard_text (raw_bytes h @ c) = heard_text (raw_bytes h) @ out"
    "snd (feed new_filter (raw_bytes h @ c)) = f"
    by (simp_all add: heard_def heard_text_append)
  with False assms fd show ?thesis
    by (auto simp: heard_def ingest_serial_bytes_def fold_ingest_effect suffix_def)
qed (simp add: assms ingest_serial_bytes_def)

lemma heard_read: "ser_read h = (c, h1) \<Longrightarrow> heard an h \<Longrightarrow> heard an h1"
  by (auto simp: ser_read_def heard_def split: list.splits)

interpretation heard: listening_writer an "heard an" for an
proof unfold_locales
  fix h h1 :: "('a, 'b) loader_host_scheme" and c
  assume "heard an h" "ser_read h = (c, h1)"
  then show "heard an (ingest_serial_bytes an c h1)"
    by (simp add: heard_ingest heard_read)
qed (auto simp: heard_def sleep_def suffix_def)

end
