(* ===== verification/LogScan.thy ===== *)
theory LogScan
  imports Pattern Selftest
begin

unbundle bit_operations_syntax

text \<open>
  What \<^verbatim>\<open>run_fpga_benchmark_ddr3.py\<close> reads out of console texts and simulation logs: the fetch
  probe, the loader's reports of bad blocks and checksums, benchmark counters, the build id and the
  timing table, and the loader events a simulation prints.
\<close>

section \<open>The fetch probe\<close>

definition probe_keys :: "string list" where
  "probe_keys = [''RQ'', ''AC'', ''RS'', ''LS'', ''IM'', ''ID'', ''IC'', ''F'', ''S'', ''C'', ''G'']"

text \<open>A match of \<^verbatim>\<open>(RQ|AC|...)=([0-9A-Fa-f]+)\<close> at the start of a text: key, digits, rest.\<close>

definition probe_hit :: "string \<Rightarrow> (string \<times> string \<times> string) option" where
  "probe_hit s = (case filter (\<lambda>k. match_items [Lit (k @ ''=''), Run 1 is_hex] s \<noteq> None) probe_keys of
       [] \<Rightarrow> None
     | k # _ \<Rightarrow> (case match_items [Lit (k @ ''=''), Run 1 is_hex] s of
           Some ([w], rest) \<Rightarrow> Some (k, w, rest) | _ \<Rightarrow> None))"

text \<open>The first argument is the character before, for \<^verbatim>\<open>\b\<close>; after a match it is a hex digit.\<close>

fun probe_fields :: "char option \<Rightarrow> string \<Rightarrow> (string \<times> nat) list" where
  "probe_fields prev [] = []"
| "probe_fields prev (c # cs) =
     (case (if word_start prev then probe_hit (c # cs) else None) of
        None \<Rightarrow> probe_fields (Some c) cs
      | Some (k, w, rest) \<Rightarrow>
          if length rest \<le> length cs then (k, hex_value w) # probe_fields (Some (last w)) rest
          else probe_fields (Some c) cs)"

text \<open>\<^verbatim>\<open>re.search(rf"\b{key}=([0-9A-Fa-f]{8})", last)\<close>\<close>

fun probe_wide :: "string \<Rightarrow> char option \<Rightarrow> string \<Rightarrow> nat option" where
  "probe_wide key prev [] = None"
| "probe_wide key prev (c # cs) =
     (case (if word_start prev then match_items [Lit (key @ ''=''), Fixed 8 is_hex] (c # cs) else None) of
        Some (w # _, _) \<Rightarrow> Some (hex_value w)
      | _ \<Rightarrow> probe_wide key (Some c) cs)"

definition probe_wide_keys :: "string list" where
  "probe_wide_keys = [''A'', ''D'', ''PC'', ''N'', ''P'', ''O'', ''I'', ''U'', ''V'']"

definition probe_field_map :: "string \<Rightarrow> (string \<Rightarrow> nat option)" where
  "probe_field_map line = fold (\<lambda>key m. case probe_wide key None line of None \<Rightarrow> m | Some v \<Rightarrow> m(key \<mapsto> v))
     probe_wide_keys (map_of (rev (probe_fields None line)))"

definition field_or_zero :: "(string \<Rightarrow> nat option) \<Rightarrow> string \<Rightarrow> nat" where
  "field_or_zero m k = (case m k of Some v \<Rightarrow> v | None \<Rightarrow> 0)"

definition probe_classification :: "(string \<Rightarrow> nat option) \<Rightarrow> string" where
  "probe_classification fm =
     (let g = field_or_zero fm in
      if g ''RQ'' = 0 then ''pc_jump_or_stage_if_no_m0_request''
      else if g ''AC'' = 0 then ''mem_subsys_ddr3_arb_no_accept''
      else if g ''LS'' \<noteq> 0 \<and> g ''IC'' \<noteq> 0 then ''m0_fetch_path_reached_icache_response''
      else if g ''RS'' = 0 then ''ddr3_bridge_or_mig_no_response''
      else if g ''IM'' = 0 then ''icache_no_mem_request_count''
      else if g ''ID'' = 0 then ''mem_subsys_response_not_seen_by_icache''
      else if g ''IC'' = 0 then ''icache_refill_no_cpu_response''
      else ''m0_fetch_path_reached_icache_response'')"

record fetch_probe =
  fp_lines :: "string list"
  fp_last_line :: string
  fp_fields :: "(string \<Rightarrow> nat option) option"
  fp_classification :: string

definition parse_fetch_probe :: "string \<Rightarrow> fetch_probe" where
  "parse_fetch_probe text_in =
     (let lines = filter (prefix ''M0D '') (map py_strip (splitlines text_in)) in
      if lines = [] then \<lparr>fp_lines = [], fp_last_line = [], fp_fields = None, fp_classification = ''no_probe''\<rparr>
      else let fm = probe_field_map (last lines) in
        \<lparr>fp_lines = lines, fp_last_line = last lines, fp_fields = Some fm,
         fp_classification = probe_classification fm\<rparr>)"

section \<open>The loader's reports\<close>

definition hex8 :: item where
  "hex8 = Fixed 8 is_hex"

definition bad_block_pattern :: "item list" where
  "bad_block_pattern = [Lit ''LOAD BAD BLK='', hex8, Lit '' W='', hex8, Lit '' R='', hex8]"

record bad_block_report =
  bb_block_index :: nat
  bb_host_checksum32 :: nat
  bb_write_checksum32 :: nat
  bb_read_checksum32 :: nat
  bb_cause :: string

text \<open>The checksum of block \<^term>\<open>i\<close> of the payload on the host.\<close>

definition host_block_sum :: "nat \<Rightarrow> bytes \<Rightarrow> nat \<Rightarrow> nat" where
  "host_block_sum block_bytes payload i =
     (let start = i * block_bytes; stop = min (start + block_bytes) (length payload)
      in checksum32 (take (stop - start) (drop start payload)))"

definition analyze_loader_bad_block :: "nat \<Rightarrow> string \<Rightarrow> bytes \<Rightarrow> bad_block_report option" where
  "analyze_loader_bad_block block_bytes text_in payload =
     (case last_match bad_block_pattern text_in of
        Some [block_hex, write_hex, read_hex] \<Rightarrow>
          (let block_idx = hex_value block_hex; write_sum = hex_value write_hex; read_sum = hex_value read_hex;
               host_sum = host_block_sum block_bytes payload block_idx
           in Some \<lparr>bb_block_index = block_idx, bb_host_checksum32 = host_sum,
                bb_write_checksum32 = write_sum, bb_read_checksum32 = read_sum,
                bb_cause = (if write_sum \<noteq> host_sum then ''uart_rx_or_loader_pack_corruption''
                  else if read_sum \<noteq> write_sum then ''ddr3_write_read_path_corruption''
                  else ''indeterminate_block_match'')\<rparr>)
      | _ \<Rightarrow> None)"

definition bad_checksum_pattern :: "item list" where
  "bad_checksum_pattern = [Lit ''LOAD BAD CHECKSUM E='', hex8, Lit '' R='', hex8]"

record bad_checksum_report =
  bc_expected_checksum32 :: nat
  bc_actual_checksum32 :: nat
  bc_delta_signed :: int

definition analyze_loader_bad_checksum :: "string \<Rightarrow> bad_checksum_report option" where
  "analyze_loader_bad_checksum text_in =
     (case last_match bad_checksum_pattern text_in of
        Some [expected_hex, actual_hex] \<Rightarrow>
          Some \<lparr>bc_expected_checksum32 = hex_value expected_hex, bc_actual_checksum32 = hex_value actual_hex,
            bc_delta_signed = int (hex_value actual_hex) - int (hex_value expected_hex)\<rparr>
      | _ \<Rightarrow> None)"

definition write_block_pattern :: "item list" where
  "write_block_pattern = [Lit ''WRBLK='', hex8, Lit '' C='', hex8]"

record write_blocks_report =
  wb_dumped_blocks :: nat
  wb_first_mismatch :: "(nat \<times> nat \<times> nat) option"

text \<open>The loop over the dumped blocks: count, and the first block index, host sum, device sum that differ.\<close>

definition write_block_step ::
  "nat \<Rightarrow> bytes \<Rightarrow> string list \<Rightarrow> write_blocks_report \<Rightarrow> write_blocks_report" where
  "write_block_step block_bytes payload caps r =
     (case caps of
        [block_hex, device_hex] \<Rightarrow>
          (let block_idx = hex_value block_hex; device_sum = hex_value device_hex;
               host_sum = host_block_sum block_bytes payload block_idx
           in r\<lparr>wb_dumped_blocks := Suc (wb_dumped_blocks r),
                wb_first_mismatch := (if wb_first_mismatch r = None \<and> host_sum \<noteq> device_sum
                   then Some (block_idx, host_sum, device_sum) else wb_first_mismatch r)\<rparr>)
      | _ \<Rightarrow> r)"

definition analyze_loader_write_blocks :: "nat \<Rightarrow> string \<Rightarrow> bytes \<Rightarrow> write_blocks_report option" where
  "analyze_loader_write_blocks block_bytes text_in payload =
     (let matches = findall write_block_pattern text_in in
      if matches = [] then None
      else Some (fold (write_block_step block_bytes payload) matches
        \<lparr>wb_dumped_blocks = 0, wb_first_mismatch = None\<rparr>))"

section \<open>Counters, build id and timing\<close>

definition last_field :: "item list \<Rightarrow> string \<Rightarrow> string" where
  "last_field ps s = (case last_match ps s of Some (w # _) \<Rightarrow> w | _ \<Rightarrow> [])"

record benchmark_counters =
  bench_cycles :: string
  bench_instret :: string
  bench_ipc_x1000 :: string

definition counter_pattern :: "string \<Rightarrow> item list" where
  "counter_pattern label = [Lit label, Skip 1 py_space, Run 1 is_dec]"

definition parse_benchmark_counters :: "string \<Rightarrow> benchmark_counters" where
  "parse_benchmark_counters text_in =
     \<lparr>bench_cycles = last_field (counter_pattern ''BENCH CYCLES:'') text_in,
      bench_instret = last_field (counter_pattern ''BENCH INSTRET:'') text_in,
      bench_ipc_x1000 = last_field (counter_pattern ''BENCH IPC_X1000:'') text_in\<rparr>"

definition slice_after_last_token :: "string \<Rightarrow> string \<Rightarrow> string" where
  "slice_after_last_token text_in token =
     (case rfind_from token text_in of Some t \<Rightarrow> t | None \<Rightarrow> text_in)"

text \<open>\<^term>\<open>None\<close> is a file that does not exist.\<close>

definition parse_build_id :: "string option \<Rightarrow> string" where
  "parse_build_id file = (case file of None \<Rightarrow> ''N/A''
     | Some text_in \<Rightarrow> (case first_match [Lit ''BUILD_ID=0x'', Run 1 is_hex] text_in of
         Some (w # _) \<Rightarrow> ''0x'' @ w | _ \<Rightarrow> ''N/A''))"

definition number_char :: "char \<Rightarrow> bool" where
  "number_char c \<longleftrightarrow> is_dec c \<or> c = CHR ''-'' \<or> c = CHR ''.''"

definition timing_pattern :: "item list" where
  "timing_pattern = [Lit newline, Skip 0 py_space, Run 1 number_char, Skip 1 py_space, Skip 1 number_char,
     Skip 1 py_space, Skip 1 is_dec, Skip 1 py_space, Skip 1 is_dec, Skip 1 py_space, Run 1 number_char,
     Skip 1 py_space, Skip 1 number_char]"

record timing_summary =
  ts_wns :: string
  ts_whs :: string
  ts_constraints_met :: bool

definition parse_timing_summary :: "string option \<Rightarrow> timing_summary" where
  "parse_timing_summary file = (case file of
       None \<Rightarrow> \<lparr>ts_wns = ''N/A'', ts_whs = ''N/A'', ts_constraints_met = False\<rparr>
     | Some text_in \<Rightarrow>
         (let met = contains_text ''All user specified timing constraints are met.'' text_in in
          case first_match timing_pattern text_in of
            Some [w, h] \<Rightarrow> \<lparr>ts_wns = w, ts_whs = h, ts_constraints_met = met\<rparr>
          | _ \<Rightarrow> \<lparr>ts_wns = ''N/A'', ts_whs = ''N/A'', ts_constraints_met = met\<rparr>))"

section \<open>The bridge audit\<close>

definition hex_flag :: "char \<Rightarrow> bool" where
  "hex_flag c \<longleftrightarrow> c = CHR ''0'' \<or> c = CHR ''1''"

definition bridge_bad_pattern :: "item list" where
  "bridge_bad_pattern =
     [Lit ''BSTEP BAD S='', Fixed 1 is_dec, Lit '' N='', Fixed 1 is_dec, Lit '' A='', hex8, Lit '' E='', hex8,
      Lit '' R='', hex8, Lit '' LW_A='', hex8, Lit '' LW_D='', hex8, Lit '' DR='', Fixed 1 hex_flag,
      Lit '' ID='', Fixed 1 hex_flag, Lit '' ST='', hex8]"

record bridge_bad_report =
  br_line :: string
  br_step :: nat
  br_words :: nat
  br_addr :: nat
  br_expected :: nat
  br_actual :: nat
  br_last_write_addr :: nat
  br_last_write_data :: nat
  br_drain_ready :: nat
  br_bridge_idle :: nat
  br_status_word :: nat

text \<open>The pattern has only literals and fixed fields, so the matched line is its rendering.\<close>

definition analyze_bridge_steps_bad_line :: "string \<Rightarrow> bridge_bad_report option" where
  "analyze_bridge_steps_bad_line text_in =
     (case last_match bridge_bad_pattern text_in of
        Some [step_s, words_s, addr_s, exp_s, act_s, last_addr_s, last_data_s, drain_s, idle_s, status_s] \<Rightarrow>
          Some \<lparr>br_line = render_items bridge_bad_pattern
                  [step_s, words_s, addr_s, exp_s, act_s, last_addr_s, last_data_s, drain_s, idle_s, status_s],
                br_step = dec_value step_s, br_words = dec_value words_s, br_addr = hex_value addr_s,
                br_expected = hex_value exp_s, br_actual = hex_value act_s,
                br_last_write_addr = hex_value last_addr_s, br_last_write_data = hex_value last_data_s,
                br_drain_ready = dec_value drain_s, br_bridge_idle = dec_value idle_s,
                br_status_word = hex_value status_s\<rparr>
      | _ \<Rightarrow> None)"

section \<open>Loader events of a simulation\<close>

definition loader_evt_pattern :: "item list" where
  "loader_evt_pattern =
     [Lit ''[AX7203_DDR3_LOADER_EVT]'', Skip 1 py_space, Lit ''seq='', Fixed 2 is_hex, Skip 1 py_space,
      Lit ''type='', Fixed 2 is_hex, Skip 1 py_space, Lit ''arg='', Fixed 2 is_hex]"

text \<open>The event at position \<^term>\<open>i\<close> is given the offset it would have in a capture of frames only.\<close>

definition sim_event :: "nat \<Rightarrow> string list \<Rightarrow> event" where
  "sim_event i caps = (case caps of
       [seq_s, type_s, arg_s] \<Rightarrow>
         (i * 5, word_of_nat (hex_value seq_s), word_of_nat (hex_value type_s), word_of_nat (hex_value arg_s))
     | _ \<Rightarrow> (i * 5, 0, 0, 0))"

definition sim_log_events :: "string \<Rightarrow> event list" where
  "sim_log_events text_in = map (\<lambda>(i, caps). sim_event i caps) (enumerate 0 (findall loader_evt_pattern text_in))"

definition sim_log_line :: "event \<Rightarrow> string" where
  "sim_log_line e = ''EVT seq='' @ fmt_0x 2 (unat (ev_seq e)) @ '' '' @ loader_event_name (ev_type e)
     @ '' arg='' @ fmt_0x 2 (unat (ev_arg e))"

record loader_sim_result = loader_result +
  saw_exec_pass :: bool

definition analyze_loader_sim_log :: "string \<Rightarrow> loader_sim_result" where
  "analyze_loader_sim_log text_in =
     (let events = sim_log_events text_in;
          result = reduce_loader_events (loader_session_or_all events) (map sim_log_line events) 0 []
      in loader_result.extend result (loader_sim_result.fields
           (contains_text ''DDR3 EXEC PASS'' text_in \<or> search_word ''exec_pass=1'' None text_in)))"

definition analyze_loader_early_audit_sim_log :: "string \<Rightarrow> early_analysis" where
  "analyze_loader_early_audit_sim_log text_in =
     (let events = sim_log_events text_in in analyze_early_events events (map sim_log_line events) 0 [])"

definition analyze_loader_beacon_selftest_sim_log :: "string \<Rightarrow> selftest_result" where
  "analyze_loader_beacon_selftest_sim_log text_in =
     (let events = sim_log_events text_in
      in analyze_loader_beacon_selftest_events events (map sim_log_line events) 0 [])"

section \<open>A simulation log and a board capture of the same frames\<close>

definition event_caps :: "byte \<times> byte \<times> byte \<Rightarrow> string list" where
  "event_caps k = [fmt_X 2 (unat (fst k)), fmt_X 2 (unat (fst (snd k))), fmt_X 2 (unat (snd (snd k)))]"

definition sim_log :: "(string \<times> byte \<times> byte \<times> byte) list \<Rightarrow> string \<Rightarrow> string" where
  "sim_log segs tail = render_log loader_evt_pattern (map (\<lambda>(noise, k). (noise, event_caps k)) segs) tail"

lemma byte_hex2: "length (fmt_X 2 (unat (b :: byte))) = 2" "word_of_nat (hex_value (fmt_X 2 (unat b))) = b"
  using length_fmt_X [of "unat b" 2] unsigned_less [of b] by simp_all

lemma stops_Cons [simp]: "stops c (x # s) \<longleftrightarrow> \<not> c x"
  by (simp add: stops_def)

lemma event_caps_fit: "fits loader_evt_pattern (event_caps k) rest"
  by (simp add: loader_evt_pattern_def event_caps_def byte_hex2 py_space_def)

lemma sim_log_fits: "log_fits loader_evt_pattern (map (\<lambda>(noise, k). (noise, event_caps k)) segs) tail"
  by (induction segs) (auto simp: event_caps_fit)

lemma findall_sim_log:
  assumes "\<forall>seg \<in> set segs. CHR ''['' \<notin> set (fst seg)" and "CHR ''['' \<notin> set tail"
  shows "findall loader_evt_pattern (sim_log segs tail) = map (\<lambda>seg. event_caps (snd seg)) segs"
proof -
  obtain t ps where pat: "loader_evt_pattern = Lit (CHR ''['' # t) # ps"
    by (simp add: loader_evt_pattern_def)
  have "findall loader_evt_pattern (sim_log segs tail)
      = map snd (map (\<lambda>(noise, k). (noise, event_caps k)) segs)"
    unfolding sim_log_def pat
    by (rule findall_render_log) (use assms sim_log_fits pat in auto)
  then show ?thesis
    by (simp add: comp_def split_beta)
qed

lemma sim_event_caps: "sim_event i (event_caps k) = (i * 5, k)"
  by (simp add: sim_event_def event_caps_def byte_hex2)

lemma expected_events_frames:
  "expected_events (5 * i) (map (\<lambda>k. ([], k)) ks) = map (\<lambda>(j, k). (j * 5, k)) (enumerate i ks)"
proof (induction ks arbitrary: i)
  case (Cons k ks)
  have "5 * i + 5 = 5 * Suc i" by simp
  with Cons show ?case
    by (simp only: expected_events.simps list.map enumerate_simps list.size split_conv add_0_right) simp
qed simp

lemma frames_capture: "concat (map frame ks) = encode_stream (map (\<lambda>k. ([], k)) ks) []"
  by (simp add: encode_stream_def comp_def)

lemma decode_frames:
  "dec_events (decode_loader_beacon_frames nm (concat (map frame ks))) = map (\<lambda>(j, k). (j * 5, k)) (enumerate 0 ks)
   \<and> dec_bad_frames (decode_loader_beacon_frames nm (concat (map frame ks))) = 0
   \<and> dec_passthrough (decode_loader_beacon_frames nm (concat (map frame ks))) = []"
  using decode_encode_from [of "[]" "map (\<lambda>k. ([], k)) ks" nm 0] expected_events_frames [of 0 ks]
  by (simp add: frames_capture decode_loader_beacon_frames_def)

lemma sim_log_events_frames:
  assumes "\<forall>seg \<in> set segs. CHR ''['' \<notin> set (fst seg)" and "CHR ''['' \<notin> set tail"
  shows "sim_log_events (sim_log segs tail)
    = dec_events (decode_loader_beacon_frames loader_event_name (concat (map frame (map snd segs))))"
  using findall_sim_log [OF assms] decode_frames [of loader_event_name "map snd segs"]
  by (simp add: sim_log_events_def enumerate_map_upt sim_event_caps split_beta comp_def enumerate_eq_zip zip_map2)



section \<open>The loader's reports are read back\<close>

definition word_cap :: "nat \<Rightarrow> string" where
  "word_cap n = fmt_X 8 n"

lemma word_cap_fits: "n < 2 ^ 32 \<Longrightarrow> length (word_cap n) = 8 \<and> list_all is_hex (word_cap n)"
  using length_fmt_X [of n 8] by (simp add: word_cap_def)

lemma hex_value_word_cap [simp]: "hex_value (word_cap n) = n"
  by (simp add: word_cap_def)

text \<open>A console text with one report per segment, and what is printed before and after.\<close>

definition bad_block_log :: "(string \<times> nat \<times> nat \<times> nat) list \<Rightarrow> string \<Rightarrow> string" where
  "bad_block_log segs tail = render_log bad_block_pattern
     (map (\<lambda>(noise, i, w, r). (noise, [word_cap i, word_cap w, word_cap r])) segs) tail"

definition write_block_log :: "(string \<times> nat \<times> nat) list \<Rightarrow> string \<Rightarrow> string" where
  "write_block_log segs tail = render_log write_block_pattern
     (map (\<lambda>(noise, i, d). (noise, [word_cap i, word_cap d])) segs) tail"

lemma findall_bad_block_log:
  assumes "\<forall>(noise, i, w, r) \<in> set segs. CHR ''L'' \<notin> set noise \<and> i < 2 ^ 32 \<and> w < 2 ^ 32 \<and> r < 2 ^ 32"
    and "CHR ''L'' \<notin> set tail"
  shows "findall bad_block_pattern (bad_block_log segs tail)
    = map (\<lambda>(noise, i, w, r). [word_cap i, word_cap w, word_cap r]) segs"
proof -
  let ?segs = "map (\<lambda>(noise, i, w, r). (noise, [word_cap i, word_cap w, word_cap r])) segs"
  obtain t ps where pat: "bad_block_pattern = Lit (CHR ''L'' # t) # ps"
    by (simp add: bad_block_pattern_def)
  have "log_fits bad_block_pattern ?segs tail"
    using assms(1) by (induction segs) (auto simp: bad_block_pattern_def hex8_def word_cap_fits)
  then have "findall bad_block_pattern (bad_block_log segs tail) = map snd ?segs"
    unfolding bad_block_log_def pat by (rule findall_render_log) (use assms in auto)
  then show ?thesis
    by (simp add: comp_def split_beta)
qed

lemma findall_write_block_log:
  assumes "\<forall>(noise, i, d) \<in> set segs. CHR ''W'' \<notin> set noise \<and> i < 2 ^ 32 \<and> d < 2 ^ 32"
    and "CHR ''W'' \<notin> set tail"
  shows "findall write_block_pattern (write_block_log segs tail)
    = map (\<lambda>(noise, i, d). [word_cap i, word_cap d]) segs"
proof -
  let ?segs = "map (\<lambda>(noise, i, d). (noise, [word_cap i, word_cap d])) segs"
  obtain t ps where pat: "write_block_pattern = Lit (CHR ''W'' # t) # ps"
    by (simp add: write_block_pattern_def)
  have "log_fits write_block_pattern ?segs tail"
    using assms(1) by (induction segs) (auto simp: write_block_pattern_def hex8_def word_cap_fits)
  then have "findall write_block_pattern (write_block_log segs tail) = map snd ?segs"
    unfolding write_block_log_def pat by (rule findall_render_log) (use assms in auto)
  then show ?thesis
    by (simp add: comp_def split_beta)
qed

text \<open>
  The diagnosis of a bad block: of the reports in a console text the last one counts, its block
  index and checksums are read back exactly, and the cause is reception when the device's checksum
  of the block it wrote differs from the checksum of that block of the payload, memory when only the
  checksum read back differs, and open when all three agree.
\<close>

theorem bad_block_diagnosis:
  assumes "\<forall>(noise, i, w, r) \<in> set (segs @ [(n0, i0, w0, r0)]).
      CHR ''L'' \<notin> set noise \<and> i < 2 ^ 32 \<and> w < 2 ^ 32 \<and> r < 2 ^ 32"
    and "CHR ''L'' \<notin> set tail"
  shows "\<exists>rep. analyze_loader_bad_block B (bad_block_log (segs @ [(n0, i0, w0, r0)]) tail) payload = Some rep
    \<and> bb_block_index rep = i0 \<and> bb_write_checksum32 rep = w0 \<and> bb_read_checksum32 rep = r0
    \<and> bb_host_checksum32 rep = sum_list (map unat (take B (drop (i0 * B) payload))) mod 2 ^ 32
    \<and> (bb_cause rep = ''uart_rx_or_loader_pack_corruption'' \<longleftrightarrow> w0 \<noteq> bb_host_checksum32 rep)
    \<and> (bb_cause rep = ''ddr3_write_read_path_corruption'' \<longleftrightarrow> w0 = bb_host_checksum32 rep \<and> r0 \<noteq> w0)"
proof -
  have "last_match bad_block_pattern (bad_block_log (segs @ [(n0, i0, w0, r0)]) tail)
      = Some [word_cap i0, word_cap w0, word_cap r0]"
    using findall_bad_block_log [OF assms] by (simp add: last_match_def)
  moreover have "host_block_sum B payload i0
      = sum_list (map unat (take B (drop (i0 * B) payload))) mod 2 ^ 32"
    by (auto simp: host_block_sum_def checksum32_def Let_def min_def)
  ultimately show ?thesis
    by (simp add: analyze_loader_bad_block_def Let_def)
qed

lemma bad_block_diagnosis_witness:
  "\<exists>rep. analyze_loader_bad_block 2 (bad_block_log ([] @ [(''err '', 1, 7, 7)]) newline) [1, 2, 3, 4] = Some rep
     \<and> bb_cause rep = ''indeterminate_block_match''"
proof -
  have "\<exists>rep. analyze_loader_bad_block 2 (bad_block_log ([] @ [(''err '', 1, 7, 7)]) newline) [1, 2, 3, 4] = Some rep
      \<and> bb_cause rep \<noteq> ''uart_rx_or_loader_pack_corruption'' \<and> bb_cause rep \<noteq> ''ddr3_write_read_path_corruption''"
    using bad_block_diagnosis [of "[]" "''err ''" 1 7 7 newline 2 "[1, 2, 3, 4]"] by (auto simp: newline_def)
  then show ?thesis
    by (auto simp: analyze_loader_bad_block_def Let_def split: option.splits list.splits if_splits)
qed

lemma write_block_step_caps:
  "write_block_step B payload [word_cap i, word_cap d] r =
     r\<lparr>wb_dumped_blocks := Suc (wb_dumped_blocks r),
       wb_first_mismatch := (if wb_first_mismatch r = None \<and> host_block_sum B payload i \<noteq> d
         then Some (i, host_block_sum B payload i, d) else wb_first_mismatch r)\<rparr>"
  by (simp add: write_block_step_def Let_def)

lemma fold_write_blocks:
  "fold (write_block_step B payload) (map (\<lambda>(noise, i, d). [word_cap i, word_cap d]) segs) r =
     r\<lparr>wb_dumped_blocks := wb_dumped_blocks r + length segs,
       wb_first_mismatch := (case wb_first_mismatch r of Some m \<Rightarrow> Some m
         | None \<Rightarrow> map_option (\<lambda>(noise, i, d). (i, host_block_sum B payload i, d))
             (List.find (\<lambda>(noise, i, d). host_block_sum B payload i \<noteq> d) segs))\<rparr>"
proof (induction segs arbitrary: r)
  case (Cons seg segs)
  obtain noise i d where "seg = (noise, i, d)" by (cases seg)
  then show ?case
    by (simp add: Cons.IH write_block_step_caps split: option.splits)
qed (simp split: option.splits)

text \<open>
  The comparison of dumped blocks: every dumped block is counted, and the mismatch reported is
  the first dump whose device checksum differs from the checksum of that block of the payload; none
  is reported exactly when all of them agree.
\<close>

theorem write_blocks_first_mismatch:
  assumes "segs \<noteq> []" and "CHR ''W'' \<notin> set tail"
    and "\<forall>(noise, i, d) \<in> set segs. CHR ''W'' \<notin> set noise \<and> i < 2 ^ 32 \<and> d < 2 ^ 32"
  shows "\<exists>rep. analyze_loader_write_blocks B (write_block_log segs tail) payload = Some rep
    \<and> wb_dumped_blocks rep = length segs
    \<and> wb_first_mismatch rep = map_option (\<lambda>(noise, i, d). (i, host_block_sum B payload i, d))
        (List.find (\<lambda>(noise, i, d). host_block_sum B payload i \<noteq> d) segs)
    \<and> (wb_first_mismatch rep = None \<longleftrightarrow> (\<forall>(noise, i, d) \<in> set segs. d = host_block_sum B payload i))"
proof -
  have "List.find (\<lambda>(noise, i, d). host_block_sum B payload i \<noteq> d) segs = None
      \<longleftrightarrow> (\<forall>(noise, i, d) \<in> set segs. d = host_block_sum B payload i)"
    by (auto simp: find_None_iff)
  then show ?thesis
    using assms(1) findall_write_block_log [OF assms(3,2)]
    by (simp add: analyze_loader_write_blocks_def Let_def fold_write_blocks)
qed

lemma write_blocks_first_mismatch_witness:
  "\<exists>rep. analyze_loader_write_blocks 2 (write_block_log [(newline, 0, 3), (newline, 1, 9)] newline) [1, 2, 3, 4] = Some rep
     \<and> wb_first_mismatch rep = Some (1, 7, 9)"
  using write_blocks_first_mismatch [of "[(newline, 0, 3), (newline, 1, 9)]" newline 2 "[1, 2, 3, 4]"]
  by (auto simp: newline_def host_block_sum_def checksum32_def Let_def)

end
