(* ===== verification/LoaderDrive.thy ===== *)
theory LoaderDrive
  imports SerialHost LogScan
begin

text \<open>
  \<^verbatim>\<open>drive_uart_loader\<close>: the whole exchange with the loader on the board.  The main loop reads, sends the
  header when the board is ready (or blindly after a second), repeats it until the board starts to
  load, sends the payload in checksummed blocks and listens until the program's output is complete.
\<close>

section \<open>Configuration\<close>

text \<open>The module's constants that the environment may override; times in microseconds.\<close>

record loader_env =
  header_byte_delay :: int
  header_to_payload_grace :: int
  header_retry_gap :: int
  header_retry_limit :: int
  header_training_byte :: byte
  header_training_count :: nat
  ready_to_header_delay :: int
  load_start_to_payload_delay :: int
  payload_ack_timeout_us :: int
  block_reply_timeout_us :: int
  mainline_params :: uart_params

definition default_env :: loader_env where
  "default_env = \<lparr>header_byte_delay = 5000, header_to_payload_grace = 2000000, header_retry_gap = 1000000,
     header_retry_limit = 20, header_training_byte = 0x55, header_training_count = 32,
     ready_to_header_delay = 50000, load_start_to_payload_delay = 100000,
     payload_ack_timeout_us = 8000000, block_reply_timeout_us = 15000000,
     mainline_params = \<lparr>chunk_bytes = 4, block_bytes = 64, byte_delay = 3000, chunk_gap = 50000,
       pre_block_checksum_gap = 100000, checksum_byte_delay = 3000, checksum_retry_gap = 500000,
       checksum_retry_limit = 3, block_gap = 100000, block_retry_gap = 1500000, retry_limit = 12,
       allow_ack_miss = True\<rparr>\<rparr>"

text \<open>The manifest with the payload file read; its numbers fit 32 bits, or \<^verbatim>\<open>struct.pack\<close> raises.\<close>

record manifest =
  m_payload :: bytes
  m_load_addr :: nat
  m_entry :: nat
  m_checksum32 :: nat

definition header_magic :: nat where
  "header_magic = 0x314B4D42"

definition loader_header :: "manifest \<Rightarrow> bytes" where
  "loader_header m = concat (map pack_u32_le
     [header_magic, m_load_addr m, m_entry m, length (m_payload m), m_checksum32 m])"

definition header_wire :: "loader_env \<Rightarrow> manifest \<Rightarrow> bytes" where
  "header_wire env m = replicate (header_training_count env) (header_training_byte env) @ loader_header m"

section \<open>The state and its steps\<close>

record 'a driver = "'a loader_host" +
  sent_header :: bool
  sent_payload :: bool
  header_sent_at :: int
  header_send_count :: nat
  last_header_sent_at :: int
  ready_seen_ever :: bool
  deadline :: int
  send_counts :: block_counts

type_synonym loader_driver = "loader_result driver"

definition driver_init :: "(bytes \<Rightarrow> 'a) \<Rightarrow> int \<Rightarrow> int \<Rightarrow> (nat \<times> bytes) list \<Rightarrow> 'a driver" where
  "driver_init analyze start capture_us script =
     \<lparr>clock = start, incoming = script, outgoing = [], raw_bytes = [], beacon_filter = new_filter,
      analysis = analyze [], ack_credit = 0, ack_count = 0, pending_block_replies = [], host_trace_lines = [],
      start_time = start, sent_header = False, sent_payload = False, header_sent_at = 0, header_send_count = 0,
      last_header_sent_at = 0, ready_seen_ever = False, deadline = start + capture_us,
      send_counts = block_counts_init\<rparr>"

definition send_header_once :: "loader_env \<Rightarrow> manifest \<Rightarrow> loader_driver \<Rightarrow> loader_driver" where
  "send_header_once env m h =
     (let h1 = host_trace_event (''SEND_HEADER try='' @ dec_str (header_send_count h) @ '' len=''
            @ dec_str (length (loader_header m)) @ '' training='' @ dec_str (header_training_count env)) h;
          h2 = write_uart_bytes_slow serial (header_wire env m) (header_byte_delay env) h1
      in h2\<lparr>sent_header := True, header_sent_at := clock h2, last_header_sent_at := clock h2,
           header_send_count := Suc (header_send_count h2)\<rparr>)"

definition active_text :: "loader_driver \<Rightarrow> string" where
  "active_text h = latin1_decode (passthrough_bytes (analysis h))"

text \<open>The first half of an iteration: read, and act on what came.  The flag is \<^verbatim>\<open>break\<close>.\<close>

definition listen_step :: "loader_env \<Rightarrow> manifest \<Rightarrow> bool \<Rightarrow> int \<Rightarrow> loader_driver \<Rightarrow> bool \<times> loader_driver" where
  "listen_step env m expect_dhrystone blind_header_deadline h =
     (case ser_read h of (chunk, h1) \<Rightarrow>
        if chunk \<noteq> [] then
          (let h2 = ingest_serial_bytes analyze_loader_beacon chunk h1;
               current_text = active_text h2;
               h3 = (if ready_seen (analysis h2) then h2\<lparr>ready_seen_ever := True\<rparr> else h2);
               h4 = (if \<not> sent_header h3 \<and> ready_seen_ever h3
                     then send_header_once env m (sleep (ready_to_header_delay env) h3) else h3)
           in (expect_dhrystone \<and> sent_payload h4 \<and> contains_text ''DHRYSTONE DONE'' current_text
               \<or> \<not> expect_dhrystone \<and> sent_payload h4 \<and> summary_ok_seen (analysis h4)
               \<or> bad_seen (analysis h4), h4))
        else if \<not> sent_header h1 \<and> blind_header_deadline \<le> clock h1 then (False, send_header_once env m h1)
        else (False, h1))"

definition retry_header_step :: "loader_env \<Rightarrow> manifest \<Rightarrow> loader_driver \<Rightarrow> loader_driver" where
  "retry_header_step env m h =
     (if sent_header h \<and> \<not> sent_payload h \<and> \<not> load_start_seen (analysis h) \<and> \<not> bad_seen (analysis h)
        \<and> int (header_send_count h) < header_retry_limit env \<and> last_header_sent_at h \<noteq> 0
        \<and> last_header_sent_at h + header_retry_gap env \<le> clock h
      then send_header_once env m h else h)"

definition payload_due :: "loader_env \<Rightarrow> loader_driver \<Rightarrow> bool" where
  "payload_due env h \<longleftrightarrow> sent_header h \<and> \<not> sent_payload h
     \<and> (load_start_seen (analysis h)
        \<or> (\<not> ready_seen_ever h \<and> header_sent_at h \<noteq> 0 \<and> header_retry_limit env \<le> int (header_send_count h)
           \<and> header_sent_at h + header_to_payload_grace env \<le> clock h))"

definition payload_step :: "loader_env \<Rightarrow> manifest \<Rightarrow> int \<Rightarrow> loader_driver \<Rightarrow> bool \<times> loader_driver" where
  "payload_step env m capture_us h =
     (if payload_due env h then
        (case send_uart_payload_with_block_checksums serial
              (loader_callbacks analyze_loader_beacon (payload_ack_timeout_us env) (block_reply_timeout_us env) 100000 True)
              (mainline_params env) (m_payload m) (sleep (load_start_to_payload_delay env) h) of
           (r, h1) \<Rightarrow>
             let h2 = h1\<lparr>send_counts := r, sent_payload := True, deadline := max (deadline h1) (clock h1 + capture_us)\<rparr>
             in (payload_ack_timeout r \<or> payload_block_retry_limit_hit r \<or> bad_seen (analysis h2), h2))
      else (False, h))"

definition loader_iteration :: "loader_env \<Rightarrow> manifest \<Rightarrow> bool \<Rightarrow> int \<Rightarrow> int \<Rightarrow> loader_driver \<Rightarrow> bool \<times> loader_driver" where
  "loader_iteration env m expect_dhrystone capture_us blind h =
     (case listen_step env m expect_dhrystone blind h of (stop, h1) \<Rightarrow>
        if stop then (True, h1) else payload_step env m capture_us (retry_header_step env m h1))"

section \<open>The main loop ends\<close>

text \<open>The driver's own variables, which no callback touches.\<close>

definition driver_rest :: "('a, 'm) driver_scheme \<Rightarrow> bool \<times> bool \<times> int \<times> nat \<times> int \<times> bool \<times> int \<times> block_counts" where
  "driver_rest h = (sent_header h, sent_payload h, header_sent_at h, header_send_count h, last_header_sent_at h,
     ready_seen_ever h, deadline h, send_counts h)"

lemma driver_rest_fields:
  "driver_rest h = driver_rest h' \<longleftrightarrow> sent_header h = sent_header h' \<and> sent_payload h = sent_payload h'
     \<and> header_sent_at h = header_sent_at h' \<and> header_send_count h = header_send_count h'
     \<and> last_header_sent_at h = last_header_sent_at h' \<and> ready_seen_ever h = ready_seen_ever h'
     \<and> deadline h = deadline h' \<and> send_counts h = send_counts h'"
  by (simp add: driver_rest_def)

lemma driver_rest_fold_ingest: "driver_rest (fold ingest_byte bs h) = driver_rest h"
  by (induction bs arbitrary: h) (simp_all add: driver_rest_def ingest_byte_def)

lemma driver_rest_ingest: "driver_rest (ingest_serial_bytes an c h) = driver_rest h"
  by (simp add: ingest_serial_bytes_def split_beta driver_rest_fold_ingest) (simp add: driver_rest_def)

lemma driver_rest_read: "ser_read h = (c, h1) \<Longrightarrow> driver_rest h1 = driver_rest h"
  by (auto simp: ser_read_def driver_rest_def split: list.splits)

interpretation rest: listening_writer an "\<lambda>h. driver_rest h = x" for an x
  by unfold_locales (auto simp: driver_rest_ingest driver_rest_read, auto simp: driver_rest_def sleep_def)

text \<open>One step further: the driver's variables as they were but for the header's, and the line used up or time passed.\<close>

definition moves_on :: "('a, 'm) driver_scheme \<Rightarrow> ('a, 'm) driver_scheme \<Rightarrow> bool" where
  "moves_on h h' \<longleftrightarrow> deadline h' = deadline h \<and> sent_payload h' = sent_payload h
     \<and> (length (incoming h') < length (incoming h)
        \<or> incoming h' = incoming h \<and> clock h + serial_timeout \<le> clock h')"

definition stays :: "('a, 'm) driver_scheme \<Rightarrow> ('a, 'm) driver_scheme \<Rightarrow> bool" where
  "stays h h' \<longleftrightarrow> deadline h' = deadline h \<and> sent_payload h' = sent_payload h \<and> incoming h' = incoming h
     \<and> clock h \<le> clock h'"

lemma stays_refl [simp]: "stays h h"
  by (simp add: stays_def)

lemma moves_stays: "moves_on h h1 \<Longrightarrow> stays h1 h2 \<Longrightarrow> moves_on h h2"
  by (auto simp: moves_on_def stays_def)

lemma stays_trans: "stays h h1 \<Longrightarrow> stays h1 h2 \<Longrightarrow> stays h h2"
  by (auto simp: stays_def)

lemma stays_sleep: "stays h (sleep d h)"
  by (simp add: stays_def sleep_def)

lemma send_header_effect:
  "\<exists>t ls. clock h \<le> t \<and> send_header_once env m h = h\<lparr>clock := t, host_trace_lines := ls,
     outgoing := outgoing h @ header_wire env m, sent_header := True, header_sent_at := t,
     last_header_sent_at := t, header_send_count := Suc (header_send_count h)\<rparr>"
proof -
  let ?h = "host_trace_event (''SEND_HEADER try='' @ dec_str (header_send_count h) @ '' len=''
            @ dec_str (length (loader_header m)) @ '' training='' @ dec_str (header_training_count env)) h"
  obtain t where t: "clock ?h \<le> t" "write_uart_bytes_slow serial (header_wire env m) (header_byte_delay env) ?h
      = ?h\<lparr>clock := t, outgoing := outgoing ?h @ header_wire env m\<rparr>"
    using slow_write_effect [of ?h "header_wire env m" "header_byte_delay env"] by blast
  show ?thesis
    unfolding send_header_once_def Let_def t(2) using t(1)
    by (intro exI [of _ t] exI [of _ "host_trace_lines ?h"]) (simp add: host_trace_event_def)
qed

lemma stays_header: "stays h (send_header_once env m h)"
  using send_header_effect [of h env m] by (auto simp: stays_def)

lemma read_moves: "ser_read h = (c, h1) \<Longrightarrow> moves_on h h1"
  using ser_read_progress [of h c h1] driver_rest_read [of h c h1]
  by (auto simp: moves_on_def driver_rest_fields)

lemma stays_ingest: "stays h (ingest_serial_bytes an c h)"
  using driver_rest_ingest [of "an" c h] by (simp add: stays_def driver_rest_fields)

lemma listen_moves:
  assumes "listen_step env m expect blind h = (stop, h')"
  shows "moves_on h h'"
proof -
  obtain c h1 where rd: "ser_read h = (c, h1)" by (cases "ser_read h")
  have "stays h1 h'"
  proof (cases "c = []")
    case True
    with assms rd show ?thesis
      by (auto simp: listen_step_def stays_header split: if_splits)
  next
    case False
    let ?h2 = "ingest_serial_bytes analyze_loader_beacon c h1"
    let ?h3 = "if ready_seen (analysis ?h2) then ?h2\<lparr>ready_seen_ever := True\<rparr> else ?h2"
    have "stays ?h2 ?h3"
      by (simp add: stays_def)
    then have "stays h1 ?h3"
      using stays_ingest stays_trans by blast
    moreover have "h' = (if \<not> sent_header ?h3 \<and> ready_seen_ever ?h3
        then send_header_once env m (sleep (ready_to_header_delay env) ?h3) else ?h3)"
      using arg_cong [OF assms, of snd] False rd by (simp add: listen_step_def Let_def)
    ultimately obtain h3 P where h3: "stays h1 h3"
      and h': "h' = (if P then send_header_once env m (sleep (ready_to_header_delay env) h3) else h3)"
      by blast
    have "stays h3 (send_header_once env m (sleep (ready_to_header_delay env) h3))"
      by (rule stays_trans [OF stays_sleep stays_header])
    from stays_trans [OF h3 this] h3 show ?thesis
      by (simp add: h')
  qed
  with read_moves [OF rd] show ?thesis
    by (rule moves_stays)
qed

lemma retry_stays: "stays h (retry_header_step env m h)"
  by (simp add: retry_header_step_def stays_header)

lemma iteration_progress:
  assumes "loader_iteration env m expect capture_us blind h = (False, h')"
  shows "moves_on h h' \<or> (sent_payload h' \<and> \<not> sent_payload h)"
proof -
  obtain h1 where ls: "listen_step env m expect blind h = (False, h1)"
    and ps: "payload_step env m capture_us (retry_header_step env m h1) = (False, h')"
    using assms by (auto simp: loader_iteration_def split: prod.splits if_splits)
  have mv: "moves_on h (retry_header_step env m h1)"
    using listen_moves [OF ls] retry_stays moves_stays by blast
  show ?thesis
  proof (cases "payload_due env (retry_header_step env m h1)")
    case True
    then have "\<not> sent_payload (retry_header_step env m h1)"
      by (simp add: payload_due_def)
    with mv have "\<not> sent_payload h"
      by (simp add: moves_on_def)
    moreover from True ps have "sent_payload h'"
      by (auto simp: payload_step_def Let_def split: prod.splits)
    ultimately show ?thesis by blast
  next
    case False
    with ps mv show ?thesis
      by (simp add: payload_step_def)
  qed
qed

section \<open>The whole drive\<close>

function drive_loop :: "loader_env \<Rightarrow> manifest \<Rightarrow> bool \<Rightarrow> int \<Rightarrow> int \<Rightarrow> loader_driver \<Rightarrow> loader_driver" where
  "drive_loop env m expect_dhrystone capture_us blind h =
     (if clock h < deadline h then
        (case loader_iteration env m expect_dhrystone capture_us blind h of (stop, h1) \<Rightarrow>
           if stop then h1 else drive_loop env m expect_dhrystone capture_us blind h1)
      else h)"
  by pat_completeness auto
termination
proof (relation "measures [\<lambda>(env, m, e, c, b, h). if sent_payload h then 0 else 1,
    \<lambda>(env, m, e, c, b, h). length (incoming h), \<lambda>(env, m, e, c, b, h). time_left (deadline h) h]", goal_cases)
  case (2 env m e c b h stop h1)
  then have "moves_on h h1 \<or> (sent_payload h1 \<and> \<not> sent_payload h)"
    using iteration_progress [of env m e c b h h1] by simp
  with 2(1) show ?case
    by (auto simp: moves_on_def time_left_def serial_timeout_def)
qed simp

declare drive_loop.simps [simp del]

section \<open>The result\<close>

definition loader_bad_tokens :: "string list" where
  "loader_bad_tokens = [''BAD MAGIC'', ''LOAD BAD'', ''BAD_BYTE'', ''CAL FAIL'', ''RX OVERRUN'', ''RX FRAME ERR'',
     ''DRAIN TIMEOUT'']"

definition loader_reason_tokens :: "string list" where
  "loader_reason_tokens = [''LOAD BAD CHECKSUM'', ''LOAD BAD BLK'', ''LOAD BAD READ'', ''BAD_BYTE'', ''DRAIN TIMEOUT'',
     ''BAD MAGIC'', ''CAL FAIL'', ''RX OVERRUN'', ''RX FRAME ERR'']"

definition any_token :: "string list \<Rightarrow> string \<Rightarrow> bool" where
  "any_token toks s \<longleftrightarrow> list_ex (\<lambda>t. contains_text t s) toks"

definition first_token :: "string list \<Rightarrow> string \<Rightarrow> string" where
  "first_token toks s = (case List.find (\<lambda>t. contains_text t s) toks of Some t \<Rightarrow> t | None \<Rightarrow> ''none'')"

definition drive_bad_reason :: "loader_result \<Rightarrow> block_counts \<Rightarrow> string \<Rightarrow> string" where
  "drive_bad_reason a r text_seen =
     (if bad_seen a then bad_reason a
      else if payload_block_retry_limit_hit r then ''BLOCK RETRY LIMIT''
      else if payload_ack_timeout r \<and> 0 \<le> payload_failed_block r then ''BLOCK ACK TIMEOUT''
      else if any_token loader_bad_tokens text_seen then first_token loader_reason_tokens text_seen
      else ''none'')"

text \<open>
  The returned dict: the counters of the transfer and the last analysis are kept whole, the paths of
  the log files are left out, and what is written to the files is the last four items.
\<close>

record drive_result =
  dr_sent_header :: bool
  dr_sent_payload :: bool
  dr_counts :: block_counts
  dr_ack_count :: nat
  dr_ack_credit_remaining :: nat
  dr_payload_size_bytes :: nat
  dr_analysis :: loader_result
  dr_fetch_probe :: fetch_probe
  dr_bad_block :: "bad_block_report option"
  dr_bad_checksum :: "bad_checksum_report option"
  dr_write_blocks :: "write_blocks_report option"
  dr_bad_reason :: string
  dr_saw_start :: bool
  dr_saw_done :: bool
  dr_saw_bad :: bool
  dr_dhrystones_per_second :: "string list"
  dr_microseconds_per_run :: "string list"
  dr_counters :: benchmark_counters
  dr_capture_bytes :: nat
  dr_text_log :: string
  dr_raw_log :: bytes
  dr_decoded_log :: string
  dr_host_trace :: string

definition drive_summary :: "loader_env \<Rightarrow> manifest \<Rightarrow> loader_driver \<Rightarrow> drive_result" where
  "drive_summary env m h =
     (let a = analyze_loader_beacon (raw_bytes h);
          current_text = latin1_decode (passthrough_bytes a);
          block_size = block_bytes (mainline_params env)
      in \<lparr>dr_sent_header = sent_header h, dr_sent_payload = sent_payload h, dr_counts = send_counts h,
          dr_ack_count = ack_count h, dr_ack_credit_remaining = ack_credit h,
          dr_payload_size_bytes = length (m_payload m), dr_analysis = a,
          dr_fetch_probe = parse_fetch_probe current_text,
          dr_bad_block = analyze_loader_bad_block block_size current_text (m_payload m),
          dr_bad_checksum = analyze_loader_bad_checksum current_text,
          dr_write_blocks = analyze_loader_write_blocks block_size current_text (m_payload m),
          dr_bad_reason = drive_bad_reason a (send_counts h) current_text,
          dr_saw_start = contains_text ''DHRYSTONE START'' current_text,
          dr_saw_done = contains_text ''DHRYSTONE DONE'' current_text,
          dr_saw_bad = any_token loader_bad_tokens current_text,
          dr_dhrystones_per_second = map hd (findall (counter_pattern ''Dhrystones per Second:'') current_text),
          dr_microseconds_per_run =
            map hd (findall (counter_pattern ''Microseconds for one run through Dhrystone:'') current_text),
          dr_counters = parse_benchmark_counters current_text,
          dr_capture_bytes = length (raw_bytes h),
          dr_text_log = current_text, dr_raw_log = raw_bytes h, dr_decoded_log = decoded_text a,
          dr_host_trace = render_lines (host_trace_lines h)\<rparr>)"

definition loader_final :: "loader_env \<Rightarrow> manifest \<Rightarrow> bool \<Rightarrow> int \<Rightarrow> int \<Rightarrow> (nat \<times> bytes) list \<Rightarrow> loader_driver" where
  "loader_final env m expect_dhrystone capture_us start script =
     drive_loop env m expect_dhrystone capture_us (start + 1000000)
       (driver_init analyze_loader_beacon start capture_us script)"

definition drive_uart_loader :: "loader_env \<Rightarrow> manifest \<Rightarrow> bool \<Rightarrow> int \<Rightarrow> int \<Rightarrow> (nat \<times> bytes) list \<Rightarrow> drive_result" where
  "drive_uart_loader env m expect_dhrystone capture_us start script =
     drive_summary env m (loader_final env m expect_dhrystone capture_us start script)"

section \<open>Reachable states\<close>

text \<open>The states at the head of the main loop, as a step relation.\<close>

inductive loader_reach :: "loader_env \<Rightarrow> manifest \<Rightarrow> bool \<Rightarrow> int \<Rightarrow> int \<Rightarrow> loader_driver \<Rightarrow> loader_driver \<Rightarrow> bool"
  for env m expect_dhrystone capture_us blind h0 where
  start: "loader_reach env m expect_dhrystone capture_us blind h0 h0"
| step: "loader_reach env m expect_dhrystone capture_us blind h0 h \<Longrightarrow> clock h < deadline h \<Longrightarrow>
    loader_iteration env m expect_dhrystone capture_us blind h = (stop, h') \<Longrightarrow>
    loader_reach env m expect_dhrystone capture_us blind h0 h'"

inductive_cases loader_reachE: "loader_reach env m expect capture_us blind h0 h"

lemma drive_loop_reach:
  "loader_reach env m expect cap blind h0 h \<Longrightarrow> loader_reach env m expect cap blind h0 (drive_loop env m expect cap blind h)"
proof (induction env m expect cap blind h rule: drive_loop.induct)
  case (1 env m expect cap blind h)
  obtain stop h1 where it: "loader_iteration env m expect cap blind h = (stop, h1)" by fastforce
  show ?case
    using "1.IH" [OF _ it [symmetric]] "1.prems" loader_reach.step [OF "1.prems" _ it]
    by (subst drive_loop.simps) (simp add: it)
qed

text \<open>The part of the invariant that speaks of the wire and of the header count.\<close>

definition wire_inv :: "loader_env \<Rightarrow> manifest \<Rightarrow> loader_driver \<Rightarrow> bool" where
  "wire_inv env m h \<longleftrightarrow>
     (\<exists>ws. outgoing h = concat (replicate (header_send_count h) (header_wire env m)) @ ws
        \<and> (\<not> sent_payload h \<longrightarrow> ws = [] \<and> send_counts h = block_counts_init)
        \<and> (sent_payload h \<longrightarrow> \<not> payload_ack_timeout (send_counts h) \<longrightarrow> \<not> payload_block_retry_limit_hit (send_counts h)
            \<longrightarrow> wire_blocks (mainline_params env)
                 (map snd (slices (block_bytes (mainline_params env)) 0 (m_payload m))) ws))
     \<and> (sent_header h \<longleftrightarrow> 0 < header_send_count h) \<and> (sent_payload h \<longrightarrow> sent_header h)
     \<and> int (header_send_count h) \<le> max 1 (header_retry_limit env)"

lemma wire_inv_cong:
  "outgoing h' = outgoing h \<Longrightarrow> driver_rest h' = driver_rest h \<Longrightarrow> wire_inv env m h \<Longrightarrow> wire_inv env m h'"
  unfolding wire_inv_def driver_rest_fields by simp blast

lemma wire_inv_ready: "wire_inv env m (h\<lparr>ready_seen_ever := b\<rparr>) = wire_inv env m h"
  by (simp add: wire_inv_def)

lemma wire_inv_sleep: "wire_inv env m h \<Longrightarrow> wire_inv env m (sleep d h)"
  by (rule wire_inv_cong) (simp_all add: driver_rest_def, simp_all add: sleep_def)

lemma concat_replicate_snoc: "concat (replicate (Suc n) x) = concat (replicate n x) @ x"
  by (induction n) simp_all

lemma wire_inv_header:
  assumes "wire_inv env m h" and "\<not> sent_payload h"
    and "\<not> sent_header h \<or> int (header_send_count h) < header_retry_limit env"
  shows "wire_inv env m (send_header_once env m h)"
proof -
  obtain t ls where eff: "send_header_once env m h = h\<lparr>clock := t, host_trace_lines := ls,
     outgoing := outgoing h @ header_wire env m, sent_header := True, header_sent_at := t,
     last_header_sent_at := t, header_send_count := Suc (header_send_count h)\<rparr>"
    using send_header_effect by blast
  have "outgoing h @ header_wire env m = concat (replicate (Suc (header_send_count h)) (header_wire env m))"
    using assms(1,2) unfolding concat_replicate_snoc by (simp add: wire_inv_def)
  moreover have "int (Suc (header_send_count h)) \<le> max 1 (header_retry_limit env)"
    using assms by (auto simp: wire_inv_def)
  ultimately show ?thesis
    using assms(1,2) by (simp add: eff wire_inv_def)
qed

lemma heard_ready: "heard an (h\<lparr>ready_seen_ever := b\<rparr>) = heard an h"
  by (simp add: heard_def)

lemma heard_header: "heard an h \<Longrightarrow> heard an (send_header_once env m h)"
  using send_header_effect [of h env m] by (auto simp: heard_def)

lemma inv_listen:
  assumes "listen_step env m expect blind h = (stop, h')" and "wire_inv env m h" and "heard analyze_loader_beacon h"
  shows "wire_inv env m h' \<and> heard analyze_loader_beacon h'"
proof -
  obtain c h1 where rd: "ser_read h = (c, h1)" by (cases "ser_read h")
  let ?h2 = "ingest_serial_bytes analyze_loader_beacon c h1"
  have h1: "wire_inv env m h1"
    using wire_inv_cong [OF ser_read_out [OF rd] driver_rest_read [OF rd] assms(2)] .
  have h2: "wire_inv env m ?h2"
    by (rule wire_inv_cong [OF _ _ h1]) (simp_all add: driver_rest_ingest)
  have first: "wire_inv env m (send_header_once env m g) \<and> heard analyze_loader_beacon (send_header_once env m g)"
    if "wire_inv env m g" "heard analyze_loader_beacon g" "\<not> sent_header g" for g
    using that wire_inv_header [of env m g] heard_header by (auto simp: wire_inv_def)
  show ?thesis
  proof (cases "c = []")
    case True
    have "heard analyze_loader_beacon h1"
      using heard_read [OF rd assms(3)] .
    with True assms(1) rd h1 first [OF h1] show ?thesis
      by (auto simp: listen_step_def split: if_splits)
  next
    case False
    let ?h3 = "if ready_seen (analysis ?h2) then ?h2\<lparr>ready_seen_ever := True\<rparr> else ?h2"
    have "heard analyze_loader_beacon ?h3" "wire_inv env m ?h3"
      using heard_ingest [OF heard_read [OF rd assms(3)]] h2 by (simp_all add: wire_inv_ready heard_ready)
    moreover have "h' = (if \<not> sent_header ?h3 \<and> ready_seen_ever ?h3
        then send_header_once env m (sleep (ready_to_header_delay env) ?h3) else ?h3)"
      using arg_cong [OF assms(1), of snd] False rd by (simp add: listen_step_def Let_def)
    ultimately obtain h3 where h3: "heard analyze_loader_beacon h3" "wire_inv env m h3"
      and h': "h' = (if \<not> sent_header h3 \<and> ready_seen_ever h3
        then send_header_once env m (sleep (ready_to_header_delay env) h3) else h3)"
      by blast
    have "\<not> sent_header h3 \<Longrightarrow> \<not> sent_header (sleep (ready_to_header_delay env) h3)"
      by (simp add: sleep_def)
    with h3 h' first [OF wire_inv_sleep [OF h3(2)] heard.holds_sleep [OF h3(1)]] show ?thesis
      by auto
  qed
qed

lemma inv_retry:
  assumes "wire_inv env m h" and "heard analyze_loader_beacon h"
  shows "wire_inv env m (retry_header_step env m h) \<and> heard analyze_loader_beacon (retry_header_step env m h)"
  using assms wire_inv_header [of env m h] heard_header [OF assms(2)] by (auto simp: retry_header_step_def)

lemma inv_payload:
  assumes "payload_step env m cap h = (stop, h')" and "wire_inv env m h" and "heard analyze_loader_beacon h"
    and "0 < chunk_bytes (mainline_params env)"
  shows "wire_inv env m h' \<and> heard analyze_loader_beacon h'"
proof (cases "payload_due env h")
  case False
  with assms show ?thesis by (simp add: payload_step_def)
next
  case True
  let ?p = "mainline_params env"
  let ?cb = "loader_callbacks analyze_loader_beacon (payload_ack_timeout_us env) (block_reply_timeout_us env) 100000 True"
  let ?h0 = "sleep (load_start_to_payload_delay env) h"
  obtain r h1 where tr: "send_uart_payload_with_block_checksums serial ?cb ?p (m_payload m) ?h0 = (r, h1)"
    by fastforce
  have h': "h' = h1\<lparr>send_counts := r, sent_payload := True, deadline := max (deadline h1) (clock h1 + cap)\<rparr>"
    using True assms(1) tr by (simp add: payload_step_def Let_def)
  have "heard analyze_loader_beacon h1"
    using heard.transfer.keeps_transfer [OF tr] heard.holds_sleep [OF assms(3)] .
  then have "heard analyze_loader_beacon h'"
    by (simp add: h' heard_def)
  moreover have "driver_rest h1 = driver_rest ?h0"
    using rest.transfer.keeps_transfer [OF tr refl] .
  then have same: "sent_header h1" "header_send_count h1 = header_send_count h"
    using True by (simp_all add: driver_rest_fields payload_due_def, simp_all add: sleep_def)
  have "outgoing ?h0 = concat (replicate (header_send_count h) (header_wire env m))"
    using True assms(2) by (auto simp: wire_inv_def payload_due_def)
  moreover have "\<exists>ws. wire_blocks ?p (map snd (slices (block_bytes ?p) 0 (m_payload m))) ws
      \<and> outgoing h1 = outgoing ?h0 @ ws"
    if "\<not> payload_ack_timeout r" "\<not> payload_block_retry_limit_hit r"
    using wire.sent_transfer [OF tr assms(4) that] .
  moreover have "\<exists>ws. outgoing h1 = outgoing ?h0 @ ws"
    by (rule wire.appends.keeps_transfer [OF tr]) simp
  ultimately show ?thesis
    using assms(2) same True by (auto simp: h' wire_inv_def payload_due_def)
qed

lemma inv_iteration:
  assumes "loader_iteration env m expect cap blind h = (stop, h')"
    and "0 < chunk_bytes (mainline_params env)"
    and "wire_inv env m h \<and> heard analyze_loader_beacon h"
  shows "wire_inv env m h' \<and> heard analyze_loader_beacon h'"
proof -
  obtain s1 h1 where ls: "listen_step env m expect blind h = (s1, h1)" by fastforce
  have h1: "wire_inv env m h1 \<and> heard analyze_loader_beacon h1"
    using inv_listen [OF ls] assms(3) by blast
  show ?thesis
  proof (cases s1)
    case True
    with assms(1) ls h1 show ?thesis by (simp add: loader_iteration_def)
  next
    case False
    with assms(1) ls have "payload_step env m cap (retry_header_step env m h1) = (stop, h')"
      by (simp add: loader_iteration_def)
    then show ?thesis
      using inv_payload [OF _ _ _ assms(2)] inv_retry h1 by blast
  qed
qed

lemma loader_reach_inv:
  "loader_reach env m expect cap blind h0 h \<Longrightarrow> 0 < chunk_bytes (mainline_params env) \<Longrightarrow>
     wire_inv env m h0 \<and> heard analyze_loader_beacon h0 \<Longrightarrow> wire_inv env m h \<and> heard analyze_loader_beacon h"
proof (induction rule: loader_reach.induct)
  case (step h stop h')
  then show ?case
    using inv_iteration [OF step.hyps(3)] by blast
qed

lemma init_inv: "wire_inv env m (driver_init an start cap script)" "heard an (driver_init an start cap script)"
  by (simp_all add: wire_inv_def driver_init_def heard_def heard_text_def feed_drain new_filter_def replies_in_def)

lemma final_inv:
  assumes "0 < chunk_bytes (mainline_params env)"
  shows "wire_inv env m (loader_final env m expect cap start script)
    \<and> heard analyze_loader_beacon (loader_final env m expect cap start script)"
  unfolding loader_final_def
  by (rule loader_reach_inv [OF drive_loop_reach [OF loader_reach.start] assms]) (simp add: init_inv)

text \<open>
  C5. What the host puts on the wire, whatever the board does: the header some number of times, never
  more than the retry limit allows (and at most once if that is less), and nothing else until the
  payload; the payload only after a header; and when the transfer ended without a timeout and within
  the retry limit, the bytes after the headers are the payload's blocks in order, each written whole
  with its checksum in every attempt.
\<close>

theorem drive_writes_protocol:
  fixes env :: loader_env and m :: manifest and expect :: bool and cap start :: int and script :: "(nat \<times> bytes) list"
  assumes "0 < chunk_bytes (mainline_params env)"
  defines "h \<equiv> loader_final env m expect cap start script"
    and "r \<equiv> drive_uart_loader env m expect cap start script"
  shows "\<exists>n ws. outgoing h = concat (replicate n (header_wire env m)) @ ws
    \<and> int n \<le> max 1 (header_retry_limit env)
    \<and> dr_sent_header r = (0 < n)
    \<and> (if dr_sent_payload r then 0 < n else ws = [])
    \<and> (if dr_sent_payload r \<and> \<not> payload_ack_timeout (dr_counts r) \<and> \<not> payload_block_retry_limit_hit (dr_counts r)
       then wire_blocks (mainline_params env)
              (map snd (slices (block_bytes (mainline_params env)) 0 (m_payload m))) ws
       else True)"
proof -
  have "wire_inv env m h"
    using final_inv [OF assms(1)] by (simp add: h_def)
  moreover have "dr_sent_header r = sent_header h" "dr_sent_payload r = sent_payload h" "dr_counts r = send_counts h"
    by (simp_all add: r_def h_def drive_uart_loader_def drive_summary_def Let_def)
  ultimately show ?thesis
    unfolding wire_inv_def by (intro exI [of _ "header_send_count h"]) auto
qed

definition demo_manifest :: manifest where
  "demo_manifest = \<lparr>m_payload = [1, 2, 3, 4, 5], m_load_addr = 0x80000000, m_entry = 0x80000000, m_checksum32 = 15\<rparr>"

lemma default_chunk: "0 < chunk_bytes (mainline_params default_env)"
  by (simp add: default_env_def)

lemma default_limit: "header_retry_limit default_env = 20"
  by (simp add: default_env_def)

lemma drive_writes_protocol_witness:
  "\<exists>n ws. outgoing (loader_final default_env demo_manifest True 60000000 7 [(5, [0x42])])
      = concat (replicate n (header_wire default_env demo_manifest)) @ ws \<and> int n \<le> 20"
  using drive_writes_protocol [OF default_chunk, of demo_manifest True 60000000 7 "[(5, [0x42])]"] default_limit
  by (metis max.absorb2 one_le_numeral)

text \<open>
  C10. What the host reports about acknowledges is what the board sent: the acknowledges counted are the
  ACK bytes outside frames of the whole capture, whatever the reads and however long the waits; the
  credit left is not more; and the analysis the loop acted on last is the analysis of the whole capture.
\<close>

theorem drive_counts_acks:
  fixes env :: loader_env and m :: manifest and expect :: bool and cap start :: int and script :: "(nat \<times> bytes) list"
  assumes "0 < chunk_bytes (mainline_params env)"
  defines "h \<equiv> loader_final env m expect cap start script"
    and "r \<equiv> drive_uart_loader env m expect cap start script"
  shows "dr_ack_count r = count_list (passthrough_bytes (dr_analysis r)) UART_PAYLOAD_ACK
    \<and> dr_ack_credit_remaining r \<le> dr_ack_count r
    \<and> dr_analysis r = analysis h
    \<and> dr_raw_log r = raw_bytes h"
proof -
  have hd: "heard analyze_loader_beacon h"
    using final_inv [OF assms(1)] by (simp add: h_def)
  have "passthrough_bytes (analyze_loader_beacon raw) = heard_text raw" for raw
    by (simp add: analyze_loader_beacon_def Let_def reduce_loader_events_def loader_result.defs loader_flags.defs
        heard_text_decoder [of _ loader_event_name])
  with hd show ?thesis
    by (simp add: r_def h_def [symmetric] drive_uart_loader_def drive_summary_def Let_def heard_def)
qed

lemma drive_counts_acks_witness:
  "dr_ack_credit_remaining (drive_uart_loader default_env demo_manifest True 60000000 7 [(5, [0x06])])
     \<le> dr_ack_count (drive_uart_loader default_env demo_manifest True 60000000 7 [(5, [0x06])])"
  using drive_counts_acks [OF default_chunk, of demo_manifest True 60000000 7 "[(5, [0x06])]"] by blast

section \<open>Why a drive ends\<close>

definition stop_reason :: "bool \<Rightarrow> loader_driver \<Rightarrow> bool" where
  "stop_reason expect h \<longleftrightarrow> bad_seen (analysis h)
     \<or> (sent_payload h \<and> (payload_ack_timeout (send_counts h) \<or> payload_block_retry_limit_hit (send_counts h)
        \<or> (if expect then contains_text ''DHRYSTONE DONE'' (active_text h) else summary_ok_seen (analysis h))))"

lemma analysis_header [simp]: "analysis (send_header_once env m h) = analysis h"
  using send_header_effect [of h env m] by auto

lemma listen_stop_reason:
  assumes "listen_step env m expect blind h = (True, h')"
  shows "stop_reason expect h'"
proof -
  obtain c h1 where rd: "ser_read h = (c, h1)" by (cases "ser_read h")
  have c: "c \<noteq> []"
    using assms rd by (auto simp: listen_step_def split: if_splits)
  let ?h2 = "ingest_serial_bytes analyze_loader_beacon c h1"
  let ?h3 = "if ready_seen (analysis ?h2) then ?h2\<lparr>ready_seen_ever := True\<rparr> else ?h2"
  let ?h4 = "if \<not> sent_header ?h3 \<and> ready_seen_ever ?h3
        then send_header_once env m (sleep (ready_to_header_delay env) ?h3) else ?h3"
  have h': "h' = ?h4"
    using arg_cong [OF assms, of snd] c rd by (simp add: listen_step_def Let_def)
  have an: "analysis ?h4 = analysis ?h2"
    by (simp add: sleep_def)
  have "expect \<and> sent_payload ?h4 \<and> contains_text ''DHRYSTONE DONE'' (active_text ?h2)
      \<or> \<not> expect \<and> sent_payload ?h4 \<and> summary_ok_seen (analysis ?h4) \<or> bad_seen (analysis ?h4)"
    using arg_cong [OF assms, of fst] c rd by (simp add: listen_step_def Let_def)
  moreover have "active_text ?h4 = active_text ?h2"
    unfolding active_text_def an ..
  ultimately show ?thesis
    unfolding h' stop_reason_def by (simp only:) (auto split: if_splits)
qed

lemma iteration_stop_reason:
  assumes "loader_iteration env m expect cap blind h = (True, h')"
  shows "stop_reason expect h'"
proof -
  obtain s1 h1 where ls: "listen_step env m expect blind h = (s1, h1)" by fastforce
  show ?thesis
  proof (cases s1)
    case True
    with assms ls listen_stop_reason show ?thesis by (auto simp: loader_iteration_def)
  next
    case False
    with assms ls show ?thesis
      by (auto simp: loader_iteration_def payload_step_def stop_reason_def Let_def split: prod.splits if_splits)
  qed
qed


end
