(* ===== verification/Step2.thy ===== *)
theory Step2
  imports LogScan
begin

unbundle bit_operations_syntax

text \<open>
  The step-2 bridge test of \<^verbatim>\<open>run_fpga_benchmark_ddr3.py\<close>: its event names, the analysis of a captured
  beacon, which restarts at every READY frame, and the analysis of the simulation's log.
\<close>

section \<open>Events\<close>

abbreviation STEP2_EVT_READY :: byte where "STEP2_EVT_READY \<equiv> 0x01"
abbreviation STEP2_EVT_C1_OK :: byte where "STEP2_EVT_C1_OK \<equiv> 0x11"
abbreviation STEP2_EVT_C2_OK :: byte where "STEP2_EVT_C2_OK \<equiv> 0x12"
abbreviation STEP2_EVT_C3_START :: byte where "STEP2_EVT_C3_START \<equiv> 0x31"
abbreviation STEP2_EVT_C3_AFTER :: byte where "STEP2_EVT_C3_AFTER \<equiv> 0x32"
abbreviation STEP2_EVT_C3_OK :: byte where "STEP2_EVT_C3_OK \<equiv> 0x33"
abbreviation STEP2_EVT_C4_START :: byte where "STEP2_EVT_C4_START \<equiv> 0x41"
abbreviation STEP2_EVT_C4_AFTER :: byte where "STEP2_EVT_C4_AFTER \<equiv> 0x42"
abbreviation STEP2_EVT_C4_OK :: byte where "STEP2_EVT_C4_OK \<equiv> 0x43"
abbreviation STEP2_EVT_C5_START :: byte where "STEP2_EVT_C5_START \<equiv> 0x51"
abbreviation STEP2_EVT_C5_AFTER :: byte where "STEP2_EVT_C5_AFTER \<equiv> 0x52"
abbreviation STEP2_EVT_C5_OK :: byte where "STEP2_EVT_C5_OK \<equiv> 0x53"
abbreviation STEP2_EVT_BAD :: byte where "STEP2_EVT_BAD \<equiv> 0xE0"
abbreviation STEP2_EVT_CAL_FAIL :: byte where "STEP2_EVT_CAL_FAIL \<equiv> 0xE1"
abbreviation STEP2_EVT_TRAP :: byte where "STEP2_EVT_TRAP \<equiv> 0xEF"
abbreviation STEP2_EVT_SUMMARY :: byte where "STEP2_EVT_SUMMARY \<equiv> 0xF0"

definition step2_event_names :: "(byte \<times> string) list" where
  "step2_event_names =
     [(STEP2_EVT_READY, ''READY''), (STEP2_EVT_C1_OK, ''C1_OK''), (STEP2_EVT_C2_OK, ''C2_OK''),
      (STEP2_EVT_C3_START, ''C3_START''), (STEP2_EVT_C3_AFTER, ''C3_AFTER''), (STEP2_EVT_C3_OK, ''C3_OK''),
      (STEP2_EVT_C4_START, ''C4_START''), (STEP2_EVT_C4_AFTER, ''C4_AFTER''), (STEP2_EVT_C4_OK, ''C4_OK''),
      (STEP2_EVT_C5_START, ''C5_START''), (STEP2_EVT_C5_AFTER, ''C5_AFTER''), (STEP2_EVT_C5_OK, ''C5_OK''),
      (STEP2_EVT_BAD, ''BAD''), (STEP2_EVT_CAL_FAIL, ''CAL_FAIL''), (STEP2_EVT_TRAP, ''TRAP''),
      (STEP2_EVT_SUMMARY, ''SUMMARY'')]"

definition step2_event_name :: "byte \<Rightarrow> string" where
  "step2_event_name evt_type = (case map_of step2_event_names evt_type of
     Some n \<Rightarrow> n | None \<Rightarrow> ''TYPE_'' @ fmt_X 2 (unat evt_type))"

section \<open>The analysis of a capture\<close>

text \<open>\<^verbatim>\<open>last_progress_detail\<close> with the keys it may have; the empty dict is \<^term>\<open>None\<close> where it is used.\<close>

record step2_detail =
  d_kind :: string
  d_case :: "nat option"
  d_phase :: "nat option"
  d_line :: string

definition detail :: "string \<Rightarrow> nat option \<Rightarrow> string \<Rightarrow> step2_detail" where
  "detail kind c line = \<lparr>d_kind = kind, d_case = c, d_phase = None, d_line = line\<rparr>"

record step2_flags =
  s2_ready_seen :: bool
  s2_case1_pass :: bool
  s2_case2_pass :: bool
  s2_saw_start_case3 :: bool
  s2_saw_after_write_case3 :: bool
  s2_case3_pass :: bool
  s2_saw_start_case4 :: bool
  s2_saw_after_write_case4 :: bool
  s2_case4_pass :: bool
  s2_saw_start_case5 :: bool
  s2_saw_after_write_case5 :: bool
  s2_case5_pass :: bool
  s2_summary_seen :: bool
  s2_summary_mask :: "byte option"
  s2_saw_bad :: bool
  s2_saw_trap :: bool
  s2_saw_cal_fail :: bool
  s2_bad_detail :: "step2_detail option"
  s2_last_progress_detail :: "step2_detail option"
  s2_good_frames :: nat
  s2_bad_frames :: nat
  s2_dropped_duplicates :: nat

record step2_loop = step2_flags +
  s2_session_active :: bool
  s2_session_complete :: bool
  s2_seen_seq :: "byte set"
  s2_decoded_lines :: "string list"

definition step2_init :: step2_loop where
  "step2_init = \<lparr>s2_ready_seen = False, s2_case1_pass = False, s2_case2_pass = False,
     s2_saw_start_case3 = False, s2_saw_after_write_case3 = False, s2_case3_pass = False,
     s2_saw_start_case4 = False, s2_saw_after_write_case4 = False, s2_case4_pass = False,
     s2_saw_start_case5 = False, s2_saw_after_write_case5 = False, s2_case5_pass = False,
     s2_summary_seen = False, s2_summary_mask = None, s2_saw_bad = False, s2_saw_trap = False,
     s2_saw_cal_fail = False, s2_bad_detail = None, s2_last_progress_detail = None, s2_good_frames = 0,
     s2_bad_frames = 0, s2_dropped_duplicates = 0, s2_session_active = False, s2_session_complete = False,
     s2_seen_seq = {}, s2_decoded_lines = []\<rparr>"

text \<open>A READY frame: everything but the log starts afresh.\<close>

definition step2_ready :: "byte \<Rightarrow> string \<Rightarrow> step2_loop \<Rightarrow> step2_loop" where
  "step2_ready seq line s = step2_init\<lparr>s2_ready_seen := True,
     s2_last_progress_detail := Some (detail ''ready'' None line), s2_good_frames := 1,
     s2_session_active := True, s2_seen_seq := {seq}, s2_decoded_lines := s2_decoded_lines s\<rparr>"

definition progress :: "string \<Rightarrow> nat \<Rightarrow> string \<Rightarrow> step2_loop \<Rightarrow> step2_loop" where
  "progress kind c line s = s\<lparr>s2_last_progress_detail := Some (detail kind (Some c) line)\<rparr>"

definition step2_dispatch :: "byte \<Rightarrow> byte \<Rightarrow> string \<Rightarrow> step2_loop \<Rightarrow> step2_loop" where
  "step2_dispatch evt_type evt_arg line s =
     (if evt_type = STEP2_EVT_C1_OK then progress ''ok'' 1 line (s\<lparr>s2_case1_pass := True\<rparr>)
      else if evt_type = STEP2_EVT_C2_OK then progress ''ok'' 2 line (s\<lparr>s2_case2_pass := True\<rparr>)
      else if evt_type = STEP2_EVT_C3_START then progress ''start'' 3 line (s\<lparr>s2_saw_start_case3 := True\<rparr>)
      else if evt_type = STEP2_EVT_C3_AFTER then progress ''after_write'' 3 line (s\<lparr>s2_saw_after_write_case3 := True\<rparr>)
      else if evt_type = STEP2_EVT_C3_OK then progress ''ok'' 3 line (s\<lparr>s2_case3_pass := True\<rparr>)
      else if evt_type = STEP2_EVT_C4_START then progress ''start'' 4 line (s\<lparr>s2_saw_start_case4 := True\<rparr>)
      else if evt_type = STEP2_EVT_C4_AFTER then progress ''after_write'' 4 line (s\<lparr>s2_saw_after_write_case4 := True\<rparr>)
      else if evt_type = STEP2_EVT_C4_OK then progress ''ok'' 4 line (s\<lparr>s2_case4_pass := True\<rparr>)
      else if evt_type = STEP2_EVT_C5_START then progress ''start'' 5 line (s\<lparr>s2_saw_start_case5 := True\<rparr>)
      else if evt_type = STEP2_EVT_C5_AFTER then progress ''after_write'' 5 line (s\<lparr>s2_saw_after_write_case5 := True\<rparr>)
      else if evt_type = STEP2_EVT_C5_OK then progress ''ok'' 5 line (s\<lparr>s2_case5_pass := True\<rparr>)
      else if evt_type = STEP2_EVT_BAD then
        (let c = unat (evt_arg AND 0x0F); ph = unat (drop_bit 4 evt_arg AND 0x0F) in
         s\<lparr>s2_saw_bad := True,
           s2_bad_detail := Some \<lparr>d_kind = [], d_case = Some c, d_phase = Some ph, d_line = line\<rparr>,
           s2_last_progress_detail := Some \<lparr>d_kind = ''bad'', d_case = Some c, d_phase = Some ph, d_line = line\<rparr>\<rparr>)
      else if evt_type = STEP2_EVT_CAL_FAIL then
        s\<lparr>s2_saw_cal_fail := True, s2_last_progress_detail := Some (detail ''cal_fail'' None line)\<rparr>
      else if evt_type = STEP2_EVT_TRAP then
        s\<lparr>s2_saw_trap := True, s2_last_progress_detail := Some (detail ''trap'' None line)\<rparr>
      else if evt_type = STEP2_EVT_SUMMARY then
        s\<lparr>s2_summary_seen := True, s2_summary_mask := Some evt_arg,
          s2_last_progress_detail := Some (detail ''summary'' None line), s2_session_complete := True\<rparr>
      else s)"

definition log_line :: "string \<Rightarrow> step2_loop \<Rightarrow> step2_loop" where
  "log_line line s = s\<lparr>s2_decoded_lines := s2_decoded_lines s @ [line]\<rparr>"

text \<open>A frame with a good checksum.\<close>

definition step2_event_step :: "event \<Rightarrow> step2_loop \<Rightarrow> step2_loop" where
  "step2_event_step e s =
     (case e of (idx, seq, evt_type, evt_arg) \<Rightarrow>
        (let line = event_line step2_event_name idx seq evt_type evt_arg; s1 = log_line line s in
         if evt_type = STEP2_EVT_READY then step2_ready seq line s1
         else if \<not> s2_session_active s1 \<or> s2_session_complete s1 then s1
         else if seq \<in> s2_seen_seq s1 then
           log_line (''DUP_FRAME off='' @ fmt_0x 4 idx @ '' seq='' @ fmt_0x 2 (unat seq) @ '' ''
               @ step2_event_name evt_type @ '' arg='' @ fmt_0x 2 (unat evt_arg))
             (s1\<lparr>s2_dropped_duplicates := Suc (s2_dropped_duplicates s1)\<rparr>)
         else step2_dispatch evt_type evt_arg line
           (s1\<lparr>s2_seen_seq := insert seq (s2_seen_seq s1), s2_good_frames := Suc (s2_good_frames s1)\<rparr>)))"

definition step2_bad_frame :: "string \<Rightarrow> step2_loop \<Rightarrow> step2_loop" where
  "step2_bad_frame line s = log_line line (s\<lparr>s2_bad_frames := Suc (s2_bad_frames s)\<rparr>)"

fun step2_from :: "nat \<Rightarrow> bytes \<Rightarrow> step2_loop \<Rightarrow> step2_loop" where
  "step2_from idx [] s = s"
| "step2_from idx (b # rest) s =
     (if b \<noteq> STEP2_BEACON_SOF then step2_from (idx + 1) rest s
      else case rest of
        seq # evt_type # evt_arg # evt_chk # rest' \<Rightarrow>
          (let exp_chk = frame_chk seq evt_type evt_arg in
           if evt_chk \<noteq> exp_chk then
             step2_from (idx + 1) rest
               (step2_bad_frame (bad_frame_line idx seq evt_type evt_arg evt_chk exp_chk) s)
           else step2_from (idx + 5) rest' (step2_event_step (idx, seq, evt_type, evt_arg) s))
      | _ \<Rightarrow> s)"

declare step2_from.simps(2) [simp del]

record step2_result = step2_flags +
  s2_all_ok_seen :: bool
  s2_bad_reason :: string
  s2_decoded_text :: string

definition step2_mask_ok :: "byte option \<Rightarrow> bool" where
  "step2_mask_ok m = (case m of None \<Rightarrow> False | Some k \<Rightarrow> k AND 0x1F = 0x1F \<and> k AND 0x80 = 0)"

text \<open>The items \<^verbatim>\<open>saw_start_case1\<close>, \<^verbatim>\<open>saw_start_case2\<close> and \<^verbatim>\<open>last_phase_detail\<close> are constants of the code.\<close>

definition analyze_step2_only_beacon :: "bytes \<Rightarrow> step2_result" where
  "analyze_step2_only_beacon raw_bytes =
     (let s = step2_from 0 raw_bytes step2_init in
      step2_flags.extend (step2_flags.truncate s)
        (step2_result.fields
          (s2_summary_seen s \<and> step2_mask_ok (s2_summary_mask s))
          (if s2_saw_bad s then ''step2_bad'' else if s2_saw_trap s then ''step2_trap''
           else if s2_saw_cal_fail s then ''step2_cal_fail'' else ''none'')
          (render_lines (s2_decoded_lines s))))"

section \<open>The simulation's log\<close>

definition s2_tag :: "string \<Rightarrow> string" where
  "s2_tag event = ''[AX7203_DDR3_S2] '' @ event"

definition last_number :: "string \<Rightarrow> string \<Rightarrow> nat" where
  "last_number label s = (case last_match [Lit label, Run 1 is_dec] s of Some (w # _) \<Rightarrow> dec_value w | _ \<Rightarrow> 0)"

definition last_mask :: "item list \<Rightarrow> string \<Rightarrow> byte option" where
  "last_mask ps s = (case last_match ps s of Some caps \<Rightarrow> Some (word_of_nat (hex_value (last caps))) | None \<Rightarrow> None)"

definition analyze_step2_only_sim_log :: "string \<Rightarrow> step2_result" where
  "analyze_step2_only_sim_log log =
     (let summary_pattern = [Lit ''EVT SUMMARY seq='', Skip 1 is_dec, Lit '' mask='', Fixed 2 is_hex];
          has = (\<lambda>event. contains_text (s2_tag event) log);
          pass_text = (case last_match [Lit (s2_tag ''PASS ''), Run 0 not_newline] log of
             Some (w # _) \<Rightarrow> s2_tag ''PASS '' @ w | _ \<Rightarrow> []);
          mask = (case last_mask summary_pattern log of Some m \<Rightarrow> Some m
             | None \<Rightarrow> last_mask [Lit ''mask='', Fixed 2 is_hex] pass_text)
      in \<lparr>s2_ready_seen = has ''EVT READY'',
          s2_case1_pass = has ''EVT C1_OK'', s2_case2_pass = has ''EVT C2_OK'',
          s2_saw_start_case3 = has ''EVT C3_START'', s2_saw_after_write_case3 = has ''EVT C3_AFTER'',
          s2_case3_pass = has ''EVT C3_OK'', s2_saw_start_case4 = has ''EVT C4_START'',
          s2_saw_after_write_case4 = has ''EVT C4_AFTER'', s2_case4_pass = has ''EVT C4_OK'',
          s2_saw_start_case5 = has ''EVT C5_START'', s2_saw_after_write_case5 = has ''EVT C5_AFTER'',
          s2_case5_pass = has ''EVT C5_OK'',
          s2_summary_seen = (findall summary_pattern log \<noteq> []),
          s2_summary_mask = mask,
          s2_saw_bad = has ''EVT BAD'', s2_saw_trap = has ''EVT TRAP'', s2_saw_cal_fail = has ''EVT CAL_FAIL'',
          s2_bad_detail = None,
          s2_last_progress_detail =
            (if has ''PASS'' then Some (detail ''sim_pass'' None (s2_tag ''PASS'')) else None),
          s2_good_frames = last_number ''good='' pass_text,
          s2_bad_frames = last_number ''bad='' pass_text,
          s2_dropped_duplicates = last_number ''dup='' pass_text,
          s2_all_ok_seen = (has ''PASS'' \<and> step2_mask_ok mask),
          s2_bad_reason = (if has ''EVT BAD'' then ''step2_bad'' else if has ''EVT TRAP'' then ''step2_trap''
            else if has ''EVT CAL_FAIL'' then ''step2_cal_fail'' else ''none''),
          s2_decoded_text = []\<rparr>)"

section \<open>One frame format\<close>

lemma step2_other: "b \<noteq> STEP2_BEACON_SOF \<Longrightarrow> step2_from idx (b # rest) s = step2_from (idx + 1) rest s"
  by (simp add: step2_from.simps(2))

lemma step2_short: "length rest < 4 \<Longrightarrow> step2_from idx (STEP2_BEACON_SOF # rest) s = s"
  by (subst step2_from.simps(2), simp split: list.split, intro allI impI conjI, simp_all)

lemma step2_candidate: "step2_from idx (STEP2_BEACON_SOF # q # t # a # c # r) s =
    (if c = frame_chk q t a then step2_from (idx + 5) r (step2_event_step (idx, q, t, a) s)
     else step2_from (idx + 1) (q # t # a # c # r) (step2_bad_frame (bad_frame_line idx q t a c (frame_chk q t a)) s))"
  by (subst step2_from.simps(2)) (simp add: Let_def)

text \<open>What the frames with a bad checksum leave alone.\<close>

definition step2_core :: "step2_loop \<Rightarrow> step2_loop" where
  "step2_core s = s\<lparr>s2_bad_frames := 0, s2_decoded_lines := []\<rparr>"

lemma step2_core_bad [simp]: "step2_core (step2_bad_frame line s) = step2_core s"
  by (simp add: step2_core_def step2_bad_frame_def log_line_def)

lemmas step2_step_simps = step2_event_step_def step2_dispatch_def step2_ready_def log_line_def progress_def Let_def

lemma step2_core_dispatch:
  "step2_core (step2_dispatch t a line (step2_core s)) = step2_core (step2_dispatch t a line s)"
  unfolding step2_dispatch_def if_distrib [of step2_core] Let_def
  by (intro if_cong refl) (simp_all add: step2_core_def progress_def)

lemma step2_core_dispatch_cong:
  "step2_core s = step2_core s' \<Longrightarrow> step2_core (step2_dispatch t a line s) = step2_core (step2_dispatch t a line s')"
  by (metis step2_core_dispatch)

lemma step2_core_session:
  assumes "step2_core s = step2_core s'"
  shows "s2_session_active s = s2_session_active s'" "s2_session_complete s = s2_session_complete s'"
    "s2_seen_seq s = s2_seen_seq s'"
  using arg_cong [OF assms, of s2_session_active] arg_cong [OF assms, of s2_session_complete]
    arg_cong [OF assms, of s2_seen_seq]
  by (simp_all add: step2_core_def)

lemma step2_core_updates:
  assumes "step2_core s = step2_core s'"
  shows "step2_core (log_line l s) = step2_core (log_line l s')"
    "step2_core (s\<lparr>s2_dropped_duplicates := Suc (s2_dropped_duplicates s)\<rparr>)
      = step2_core (s'\<lparr>s2_dropped_duplicates := Suc (s2_dropped_duplicates s')\<rparr>)"
    "step2_core (s\<lparr>s2_seen_seq := insert q (s2_seen_seq s), s2_good_frames := Suc (s2_good_frames s)\<rparr>)
      = step2_core (s'\<lparr>s2_seen_seq := insert q (s2_seen_seq s'), s2_good_frames := Suc (s2_good_frames s')\<rparr>)"
    "step2_core (step2_ready q l s) = step2_core (step2_ready q l s')"
proof -
  have upd: "step2_core (f s) = step2_core (f s')" if "\<And>z. step2_core (f (step2_core z)) = step2_core (f z)" for f
    using that assms by metis
  show "step2_core (log_line l s) = step2_core (log_line l s')"
    by (rule upd) (simp add: step2_core_def log_line_def)
  show "step2_core (s\<lparr>s2_dropped_duplicates := Suc (s2_dropped_duplicates s)\<rparr>)
      = step2_core (s'\<lparr>s2_dropped_duplicates := Suc (s2_dropped_duplicates s')\<rparr>)"
    by (rule upd) (simp add: step2_core_def)
  show "step2_core (s\<lparr>s2_seen_seq := insert q (s2_seen_seq s), s2_good_frames := Suc (s2_good_frames s)\<rparr>)
      = step2_core (s'\<lparr>s2_seen_seq := insert q (s2_seen_seq s'), s2_good_frames := Suc (s2_good_frames s')\<rparr>)"
    by (rule upd) (simp add: step2_core_def)
  show "step2_core (step2_ready q l s) = step2_core (step2_ready q l s')"
    by (simp add: step2_core_def step2_ready_def)
qed

lemma step2_core_event:
  assumes "step2_core s = step2_core s'"
  shows "step2_core (step2_event_step e s) = step2_core (step2_event_step e s')"
proof -
  obtain idx q t a where e: "e = (idx, q, t, a)" by (cases e)
  let ?l = "event_line step2_event_name idx q t a"
  have l: "step2_core (log_line ?l s) = step2_core (log_line ?l s')"
    by (rule step2_core_updates(1) [OF assms])
  let ?u = "log_line ?l s" and ?u' = "log_line ?l s'"
  have cond: "s2_session_active ?u = s2_session_active ?u'" "s2_session_complete ?u = s2_session_complete ?u'"
    "q \<in> s2_seen_seq ?u \<longleftrightarrow> q \<in> s2_seen_seq ?u'"
    using step2_core_session [OF l] by simp_all
  consider "t = STEP2_EVT_READY" | "t \<noteq> STEP2_EVT_READY" "\<not> s2_session_active ?u' \<or> s2_session_complete ?u'"
    | "t \<noteq> STEP2_EVT_READY" "s2_session_active ?u'" "\<not> s2_session_complete ?u'" "q \<in> s2_seen_seq ?u'"
    | "t \<noteq> STEP2_EVT_READY" "s2_session_active ?u'" "\<not> s2_session_complete ?u'" "q \<notin> s2_seen_seq ?u'"
    by blast
  then show ?thesis
  proof cases
    case 1
    then show ?thesis
      using step2_core_updates(4) [OF l] by (simp add: e step2_event_step_def Let_def)
  next
    case 2
    with cond l show ?thesis
      by (simp add: e step2_event_step_def Let_def)
  next
    case 3
    with cond step2_core_updates(1) [OF step2_core_updates(2) [OF l]] show ?thesis
      by (simp add: e step2_event_step_def Let_def)
  next
    case 4
    with cond step2_core_dispatch_cong [OF step2_core_updates(3) [OF l, of q]] show ?thesis
      by (simp add: e step2_event_step_def Let_def)
  qed
qed

lemma step2_core_events: "step2_core s = step2_core s' \<Longrightarrow>
    step2_core (fold step2_event_step es s) = step2_core (fold step2_event_step es s')"
proof (induction es arbitrary: s s')
  case (Cons e es)
  show ?case
    using Cons.IH [OF step2_core_event [OF Cons.prems], of e] by (simp only: fold_simps)
qed simp

lemma step2_from_events:
  "step2_core (step2_from idx raw s) = step2_core (fold step2_event_step (dec_events (decode_from nm idx raw)) s)"
proof (induction raw arbitrary: idx s rule: stream_induct)
  case (candidate q t a c r)
  have "step2_core (fold step2_event_step es (step2_bad_frame line s)) = step2_core (fold step2_event_step es s)"
    for es line
    by (rule step2_core_events) simp
  with candidate show ?case
    by (auto simp: step2_candidate decode_candidate decoded_simps)
qed (simp_all add: step2_other step2_short decode_other decode_short decoded_simps)

section \<open>What a verdict rests on\<close>

text \<open>What the caller judges a run by.\<close>

definition step2_verdict :: "step2_result \<Rightarrow> step2_flags" where
  "step2_verdict r = step2_flags.truncate r\<lparr>s2_bad_frames := 0\<rparr>"

lemma step2_verdict_core:
  assumes "step2_core s = step2_core s'"
    and "s = step2_from 0 raw step2_init" and "s' = step2_from 0 raw' step2_init"
  shows "step2_verdict (analyze_step2_only_beacon raw) = step2_verdict (analyze_step2_only_beacon raw')
    \<and> s2_all_ok_seen (analyze_step2_only_beacon raw) = s2_all_ok_seen (analyze_step2_only_beacon raw')
    \<and> s2_bad_reason (analyze_step2_only_beacon raw) = s2_bad_reason (analyze_step2_only_beacon raw')"
proof -
  have "step2_flags.truncate (step2_core s) = step2_flags.truncate (step2_core s')"
    "s2_summary_seen (step2_core s) = s2_summary_seen (step2_core s')"
    "s2_summary_mask (step2_core s) = s2_summary_mask (step2_core s')"
    "s2_saw_bad (step2_core s) = s2_saw_bad (step2_core s')"
    "s2_saw_trap (step2_core s) = s2_saw_trap (step2_core s')"
    "s2_saw_cal_fail (step2_core s) = s2_saw_cal_fail (step2_core s')"
    using assms(1) by simp_all
  then show ?thesis
    unfolding assms(2,3)
    by (simp add: analyze_step2_only_beacon_def Let_def step2_verdict_def step2_core_def step2_flags.defs
        step2_result.defs)
qed

text \<open>
  A READY frame restarts the test: two captures whose decoded events agree from some READY on
  get the same verdict, whatever came before it in either of them.
\<close>

theorem step2_restarts_at_ready:
  assumes "dec_events (decode_loader_beacon_frames nm raw) = pre @ (off, seq, STEP2_EVT_READY, arg) # post"
    and "dec_events (decode_loader_beacon_frames nm raw') = pre' @ (off, seq, STEP2_EVT_READY, arg) # post"
  shows "step2_verdict (analyze_step2_only_beacon raw) = step2_verdict (analyze_step2_only_beacon raw')
    \<and> s2_all_ok_seen (analyze_step2_only_beacon raw) = s2_all_ok_seen (analyze_step2_only_beacon raw')
    \<and> s2_bad_reason (analyze_step2_only_beacon raw) = s2_bad_reason (analyze_step2_only_beacon raw')"
proof (rule step2_verdict_core [OF _ refl refl])
  let ?e = "(off, seq, STEP2_EVT_READY, arg)"
  have ready: "step2_core (step2_event_step ?e s) = step2_core (step2_event_step ?e s')" for s s'
    by (simp add: step2_event_step_def step2_ready_def step2_core_def Let_def)
  have "step2_core (step2_from 0 raw step2_init)
      = step2_core (fold step2_event_step post (step2_event_step ?e (fold step2_event_step pre step2_init)))"
    using step2_from_events [of 0 raw step2_init nm] assms(1) by (simp add: decode_loader_beacon_frames_def)
  also have "\<dots> = step2_core (fold step2_event_step post (step2_event_step ?e (fold step2_event_step pre' step2_init)))"
    by (rule step2_core_events, rule ready)
  also have "\<dots> = step2_core (step2_from 0 raw' step2_init)"
    using step2_from_events [of 0 raw' step2_init nm] assms(2) by (simp add: decode_loader_beacon_frames_def)
  finally show "step2_core (step2_from 0 raw step2_init) = step2_core (step2_from 0 raw' step2_init)" .
qed

lemma step2_restarts_at_ready_witness:
  "s2_all_ok_seen (analyze_step2_only_beacon (concat (map frame [(7, STEP2_EVT_BAD, 3), (0, STEP2_EVT_READY, 0)])))
     = s2_all_ok_seen (analyze_step2_only_beacon (concat (map frame [(7, STEP2_EVT_TRAP, 1), (0, STEP2_EVT_READY, 0)])))"
proof -
  have "dec_events (decode_loader_beacon_frames loader_event_name
        (concat (map frame [(7, STEP2_EVT_BAD, 3), (0, STEP2_EVT_READY, 0)])))
      = [(0, 7, STEP2_EVT_BAD, 3)] @ (5, 0, STEP2_EVT_READY, 0) # []"
    "dec_events (decode_loader_beacon_frames loader_event_name
        (concat (map frame [(7, STEP2_EVT_TRAP, 1), (0, STEP2_EVT_READY, 0)])))
      = [(0, 7, STEP2_EVT_TRAP, 1)] @ (5, 0, STEP2_EVT_READY, 0) # []"
    using decode_frames [of loader_event_name "[(7, STEP2_EVT_BAD, 3), (0, STEP2_EVT_READY, 0)]"]
      decode_frames [of loader_event_name "[(7, STEP2_EVT_TRAP, 1), (0, STEP2_EVT_READY, 0)]"] by simp_all
  from step2_restarts_at_ready [OF this] show ?thesis by blast
qed

definition no_ready :: "event list \<Rightarrow> bool" where
  "no_ready es \<longleftrightarrow> (\<forall>e \<in> set es. ev_type e \<noteq> STEP2_EVT_READY)"

text \<open>The last READY of the events, and a SUMMARY with the given mask after it.\<close>

definition summary_after_ready :: "event list \<Rightarrow> byte \<Rightarrow> bool" where
  "summary_after_ready es m \<longleftrightarrow> (\<exists>pre r mid u post. es = pre @ r # mid @ u # post \<and> ev_type r = STEP2_EVT_READY
     \<and> ev_type u = STEP2_EVT_SUMMARY \<and> ev_arg u = m \<and> no_ready (mid @ post))"

definition started :: "event list \<Rightarrow> bool" where
  "started es \<longleftrightarrow> (\<exists>pre r mid. es = pre @ r # mid \<and> ev_type r = STEP2_EVT_READY \<and> no_ready mid)"

lemma no_ready_snoc: "no_ready es \<Longrightarrow> ev_type e \<noteq> STEP2_EVT_READY \<Longrightarrow> no_ready (es @ [e])"
  by (auto simp: no_ready_def)

lemma started_snoc:
  assumes "started es" and "ev_type e \<noteq> STEP2_EVT_READY"
  shows "started (es @ [e])"
proof -
  obtain pre r mid where "es = pre @ r # mid" "ev_type r = STEP2_EVT_READY" "no_ready mid"
    using assms(1) unfolding started_def by blast
  then show ?thesis
    unfolding started_def using no_ready_snoc [OF _ assms(2), of mid]
    by (intro exI [of _ pre] exI [of _ r] exI [of _ "mid @ [e]"]) simp
qed

lemma started_ready: "ev_type e = STEP2_EVT_READY \<Longrightarrow> started (es @ [e])"
  unfolding started_def no_ready_def by (intro exI [of _ es] exI [of _ e] exI [of _ "[]"]) simp

lemma summary_snoc:
  assumes "summary_after_ready es m" and "ev_type e \<noteq> STEP2_EVT_READY"
  shows "summary_after_ready (es @ [e]) m"
proof -
  obtain pre r mid u post where "es = pre @ r # mid @ u # post" "ev_type r = STEP2_EVT_READY"
      "ev_type u = STEP2_EVT_SUMMARY" "ev_arg u = m" "no_ready (mid @ post)"
    using assms(1) unfolding summary_after_ready_def by blast
  then show ?thesis
    unfolding summary_after_ready_def using no_ready_snoc [OF _ assms(2), of "mid @ post"]
    by (intro exI [of _ pre] exI [of _ r] exI [of _ mid] exI [of _ u] exI [of _ "post @ [e]"]) simp
qed

lemma summary_new: "started es \<Longrightarrow> ev_type e = STEP2_EVT_SUMMARY \<Longrightarrow> summary_after_ready (es @ [e]) (ev_arg e)"
  unfolding started_def summary_after_ready_def by (metis append.assoc append_Cons append_Nil2)

lemma dispatch_session:
  "s2_summary_mask (step2_dispatch t a l s) = (if t = STEP2_EVT_SUMMARY then Some a else s2_summary_mask s)
   \<and> s2_session_active (step2_dispatch t a l s) = s2_session_active s"
  by (auto simp: step2_dispatch_def progress_def Let_def)

lemma step2_fold_sound:
  "(s2_session_active (fold step2_event_step es step2_init) \<longrightarrow> started es)
   \<and> (\<forall>m. s2_summary_mask (fold step2_event_step es step2_init) = Some m \<longrightarrow> summary_after_ready es m)"
proof (induction es rule: rev_induct)
  case (snoc e es)
  let ?s = "fold step2_event_step es step2_init"
  obtain idx q t a where e: "e = (idx, q, t, a)" by (cases e)
  show ?case
  proof (cases "t = STEP2_EVT_READY")
    case True
    then have "started (es @ [e])"
      by (intro started_ready) (simp add: e)
    with True show ?thesis
      by (simp add: e step2_event_step_def step2_ready_def step2_init_def Let_def)
  next
    case False
    then have keep: "started es \<Longrightarrow> started (es @ [e])"
      "\<And>m. summary_after_ready es m \<Longrightarrow> summary_after_ready (es @ [e]) m"
      by (auto intro: started_snoc summary_snoc simp: e)
    show ?thesis
      using snoc.IH keep False summary_new [of es e]
      by (auto simp: e step2_event_step_def log_line_def Let_def dispatch_session split: if_splits)
  qed
qed (simp add: step2_init_def)

text \<open>
  C22. \<^verbatim>\<open>all_ok_seen\<close> is sound: it is reported only when the capture holds, after its last READY frame, a
  SUMMARY frame whose mask has the five case bits set and the error bit clear.
\<close>

theorem step2_all_ok_sound:
  assumes "s2_all_ok_seen (analyze_step2_only_beacon raw)"
  shows "\<exists>pre r mid u post. dec_events (decode_loader_beacon_frames nm raw) = pre @ r # mid @ u # post
    \<and> ev_type r = STEP2_EVT_READY \<and> ev_type u = STEP2_EVT_SUMMARY
    \<and> ev_arg u AND 0x1F = 0x1F \<and> ev_arg u AND 0x80 = 0
    \<and> (\<forall>e \<in> set (mid @ post). ev_type e \<noteq> STEP2_EVT_READY)"
proof -
  let ?es = "dec_events (decode_loader_beacon_frames nm raw)"
  have "s2_summary_mask (step2_core (step2_from 0 raw step2_init))
      = s2_summary_mask (step2_core (fold step2_event_step ?es step2_init))"
    using step2_from_events [of 0 raw step2_init nm] by (simp add: decode_loader_beacon_frames_def)
  then have "s2_summary_mask (step2_from 0 raw step2_init) = s2_summary_mask (fold step2_event_step ?es step2_init)"
    by (simp add: step2_core_def)
  moreover obtain m where "s2_summary_mask (step2_from 0 raw step2_init) = Some m"
    and m: "m AND 0x1F = 0x1F" "m AND 0x80 = 0"
    using assms by (auto simp: analyze_step2_only_beacon_def step2_mask_ok_def step2_result.defs step2_flags.defs
        Let_def split: option.splits)
  ultimately have "summary_after_ready ?es m"
    using step2_fold_sound [of ?es] by simp
  with m show ?thesis
    unfolding summary_after_ready_def no_ready_def by blast
qed

lemma step2_good_capture:
  "s2_all_ok_seen (analyze_step2_only_beacon (concat (map frame [(0, STEP2_EVT_READY, 0), (1, STEP2_EVT_SUMMARY, 0x1F)])))"
  by code_simp

lemma step2_all_ok_sound_witness:
  "\<exists>pre r mid u post. dec_events (decode_loader_beacon_frames loader_event_name
      (concat (map frame [(0, STEP2_EVT_READY, 0), (1, STEP2_EVT_SUMMARY, 0x1F)]))) = pre @ r # mid @ u # post
      \<and> ev_type u = STEP2_EVT_SUMMARY"
  using step2_all_ok_sound [OF step2_good_capture, of loader_event_name] by blast

end
