(* ===== verification/HexImage.thy ===== *)
theory HexImage
  imports Pattern
begin

text \<open>
  The memory images of the build: the byte-addressed hex files that the tool chain and
  \<^verbatim>\<open>build_benchmark_image.py\<close> write, their readers in \<^verbatim>\<open>generate_coe.py\<close> and
  \<^verbatim>\<open>merge_hex_for_mem_subsys.py\<close>, and the packing of the bytes into 32-bit words for the block RAMs
  (\<^verbatim>\<open>.coe\<close>), for \<^verbatim>\<open>$readmemh\<close> and for the preloaded simulation memory.  A dict from addresses to
  bytes is an association list in insertion order.
\<close>

section \<open>Readers\<close>

type_synonym byte_map = "(int \<times> int) list"

datatype hex_error = File_Not_Found | Value_Error

fun hex_pairs :: "string \<Rightarrow> string list" where
  "hex_pairs [] = []"
| "hex_pairs [a] = [[a]]"
| "hex_pairs (a # b # cs) = [a, b] # hex_pairs cs"

definition even_token :: "string \<Rightarrow> string" where
  "even_token tok = (if length tok mod 2 \<noteq> 0 then CHR ''0'' # tok else tok)"

definition store_text :: "string \<Rightarrow> int \<times> byte_map \<Rightarrow> (int \<times> byte_map) option" where
  "store_text p st = (case py_int16 p of None \<Rightarrow> None | Some v \<Rightarrow> Some (fst st + 1, AList.update (fst st) v (snd st)))"

definition set_address :: "string \<Rightarrow> int \<times> byte_map \<Rightarrow> (int \<times> byte_map) option" where
  "set_address line st = map_option (\<lambda>a. (a, snd st)) (py_int16 (drop 1 line))"

definition verilog_line :: "string \<Rightarrow> int \<times> byte_map \<Rightarrow> (int \<times> byte_map) option" where
  "verilog_line raw st =
     (let line = py_strip raw in
      if line = [] then Some st
      else if prefix ''//'' line \<or> prefix ''#'' line then Some st
      else if prefix ''@'' line then set_address line st
      else try_fold store_text (concat (map (hex_pairs \<circ> even_token) (py_split line))) st)"

text \<open>The file is \<^term>\<open>None\<close> when the path does not exist.\<close>

definition parse_verilog_hex :: "string option \<Rightarrow> hex_error + byte_map" where
  "parse_verilog_hex file = (case file of
       None \<Rightarrow> Inl File_Not_Found
     | Some contents \<Rightarrow> (case try_fold verilog_line (text_lines contents) (0, []) of
           None \<Rightarrow> Inl Value_Error
         | Some st \<Rightarrow> Inr (snd st)))"

definition byte_hex_line :: "string \<Rightarrow> int \<times> byte_map \<Rightarrow> (int \<times> byte_map) option" where
  "byte_hex_line raw st =
     (let line = py_strip raw in
      if line = [] then Some st
      else if prefix ''@'' line then set_address line st
      else try_fold store_text (py_split line) st)"

definition parse_byte_hex :: "string option \<Rightarrow> hex_error + byte_map" where
  "parse_byte_hex file = (case file of
       None \<Rightarrow> Inr []
     | Some contents \<Rightarrow> (case try_fold byte_hex_line (text_lines contents) (0, []) of
           None \<Rightarrow> Inl Value_Error
         | Some st \<Rightarrow> Inr (snd st)))"

definition get_or_zero :: "byte_map \<Rightarrow> int \<Rightarrow> int" where
  "get_or_zero m a = (case map_of m a of None \<Rightarrow> 0 | Some v \<Rightarrow> v)"

section \<open>The data image of a benchmark\<close>

text \<open>\<^verbatim>\<open>str.isdigit()\<close> in the latin-1 range: the superscripts count as digits.\<close>

definition py_isdigit :: "string \<Rightarrow> bool" where
  "py_isdigit s \<longleftrightarrow> s \<noteq> [] \<and> list_all (\<lambda>c. let k = of_char c :: nat in 48 \<le> k \<and> k \<le> 57 \<or> k \<in> {178, 179, 185}) s"

definition section_line :: "string \<Rightarrow> (string \<times> int \<times> int) list \<Rightarrow> (string \<times> int \<times> int) list option" where
  "section_line line sections =
     (let fs = py_split line in
      if length fs < 6 \<or> \<not> py_isdigit (fs ! 0) then Some sections
      else case (py_int16 (fs ! 2), py_int16 (fs ! 3)) of
          (Some sz, Some vma) \<Rightarrow> Some (AList.update (fs ! 1) (vma, sz) sections)
        | _ \<Rightarrow> None)"

text \<open>The output of \<^verbatim>\<open>objdump -h\<close>; \<^term>\<open>None\<close> is the \<^verbatim>\<open>ValueError\<close> of a size or address.\<close>

definition parse_section_vmas :: "string \<Rightarrow> (string \<times> int \<times> int) list option" where
  "parse_section_vmas out = try_fold section_line (splitlines out) []"

fun store_at :: "int \<Rightarrow> bytes \<Rightarrow> byte_map \<Rightarrow> byte_map" where
  "store_at vma [] m = m"
| "store_at vma (b # bs) m = store_at (vma + 1) bs (AList.update vma (uint b) m)"

text \<open>\<^verbatim>\<open>extract\<close> is what \<^verbatim>\<open>objcopy -O binary -j section\<close> leaves in the scratch file.\<close>

definition image_section :: "(string \<times> int \<times> int) list \<Rightarrow> (string \<Rightarrow> bytes) \<Rightarrow> string \<Rightarrow> byte_map \<Rightarrow> byte_map" where
  "image_section sections extract name m =
     (case map_of sections name of
        None \<Rightarrow> m
      | Some (vma, sz) \<Rightarrow> if sz = 0 then m else store_at vma (extract name) m)"

fun image_lines :: "byte_map \<Rightarrow> int option \<Rightarrow> int list \<Rightarrow> string list" where
  "image_lines m cur [] = []"
| "image_lines m cur (a # as) =
     (if cur = Some a then [] else [''@'' @ fmt_X_int 8 a])
     @ fmt_X_int 2 (get_or_zero m a) # image_lines m (Some (a + 1)) as"

definition image_text :: "byte_map \<Rightarrow> string" where
  "image_text m =
     (if m = [] then render_lines [''// empty data image'', ''00000000'']
      else render_lines (image_lines m None (sort (map fst m))))"

definition write_verilog_byte_image :: "string \<Rightarrow> (string \<Rightarrow> bytes) \<Rightarrow> string list \<Rightarrow> string option" where
  "write_verilog_byte_image objdump_out extract section_names =
     map_option (\<lambda>sections. image_text (fold (image_section sections extract) section_names []))
       (parse_section_vmas objdump_out)"

section \<open>Numbers and lines of an image are read back\<close>

definition upper_hex :: "string \<Rightarrow> bool" where
  "upper_hex s \<longleftrightarrow> (\<forall>c \<in> set s. \<exists>k < 16. c = hex_digit k)"

lemma upper_hex_fmt_X: "upper_hex (fmt_X w n)"
proof -
  have "CHR ''0'' = hex_digit 0"
    by (simp add: hex_digit_def)
  then have "\<exists>k < 16. CHR ''0'' = hex_digit k"
    by (intro exI [of _ 0]) simp
  then have "\<exists>k < 16. c = hex_digit k" if "c \<in> set (fmt_X w n)" for c
    using that hex_str_chars [of c n] by (auto simp: fmt_X_def Let_def)
  then show ?thesis
    by (simp add: upper_hex_def)
qed

lemma upper_hex_char: "upper_hex s \<Longrightarrow> c \<in> set s \<Longrightarrow>
    \<not> py_space c \<and> c \<notin> {CHR ''-'', CHR ''+'', CHR ''x'', CHR ''X'', CHR ''@'', CHR ''/'', CHR ''#'', CHR ''_''}"
proof -
  assume "upper_hex s" and "c \<in> set s"
  then obtain k where "k < 16" and c: "c = hex_digit k"
    by (auto simp: upper_hex_def)
  then show ?thesis
    using hex_digit_cases [of k] unfolding c by simp
qed

lemma fmt_X_nonempty [simp]: "fmt_X w n \<noteq> []"
  by (simp add: fmt_X_def Let_def)

lemma py_strip_no_space: "\<forall>c \<in> set s. \<not> py_space c \<Longrightarrow> py_strip s = s"
proof -
  assume s: "\<forall>c \<in> set s. \<not> py_space c"
  have "dropWhile py_space t = t" if "set t = set s" for t
    using s that by (cases t) auto
  then show ?thesis
    by (simp add: py_strip_def)
qed

lemma py_split_no_space: "\<forall>c \<in> set s. \<not> py_space c \<Longrightarrow> s \<noteq> [] \<Longrightarrow> py_split s = [s]"
proof -
  have "\<forall>c \<in> set t. \<not> py_space c \<Longrightarrow> rev cur @ t \<noteq> [] \<Longrightarrow> py_split_aux cur t = [rev cur @ t]" for cur t
    by (induction t arbitrary: cur) auto
  from this [of s "[]"] show "\<forall>c \<in> set s. \<not> py_space c \<Longrightarrow> s \<noteq> [] \<Longrightarrow> py_split s = [s]"
    by (simp add: py_split_def)
qed

lemma digits_val_hex:
  "upper_hex s \<Longrightarrow> s \<noteq> [] \<or> prev \<Longrightarrow>
     digits_val 16 prev acc s = Some (foldl (\<lambda>acc c. 16 * acc + (case digit_val c of Some d \<Rightarrow> d | None \<Rightarrow> 0)) acc s)"
proof (induction s arbitrary: prev acc)
  case (Cons c s)
  then obtain k where k: "k < 16" "c = hex_digit k"
    unfolding upper_hex_def by auto
  have "c \<noteq> CHR ''_''"
    using hex_digit_cases [OF k(1)] k(2) by simp
  then show ?case
    using Cons k by (simp add: upper_hex_def hex_digit_value mult.commute)
qed simp

lemma drop_0x_hex: "upper_hex s \<Longrightarrow> drop_0x s = s"
proof (cases s rule: drop_0x.cases)
  case (1 a x cs)
  assume "upper_hex s"
  then have "x \<noteq> CHR ''x''" "x \<noteq> CHR ''X''"
    using upper_hex_char [of s x] 1 by auto
  then show ?thesis using 1 by simp
qed simp_all

lemma py_int16_fmt_X [simp]: "py_int16 (fmt_X w n) = Some (int n)"
proof -
  note hx = upper_hex_fmt_X [of w n]
  obtain c cs where s: "fmt_X w n = c # cs"
    using fmt_X_nonempty by (meson neq_Nil_conv)
  have "c \<noteq> CHR ''-''" "c \<noteq> CHR ''+''"
    using upper_hex_char [OF hx, of c] s by auto
  moreover have "py_strip (fmt_X w n) = fmt_X w n"
    using upper_hex_char [OF hx] by (simp add: py_strip_no_space)
  moreover have "digits_val 16 False 0 (drop_0x (fmt_X w n)) = Some n"
    using digits_val_hex [OF hx, of False 0] hex_value_fmt_X [of w n]
    by (simp add: drop_0x_hex [OF hx] hex_value_def)
  ultimately show ?thesis
    by (simp add: py_int16_def s)
qed

definition byte_value :: "int \<Rightarrow> bool" where
  "byte_value v \<longleftrightarrow> 0 \<le> v \<and> v < 256"

lemma fmt_X_byte:
  assumes "byte_value v"
  obtains a b where "fmt_X_int 2 v = [a, b]" and "upper_hex [a, b]" and "py_int16 [a, b] = Some v"
proof -
  have "nat v < 16 ^ 2" and v: "fmt_X_int 2 v = fmt_X 2 (nat v)"
    using assms by (auto simp: byte_value_def fmt_X_int_def)
  then have "length (fmt_X 2 (nat v)) = 2"
    by (intro length_fmt_X) simp_all
  then obtain a b where ab: "fmt_X 2 (nat v) = [a, b]"
    by (metis (no_types) length_0_conv length_Suc_conv numeral_2_eq_2)
  then show ?thesis
    using that v upper_hex_fmt_X [of 2 "nat v"] py_int16_fmt_X [of 2 "nat v"] assms
    by (auto simp: byte_value_def)
qed

text \<open>
  Both readers take a line with an address and a line with one byte in the same way; what they read
  from an image follows from that.
\<close>

locale image_reader =
  fixes step :: "string \<Rightarrow> int \<times> byte_map \<Rightarrow> (int \<times> byte_map) option"
  assumes at_line: "0 \<le> a \<Longrightarrow> step (CHR ''@'' # fmt_X_int 8 a) st = Some (a, snd st)"
    and byte_line: "byte_value v \<Longrightarrow> step (fmt_X_int 2 v) st = Some (fst st + 1, AList.update (fst st) v (snd st))"

context image_reader
begin

lemma read_lines:
  "\<forall>a \<in> set as. 0 \<le> a \<and> byte_value (get_or_zero m a) \<Longrightarrow> distinct as \<Longrightarrow> set as \<inter> fst ` set acc = {} \<Longrightarrow>
     cur = None \<or> cur = Some c \<Longrightarrow>
     \<exists>c'. try_fold step (image_lines m cur as) (c, acc) = Some (c', acc @ map (\<lambda>a. (a, get_or_zero m a)) as)"
proof (induction as arbitrary: cur c acc)
  case Nil
  then show ?case by simp
next
  case (Cons a as)
  let ?acc = "acc @ [(a, get_or_zero m a)]"
  have "try_fold step (image_lines m cur (a # as)) (c, acc)
      = try_fold step (image_lines m (Some (a + 1)) as) (a + 1, ?acc)"
    using Cons.prems by (auto simp: at_line byte_line update_new)
  moreover have "\<exists>c'. try_fold step (image_lines m (Some (a + 1)) as) (a + 1, ?acc)
      = Some (c', ?acc @ map (\<lambda>a. (a, get_or_zero m a)) as)"
    using Cons.prems by (intro Cons.IH) auto
  ultimately show ?case by simp
qed

end

lemma fmt_X_int_no_space: "0 \<le> a \<Longrightarrow> c \<in> set (fmt_X_int w a) \<Longrightarrow> \<not> py_space c"
  using upper_hex_char [OF upper_hex_fmt_X] by (simp add: fmt_X_int_def)

lemma at_sign_no_space [simp]: "\<not> py_space (CHR ''@'')"
  by (simp add: py_space_def)

lemma at_line_strip: "0 \<le> a \<Longrightarrow> py_strip (CHR ''@'' # fmt_X_int w a) = CHR ''@'' # fmt_X_int w a"
  using fmt_X_int_no_space by (intro py_strip_no_space) auto

lemma set_address_line: "0 \<le> a \<Longrightarrow> set_address (CHR ''@'' # fmt_X_int w a) st = Some (a, snd st)"
  by (simp add: set_address_def fmt_X_int_def)

lemma upper_hex_pair:
  assumes "upper_hex [a, b]"
  shows "py_strip [a, b] = [a, b]" and "py_split [a, b] = [[a, b]]"
    and "CHR ''/'' \<noteq> a" and "CHR ''#'' \<noteq> a" and "CHR ''@'' \<noteq> a"
  using upper_hex_char [OF assms, of a] upper_hex_char [OF assms, of b]
  by (auto simp: py_strip_no_space py_split_no_space)

interpretation verilog: image_reader verilog_line
proof (standard, goal_cases)
  case (1 a st)
  then show ?case
    by (simp add: verilog_line_def at_line_strip set_address_line)
next
  case (2 v st)
  then obtain a b where ab: "fmt_X_int 2 v = [a, b]" "upper_hex [a, b]" "py_int16 [a, b] = Some v"
    by (rule fmt_X_byte)
  then show ?case
    by (simp add: verilog_line_def Let_def upper_hex_pair even_token_def store_text_def)
qed

interpretation byte_hex: image_reader byte_hex_line
proof (standard, goal_cases)
  case (1 a st)
  then show ?case
    by (simp add: byte_hex_line_def at_line_strip set_address_line)
next
  case (2 v st)
  then obtain a b where ab: "fmt_X_int 2 v = [a, b]" "upper_hex [a, b]" "py_int16 [a, b] = Some v"
    by (rule fmt_X_byte)
  then show ?case
    by (simp add: byte_hex_line_def Let_def upper_hex_pair store_text_def)
qed

text \<open>The images a reader takes: addresses from 0 on, each with a byte.\<close>

definition image_map :: "byte_map \<Rightarrow> bool" where
  "image_map m \<longleftrightarrow> distinct (map fst m) \<and> (\<forall>entry \<in> set m. 0 \<le> fst entry \<and> byte_value (snd entry))"

definition sorted_image :: "byte_map \<Rightarrow> byte_map" where
  "sorted_image m = map (\<lambda>a. (a, get_or_zero m a)) (sort (map fst m))"

lemma image_map_value:
  assumes "image_map m" and "a \<in> fst ` set m"
  shows "0 \<le> a" and "byte_value (get_or_zero m a)"
proof -
  obtain v where v: "(a, v) \<in> set m"
    using assms(2) by auto
  then have "map_of m a = Some v"
    using assms(1) by (simp add: image_map_def)
  with v assms(1) show "0 \<le> a" "byte_value (get_or_zero m a)"
    by (auto simp: image_map_def get_or_zero_def)
qed

lemma image_lines_chars:
  "\<forall>a \<in> set as. 0 \<le> a \<and> byte_value (get_or_zero m a) \<Longrightarrow> l \<in> set (image_lines m cur as) \<Longrightarrow> c \<in> set l \<Longrightarrow> \<not> py_space c"
proof (induction as arbitrary: cur)
  case (Cons a as)
  then show ?case
    using fmt_X_int_no_space [of a c 8] fmt_X_int_no_space [of "get_or_zero m a" c 2]
    by (auto simp: byte_value_def split: if_splits)
qed simp

lemma text_lines_image:
  assumes "image_map m" and "m \<noteq> []"
  shows "text_lines (image_text m) = image_lines m None (sort (map fst m))"
proof -
  have "\<forall>a \<in> set (sort (map fst m)). 0 \<le> a \<and> byte_value (get_or_zero m a)"
    using image_map_value [OF assms(1)] by auto
  then have "\<forall>l \<in> set (image_lines m None (sort (map fst m))). CHR 0x0A \<notin> set l \<and> CHR 0x0D \<notin> set l"
    using image_lines_chars [of "sort (map fst m)" m] by (fastforce simp: py_space_def)
  then show ?thesis
    using assms(2) by (simp add: image_text_def text_lines_render)
qed

lemma image_read_back:
  assumes "image_map m" and "m \<noteq> []"
  shows "parse_verilog_hex (Some (image_text m)) = Inr (sorted_image m)
    \<and> parse_byte_hex (Some (image_text m)) = Inr (sorted_image m)"
proof -
  have vals: "\<forall>a \<in> set (sort (map fst m)). 0 \<le> a \<and> byte_value (get_or_zero m a)"
    and dist: "distinct (sort (map fst m))"
    using image_map_value [OF assms(1)] assms(1) by (auto simp: image_map_def)
  show ?thesis
    using verilog.read_lines [OF vals dist, of "[]" None 0] byte_hex.read_lines [OF vals dist, of "[]" None 0]
    by (auto simp: parse_verilog_hex_def parse_byte_hex_def text_lines_image [OF assms] sorted_image_def)
qed



end
