(* ===== verification/MemWords.thy ===== *)
theory MemWords
  imports HexImage
begin

text \<open>
  The packing of byte images into 32-bit words: \<^verbatim>\<open>generate_coe.py\<close> for the block RAMs,
  \<^verbatim>\<open>merge_hex_for_mem_subsys.py\<close> for \<^verbatim>\<open>$readmemh\<close> and \<^verbatim>\<open>write_preload_hex\<close> for the
  preloaded simulation.  The lemmas say which byte of which word holds the byte of an address.
\<close>

section \<open>Block RAM initialisation files\<close>

definition place_byte :: "bool \<Rightarrow> int \<Rightarrow> nat \<Rightarrow> int \<times> int \<Rightarrow> int list \<Rightarrow> int list" where
  "place_byte use_rebase base depth entry words =
     (let eff_addr = (if use_rebase then fst entry - base else fst entry) in
      if eff_addr < 0 then words
      else let word_idx = nat (eff_addr div 4); byte_lane = nat (eff_addr mod 4) in
        if depth \<le> word_idx then words
        else words[word_idx := words ! word_idx OR push_bit (8 * byte_lane) (snd entry AND 0xFF)])"

definition use_rebase :: "byte_map \<Rightarrow> int \<Rightarrow> bool \<Rightarrow> bool" where
  "use_rebase m base allow \<longleftrightarrow> allow \<and> list_ex (\<lambda>entry. base \<le> fst entry) m"

definition byte_map_to_words :: "byte_map \<Rightarrow> nat \<Rightarrow> int \<Rightarrow> bool \<Rightarrow> int list" where
  "byte_map_to_words m depth base allow =
     (let words = replicate depth 0 in
      if m = [] then words else fold (place_byte (use_rebase m base allow) base depth) m words)"

fun coe_vector :: "int list \<Rightarrow> string list" where
  "coe_vector [] = []"
| "coe_vector [w] = [fmt_X_int 8 w @ '';'']"
| "coe_vector (w # v # ws) = (fmt_X_int 8 w @ '','') # coe_vector (v # ws)"

definition write_coe :: "int list \<Rightarrow> string" where
  "write_coe words = render_lines
     (''memory_initialization_radix=16;'' # ''memory_initialization_vector='' # coe_vector words)"

definition generate_coe :: "string option \<Rightarrow> string option \<Rightarrow> nat \<Rightarrow> int \<Rightarrow> hex_error + (string \<times> string)" where
  "generate_coe inst_file data_file depth data_base =
     (case parse_verilog_hex inst_file of
        Inl e \<Rightarrow> Inl e
      | Inr inst_bytes \<Rightarrow> (case parse_verilog_hex data_file of
          Inl e \<Rightarrow> Inl e
        | Inr data_bytes \<Rightarrow> Inr
            (write_coe (byte_map_to_words inst_bytes depth 0 False),
             write_coe (byte_map_to_words data_bytes depth data_base True))))"

section \<open>The merged image of the memory subsystem\<close>

definition update_all :: "byte_map \<Rightarrow> byte_map \<Rightarrow> byte_map" where
  "update_all m n = fold (\<lambda>entry. AList.update (fst entry) (snd entry)) n m"

definition or_byte :: "int \<times> int \<Rightarrow> byte_map \<Rightarrow> byte_map" where
  "or_byte entry d =
     (let word_addr = fst entry div 4 * 4; shift = nat (fst entry mod 4) * 8 in
      AList.update word_addr (get_or_zero d word_addr OR push_bit shift (snd entry)) d)"

definition word_dict :: "byte_map \<Rightarrow> byte_map" where
  "word_dict all_bytes = fold or_byte all_bytes []"

definition max_word_idx :: "byte_map \<Rightarrow> int \<Rightarrow> int" where
  "max_word_idx d ram_words =
     min ((if d = [] then 0 else Max (set (map fst d))) div 4) (ram_words - 1)"

record merge_report =
  merged_warning :: bool
  merged_text :: string
  merged_words :: "int list"
  total_nonzero :: nat
  inst_count :: nat
  data_count :: nat

definition merge_and_write :: "string option \<Rightarrow> string option \<Rightarrow> int \<Rightarrow> hex_error + merge_report" where
  "merge_and_write inst_file data_file ram_words =
     (case parse_byte_hex inst_file of
        Inl e \<Rightarrow> Inl e
      | Inr inst_bytes \<Rightarrow> (case parse_byte_hex data_file of
          Inl e \<Rightarrow> Inl e
        | Inr data_bytes \<Rightarrow>
            (let all_bytes = update_all (update_all [] inst_bytes) data_bytes;
                 d = word_dict all_bytes;
                 words = map (\<lambda>idx. get_or_zero d (int idx * 4)) [0..<nat (max_word_idx d ram_words + 1)]
             in Inr \<lparr>merged_warning = (all_bytes = []),
                  merged_text = render_lines (''@00000000'' # map (fmt_X_int 8) words),
                  merged_words = words, total_nonzero = length (filter (\<lambda>w. w \<noteq> 0) words),
                  inst_count = length inst_bytes, data_count = length data_bytes\<rparr>)))"

section \<open>Hex files for simulations\<close>

definition write_hex_bytes :: "bytes \<Rightarrow> string" where
  "write_hex_bytes payload = concat (map (\<lambda>b. fmt_x 2 (unat b) @ newline) payload)"

definition pack_chunk :: "bytes \<Rightarrow> int" where
  "pack_chunk chunk = fold (\<lambda>byte_idx word. word OR push_bit (8 * byte_idx) (uint (chunk ! byte_idx))) [0..<length chunk] 0"

fun preload_words :: "bytes \<Rightarrow> int list" where
  "preload_words [] = []"
| "preload_words (b # bs) = pack_chunk (take 4 (b # bs)) # preload_words (drop 3 bs)"

definition write_preload_hex :: "bytes \<Rightarrow> string" where
  "write_preload_hex data = render_lines (map (fmt_x 8 \<circ> nat) (preload_words data))"

section \<open>Byte lanes\<close>

definition lane :: "nat \<Rightarrow> int \<Rightarrow> int" where
  "lane k w = take_bit 8 (drop_bit (8 * k) w)"

lemma lane_zero [simp]: "lane k 0 = 0"
  by (simp add: lane_def)

lemma lane_or [simp]: "lane k (v OR w) = lane k v OR lane k w"
  by (simp add: lane_def drop_bit_or take_bit_or)

lemma mask_byte: "(v :: int) AND 0xFF = take_bit 8 v"
  by (simp add: take_bit_eq_mask mask_eq_exp_minus_1)

lemma lane_push: "lane k (push_bit (8 * l) (take_bit 8 v)) = (if k = l then take_bit 8 v else 0)"
  by (rule bit_eqI) (auto simp: lane_def bit_simps)

lemma take_bit_byte: "byte_value v \<Longrightarrow> take_bit 8 v = v"
  by (simp add: byte_value_def take_bit_int_eq_self)

lemma lane_push_byte: "byte_value v \<Longrightarrow> lane k (push_bit (8 * l) v) = (if k = l then v else 0)"
  using lane_push [of k l v] by (simp add: take_bit_byte)

section \<open>The words of a block RAM\<close>

definition effective :: "bool \<Rightarrow> int \<Rightarrow> int \<Rightarrow> int" where
  "effective rebase base a = (if rebase then a - base else a)"

lemma length_place_byte [simp]: "length (place_byte r base depth e words) = length words"
  by (simp add: place_byte_def Let_def)

lemma length_place_bytes [simp]: "length (fold (place_byte r base depth) m words) = length words"
  by (induction m arbitrary: words) simp_all

lemma div_mod_4: "eff div 4 = int i \<and> eff mod 4 = int k \<longleftrightarrow> eff = int (4 * i + k)" if "k < 4" for eff :: int
  using that by (auto simp: zdiv_int) presburger

lemma lane_place_byte:
  assumes "i < depth" and "length words = depth" and "k < 4"
  shows "lane k (place_byte r base depth e words ! i) =
    (if effective r base (fst e) = int (4 * i + k) then lane k (words ! i) OR take_bit 8 (snd e)
     else lane k (words ! i))"
proof -
  define q l where "q = effective r base (fst e) div 4" and "l = nat (effective r base (fst e) mod 4)"
  have sign: "effective r base (fst e) < 0 \<longleftrightarrow> q < 0"
    by (simp add: q_def pos_imp_zdiv_neg_iff)
  have "effective r base (fst e) = int (4 * i + k) \<longleftrightarrow> q = int i \<and> l = k"
    using div_mod_4 [OF assms(3), of "effective r base (fst e)" i] by (simp add: q_def l_def nat_eq_iff)
  moreover have "place_byte r base depth e words =
    (if q < 0 \<or> depth \<le> nat q then words else words[nat q := words ! nat q OR push_bit (8 * l) (take_bit 8 (snd e))])"
    unfolding place_byte_def Let_def effective_def [symmetric] sign mask_byte q_def [symmetric] l_def [symmetric] by simp
  ultimately show ?thesis
    using assms(1,2) by (cases "q = int i") (auto simp: lane_push nth_list_update)
qed

lemma lane_place_bytes:
  assumes "i < depth" and "k < 4" and "distinct (map fst m)" and "length words = depth"
  shows "lane k (fold (place_byte r base depth) m words ! i) =
    (case map_of m (int (4 * i + k) + (if r then base else 0)) of
       None \<Rightarrow> lane k (words ! i)
     | Some v \<Rightarrow> lane k (words ! i) OR take_bit 8 v)"
  using assms(3,4)
proof (induction m arbitrary: words)
  case (Cons e m)
  define a where "a = int (4 * i + k) + (if r then base else 0)"
  obtain b v where e: "e = (b, v)" by (cases e)
  let ?words = "place_byte r base depth e words"
  have "effective r base (fst e) = int (4 * i + k) \<longleftrightarrow> b = a"
    by (auto simp: effective_def a_def e)
  then have step: "lane k (?words ! i) = (if b = a then lane k (words ! i) OR take_bit 8 v else lane k (words ! i))"
    using lane_place_byte [of i depth words k r base e] Cons.prems assms(1,2) by (simp add: e)
  have "b = a \<Longrightarrow> map_of m a = None"
    using Cons.prems by (auto simp: map_of_eq_None_iff e)
  moreover have "lane k (fold (place_byte r base depth) m ?words ! i) =
    (case map_of m a of None \<Rightarrow> lane k (?words ! i) | Some v \<Rightarrow> lane k (?words ! i) OR take_bit 8 v)"
    using Cons.prems unfolding a_def by (intro Cons.IH) simp_all
  moreover have "map_of (e # m) a = (if b = a then Some v else map_of m a)"
    by (simp add: e)
  ultimately show ?case
    unfolding fold_simps comp_apply a_def [symmetric] step by (auto split: option.splits)
qed simp

definition in_word :: "int \<Rightarrow> bool" where
  "in_word w \<longleftrightarrow> 0 \<le> w \<and> w < 2 ^ 32"

lemma in_word_or: "in_word v \<Longrightarrow> in_word w \<Longrightarrow> in_word (v OR w)"
  using OR_upper [of v 32 w] by (simp add: in_word_def)

lemma in_word_push: "byte_value v \<Longrightarrow> l < 4 \<Longrightarrow> in_word (push_bit (8 * l) v)"
proof -
  assume v: "byte_value v" and "l < 4"
  then have "l \<in> set [0..<4]" by simp
  with v show ?thesis
    by (auto simp: in_word_def byte_value_def push_bit_eq_mult upt_rec)
qed

lemma byte_value_take_bit: "byte_value (take_bit 8 v)"
  by (simp add: byte_value_def take_bit_int_less_exp [of 8 v, simplified])

lemma in_word_place_byte:
  "\<forall>w \<in> set words. in_word w \<Longrightarrow> length words = depth \<Longrightarrow> w \<in> set (place_byte r base depth e words) \<Longrightarrow> in_word w"
  by (auto simp: place_byte_def Let_def mask_byte intro!: in_word_or in_word_push byte_value_take_bit
      dest!: subsetD [OF set_update_subset_insert] split: if_splits)

lemma in_word_place_bytes:
  "\<forall>w \<in> set words. in_word w \<Longrightarrow> length words = depth \<Longrightarrow> \<forall>w \<in> set (fold (place_byte r base depth) m words). in_word w"
proof (induction m arbitrary: words)
  case (Cons e m)
  have "\<forall>w \<in> set (place_byte r base depth e words). in_word w"
    using Cons.prems in_word_place_byte by blast
  then show ?case
    using Cons by simp
qed simp

section \<open>What the words hold\<close>

lemma store_text_distinct: "store_text p st = Some st' \<Longrightarrow> distinct (map fst (snd st)) \<Longrightarrow> distinct (map fst (snd st'))"
  by (auto simp: store_text_def distinct_update split: option.splits)

lemma store_texts_distinct:
  "try_fold store_text ps st = Some st' \<Longrightarrow> distinct (map fst (snd st)) \<Longrightarrow> distinct (map fst (snd st'))"
  by (erule try_fold_inv [where P = "\<lambda>st. distinct (map fst (snd st))"]) (auto dest: store_text_distinct)

lemma verilog_line_distinct:
  "verilog_line l st = Some st' \<Longrightarrow> distinct (map fst (snd st)) \<Longrightarrow> distinct (map fst (snd st'))"
  by (auto simp: verilog_line_def Let_def set_address_def dest: store_texts_distinct split: if_splits)

lemma byte_hex_line_distinct:
  "byte_hex_line l st = Some st' \<Longrightarrow> distinct (map fst (snd st)) \<Longrightarrow> distinct (map fst (snd st'))"
  by (auto simp: byte_hex_line_def Let_def set_address_def dest: store_texts_distinct split: if_splits)

lemma parse_verilog_hex_distinct: "parse_verilog_hex file = Inr m \<Longrightarrow> distinct (map fst m)"
  by (auto simp: parse_verilog_hex_def split: option.splits
      elim!: try_fold_inv [where P = "\<lambda>st. distinct (map fst (snd st))"] dest: verilog_line_distinct)

lemma parse_byte_hex_distinct: "parse_byte_hex file = Inr m \<Longrightarrow> distinct (map fst m)"
  by (auto simp: parse_byte_hex_def split: option.splits
      elim!: try_fold_inv [where P = "\<lambda>st. distinct (map fst (snd st))"] dest: byte_hex_line_distinct)

lemma lane_words:
  assumes "distinct (map fst m)" and "i < depth" and "k < 4"
  shows "lane k (byte_map_to_words m depth base allow ! i) =
    (case map_of m (int (4 * i + k) + (if use_rebase m base allow then base else 0)) of
       None \<Rightarrow> 0 | Some v \<Rightarrow> v mod 256)"
  using lane_place_bytes [of i depth k m "replicate depth 0" "use_rebase m base allow" base] assms
  by (auto simp: byte_map_to_words_def Let_def take_bit_eq_mod split: option.splits)

text \<open>Byte lane k of word i of a block RAM is the byte of the file at address 4 i + k, counted from
  the base when the file has an address from there on, and zero where the file says nothing.\<close>

theorem block_ram_bytes:
  assumes "parse_verilog_hex file = Inr m" and "i < depth" and "k < 4"
  shows "lane k (byte_map_to_words m depth base allow ! i) =
    (case map_of m (int (4 * i + k) + (if use_rebase m base allow then base else 0)) of
       None \<Rightarrow> 0 | Some v \<Rightarrow> v mod 256)"
  using parse_verilog_hex_distinct [OF assms(1)] assms(2,3) by (rule lane_words)

theorem block_ram_bytes_witness:
  "lane 1 (byte_map_to_words [(0x1000, 0xAB), (0x1001, 0xCD)] 2 0x1000 True ! 0) = 0xCD"
proof -
  have "parse_verilog_hex (Some (''@1000'' @ newline @ ''ABcd'')) = Inr [(0x1000, 0xAB), (0x1001, 0xCD)]"
    by code_simp
  from block_ram_bytes [OF this, where i = 0 and depth = 2 and k = 1 and base = "0x1000" and allow = True] show ?thesis
    by (simp add: use_rebase_def)
qed

lemma length_fmt_X_int: "in_word w \<Longrightarrow> length (fmt_X_int 8 w) = 8"
  using length_fmt_X [of "nat w" 8] by (simp add: in_word_def fmt_X_int_def nat_less_iff)


section \<open>From the sections of the program to the words\<close>

lemma store_at_lookup:
  "map_of (store_at vma bs m) a =
    (if vma \<le> a \<and> a < vma + int (length bs) then Some (uint (bs ! nat (a - vma))) else map_of m a)"
proof (induction bs arbitrary: vma m)
  case (Cons b bs)
  show ?case
  proof (cases "vma + 1 \<le> a")
    case True
    then have "nat (a - vma) = Suc (nat (a - (vma + 1)))"
      by simp
    with True show ?thesis
      by (simp add: Cons.IH update_conv')
  qed (auto simp: Cons.IH update_conv')
qed auto

lemma image_map_update: "image_map m \<Longrightarrow> 0 \<le> a \<Longrightarrow> byte_value v \<Longrightarrow> image_map (AList.update a v m)"
  using set_update_subset_insert
  by (induction m) (auto simp: image_map_def distinct_update update_keys)

lemma byte_value_uint [simp]: "byte_value (uint (b :: byte))"
  using uint_lt2p [of b] by (simp add: byte_value_def)

lemma image_map_store_at: "image_map m \<Longrightarrow> 0 \<le> vma \<Longrightarrow> image_map (store_at vma bs m)"
  by (induction vma bs m rule: store_at.induct) (simp_all add: image_map_update)

lemma store_at_nonempty: "bs \<noteq> [] \<or> m \<noteq> [] \<Longrightarrow> store_at vma bs m \<noteq> []"
proof (induction vma bs m rule: store_at.induct)
  case (2 vma b bs m)
  have "AList.update vma (uint b) m \<noteq> []"
    by (cases m) auto
  then show ?case
    using 2 by simp
qed simp

definition section_at_zero_or_above :: "string \<times> int \<times> int \<Rightarrow> bool" where
  "section_at_zero_or_above entry \<longleftrightarrow> 0 \<le> fst (snd entry)"

lemma image_map_section:
  "image_map m \<Longrightarrow> \<forall>entry \<in> set sections. section_at_zero_or_above entry \<Longrightarrow> image_map (image_section sections extract name m)"
proof -
  assume m: "image_map m" and sections: "\<forall>entry \<in> set sections. section_at_zero_or_above entry"
  have "0 \<le> vma" if "map_of sections name = Some (vma, sz)" for vma sz
    using sections map_of_SomeD [OF that] by (auto simp: section_at_zero_or_above_def)
  then show ?thesis
    using m by (auto simp: image_section_def intro!: image_map_store_at split: option.splits)
qed

lemma image_map_Nil: "image_map []"
  by (simp add: image_map_def)

lemma map_of_sorted_image: "map_of (sorted_image m) a = (if a \<in> fst ` set m then Some (get_or_zero m a) else None)"
proof -
  have "map_of (map (\<lambda>a. (a, f a)) as) a = (if a \<in> set as then Some (f a) else None)" for f :: "int \<Rightarrow> int" and as
    by (induction as) auto
  then show ?thesis
    by (simp add: sorted_image_def)
qed

text \<open>From the ELF file to the block RAM: byte j of the .data section that objcopy extracts is
  found, after writing the data image and reading it back, in the lane and word its address selects.\<close>

theorem data_section_reaches_block_ram:
  assumes "parse_section_vmas objdump_out = Some sections"
    and "\<forall>entry \<in> set sections. section_at_zero_or_above entry"
    and "map_of sections ''.data'' = Some (vma, sz)" and "sz \<noteq> 0"
    and "j < length (extract ''.data'')" and "base \<le> vma"
    and "off = nat (vma - base) + j" and "off div 4 < depth"
  shows "\<exists>contents m. write_verilog_byte_image objdump_out extract [''.rodata'', ''.data''] = Some contents
    \<and> parse_verilog_hex (Some contents) = Inr m
    \<and> lane (off mod 4) (byte_map_to_words m depth base True ! (off div 4)) = uint (extract ''.data'' ! j)"
proof -
  let ?ro = "image_section sections extract ''.rodata'' []"
  define img where "img = image_section sections extract ''.data'' ?ro"
  have img: "img = store_at vma (extract ''.data'') ?ro"
    using assms(3,4) by (simp add: img_def image_section_def)
  have map: "image_map img"
    unfolding img_def using assms(2) by (intro image_map_section image_map_Nil) auto
  have ne: "img \<noteq> []"
    unfolding img using assms(5) by (intro store_at_nonempty) auto
  have at: "map_of img (vma + int j) = Some (uint (extract ''.data'' ! j))"
    using assms(5) by (simp add: img store_at_lookup)
  then have mem: "vma + int j \<in> fst ` set img"
    by (metis domI dom_map_of_conv_image_fst)
  then have rebase: "use_rebase (sorted_image img) base True"
    using assms(6) by (force simp: use_rebase_def list_ex_iff sorted_image_def)
  have addr: "int (4 * (off div 4) + off mod 4) + base = vma + int j"
    using assms(6,7) by simp
  have parse: "parse_verilog_hex (Some (image_text img)) = Inr (sorted_image img)"
    using image_read_back [OF map ne] by simp
  have "lane (off mod 4) (byte_map_to_words (sorted_image img) depth base True ! (off div 4))
      = (case map_of (sorted_image img) (vma + int j) of None \<Rightarrow> 0 | Some v \<Rightarrow> v mod 256)"
    using lane_words [OF parse_verilog_hex_distinct [OF parse] assms(8), of "off mod 4" base True] rebase addr
    by simp
  then have "lane (off mod 4) (byte_map_to_words (sorted_image img) depth base True ! (off div 4)) = uint (extract ''.data'' ! j)"
    using at mem byte_value_uint [of "extract ''.data'' ! j"] by (simp add: map_of_sorted_image get_or_zero_def byte_value_def)
  then show ?thesis
    using parse assms(1) by (auto simp: write_verilog_byte_image_def img_def)
qed

definition sample_objdump :: string where
  "sample_objdump = render_lines [''Idx Name Size VMA LMA off Algn'',
     ''  0 .rodata 00000004 00001000 00001000 00002000 2**2'', ''  1 .data 00000003 00001004 00001004 00002004 2**2'']"

definition sample_extract :: "string \<Rightarrow> bytes" where
  "sample_extract name = (if name = ''.data'' then [0x11, 0x22, 0x33] else [0xAA, 0xBB, 0xCC, 0xDD])"

theorem data_section_reaches_block_ram_witness:
  "\<exists>contents m. write_verilog_byte_image sample_objdump sample_extract [''.rodata'', ''.data''] = Some contents
    \<and> parse_verilog_hex (Some contents) = Inr m
    \<and> lane 2 (byte_map_to_words m 8192 0x1000 True ! 1) = 0x33"
proof -
  have sections: "parse_section_vmas sample_objdump = Some [(''.rodata'', 0x1000, 4), (''.data'', 0x1004, 3)]"
    by code_simp
  have "\<exists>contents m. write_verilog_byte_image sample_objdump sample_extract [''.rodata'', ''.data''] = Some contents
    \<and> parse_verilog_hex (Some contents) = Inr m
    \<and> lane (6 mod 4) (byte_map_to_words m 8192 0x1000 True ! (6 div 4)) = uint (sample_extract ''.data'' ! 2)"
    by (rule data_section_reaches_block_ram [OF sections, where vma = "0x1004" and sz = 3])
      (simp_all add: section_at_zero_or_above_def sample_extract_def)
  then show ?thesis
    by (simp add: sample_extract_def)
qed

section \<open>The merged words\<close>

lemma map_of_update_all: "map_of (update_all m n) a = (case map_of (rev n) a of None \<Rightarrow> map_of m a | Some v \<Rightarrow> Some v)"
  unfolding update_all_def by (induction n arbitrary: m) (auto simp: update_conv' map_add_def split: option.splits)

lemma distinct_update_all: "distinct (map fst m) \<Longrightarrow> distinct (map fst (update_all m n))"
  unfolding update_all_def by (induction n arbitrary: m) (simp_all add: distinct_update)

lemma update_all_keys: "fst ` set (update_all m n) = fst ` set m \<union> fst ` set n"
  unfolding update_all_def by (induction n arbitrary: m) (auto simp: dom_update)

lemma get_or_zero_update: "get_or_zero (AList.update a v d) b = (if a = b then v else get_or_zero d b)"
  by (simp add: get_or_zero_def update_conv')

lemma word_byte_4: "k < 4 \<Longrightarrow> a div 4 = i \<and> nat (a mod 4) = k \<longleftrightarrow> a = 4 * i + int k" for a :: int
  by (simp add: nat_eq_iff) presburger

lemma lane_or_byte:
  assumes "byte_value (snd e)" and "k < 4"
  shows "lane k (get_or_zero (or_byte e d) (4 * i)) =
    (if fst e = 4 * i + int k then lane k (get_or_zero d (4 * i)) OR snd e else lane k (get_or_zero d (4 * i)))"
proof -
  define q l where "q = fst e div 4" and "l = nat (fst e mod 4)"
  have "fst e = 4 * i + int k \<longleftrightarrow> q = i \<and> l = k"
    using word_byte_4 [OF assms(2), of "fst e" i] by (simp add: q_def l_def)
  moreover have "or_byte e d = AList.update (4 * q) (get_or_zero d (4 * q) OR push_bit (8 * l) (snd e)) d"
    unfolding or_byte_def Let_def q_def l_def by (simp only: mult.commute)
  ultimately show ?thesis
    using lane_push_byte [OF assms(1)] by (simp add: get_or_zero_update)
qed

lemma lane_or_bytes:
  assumes "k < 4" and "distinct (map fst m)" and "\<forall>e \<in> set m. byte_value (snd e)"
  shows "lane k (get_or_zero (fold or_byte m d) (4 * i)) =
    (case map_of m (4 * i + int k) of
       None \<Rightarrow> lane k (get_or_zero d (4 * i))
     | Some v \<Rightarrow> lane k (get_or_zero d (4 * i)) OR v)"
  using assms(2,3)
proof (induction m arbitrary: d)
  case (Cons e m)
  obtain b v where e: "e = (b, v)" by (cases e)
  have "b = 4 * i + int k \<Longrightarrow> map_of m (4 * i + int k) = None"
    using Cons.prems by (auto simp: map_of_eq_None_iff e)
  moreover have "lane k (get_or_zero (or_byte e d) (4 * i)) =
      (if b = 4 * i + int k then lane k (get_or_zero d (4 * i)) OR v else lane k (get_or_zero d (4 * i)))"
    using lane_or_byte [OF _ assms(1), of e d i] Cons.prems by (simp add: e)
  ultimately show ?case
    using Cons by (auto simp: e split: option.splits)
qed simp

lemma or_byte_keys: "fst ` set (or_byte e d) = insert (fst e div 4 * 4) (fst ` set d)"
  by (simp add: or_byte_def Let_def dom_update)

lemma word_dict_keys: "fst ` set (fold or_byte m d) = fst ` set d \<union> (\<lambda>e. fst e div 4 * 4) ` set m"
  by (induction m arbitrary: d) (auto simp: or_byte_keys)

lemma max_word_idx_covers:
  assumes "a \<in> fst ` set m" and "a div 4 < ram_words"
  shows "a div 4 \<le> max_word_idx (word_dict m) ram_words"
proof -
  let ?keys = "set (map fst (word_dict m))"
  have key: "a div 4 * 4 \<in> ?keys"
    using assms(1) by (auto simp: word_dict_def word_dict_keys)
  then have "a div 4 * 4 \<le> Max ?keys"
    by (intro Max_ge) simp_all
  then have "a div 4 \<le> Max ?keys div 4"
    using zdiv_mono1 [of "a div 4 * 4" "Max ?keys" 4] by simp
  moreover have "word_dict m \<noteq> []"
    using key by auto
  ultimately show ?thesis
    using assms(2) by (simp add: max_word_idx_def)
qed

definition merged_byte :: "byte_map \<Rightarrow> byte_map \<Rightarrow> int \<Rightarrow> int" where
  "merged_byte inst data a = (case map_of data a of Some v \<Rightarrow> v | None \<Rightarrow> get_or_zero inst a)"

lemma map_of_rev_distinct: "distinct (map fst m) \<Longrightarrow> map_of (rev m) a = map_of m a"
proof (induction m)
  case (Cons e m)
  have "fst e = a \<Longrightarrow> map_of m a = None"
    using Cons.prems by (auto simp: map_of_eq_None_iff)
  then show ?case
    using Cons by (auto simp: map_add_def split: option.splits)
qed simp

lemma merged_lookup:
  assumes "distinct (map fst inst)" and "distinct (map fst data)"
  shows "get_or_zero (update_all (update_all [] inst) data) a = merged_byte inst data a"
  using assms by (simp add: get_or_zero_def merged_byte_def map_of_update_all map_of_rev_distinct split: option.splits)

lemma merged_bytes_ok:
  assumes "\<forall>e \<in> set m. byte_value (snd e)" and "\<forall>e \<in> set n. byte_value (snd e)"
  shows "\<forall>e \<in> set (update_all m n). byte_value (snd e)"
  using assms unfolding update_all_def
proof (induction n arbitrary: m)
  case (Cons e n)
  have "\<forall>x \<in> set (AList.update (fst e) (snd e) m). byte_value (snd x)"
  proof
    fix x assume "x \<in> set (AList.update (fst e) (snd e) m)"
    then have "x = (fst e, snd e) \<or> x \<in> set m"
      by (rule in_update_cases)
    then show "byte_value (snd x)"
      using Cons.prems by auto
  qed
  then have "\<forall>x \<in> set (fold (\<lambda>entry. AList.update (fst entry) (snd entry)) n (AList.update (fst e) (snd e) m)). byte_value (snd x)"
    using Cons.prems(2) by (intro Cons.IH) simp_all
  then show ?case
    by (simp only: fold_simps comp_apply)
qed simp

text \<open>In the merged image of the memory subsystem every byte of either file below the RAM size is in the
  word and lane of its address, the data file winning over the instruction file, and everything else
  is zero; this needs the files to hold single bytes.\<close>

theorem merged_image_bytes:
  assumes "parse_byte_hex inst_file = Inr inst" and "parse_byte_hex data_file = Inr data"
    and "\<forall>e \<in> set inst. byte_value (snd e)" and "\<forall>e \<in> set data. byte_value (snd e)"
  shows "\<exists>r. merge_and_write inst_file data_file ram_words = Inr r
    \<and> (\<forall>i < length (merged_words r). \<forall>k \<in> set [0..<4].
         lane k (merged_words r ! i) = merged_byte inst data (4 * int i + int k))
    \<and> (\<forall>a \<in> fst ` set inst \<union> fst ` set data.
         0 \<le> a \<and> a div 4 < ram_words \<longrightarrow> nat (a div 4) < length (merged_words r))"
proof -
  let ?all = "update_all (update_all [] inst) data"
  let ?n = "nat (max_word_idx (word_dict ?all) ram_words + 1)"
  note dist = parse_byte_hex_distinct [OF assms(1)] parse_byte_hex_distinct [OF assms(2)]
  have bytes: "\<forall>e \<in> set ?all. byte_value (snd e)"
    using assms(3,4) by (intro merged_bytes_ok) simp_all
  have all_dist: "distinct (map fst ?all)"
    by (simp add: distinct_update_all)
  have lanes: "lane k (get_or_zero (word_dict ?all) (4 * i)) = merged_byte inst data (4 * i + int k)" if "k < 4" for k i
    using lane_or_bytes [OF that all_dist bytes, of "[]" i] merged_lookup [OF dist, of "4 * i + int k"]
    by (auto simp: word_dict_def get_or_zero_def split: option.splits)
  have keys: "fst ` set ?all = fst ` set inst \<union> fst ` set data"
    by (simp add: update_all_keys)
  have "nat (a div 4) < ?n" if "a \<in> fst ` set inst \<union> fst ` set data" "0 \<le> a" "a div 4 < ram_words" for a
    using max_word_idx_covers [of a ?all ram_words] that keys by auto
  then show ?thesis
    using lanes by (auto simp: merge_and_write_def assms(1,2) Let_def mult.commute)
qed

theorem merged_image_bytes_witness:
  "\<exists>r. merge_and_write (Some ''01 02'') None 4096 = Inr r
    \<and> (\<forall>i < length (merged_words r). \<forall>k \<in> set [0..<4].
         lane k (merged_words r ! i) = merged_byte [(0, 1), (1, 2)] [] (4 * int i + int k))"
proof -
  have "parse_byte_hex (Some ''01 02'') = Inr [(0, 1), (1, 2)]" and "parse_byte_hex None = Inr []"
    by code_simp+
  from merged_image_bytes [OF this, of 4096] show ?thesis
    by (auto simp: byte_value_def)
qed

section \<open>Two readers that disagree\<close>

text \<open>The file build_rom_image.py and build_benchmark_image.py write for a program without data is four
  zero bytes for generate_coe.py, but merge_hex_for_mem_subsys.py has no comments and stops on it with a
  ValueError, whatever the instruction file is.\<close>

theorem empty_image_stops_merge:
  "parse_verilog_hex (Some (image_text [])) = Inr [(0, 0), (1, 0), (2, 0), (3, 0)]
   \<and> (\<exists>e. merge_and_write inst_file (Some (image_text [])) ram_words = Inl e)"
proof -
  have "parse_byte_hex (Some (image_text [])) = Inl Value_Error"
    by code_simp
  moreover have "parse_verilog_hex (Some (image_text [])) = Inr [(0, 0), (1, 0), (2, 0), (3, 0)]"
    by code_simp
  ultimately show ?thesis
    by (auto simp: merge_and_write_def split: sum.splits)
qed

section \<open>The preloaded memory\<close>

lemma lane_fold_chunk:
  "lane k (fold (\<lambda>i w. w OR push_bit (8 * i) (uint (f i :: byte))) [0..<n] 0) = (if k < n then uint (f k) else 0)"
  by (induction n) (auto simp: lane_push_byte)

lemma lane_pack_chunk: "lane k (pack_chunk chunk) = (if k < length chunk then uint (chunk ! k) else 0)"
  unfolding pack_chunk_def by (rule lane_fold_chunk)

lemma in_word_pack_chunk:
  assumes "length chunk \<le> 4"
  shows "in_word (pack_chunk chunk)"
proof -
  have "in_word (fold (\<lambda>i w. w OR push_bit (8 * i) (uint (chunk ! i))) [0..<n] 0)" if "n \<le> 4" for n
    using that by (induction n) (auto intro!: in_word_or in_word_push, simp add: in_word_def)
  then show ?thesis
    using assms by (simp add: pack_chunk_def)
qed

lemma word_of_lane: "word_of_int (lane k w) = (word_of_nat (nat w div 2 ^ (8 * k)) :: byte)" if "0 \<le> w"
proof -
  have "(word_of_int (lane k w) :: byte) = word_of_int (drop_bit (8 * k) w)"
    by (simp add: lane_def word_of_int_eq_iff)
  also have "drop_bit (8 * k) w = int (nat w div 2 ^ (8 * k))"
    using that by (simp add: drop_bit_eq_div zdiv_int)
  finally show ?thesis
    by simp
qed

lemma pack_u32_le_lanes:
  assumes "in_word w"
  shows "pack_u32_le (nat w) = map (\<lambda>k. word_of_int (lane k w)) [0, 1, 2, 3]"
proof -
  have "0 \<le> w" and "nat w mod 2 ^ 32 = nat w"
    using assms by (auto simp: in_word_def nat_less_iff)
  then show ?thesis
    using word_of_lane [of w 0] word_of_lane [of w 1] word_of_lane [of w 2] word_of_lane [of w 3]
    by (simp add: pack_u32_le_def Let_def)
qed

lemma pack_pack_chunk:
  assumes "length chunk \<le> 4"
  shows "pack_u32_le (nat (pack_chunk chunk)) = chunk @ replicate (4 - length chunk) 0"
proof -
  have "pack_u32_le (nat (pack_chunk chunk)) = map (\<lambda>k. if k < length chunk then chunk ! k else 0) [0, 1, 2, 3]"
    using pack_u32_le_lanes [OF in_word_pack_chunk [OF assms]] by (simp add: lane_pack_chunk)
  also have "[0, 1, 2, 3] = [0..<4]"
    by (simp add: upt_rec)
  also have "map (\<lambda>k. if k < length chunk then chunk ! k else 0) [0..<4] = chunk @ replicate (4 - length chunk) 0"
    using assms by (intro nth_equalityI) (auto simp: nth_append)
  finally show ?thesis .
qed

definition padding :: "nat \<Rightarrow> nat" where
  "padding n = (4 - n mod 4) mod 4"

text \<open>The words of the preload file, read back as little-endian bytes, are the program followed by
  the zeros that complete its last word.\<close>

theorem preload_words_bytes:
  "concat (map (pack_u32_le \<circ> nat) (preload_words data)) = data @ replicate (padding (length data)) 0"
proof (induction data rule: preload_words.induct)
  case (2 b bs)
  show ?case
  proof (cases "length bs < 3")
    case True
    then have "length bs = 0 \<or> length bs = 1 \<or> length bs = 2"
      by linarith
    then have "4 - length (b # bs) = padding (length (b # bs))" and "drop 3 bs = []"
      by (auto simp: padding_def)
    then show ?thesis
      using True pack_pack_chunk [of "b # bs"] by simp
  next
    case False
    then have "padding (length (drop 3 bs)) = padding (length (b # bs))"
      using mod_add_self2 [of "length (drop 3 bs)" 4] by (simp add: padding_def)
    then show ?thesis
      using 2 False pack_pack_chunk [of "b # take 3 bs"] by (simp add: min_def)
  qed
qed (simp add: padding_def)

end
