(* ===== verification/Vcd.thy ===== *)
theory Vcd
  imports Pattern
begin

text \<open>
  \<^verbatim>\<open>parse_vcd_samples\<close> of \<^verbatim>\<open>analyze_verilator_stall.py\<close>: a value-change dump is read line by line, and
  the selected signals are sampled at every rising edge of the core clock.  The reader is a state
  machine over the lines; a dict is a map.
\<close>

section \<open>Signals and samples\<close>

definition SELECTED_SIGNALS :: "string list" where
  "SELECTED_SIGNALS = [
     ''sys_clk'', ''debug_core_clk'', ''debug_pc_t0'', ''debug_minstret'', ''debug_rob_head_idx_t0'',
     ''debug_rob_head_valid_t0'', ''debug_rob_head_complete_t0'', ''debug_rob_head_pc_t0'',
     ''debug_rob_head_order_id_t0'', ''debug_rob_head_tag_t0'', ''debug_rob_head_is_store_t0'',
     ''debug_rob_count_t0'', ''debug_rob_head_idx_t1'', ''debug_rob_head_valid_t1'',
     ''debug_rob_head_complete_t1'', ''debug_rob_head_pc_t1'', ''debug_rob_head_order_id_t1'',
     ''debug_rob_head_tag_t1'', ''debug_rob_head_is_store_t1'', ''debug_rob_count_t1'',
     ''debug_mem_iss_valid'', ''debug_mem_iss_pc'', ''debug_mem_iss_order_id'', ''debug_mem_iss_tag'',
     ''debug_mem_iss_tid'', ''debug_mem_iss_mem_read'', ''debug_mem_iss_mem_write'',
     ''debug_lsu_req_valid'', ''debug_lsu_req_accept'', ''debug_lsu_req_order_id'', ''debug_lsu_req_tag'',
     ''debug_lsu_req_tid'', ''debug_lsu_req_addr'', ''debug_lsu_req_wen'', ''debug_lsu_resp_valid'',
     ''debug_lsu_state'', ''debug_lsu_pending_valid'', ''debug_lsu_pending_order_id'',
     ''debug_lsu_pending_tag'', ''debug_lsu_pending_addr'', ''debug_lsu_pending_wen'',
     ''debug_lsu_pending_tid'', ''debug_lsu_m1_txn_is_drain'', ''debug_lsu_sb_forward_valid'',
     ''debug_lsu_sb_load_hazard'', ''debug_store_buffer_empty'', ''debug_store_buffer_count_t0'',
     ''debug_store_buffer_count_t1'', ''debug_sb_head_idx_t0'', ''debug_sb_head_valid_t0'',
     ''debug_sb_head_committed_t0'', ''debug_sb_head_order_id_t0'', ''debug_sb_head_addr_t0'',
     ''debug_sb_head_idx_t1'', ''debug_sb_head_valid_t1'', ''debug_sb_head_committed_t1'',
     ''debug_sb_head_order_id_t1'', ''debug_sb_head_addr_t1'', ''debug_m1_req_valid'',
     ''debug_m1_req_ready'', ''debug_m1_req_addr'', ''debug_m1_req_write'', ''debug_m1_resp_valid'',
     ''debug_m1_resp_data'', ''debug_m0_req_valid'', ''debug_m0_req_ready'', ''debug_m0_req_addr'',
     ''debug_m0_resp_valid'', ''debug_m0_resp_data'', ''debug_m0_resp_last'', ''debug_fetch_pc_pending'',
     ''debug_fetch_pc_out'', ''debug_fetch_if_inst'', ''debug_fetch_if_flags'', ''debug_ic_state_flags'',
     ''debug_ddr3_req_valid'', ''debug_ddr3_req_ready'', ''debug_ddr3_req_addr'', ''debug_ddr3_req_write'',
     ''debug_ddr3_resp_valid'', ''mock_mem_write_count'', ''mock_mem_last_write_addr'',
     ''mock_mem_last_write_data'']"

definition CSV_FIELDS :: "string list" where
  "CSV_FIELDS = [
     ''time'', ''cycle'', ''debug_pc_t0'', ''debug_minstret'', ''debug_rob_head_valid_t0'',
     ''debug_rob_head_complete_t0'', ''debug_rob_head_pc_t0'', ''debug_rob_head_order_id_t0'',
     ''debug_rob_head_tag_t0'', ''debug_rob_head_is_store_t0'', ''debug_rob_count_t0'',
     ''debug_mem_iss_valid'', ''debug_mem_iss_pc'', ''debug_mem_iss_order_id'', ''debug_mem_iss_tag'',
     ''debug_mem_iss_tid'', ''debug_mem_iss_mem_read'', ''debug_mem_iss_mem_write'',
     ''debug_lsu_req_valid'', ''debug_lsu_req_accept'', ''debug_lsu_req_order_id'', ''debug_lsu_req_tag'',
     ''debug_lsu_req_tid'', ''debug_lsu_req_addr'', ''debug_lsu_req_wen'', ''debug_lsu_resp_valid'',
     ''debug_lsu_state'', ''debug_lsu_pending_valid'', ''debug_lsu_pending_order_id'',
     ''debug_lsu_pending_tag'', ''debug_lsu_pending_addr'', ''debug_lsu_pending_wen'',
     ''debug_lsu_pending_tid'', ''debug_lsu_m1_txn_is_drain'', ''debug_lsu_sb_forward_valid'',
     ''debug_lsu_sb_load_hazard'', ''debug_store_buffer_empty'', ''debug_store_buffer_count_t0'',
     ''debug_store_buffer_count_t1'', ''debug_sb_head_valid_t0'', ''debug_sb_head_committed_t0'',
     ''debug_sb_head_order_id_t0'', ''debug_sb_head_addr_t0'', ''debug_m1_req_valid'',
     ''debug_m1_req_ready'', ''debug_m1_req_addr'', ''debug_m1_req_write'', ''debug_m1_resp_valid'',
     ''debug_m1_resp_data'', ''debug_m0_req_valid'', ''debug_m0_req_ready'', ''debug_m0_req_addr'',
     ''debug_m0_resp_valid'', ''debug_m0_resp_data'', ''debug_m0_resp_last'', ''debug_fetch_pc_pending'',
     ''debug_fetch_pc_out'', ''debug_fetch_if_inst'', ''debug_fetch_if_flags'', ''debug_ic_state_flags'',
     ''mock_mem_write_count'', ''mock_mem_last_write_addr'', ''mock_mem_last_write_data'']"

text \<open>
  A sample dict has the keys \<^verbatim>\<open>time\<close> and \<^verbatim>\<open>cycle\<close> and one per selected signal, whose value may be
  unknown; \<^verbatim>\<open>sample.get\<close> of a signal is \<^term>\<open>s_signals\<close>.
\<close>

record sample =
  s_time :: int
  s_cycle :: nat
  s_signals :: "string \<Rightarrow> int option"

text \<open>\<^verbatim>\<open>int(text, 2)\<close>\<close>

fun drop_0b :: "string \<Rightarrow> string" where
  "drop_0b (a # x # cs) =
     (if a = CHR ''0'' \<and> (x = CHR ''b'' \<or> x = CHR ''B'')
      then (case cs of d # ds \<Rightarrow> if d = CHR ''_'' then ds else cs | [] \<Rightarrow> cs)
      else a # x # cs)"
| "drop_0b cs = cs"

definition py_int2 :: "string \<Rightarrow> int option" where
  "py_int2 s = (case py_strip s of
       [] \<Rightarrow> None
     | c # cs \<Rightarrow>
         if c = CHR ''-'' then map_option (\<lambda>n. - int n) (digits_val 2 False 0 (drop_0b cs))
         else if c = CHR ''+'' then map_option int (digits_val 2 False 0 (drop_0b cs))
         else map_option int (digits_val 2 False 0 (drop_0b (c # cs))))"

definition parse_scalar :: "string \<Rightarrow> int option" where
  "parse_scalar s =
     (if s = [] then None
      else if list_ex (\<lambda>c. c \<in> set ''xXzZ'') s then None
      else py_int2 s)"

section \<open>The reader\<close>

record vcd =
  id_to_signal :: "string \<Rightarrow> string option"
  signal_to_id :: "string \<Rightarrow> string option"
  scope_stack :: "string list"
  vcd_values :: "string \<Rightarrow> int option option"
  selected_ids :: "string list"
  samples :: "sample list"
  header_done :: bool
  current_time :: int
  prev_clk :: int
  cycle :: nat

definition vcd_init :: vcd where
  "vcd_init = \<lparr>id_to_signal = (\<lambda>_. None), signal_to_id = (\<lambda>_. None), scope_stack = [], vcd_values = (\<lambda>_. None),
     selected_ids = [], samples = [], header_done = False, current_time = 0, prev_clk = 0, cycle = 0\<rparr>"

definition clk_signal :: "vcd \<Rightarrow> string" where
  "clk_signal v = (if signal_to_id v ''debug_core_clk'' \<noteq> None then ''debug_core_clk'' else ''sys_clk'')"

definition clk_now :: "vcd \<Rightarrow> int option" where
  "clk_now v =
     (case vcd_values v (case signal_to_id v (clk_signal v) of None \<Rightarrow> [] | Some i \<Rightarrow> i) of
        None \<Rightarrow> Some (prev_clk v)
      | Some clk \<Rightarrow> clk)"

definition signal_now :: "vcd \<Rightarrow> string \<Rightarrow> int option" where
  "signal_now v signal =
     (case signal_to_id v signal of
        None \<Rightarrow> None
      | Some i \<Rightarrow> if i = [] then None else (case vcd_values v i of None \<Rightarrow> None | Some x \<Rightarrow> x))"

definition take_sample :: "vcd \<Rightarrow> sample" where
  "take_sample v = \<lparr>s_time = current_time v, s_cycle = Suc (cycle v),
     s_signals = (\<lambda>signal. if signal \<in> set SELECTED_SIGNALS then signal_now v signal else None)\<rparr>"

definition finalize_timestamp :: "vcd \<Rightarrow> vcd" where
  "finalize_timestamp v =
     (let clk = clk_now v;
          v1 = (if prev_clk v = 0 \<and> clk = Some 1
                then v\<lparr>cycle := Suc (cycle v), samples := samples v @ [take_sample v]\<rparr> else v)
      in (case clk of None \<Rightarrow> v1 | Some c \<Rightarrow> v1\<lparr>prev_clk := c\<rparr>))"

definition declare_var :: "string \<Rightarrow> string \<Rightarrow> vcd \<Rightarrow> vcd" where
  "declare_var sig_id sig_name v =
     (if sig_name \<in> set SELECTED_SIGNALS
      then v\<lparr>id_to_signal := (id_to_signal v)(sig_id \<mapsto> sig_name), signal_to_id := (signal_to_id v)(sig_name \<mapsto> sig_id),
             selected_ids := List.insert sig_id (selected_ids v),
             vcd_values := (vcd_values v)(sig_id \<mapsto> (if sig_name = ''sys_clk'' then Some 0 else None))\<rparr>
      else v)"

definition header_line :: "string \<Rightarrow> vcd \<Rightarrow> vcd" where
  "header_line line v =
     (if prefix ''$scope'' line then
        (let parts = py_split line in if 3 \<le> length parts then v\<lparr>scope_stack := scope_stack v @ [parts ! 2]\<rparr> else v)
      else if prefix ''$upscope'' line then v\<lparr>scope_stack := butlast (scope_stack v)\<rparr>
      else if prefix ''$var'' line then
        (let parts = py_split line in if 5 \<le> length parts then declare_var (parts ! 3) (parts ! 4) v else v)
      else if prefix ''$enddefinitions'' line then v\<lparr>header_done := True\<rparr>
      else v)"

definition change_value :: "string \<Rightarrow> int option \<Rightarrow> vcd \<Rightarrow> vcd" where
  "change_value sig_id x v = (if sig_id \<in> set (selected_ids v) then v\<lparr>vcd_values := (vcd_values v)(sig_id \<mapsto> x)\<rparr> else v)"

definition scalar_text :: "char \<Rightarrow> string" where
  "scalar_text c = (if c = CHR ''1'' then ''1'' else if c = CHR ''0'' then ''0'' else [c])"

text \<open>\<^term>\<open>None\<close> is the \<^verbatim>\<open>ValueError\<close> of a time that is not a number.\<close>

definition body_line :: "string \<Rightarrow> vcd \<Rightarrow> vcd option" where
  "body_line line v =
     (if prefix ''#'' line then map_option (\<lambda>t. (finalize_timestamp v)\<lparr>current_time := t\<rparr>) (py_int10 (tl line))
      else if hd line \<in> set ''01xXzZ'' then Some (change_value (tl line) (parse_scalar (scalar_text (hd line))) v)
      else if hd line \<in> set ''bBrR'' then
        (let parts = py_split line in
         if length parts \<noteq> 2 then Some v else Some (change_value (parts ! 1) (parse_scalar (tl (parts ! 0))) v))
      else Some v)"

definition vcd_line :: "string \<Rightarrow> vcd \<Rightarrow> vcd option" where
  "vcd_line raw v =
     (let line = py_strip raw in
      if line = [] then Some v
      else if \<not> header_done v then Some (header_line line v)
      else body_line line v)"

definition parse_vcd_samples :: "string list \<Rightarrow> (sample list \<times> (string \<Rightarrow> string option)) option" where
  "parse_vcd_samples lines =
     map_option (\<lambda>v. let w = (if header_done v then finalize_timestamp v else v) in (samples w, signal_to_id w))
       (try_fold vcd_line lines vcd_init)"

section \<open>The waveform a dump stands for\<close>

text \<open>
  What a body line means: a new time, a value for an identifier, or nothing.
\<close>

datatype vcd_op = Tick int | Assign string "int option" | Nothing

definition op_of_line :: "string \<Rightarrow> vcd_op option" where
  "op_of_line line =
     (if line = [] then Some Nothing
      else if prefix ''#'' line then map_option Tick (py_int10 (tl line))
      else if hd line \<in> set ''01xXzZ'' then Some (Assign (tl line) (parse_scalar (scalar_text (hd line))))
      else if hd line \<in> set ''bBrR'' then
        (let parts = py_split line in
         if length parts \<noteq> 2 then Some Nothing else Some (Assign (parts ! 1) (parse_scalar (tl (parts ! 0)))))
      else Some Nothing)"

fun body_ops :: "string list \<Rightarrow> vcd_op list option" where
  "body_ops [] = Some []"
| "body_ops (raw # lines) =
     (case op_of_line (py_strip raw) of None \<Rightarrow> None | Some p \<Rightarrow> map_option (Cons p) (body_ops lines))"

text \<open>
  The waveform: the values that hold at the end of every time, in order.  Only the identifiers of
  selected signals count.
\<close>

type_synonym valuation = "string \<Rightarrow> int option option"

fun waveform :: "string list \<Rightarrow> int \<Rightarrow> valuation \<Rightarrow> vcd_op list \<Rightarrow> (int \<times> valuation) list" where
  "waveform ids t val [] = [(t, val)]"
| "waveform ids t val (Tick t' # ops) = (t, val) # waveform ids t' val ops"
| "waveform ids t val (Assign i x # ops) = waveform ids t (if i \<in> set ids then val(i \<mapsto> x) else val) ops"
| "waveform ids t val (Nothing # ops) = waveform ids t val ops"

definition wave_value :: "(string \<Rightarrow> string option) \<Rightarrow> valuation \<Rightarrow> string \<Rightarrow> int option" where
  "wave_value signals val signal =
     (if signal \<in> set SELECTED_SIGNALS
      then (case signals signal of
              None \<Rightarrow> None
            | Some i \<Rightarrow> if i = [] then None else (case val i of None \<Rightarrow> None | Some x \<Rightarrow> x))
      else None)"

text \<open>The clock of a moment; an identifier without a value leaves it as it was.\<close>

definition wave_clk :: "(string \<Rightarrow> string option) \<Rightarrow> valuation \<Rightarrow> int \<Rightarrow> int option" where
  "wave_clk signals val prev =
     (case val (case signals (if signals ''debug_core_clk'' \<noteq> None then ''debug_core_clk'' else ''sys_clk'') of
                  None \<Rightarrow> [] | Some i \<Rightarrow> i) of
        None \<Rightarrow> Some prev
      | Some clk \<Rightarrow> clk)"

fun rising_edges :: "(string \<Rightarrow> string option) \<Rightarrow> int \<Rightarrow> (int \<times> valuation) list \<Rightarrow> (int \<times> valuation) list" where
  "rising_edges signals prev [] = []"
| "rising_edges signals prev ((t, val) # ws) =
     (let clk = wave_clk signals val prev in
      (if prev = 0 \<and> clk = Some 1 then [(t, val)] else [])
      @ rising_edges signals (case clk of None \<Rightarrow> prev | Some c \<Rightarrow> c) ws)"

fun number_samples :: "(string \<Rightarrow> string option) \<Rightarrow> nat \<Rightarrow> (int \<times> valuation) list \<Rightarrow> sample list" where
  "number_samples signals n [] = []"
| "number_samples signals n ((t, val) # ws) =
     \<lparr>s_time = t, s_cycle = Suc n, s_signals = wave_value signals val\<rparr> # number_samples signals (Suc n) ws"

section \<open>The reader implements it\<close>

lemma take_sample_wave:
  "take_sample v = \<lparr>s_time = current_time v, s_cycle = Suc (cycle v),
     s_signals = wave_value (signal_to_id v) (vcd_values v)\<rparr>"
  by (auto simp: take_sample_def wave_value_def signal_now_def)

lemma clk_now_wave: "clk_now v = wave_clk (signal_to_id v) (vcd_values v) (prev_clk v)"
  by (simp add: clk_now_def clk_signal_def wave_clk_def)

lemma finalize_fields [simp]:
  "signal_to_id (finalize_timestamp v) = signal_to_id v"
  "vcd_values (finalize_timestamp v) = vcd_values v"
  "selected_ids (finalize_timestamp v) = selected_ids v"
  "header_done (finalize_timestamp v) = header_done v"
  "current_time (finalize_timestamp v) = current_time v"
  by (simp_all add: finalize_timestamp_def Let_def split: option.splits)

lemma finalize_clk:
  "prev_clk (finalize_timestamp v)
    = (case wave_clk (signal_to_id v) (vcd_values v) (prev_clk v) of None \<Rightarrow> prev_clk v | Some c \<Rightarrow> c)"
  by (simp add: finalize_timestamp_def Let_def clk_now_wave split: option.splits)

definition edge_now :: "vcd \<Rightarrow> bool" where
  "edge_now v \<longleftrightarrow> prev_clk v = 0 \<and> wave_clk (signal_to_id v) (vcd_values v) (prev_clk v) = Some 1"

lemma finalize_samples:
  "samples (finalize_timestamp v) = samples v @ (if edge_now v then [take_sample v] else [])"
  "cycle (finalize_timestamp v) = (if edge_now v then Suc (cycle v) else cycle v)"
  by (cases "prev_clk v = 0"; simp add: finalize_timestamp_def Let_def clk_now_wave edge_now_def split: option.splits)+

lemma change_fields [simp]:
  "signal_to_id (change_value i x v) = signal_to_id v"
  "selected_ids (change_value i x v) = selected_ids v"
  "header_done (change_value i x v) = header_done v"
  "current_time (change_value i x v) = current_time v"
  "prev_clk (change_value i x v) = prev_clk v"
  "cycle (change_value i x v) = cycle v"
  "samples (change_value i x v) = samples v"
  "vcd_values (change_value i x v) = (if i \<in> set (selected_ids v) then (vcd_values v)(i \<mapsto> x) else vcd_values v)"
  by (simp_all add: change_value_def)

text \<open>One line, by what it means.\<close>

fun do_op :: "vcd_op \<Rightarrow> vcd \<Rightarrow> vcd" where
  "do_op (Tick t) v = (finalize_timestamp v)\<lparr>current_time := t\<rparr>"
| "do_op (Assign i x) v = change_value i x v"
| "do_op Nothing v = v"

lemma vcd_line_op:
  "header_done v \<Longrightarrow> vcd_line raw v = map_option (\<lambda>p. do_op p v) (op_of_line (py_strip raw))"
  by (simp add: vcd_line_def body_line_def op_of_line_def Let_def option.map_comp comp_def)

lemma do_op_header [simp]: "header_done (do_op p v) = header_done v"
  by (cases p) simp_all

lemma do_ops_header: "header_done (fold do_op ops v) = header_done v"
  by (induction ops arbitrary: v) simp_all

lemma try_fold_body:
  "header_done v \<Longrightarrow> try_fold vcd_line lines v = map_option (\<lambda>ops. fold do_op ops v) (body_ops lines)"
  by (induction lines arbitrary: v) (auto simp: vcd_line_op option.map_comp comp_def split: option.splits)

text \<open>The samples still to come from a state, by the waveform.\<close>

definition samples_ahead :: "vcd \<Rightarrow> vcd_op list \<Rightarrow> sample list" where
  "samples_ahead v ops = number_samples (signal_to_id v) (cycle v)
     (rising_edges (signal_to_id v) (prev_clk v) (waveform (selected_ids v) (current_time v) (vcd_values v) ops))"

lemma number_samples_edge:
  "number_samples signals n (rising_edges signals prev ((t, val) # ws)) =
    (let clk = wave_clk signals val prev; edge = (prev = 0 \<and> clk = Some 1); next_clk = (case clk of None \<Rightarrow> prev | Some c \<Rightarrow> c)
     in (if edge then [\<lparr>s_time = t, s_cycle = Suc n, s_signals = wave_value signals val\<rparr>] else [])
        @ number_samples signals (if edge then Suc n else n) (rising_edges signals next_clk ws))"
  by (cases "prev = 0") (auto simp: Let_def)

lemma run_body:
  "samples (finalize_timestamp (fold do_op ops v)) = samples v @ samples_ahead v ops"
proof (induction ops arbitrary: v)
  case Nil
  then show ?case
    by (cases "prev_clk v = 0") (simp_all add: samples_ahead_def finalize_samples edge_now_def take_sample_wave Let_def)
next
  case (Cons p ops)
  show ?case
  proof (cases p)
    case (Tick t)
    have "samples_ahead v (p # ops) = (if edge_now v then [take_sample v] else [])
        @ samples_ahead ((finalize_timestamp v)\<lparr>current_time := t\<rparr>) ops"
      unfolding samples_ahead_def Tick waveform.simps number_samples_edge Let_def
      by (cases "prev_clk v = 0") (simp_all add: finalize_clk finalize_samples edge_now_def take_sample_wave)
    then show ?thesis
      using Cons [of "(finalize_timestamp v)\<lparr>current_time := t\<rparr>"] by (simp add: Tick finalize_samples)
  qed (simp_all add: Cons samples_ahead_def)
qed

lemma header_fresh:
  "try_fold vcd_line hs v = Some h \<Longrightarrow> \<not> header_done h \<Longrightarrow>
     samples h = samples v \<and> cycle h = cycle v \<and> prev_clk h = prev_clk v \<and> current_time h = current_time v \<and> \<not> header_done v"
proof (induction hs arbitrary: v)
  case (Cons raw hs)
  have done_stays: "header_done v \<Longrightarrow> header_done h"
    using try_fold_body [of v "raw # hs", unfolded Cons.prems(1)] do_ops_header [of _ v] by (auto simp: eq_commute [of "Some _"])
  then have v: "\<not> header_done v"
    using Cons.prems(2) by blast
  obtain v' where v': "vcd_line raw v = Some v'" "try_fold vcd_line hs v' = Some h"
    using Cons.prems(1) by (auto split: option.splits)
  moreover have "samples v' = samples v \<and> cycle v' = cycle v \<and> prev_clk v' = prev_clk v \<and> current_time v' = current_time v"
    using v'(1) v by (auto simp: vcd_line_def header_line_def declare_var_def Let_def split: if_splits)
  ultimately show ?case
    using Cons.IH [of v'] Cons.prems(2) v by simp
qed simp

lemma header_end:
  "\<not> header_done h \<Longrightarrow> prefix ''$enddefinitions'' (py_strip e) \<Longrightarrow> vcd_line e h = Some (h\<lparr>header_done := True\<rparr>)"
  by (auto simp: vcd_line_def header_line_def Let_def prefix_def)

lemma parse_vcd_waveform:
  assumes "try_fold vcd_line hs vcd_init = Some h" and "\<not> header_done h"
    and "prefix ''$enddefinitions'' (py_strip e)"
  shows "parse_vcd_samples (hs @ e # body) =
    map_option (\<lambda>ops. (number_samples (signal_to_id h) 0
        (rising_edges (signal_to_id h) 0 (waveform (selected_ids h) 0 (vcd_values h) ops)), signal_to_id h))
      (body_ops body)"
proof -
  let ?h = "h\<lparr>header_done := True\<rparr>"
  have fresh: "samples h = [] \<and> cycle h = 0 \<and> prev_clk h = 0 \<and> current_time h = 0"
    using header_fresh [OF assms(1,2)] by (simp add: vcd_init_def)
  have "signal_to_id (fold do_op ops v) = signal_to_id v" for ops v
    by (induction ops arbitrary: v) (simp, case_tac a, simp_all)
  then show ?thesis
    using fresh run_body [of _ ?h]
    by (simp add: parse_vcd_samples_def try_fold_append assms(1) header_end [OF assms(2,3)] try_fold_body
        do_ops_header option.map_comp comp_def samples_ahead_def Let_def cong: map_option_cong)
qed

text \<open>C8. The reader of a dump refines the waveform: after the definitions, the samples are the rising clock
  edges of the waveform, in order, numbered from 1, each with the signal values of its moment; a time
  that is not a number is the only error.\<close>

theorem vcd_refines_waveform:
  assumes "try_fold vcd_line hs vcd_init = Some h" and "\<not> header_done h"
    and "prefix ''$enddefinitions'' (py_strip e)"
  shows "parse_vcd_samples (hs @ e # body) =
    map_option (\<lambda>ops. (number_samples (signal_to_id h) 0
        (rising_edges (signal_to_id h) 0 (waveform (selected_ids h) 0 (vcd_values h) ops)), signal_to_id h))
      (body_ops body)"
  using assms by (rule parse_vcd_waveform)

definition sample_header :: "string list" where
  "sample_header = [''$var wire 1 ! debug_core_clk $end'', ''$var wire 32 q debug_fetch_if_flags $end'']"

definition sample_header_state :: vcd where
  "sample_header_state = declare_var ''q'' ''debug_fetch_if_flags'' (declare_var ''!'' ''debug_core_clk'' vcd_init)"

definition sample_body :: "string list" where
  "sample_body = [''#0'', ''0!'', ''b0 q'', ''#5'', ''1!'', ''b10000000 q'', ''#10'', ''0!'', ''#15'', ''1!'']"

lemma declare_header [simp]: "header_done (declare_var i n v) = header_done v"
  by (simp add: declare_var_def)

lemma sample_header_read: "try_fold vcd_line sample_header vcd_init = Some sample_header_state"
proof -
  have strip: "py_strip ''$var wire 1 ! debug_core_clk $end'' = ''$var wire 1 ! debug_core_clk $end''"
    "py_strip ''$var wire 32 q debug_fetch_if_flags $end'' = ''$var wire 32 q debug_fetch_if_flags $end''"
    by code_simp+
  have split: "py_split ''$var wire 1 ! debug_core_clk $end'' = [''$var'', ''wire'', ''1'', ''!'', ''debug_core_clk'', ''$end'']"
    "py_split ''$var wire 32 q debug_fetch_if_flags $end'' = [''$var'', ''wire'', ''32'', ''q'', ''debug_fetch_if_flags'', ''$end'']"
    by code_simp+
  have "\<not> header_done vcd_init"
    by (simp add: vcd_init_def)
  then show ?thesis
    by (simp add: sample_header_def sample_header_state_def vcd_line_def header_line_def strip split Let_def)
qed

lemma sample_state:
  "signal_to_id sample_header_state = [''debug_core_clk'' \<mapsto> ''!'', ''debug_fetch_if_flags'' \<mapsto> ''q'']"
  "selected_ids sample_header_state = [''q'', ''!'']" "vcd_values sample_header_state = [''!'' \<mapsto> None, ''q'' \<mapsto> None]"
  "\<not> header_done sample_header_state"
  by (simp_all add: sample_header_state_def declare_var_def SELECTED_SIGNALS_def vcd_init_def)

lemma sample_ops: "body_ops sample_body = Some [Tick 0, Assign ''!'' (Some 0), Assign ''q'' (Some 0), Tick 5,
    Assign ''!'' (Some 1), Assign ''q'' (Some 128), Tick 10, Assign ''!'' (Some 0), Tick 15, Assign ''!'' (Some 1)]"
  by code_simp

definition sample_end :: string where
  "sample_end = ''$enddefinitions $end''"

lemma sample_end_prefix: "prefix ''$enddefinitions'' (py_strip sample_end)"
  by code_simp

lemma sample_edges:
  "rising_edges (signal_to_id sample_header_state) 0 (waveform [''q'', ''!''] 0 [''!'' \<mapsto> None, ''q'' \<mapsto> None]
     (the (body_ops sample_body)))
   = [(5, [''!'' \<mapsto> Some 1, ''q'' \<mapsto> Some 128]), (15, [''!'' \<mapsto> Some 1, ''q'' \<mapsto> Some 128])]"
  by (simp add: sample_ops sample_state wave_clk_def fun_upd_twist)

definition sample_list :: "sample list" where
  "sample_list = number_samples (signal_to_id sample_header_state) 0
     [(5, [''!'' \<mapsto> Some 1, ''q'' \<mapsto> Some 128]), (15, [''!'' \<mapsto> Some 1, ''q'' \<mapsto> Some 128])]"

theorem vcd_refines_waveform_witness:
  "parse_vcd_samples (sample_header @ sample_end # sample_body) = Some (sample_list, signal_to_id sample_header_state)
   \<and> map (\<lambda>s. (s_time s, s_cycle s, s_signals s ''debug_fetch_if_flags'')) sample_list = [(5, 1, Some 128), (15, 2, Some 128)]"
  using vcd_refines_waveform [OF sample_header_read sample_state(4) sample_end_prefix, of sample_body] sample_edges
  by (simp add: sample_list_def sample_ops sample_state(1-3) wave_value_def SELECTED_SIGNALS_def)

lemma sample_dump_parsed:
  "parse_vcd_samples (sample_header @ sample_end # sample_body) = Some (sample_list, signal_to_id sample_header_state)"
  using parse_vcd_waveform [OF sample_header_read sample_state(4) sample_end_prefix, of sample_body] sample_edges
  by (simp add: sample_list_def sample_ops sample_state(1-3))

section \<open>The samples are numbered\<close>

definition numbered :: "vcd \<Rightarrow> bool" where
  "numbered v \<longleftrightarrow> map s_cycle (samples v) = [1..<Suc (cycle v)]"

lemma numbered_finalize: "numbered v \<Longrightarrow> numbered (finalize_timestamp v)"
  by (auto simp: numbered_def finalize_samples take_sample_wave)

lemma numbered_line: "vcd_line raw v = Some v' \<Longrightarrow> numbered v \<Longrightarrow> numbered v'"
proof (cases "header_done v")
  case True
  assume "vcd_line raw v = Some v'" and v: "numbered v"
  then obtain p where "v' = do_op p v"
    using True by (auto simp: vcd_line_op)
  then show ?thesis
    using v numbered_finalize [OF v] by (cases p) (simp_all add: numbered_def)
next
  case False
  assume "vcd_line raw v = Some v'" and "numbered v"
  with False show ?thesis
    by (auto simp: vcd_line_def header_line_def declare_var_def numbered_def Let_def split: if_splits)
qed

lemma samples_numbered:
  assumes "parse_vcd_samples lines = Some (ss, m)"
  shows "map s_cycle ss = [1..<Suc (length ss)]"
proof -
  obtain v where v: "try_fold vcd_line lines vcd_init = Some v"
    and ss: "ss = samples (if header_done v then finalize_timestamp v else v)"
    using assms by (auto simp: parse_vcd_samples_def Let_def)
  have "numbered vcd_init"
    by (simp add: numbered_def vcd_init_def)
  then have "numbered v"
    by (rule try_fold_inv [where P = numbered, OF v]) (rule numbered_line)
  then have "numbered (if header_done v then finalize_timestamp v else v)"
    by (simp add: numbered_finalize)
  then show ?thesis
    unfolding ss numbered_def by (metis length_map length_upt diff_Suc_1)
qed

end
