(* ===== verification/Stall.thy ===== *)
theory Stall
  imports Vcd
begin

text \<open>
  The analysis of a stalled simulation (\<^verbatim>\<open>analyze_verilator_stall.py\<close>): the window of samples to look
  at, the reorder-buffer head at its start, the histograms of the window, the classification and the
  reports.
\<close>

section \<open>Reading samples and the run summary\<close>

text \<open>\<^verbatim>\<open>int(sample.get(x) or 0)\<close> and the truth value of \<^verbatim>\<open>sample.get(x)\<close>.\<close>

definition value_of :: "sample \<Rightarrow> string \<Rightarrow> int" where
  "value_of s x = (case s_signals s x of None \<Rightarrow> 0 | Some v \<Rightarrow> v)"

definition on :: "string \<Rightarrow> sample \<Rightarrow> bool" where
  "on x s \<longleftrightarrow> value_of s x \<noteq> 0"

text \<open>The summary is a JSON object of numbers; \<^verbatim>\<open>int(summary.get(key, 0) or 0)\<close>.\<close>

type_synonym run_summary = "string \<Rightarrow> int option"

definition summary_int :: "run_summary \<Rightarrow> string \<Rightarrow> int" where
  "summary_int summary key = (case summary key of None \<Rightarrow> 0 | Some v \<Rightarrow> v)"

definition format_hex :: "int option \<Rightarrow> string" where
  "format_hex v = (case v of None \<Rightarrow> ''NA'' | Some n \<Rightarrow> ''0x'' @ fmt_X_int 8 n)"

section \<open>The stall window\<close>

definition localize_cycle :: "int \<Rightarrow> int \<Rightarrow> int" where
  "localize_cycle trace_start_cycle absolute_cycle =
     (if absolute_cycle \<le> 0 then 0
      else if trace_start_cycle \<le> 0 then absolute_cycle
      else max 0 (absolute_cycle - trace_start_cycle))"

definition from_cycle :: "int \<Rightarrow> sample list \<Rightarrow> sample list" where
  "from_cycle start_cycle ss = filter (\<lambda>s. start_cycle \<le> int (s_cycle s)) ss"

fun first_window :: "(int \<times> sample list) list \<Rightarrow> sample list \<Rightarrow> sample list" where
  "first_window [] ss = ss"
| "first_window ((given, window) # choices) ss =
     (if given \<noteq> 0 \<and> window \<noteq> [] then window else first_window choices ss)"

definition choose_stall_window :: "sample list \<Rightarrow> run_summary \<Rightarrow> sample list" where
  "choose_stall_window ss summary =
     (let localize = localize_cycle (summary_int summary ''TraceStartCycle'');
          last_instret_cycle = summary_int summary ''LastInstretProgressCycle'';
          last_commit_cycle = summary_int summary ''LastCommitProgressCycle'';
          danger_cycle = summary_int summary ''DangerEntryCycle'';
          danger_instret = summary_int summary ''DangerEntryInstRet'';
          start = summary_int summary ''DangerWindowEntryPc''
      in first_window
          [(last_instret_cycle, from_cycle (max 0 (localize last_instret_cycle - 4096)) ss),
           (last_commit_cycle, from_cycle (max 0 (localize last_commit_cycle - 4096)) ss),
           (danger_cycle, from_cycle (localize danger_cycle) ss),
           (danger_instret, filter (\<lambda>s. danger_instret \<le> value_of s ''debug_minstret'') ss),
           (start, filter (\<lambda>s. start \<le> value_of s ''debug_pc_t0'') ss)] ss)"

section \<open>The head of the reorder buffer\<close>

record rob_head =
  h_thread :: nat
  h_idx :: "int option"
  h_valid :: "int option"
  h_complete :: "int option"
  h_pc :: "int option"
  h_order_id :: "int option"
  h_tag :: "int option"
  h_is_store :: "int option"

definition pick_head :: "sample \<Rightarrow> rob_head" where
  "pick_head s =
     (if on ''debug_rob_head_valid_t0'' s
      then \<lparr>h_thread = 0, h_idx = s_signals s ''debug_rob_head_idx_t0'', h_valid = s_signals s ''debug_rob_head_valid_t0'',
             h_complete = s_signals s ''debug_rob_head_complete_t0'', h_pc = s_signals s ''debug_rob_head_pc_t0'',
             h_order_id = s_signals s ''debug_rob_head_order_id_t0'', h_tag = s_signals s ''debug_rob_head_tag_t0'',
             h_is_store = s_signals s ''debug_rob_head_is_store_t0''\<rparr>
      else \<lparr>h_thread = 1, h_idx = s_signals s ''debug_rob_head_idx_t1'', h_valid = s_signals s ''debug_rob_head_valid_t1'',
             h_complete = s_signals s ''debug_rob_head_complete_t1'', h_pc = s_signals s ''debug_rob_head_pc_t1'',
             h_order_id = s_signals s ''debug_rob_head_order_id_t1'', h_tag = s_signals s ''debug_rob_head_tag_t1'',
             h_is_store = s_signals s ''debug_rob_head_is_store_t1''\<rparr>)"

definition or_zero :: "int option \<Rightarrow> int" where
  "or_zero x = (case x of None \<Rightarrow> 0 | Some v \<Rightarrow> v)"

section \<open>The instruction at an address\<close>

record decode_result =
  d_available :: bool
  d_instruction :: string
  d_context :: string

text \<open>
  \<^verbatim>\<open>^\s*([0-9a-fA-F]+):\s+[0-9a-fA-F]+\s+(.+)$\<close> on one line: address and instruction text.  When
  nothing follows the second number but white space, the last of it is the instruction.
\<close>

definition inst_match :: "string \<Rightarrow> (string \<times> string) option" where
  "inst_match line =
     (case match_items [Skip 0 py_space, Run 1 is_hex, Lit '':'', Skip 1 py_space, Run 1 is_hex] line of
        Some (addr # _, rest) \<Rightarrow>
          (let blank = takeWhile py_space rest; inst = dropWhile py_space rest in
           if blank = [] then None
           else if inst \<noteq> [] then Some (addr, inst)
           else if 2 \<le> length blank then Some (addr, [last blank])
           else None)
      | _ \<Rightarrow> None)"

fun find_instruction :: "string \<Rightarrow> string list \<Rightarrow> string option" where
  "find_instruction target [] = None"
| "find_instruction target (line # lines) =
     (case inst_match line of
        None \<Rightarrow> find_instruction target lines
      | Some (addr, inst) \<Rightarrow>
          if py_lower addr = py_lower target then Some (py_strip inst) else find_instruction target lines)"

text \<open>
  \<^verbatim>\<open>disassemble start stop\<close> is the output of objdump for that range, \<^term>\<open>None\<close> when objdump or the ELF
  file is missing or objdump fails.
\<close>

definition decode_instruction :: "(int \<Rightarrow> int \<Rightarrow> string option) \<Rightarrow> int option \<Rightarrow> decode_result" where
  "decode_instruction disassemble pc =
     (let result = \<lparr>d_available = False, d_instruction = [], d_context = []\<rparr> in
      if or_zero pc = 0 then result
      else case disassemble (max 0 (or_zero pc - 0x20)) (or_zero pc + 0x20 + 4) of
          None \<Rightarrow> result
        | Some out \<Rightarrow>
            (case find_instruction (py_lower (fmt_X_int 0 (or_zero pc))) (splitlines out) of
               None \<Rightarrow> result\<lparr>d_context := out\<rparr>
             | Some inst \<Rightarrow> \<lparr>d_available = True, d_instruction = inst, d_context = out\<rparr>))"

section \<open>Histograms of the window\<close>

text \<open>A \<^verbatim>\<open>Counter\<close>: keys in the order they were first counted; \<^verbatim>\<open>most_common(1)[0]\<close> is the first of
  the largest counts.\<close>

definition count_key :: "'k \<Rightarrow> ('k \<times> nat) list \<Rightarrow> ('k \<times> nat) list" where
  "count_key k hist = AList.update k (Suc (case map_of hist k of None \<Rightarrow> 0 | Some n \<Rightarrow> n)) hist"

definition most_common :: "('k \<times> nat) list \<Rightarrow> ('k \<times> nat) option" where
  "most_common hist = max_by snd hist"

type_synonym issue_key = "int \<times> int \<times> int \<times> int \<times> int \<times> int"
type_synonym accept_key = "int \<times> int \<times> int \<times> int \<times> int"

definition event_key_from_sample :: "sample \<Rightarrow> issue_key" where
  "event_key_from_sample s =
     (value_of s ''debug_mem_iss_pc'', value_of s ''debug_mem_iss_order_id'', value_of s ''debug_mem_iss_tag'',
      value_of s ''debug_mem_iss_tid'', value_of s ''debug_mem_iss_mem_read'', value_of s ''debug_mem_iss_mem_write'')"

definition req_key_from_sample :: "sample \<Rightarrow> accept_key" where
  "req_key_from_sample s =
     (value_of s ''debug_lsu_req_order_id'', value_of s ''debug_lsu_req_tag'', value_of s ''debug_lsu_req_tid'',
      value_of s ''debug_lsu_req_addr'', value_of s ''debug_lsu_req_wen'')"

record stall_loop =
  replay_hist :: "(issue_key \<times> nat) list"
  accept_hist :: "(accept_key \<times> nat) list"
  lsu_state_hist :: "(int \<times> nat) list"
  pending_order_ids :: "int list"
  pending_tags :: "int list"
  pending_addrs :: "int list"
  sb_head_order_ids_t0 :: "int list"
  sb_head_addrs_t0 :: "int list"
  sb_head_committed_t0_seen :: bool
  sb_load_hazard_seen :: bool
  sb_forward_valid_seen :: bool
  m1_req_handshake_count :: nat
  m1_resp_count :: nat
  m0_req_seen :: bool
  m0_req_handshake_count :: nat
  m0_resp_count :: nat
  last_m0_req_addr :: int
  pending_valid_seen :: bool

definition stall_loop_init :: stall_loop where
  "stall_loop_init = \<lparr>replay_hist = [], accept_hist = [], lsu_state_hist = [], pending_order_ids = [], pending_tags = [],
     pending_addrs = [], sb_head_order_ids_t0 = [], sb_head_addrs_t0 = [], sb_head_committed_t0_seen = False,
     sb_load_hazard_seen = False, sb_forward_valid_seen = False, m1_req_handshake_count = 0, m1_resp_count = 0,
     m0_req_seen = False, m0_req_handshake_count = 0, m0_resp_count = 0, last_m0_req_addr = 0,
     pending_valid_seen = False\<rparr>"

text \<open>\<^verbatim>\<open>if value is not None: ids.add(int(value))\<close>\<close>

definition add_known :: "int option \<Rightarrow> int list \<Rightarrow> int list" where
  "add_known x xs = (case x of None \<Rightarrow> xs | Some v \<Rightarrow> List.insert v xs)"

definition count_if :: "bool \<Rightarrow> nat \<Rightarrow> nat" where
  "count_if b n = (if b then Suc n else n)"

definition stall_step :: "sample \<Rightarrow> stall_loop \<Rightarrow> stall_loop" where
  "stall_step s l =
     (let sig = s_signals s; pending = on ''debug_lsu_pending_valid'' s; m0_valid = on ''debug_m0_req_valid'' s in
      \<lparr>replay_hist = (if on ''debug_mem_iss_valid'' s then count_key (event_key_from_sample s) (replay_hist l)
                      else replay_hist l),
       accept_hist = (if on ''debug_lsu_req_valid'' s \<and> on ''debug_lsu_req_accept'' s
                      then count_key (req_key_from_sample s) (accept_hist l) else accept_hist l),
       lsu_state_hist = count_key (value_of s ''debug_lsu_state'') (lsu_state_hist l),
       pending_order_ids = (if pending then add_known (sig ''debug_lsu_pending_order_id'') (pending_order_ids l)
                            else pending_order_ids l),
       pending_tags = (if pending then add_known (sig ''debug_lsu_pending_tag'') (pending_tags l) else pending_tags l),
       pending_addrs = (if pending then add_known (sig ''debug_lsu_pending_addr'') (pending_addrs l) else pending_addrs l),
       sb_head_order_ids_t0 = add_known (sig ''debug_sb_head_order_id_t0'') (sb_head_order_ids_t0 l),
       sb_head_addrs_t0 = add_known (sig ''debug_sb_head_addr_t0'') (sb_head_addrs_t0 l),
       sb_head_committed_t0_seen = (on ''debug_sb_head_committed_t0'' s \<or> sb_head_committed_t0_seen l),
       sb_load_hazard_seen = (on ''debug_lsu_sb_load_hazard'' s \<or> sb_load_hazard_seen l),
       sb_forward_valid_seen = (on ''debug_lsu_sb_forward_valid'' s \<or> sb_forward_valid_seen l),
       m1_req_handshake_count = count_if (on ''debug_m1_req_valid'' s \<and> on ''debug_m1_req_ready'' s) (m1_req_handshake_count l),
       m1_resp_count = count_if (on ''debug_m1_resp_valid'' s) (m1_resp_count l),
       m0_req_seen = (m0_valid \<or> m0_req_seen l),
       m0_req_handshake_count = count_if (m0_valid \<and> on ''debug_m0_req_ready'' s) (m0_req_handshake_count l),
       m0_resp_count = count_if (on ''debug_m0_resp_valid'' s) (m0_resp_count l),
       last_m0_req_addr = (if m0_valid then value_of s ''debug_m0_req_addr'' else last_m0_req_addr l),
       pending_valid_seen = (pending \<or> pending_valid_seen l)\<rparr>)"

definition stall_histogram :: "sample list \<Rightarrow> stall_loop" where
  "stall_histogram ss = fold stall_step ss stall_loop_init"

section \<open>Classification\<close>

text \<open>What the classifier derives from the window, as it names it.\<close>

record window_facts =
  w_head_complete_seen :: bool
  w_sb_hazard_seen :: bool
  w_m1_resp_seen :: bool
  w_sb_head_order_t0 :: int
  w_sb_head_committed_t0 :: bool
  w_rob_empty_last :: bool
  w_fetch_req_active_last :: bool
  w_icache_resp_valid_last :: bool
  w_icache_final_valid_last :: bool
  w_icache_response_stale_last :: bool
  w_m0_req_seen :: bool
  w_m0_handshake_seen :: bool
  w_m0_resp_seen :: bool

definition flag_bit :: "int \<Rightarrow> int \<Rightarrow> bool" where
  "flag_bit bits flags \<longleftrightarrow> flags AND bits \<noteq> 0"

definition window_facts_of :: "sample list \<Rightarrow> window_facts" where
  "window_facts_of ss =
     (let last_sample = last ss; fetch_flags_last = value_of last_sample ''debug_fetch_if_flags'' in
      \<lparr>w_head_complete_seen = list_ex (on ''debug_rob_head_complete_t0'') ss,
       w_sb_hazard_seen = list_ex (on ''debug_lsu_sb_load_hazard'') ss,
       w_m1_resp_seen = list_ex (on ''debug_m1_resp_valid'') ss,
       w_sb_head_order_t0 = value_of last_sample ''debug_sb_head_order_id_t0'',
       w_sb_head_committed_t0 = on ''debug_sb_head_committed_t0'' last_sample,
       w_rob_empty_last = (\<not> on ''debug_rob_head_valid_t0'' last_sample \<and> value_of last_sample ''debug_rob_count_t0'' = 0),
       w_fetch_req_active_last = flag_bit 0x80 fetch_flags_last,
       w_icache_resp_valid_last = flag_bit 0x20 fetch_flags_last,
       w_icache_final_valid_last = flag_bit 0x10 fetch_flags_last,
       w_icache_response_stale_last = flag_bit 0x08 fetch_flags_last,
       w_m0_req_seen = list_ex (on ''debug_m0_req_valid'') ss,
       w_m0_handshake_seen = list_ex (\<lambda>s. on ''debug_m0_req_valid'' s \<and> on ''debug_m0_req_ready'' s) ss,
       w_m0_resp_seen = list_ex (on ''debug_m0_resp_valid'') ss\<rparr>)"

definition accepted_head_store :: "rob_head \<Rightarrow> (accept_key \<times> nat) option \<Rightarrow> window_facts \<Rightarrow> bool" where
  "accepted_head_store head top_accept w \<longleftrightarrow>
     or_zero (h_is_store head) \<noteq> 0
     \<and> (case top_accept of
          None \<Rightarrow> False
        | Some ((order_id, tag, _, _, wen), _) \<Rightarrow>
            wen = 1 \<and> order_id = or_zero (h_order_id head) \<and> tag = or_zero (h_tag head) \<and> \<not> w_head_complete_seen w)"

definition wrapped_order_ids :: "rob_head \<Rightarrow> window_facts \<Rightarrow> bool" where
  "wrapped_order_ids head w \<longleftrightarrow>
     or_zero (h_is_store head) \<noteq> 0 \<and> \<not> w_head_complete_seen w \<and> 0xFF00 \<le> or_zero (h_order_id head)
     \<and> w_sb_head_order_t0 w \<le> 0x00FF \<and> \<not> w_sb_head_committed_t0 w"

definition replay_class :: "(issue_key \<times> nat) option \<Rightarrow> window_facts \<Rightarrow> (string \<times> string list) option" where
  "replay_class top_replay w =
     (case top_replay of
        None \<Rightarrow> None
      | Some ((_, _, _, _, mem_read, mem_write), _) \<Rightarrow>
          if mem_read \<noteq> 0 \<and> w_sb_hazard_seen w then Some (''load_store_forward_hazard_loop'',
             [''Replay source is a load.'', ''LSU/store-buffer reports load hazard inside the stall window.''])
          else if mem_read \<noteq> 0 \<and> w_m1_resp_seen w \<and> \<not> w_head_complete_seen w then Some (''mem_resp_wakeup_lost'',
             [''Replay source is a load.'', ''M1 responses are observed, but the head entry still does not complete.''])
          else if mem_write \<noteq> 0 \<and> \<not> w_head_complete_seen w then Some (''store_completion_lost'',
             [''Replay source is a store-like MEM issue.'', ''No head completion observed after repeated MEM activity.''])
          else None)"

definition frontend_stuck :: "window_facts \<Rightarrow> bool" where
  "frontend_stuck w \<longleftrightarrow> w_rob_empty_last w \<and> w_fetch_req_active_last w
     \<and> \<not> w_icache_resp_valid_last w \<and> \<not> w_icache_final_valid_last w"

definition frontend_class :: "window_facts \<Rightarrow> string \<times> string list" where
  "frontend_class w =
     (let reasons = [''ROB is empty at the terminal sample; retirement is not blocked by an uncleared head entry.'',
          ''IF still has fetch_req_active=1, but inst_memory/icache is not producing resp_valid/final_valid.''] in
      if w_icache_response_stale_last w then (''frontend_stale_fetch_loop'',
        reasons @ [''The terminal fetch response is marked stale by epoch filtering.''])
      else if \<not> w_m0_req_seen w \<and> \<not> w_m0_handshake_seen w \<and> \<not> w_m0_resp_seen w then (''frontend_fetch_request_lost'',
        reasons @ [''No M0 request/response activity is visible in the stall window for the stuck fetch.''])
      else (''frontend_fetch_stall'',
        reasons @ [''M0/fill activity exists in the window, but the final fetch still never completes.'']))"

definition classify ::
  "rob_head \<Rightarrow> (issue_key \<times> nat) option \<Rightarrow> (accept_key \<times> nat) option \<Rightarrow> sample list \<Rightarrow> string \<times> string list" where
  "classify head top_replay top_accept ss =
     (let w = window_facts_of ss in
      if accepted_head_store head top_accept w then (''store_completion_lost'',
        [''ROB head is a store.'', ''LSU repeatedly accepts a store with matching order_id/tag.'',
         ''Head entry never becomes complete inside the stall window.''])
      else if wrapped_order_ids head w then (''order_id_wrap_age_inversion'',
        [''ROB head is an older incomplete store near the 16-bit order_id wrap point.'',
         ''Store-buffer head already points at a much smaller wrapped order_id that is still uncommitted.'',
         ''This is consistent with age comparisons using raw < and > on 16-bit order_ids after wraparound.''])
      else case replay_class top_replay w of
          Some c \<Rightarrow> c
        | None \<Rightarrow>
            if frontend_stuck w then frontend_class w
            else (''unknown_needs_wave'',
              [''No single branch satisfied the fixed classifier.'',
               ''Use the generated CSV plus trace.fst for manual wave review.'']))"

section \<open>Reports\<close>

record replay_payload =
  r_count :: nat
  r_key :: issue_key
  r_instruction :: string

record stall_report =
  classification :: string
  classifier_reasons :: "string list"
  window :: "sample list"
  rob_head :: rob_head
  head_instruction :: string
  top_replay_source :: "replay_payload option"
  top_lsu_accept :: "(accept_key \<times> nat) option"
  histogram :: stall_loop

definition stall_report_of :: "(int \<Rightarrow> int \<Rightarrow> string option) \<Rightarrow> sample list \<Rightarrow> stall_report" where
  "stall_report_of disassemble ss =
     (let head = pick_head (hd ss);
          h = stall_histogram ss;
          top_replay = most_common (replay_hist h);
          top_accept = most_common (accept_hist h);
          verdict = classify head top_replay top_accept ss
      in \<lparr>classification = fst verdict, classifier_reasons = snd verdict, window = ss, rob_head = head,
          head_instruction = d_instruction (decode_instruction disassemble (h_pc head)),
          top_replay_source = map_option (\<lambda>(key, n). \<lparr>r_count = n, r_key = key,
            r_instruction = d_instruction (decode_instruction disassemble (Some (fst key)))\<rparr>) top_replay,
          top_lsu_accept = top_accept, histogram = h\<rparr>)"

datatype stall_error = Bad_Vcd | No_Samples | No_Window

definition analyze_stall ::
  "(int \<Rightarrow> int \<Rightarrow> string option) \<Rightarrow> string list \<Rightarrow> run_summary \<Rightarrow> stall_error + stall_report" where
  "analyze_stall disassemble vcd_lines summary =
     (case parse_vcd_samples vcd_lines of
        None \<Rightarrow> Inl Bad_Vcd
      | Some (ss, _) \<Rightarrow>
          if ss = [] then Inl No_Samples
          else (let stall_samples = choose_stall_window ss summary in
            if stall_samples = [] then Inl No_Window else Inr (stall_report_of disassemble stall_samples)))"

definition str_histogram :: "(int \<times> nat) list \<Rightarrow> string" where
  "str_histogram hist = ''{'' @ join_with '', '' (map (\<lambda>(k, n). str_int k @ '': '' @ dec_str n) (sort_key fst hist)) @ ''}''"

definition head_lines :: "rob_head \<Rightarrow> string \<Rightarrow> string list" where
  "head_lines head instruction =
     [''ROB Head:'', ''  Thread: '' @ dec_str (h_thread head), ''  Valid: '' @ str_bool (or_zero (h_valid head) \<noteq> 0),
      ''  Complete: '' @ str_bool (or_zero (h_complete head) \<noteq> 0), ''  PC: '' @ format_hex (h_pc head),
      ''  OrderId: '' @ str_opt_int (h_order_id head), ''  Tag: '' @ str_opt_int (h_tag head),
      ''  IsStore: '' @ str_bool (or_zero (h_is_store head) \<noteq> 0), ''  Instruction: '' @ instruction]"

definition replay_lines :: "replay_payload option \<Rightarrow> string list" where
  "replay_lines replay =
     (case replay of
        None \<Rightarrow> []
      | Some r \<Rightarrow> (case r_key r of (pc, order_id, tag, tid, mem_read, mem_write) \<Rightarrow>
          [[], ''Replay Source:'', ''  Count: '' @ dec_str (r_count r), ''  PC: '' @ format_hex (Some pc),
           ''  OrderId: '' @ str_int order_id, ''  Tag: '' @ str_int tag, ''  Tid: '' @ str_int tid,
           ''  MemRead: '' @ str_int mem_read, ''  MemWrite: '' @ str_int mem_write, ''  Instruction: '' @ r_instruction r]))"

definition accept_lines :: "(accept_key \<times> nat) option \<Rightarrow> string list" where
  "accept_lines top_accept =
     (case top_accept of
        None \<Rightarrow> []
      | Some ((order_id, tag, tid, addr, wen), n) \<Rightarrow>
          [[], ''Top LSU Accept:'', ''  Count: '' @ dec_str n, ''  OrderId: '' @ str_int order_id, ''  Tag: '' @ str_int tag,
           ''  Tid: '' @ str_int tid, ''  Addr: '' @ format_hex (Some addr), ''  StoreWen: '' @ str_int wen])"

definition state_lines :: "stall_loop \<Rightarrow> string list" where
  "state_lines h =
     [[], ''LSU/StoreBuffer Summary:'', ''  LSUStateHistogram: '' @ str_histogram (lsu_state_hist h),
      ''  PendingValidSeen: '' @ str_bool (pending_valid_seen h),
      ''  PendingOrderIds: '' @ str_int_list (sort (pending_order_ids h)),
      ''  PendingTags: '' @ str_int_list (sort (pending_tags h)),
      ''  PendingAddrs: '' @ str_text_list (map (format_hex \<circ> Some) (sort (pending_addrs h))),
      ''  SbLoadHazardSeen: '' @ str_bool (sb_load_hazard_seen h),
      ''  SbForwardValidSeen: '' @ str_bool (sb_forward_valid_seen h),
      ''  SbHeadOrderIdsT0: '' @ str_int_list (sort (sb_head_order_ids_t0 h)),
      ''  SbHeadAddrsT0: '' @ str_text_list (map (format_hex \<circ> Some) (sort (sb_head_addrs_t0 h))),
      ''  SbHeadCommittedT0Seen: '' @ str_bool (sb_head_committed_t0_seen h),
      ''  M1ReqHandshakes: '' @ dec_str (m1_req_handshake_count h), ''  M1RespCount: '' @ dec_str (m1_resp_count h)]"

definition frontend_lines :: "sample list \<Rightarrow> stall_loop \<Rightarrow> string list" where
  "frontend_lines ss h =
     (let first = hd ss; final = last ss; flags = value_of final ''debug_fetch_if_flags'' in
     [[], ''Front-end Summary:'', ''  RobCountT0Start: '' @ str_int (value_of first ''debug_rob_count_t0''),
      ''  RobCountT0End: '' @ str_int (value_of final ''debug_rob_count_t0''),
      ''  FetchPcPendingStart: '' @ format_hex (Some (value_of first ''debug_fetch_pc_pending'')),
      ''  FetchPcPendingEnd: '' @ format_hex (Some (value_of final ''debug_fetch_pc_pending'')),
      ''  FetchPcOutEnd: '' @ format_hex (Some (value_of final ''debug_fetch_pc_out'')),
      ''  FetchReqActiveEnd: '' @ str_bool (flag_bit 0x80 flags), ''  IcacheRespValidEnd: '' @ str_bool (flag_bit 0x20 flags),
      ''  IcacheFinalValidEnd: '' @ str_bool (flag_bit 0x10 flags), ''  IcacheRespStaleEnd: '' @ str_bool (flag_bit 0x08 flags),
      ''  LastIcStateFlags: 0x'' @ fmt_X_int 2 (value_of final ''debug_ic_state_flags''),
      ''  M0ReqSeen: '' @ str_bool (m0_req_seen h), ''  M0ReqHandshakeCount: '' @ dec_str (m0_req_handshake_count h),
      ''  M0RespCount: '' @ dec_str (m0_resp_count h), ''  LastM0ReqAddr: '' @ format_hex (Some (last_m0_req_addr h))])"

definition write_text_report :: "string \<Rightarrow> string \<Rightarrow> string \<Rightarrow> string \<Rightarrow> stall_report \<Rightarrow> string" where
  "write_text_report trace_path summary_path elf_path csv_path r =
     render_lines
       ([''Classification: '' @ classification r, ''TracePath: '' @ trace_path, ''SummaryPath: '' @ summary_path,
         ''ElfPath: '' @ elf_path, []]
        @ head_lines (rob_head r) (head_instruction r)
        @ replay_lines (top_replay_source r) @ accept_lines (top_lsu_accept r)
        @ state_lines (histogram r) @ frontend_lines (window r) (histogram r)
        @ [[], ''Classifier Reasons:''] @ map (\<lambda>reason. ''  - '' @ reason) (classifier_reasons r)
        @ [[], ''CSV: '' @ csv_path])"

definition sample_field :: "sample \<Rightarrow> string \<Rightarrow> int option" where
  "sample_field s field =
     (if field = ''time'' then Some (s_time s) else if field = ''cycle'' then Some (int (s_cycle s)) else s_signals s field)"

definition hex_field :: "string \<Rightarrow> bool" where
  "hex_field field \<longleftrightarrow> contains_text ''addr'' (py_lower field) \<or> suffix ''_pc'' field \<or> suffix ''_data'' field \<or> suffix ''_tag'' field"

definition csv_value :: "sample \<Rightarrow> string \<Rightarrow> string" where
  "csv_value s field =
     (case sample_field s field of
        None \<Rightarrow> []
      | Some v \<Rightarrow> if hex_field field then ''0x'' @ fmt_X_int 0 v else str_int v)"

text \<open>The rows of \<^verbatim>\<open>csv.DictWriter\<close>; no field needs quoting.\<close>

definition csv_row :: "string list \<Rightarrow> string" where
  "csv_row cells = join_with '','' cells @ [CHR 0x0D, CHR 0x0A]"

definition write_csv :: "sample list \<Rightarrow> string" where
  "write_csv ss = csv_row CSV_FIELDS @ concat (map (\<lambda>s. csv_row (map (csv_value s) CSV_FIELDS)) ss)"

section \<open>The window\<close>

lemma from_cycle_drop:
  "map s_cycle ss = [Suc n..<Suc (n + length ss)] \<Longrightarrow> from_cycle start ss = drop (nat (start - 1 - int n)) ss"
proof (induction ss arbitrary: n)
  case Nil
  then show ?case by (simp add: from_cycle_def)
next
  case (Cons s ss)
  have s: "s_cycle s = Suc n" and ss: "map s_cycle ss = [Suc (Suc n)..<Suc (Suc n + length ss)]"
    using Cons.prems by (simp_all add: upt_conv_Cons del: upt_Suc)
  show ?case
  proof (cases "start \<le> int (Suc n)")
    case True
    have "filter (\<lambda>s. start \<le> int (s_cycle s)) ss = ss"
    proof (rule filter_True, rule ballI)
      fix x assume "x \<in> set ss"
      then have "s_cycle x \<in> set [Suc (Suc n)..<Suc (Suc n + length ss)]"
        using ss by (metis image_eqI image_set)
      then show "start \<le> int (s_cycle x)"
        using True by auto
    qed
    then show ?thesis
      using True s by (simp add: from_cycle_def)
  next
    case False
    then have "nat (start - 1 - int n) = Suc (nat (start - 1 - int (Suc n)))"
      by simp
    with False show ?thesis
      using Cons.IH [OF ss] s by (simp add: from_cycle_def)
  qed
qed

lemma first_window_nonempty: "ss \<noteq> [] \<Longrightarrow> first_window choices ss \<noteq> []"
  by (induction choices ss rule: first_window.induct) auto

lemma first_window_subseq:
  "\<forall>c \<in> set choices. subseq (snd c) ss \<Longrightarrow> subseq (first_window choices ss) ss"
  by (induction choices ss rule: first_window.induct) auto

lemma choose_stall_window_subseq: "subseq (choose_stall_window ss summary) ss"
  unfolding choose_stall_window_def Let_def
  by (rule first_window_subseq) (auto simp: from_cycle_def subseq_filter_left)

lemma choose_stall_window_nonempty: "ss \<noteq> [] \<Longrightarrow> choose_stall_window ss summary \<noteq> []"
  unfolding choose_stall_window_def Let_def by (rule first_window_nonempty)

text \<open>The first cycle of the window by the last retired instruction, in the numbering of the trace.\<close>

definition instret_start :: "run_summary \<Rightarrow> int" where
  "instret_start summary =
     max 0 (localize_cycle (summary_int summary ''TraceStartCycle'') (summary_int summary ''LastInstretProgressCycle'') - 4096)"


section \<open>The histograms\<close>

definition issues :: "issue_key \<Rightarrow> sample list \<Rightarrow> nat" where
  "issues k ss = length (filter (\<lambda>s. on ''debug_mem_iss_valid'' s \<and> event_key_from_sample s = k) ss)"

definition hist_count :: "('k \<times> nat) list \<Rightarrow> 'k \<Rightarrow> nat" where
  "hist_count hist k = (case map_of hist k of None \<Rightarrow> 0 | Some n \<Rightarrow> n)"

definition good_hist :: "('k \<times> nat) list \<Rightarrow> bool" where
  "good_hist hist \<longleftrightarrow> distinct (map fst hist) \<and> (\<forall>e \<in> set hist. 0 < snd e)"

lemma hist_count_key: "hist_count (count_key k hist) j = hist_count hist j + (if j = k then 1 else 0)"
  by (simp add: hist_count_def count_key_def update_conv')

lemma good_count_key: "good_hist hist \<Longrightarrow> good_hist (count_key k hist)"
  by (auto simp: good_hist_def count_key_def distinct_update dest!: in_update_cases)

lemma replay_hist_step: "replay_hist (stall_step s l) =
    (if on ''debug_mem_iss_valid'' s then count_key (event_key_from_sample s) (replay_hist l) else replay_hist l)"
  by (simp add: stall_step_def Let_def)

lemma replay_hist_fold:
  "good_hist (replay_hist l) \<Longrightarrow>
     good_hist (replay_hist (fold stall_step ss l))
     \<and> hist_count (replay_hist (fold stall_step ss l)) k = hist_count (replay_hist l) k + issues k ss"
  by (induction ss arbitrary: l) (simp_all add: replay_hist_step good_count_key hist_count_key issues_def)

lemma most_common_Some:
  assumes "good_hist hist" and "most_common hist = Some (k, n)"
  shows "0 < n \<and> hist_count hist k = n \<and> (\<forall>j. hist_count hist j \<le> n)"
proof -
  have m: "(k, n) \<in> set hist" "\<forall>x \<in> set hist. snd x \<le> n"
    using max_by_Some [of snd hist "(k, n)"] assms(2) by (auto simp: most_common_def)
  then have "map_of hist k = Some n" and "0 < n"
    using assms(1) by (auto simp: good_hist_def)
  moreover have "hist_count hist j \<le> n" for j
    using m(2) map_of_SomeD [of hist j] by (cases "map_of hist j") (auto simp: hist_count_def)
  ultimately show ?thesis
    by (simp add: hist_count_def)
qed

text \<open>The replay source of a report is the memory instruction issued most often in the window, with
  the number of its issues; there is none exactly when nothing was issued.\<close>

theorem replay_source_is_most_frequent:
  "case top_replay_source (stall_report_of disassemble ss) of
     None \<Rightarrow> list_all (\<lambda>s. \<not> on ''debug_mem_iss_valid'' s) ss
   | Some r \<Rightarrow> 0 < r_count r \<and> r_count r = issues (r_key r) ss \<and> (\<forall>key. issues key ss \<le> r_count r)"
proof -
  let ?h = "replay_hist (stall_histogram ss)"
  have hist: "good_hist ?h" "hist_count ?h k = issues k ss" for k
    using replay_hist_fold [of stall_loop_init ss k]
    by (simp_all add: stall_histogram_def stall_loop_init_def good_hist_def hist_count_def)
  show ?thesis
  proof (cases "most_common ?h")
    case None
    then have "?h = []"
      by (simp add: most_common_def max_by_None)
    then have "issues k ss = 0" for k
      using hist(2) [of k] by (simp add: hist_count_def)
    then have "on ''debug_mem_iss_valid'' s \<Longrightarrow> s \<notin> set ss" for s
      by (simp add: issues_def filter_empty_conv) blast
    then have "list_all (\<lambda>s. \<not> on ''debug_mem_iss_valid'' s) ss"
      by (auto simp: list_all_iff)
    with None show ?thesis
      by (simp add: stall_report_of_def Let_def)
  next
    case (Some top)
    then show ?thesis
      using most_common_Some [OF hist(1), of "fst top" "snd top"] hist(2)
      by (simp add: stall_report_of_def Let_def split_beta)
  qed
qed

section \<open>The two passes over the window agree\<close>

lemma step_flags:
  "sb_load_hazard_seen (stall_step s l) = (on ''debug_lsu_sb_load_hazard'' s \<or> sb_load_hazard_seen l)"
  "m0_req_seen (stall_step s l) = (on ''debug_m0_req_valid'' s \<or> m0_req_seen l)"
  "(0 < m1_resp_count (stall_step s l)) = (on ''debug_m1_resp_valid'' s \<or> 0 < m1_resp_count l)"
  "(0 < m0_resp_count (stall_step s l)) = (on ''debug_m0_resp_valid'' s \<or> 0 < m0_resp_count l)"
  "(0 < m0_req_handshake_count (stall_step s l)) =
     (on ''debug_m0_req_valid'' s \<and> on ''debug_m0_req_ready'' s \<or> 0 < m0_req_handshake_count l)"
  by (auto simp: stall_step_def Let_def count_if_def)

lemma fold_flag:
  assumes "\<And>s l. flag (f s l) = (p s \<or> flag l)"
  shows "flag (fold f ss l) = (flag l \<or> list_ex p ss)"
  by (induction ss arbitrary: l) (auto simp: assms)

lemma histogram_flags:
  "sb_load_hazard_seen (stall_histogram ss) = w_sb_hazard_seen (window_facts_of ss)"
  "m0_req_seen (stall_histogram ss) = w_m0_req_seen (window_facts_of ss)"
  "(0 < m1_resp_count (stall_histogram ss)) = w_m1_resp_seen (window_facts_of ss)"
  "(0 < m0_resp_count (stall_histogram ss)) = w_m0_resp_seen (window_facts_of ss)"
  "(0 < m0_req_handshake_count (stall_histogram ss)) = w_m0_handshake_seen (window_facts_of ss)"
  unfolding stall_histogram_def window_facts_of_def Let_def window_facts.simps
  by (subst fold_flag, rule step_flags, simp add: stall_loop_init_def)+

lemma report_parts:
  "histogram (stall_report_of disassemble ss) = stall_histogram ss"
  "window (stall_report_of disassemble ss) = ss"
  "(classification (stall_report_of disassemble ss), classifier_reasons (stall_report_of disassemble ss)) =
     classify (pick_head (hd ss)) (most_common (replay_hist (stall_histogram ss)))
       (most_common (accept_hist (stall_histogram ss))) ss"
  by (simp_all add: stall_report_of_def Let_def)

text \<open>What a verdict of the classifier says.\<close>

lemma classify_cases:
  "fst (classify head r a ss) \<in> {''store_completion_lost'', ''order_id_wrap_age_inversion'',
     ''load_store_forward_hazard_loop'', ''mem_resp_wakeup_lost'', ''frontend_stale_fetch_loop'',
     ''frontend_fetch_request_lost'', ''frontend_fetch_stall'', ''unknown_needs_wave''}"
  by (auto simp: classify_def replay_class_def frontend_class_def Let_def split: option.splits)

lemma replay_class_names:
  "replay_class r w = Some c \<Longrightarrow> fst c \<noteq> ''frontend_fetch_request_lost'' \<and> fst c \<noteq> ''order_id_wrap_age_inversion''"
  by (auto simp: replay_class_def split: option.splits if_splits)

lemma classify_fetch_lost:
  assumes "fst (classify head r a ss) = ''frontend_fetch_request_lost''"
  shows "frontend_stuck (window_facts_of ss) \<and> \<not> w_m0_req_seen (window_facts_of ss)
    \<and> \<not> w_m0_handshake_seen (window_facts_of ss) \<and> \<not> w_m0_resp_seen (window_facts_of ss)
    \<and> \<not> w_icache_response_stale_last (window_facts_of ss)"
  using assms replay_class_names
  by (fastforce simp: classify_def frontend_class_def Let_def split: option.splits if_splits)

lemma classify_store_lost:
  assumes "fst (classify head r a ss) = ''store_completion_lost''"
  shows "\<not> w_head_complete_seen (window_facts_of ss)"
  using assms
  by (auto simp: classify_def accepted_head_store_def replay_class_def frontend_class_def Let_def split: option.splits if_splits)

text \<open>The counters of the report and the facts the classifier computes on its own from the same window
  agree: seen responses and handshakes are the ones counted.\<close>

theorem report_agrees_with_classifier:
  "(let h = histogram (stall_report_of disassemble ss); w = window_facts_of ss in
     sb_load_hazard_seen h = w_sb_hazard_seen w \<and> m0_req_seen h = w_m0_req_seen w
     \<and> (0 < m1_resp_count h) = w_m1_resp_seen w \<and> (0 < m0_resp_count h) = w_m0_resp_seen w
     \<and> (0 < m0_req_handshake_count h) = w_m0_handshake_seen w)"
  by (simp add: report_parts histogram_flags)

text \<open>The verdict that a fetch request was lost is only given when the report shows it: no request,
  handshake or response of the instruction port in the window, and at its end an empty reorder buffer
  with a fetch still active and no cache response.\<close>

theorem fetch_lost_verdict:
  assumes "analyze_stall disassemble vcd_lines summary = Inr r" and "classification r = ''frontend_fetch_request_lost''"
  shows "\<not> m0_req_seen (histogram r) \<and> m0_req_handshake_count (histogram r) = 0 \<and> m0_resp_count (histogram r) = 0
    \<and> \<not> on ''debug_rob_head_valid_t0'' (last (window r)) \<and> value_of (last (window r)) ''debug_rob_count_t0'' = 0
    \<and> flag_bit 0x80 (value_of (last (window r)) ''debug_fetch_if_flags'')
    \<and> \<not> flag_bit 0x20 (value_of (last (window r)) ''debug_fetch_if_flags'')"
proof -
  obtain ss where r: "r = stall_report_of disassemble ss"
    using assms(1) by (auto simp: analyze_stall_def Let_def split: option.splits if_splits)
  have "fst (classify (pick_head (hd ss)) (most_common (replay_hist (stall_histogram ss)))
      (most_common (accept_hist (stall_histogram ss))) ss) = ''frontend_fetch_request_lost''"
    using assms(2) report_parts(3) [of disassemble ss] unfolding r by (metis fst_conv)
  from classify_fetch_lost [OF this] histogram_flags(2,4,5) [of ss] show ?thesis
    by (simp add: r report_parts frontend_stuck_def window_facts_of_def Let_def)
qed

section \<open>A blind spot of the classifier\<close>

definition set_signal :: "string \<Rightarrow> (sample \<Rightarrow> int option) \<Rightarrow> sample \<Rightarrow> sample" where
  "set_signal x f s = s\<lparr>s_signals := (s_signals s)(x := f s)\<rparr>"

lemma on_set_signal: "x \<noteq> y \<Longrightarrow> on y (set_signal x f s) = on y s"
  and value_set_signal: "x \<noteq> y \<Longrightarrow> value_of (set_signal x f s) y = value_of s y"
  by (simp_all add: on_def value_of_def set_signal_def)

lemma list_ex_map: "list_ex p (map f xs) = list_ex (p \<circ> f) xs"
  by (induction xs) simp_all

text \<open>The classifier looks for completion of the head in the signals of thread 0 only: a head of thread 1
  that is reported complete in every sample of the window is judged as if it never completed.\<close>

theorem thread1_completion_ignored:
  "classify head top_replay top_accept (map (set_signal ''debug_rob_head_complete_t1'' f) ss)
   = classify head top_replay top_accept ss"
proof -
  have "window_facts_of (map (set_signal ''debug_rob_head_complete_t1'' f) ss) = window_facts_of ss"
    by (cases ss rule: rev_cases)
      (simp_all add: window_facts_of_def Let_def list_ex_map comp_def on_set_signal value_set_signal)
  then show ?thesis
    by (simp add: classify_def)
qed

section \<open>A small trace\<close>

lemma sample_list_values:
  "length sample_list = 2" "sample_list \<noteq> []"
  "s \<in> set sample_list \<Longrightarrow> s_signals s = wave_value (signal_to_id sample_header_state) [''!'' \<mapsto> Some 1, ''q'' \<mapsto> Some 128]"
  by (auto simp: sample_list_def)


theorem fetch_lost_verdict_witness:
  "\<exists>r. analyze_stall (\<lambda>_ _. None) (sample_header @ sample_end # sample_body) Map.empty = Inr r
     \<and> m0_resp_count (histogram r) = 0 \<and> flag_bit 0x80 (value_of (last (window r)) ''debug_fetch_if_flags'')"
proof -
  let ?r = "stall_report_of (\<lambda>_ _. None) sample_list"
  have "analyze_stall (\<lambda>_ _. None) (sample_header @ sample_end # sample_body) Map.empty = Inr ?r"
    by (simp add: analyze_stall_def sample_dump_parsed sample_list_values(2) choose_stall_window_def summary_int_def Let_def)
  moreover have "classification ?r = ''frontend_fetch_request_lost''"
    by code_simp
  ultimately show ?thesis
    using fetch_lost_verdict by blast
qed

end
