(* ===== verification/EarlyDrive.thy ===== *)
theory EarlyDrive
  imports LoaderDrive
begin

text \<open>
  \<^verbatim>\<open>drive_uart_loader_early_audit\<close>: the exchange that watches the first moments of a load.  The header
  goes out once, after a READY frame (of a fresh session, if asked for) and a quiet line, or blindly
  after a second if allowed; then one block of the payload, without retries.  The nested functions are
  the ones of \<^verbatim>\<open>SerialHost\<close> with the early-audit analysis.
\<close>

section \<open>What is sent\<close>

definition EARLY_AUDIT_TRAINING_BYTE :: byte where
  "EARLY_AUDIT_TRAINING_BYTE = 0x55"

record early_options =
  wait_for_fresh_ready_only :: bool
  allow_blind_header_fallback :: bool
  post_jtag_quiet_ms :: int
  header_send_delay_ms :: int
  training_count :: nat

definition early_payload :: "loader_env \<Rightarrow> manifest \<Rightarrow> bytes" where
  "early_payload env m = take (block_bytes (mainline_params env)) (m_payload m)"

definition early_header_wire :: "loader_env \<Rightarrow> early_options \<Rightarrow> manifest \<Rightarrow> bytes" where
  "early_header_wire env opt m =
     (let payload = early_payload env m in
      replicate (training_count opt) EARLY_AUDIT_TRAINING_BYTE
      @ concat (map pack_u32_le [header_magic, m_load_addr m, m_entry m, length payload, checksum32 payload]))"

text \<open>The transfer with its default arguments: no tolerated chunk, and one attempt per block.\<close>

definition early_params :: "loader_env \<Rightarrow> uart_params" where
  "early_params env = (mainline_params env)\<lparr>allow_ack_miss := False, retry_limit := 1\<rparr>"

definition early_callbacks :: "loader_env \<Rightarrow> (early_analysis, 'm) loader_host_scheme uart_host" where
  "early_callbacks env =
     loader_callbacks analyze_loader_early_audit_beacon (payload_ack_timeout_us env) (block_reply_timeout_us env) 50000 False"

section \<open>The state and its steps\<close>

record early_driver = "early_analysis loader_host" +
  ed_sent_header :: bool
  ed_sent_payload :: bool
  ed_header_sent_at :: int
  ed_deadline :: int
  ed_counts :: block_counts

definition early_init :: "int \<Rightarrow> int \<Rightarrow> (nat \<times> bytes) list \<Rightarrow> early_driver" where
  "early_init start capture_us script =
     \<lparr>clock = start, incoming = script, outgoing = [], raw_bytes = [], beacon_filter = new_filter,
      analysis = analyze_loader_early_audit_beacon [], ack_credit = 0, ack_count = 0, pending_block_replies = [],
      host_trace_lines = [], start_time = start, ed_sent_header = False, ed_sent_payload = False,
      ed_header_sent_at = 0, ed_deadline = start + capture_us, ed_counts = block_counts_init\<rparr>"

definition write_header :: "loader_env \<Rightarrow> early_options \<Rightarrow> manifest \<Rightarrow> early_driver \<Rightarrow> early_driver" where
  "write_header env opt m h =
     (let h1 = write_uart_bytes_slow serial (early_header_wire env opt m) (header_byte_delay env) h
      in h1\<lparr>ed_sent_header := True, ed_header_sent_at := clock h1\<rparr>)"

text \<open>What the driver asks of the analysis.\<close>

definition early_ready :: "early_options \<Rightarrow> early_analysis \<Rightarrow> bool" where
  "early_ready opt a \<longleftrightarrow> ea_ready_seen (ean_result a)
     \<and> (\<not> wait_for_fresh_ready_only opt \<or> session_ready_seq (ea_session (ean_result a)) = Some 0)"

definition early_listen ::
  "loader_env \<Rightarrow> early_options \<Rightarrow> manifest \<Rightarrow> int \<Rightarrow> early_driver \<Rightarrow> bool \<times> early_driver" where
  "early_listen env opt m blind_header_deadline h =
     (case ser_read h of (chunk, h1) \<Rightarrow>
        if chunk \<noteq> [] then
          (let h2 = ingest_serial_bytes analyze_loader_early_audit_beacon chunk h1;
               h3 = (if \<not> ed_sent_header h2 \<and> early_ready opt (analysis h2)
                     then write_header env opt m (sleep (header_send_delay_ms opt * 1000)
                            (drain_serial_quiet analyze_loader_early_audit_beacon (max 0 (post_jtag_quiet_ms opt * 1000)) h2))
                     else h2)
           in (ed_sent_payload h3 \<and> ea_summary_seen (ean_result (analysis h3))
               \<or> ea_bad_seen (ean_result (analysis h3)) \<and> ed_sent_header h3, h3))
        else if \<not> ed_sent_header h1 \<and> allow_blind_header_fallback opt \<and> blind_header_deadline \<le> clock h1
        then (False, write_header env opt m h1)
        else (False, h1))"

definition early_payload_due :: "loader_env \<Rightarrow> early_driver \<Rightarrow> bool" where
  "early_payload_due env h \<longleftrightarrow> ed_sent_header h \<and> \<not> ed_sent_payload h
     \<and> (ea_load_start_seen (ean_result (analysis h))
        \<or> ed_header_sent_at h \<noteq> 0 \<and> ed_header_sent_at h + header_to_payload_grace env \<le> clock h)"

definition early_payload_step :: "loader_env \<Rightarrow> manifest \<Rightarrow> int \<Rightarrow> early_driver \<Rightarrow> bool \<times> early_driver" where
  "early_payload_step env m capture_us h =
     (if early_payload_due env h then
        (case send_uart_payload_with_block_checksums serial (early_callbacks env) (early_params env) (early_payload env m)
               (sleep 100000 h) of
           (r, h1) \<Rightarrow>
             let h2 = h1\<lparr>ed_counts := r, ed_sent_payload := True, ed_deadline := max (ed_deadline h1) (clock h1 + capture_us)\<rparr>
             in (payload_ack_timeout r \<or> payload_block_retry_limit_hit r \<or> ea_bad_seen (ean_result (analysis h2)), h2))
      else (False, h))"

definition early_iteration ::
  "loader_env \<Rightarrow> early_options \<Rightarrow> manifest \<Rightarrow> int \<Rightarrow> int \<Rightarrow> early_driver \<Rightarrow> bool \<times> early_driver" where
  "early_iteration env opt m capture_us blind h =
     (case early_listen env opt m blind h of (stop, h1) \<Rightarrow>
        if stop then (True, h1) else early_payload_step env m capture_us h1)"

section \<open>The loop ends\<close>

lemma early_fields:
  assumes "loader_host.more h = loader_host.more h'"
  shows "ed_sent_header h = ed_sent_header h'" and "ed_sent_payload h = ed_sent_payload h'"
    and "ed_header_sent_at h = ed_header_sent_at h'" and "ed_deadline h = ed_deadline h'" and "ed_counts h = ed_counts h'"
  using assms by (cases h; cases h'; simp)+

definition early_moves :: "early_driver \<Rightarrow> early_driver \<Rightarrow> bool" where
  "early_moves h h' \<longleftrightarrow> ed_deadline h' = ed_deadline h \<and> ed_sent_payload h' = ed_sent_payload h
     \<and> (ed_sent_header h \<longrightarrow> ed_sent_header h')
     \<and> (length (incoming h') < length (incoming h)
        \<or> incoming h' = incoming h \<and> clock h + serial_timeout \<le> clock h')"

lemma write_header_effect:
  "\<exists>t. clock h \<le> t \<and> write_header env opt m h = h\<lparr>clock := t, outgoing := outgoing h @ early_header_wire env opt m,
     ed_sent_header := True, ed_header_sent_at := t\<rparr>"
proof -
  obtain t where "clock h \<le> t" "write_uart_bytes_slow serial (early_header_wire env opt m) (header_byte_delay env) h
      = h\<lparr>clock := t, outgoing := outgoing h @ early_header_wire env opt m\<rparr>"
    using slow_write_effect by blast
  then show ?thesis
    by (intro exI [of _ t]) (simp add: write_header_def Let_def)
qed

lemma drain_incoming: "length (incoming (drain_loop an quiet stop h)) \<le> length (incoming h)"
proof (induction stop h rule: poll_induct [where an = "an"])
  case (poll stop h)
  obtain c h1 where rd: "ser_read h = (c, h1)" by (cases "ser_read h")
  have "length (incoming h1) \<le> length (incoming h)"
    using ser_read_progress [OF rd] by auto
  then show ?case
    using poll(1) [OF _ rd] poll(2) rd
    by (subst drain_loop.simps) (fastforce simp: Let_def intro: order.trans)
qed

lemma own_drain: "loader_host.more (drain_serial_quiet an quiet h) = loader_host.more h"
  using own.holds_drain [of h "loader_host.more h" "an" quiet] by simp

lemma own_ingest_read:
  "ser_read h = (c, h1) \<Longrightarrow> loader_host.more (ingest_serial_bytes an c h1) = loader_host.more h"
  by (simp add: more_ingest more_read)

lemma early_listen_moves:
  assumes "early_listen env opt m blind h = (stop, h')"
  shows "early_moves h h'"
proof -
  obtain c h1 where rd: "ser_read h = (c, h1)" by (cases "ser_read h")
  note pr = ser_read_progress [OF rd] and same1 = early_fields [OF more_read [OF rd]]
  show ?thesis
  proof (cases "c = []")
    case True
    have "early_moves h (write_header env opt m h1)"
      using write_header_effect [of h1 env opt m] pr same1 True by (auto simp: early_moves_def)
    moreover have "early_moves h h1"
      using pr same1 True by (auto simp: early_moves_def)
    ultimately show ?thesis
      using assms True rd by (auto simp: early_listen_def split: if_splits)
  next
    case False
    let ?h2 = "ingest_serial_bytes analyze_loader_early_audit_beacon c h1"
    let ?d = "drain_serial_quiet analyze_loader_early_audit_beacon (max 0 (post_jtag_quiet_ms opt * 1000)) ?h2"
    let ?s = "sleep (header_send_delay_ms opt * 1000) ?d"
    have less: "length (incoming h1) < length (incoming h)"
      using pr False by blast
    have more2: "loader_host.more ?h2 = loader_host.more h"
      using own_ingest_read [OF rd] .
    have "loader_host.more ?s = loader_host.more h" "length (incoming ?s) \<le> length (incoming h1)"
      using more2 drain_incoming [of analyze_loader_early_audit_beacon _ _ ?h2]
      by (simp_all add: own_drain) (simp add: drain_serial_quiet_def)
    then have "early_moves h (write_header env opt m ?s)"
      using write_header_effect [of ?s env opt m] early_fields [of ?s h] less by (auto simp: early_moves_def)
    moreover have "early_moves h ?h2"
      using early_fields [OF more2] less by (simp add: early_moves_def)
    ultimately show ?thesis
      using assms False rd by (auto simp: early_listen_def Let_def)
  qed
qed

lemma early_iteration_progress:
  assumes "early_iteration env opt m capture_us blind h = (False, h')"
  shows "early_moves h h' \<or> (ed_sent_payload h' \<and> \<not> ed_sent_payload h)"
proof -
  obtain h1 where ls: "early_listen env opt m blind h = (False, h1)" and ps: "early_payload_step env m capture_us h1 = (False, h')"
    using assms by (auto simp: early_iteration_def split: prod.splits if_splits)
  note mv = early_listen_moves [OF ls]
  show ?thesis
  proof (cases "early_payload_due env h1")
    case True
    then have "\<not> ed_sent_payload h"
      using mv by (simp add: early_payload_due_def early_moves_def)
    moreover have "ed_sent_payload h'"
      using True ps by (auto simp: early_payload_step_def Let_def split: prod.splits)
    ultimately show ?thesis by blast
  next
    case False
    with ps mv show ?thesis
      by (simp add: early_payload_step_def)
  qed
qed

function early_drive_loop ::
  "loader_env \<Rightarrow> early_options \<Rightarrow> manifest \<Rightarrow> int \<Rightarrow> int \<Rightarrow> early_driver \<Rightarrow> early_driver" where
  "early_drive_loop env opt m capture_us blind h =
     (if clock h < ed_deadline h then
        (case early_iteration env opt m capture_us blind h of (stop, h1) \<Rightarrow>
           if stop then h1 else early_drive_loop env opt m capture_us blind h1)
      else h)"
  by pat_completeness auto
termination
proof (relation "measures [\<lambda>(env, opt, m, c, b, h). if ed_sent_payload h then 0 else 1,
    \<lambda>(env, opt, m, c, b, h). length (incoming h), \<lambda>(env, opt, m, c, b, h). time_left (ed_deadline h) h]", goal_cases)
  case (2 env opt m c b h stop h1)
  then have "early_moves h h1 \<or> (ed_sent_payload h1 \<and> \<not> ed_sent_payload h)"
    using early_iteration_progress [of env opt m c b h h1] by simp
  with 2(1) show ?case
    by (auto simp: early_moves_def time_left_def serial_timeout_def)
qed simp

declare early_drive_loop.simps [simp del]

section \<open>The result\<close>

text \<open>
  The returned dict: the counters of the transfer and the last analysis are kept whole, the paths of the
  log files are left out; the last three items are what the files hold.
\<close>

record early_drive_result =
  edr_sent_header :: bool
  edr_sent_payload :: bool
  edr_counts :: block_counts
  edr_ack_count :: nat
  edr_ack_credit_remaining :: nat
  edr_payload_size_bytes :: nat
  edr_analysis :: early_analysis
  edr_capture_bytes :: nat
  edr_text_log :: string
  edr_raw_log :: bytes
  edr_decoded_log :: string

definition early_summary :: "loader_env \<Rightarrow> manifest \<Rightarrow> early_driver \<Rightarrow> early_drive_result" where
  "early_summary env m h =
     (let a = analyze_loader_early_audit_beacon (raw_bytes h)
      in \<lparr>edr_sent_header = ed_sent_header h, edr_sent_payload = ed_sent_payload h, edr_counts = ed_counts h,
          edr_ack_count = ack_count h, edr_ack_credit_remaining = ack_credit h,
          edr_payload_size_bytes = length (early_payload env m), edr_analysis = a,
          edr_capture_bytes = length (raw_bytes h), edr_text_log = latin1_decode (ean_passthrough_bytes a),
          edr_raw_log = raw_bytes h, edr_decoded_log = ea_decoded_text (ean_result a)\<rparr>)"

definition early_final ::
  "loader_env \<Rightarrow> early_options \<Rightarrow> manifest \<Rightarrow> int \<Rightarrow> int \<Rightarrow> (nat \<times> bytes) list \<Rightarrow> early_driver" where
  "early_final env opt m capture_us start script =
     early_drive_loop env opt m capture_us (start + 1000000) (early_init start capture_us script)"

definition drive_uart_loader_early_audit ::
  "loader_env \<Rightarrow> early_options \<Rightarrow> manifest \<Rightarrow> int \<Rightarrow> int \<Rightarrow> (nat \<times> bytes) list \<Rightarrow> early_drive_result" where
  "drive_uart_loader_early_audit env opt m capture_us start script =
     early_summary env m (early_final env opt m capture_us start script)"

text \<open>\<^verbatim>\<open>early_audit_passed\<close> of a result.\<close>

definition early_audit_passed :: "early_drive_result \<Rightarrow> bool" where
  "early_audit_passed r =
     (let e = ean_result (edr_analysis r) in
      ea_ready_seen e \<and> ea_header_magic_ok e \<and> ea_load_start_seen e \<and> ea_first_block_ack_seen e
      \<and> ea_summary_seen e \<and> ea_summary_ok_seen e \<and> \<not> ea_bad_seen e \<and> \<not> ea_bad_magic_seen e
      \<and> \<not> session_start_not_found (ea_session e))"

section \<open>What holds at the head of the loop\<close>

lemma raw_ingest: "raw_bytes (ingest_serial_bytes an c h) = raw_bytes h @ c"
  by (simp add: ingest_serial_bytes_def split_beta fold_ingest_effect)

lemma raw_read: "ser_read h = (c, h1) \<Longrightarrow> raw_bytes h1 = raw_bytes h"
  by (auto simp: ser_read_def split: list.splits)

interpretation seen: listening_writer an "\<lambda>h. prefix p (raw_bytes h)" for an p
  by unfold_locales (auto simp: raw_ingest raw_read prefix_prefix, simp add: sleep_def)

definition early_wire_inv :: "loader_env \<Rightarrow> early_options \<Rightarrow> manifest \<Rightarrow> early_driver \<Rightarrow> bool" where
  "early_wire_inv env opt m h \<longleftrightarrow>
     (\<exists>ws. outgoing h = (if ed_sent_header h then early_header_wire env opt m else []) @ ws
        \<and> (\<not> ed_sent_payload h \<longrightarrow> ws = [])
        \<and> (ed_sent_payload h \<longrightarrow> \<not> payload_ack_timeout (ed_counts h) \<longrightarrow> \<not> payload_block_retry_limit_hit (ed_counts h)
            \<longrightarrow> wire_blocks (early_params env)
                 (map snd (slices (block_bytes (early_params env)) 0 (early_payload env m))) ws))
     \<and> (ed_sent_payload h \<longrightarrow> ed_sent_header h)"

text \<open>Without the blind fallback the header answers a READY the options accept.\<close>

definition early_answers_ready :: "early_options \<Rightarrow> early_driver \<Rightarrow> bool" where
  "early_answers_ready opt h \<longleftrightarrow> allow_blind_header_fallback opt \<or> \<not> ed_sent_header h
     \<or> (\<exists>p. prefix p (raw_bytes h) \<and> early_ready opt (analyze_loader_early_audit_beacon p))"

definition early_inv :: "loader_env \<Rightarrow> early_options \<Rightarrow> manifest \<Rightarrow> early_driver \<Rightarrow> bool" where
  "early_inv env opt m h \<longleftrightarrow> early_wire_inv env opt m h \<and> heard analyze_loader_early_audit_beacon h
     \<and> early_answers_ready opt h"

lemma early_wire_cong:
  "outgoing h' = outgoing h \<Longrightarrow> loader_host.more h' = loader_host.more h \<Longrightarrow>
     early_wire_inv env opt m h \<Longrightarrow> early_wire_inv env opt m h'"
  using early_fields [of h' h] by (simp add: early_wire_inv_def)

lemma early_answers_cong:
  "prefix (raw_bytes h) (raw_bytes h') \<Longrightarrow> loader_host.more h' = loader_host.more h \<Longrightarrow>
     early_answers_ready opt h \<Longrightarrow> early_answers_ready opt h'"
  using early_fields [of h' h] by (auto simp: early_answers_ready_def intro: prefix_order.trans)

lemma early_inv_waits:
  assumes "early_inv env opt m h" and "outgoing h' = outgoing h" and "loader_host.more h' = loader_host.more h"
    and "prefix (raw_bytes h) (raw_bytes h')" and "heard analyze_loader_early_audit_beacon h'"
  shows "early_inv env opt m h'"
  using assms early_wire_cong [of h' h] early_answers_cong [of h h'] by (simp add: early_inv_def)

lemma early_inv_header:
  assumes "early_inv env opt m h" and "\<not> ed_sent_header h"
    and "allow_blind_header_fallback opt \<or> (\<exists>p. prefix p (raw_bytes h) \<and> early_ready opt (analyze_loader_early_audit_beacon p))"
  shows "early_inv env opt m (write_header env opt m h)"
proof -
  obtain t where "write_header env opt m h = h\<lparr>clock := t, outgoing := outgoing h @ early_header_wire env opt m,
     ed_sent_header := True, ed_header_sent_at := t\<rparr>"
    using write_header_effect by blast
  then show ?thesis
    using assms by (auto simp: early_inv_def early_wire_inv_def early_answers_ready_def heard_def)
qed

lemma early_inv_listen:
  assumes "early_listen env opt m blind h = (stop, h')" and inv: "early_inv env opt m h"
  shows "early_inv env opt m h'"
proof -
  obtain c h1 where rd: "ser_read h = (c, h1)" by (cases "ser_read h")
  let ?an = analyze_loader_early_audit_beacon
  have hrd: "heard ?an h"
    using inv by (simp add: early_inv_def)
  have inv1: "early_inv env opt m h1"
    using early_inv_waits [OF inv ser_read_out [OF rd] more_read [OF rd]] raw_read [OF rd] heard_read [OF rd hrd] by simp
  show ?thesis
  proof (cases "c = []")
    case True
    then show ?thesis
      using assms(1) rd inv1 early_inv_header [OF inv1] by (auto simp: early_listen_def split: if_splits)
  next
    case False
    let ?h2 = "ingest_serial_bytes ?an c h1"
    let ?d = "drain_serial_quiet ?an (max 0 (post_jtag_quiet_ms opt * 1000)) ?h2"
    let ?s = "sleep (header_send_delay_ms opt * 1000) ?d"
    have heard2: "heard ?an ?h2"
      using heard_ingest [OF heard_read [OF rd hrd]] .
    have inv2: "early_inv env opt m ?h2"
      using early_inv_waits [OF inv1 _ _ _ heard2] by (simp add: more_ingest raw_ingest)
    have raw: "prefix (raw_bytes ?h2) (raw_bytes ?s)"
      using seen.holds_sleep [OF seen.holds_drain [of "raw_bytes ?h2" ?h2 ?an]] by simp
    have invs: "early_inv env opt m ?s"
    proof (rule early_inv_waits [OF inv2 _ _ raw])
      show "heard ?an ?s"
        by (intro heard.holds_sleep heard.holds_drain heard2)
      show "outgoing ?s = outgoing ?h2"
        using quiet.holds_drain [of ?h2 "outgoing ?h2" ?an] by simp
    qed (simp add: own_drain)
    have "\<exists>p. prefix p (raw_bytes ?s) \<and> early_ready opt (?an p)" if "early_ready opt (analysis ?h2)"
      using that heard2 raw by (auto simp: heard_def)
    moreover have "ed_sent_header ?s = ed_sent_header ?h2"
      by (rule early_fields) (simp add: own_drain)
    ultimately have "early_inv env opt m (write_header env opt m ?s)" if "\<not> ed_sent_header ?h2" "early_ready opt (analysis ?h2)"
      using early_inv_header [OF invs] that by simp
    then show ?thesis
      using assms(1) False rd inv2 by (auto simp: early_listen_def Let_def)
  qed
qed

lemma early_inv_payload:
  assumes "early_payload_step env m cap h = (stop, h')" and inv: "early_inv env opt m h"
    and "0 < chunk_bytes (mainline_params env)"
  shows "early_inv env opt m h'"
proof (cases "early_payload_due env h")
  case False
  with assms show ?thesis by (simp add: early_payload_step_def)
next
  case True
  let ?an = analyze_loader_early_audit_beacon and ?p = "early_params env"
  obtain r h1 where tr: "send_uart_payload_with_block_checksums serial (early_callbacks env) ?p (early_payload env m)
      (sleep 100000 h) = (r, h1)"
    by fastforce
  note trl = tr [unfolded early_callbacks_def]
  have h': "h' = h1\<lparr>ed_counts := r, ed_sent_payload := True, ed_deadline := max (ed_deadline h1) (clock h1 + cap)\<rparr>"
    using True assms(1) tr by (simp add: early_payload_step_def Let_def)
  have chunk: "0 < chunk_bytes ?p"
    using assms(3) by (simp add: early_params_def)
  have hrd: "heard ?an (sleep 100000 h)" and seen: "prefix (raw_bytes h) (raw_bytes (sleep 100000 h))"
    using inv by (auto simp: early_inv_def intro: heard.holds_sleep, simp add: sleep_def)
  have "heard ?an h1" and raw: "prefix (raw_bytes h) (raw_bytes h1)"
    using heard.transfer.keeps_transfer [OF trl hrd] seen.transfer.keeps_transfer [OF trl seen] by simp_all
  then have "heard ?an h'"
    by (simp add: h' heard_def)
  moreover have "loader_host.more h1 = loader_host.more h"
    using own.transfer.keeps_transfer [OF trl refl] by simp
  then have same: "ed_sent_header h1 = ed_sent_header h"
    by (rule early_fields)
  have "early_answers_ready opt h'"
    using inv raw same by (auto simp: h' early_inv_def early_answers_ready_def intro: prefix_order.trans)
  moreover have "early_wire_inv env opt m h'"
  proof -
    have out: "outgoing (sleep 100000 h) = early_header_wire env opt m"
      using inv True by (auto simp: early_inv_def early_wire_inv_def early_payload_due_def)
    have "\<exists>ws. outgoing h1 = early_header_wire env opt m @ ws"
      using wire.appends.keeps_transfer [OF trl, of "early_header_wire env opt m"] out by simp
    moreover have "\<exists>ws. wire_blocks ?p (map snd (slices (block_bytes ?p) 0 (early_payload env m))) ws
        \<and> outgoing h1 = early_header_wire env opt m @ ws"
      if "\<not> payload_ack_timeout r" "\<not> payload_block_retry_limit_hit r"
      using wire.sent_transfer [OF trl chunk that] out by simp
    ultimately show ?thesis
      using True same by (auto simp: h' early_wire_inv_def early_payload_due_def)
  qed
  ultimately show ?thesis
    by (simp add: early_inv_def)
qed

lemma early_inv_loop:
  "early_inv env opt m h \<Longrightarrow> 0 < chunk_bytes (mainline_params env) \<Longrightarrow> early_inv env opt m (early_drive_loop env opt m cap blind h)"
proof (induction env opt m cap blind h rule: early_drive_loop.induct)
  case (1 env opt m cap blind h)
  obtain s1 h1 where ls: "early_listen env opt m blind h = (s1, h1)" by fastforce
  obtain stop h2 where it: "early_iteration env opt m cap blind h = (stop, h2)" by fastforce
  have "early_inv env opt m h2"
    using early_inv_listen [OF ls "1.prems"(1)] early_inv_payload [of env m cap h1 stop h2] it ls "1.prems"(2)
    by (auto simp: early_iteration_def split: if_splits)
  then show ?case
    using "1.IH" [OF _ it [symmetric]] "1.prems" it by (subst early_drive_loop.simps) simp
qed

lemma early_final_inv:
  assumes "0 < chunk_bytes (mainline_params env)"
  shows "early_inv env opt m (early_final env opt m cap start script)"
  unfolding early_final_def
  by (rule early_inv_loop [OF _ assms])
    (simp add: early_inv_def early_wire_inv_def early_answers_ready_def early_init_def heard_def heard_text_def feed_drain
      new_filter_def replies_in_def)

lemma early_result_fields:
  "edr_sent_header (drive_uart_loader_early_audit env opt m cap start script) = ed_sent_header (early_final env opt m cap start script)"
  "edr_sent_payload (drive_uart_loader_early_audit env opt m cap start script) = ed_sent_payload (early_final env opt m cap start script)"
  "edr_counts (drive_uart_loader_early_audit env opt m cap start script) = ed_counts (early_final env opt m cap start script)"
  "edr_raw_log (drive_uart_loader_early_audit env opt m cap start script) = raw_bytes (early_final env opt m cap start script)"
  "edr_ack_count (drive_uart_loader_early_audit env opt m cap start script) = ack_count (early_final env opt m cap start script)"
  "edr_analysis (drive_uart_loader_early_audit env opt m cap start script)
     = analyze_loader_early_audit_beacon (raw_bytes (early_final env opt m cap start script))"
  by (simp_all add: drive_uart_loader_early_audit_def early_summary_def Let_def)

text \<open>C11. The early-audit driver puts the header on the wire at most once, nothing before it, and after it
  only the one block of the payload, written whole with its checksum when the transfer ended well; the
  acknowledges it reports are those of the capture.\<close>

theorem early_drive_writes_once:
  fixes env :: loader_env and opt :: early_options and m :: manifest and cap start :: int and script :: "(nat \<times> bytes) list"
  assumes "0 < chunk_bytes (mainline_params env)"
  defines "h \<equiv> early_final env opt m cap start script"
    and "r \<equiv> drive_uart_loader_early_audit env opt m cap start script"
  shows "\<exists>ws. outgoing h = (if edr_sent_header r then early_header_wire env opt m else []) @ ws
    \<and> (if edr_sent_payload r then edr_sent_header r else ws = [])
    \<and> (if edr_sent_payload r \<and> \<not> payload_ack_timeout (edr_counts r) \<and> \<not> payload_block_retry_limit_hit (edr_counts r)
       then wire_blocks (early_params env) (map snd (slices (block_bytes (early_params env)) 0 (early_payload env m))) ws
       else True)
    \<and> edr_ack_count r = count_list (ean_passthrough_bytes (edr_analysis r)) UART_PAYLOAD_ACK"
proof -
  have inv: "early_inv env opt m h"
    using early_final_inv [OF assms(1)] by (simp add: h_def)
  note res = early_result_fields [of env opt m cap start script, folded h_def r_def]
  have "ean_passthrough_bytes (analyze_loader_early_audit_beacon raw) = heard_text raw" for raw
    by (simp add: analyze_loader_early_audit_beacon_def analyze_early_events_def Let_def
        heard_text_decoder [of _ loader_event_name])
  then have "edr_ack_count r = count_list (ean_passthrough_bytes (edr_analysis r)) UART_PAYLOAD_ACK"
    using inv by (simp add: res early_inv_def heard_def)
  then show ?thesis
    using inv by (auto simp: res early_inv_def early_wire_inv_def)
qed

definition fresh_options :: early_options where
  "fresh_options = \<lparr>wait_for_fresh_ready_only = True, allow_blind_header_fallback = False, post_jtag_quiet_ms = 0,
     header_send_delay_ms = 0, training_count = 0\<rparr>"

theorem early_drive_writes_once_witness:
  "\<exists>ws. outgoing (early_final default_env fresh_options demo_manifest 60000000 7 [(5, [0x42])])
     = (if edr_sent_header (drive_uart_loader_early_audit default_env fresh_options demo_manifest 60000000 7 [(5, [0x42])])
        then early_header_wire default_env fresh_options demo_manifest else []) @ ws"
  using early_drive_writes_once [OF default_chunk, of fresh_options demo_manifest 60000000 7 "[(5, [0x42])]"] by blast

text \<open>Without the blind fallback the early-audit driver never speaks first: when it has sent the header,
  some first part of the capture shows a READY, and the READY of a fresh session (sequence number 0) when
  only that is to be answered.\<close>

theorem early_header_answers_ready:
  assumes "0 < chunk_bytes (mainline_params env)" and "\<not> allow_blind_header_fallback opt"
    and "edr_sent_header (drive_uart_loader_early_audit env opt m cap start script)"
  shows "\<exists>p. prefix p (edr_raw_log (drive_uart_loader_early_audit env opt m cap start script))
    \<and> early_ready opt (analyze_loader_early_audit_beacon p)"
  using early_final_inv [OF assms(1), of opt m cap start script] assms(2,3)
  by (auto simp: early_result_fields early_inv_def early_answers_ready_def)

text \<open>A board that sends one READY frame with sequence number 0 gets the header.\<close>

definition ready_script :: "(nat \<times> bytes) list" where
  "ready_script = [(5, [0xA5, 0, 1, 0, frame_chk 0 1 0])]"

lemma early_payload_step_sent:
  assumes "early_payload_step env m cap h = (stop, h')" and "ed_sent_header h"
  shows "ed_sent_header h'"
proof -
  obtain r h1 where tr: "send_uart_payload_with_block_checksums serial (early_callbacks env) (early_params env)
      (early_payload env m) (sleep 100000 h) = (r, h1)"
    by fastforce
  have "loader_host.more h1 = loader_host.more h"
    using own.transfer.keeps_transfer [OF tr [unfolded early_callbacks_def] refl] by simp
  then have "ed_sent_header h1 = ed_sent_header h"
    by (rule early_fields)
  then show ?thesis
    using assms tr by (auto simp: early_payload_step_def Let_def split: if_splits)
qed

lemma early_drive_loop_sent: "ed_sent_header h \<Longrightarrow> ed_sent_header (early_drive_loop env opt m cap blind h)"
proof (induction env opt m cap blind h rule: early_drive_loop.induct)
  case (1 env opt m cap blind h)
  obtain s1 h1 where ls: "early_listen env opt m blind h = (s1, h1)" by fastforce
  obtain stop h2 where it: "early_iteration env opt m cap blind h = (stop, h2)" by fastforce
  have "ed_sent_header h1"
    using early_listen_moves [OF ls] "1.prems" by (simp add: early_moves_def)
  then have "ed_sent_header h2"
    using it ls early_payload_step_sent [of env m cap h1 stop h2] by (auto simp: early_iteration_def split: if_splits)
  then show ?case
    using "1.IH" [OF _ it [symmetric]] "1.prems" it by (subst early_drive_loop.simps) simp
qed

lemma ready_script_accepted: "early_ready fresh_options (analyze_loader_early_audit_beacon (snd (hd ready_script)))"
  by code_simp

lemma ready_script_sends: "edr_sent_header (drive_uart_loader_early_audit default_env fresh_options demo_manifest 1 7 ready_script)"
proof -
  let ?h = "early_init 7 1 ready_script"
  let ?h1 = "ingest_serial_bytes analyze_loader_early_audit_beacon (snd (hd ready_script)) (?h\<lparr>clock := 12, incoming := []\<rparr>)"
  have rd: "ser_read ?h = (snd (hd ready_script), ?h\<lparr>clock := 12, incoming := []\<rparr>)"
    by (simp add: ser_read_def early_init_def ready_script_def)
  have "analysis ?h1 = analyze_loader_early_audit_beacon (snd (hd ready_script))"
    by (simp add: ingest_serial_bytes_def ready_script_def split_beta fold_ingest_effect early_init_def)
  moreover have "ed_sent_header ?h1 = ed_sent_header ?h"
    by (rule early_fields) (simp add: more_ingest)
  moreover have "\<not> ed_sent_header ?h" "snd (hd ready_script) \<noteq> []"
    by (simp_all add: early_init_def ready_script_def)
  ultimately obtain stop h2 where ls: "early_listen default_env fresh_options demo_manifest (7 + 1000000) ?h = (stop, h2)"
    and sent: "ed_sent_header h2"
    using ready_script_accepted by (simp add: early_listen_def rd Let_def write_header_def)
  obtain stop' h3 where it: "early_iteration default_env fresh_options demo_manifest 1 (7 + 1000000) ?h = (stop', h3)"
    by fastforce
  have "ed_sent_header h3"
    using it ls sent early_payload_step_sent [of default_env demo_manifest 1 h2 stop' h3]
    by (auto simp: early_iteration_def split: if_splits)
  moreover have "clock ?h < ed_deadline ?h"
    by (simp add: early_init_def)
  ultimately have "ed_sent_header (early_final default_env fresh_options demo_manifest 1 7 ready_script)"
    using it early_drive_loop_sent by (simp add: early_final_def early_drive_loop.simps [of _ _ _ _ _ ?h])
  then show ?thesis
    by (simp add: early_result_fields)
qed

theorem early_header_answers_ready_witness:
  "\<exists>p. prefix p (edr_raw_log (drive_uart_loader_early_audit default_env fresh_options demo_manifest 1 7 ready_script))
    \<and> early_ready fresh_options (analyze_loader_early_audit_beacon p)"
  by (rule early_header_answers_ready [OF default_chunk _ ready_script_sends]) (simp add: fresh_options_def)

end
