(* ===== verification/Capture.thy ===== *)
theory Capture
  imports SerialHost LogScan Step2
begin

text \<open>
  The captures of \<^verbatim>\<open>run_fpga_benchmark_ddr3.py\<close> that only listen: the bridge audit, the bridge steps, the
  step-2 test and the beacon self-test.  Each reads until the time is up or the verdict on everything
  read so far is final.  They are one loop, with the verdict of the text as its parameter; the port and
  the clock are the script of reads of the serial host, taken from the moment the buffers are reset.
\<close>

section \<open>The loop\<close>

text \<open>The bytes read and what the last verdict on them was.\<close>

record 'a stream_capture = port +
  captured :: bytes
  seen :: 'a

definition capture_init :: "'a \<Rightarrow> int \<Rightarrow> (nat \<times> bytes) list \<Rightarrow> 'a stream_capture" where
  "capture_init nothing start script =
     \<lparr>clock = start, incoming = script, outgoing = [], captured = [], seen = nothing\<rparr>"

definition capture_chunk :: "(bytes \<Rightarrow> 'a) \<Rightarrow> bytes \<Rightarrow> 'a stream_capture \<Rightarrow> 'a stream_capture" where
  "capture_chunk scan chunk h = h\<lparr>captured := captured h @ chunk, seen := scan (captured h @ chunk)\<rparr>"

lemma capture_chunk_port [simp]:
  "clock (capture_chunk scan c h) = clock h" "incoming (capture_chunk scan c h) = incoming h"
  "captured (capture_chunk scan c h) = captured h @ c" "seen (capture_chunk scan c h) = scan (captured h @ c)"
  by (simp_all add: capture_chunk_def)

function capture_loop :: "(bytes \<Rightarrow> 'a) \<Rightarrow> ('a \<Rightarrow> bool) \<Rightarrow> int \<Rightarrow> 'a stream_capture \<Rightarrow> 'a stream_capture" where
  "capture_loop scan final end_time h =
     (if clock h < end_time then
        (case ser_read h of (chunk, h1) \<Rightarrow>
           if chunk \<noteq> [] then
             (let h2 = capture_chunk scan chunk h1
              in if final (seen h2) then h2 else capture_loop scan final end_time h2)
           else capture_loop scan final end_time (sleep 1000 h1))
      else h)"
  by pat_completeness auto
termination
proof (relation "measures [\<lambda>(sc, f, t, h). length (incoming h), \<lambda>(sc, f, t, h). time_left t h]", goal_cases)
  case (2 sc f t h c h1 h2)
  then show ?case using poll_chunk [of c h1 h] by simp
next
  case (3 sc f t h c h1)
  then show ?case using poll_silent [of h1 h t 1000] by auto
qed simp

declare capture_loop.simps [simp del]

section \<open>What a capture holds\<close>

lemma ser_read_script:
  assumes "ser_read h = (c, h1)"
  shows "(incoming h = [] \<and> c = [] \<and> h1 = h\<lparr>clock := clock h + serial_timeout\<rparr>)
    \<or> (\<exists>dt. incoming h = (dt, c) # incoming h1 \<and> h1 = h\<lparr>clock := clock h + int dt, incoming := incoming h1\<rparr>)"
  using assms by (auto simp: ser_read_def split: list.splits)

text \<open>What has been read after each of the reads that bring something.\<close>

fun cuts :: "bytes \<Rightarrow> (nat \<times> bytes) list \<Rightarrow> bytes list" where
  "cuts before [] = []"
| "cuts before ((dt, c) # script) = (if c = [] then cuts before script else (before @ c) # cuts (before @ c) script)"

text \<open>
  Where a capture stops: it holds what the first reads brought, no earlier cut of the reads had a final
  verdict, and it ended with a final verdict or with the time up.
\<close>

definition stops_first :: "(bytes \<Rightarrow> 'a) \<Rightarrow> ('a \<Rightarrow> bool) \<Rightarrow> int \<Rightarrow> bytes \<Rightarrow> (nat \<times> bytes) list \<Rightarrow> 'a stream_capture \<Rightarrow> bool" where
  "stops_first scan final end_time before script h \<longleftrightarrow>
     (\<exists>pre. prefix pre (cuts before script) \<and> captured h = last (before # pre)
        \<and> list_all (\<lambda>x. \<not> final (scan x)) (butlast pre))
     \<and> (end_time \<le> clock h \<or> final (seen h))"

lemma stops_first_skip:
  "stops_first scan final t before script h \<Longrightarrow> stops_first scan final t before ((dt, []) # script) h"
  by (simp add: stops_first_def)

lemma stops_first_next:
  assumes "stops_first scan final t (before @ c) script h" and "\<not> final (scan (before @ c))" and "c \<noteq> []"
  shows "stops_first scan final t before ((dt, c) # script) h"
proof -
  obtain pre where "prefix pre (cuts (before @ c) script)" "captured h = last ((before @ c) # pre)"
    "list_all (\<lambda>x. \<not> final (scan x)) (butlast pre)" "t \<le> clock h \<or> final (seen h)"
    using assms(1) unfolding stops_first_def by blast
  with assms(2,3) show ?thesis
    unfolding stops_first_def by (intro conjI exI [of _ "(before @ c) # pre"]) auto
qed

lemma stops_first_now:
  "captured h = before \<Longrightarrow> t \<le> clock h \<or> final (seen h) \<Longrightarrow> stops_first scan final t before script h"
  unfolding stops_first_def by (intro conjI exI [of _ "[]"]) auto

lemma stops_first_read:
  "captured h = before @ c \<Longrightarrow> c \<noteq> [] \<Longrightarrow> final (seen h) \<Longrightarrow> stops_first scan final t before ((dt, c) # script) h"
  unfolding stops_first_def by (intro conjI exI [of _ "[before @ c]"]) auto

text \<open>The recursion of the loop, with the reads spelled out.\<close>

lemma capture_loop_cases [case_names over silent idle chunk]:
  assumes "t \<le> clock h \<Longrightarrow> capture_loop scan final t h = h \<Longrightarrow> P"
    and "\<And>h1. clock h < t \<Longrightarrow> incoming h = [] \<Longrightarrow> h1 = sleep 1000 (h\<lparr>clock := clock h + serial_timeout\<rparr>) \<Longrightarrow>
      capture_loop scan final t h = capture_loop scan final t h1 \<Longrightarrow> P"
    and "\<And>dt rest h1. clock h < t \<Longrightarrow> incoming h = (dt, []) # rest \<Longrightarrow>
      h1 = sleep 1000 (h\<lparr>clock := clock h + int dt, incoming := rest\<rparr>) \<Longrightarrow>
      capture_loop scan final t h = capture_loop scan final t h1 \<Longrightarrow> P"
    and "\<And>dt c rest h1. clock h < t \<Longrightarrow> incoming h = (dt, c) # rest \<Longrightarrow> c \<noteq> [] \<Longrightarrow>
      h1 = capture_chunk scan c (h\<lparr>clock := clock h + int dt, incoming := rest\<rparr>) \<Longrightarrow>
      capture_loop scan final t h = (if final (seen h1) then h1 else capture_loop scan final t h1) \<Longrightarrow> P"
  shows P
proof (cases "clock h < t")
  case False
  with assms(1) show ?thesis by (simp add: capture_loop.simps)
next
  case now: True
  show ?thesis
  proof (cases "incoming h")
    case Nil
    with assms(2) [OF now Nil refl] now show ?thesis
      by (simp add: capture_loop.simps [of _ _ _ h] ser_read_def)
  next
    case (Cons r rest)
    obtain dt c where r: "r = (dt, c)" by (cases r)
    show ?thesis
    proof (cases "c = []")
      case True
      with assms(3) [OF now _ refl] now Cons r show ?thesis
        by (simp add: capture_loop.simps [of _ _ _ h] ser_read_def)
    next
      case False
      with assms(4) [OF now _ _ refl] now Cons r show ?thesis
        by (simp add: capture_loop.simps [of _ _ _ h] ser_read_def Let_def)
    qed
  qed
qed

lemma capture_loop_induct [case_names loop]:
  assumes step: "\<And>h. (\<And>h1. length (incoming h1) < length (incoming h) \<Longrightarrow> P h1) \<Longrightarrow>
      (\<And>h1. incoming h1 = incoming h \<Longrightarrow> clock h < t \<Longrightarrow> clock h < clock h1 \<Longrightarrow> P h1) \<Longrightarrow> P (h :: 'a stream_capture)"
  shows "P h"
proof -
  have "wf (measures [\<lambda>h :: 'a stream_capture. length (incoming h), time_left t])"
    by simp
  then show ?thesis
  proof (induction h rule: wf_induct_rule)
    case (less h)
    show ?case
      by (rule step; rule less) (auto simp: time_left_def)
  qed
qed

lemma sleep_captured [simp]: "captured (sleep d h) = captured h" "seen (sleep d h) = seen h"
  by (simp_all add: sleep_def)

lemma sleep_clock: "clock (sleep d h) = clock h + max 0 d"
  by (simp add: sleep_def)

lemma capture_loop_stops_first:
  "stops_first scan final t (captured h) (incoming h) (capture_loop scan final t h)"
proof (induction h rule: capture_loop_induct [where t = t])
  case (loop h)
  show ?case
  proof (cases rule: capture_loop_cases [of t h scan final])
    case over
    then show ?thesis by (simp add: stops_first_now)
  next
    case (silent h1)
    with loop(2) [of h1] show ?thesis by (simp add: serial_timeout_def sleep_clock)
  next
    case (idle dt rest h1)
    with loop(1) [of h1] show ?thesis by (simp add: stops_first_skip)
  next
    case (chunk dt c rest h1)
    with loop(1) [of h1] show ?thesis
      by (simp add: stops_first_read stops_first_next)
  qed
qed

text \<open>The verdict kept is the verdict on the bytes kept.\<close>

lemma capture_loop_seen:
  "seen h = scan (captured h) \<Longrightarrow>
     seen (capture_loop scan final t h) = scan (captured (capture_loop scan final t h))"
proof (induction h rule: capture_loop_induct [where t = t])
  case (loop h)
  show ?case
  proof (cases rule: capture_loop_cases [of t h scan final])
    case over
    with loop(3) show ?thesis by simp
  next
    case (silent h1)
    with loop(2) [of h1] loop(3) show ?thesis by (simp add: serial_timeout_def sleep_clock)
  next
    case (idle dt rest h1)
    with loop(1) [of h1] loop(3) show ?thesis by simp
  next
    case (chunk dt c rest h1)
    with loop(1) [of h1] show ?thesis by simp
  qed
qed

text \<open>How long the reads of a script take, with the pause after an empty one.\<close>

definition script_time :: "(nat \<times> bytes) list \<Rightarrow> int" where
  "script_time script = sum_list (map (\<lambda>(dt, c). int dt + (if c = [] then 1000 else 0)) script)"

lemma script_time_nonneg [simp]: "0 \<le> script_time script"
  unfolding script_time_def by (induction script) auto

lemma capture_loop_arrives:
  assumes "clock h + script_time (incoming h) < t"
  shows "final (seen (capture_loop scan final t h))
    \<or> captured (capture_loop scan final t h) = captured h @ concat (map snd (incoming h))"
  using assms
proof (induction h rule: capture_loop_induct [where t = t])
  case (loop h)
  show ?case
  proof (cases rule: capture_loop_cases [of t h scan final])
    case over
    with loop(3) script_time_nonneg [of "incoming h"] show ?thesis by simp
  next
    case (silent h1)
    have "captured (capture_loop scan final t h') = captured h'" if "incoming h' = []" for h' :: "'a stream_capture"
      using that
    proof (induction h' rule: capture_loop_induct [where t = t])
      case (loop h')
      show ?case
      proof (cases rule: capture_loop_cases [of t h' scan final])
        case (silent h2)
        with loop(2) [of h2] loop(3) show ?thesis by (simp add: serial_timeout_def sleep_clock)
      qed (use loop(3) in simp_all)
    qed
    from this [OF silent(2)] silent(2) show ?thesis by simp
  next
    case (idle dt rest h1)
    with loop(1) [of h1] loop(3) show ?thesis by (simp add: script_time_def sleep_clock)
  next
    case (chunk dt c rest h1)
    with loop(1) [of h1] loop(3) show ?thesis by (auto simp: script_time_def)
  qed
qed

section \<open>The bridge audit\<close>

definition bridge_block_pattern :: "item list" where
  "bridge_block_pattern = [Lit ''BRIDGE BAD BLK='', Run 0 not_newline]"

record bridge_seen =
  bg_ready_seen :: bool
  bg_ok_count :: nat
  bg_saw_bad :: bool
  bg_bad_reason :: string
  bg_last_bad_line :: string

definition bridge_nothing :: bridge_seen where
  "bridge_nothing = \<lparr>bg_ready_seen = False, bg_ok_count = 0, bg_saw_bad = False, bg_bad_reason = ''none'',
     bg_last_bad_line = []\<rparr>"

definition bridge_scan :: "bytes \<Rightarrow> bridge_seen" where
  "bridge_scan text_bytes =
     (let tx = latin1_decode text_bytes;
          now = bridge_nothing\<lparr>bg_ready_seen := contains_text ''BRIDGE READY'' tx, bg_ok_count := count_text ''BRIDGE OK'' tx\<rparr>
      in case last_match bridge_block_pattern tx of
           Some (rest # _) \<Rightarrow> now\<lparr>bg_saw_bad := True, bg_bad_reason := ''bridge_bad_compare'',
             bg_last_bad_line := ''BRIDGE BAD BLK='' @ rest\<rparr>
         | _ \<Rightarrow> now)"

definition bridge_final :: "bridge_seen \<Rightarrow> bool" where
  "bridge_final r \<longleftrightarrow> bg_saw_bad r \<or> 2 \<le> bg_ok_count r"

text \<open>A result with the size of the capture and the log file's text.\<close>

record 'a capture_result =
  cr_seen :: 'a
  cr_capture_bytes :: nat
  cr_log :: string

definition capture_bridge_audit_stream ::
  "int \<Rightarrow> int \<Rightarrow> (nat \<times> bytes) list \<Rightarrow> bridge_seen capture_result" where
  "capture_bridge_audit_stream capture_us start script =
     (let h = capture_loop bridge_scan bridge_final (start + capture_us) (capture_init bridge_nothing start script)
      in \<lparr>cr_seen = seen h, cr_capture_bytes = length (captured h), cr_log = latin1_decode (captured h)\<rparr>)"

section \<open>The bridge steps\<close>

record steps_seen =
  bs_ready_seen :: bool
  bs_step1_pass :: bool
  bs_step2_pass :: bool
  bs_step3_2_pass :: bool
  bs_step3_4_pass :: bool
  bs_step3_pass :: bool
  bs_all_ok_seen :: bool
  bs_saw_bad :: bool
  bs_bad_reason :: string
  bs_bad_detail :: "bridge_bad_report option"

definition steps_nothing :: steps_seen where
  "steps_nothing = \<lparr>bs_ready_seen = False, bs_step1_pass = False, bs_step2_pass = False, bs_step3_2_pass = False,
     bs_step3_4_pass = False, bs_step3_pass = False, bs_all_ok_seen = False, bs_saw_bad = False,
     bs_bad_reason = ''none'', bs_bad_detail = None\<rparr>"

definition steps_scan :: "bytes \<Rightarrow> steps_seen" where
  "steps_scan text_bytes =
     (let tx = latin1_decode text_bytes;
          s32 = contains_text ''BSTEP OK S=3 N=2'' tx; s34 = contains_text ''BSTEP OK S=3 N=4'' tx;
          bad = analyze_bridge_steps_bad_line tx
      in \<lparr>bs_ready_seen = contains_text ''BSTEP READY'' tx,
          bs_step1_pass = contains_text ''BSTEP OK S=1 N=1'' tx,
          bs_step2_pass = contains_text ''BSTEP OK S=2 N=2'' tx,
          bs_step3_2_pass = s32, bs_step3_4_pass = s34, bs_step3_pass = (s32 \<and> s34),
          bs_all_ok_seen = contains_text ''BSTEP ALL OK'' tx,
          bs_saw_bad = (bad \<noteq> None),
          bs_bad_reason = (if bad \<noteq> None then ''bridge_steps_bad'' else ''none''),
          bs_bad_detail = bad\<rparr>)"

definition capture_bridge_audit_steps_stream ::
  "int \<Rightarrow> int \<Rightarrow> (nat \<times> bytes) list \<Rightarrow> steps_seen capture_result" where
  "capture_bridge_audit_steps_stream capture_us start script =
     (let h = capture_loop steps_scan (\<lambda>r. bs_saw_bad r \<or> bs_all_ok_seen r) (start + capture_us)
            (capture_init steps_nothing start script)
      in \<lparr>cr_seen = seen h, cr_capture_bytes = length (captured h), cr_log = latin1_decode (captured h)\<rparr>)"

section \<open>The step-2 test and the beacon self-test\<close>

text \<open>The log of the step-2 test is the raw bytes; the decoded log is the analysis' own text.\<close>

definition capture_step2_only_stream ::
  "int \<Rightarrow> int \<Rightarrow> (nat \<times> bytes) list \<Rightarrow> step2_result capture_result" where
  "capture_step2_only_stream capture_us start script =
     (let h = capture_loop analyze_step2_only_beacon s2_summary_seen (start + capture_us)
            (capture_init (analyze_step2_only_beacon []) start script)
      in \<lparr>cr_seen = analyze_step2_only_beacon (captured h), cr_capture_bytes = length (captured h),
          cr_log = latin1_decode (captured h)\<rparr>)"

text \<open>The items taken from the chosen session are in the analysis; the reason is the result's own.\<close>

record selftest_capture =
  sc_analysis :: selftest_result
  sc_text_log :: string
  sc_decoded_log :: string
  sc_capture_bytes :: nat
  sc_bad_reason :: string

definition finalize_loader_beacon_selftest_capture :: "bytes \<Rightarrow> selftest_capture" where
  "finalize_loader_beacon_selftest_capture raw_blob =
     (let a = analyze_loader_beacon_selftest_beacon raw_blob
      in \<lparr>sc_analysis = a, sc_text_log = latin1_decode (sr_passthrough_bytes a), sc_decoded_log = sr_decoded_text a,
          sc_capture_bytes = length raw_blob,
          sc_bad_reason = (if sr_pass a then ''none'' else sr_session_classification a)\<rparr>)"

definition capture_loader_beacon_selftest_stream ::
  "int \<Rightarrow> int \<Rightarrow> (nat \<times> bytes) list \<Rightarrow> selftest_capture" where
  "capture_loader_beacon_selftest_stream capture_us start script =
     (let h = capture_loop analyze_loader_beacon_selftest_beacon sr_summary_seen (start + capture_us)
            (capture_init (analyze_loader_beacon_selftest_beacon []) start script)
      in finalize_loader_beacon_selftest_capture (captured h))"

section \<open>Cuts of a stream of frames\<close>

text \<open>What a first part of a capture decodes to is a first part of what the capture decodes to.\<close>

lemma decode_part:
  "\<exists>es. dec_events (decode_from nm idx (xs @ ys)) = dec_events (decode_from nm idx xs) @ es
     \<and> dec_bad_frames (decode_from nm idx xs) \<le> dec_bad_frames (decode_from nm idx (xs @ ys))"
proof (induction xs arbitrary: idx rule: stream_induct)
  case (candidate s t a c r)
  then show ?case
    by (cases "c = frame_chk s t a") (fastforce simp: stream_steps decoded_simps)+
qed (auto simp: stream_steps decoded_simps)

lemma remdups_adj_part: "prefix (remdups_adj xs) (remdups_adj (xs @ ys))"
proof (induction ys rule: rev_induct)
  case (snoc y ys)
  have "prefix (remdups_adj (xs @ ys)) (remdups_adj ((xs @ ys) @ [y]))"
    by (cases "xs @ ys = []") (simp_all add: remdups_adj_snoc del: append_assoc append_is_Nil_conv)
  with snoc show ?case
    by (metis append.assoc prefix_order.trans)
qed simp

lemma expected_part:
  assumes "prefix p BEACON_SELFTEST_EXPECTED_SEQUENCE" and "LOADER_EVT_SUMMARY \<in> fst ` set p"
  shows "p = BEACON_SELFTEST_EXPECTED_SEQUENCE"
proof (rule ccontr)
  assume "p \<noteq> BEACON_SELFTEST_EXPECTED_SEQUENCE"
  moreover have "BEACON_SELFTEST_EXPECTED_SEQUENCE
      = butlast BEACON_SELFTEST_EXPECTED_SEQUENCE @ [last BEACON_SELFTEST_EXPECTED_SEQUENCE]"
    by (simp add: BEACON_SELFTEST_EXPECTED_SEQUENCE_def)
  ultimately have "prefix p (butlast BEACON_SELFTEST_EXPECTED_SEQUENCE)"
    using assms(1) by (metis prefix_snoc)
  then have "set p \<subseteq> set (butlast BEACON_SELFTEST_EXPECTED_SEQUENCE)"
    by (rule set_mono_prefix)
  moreover have "LOADER_EVT_SUMMARY \<notin> fst ` set (butlast BEACON_SELFTEST_EXPECTED_SEQUENCE)"
    by code_simp
  ultimately show False
    using assms(2) by blast
qed

lemma pattern_part:
  assumes "selftest_pattern (es @ fs)" and "any_type LOADER_EVT_SUMMARY es"
  shows "selftest_pattern es"
proof -
  let ?p = "remdups_adj (map snd es)"
  have pre: "prefix ?p (remdups_adj (map snd (es @ fs)))"
    by (simp add: remdups_adj_part)
  then have "prefix (map snd ?p) BEACON_SELFTEST_EXPECTED_SEQUENCE"
    using assms(1) by (metis (no_types) map_mono_prefix selftest_pattern_def)
  moreover have "LOADER_EVT_SUMMARY \<in> fst ` set (map snd ?p)"
    using assms(2) by (force simp: any_type_def list_ex_iff image_image)
  ultimately have "map snd ?p = BEACON_SELFTEST_EXPECTED_SEQUENCE"
    by (rule expected_part)
  moreover obtain q where q: "remdups_adj (map snd (es @ fs)) = ?p @ q"
    using pre by (rule prefixE)
  have "distinct (map fst ?p)"
    using assms(1) unfolding selftest_pattern_def Let_def q by simp
  ultimately show ?thesis
    by (simp add: selftest_pattern_def Let_def)
qed

lemma any_type_mono: "any_type t es \<Longrightarrow> set es \<subseteq> set fs \<Longrightarrow> any_type t fs"
  by (auto simp: any_type_def list_ex_iff)

lemma dedup_subset: "set (fst (selftest_dedup S es)) \<subseteq> set es"
  by (induction S es rule: selftest_dedup.induct) auto

lemma collapse_subset: "set (fst (fold collapse_step es (acc, n))) \<subseteq> set acc \<union> set es"
proof (induction es arbitrary: acc n)
  case (Cons e es)
  show ?case
    using Cons [of "acc" "Suc n"] Cons [of "acc @ [e]" n] by (auto simp: collapse_step_def)
qed simp

lemma session_summary_seen:
  "st_summary_seen (summarize_loader_beacon_selftest_session g i) \<Longrightarrow> any_type LOADER_EVT_SUMMARY g"
  using dedup_subset [of "{}" "fst (fold collapse_step g ([], 0))"] collapse_subset [of g "[]" 0]
  by (auto simp: summarize_loader_beacon_selftest_session_def collapse_exact_duplicate_beacon_frames_def Let_def
      split: prod.splits intro: any_type_mono)

lemma sessions_fold_summary:
  "fold selftest_sessions_step es ([], []) = (ss, cur) \<Longrightarrow>
     set cur \<subseteq> set es \<and> (\<forall>x \<in> set ss. st_summary_seen x \<longrightarrow> any_type LOADER_EVT_SUMMARY es)"
proof (induction es arbitrary: ss cur rule: rev_induct)
  case (snoc e es)
  obtain ss' cur' where st: "fold selftest_sessions_step es ([], []) = (ss', cur')" by fastforce
  note IH = snoc.IH [OF st]
  then have cur': "any_type LOADER_EVT_SUMMARY cur' \<Longrightarrow> any_type LOADER_EVT_SUMMARY es"
    using any_type_mono by blast
  have "selftest_sessions_step e (ss', cur') = (ss, cur)"
    using snoc.prems st by simp
  with IH cur' show ?case
    by (auto simp: selftest_sessions_step_def split: if_splits dest: session_summary_seen)
qed simp

lemma summary_seen_event:
  "sr_summary_seen (analyze_loader_beacon_selftest_events es ls bad pt) \<Longrightarrow> any_type LOADER_EVT_SUMMARY es"
proof -
  assume "sr_summary_seen (analyze_loader_beacon_selftest_events es ls bad pt)"
  then obtain x where x: "choose_loader_beacon_selftest_session (build_loader_beacon_selftest_sessions es) = Some x"
    "st_summary_seen x"
    by (auto simp: analyze_loader_beacon_selftest_events_def Let_def split: option.splits)
  from x(1) have "x \<in> set (build_loader_beacon_selftest_sessions es)"
    using max_by_Some by (fastforce simp: choose_loader_beacon_selftest_session_def split: if_splits)
  moreover obtain ss cur where st: "fold selftest_sessions_step es ([], []) = (ss, cur)" by fastforce
  ultimately show ?thesis
    using sessions_fold_summary [OF st] x(2)
    by (auto simp: build_loader_beacon_selftest_sessions_def split: if_splits
        dest!: session_summary_seen intro: any_type_mono)
qed

section \<open>Properties\<close>

lemma capture_final:
  fixes scan :: "bytes \<Rightarrow> 'a" and final :: "'a \<Rightarrow> bool" and t start :: int and script :: "(nat \<times> bytes) list"
  assumes "nothing = scan []"
  defines "h \<equiv> capture_loop scan final t (capture_init nothing start script)"
  shows "seen h = scan (captured h)" and "stops_first scan final t [] script h"
  using capture_loop_seen [of "capture_init nothing start script" scan final t]
    capture_loop_stops_first [of scan final t "capture_init nothing start script"] assms(1)
  by (simp_all add: h_def capture_init_def)

lemma capture_whole:
  fixes scan :: "bytes \<Rightarrow> 'a" and final :: "'a \<Rightarrow> bool" and nothing :: 'a and start capture_us :: int
    and script :: "(nat \<times> bytes) list"
  assumes "script_time script < capture_us"
  defines "h \<equiv> capture_loop scan final (start + capture_us) (capture_init nothing start script)"
  shows "final (seen h) \<or> captured h = concat (map snd script)"
  using capture_loop_arrives [of "capture_init nothing start script" "start + capture_us" final scan] assms(1)
  by (simp add: h_def capture_init_def)

text \<open>A search for \<^verbatim>\<open>token.*\<close>.\<close>

lemma match_line: "match_items [Lit w, Run 0 c] s =
    (if prefix w s then Some ([takeWhile c (drop (length w) s)], dropWhile c (drop (length w) s)) else None)"
  by (simp add: dropWhile_eq_drop Let_def)

lemma findall_line_hit:
  assumes "prefix w s" and "w \<noteq> []"
  shows "findall [Lit w, Run 0 c] s
    = [takeWhile c (drop (length w) s)] # findall [Lit w, Run 0 c] (dropWhile c (drop (length w) s))"
proof -
  obtain x xs where s: "s = x # xs" using assms by (cases s) auto
  obtain k where k: "length w = Suc k" using assms(2) by (cases w) auto
  have "length (dropWhile c (drop (length w) s)) \<le> length xs"
    using length_dropWhile_le [of c "drop (length w) s"] by (simp add: s k)
  with findall_hit [of "[Lit w, Run 0 c]" x xs, folded s, OF match_line [of w c s, unfolded if_P [OF assms(1)]]]
  show ?thesis by simp
qed

lemma findall_line_iff: "w \<noteq> [] \<Longrightarrow> findall [Lit w, Run 0 c] s = [] \<longleftrightarrow> \<not> contains_text w s"
proof (induction s)
  case (Cons x xs)
  then show ?case
    using findall_line_hit [of w "x # xs" c] findall_none [of "[Lit w, Run 0 c]" x xs]
    by (cases "prefix w (x # xs)") (simp_all add: match_line del: match_items.simps)
qed simp

lemma findall_line_caps: "caps \<in> set (findall [Lit w, Run 0 c] s) \<Longrightarrow> \<exists>v. caps = [v]"
proof (induction "[Lit w, Run 0 c]" s rule: findall.induct)
  case (2 x xs)
  then show ?case
    by (auto simp: findall.simps(2) match_line simp del: match_items.simps split: if_splits)
qed simp

lemma last_line:
  "(case last_match [Lit w, Run 0 c] s of Some (rest # _) \<Rightarrow> f rest | _ \<Rightarrow> g)
     = (if findall [Lit w, Run 0 c] s = [] then g else f (hd (last (findall [Lit w, Run 0 c] s))))"
proof (cases "findall [Lit w, Run 0 c] s" rule: rev_cases)
  case (snoc ms m)
  then obtain v where "m = [v]"
    using findall_line_caps [of m w c s] by auto
  with snoc show ?thesis by (simp add: last_match_def)
qed (simp add: last_match_def)

lemma bridge_search [simp]:
  "findall bridge_block_pattern s = [] \<longleftrightarrow> \<not> contains_text ''BRIDGE BAD BLK='' s"
  "(case last_match bridge_block_pattern s of Some (rest # _) \<Rightarrow> f rest | _ \<Rightarrow> g)
     = (if findall bridge_block_pattern s = [] then g else f (hd (last (findall bridge_block_pattern s))))"
  unfolding bridge_block_pattern_def by (rule findall_line_iff, simp) (rule last_line)

lemma bridge_scan_seen:
  "bg_ready_seen (bridge_scan x) = contains_text ''BRIDGE READY'' (latin1_decode x)"
  "bg_ok_count (bridge_scan x) = count_text ''BRIDGE OK'' (latin1_decode x)"
  "bg_saw_bad (bridge_scan x) = contains_text ''BRIDGE BAD BLK='' (latin1_decode x)"
  by (simp_all add: bridge_scan_def Let_def bridge_nothing_def)

lemma bridge_scan_Nil: "bridge_nothing = bridge_scan []"
  by (simp add: bridge_scan_def latin1_decode_def bridge_nothing_def)

text \<open>
  The verdict of a bridge audit is the verdict on its log: a READY, the number of OK lines and a BAD
  line are reported as they stand there, and the log ends with the first read that brought a BAD line or
  the second OK, unless the time was up before.
\<close>

theorem bridge_audit_verdict:
  "let r = capture_bridge_audit_stream capture_us start script; v = cr_seen r in
     bg_ready_seen v = contains_text ''BRIDGE READY'' (cr_log r)
   \<and> bg_ok_count v = count_text ''BRIDGE OK'' (cr_log r)
   \<and> bg_saw_bad v = contains_text ''BRIDGE BAD BLK='' (cr_log r)
   \<and> (\<exists>pre. prefix pre (cuts [] script) \<and> cr_log r = latin1_decode (last ([] # pre))
        \<and> list_all (\<lambda>x. \<not> contains_text ''BRIDGE BAD BLK='' (latin1_decode x)
            \<and> count_text ''BRIDGE OK'' (latin1_decode x) < 2) (butlast pre))"
proof -
  let ?h = "capture_loop bridge_scan bridge_final (start + capture_us) (capture_init bridge_nothing start script)"
  have seen: "seen ?h = bridge_scan (captured ?h)"
    and first: "stops_first bridge_scan bridge_final (start + capture_us) [] script ?h"
    by (rule capture_final, rule bridge_scan_Nil)+
  from first obtain pre where "prefix pre (cuts [] script)" "captured ?h = last ([] # pre)"
    "list_all (\<lambda>x. \<not> bridge_final (bridge_scan x)) (butlast pre)"
    unfolding stops_first_def by blast
  then have "\<exists>pre. prefix pre (cuts [] script) \<and> latin1_decode (captured ?h) = latin1_decode (last ([] # pre))
      \<and> list_all (\<lambda>x. \<not> contains_text ''BRIDGE BAD BLK='' (latin1_decode x)
          \<and> count_text ''BRIDGE OK'' (latin1_decode x) < 2) (butlast pre)"
    by (intro exI [of _ pre]) (auto simp: list_all_iff bridge_final_def bridge_scan_seen not_le)
  with seen show ?thesis
    by (simp add: capture_bridge_audit_stream_def Let_def bridge_scan_seen)
qed

text \<open>One read that brings a final verdict ends the capture.\<close>

lemma capture_first_read:
  assumes "0 < capture_us" and "c \<noteq> []" and "final (scan c)"
  shows "captured (capture_loop scan final (start + capture_us) (capture_init nothing start ((dt, c) # script))) = c"
    and "seen (capture_loop scan final (start + capture_us) (capture_init nothing start ((dt, c) # script))) = scan c"
  using assms by (simp_all add: capture_loop.simps ser_read_def capture_init_def capture_chunk_def)

lemma findall_line_once:
  assumes "list_all c s" and "stops c t" and "\<not> contains_text w t" and "w \<noteq> []"
  shows "findall [Lit w, Run 0 c] (w @ s @ t) = [[s]]"
proof -
  have "takeWhile c (s @ t) = s" "dropWhile c (s @ t) = t"
    using assms(1,2) takeWhile_stops [OF assms(1,2)] by (simp_all add: dropWhile_eq_drop)
  with assms findall_line_hit [of w "w @ s @ t" c] findall_line_iff [of w c t] show ?thesis
    by simp
qed

lemma bridge_line_scan:
  assumes "CHR 0x0A \<notin> set s" and "t \<in> {[], newline}"
  shows "bg_last_bad_line (bridge_scan (latin1_encode (''BRIDGE BAD BLK='' @ s @ t))) = ''BRIDGE BAD BLK='' @ s"
proof -
  have "findall bridge_block_pattern (''BRIDGE BAD BLK='' @ s @ t) = [[s]]"
    unfolding bridge_block_pattern_def using assms
    by (intro findall_line_once) (auto simp: list_all_iff not_newline_def stops_def newline_def)
  then show ?thesis
    unfolding bridge_scan_def Let_def latin1_roundtrip bridge_search(2) by simp
qed

text \<open>
  The BAD line reported can be cut off: when a read ends inside the line, the capture stops there and
  the report holds only the part that had arrived; the same bytes in one read give the whole line.
\<close>

theorem bridge_bad_line_cut:
  assumes "0 < capture_us" and "CHR 0x0A \<notin> set (s @ t)"
  shows "bg_last_bad_line (cr_seen (capture_bridge_audit_stream capture_us start
       [(d, latin1_encode (''BRIDGE BAD BLK='' @ s)), (d', latin1_encode (t @ newline))])) = ''BRIDGE BAD BLK='' @ s
   \<and> bg_last_bad_line (cr_seen (capture_bridge_audit_stream capture_us start
       [(d, latin1_encode (''BRIDGE BAD BLK='' @ s @ t @ newline))])) = ''BRIDGE BAD BLK='' @ s @ t"
proof -
  have bad: "bridge_final (bridge_scan (latin1_encode (''BRIDGE BAD BLK='' @ u)))" for u
    by (simp add: bridge_final_def bridge_scan_seen)
  have ne: "latin1_encode (''BRIDGE BAD BLK='' @ u) \<noteq> []" for u
    by (simp add: latin1_encode_def)
  show ?thesis
    using bridge_line_scan [of s "[]"] bridge_line_scan [of "s @ t" newline] assms(2)
    unfolding capture_bridge_audit_stream_def Let_def capture_result.select_convs
      capture_first_read(2) [where scan = bridge_scan and final = bridge_final, OF assms(1) ne bad]
    by simp
qed

lemma bridge_bad_line_cut_witness:
  "bg_last_bad_line (cr_seen (capture_bridge_audit_stream 1000000 0
       [(10, latin1_encode (''BRIDGE BAD BLK='' @ ''00'')), (20, latin1_encode (''000003'' @ newline))]))
     = ''BRIDGE BAD BLK=00''"
  using bridge_bad_line_cut [of 1000000 "''00''" "''000003''" 0 10 20] by simp

lemma selftest_part:
  assumes "sr_pass (analyze_loader_beacon_selftest_beacon (xs @ ys))"
    and "sr_summary_seen (analyze_loader_beacon_selftest_beacon xs)"
  shows "sr_pass (analyze_loader_beacon_selftest_beacon xs)"
proof -
  let ?dec = "decode_from loader_event_name 0"
  note defs = analyze_loader_beacon_selftest_beacon_def Let_def decode_loader_beacon_frames_def
  have pass: "dec_bad_frames (?dec (xs @ ys)) = 0" "selftest_pattern (dec_events (?dec (xs @ ys)))"
    using assms(1) by (simp_all add: defs events_pass_pattern)
  obtain es where es: "dec_events (?dec (xs @ ys)) = dec_events (?dec xs) @ es" and bad: "dec_bad_frames (?dec xs) = 0"
    using decode_part [of loader_event_name 0 xs ys] pass(1) by auto
  have "any_type LOADER_EVT_SUMMARY (dec_events (?dec xs))"
    using assms(2) by (auto simp: defs dest: summary_seen_event)
  with pass(2) es have "selftest_pattern (dec_events (?dec xs))"
    by (simp add: pattern_part)
  with bad show ?thesis
    by (simp add: defs events_pass_pattern)
qed

text \<open>The capture holds a first part of what the reads bring.\<close>

lemma cuts_part: "prefix pre (cuts before script) \<Longrightarrow>
    \<exists>ys. before @ concat (map snd script) = last (before # pre) @ ys"
proof (induction before script arbitrary: pre rule: cuts.induct)
  case (2 before dt c script)
  show ?case
  proof (cases "c = [] \<or> pre = []")
    case True
    with 2(1) [of pre] 2(3) show ?thesis by (cases "c = []") auto
  next
    case False
    then obtain p ps where pre: "pre = p # ps" by (cases pre) auto
    with 2(3) False have "p = before @ c" "prefix ps (cuts (before @ c) script)" by auto
    with 2(2) [of ps] False pre show ?thesis by simp
  qed
qed simp

text \<open>
  C24. The self-test on the board does not depend on the reads: when the bytes the board sends within the
  time make the self-test pass, the capture passes, however they are cut and although it stops listening
  at the first SUMMARY.
\<close>

theorem selftest_capture_passes:
  assumes "sr_pass (analyze_loader_beacon_selftest_beacon (concat (map snd script)))"
    and "script_time script < capture_us"
  shows "sr_pass (sc_analysis (capture_loader_beacon_selftest_stream capture_us start script))
    \<and> sc_bad_reason (capture_loader_beacon_selftest_stream capture_us start script) = ''none''"
proof -
  let ?an = analyze_loader_beacon_selftest_beacon
  let ?h = "capture_loop ?an sr_summary_seen (start + capture_us) (capture_init (?an []) start script)"
  have seen: "seen ?h = ?an (captured ?h)"
    and first: "stops_first ?an sr_summary_seen (start + capture_us) [] script ?h"
    by (rule capture_final, rule refl)+
  from first obtain pre where "prefix pre (cuts [] script)" "captured ?h = last ([] # pre)"
    unfolding stops_first_def by blast
  with cuts_part [of pre "[]" script] obtain ys where ys: "concat (map snd script) = captured ?h @ ys"
    by auto
  have "sr_pass (?an (captured ?h))"
  proof (cases "captured ?h = concat (map snd script)")
    case True
    with assms(1) show ?thesis by simp
  next
    case False
    with capture_whole [OF assms(2), of sr_summary_seen ?an start "?an []"] have "sr_summary_seen (?an (captured ?h))"
      using seen by simp
    with assms(1) ys selftest_part show ?thesis
      by metis
  qed
  then show ?thesis
    by (simp add: capture_loader_beacon_selftest_stream_def finalize_loader_beacon_selftest_capture_def Let_def)
qed

definition selftest_wire :: bytes where
  "selftest_wire = encode_stream selftest_segments [0x41]"

definition selftest_reads :: "(nat \<times> bytes) list" where
  "selftest_reads = [(1000, take 12 selftest_wire), (50000, []), (2000, drop 12 selftest_wire)]"

lemma selftest_wire_passes: "sr_pass (analyze_loader_beacon_selftest_beacon selftest_wire)"
  unfolding selftest_wire_def using selftest_stream_pass [of "[0x41]" selftest_segments] selftest_segments_ok by simp

lemma selftest_capture_passes_witness:
  "sr_pass (sc_analysis (capture_loader_beacon_selftest_stream 1000000 0 selftest_reads))"
proof -
  have "concat (map snd selftest_reads) = selftest_wire"
    by (simp add: selftest_reads_def)
  then have "sr_pass (analyze_loader_beacon_selftest_beacon (concat (map snd selftest_reads)))"
    by (simp add: selftest_wire_passes)
  moreover have "script_time selftest_reads < 1000000"
    by (simp add: selftest_reads_def script_time_def)
  ultimately show ?thesis
    using selftest_capture_passes by blast
qed

end
