(* ===== verification/TransportDrive.thy ===== *)
theory TransportDrive
  imports LoaderDrive
begin

text \<open>
  \<^verbatim>\<open>drive_uart_transport_sessions\<close>: several loads in one go over the plain-text transport loader, each a
  header, the payload in acknowledged chunks, and the loader's messages awaited in between.  The state
  is the port of the serial host with the text read and the credits; the nested functions of the code
  are the operations on it.  A load that fails ends the run.
\<close>

section \<open>The state\<close>

record transport_host = port +
  text_bytes :: bytes
  tp_ack_credit :: nat
  tp_ack_count :: nat

record session_result =
  ts_index :: nat
  ts_size_bytes :: nat
  ts_checksum32 :: nat
  ts_seed :: int

record transport_run = transport_host +
  tp_ack_timeout :: bool
  tp_chunks_sent :: nat
  tp_session_results :: "session_result list"
  tp_bad_reason :: string

text \<open>The manifest of one load; the seed is optional.\<close>

record transport_manifest = manifest +
  m_seed :: "int option"

definition transport_init :: "int \<Rightarrow> (nat \<times> bytes) list \<Rightarrow> transport_run" where
  "transport_init start script =
     \<lparr>clock = start, incoming = script, outgoing = [], text_bytes = [], tp_ack_credit = 0, tp_ack_count = 0,
      tp_ack_timeout = False, tp_chunks_sent = 0, tp_session_results = [], tp_bad_reason = ''none''\<rparr>"

definition transport_text :: "'m transport_host_scheme \<Rightarrow> string" where
  "transport_text h = latin1_decode (text_bytes h)"

definition transport_bad_tokens :: "string list" where
  "transport_bad_tokens = [''LOAD BAD CHECKSUM'', ''LOAD BAD BLK'', ''LOAD BAD READ'', ''BAD_BYTE'', ''DRAIN TIMEOUT'',
     ''BAD MAGIC'', ''CAL FAIL'', ''RX WAIT'', ''RX OVERRUN'', ''RX FRAME ERR'']"

definition update_bad_reason :: "string \<Rightarrow> string" where
  "update_bad_reason tx = first_token transport_bad_tokens tx"

definition transport_ingest :: "bytes \<Rightarrow> 'm transport_host_scheme \<Rightarrow> 'm transport_host_scheme" where
  "transport_ingest chunk h =
     (let ack_hits = count_list chunk UART_PAYLOAD_ACK
      in h\<lparr>text_bytes := text_bytes h @ chunk, tp_ack_credit := tp_ack_credit h + ack_hits,
           tp_ack_count := tp_ack_count h + ack_hits\<rparr>)"

lemma transport_ingest_port [simp]:
  "clock (transport_ingest c h) = clock h" "incoming (transport_ingest c h) = incoming h"
  "outgoing (transport_ingest c h) = outgoing h" "text_bytes (transport_ingest c h) = text_bytes h @ c"
  by (simp_all add: transport_ingest_def Let_def)

definition take_credit :: "'m transport_host_scheme \<Rightarrow> 'm transport_host_scheme" where
  "take_credit h = h\<lparr>tp_ack_credit := tp_ack_credit h - 1\<rparr>"

section \<open>Waiting\<close>

function transport_ack_loop :: "int \<Rightarrow> 'm transport_host_scheme \<Rightarrow> bool \<times> 'm transport_host_scheme" where
  "transport_ack_loop stop h =
     (if clock h < stop then
        (case ser_read h of (ack_chunk, h1) \<Rightarrow>
           if ack_chunk \<noteq> [] then
             (let h2 = transport_ingest ack_chunk h1 in
              if update_bad_reason (transport_text h2) \<noteq> ''none'' then (False, h2)
              else if 0 < tp_ack_credit h2 then (True, take_credit h2)
              else transport_ack_loop stop h2)
           else transport_ack_loop stop (sleep 1000 h1))
      else (False, h))"
  by pat_completeness auto
termination
proof (relation "measures [\<lambda>(stop, h). length (incoming h), \<lambda>(stop, h). time_left stop h]", goal_cases)
  case (2 stop h c h1 h2)
  then show ?case using poll_chunk [of c h1 h] by simp
next
  case (3 stop h c h1)
  then show ?case using poll_silent [of h1 h stop 1000] by auto
qed simp

declare transport_ack_loop.simps [simp del]

definition wait_for_payload_ack :: "'m transport_host_scheme \<Rightarrow> bool \<times> 'm transport_host_scheme" where
  "wait_for_payload_ack h =
     (if 0 < tp_ack_credit h then (True, take_credit h) else transport_ack_loop (clock h + 5000000) h)"

text \<open>\<^verbatim>\<open>wait_for_token_growth\<close>; the text it returns is the text of the state it leaves.\<close>

function token_loop :: "string \<Rightarrow> nat \<Rightarrow> int \<Rightarrow> 'm transport_host_scheme \<Rightarrow> 'm transport_host_scheme" where
  "token_loop token previous_count stop h =
     (if clock h < stop then
        (case ser_read h of (chunk, h1) \<Rightarrow>
           let h2 = (if chunk \<noteq> [] then transport_ingest chunk h1 else sleep 1000 h1);
               tx = transport_text h2
           in if update_bad_reason tx \<noteq> ''none'' then h2
              else if previous_count < count_text token tx then h2
              else token_loop token previous_count stop h2)
      else h)"
  by pat_completeness auto
termination
proof (relation "measures [\<lambda>(tk, n, stop, h). length (incoming h), \<lambda>(tk, n, stop, h). time_left stop h]",
    goal_cases)
  case (2 tk n stop h c h1 h2 tx)
  then show ?case using poll_chunk [of c h1 h] poll_silent [of h1 h stop 1000] by (cases "c = []") auto
qed simp

declare token_loop.simps [simp del]

definition wait_for_token_growth :: "string \<Rightarrow> nat \<Rightarrow> int \<Rightarrow> 'm transport_host_scheme \<Rightarrow> 'm transport_host_scheme" where
  "wait_for_token_growth token previous_count timeout h = token_loop token previous_count (clock h + timeout) h"

definition TRANSPORT_READY_TOKEN :: string where
  "TRANSPORT_READY_TOKEN = ''BOOT TRANSPORT READY''"

function ready_loop :: "int \<Rightarrow> 'm transport_host_scheme \<Rightarrow> bool \<times> 'm transport_host_scheme" where
  "ready_loop stop h =
     (if clock h < stop then
        (case ser_read h of (chunk, h1) \<Rightarrow>
           if chunk \<noteq> [] then
             (let h2 = transport_ingest chunk h1 in
              if contains_text TRANSPORT_READY_TOKEN (transport_text h2) then (True, h2) else ready_loop stop h2)
           else ready_loop stop (sleep 1000 h1))
      else (False, h))"
  by pat_completeness auto
termination
proof (relation "measures [\<lambda>(stop, h). length (incoming h), \<lambda>(stop, h). time_left stop h]", goal_cases)
  case (2 stop h c h1 h2)
  then show ?case using poll_chunk [of c h1 h] by simp
next
  case (3 stop h c h1)
  then show ?case using poll_silent [of h1 h stop 1000] by auto
qed simp

declare ready_loop.simps [simp del]

section \<open>One load\<close>

text \<open>The defaults of \<^verbatim>\<open>send_uart_payload_with_ack\<close>; the block parameters are not used by it.\<close>

definition transport_params :: uart_params where
  "transport_params = \<lparr>chunk_bytes = 4, block_bytes = 64, byte_delay = 2000, chunk_gap = 20000,
     pre_block_checksum_gap = 0, checksum_byte_delay = 0, checksum_retry_gap = 0, checksum_retry_limit = 0,
     block_gap = 0, block_retry_gap = 0, retry_limit = 0, allow_ack_miss = False\<rparr>"

definition transport_callbacks :: "'m transport_host_scheme uart_host" where
  "transport_callbacks = \<lparr>wait_ack = wait_for_payload_ack, wait_reply = (\<lambda>h. (Reply_timeout, h)),
     after_nack = None, trace_event = None\<rparr>"

lemma serial_sleep [simp]: "op_sleep serial d h = sleep d h"
  by (simp add: serial_def)

lemma transport_params_simps [simp]:
  "chunk_bytes transport_params = 4" "byte_delay transport_params = 2000" "chunk_gap transport_params = 20000"
  "\<not> allow_ack_miss transport_params" "wait_ack transport_callbacks = wait_for_payload_ack"
  by (simp_all add: transport_params_def transport_callbacks_def)

definition fail_with :: "string \<Rightarrow> transport_run \<Rightarrow> bool \<times> transport_run" where
  "fail_with reason h = (False, h\<lparr>tp_bad_reason := reason\<rparr>)"

definition session_record :: "nat \<Rightarrow> transport_manifest \<Rightarrow> session_result" where
  "session_record i m = \<lparr>ts_index = i, ts_size_bytes = length (m_payload m), ts_checksum32 = m_checksum32 m,
     ts_seed = (case m_seed m of Some s \<Rightarrow> s | None \<Rightarrow> int i + 1)\<rparr>"

text \<open>After the payload: the loader must have read it back and loaded it.\<close>

definition transport_finish ::
  "nat \<Rightarrow> transport_manifest \<Rightarrow> nat \<Rightarrow> nat \<Rightarrow> transport_run \<Rightarrow> bool \<times> transport_run" where
  "transport_finish session_idx m prev_read_ok prev_load_ok h =
     (let h1 = wait_for_token_growth ''LOAD OK'' prev_load_ok 10000000 h;
          tx = transport_text h1;
          bad = update_bad_reason tx
      in if bad \<noteq> ''none'' then fail_with bad h1
         else if count_text ''READ OK'' tx \<le> prev_read_ok then fail_with ''READ OK TIMEOUT'' h1
         else if count_text ''LOAD OK'' tx \<le> prev_load_ok then fail_with ''LOAD OK TIMEOUT'' h1
         else (True, sleep 100000 (h1\<lparr>tp_session_results := tp_session_results h1 @
           [session_record session_idx m]\<rparr>)))"

definition transport_payload ::
  "nat \<Rightarrow> transport_manifest \<Rightarrow> nat \<Rightarrow> nat \<Rightarrow> transport_run \<Rightarrow> bool \<times> transport_run" where
  "transport_payload session_idx m prev_read_ok prev_load_ok h =
     (case send_uart_payload_with_ack serial transport_callbacks transport_params 0 0 (m_payload m) h of (r, h1) \<Rightarrow>
        let h2 = h1\<lparr>tp_chunks_sent := tp_chunks_sent h1 + chunks_sent r, tp_ack_timeout := ack_timeout r\<rparr>
        in if ack_timeout r then
             (let bad = update_bad_reason (transport_text h2)
              in fail_with (if bad = ''none'' then ''PAYLOAD ACK TIMEOUT'' else bad) h2)
           else transport_finish session_idx m prev_read_ok prev_load_ok h2)"

text \<open>The body of the loop over the manifests; the flag says whether the loop goes on.\<close>

definition transport_session ::
  "loader_env \<Rightarrow> bool \<Rightarrow> nat \<Rightarrow> transport_manifest \<Rightarrow> transport_run \<Rightarrow> bool \<times> transport_run" where
  "transport_session env ready session_idx m h =
     (let tx = transport_text h;
          prev_load_start = count_text ''LOAD START'' tx;
          prev_read_ok = count_text ''READ OK'' tx;
          prev_load_ok = count_text ''LOAD OK'' tx;
          h1 = (if session_idx = 0 then sleep (if ready then 300000 else 800000) h else h);
          h2 = write_uart_bytes_slow serial (loader_header (manifest.truncate m)) (header_byte_delay env) h1;
          h3 = wait_for_token_growth ''LOAD START'' prev_load_start 5000000 h2;
          tx3 = transport_text h3;
          bad = update_bad_reason tx3
      in if bad \<noteq> ''none'' then fail_with bad h3
         else if count_text ''LOAD START'' tx3 \<le> prev_load_start then fail_with ''LOAD START TIMEOUT'' h3
         else transport_payload session_idx m prev_read_ok prev_load_ok (sleep 200000 h3))"

fun transport_sessions ::
  "loader_env \<Rightarrow> bool \<Rightarrow> nat \<Rightarrow> transport_manifest list \<Rightarrow> transport_run \<Rightarrow> transport_run" where
  "transport_sessions env ready session_idx [] h = h"
| "transport_sessions env ready session_idx (m # ms) h =
     (case transport_session env ready session_idx m h of
        (True, h1) \<Rightarrow> transport_sessions env ready (Suc session_idx) ms h1
      | (False, h1) \<Rightarrow> h1)"

definition transport_final ::
  "loader_env \<Rightarrow> transport_manifest list \<Rightarrow> int \<Rightarrow> (nat \<times> bytes) list \<Rightarrow> bool \<times> transport_run" where
  "transport_final env ms start script =
     (case ready_loop (start + 2000000) (transport_init start script) of (ready, h) \<Rightarrow>
        (ready, transport_sessions env ready 0 ms h))"

record transport_result =
  tr_ready_seen :: bool
  tr_saw_load_start :: bool
  tr_saw_load_ok :: bool
  tr_saw_bad :: bool
  tr_session_results :: "session_result list"
  tr_session_count :: nat
  tr_expected_sessions :: nat
  tr_ack_timeout :: bool
  tr_ack_count :: nat
  tr_ack_credit_remaining :: nat
  tr_chunks_sent :: nat
  tr_bad_reason :: string
  tr_capture_bytes :: nat
  tr_log :: bytes

definition drive_uart_transport_sessions ::
  "loader_env \<Rightarrow> transport_manifest list \<Rightarrow> int \<Rightarrow> (nat \<times> bytes) list \<Rightarrow> transport_result" where
  "drive_uart_transport_sessions env ms start script =
     (case transport_final env ms start script of (ready, h) \<Rightarrow>
        \<lparr>tr_ready_seen = ready,
         tr_saw_load_start = contains_text ''LOAD START'' (transport_text h),
         tr_saw_load_ok = contains_text ''LOAD OK'' (transport_text h),
         tr_saw_bad = (tp_bad_reason h \<noteq> ''none''),
         tr_session_results = tp_session_results h,
         tr_session_count = length (tp_session_results h),
         tr_expected_sessions = length ms,
         tr_ack_timeout = tp_ack_timeout h,
         tr_ack_count = tp_ack_count h,
         tr_ack_credit_remaining = tp_ack_credit h,
         tr_chunks_sent = tp_chunks_sent h,
         tr_bad_reason = tp_bad_reason h,
         tr_capture_bytes = length (text_bytes h),
         tr_log = text_bytes h\<rparr>)"

section \<open>What waiting keeps\<close>

text \<open>
  The interface for an invariant of this host: it survives a read with what is done with the bytes, time
  passing, taking a credit, and writing.  Then the waits and the sending of a payload keep it.
\<close>

locale transport_keeps =
  fixes holds :: "'m transport_host_scheme \<Rightarrow> bool"
  assumes holds_read: "holds h \<Longrightarrow> ser_read h = (c, h1) \<Longrightarrow> holds (transport_ingest c h1)"
    and holds_sleep: "holds h \<Longrightarrow> holds (sleep d h)"
    and holds_credit: "holds h \<Longrightarrow> 0 < tp_ack_credit h \<Longrightarrow> holds (take_credit h)"
begin

lemma holds_silent: "holds h \<Longrightarrow> ser_read h = ([], h1) \<Longrightarrow> holds h1"
  using holds_read [of h "[]" h1] by (simp add: transport_ingest_def Let_def)

lemma holds_ack_loop: "holds h \<Longrightarrow> holds (snd (transport_ack_loop stop h))"
proof (induction stop h rule: transport_ack_loop.induct)
  case (1 stop h)
  obtain c h1 where rd: "ser_read h = (c, h1)" by (cases "ser_read h")
  show ?case
    using "1.IH"(1) [OF _ rd [symmetric] _ refl] "1.IH"(2) [OF _ rd [symmetric]] rd
      holds_read [OF "1.prems" rd] holds_silent [OF "1.prems"] "1.prems"
    by (subst transport_ack_loop.simps) (simp add: Let_def holds_credit holds_sleep)
qed

lemma holds_wait_ack: "holds h \<Longrightarrow> holds (snd (wait_for_payload_ack h))"
  by (simp add: wait_for_payload_ack_def holds_credit holds_ack_loop)

lemma holds_token_loop: "holds h \<Longrightarrow> holds (token_loop token n stop h)"
proof (induction token n stop h rule: token_loop.induct)
  case (1 token n stop h)
  obtain c h1 where rd: "ser_read h = (c, h1)" by (cases "ser_read h")
  let ?h2 = "if c \<noteq> [] then transport_ingest c h1 else sleep 1000 h1"
  have "holds ?h2"
    using holds_read [OF "1.prems" rd] holds_silent [OF "1.prems"] rd by (simp add: holds_sleep)
  then show ?case
    using "1.IH" [OF _ rd [symmetric] refl refl] "1.prems" by (subst token_loop.simps) (simp add: rd Let_def)
qed

lemma holds_token: "holds h \<Longrightarrow> holds (wait_for_token_growth token n timeout h)"
  by (simp add: wait_for_token_growth_def holds_token_loop)

lemma holds_ready: "holds h \<Longrightarrow> holds (snd (ready_loop stop h))"
proof (induction stop h rule: ready_loop.induct)
  case (1 stop h)
  obtain c h1 where rd: "ser_read h = (c, h1)" by (cases "ser_read h")
  show ?case
    using "1.IH"(1) [OF _ rd [symmetric] _ refl] "1.IH"(2) [OF _ rd [symmetric]] rd
      holds_read [OF "1.prems" rd] holds_silent [OF "1.prems"] "1.prems"
    by (subst ready_loop.simps) (simp add: Let_def holds_sleep)
qed

end

locale transport_writer = transport_keeps +
  assumes holds_write: "holds h \<Longrightarrow> holds (h\<lparr>outgoing := ws\<rparr>)"

sublocale transport_writer \<subseteq> payload: uart_keeps serial transport_callbacks holds
proof unfold_locales
  fix h h' :: "'a transport_host_scheme" and b
  assume "holds h"
  then show "wait_ack transport_callbacks h = (b, h') \<Longrightarrow> holds h'"
    using holds_wait_ack [of h] by (simp add: transport_callbacks_def)
qed (auto simp: serial_def holds_write holds_sleep transport_callbacks_def)

lemma transport_read_fields:
  "ser_read h = (c, h1) \<Longrightarrow> text_bytes h1 = text_bytes h \<and> tp_ack_credit h1 = tp_ack_credit h
     \<and> tp_ack_count h1 = tp_ack_count h \<and> transport_host.more h1 = transport_host.more h"
  by (auto simp: ser_read_def split: list.splits)

text \<open>The run's own variables, the text only growing, and the acknowledges counted as they came.\<close>

interpretation run: transport_writer "\<lambda>h. transport_host.more h = x" for x
  by unfold_locales (auto simp: transport_read_fields transport_ingest_def Let_def sleep_def take_credit_def)

interpretation grows: transport_writer "\<lambda>h. prefix t (text_bytes h)" for t
  by unfold_locales (auto simp: transport_read_fields sleep_def take_credit_def intro: prefix_prefix)

interpretation counted: transport_writer "\<lambda>h. tp_ack_count h = count_list (text_bytes h) UART_PAYLOAD_ACK"
  by unfold_locales (auto simp: transport_read_fields transport_ingest_def Let_def sleep_def take_credit_def)

interpretation still: transport_keeps "\<lambda>h. outgoing h = ws" for ws
  by unfold_locales (auto simp: ser_read_out take_credit_def)

interpretation line: uart_wire serial transport_callbacks outgoing
proof unfold_locales
  fix h h' :: "'a transport_host_scheme" and b
  show "wait_ack transport_callbacks h = (b, h') \<Longrightarrow> outgoing h' = outgoing h"
    using still.holds_wait_ack [of h "outgoing h"] by (simp add: transport_callbacks_def)
qed (auto simp: serial_def transport_callbacks_def)

section \<open>Credits\<close>

text \<open>The acknowledges used up so far.\<close>

definition used_credits :: "'m transport_host_scheme \<Rightarrow> int" where
  "used_credits h = int (tp_ack_count h) - int (tp_ack_credit h)"

lemma used_read: "ser_read h = (c, h1) \<Longrightarrow> used_credits (transport_ingest c h1) = used_credits h"
  by (auto simp: used_credits_def transport_ingest_def Let_def dest!: transport_read_fields)

lemma used_silent: "ser_read h = ([], h1) \<Longrightarrow> used_credits h1 = used_credits h"
  using used_read [of h "[]" h1] by (simp add: transport_ingest_def Let_def)

lemma used_sleep [simp]: "used_credits (sleep d h) = used_credits h"
  by (simp add: used_credits_def sleep_def)

lemma used_take: "0 < tp_ack_credit h \<Longrightarrow> used_credits (take_credit h) = used_credits h + 1"
  by (simp add: used_credits_def take_credit_def)

lemma used_ack_loop:
  "used_credits (snd (transport_ack_loop stop h))
     = used_credits h + (if fst (transport_ack_loop stop h) then 1 else 0)"
proof (induction stop h rule: transport_ack_loop.induct)
  case (1 stop h)
  obtain c h1 where rd: "ser_read h = (c, h1)" by (cases "ser_read h")
  note eq = transport_ack_loop.simps [of stop h, unfolded rd split_conv Let_def]
  show ?case
  proof (cases "clock h < stop")
    case now: True
    show ?thesis
    proof (cases "c = []")
      case True
      with "1.IH"(2) [OF now rd [symmetric]] now used_silent [of h h1] rd show ?thesis
        by (simp add: eq)
    next
      case False
      with "1.IH"(1) [OF now rd [symmetric] False refl] now used_read [OF rd] show ?thesis
        by (auto simp: eq used_take)
    qed
  qed (simp add: eq)
qed

lemma used_wait:
  "wait_for_payload_ack h = (b, h') \<Longrightarrow> used_credits h' = used_credits h + (if b then 1 else 0)"
  using used_ack_loop [of "clock h + 5000000" h]
  by (auto simp: wait_for_payload_ack_def used_take split: if_splits)

lemma used_token_loop: "used_credits (token_loop token n stop h) = used_credits h"
proof (induction token n stop h rule: token_loop.induct)
  case (1 token n stop h)
  obtain c h1 where rd: "ser_read h = (c, h1)" by (cases "ser_read h")
  let ?h2 = "if c \<noteq> [] then transport_ingest c h1 else sleep 1000 h1"
  have "used_credits ?h2 = used_credits h"
    using used_read [OF rd] used_silent [of h h1] rd by simp
  then show ?case
    using "1.IH" [OF _ rd [symmetric] refl refl] by (subst token_loop.simps) (simp add: rd Let_def)
qed

lemma used_ready: "used_credits (snd (ready_loop stop h)) = used_credits h"
proof (induction stop h rule: ready_loop.induct)
  case (1 stop h)
  obtain c h1 where rd: "ser_read h = (c, h1)" by (cases "ser_read h")
  show ?case
    using "1.IH"(1) [OF _ rd [symmetric] _ refl] "1.IH"(2) [OF _ rd [symmetric]] rd
      used_read [OF rd] used_silent [of h h1]
    by (subst ready_loop.simps) (simp add: Let_def)
qed

lemma used_write [simp]: "used_credits (write_uart_bytes_slow serial bs d h) = used_credits h"
  using slow_write_effect [of h bs d] by (auto simp: used_credits_def)

text \<open>A payload uses one acknowledge for every chunk, but for the one that timed out.\<close>

lemma used_chunks:
  "send_chunks serial transport_callbacks transport_params i b n cs r h = (r', h') \<Longrightarrow> \<not> ack_timeout r \<Longrightarrow>
     used_credits h' = used_credits h + int (chunks_sent r') - int (chunks_sent r) - (if ack_timeout r' then 1 else 0)"
proof (induction cs arbitrary: r h)
  case (Cons c cs)
  obtain off chunk where c: "c = (off, chunk)" by (cases c)
  let ?h = "write_uart_bytes_slow serial chunk 2000 h"
  obtain ack h3 where w: "wait_for_payload_ack ?h = (ack, h3)" by (cases "wait_for_payload_ack ?h")
  have run: "run_trace transport_callbacks msg e = e" for msg e
    by (simp add: run_trace_def transport_callbacks_def)
  note step = Cons.prems(1) [unfolded c send_chunks.simps Let_def run transport_params_simps w split_conv]
  show ?case
  proof (cases ack)
    case True
    from Cons.IH [of "r\<lparr>chunks_sent := Suc (chunks_sent r)\<rparr>" "if off + 4 < n then op_sleep serial 20000 h3 else h3"]
    show ?thesis
      using step Cons.prems(2) used_wait [OF w] True by (simp split: if_splits)
  next
    case False
    then show ?thesis
      using step used_wait [OF w] by auto
  qed
qed simp

section \<open>One load and all of them\<close>

text \<open>What every part of a load does to the state: the text grows and is counted, the rest is as stated.\<close>

definition listens :: "transport_run \<Rightarrow> transport_run \<Rightarrow> bool" where
  "listens h h' \<longleftrightarrow> prefix (text_bytes h) (text_bytes h')
     \<and> (tp_ack_count h = count_list (text_bytes h) UART_PAYLOAD_ACK
          \<longrightarrow> tp_ack_count h' = count_list (text_bytes h') UART_PAYLOAD_ACK)"

lemma listens_refl [simp]: "listens h h"
  by (simp add: listens_def)

lemma listens_trans: "listens h h1 \<Longrightarrow> listens h1 h2 \<Longrightarrow> listens h h2"
  by (auto simp: listens_def)

lemma run_fields:
  "transport_host.more (h' :: transport_run) = transport_host.more h \<Longrightarrow>
     tp_session_results h' = tp_session_results h \<and> tp_bad_reason h' = tp_bad_reason h
     \<and> tp_ack_timeout h' = tp_ack_timeout h \<and> tp_chunks_sent h' = tp_chunks_sent h"
  by (cases h; cases h') simp

definition same_run :: "transport_run \<Rightarrow> transport_run \<Rightarrow> bool" where
  "same_run h h' \<longleftrightarrow> tp_session_results h' = tp_session_results h \<and> tp_bad_reason h' = tp_bad_reason h
     \<and> tp_ack_timeout h' = tp_ack_timeout h \<and> tp_chunks_sent h' = tp_chunks_sent h"

lemma token_effect:
  fixes h :: transport_run and token :: string and n :: nat and t :: int
  defines "h' \<equiv> wait_for_token_growth token n t h"
  shows "listens h h'" and "same_run h h'" and "outgoing h' = outgoing h" and "used_credits h' = used_credits h"
proof -
  show "listens h h'"
    using grows.holds_token [of "text_bytes h" h token n t] counted.holds_token [of h token n t]
    by (simp add: listens_def h'_def)
  show "same_run h h'"
    using run_fields [OF run.holds_token [of h "transport_host.more h" token n t]] by (simp add: same_run_def h'_def)
  show "outgoing h' = outgoing h"
    using still.holds_token [of h "outgoing h" token n t] by (simp add: h'_def)
  show "used_credits h' = used_credits h"
    by (simp add: h'_def wait_for_token_growth_def used_token_loop)
qed

lemma header_effect:
  fixes h :: transport_run and bs :: bytes and d :: int
  defines "h' \<equiv> write_uart_bytes_slow serial bs d h"
  shows "listens h h'" and "same_run h h'" and "outgoing h' = outgoing h @ bs" and "used_credits h' = used_credits h"
  using slow_write_effect [of h bs d] unfolding h'_def by (auto simp: listens_def same_run_def used_credits_def)

lemma sleep_effect:
  "listens h (sleep d h)" "same_run h (sleep d h)" "outgoing (sleep d h) = outgoing h"
  by (simp_all add: listens_def same_run_def sleep_def)

lemma payload_effect:
  fixes h :: transport_run
  assumes "send_uart_payload_with_ack serial transport_callbacks transport_params 0 0 payload h = (r, h')"
  shows "listens h h'" and "same_run h h'"
    and "used_credits h' = used_credits h + int (chunks_sent r) - (if ack_timeout r then 1 else 0)"
    and "\<exists>part. outgoing h' = outgoing h @ part \<and> prefix part payload \<and> (ack_timeout r \<or> part = payload)"
proof -
  note sc = assms [unfolded send_uart_payload_with_ack_def]
  show "listens h h'"
    using grows.payload.keeps_payload [OF assms, of "text_bytes h"] counted.payload.keeps_payload [OF assms]
    by (simp add: listens_def)
  show "same_run h h'"
    using run_fields [OF run.payload.keeps_payload [OF assms, of "transport_host.more h"]] by (simp add: same_run_def)
  show "used_credits h' = used_credits h + int (chunks_sent r) - (if ack_timeout r then 1 else 0)"
    using used_chunks [OF sc] by (simp add: no_chunks_def)
  have "outgoing h' = outgoing h @ concat (map snd (take (chunks_sent r) (slices 4 0 payload)))"
    using line.sent_chunks [OF sc] by (simp add: no_chunks_def)
  moreover have "prefix (concat (map snd (take (chunks_sent r) (slices 4 0 payload)))) payload"
    using concat_slices [of 4 0 payload] append_take_drop_id [of "chunks_sent r" "slices 4 0 payload"]
    by (metis concat_append map_append prefixI zero_less_numeral)
  moreover have "\<not> ack_timeout r \<Longrightarrow> outgoing h' = outgoing h @ payload"
    using line.sent_payload [OF assms] by simp
  ultimately show "\<exists>part. outgoing h' = outgoing h @ part \<and> prefix part payload \<and> (ack_timeout r \<or> part = payload)"
    by (intro exI [of _ "concat (map snd (take (chunks_sent r) (slices 4 0 payload)))"]) auto
qed

text \<open>More text has no fewer messages.\<close>

lemma count_text_append: "count_text tok s \<le> count_text tok (s @ t)"
proof (induction tok s rule: count_text.induct)
  case (2 tok c cs)
  have short: "count_text tok xs = 0" if "length xs < length tok" for xs
    using that by (induction xs) (auto dest: prefix_length_le)
  show ?case
  proof (cases "tok \<noteq> [] \<and> prefix tok (c # cs)")
    case True
    then have "length tok - 1 \<le> length cs"
      using prefix_length_le by fastforce
    moreover from True have "prefix tok ((c # cs) @ t)"
      by (simp add: prefix_prefix del: append_Cons)
    ultimately show ?thesis
      using True 2(1) by simp
  next
    case False
    then have *: "count_text tok (c # cs) = count_text tok cs"
      by auto
    show ?thesis
    proof (cases "tok \<noteq> [] \<and> prefix tok ((c # cs) @ t)")
      case True
      with False obtain us where "tok = (c # cs) @ us" "us \<noteq> []"
        unfolding prefix_append by (metis append_Nil2 prefix_order.refl)
      then have "length (c # cs) < length tok"
        by simp
      then have "count_text tok cs = 0"
        by (intro short) simp
      with * show ?thesis by simp
    next
      case no: False
      then have "count_text tok ((c # cs) @ t) = count_text tok (cs @ t)"
        by auto
      with * 2(2) [OF False] show ?thesis by linarith
    qed
  qed
qed simp

lemma listens_count: "listens h h' \<Longrightarrow> count_text tok (transport_text h) \<le> count_text tok (transport_text h')"
  by (auto simp: listens_def prefix_def transport_text_def count_text_append)

definition load_wire :: "transport_manifest \<Rightarrow> bytes" where
  "load_wire m = loader_header (manifest.truncate m) @ m_payload m"

definition balanced :: "transport_run \<Rightarrow> bool" where
  "balanced h \<longleftrightarrow> used_credits h = int (tp_chunks_sent h) - (if tp_ack_timeout h then 1 else 0)"

definition load_tokens :: "string list" where
  "load_tokens = [''LOAD START'', ''READ OK'', ''LOAD OK'']"

definition load_done :: "nat \<Rightarrow> transport_manifest \<Rightarrow> transport_run \<Rightarrow> transport_run \<Rightarrow> bool" where
  "load_done i m h h' \<longleftrightarrow> outgoing h' = outgoing h @ load_wire m
     \<and> tp_session_results h' = tp_session_results h @ [session_record i m]
     \<and> tp_bad_reason h' = tp_bad_reason h \<and> \<not> tp_ack_timeout h'
     \<and> (\<forall>tok \<in> set load_tokens. count_text tok (transport_text h) < count_text tok (transport_text h'))"

definition load_failed :: "transport_manifest \<Rightarrow> transport_run \<Rightarrow> transport_run \<Rightarrow> bool" where
  "load_failed m h h' \<longleftrightarrow> tp_session_results h' = tp_session_results h \<and> tp_bad_reason h' \<noteq> ''none''
     \<and> (\<exists>part. outgoing h' = outgoing h @ loader_header (manifest.truncate m) @ part \<and> prefix part (m_payload m))"

lemma finish_effect:
  assumes "transport_finish i m n k h = (ok, h')"
  shows "listens h h' \<and> outgoing h' = outgoing h \<and> used_credits h' = used_credits h
    \<and> tp_chunks_sent h' = tp_chunks_sent h \<and> tp_ack_timeout h' = tp_ack_timeout h
    \<and> (if ok then tp_session_results h' = tp_session_results h @ [session_record i m] \<and> tp_bad_reason h' = tp_bad_reason h
         \<and> n < count_text ''READ OK'' (transport_text h') \<and> k < count_text ''LOAD OK'' (transport_text h')
       else tp_session_results h' = tp_session_results h \<and> tp_bad_reason h' \<noteq> ''none'')"
proof -
  let ?h1 = "wait_for_token_growth ''LOAD OK'' k 10000000 h"
  show ?thesis
    using assms token_effect [where token = "''LOAD OK''" and n = k and t = 10000000 and h = h]
    unfolding transport_finish_def Let_def fail_with_def
    by (auto simp: listens_def same_run_def used_credits_def transport_text_def sleep_def split: if_splits)
qed

lemma transport_payload_effect:
  assumes "transport_payload i m n k h = (ok, h')" and "balanced h" and "\<not> tp_ack_timeout h"
  shows "listens h h' \<and> balanced h'
    \<and> (\<exists>part. outgoing h' = outgoing h @ part \<and> prefix part (m_payload m) \<and> (ok \<longrightarrow> part = m_payload m))
    \<and> (if ok then tp_session_results h' = tp_session_results h @ [session_record i m] \<and> tp_bad_reason h' = tp_bad_reason h
         \<and> \<not> tp_ack_timeout h'
         \<and> n < count_text ''READ OK'' (transport_text h') \<and> k < count_text ''LOAD OK'' (transport_text h')
       else tp_session_results h' = tp_session_results h \<and> tp_bad_reason h' \<noteq> ''none'')"
proof -
  obtain r h1 where pl: "send_uart_payload_with_ack serial transport_callbacks transport_params 0 0 (m_payload m) h = (r, h1)"
    by fastforce
  let ?h2 = "h1\<lparr>tp_chunks_sent := tp_chunks_sent h1 + chunks_sent r, tp_ack_timeout := ack_timeout r\<rparr>"
  note eff = payload_effect [OF pl]
  have l2: "listens h ?h2"
    using eff(1) by (simp add: listens_def)
  have b2: "balanced ?h2"
    using eff(2,3) assms(2,3) by (simp add: balanced_def same_run_def used_credits_def)
  show ?thesis
  proof (cases "ack_timeout r")
    case True
    then have "h' = snd (fail_with (if update_bad_reason (transport_text ?h2) = ''none'' then ''PAYLOAD ACK TIMEOUT''
        else update_bad_reason (transport_text ?h2)) ?h2)" and "\<not> ok"
      using assms(1) pl by (auto simp: transport_payload_def Let_def fail_with_def)
    with l2 b2 eff(2,4) show ?thesis
      by (auto simp: fail_with_def listens_def balanced_def used_credits_def same_run_def)
  next
    case False
    with assms(1) pl have fin: "transport_finish i m n k ?h2 = (ok, h')"
      by (simp add: transport_payload_def Let_def)
    from finish_effect [OF fin] l2 have "listens h h'"
      using listens_trans by blast
    moreover from finish_effect [OF fin] b2 have "balanced h'"
      by (simp add: balanced_def)
    moreover from finish_effect [OF fin] eff(4) False have "outgoing h' = outgoing h @ m_payload m"
      by simp
    ultimately show ?thesis
      using finish_effect [OF fin] eff(2) False by (auto simp: same_run_def split: if_splits)
  qed
qed

lemma transport_session_effect:
  assumes "transport_session env ready i m h = (ok, h')" and "balanced h" and "\<not> tp_ack_timeout h"
  shows "listens h h' \<and> balanced h' \<and> (if ok then load_done i m h h' else load_failed m h h')"
proof -
  let ?n = "\<lambda>tok. count_text tok (transport_text h)"
  define h1 where "h1 = (if i = 0 then sleep (if ready then 300000 else 800000) h else h)"
  define h2 where "h2 = write_uart_bytes_slow serial (loader_header (manifest.truncate m)) (header_byte_delay env) h1"
  define h3 where "h3 = wait_for_token_growth ''LOAD START'' (?n ''LOAD START'') 5000000 h2"
  have 1: "listens h h1" "same_run h h1" "outgoing h1 = outgoing h" "used_credits h1 = used_credits h"
    using sleep_effect [where h = h] by (auto simp: h1_def same_run_def)
  have 2: "listens h1 h2" "same_run h1 h2" "outgoing h2 = outgoing h1 @ loader_header (manifest.truncate m)"
      "used_credits h2 = used_credits h1"
    unfolding h2_def by (rule header_effect)+
  have 3: "listens h2 h3" "same_run h2 h3" "outgoing h3 = outgoing h2" "used_credits h3 = used_credits h2"
    unfolding h3_def by (rule token_effect)+
  have l3: "listens h h3"
    using 1(1) 2(1) 3(1) listens_trans by blast
  have s3: "same_run h h3"
    using 1(2) 2(2) 3(2) by (simp add: same_run_def)
  have b3: "balanced h3"
    using s3 assms(2) 1(4) 2(4) 3(4) by (simp add: balanced_def same_run_def)
  note eq = assms(1) [unfolded transport_session_def Let_def, folded h1_def, folded h2_def, folded h3_def]
  show ?thesis
  proof (cases "update_bad_reason (transport_text h3) \<noteq> ''none'' \<or> count_text ''LOAD START'' (transport_text h3) \<le> ?n ''LOAD START''")
    case True
    define why where "why = (if update_bad_reason (transport_text h3) \<noteq> ''none'' then update_bad_reason (transport_text h3)
        else ''LOAD START TIMEOUT'')"
    have "\<not> ok" "why \<noteq> ''none''" "h' = h3\<lparr>tp_bad_reason := why\<rparr>"
      using eq True by (auto simp: fail_with_def why_def split: if_splits)
    with l3 b3 s3 1(3) 2(3) 3(3) show ?thesis
      by (auto simp: listens_def balanced_def used_credits_def same_run_def load_failed_def)
  next
    case False
    then have pl: "transport_payload i m (?n ''READ OK'') (?n ''LOAD OK'') (sleep 200000 h3) = (ok, h')"
      using eq by simp
    have b4: "balanced (sleep 200000 h3)" "\<not> tp_ack_timeout (sleep 200000 h3)"
      using b3 s3 assms(3) by (simp_all add: balanced_def same_run_def sleep_def used_credits_def)
    note eff = transport_payload_effect [OF pl b4]
    have "listens h3 h'"
      using eff sleep_effect(1) listens_trans by blast
    then have "count_text ''LOAD START'' (transport_text h3) \<le> count_text ''LOAD START'' (transport_text h')"
      by (rule listens_count)
    moreover have "listens h h'"
      using l3 \<open>listens h3 h'\<close> listens_trans by blast
    ultimately show ?thesis
      using eff False s3 1(3) 2(3) 3(3) sleep_effect(2,3) [where h = h3 and d = 200000]
      by (auto simp: load_done_def load_failed_def load_wire_def load_tokens_def same_run_def split: if_splits)
  qed
qed

lemma transport_sessions_effect:
  assumes "transport_sessions env ready i ms h = h'" and "balanced h" and "\<not> tp_ack_timeout h"
    and "tp_bad_reason h = ''none''"
  shows "\<exists>n part. n \<le> length ms \<and> listens h h' \<and> balanced h'
    \<and> tp_session_results h' = tp_session_results h @ map (\<lambda>(i, m). session_record i m) (enumerate i (take n ms))
    \<and> outgoing h' = outgoing h @ concat (map load_wire (take n ms)) @ part
    \<and> (if n < length ms then prefix part (load_wire (ms ! n)) \<and> part \<noteq> [] else part = [])
    \<and> (tp_bad_reason h' = ''none'' \<longleftrightarrow> n = length ms)
    \<and> (\<forall>tok \<in> set load_tokens. count_text tok (transport_text h) + n \<le> count_text tok (transport_text h'))"
  using assms
proof (induction ms arbitrary: i h)
  case Nil
  then show ?case by (intro exI [of _ 0] exI [of _ "[]"]) simp
next
  case (Cons m ms)
  obtain ok h1 where st: "transport_session env ready i m h = (ok, h1)" by fastforce
  note eff = transport_session_effect [OF st Cons.prems(2,3)]
  show ?case
  proof (cases ok)
    case False
    with Cons.prems(1) st have "h' = h1" by simp
    with False eff obtain part where "outgoing h' = outgoing h @ loader_header (manifest.truncate m) @ part"
      "prefix part (m_payload m)"
      by (auto simp: load_failed_def)
    moreover have "loader_header (manifest.truncate m) \<noteq> []"
      by (auto simp: loader_header_def pack_u32_le_def Let_def)
    moreover from False eff \<open>h' = h1\<close> have "\<forall>tok. count_text tok (transport_text h) \<le> count_text tok (transport_text h')"
      using listens_count by auto
    ultimately show ?thesis
      using False eff \<open>h' = h1\<close>
      by (intro exI [of _ 0] exI [of _ "loader_header (manifest.truncate m) @ part"])
        (auto simp: load_failed_def load_wire_def)
  next
    case True
    with Cons.prems(1) st have rec: "transport_sessions env ready (Suc i) ms h1 = h'" by simp
    from True eff have dn: "load_done i m h h1" "balanced h1" "listens h h1" by auto
    then have "\<not> tp_ack_timeout h1" "tp_bad_reason h1 = ''none''"
      using Cons.prems(4) by (auto simp: load_done_def)
    from Cons.IH [OF rec dn(2) this] obtain n part where n: "n \<le> length ms" "listens h1 h'" "balanced h'"
      "tp_session_results h' = tp_session_results h1 @ map (\<lambda>(i, m). session_record i m) (enumerate (Suc i) (take n ms))"
      "outgoing h' = outgoing h1 @ concat (map load_wire (take n ms)) @ part"
      "if n < length ms then prefix part (load_wire (ms ! n)) \<and> part \<noteq> [] else part = []"
      "tp_bad_reason h' = ''none'' \<longleftrightarrow> n = length ms"
      "\<forall>tok \<in> set load_tokens. count_text tok (transport_text h1) + n \<le> count_text tok (transport_text h')"
      by blast
    have "count_text tok (transport_text h) + Suc n \<le> count_text tok (transport_text h')" if "tok \<in> set load_tokens" for tok
      using dn(1) n(8) that by (fastforce simp: load_done_def)
    moreover have "listens h h'"
      using dn(3) n(2) listens_trans by blast
    ultimately show ?thesis
      using n dn(1) by (intro exI [of _ "Suc n"] exI [of _ part]) (auto simp: load_done_def)
  qed
qed

lemma transport_start:
  assumes "ready_loop t (transport_init start script) = (ready, h)"
  shows "outgoing h = [] \<and> tp_session_results h = [] \<and> tp_bad_reason h = ''none'' \<and> \<not> tp_ack_timeout h \<and> balanced h
    \<and> tp_ack_count h = count_list (text_bytes h) UART_PAYLOAD_ACK"
proof -
  let ?i = "transport_init start script"
  have h: "h = snd (ready_loop t ?i)"
    using assms by simp
  have "used_credits h = 0"
    unfolding h used_ready by (simp add: transport_init_def used_credits_def)
  moreover have "same_run ?i h"
    using run_fields [OF run.holds_ready [of ?i "transport_host.more ?i" t]] by (simp add: same_run_def h)
  ultimately show ?thesis
    using still.holds_ready [of ?i "[]" t] counted.holds_ready [of ?i t]
    by (simp add: h same_run_def balanced_def transport_init_def)
qed

section \<open>Properties\<close>

lemma transport_final_effect:
  assumes "transport_final env ms start script = (ready, h)"
  shows "\<exists>n part. n \<le> length ms \<and> balanced h \<and> tp_ack_count h = count_list (text_bytes h) UART_PAYLOAD_ACK
    \<and> tp_session_results h = map (\<lambda>(i, m). session_record i m) (enumerate 0 (take n ms))
    \<and> outgoing h = concat (map load_wire (take n ms)) @ part
    \<and> (if n < length ms then prefix part (load_wire (ms ! n)) \<and> part \<noteq> [] else part = [])
    \<and> (tp_bad_reason h = ''none'' \<longleftrightarrow> n = length ms)
    \<and> (\<forall>tok \<in> set load_tokens. n \<le> count_text tok (transport_text h))"
proof -
  obtain h0 where rd: "ready_loop (start + 2000000) (transport_init start script) = (ready, h0)"
    and run: "transport_sessions env ready 0 ms h0 = h"
    using assms by (auto simp: transport_final_def split: prod.splits)
  note start = transport_start [OF rd]
  then have "balanced h0" "\<not> tp_ack_timeout h0" "tp_bad_reason h0 = ''none''"
    by blast+
  from transport_sessions_effect [OF run this] start show ?thesis
    by (fastforce simp: listens_def)
qed

text \<open>
  C25. How a run of several loads ends.  The loads reported are the first ones of the list, in order; on the
  line are exactly their headers and payloads, then a first part of the next load, which failed; no reason
  is given exactly when all were loaded; and the board has sent LOAD START, READ OK and LOAD OK at least
  once for every load reported.
\<close>

theorem transport_outcome:
  fixes env :: loader_env and ms :: "transport_manifest list" and start :: int and script :: "(nat \<times> bytes) list"
  defines "r \<equiv> drive_uart_transport_sessions env ms start script"
    and "h \<equiv> snd (transport_final env ms start script)"
  shows "tr_session_count r \<le> length ms
    \<and> tr_session_results r = map (\<lambda>(i, m). session_record i m) (enumerate 0 (take (tr_session_count r) ms))
    \<and> (tr_saw_bad r \<longleftrightarrow> tr_session_count r < length ms)
    \<and> (\<exists>part. outgoing h = concat (map load_wire (take (tr_session_count r) ms)) @ part
        \<and> (if tr_saw_bad r then prefix part (load_wire (ms ! tr_session_count r)) \<and> part \<noteq> [] else part = []))
    \<and> list_all (\<lambda>tok. tr_session_count r \<le> count_text tok (latin1_decode (tr_log r)))
        [''LOAD START'', ''READ OK'', ''LOAD OK'']"
proof -
  obtain ready h' where fin: "transport_final env ms start script = (ready, h')" by fastforce
  from transport_final_effect [OF fin] obtain n part where n: "n \<le> length ms"
    "tp_session_results h' = map (\<lambda>(i, m). session_record i m) (enumerate 0 (take n ms))"
    "outgoing h' = concat (map load_wire (take n ms)) @ part"
    "if n < length ms then prefix part (load_wire (ms ! n)) \<and> part \<noteq> [] else part = []"
    "tp_bad_reason h' = ''none'' \<longleftrightarrow> n = length ms"
    "\<forall>tok \<in> set load_tokens. n \<le> count_text tok (transport_text h')"
    by blast
  have "tr_session_count r = n"
    using n(1,2) by (simp add: r_def drive_uart_transport_sessions_def fin)
  with n show ?thesis
    unfolding load_tokens_def transport_text_def r_def h_def
    by (auto simp: drive_uart_transport_sessions_def fin)
qed

text \<open>
  Acknowledges are neither lost nor taken twice over a run: the number counted is the number of ACK
  bytes in the log, and it is the credits left plus one for every chunk sent, but for the chunk that
  timed out.
\<close>

theorem transport_acks_accounted:
  fixes env :: loader_env and ms :: "transport_manifest list" and start :: int and script :: "(nat \<times> bytes) list"
  defines "r \<equiv> drive_uart_transport_sessions env ms start script"
  shows "tr_ack_count r = count_list (tr_log r) UART_PAYLOAD_ACK
    \<and> tr_ack_count r + (if tr_ack_timeout r then 1 else 0) = tr_ack_credit_remaining r + tr_chunks_sent r"
proof -
  obtain ready h where fin: "transport_final env ms start script = (ready, h)" by fastforce
  from transport_final_effect [OF fin] have "balanced h" "tp_ack_count h = count_list (text_bytes h) UART_PAYLOAD_ACK"
    by blast+
  then show ?thesis
    by (simp add: r_def drive_uart_transport_sessions_def fin balanced_def used_credits_def split: if_splits)
qed

end
