(* ===== verification/Config.thy ===== *)
theory Config
  imports Prelude
begin

text \<open>
  The configuration of a build: what the scripts take from the environment, the divisors and widths they
  derive from a clock and a depth, the environment they hand to the synthesis tool, and the comparison
  of a simulation's parameters with the board's.

  A clock is a whole number of hertz where the code has a floating-point number of megahertz, and a
  quotient that the code rounds is rounded from its exact value, half to even.  For clocks below 1 GHz a
  quotient that is not a tie stays far from one in double precision, so both roundings agree.
\<close>

section \<open>Rounding and widths\<close>

text \<open>\<^verbatim>\<open>round(a / b)\<close> for positive numbers.\<close>

definition round_div :: "nat \<Rightarrow> nat \<Rightarrow> nat" where
  "round_div a b = (let q = a div b; r = a mod b in
     if 2 * r < b then q else if b < 2 * r then q + 1 else if even q then q else q + 1)"

text \<open>\<^verbatim>\<open>n.bit_length()\<close>\<close>

fun bit_length :: "nat \<Rightarrow> nat" where
  "bit_length n = (if n = 0 then 0 else Suc (bit_length (n div 2)))"

declare bit_length.simps [simp del]

definition derive_idx_width :: "int \<Rightarrow> nat" where
  "derive_idx_width depth = (if depth \<le> 1 then 1 else bit_length (nat (depth - 1)))"

definition derive_clk_wiz_half_div :: "nat \<Rightarrow> nat" where
  "derive_clk_wiz_half_div core_hz = max 1 (round_div 100000000 core_hz)"

definition derive_uart_clk_div :: "nat \<Rightarrow> nat \<Rightarrow> nat" where
  "derive_uart_clk_div core_hz baud = max 1 (round_div core_hz baud)"

section \<open>The environment\<close>

type_synonym environ = "string \<rightharpoonup> string"

definition env_bool :: "environ \<Rightarrow> string \<Rightarrow> bool \<Rightarrow> bool" where
  "env_bool env name dflt = (case env name of
       None \<Rightarrow> dflt
     | Some raw \<Rightarrow> if raw = [] then dflt
         else py_lower (py_strip raw) \<notin> set [''0'', ''false'', ''no'', ''off''])"

text \<open>
  \<^verbatim>\<open>int(raw, 0)\<close>: a prefix chooses the base, and a decimal number has no leading zeros unless it is zero.
\<close>

definition int0_digits :: "string \<Rightarrow> nat option" where
  "int0_digits s = (case s of
       c # x # ds \<Rightarrow>
         if c = CHR ''0'' then
           (let rest = (case ds of d # ds' \<Rightarrow> if d = CHR ''_'' then ds' else ds | [] \<Rightarrow> ds) in
            if x = CHR ''x'' \<or> x = CHR ''X'' then digits_val 16 False 0 rest
            else if x = CHR ''o'' \<or> x = CHR ''O'' then digits_val 8 False 0 rest
            else if x = CHR ''b'' \<or> x = CHR ''B'' then digits_val 2 False 0 rest
            else (case digits_val 10 False 0 s of Some 0 \<Rightarrow> Some 0 | _ \<Rightarrow> None))
         else digits_val 10 False 0 s
     | _ \<Rightarrow> digits_val 10 False 0 s)"

definition py_int0 :: "string \<Rightarrow> int option" where
  "py_int0 raw = (case py_strip raw of
       [] \<Rightarrow> None
     | c # cs \<Rightarrow> if c = CHR ''-'' then map_option (\<lambda>n. - int n) (int0_digits cs)
         else if c = CHR ''+'' then map_option int (int0_digits cs)
         else map_option int (int0_digits (c # cs)))"

text \<open>\<^term>\<open>Inl\<close> is the \<^verbatim>\<open>SystemExit\<close>, with the name and the value its message shows.\<close>

definition env_int :: "environ \<Rightarrow> string \<Rightarrow> int \<Rightarrow> (string \<times> string) + int" where
  "env_int env name dflt = (case env name of
       None \<Rightarrow> Inr dflt
     | Some raw \<Rightarrow> if raw = [] then Inr dflt
         else (case py_int0 raw of Some n \<Rightarrow> Inr n
           | None \<Rightarrow> Inl (name, raw)))"

definition dcache_iverilog_defines :: "string \<Rightarrow> string list" where
  "dcache_iverilog_defines mode =
     (if mode = ''passthrough'' then [''-DDCACHE_PASSTHROUGH=1'']
      else if mode = ''registered-pt'' then [''-DDCACHE_REGISTERED_PT=1'']
      else if mode = ''read-only'' then [''-DDCACHE_READ_ONLY=1''] else [])"

text \<open>\<^verbatim>\<open>os.cpu_count()\<close> may be \<^verbatim>\<open>None\<close>.\<close>

definition default_vivado_jobs :: "environ \<Rightarrow> nat option \<Rightarrow> string" where
  "default_vivado_jobs env cpu_count =
     (let raw = (case env ''AX7203_VIVADO_THREAD_CAP'' of Some s \<Rightarrow> s | None \<Rightarrow> ''8'');
          cap = max 1 (case py_int10 raw of Some n \<Rightarrow> n | None \<Rightarrow> 8);
          cpus = (case cpu_count of Some n \<Rightarrow> if n = 0 then cap else int n | None \<Rightarrow> cap)
      in str_int (max 1 (min cpus cap)))"

text \<open>The settings a script reads once when it is loaded.\<close>

record script_env =
  stream_to_ddr3 :: bool
  wait_drain_per_chunk :: bool
  fpga_dcache_mode :: string
  block_checksum_bytes :: nat

record build_options =
  bo_smt_mode :: int
  bo_fetch_debug :: bool
  bo_bridge_audit :: bool
  bo_step2_beacon_debug :: bool
  bo_loader_beacon_debug :: bool
  bo_loader_block_trace :: bool
  bo_loader_chunk_trace :: bool
  bo_loader_rx_trace :: bool
  bo_uart_baud :: nat
  bo_rom_asm :: "string option"
  bo_rom_march :: "string option"
  bo_uart_rxdata_reg_test :: bool

definition flag01 :: "bool \<Rightarrow> string" where
  "flag01 b = (if b then ''1'' else ''0'')"

text \<open>
  The limits of the chunk trace are read when the tool is started; a value that is no decimal integer is the
  \<^verbatim>\<open>ValueError\<close> that ends the script, here \<^term>\<open>None\<close>, whether the trace is on or not.
\<close>

definition env_or :: "environ \<Rightarrow> string \<Rightarrow> string \<Rightarrow> string" where
  "env_or env name dflt = (case env name of None \<Rightarrow> dflt | Some raw \<Rightarrow> raw)"

definition trace_limits :: "environ \<Rightarrow> (int \<times> int) option" where
  "trace_limits env = (case py_int10 (env_or env ''AX7203_LOADER_CHUNK_TRACE_FIRST_BLOCK'' ''0'') of
       None \<Rightarrow> None
     | Some first \<Rightarrow> (case py_int10 (env_or env ''AX7203_LOADER_CHUNK_TRACE_BLOCK_LIMIT'' ''8'') of
         None \<Rightarrow> None
       | Some limit \<Rightarrow> Some (first, limit)))"

definition rom_defines :: "script_env \<Rightarrow> build_options \<Rightarrow> int \<Rightarrow> int \<Rightarrow> string list" where
  "rom_defines se bo first_block block_limit = map fst (filter snd
     [(''LOADER_BLOCK_TRACE=1'', bo_loader_block_trace bo),
      (''LOADER_CHUNK_TRACE=1'', bo_loader_chunk_trace bo),
      (''LOADER_CHUNK_TRACE_FIRST_BLOCK='' @ str_int (first_block), bo_loader_chunk_trace bo),
      (''LOADER_CHUNK_TRACE_BLOCK_LIMIT='' @ str_int (block_limit), bo_loader_chunk_trace bo),
      (''LOADER_RX_TRACE=1'', bo_loader_rx_trace bo),
      (''LOADER_STREAM_TO_DDR3=1'', stream_to_ddr3 se),
      (''LOADER_WAIT_DRAIN_PER_CHUNK=1'', wait_drain_per_chunk se),
      (''LOADER_BLOCK_CHECKSUM_BYTES='' @ dec_str (block_checksum_bytes se), True)])"

text \<open>
  The clock with one decimal; the tool shows a tie as the binary number next to it falls, here it goes to
  the even digit.
\<close>

definition fmt_mhz1 :: "nat \<Rightarrow> string" where
  "fmt_mhz1 hz = (let t = round_div hz 100000 in dec_str (t div 10) @ ''.'' @ dec_str (t mod 10))"

definition env_settings ::
  "script_env \<Rightarrow> build_options \<Rightarrow> int \<times> int \<Rightarrow> int \<Rightarrow> int \<Rightarrow> nat \<Rightarrow> string \<Rightarrow> (string \<times> string) list" where
  "env_settings se bo limits rs_depth fetch_buffer_depth core_hz loader_rom =
     [(''AX7203_ENABLE_MEM_SUBSYS'', ''1''), (''AX7203_ENABLE_DDR3'', ''1''), (''AX7203_ENABLE_ROCC'', ''0''),
      (''AX7203_SMT_MODE'', str_int (bo_smt_mode bo)),
      (''AX7203_RS_DEPTH'', str_int rs_depth),
      (''AX7203_RS_IDX_W'', dec_str (derive_idx_width rs_depth)),
      (''AX7203_FETCH_BUFFER_DEPTH'', str_int fetch_buffer_depth),
      (''AX7203_CORE_CLK_MHZ'', fmt_mhz1 core_hz),
      (''AX7203_UART_CLK_DIV'', dec_str (derive_uart_clk_div core_hz (bo_uart_baud bo))),
      (''AX7203_ROM_ASM'', loader_rom),
      (''AX7203_TOP_MODULE'', ''sifang_core_ax7203_top''),
      (''AX7203_DDR3_FETCH_DEBUG'', flag01 (bo_fetch_debug bo)),
      (''AX7203_DDR3_BRIDGE_AUDIT'', flag01 (bo_bridge_audit bo)),
      (''AX7203_STEP2_BEACON_DEBUG'', flag01 (bo_step2_beacon_debug bo)),
      (''AX7203_DDR3_LOADER_BEACON_DEBUG'', flag01 (bo_loader_beacon_debug bo)),
      (''AX7203_ROM_DEFINES'', join_with '' '' (rom_defines se bo (fst limits) (snd limits))),
      (''AX7203_TRANSPORT_UART_RXDATA_REG_TEST'', flag01 (bo_uart_rxdata_reg_test bo)),
      (''AX7203_DCACHE_MODE'', fpga_dcache_mode se)]"

definition setdefault :: "string \<Rightarrow> string \<Rightarrow> environ \<Rightarrow> environ" where
  "setdefault k v env = (case env k of None \<Rightarrow> env(k \<mapsto> v) | Some _ \<Rightarrow> env)"

definition set_optional :: "string \<Rightarrow> string option \<Rightarrow> environ \<Rightarrow> environ" where
  "set_optional k v env = (case v of None \<Rightarrow> env | Some x \<Rightarrow> env(k \<mapsto> x))"

definition build_env ::
  "environ \<Rightarrow> nat option \<Rightarrow> script_env \<Rightarrow> build_options \<Rightarrow> int \<Rightarrow> int \<Rightarrow> nat \<Rightarrow> string \<Rightarrow> environ option" where
  "build_env os_environ cpu_count se bo rs_depth fetch_buffer_depth core_hz loader_rom =
     (case trace_limits os_environ of
        None \<Rightarrow> None
      | Some limits \<Rightarrow>
        (let env0 = os_environ ++ map_of (env_settings se bo limits rs_depth fetch_buffer_depth core_hz loader_rom);
             jobs = default_vivado_jobs os_environ cpu_count;
             env1 = setdefault ''AX7203_SYNTH_TIMEOUT_MIN'' ''30'' (setdefault ''AX7203_IMPL_JOBS'' jobs
               (setdefault ''AX7203_SYNTH_JOBS'' jobs (setdefault ''AX7203_MAX_THREADS'' jobs env0)))
         in Some (set_optional ''AX7203_ROM_MARCH'' (bo_rom_march bo)
              (set_optional ''AX7203_ROM_ASM'' (bo_rom_asm bo) env1))))"

section \<open>Bounds\<close>

lemma round_div_bounds:
  assumes "0 < b"
  shows "2 * (round_div a b * b) \<le> 2 * a + b" and "2 * a \<le> 2 * (round_div a b * b) + b"
proof -
  define q r where "q = a div b" and "r = a mod b"
  have a: "a = q * b + r" and r: "r < b"
    using assms by (simp_all add: q_def r_def)
  show "2 * (round_div a b * b) \<le> 2 * a + b" and "2 * a \<le> 2 * (round_div a b * b) + b"
    unfolding round_div_def Let_def q_def [symmetric] r_def [symmetric] using r
    by (auto simp: a algebra_simps)
qed

lemma bit_length_0 [simp]: "bit_length 0 = 0"
  by (simp add: bit_length.simps)

lemma bit_length_bounds: "n < 2 ^ bit_length n \<and> (0 < n \<longrightarrow> 2 ^ (bit_length n - 1) \<le> n)"
proof (induction n rule: bit_length.induct)
  case (1 n)
  show ?case
  proof (cases "n = 0")
    case False
    then have IH: "n div 2 < 2 ^ bit_length (n div 2)" "0 < n div 2 \<Longrightarrow> 2 ^ (bit_length (n div 2) - 1) \<le> n div 2"
      using 1 by blast+
    have eq: "bit_length n = Suc (bit_length (n div 2))"
      using False by (simp add: bit_length.simps [of n])
    have "n < 2 * 2 ^ bit_length (n div 2)"
      using IH(1) by linarith
    moreover have "2 ^ bit_length (n div 2) \<le> n"
    proof (cases "n div 2 = 0")
      case True
      with False show ?thesis by simp
    next
      case pos: False
      then obtain k where k: "bit_length (n div 2) = Suc k"
        by (auto simp: bit_length.simps [of "n div 2"])
      with IH(2) pos have "2 * 2 ^ k \<le> 2 * (n div 2)"
        by simp
      then show ?thesis
        unfolding k by simp
    qed
    ultimately show ?thesis
      unfolding eq by simp
  qed simp
qed

text \<open>
  The derived index width is enough and minimal: a reservation station of two or more entries gets
  the least number of bits that can address every entry, a smaller one gets one bit.
\<close>

theorem idx_width_minimal:
  "derive_idx_width depth = (if depth \<le> 1 then 1 else LEAST w. depth \<le> 2 ^ w)"
proof (cases "depth \<le> 1")
  case False
  define n where "n = nat (depth - 1)"
  have n: "depth = int n + 1" "0 < n"
    using False by (auto simp: n_def)
  have b: "n < 2 ^ bit_length n" "2 ^ (bit_length n - 1) \<le> n"
    using bit_length_bounds [of n] n by auto
  have "(LEAST w. depth \<le> 2 ^ w) = bit_length n"
  proof (rule Least_equality)
    show "depth \<le> 2 ^ bit_length n"
      unfolding n(1) using b(1) by (simp add: add1_zle_eq)
  next
    fix w assume "depth \<le> 2 ^ w"
    then have "int n < 2 ^ w"
      using n(1) by linarith
    then have "n < 2 ^ w"
      by simp
    with b(2) have "(2 :: nat) ^ (bit_length n - 1) < 2 ^ w"
      by linarith
    then have "bit_length n - 1 < w"
      by simp
    then show "bit_length n \<le> w" by simp
  qed
  with False show ?thesis
    by (simp add: derive_idx_width_def n_def)
qed (simp add: derive_idx_width_def)

text \<open>
  The divider of the UART gives a bit rate within half a divider step of the wanted one: the divider
  times the baud rate differs from the clock by at most half the baud rate, or the clock is slower than
  half the baud rate and the divider is one.
\<close>

theorem uart_div_accuracy:
  assumes "0 < baud"
  shows "1 \<le> derive_uart_clk_div core_hz baud
    \<and> 2 * core_hz \<le> 2 * (derive_uart_clk_div core_hz baud * baud) + baud
    \<and> (2 * (derive_uart_clk_div core_hz baud * baud) \<le> 2 * core_hz + baud
       \<or> derive_uart_clk_div core_hz baud = 1 \<and> 2 * core_hz \<le> baud)"
proof (cases "round_div core_hz baud = 0")
  case True
  with round_div_bounds [OF assms, of core_hz] show ?thesis
    by (simp add: derive_uart_clk_div_def)
next
  case False
  with round_div_bounds [OF assms, of core_hz] show ?thesis
    by (simp add: derive_uart_clk_div_def max_def)
qed

lemma uart_div_accuracy_witness: "derive_uart_clk_div 25000000 115200 = 217 \<and> 2 * 25000000 \<le> 2 * (217 * 115200) + (115200 :: nat)"
proof -
  have d: "derive_uart_clk_div 25000000 115200 = 217"
    by (simp add: derive_uart_clk_div_def round_div_def)
  show ?thesis
    using uart_div_accuracy [of 115200 25000000] unfolding d by simp
qed

text \<open>The variables the user may set; the run only supplies a value where there is none.\<close>

definition tunable_vars :: "string list" where
  "tunable_vars = [''AX7203_MAX_THREADS'', ''AX7203_SYNTH_JOBS'', ''AX7203_IMPL_JOBS'', ''AX7203_SYNTH_TIMEOUT_MIN'']"

lemma env_settings_distinct: "distinct (map fst (env_settings se bo limits rs_depth fetch core_hz rom))"
  by (simp add: env_settings_def)

lemma env_settings_keys:
  "k \<in> fst ` set (env_settings se bo limits rs_depth fetch core_hz rom) \<Longrightarrow> k \<notin> set (''AX7203_ROM_MARCH'' # tunable_vars)"
  by (auto simp: env_settings_def tunable_vars_def)

lemma setdefault_other [simp]: "k \<noteq> k' \<Longrightarrow> setdefault k' v env k = env k"
  by (simp add: setdefault_def split: option.split)

lemma setdefault_same: "setdefault k v env k = (case env k of None \<Rightarrow> Some v | Some x \<Rightarrow> Some x)"
  by (simp add: setdefault_def split: option.split)

lemma set_optional_apply: "set_optional k v env k' = (if k' = k \<and> v \<noteq> None then v else env k')"
  by (auto simp: set_optional_def split: option.split)

lemma build_env_apply:
  assumes env: "build_env os_environ cpus se bo rs_depth fetch core_hz rom = Some env"
    and limits: "trace_limits os_environ = Some limits"
  shows "env k = (if k = ''AX7203_ROM_MARCH'' \<and> bo_rom_march bo \<noteq> None then bo_rom_march bo
    else if k = ''AX7203_ROM_ASM'' \<and> bo_rom_asm bo \<noteq> None then bo_rom_asm bo
    else case map_of (env_settings se bo limits rs_depth fetch core_hz rom) k of
      Some v \<Rightarrow> Some v
    | None \<Rightarrow>
       (case os_environ k of Some v \<Rightarrow> Some v
        | None \<Rightarrow> if k = ''AX7203_SYNTH_TIMEOUT_MIN'' then Some ''30''
            else if k \<in> set tunable_vars then Some (default_vivado_jobs os_environ cpus) else None))"
proof -
  let ?s = "env_settings se bo limits rs_depth fetch core_hz rom"
  let ?j = "default_vivado_jobs os_environ cpus"
  let ?e0 = "os_environ ++ map_of ?s"
  let ?e1 = "setdefault ''AX7203_SYNTH_TIMEOUT_MIN'' ''30'' (setdefault ''AX7203_IMPL_JOBS'' ?j
    (setdefault ''AX7203_SYNTH_JOBS'' ?j (setdefault ''AX7203_MAX_THREADS'' ?j ?e0)))"
  have e: "env = set_optional ''AX7203_ROM_MARCH'' (bo_rom_march bo) (set_optional ''AX7203_ROM_ASM'' (bo_rom_asm bo) ?e1)"
    using env unfolding build_env_def limits by (simp add: Let_def)
  have e1: "?e1 k = (case map_of ?s k of
      Some v \<Rightarrow> Some v
    | None \<Rightarrow>
       (case os_environ k of Some v \<Rightarrow> Some v
        | None \<Rightarrow> if k = ''AX7203_SYNTH_TIMEOUT_MIN'' then Some ''30''
            else if k \<in> set tunable_vars then Some ?j else None))"
  proof (cases "k \<in> set tunable_vars")
    case True
    then have none: "map_of ?s k = None"
      using env_settings_keys [of k se bo limits rs_depth fetch core_hz rom] by (auto simp: map_of_eq_None_iff)
    from True consider "k = ''AX7203_MAX_THREADS''" | "k = ''AX7203_SYNTH_JOBS''" | "k = ''AX7203_IMPL_JOBS''"
      | "k = ''AX7203_SYNTH_TIMEOUT_MIN''"
      by (auto simp: tunable_vars_def)
    then show ?thesis
      using none by cases (simp_all add: setdefault_same map_add_def tunable_vars_def split: option.split)
  next
    case False
    then show ?thesis
      by (simp add: tunable_vars_def map_add_def split: option.split)
  qed
  show ?thesis
    unfolding e set_optional_apply e1 by (rule refl)
qed

text \<open>
  What the synthesis tool is started with: every setting of the run, whatever the user's environment
  held under its name, with the program of the boot memory the caller names in place of the loader's; the
  user's own numbers of threads and jobs where there are any, and a value where there is none; and every
  other variable as it was.
\<close>

theorem build_env_settings:
  assumes "build_env os_environ cpus se bo rs_depth fetch core_hz rom = Some env"
  shows "\<exists>limits. trace_limits os_environ = Some limits
    \<and> list_all (\<lambda>(k, v). k = ''AX7203_ROM_ASM'' \<or> env k = Some v)
        (env_settings se bo limits rs_depth fetch core_hz rom)
    \<and> env ''AX7203_ROM_ASM'' = Some (case bo_rom_asm bo of None \<Rightarrow> rom | Some p \<Rightarrow> p)
    \<and> list_all (\<lambda>k. env k \<noteq> None \<and> (os_environ k = None \<or> env k = os_environ k)) tunable_vars
    \<and> (\<forall>k. k \<in> fst ` set (env_settings se bo limits rs_depth fetch core_hz rom)
          \<or> k \<in> set (''AX7203_ROM_MARCH'' # tunable_vars) \<or> env k = os_environ k)"
proof -
  obtain limits where limits: "trace_limits os_environ = Some limits"
    using assms by (auto simp: build_env_def split: option.splits)
  let ?s = "env_settings se bo limits rs_depth fetch core_hz rom"
  note env = build_env_apply [OF assms limits]
  have keys: "map_of ?s k = Some v \<and> k \<notin> set (''AX7203_ROM_MARCH'' # tunable_vars)" if "(k, v) \<in> set ?s" for k v
  proof -
    have "k \<in> fst ` set ?s"
      using that by force
    then show ?thesis
      using that env_settings_distinct env_settings_keys by (intro conjI map_of_is_SomeI) auto
  qed
  have "env k = Some v" if "(k, v) \<in> set ?s" "k \<noteq> ''AX7203_ROM_ASM''" for k v
    using keys [OF that(1)] that(2) by (auto simp: env)
  moreover have "(''AX7203_ROM_ASM'', rom) \<in> set ?s"
    by (simp add: env_settings_def)
  then have "env ''AX7203_ROM_ASM'' = Some (case bo_rom_asm bo of None \<Rightarrow> rom | Some p \<Rightarrow> p)"
    using keys by (auto simp: env split: option.splits)
  moreover have "env k \<noteq> None \<and> (os_environ k = None \<or> env k = os_environ k)" if "k \<in> set tunable_vars" for k
  proof -
    have "map_of ?s k = None" "k \<noteq> ''AX7203_ROM_ASM''" "k \<noteq> ''AX7203_ROM_MARCH''"
      using that env_settings_keys [of k se bo limits rs_depth fetch core_hz rom]
      by (auto simp: map_of_eq_None_iff tunable_vars_def)
    then show ?thesis
      using that by (auto simp: env split: option.splits)
  qed
  moreover have "env k = os_environ k" if "k \<notin> fst ` set ?s" "k \<notin> set (''AX7203_ROM_MARCH'' # tunable_vars)" for k
  proof -
    have "map_of ?s k = None" "k \<noteq> ''AX7203_ROM_ASM''"
      using that(1) by (auto simp: map_of_eq_None_iff env_settings_def)
    then show ?thesis
      using that(2) by (simp add: env tunable_vars_def split: option.split)
  qed
  ultimately show ?thesis
    using limits by (auto simp: list_all_iff)
qed

definition example_env :: script_env where
  "example_env = \<lparr>stream_to_ddr3 = False, wait_drain_per_chunk = False, fpga_dcache_mode = ''read-only'',
     block_checksum_bytes = 1\<rparr>"

definition example_options :: build_options where
  "example_options = \<lparr>bo_smt_mode = 0, bo_fetch_debug = False, bo_bridge_audit = False,
     bo_step2_beacon_debug = False, bo_loader_beacon_debug = True, bo_loader_block_trace = False,
     bo_loader_chunk_trace = False, bo_loader_rx_trace = False, bo_uart_baud = 115200, bo_rom_asm = None,
     bo_rom_march = None, bo_uart_rxdata_reg_test = True\<rparr>"

lemma build_env_settings_witness:
  "case build_env [''AX7203_MAX_THREADS'' \<mapsto> ''2''] (Some 4) example_env example_options 16 8 25000000 ''rom.s'' of
     None \<Rightarrow> False
   | Some env \<Rightarrow> env ''AX7203_MAX_THREADS'' = Some ''2'' \<and> env ''AX7203_ROM_ASM'' = Some ''rom.s''"
proof -
  obtain env where env: "build_env [''AX7203_MAX_THREADS'' \<mapsto> ''2''] (Some 4) example_env example_options 16 8
      25000000 ''rom.s'' = Some env"
  proof -
    have "trace_limits [''AX7203_MAX_THREADS'' \<mapsto> ''2''] = Some (0, 8)"
      by code_simp
    then show ?thesis
      using that by (simp add: build_env_def Let_def)
  qed
  show ?thesis
    using build_env_settings [OF env] unfolding env by (auto simp: tunable_vars_def example_options_def)
qed

end
