(* ===== verification/Flow.thy ===== *)
theory Flow
  imports Config Pattern
begin

text \<open>
  The script flows: what a Python script does with files and with other programs, as a state and
  exception monad.  The programs a script starts (compilers, simulators, the synthesis tool, the capture
  tool, other scripts) are not part of the model: a record of type \<^verbatim>\<open>os\<close> answers for them, as any function
  of what has been run so far, of the command and of the files.  What was run, with its answers in
  order, is part of the state.

  A file is its content as characters below 256: the bytes of a binary file, the text that reading a
  text file gives; directories are not modelled.  The end of the section on plans gives the form in which
  flows are specified: a list of stages, each a command and a check of its log, of which a run
  performs a prefix, going on only past stages that passed.
\<close>

section \<open>The machine\<close>

text \<open>
  The end of a started program: its return code and output, the expiry of its time limit with the
  output so far, or a program that could not be started.
\<close>

datatype run_result = Exited int string | Expired string | Unstarted

record command =
  cmd_args :: "string list"
  cmd_cwd :: "string option"
  cmd_env :: "environ option"
  cmd_log :: string
  cmd_timeout :: "nat option"

datatype action = Ran command run_result | Spawned command bool | Waited nat "int option" | Terminated | Killed

type_synonym file_map = "string \<rightharpoonup> string"

text \<open>The rest of the world: \<^verbatim>\<open>os\<close>, \<^verbatim>\<open>sys\<close>, \<^verbatim>\<open>shutil.which\<close>, \<^verbatim>\<open>subprocess\<close> and the sources in a directory.\<close>

record os =
  repo_root :: string
  sys_executable :: string
  os_environ :: environ
  cpu_count :: "nat option"
  find_exe :: "string \<Rightarrow> string option"
  verilog_in :: "string \<Rightarrow> string list"
  run_cmd :: "action list \<Rightarrow> command \<Rightarrow> file_map \<Rightarrow> run_result \<times> file_map"
  spawn_cmd :: "action list \<Rightarrow> command \<Rightarrow> file_map \<Rightarrow> bool \<times> file_map"
  wait_cmd :: "action list \<Rightarrow> nat \<Rightarrow> file_map \<Rightarrow> int option \<times> file_map"

record machine =
  files :: file_map
  actions :: "action list"

datatype py_exc = SystemExit string | ExitCode int | RuntimeError string | ValueError | KeyError | IndexError | ZeroDivisionError
  | TimeoutExpired | OSError

type_synonym 'a flow = "machine \<Rightarrow> (py_exc + 'a) \<times> machine"

definition give :: "'a \<Rightarrow> 'a flow" where
  "give x m = (Inr x, m)"

definition raise_exc :: "py_exc \<Rightarrow> 'a flow" where
  "raise_exc e m = (Inl e, m)"

definition and_then :: "'a flow \<Rightarrow> ('a \<Rightarrow> 'b flow) \<Rightarrow> 'b flow" where
  "and_then f g m = (case f m of (Inl e, m') \<Rightarrow> (Inl e, m') | (Inr x, m') \<Rightarrow> g x m')"

definition require :: "bool \<Rightarrow> py_exc \<Rightarrow> unit flow" where
  "require b e = (if b then give () else raise_exc e)"

text \<open>\<^verbatim>\<open>path.read_text(...) if path.exists() else None\<close>, \<^verbatim>\<open>write_text\<close> and \<^verbatim>\<open>unlink\<close>\<close>

definition look_file :: "string \<Rightarrow> string option flow" where
  "look_file path m = (Inr (files m path), m)"

definition read_text :: "string \<Rightarrow> string flow" where
  "read_text path m = (case files m path of None \<Rightarrow> (Inl OSError, m) | Some text \<Rightarrow> (Inr text, m))"

definition write_file :: "string \<Rightarrow> string \<Rightarrow> unit flow" where
  "write_file path text m = (Inr (), m\<lparr>files := (files m)(path \<mapsto> text)\<rparr>)"

definition remove_file :: "string \<Rightarrow> unit flow" where
  "remove_file path m = (Inr (), m\<lparr>files := (files m)(path := None)\<rparr>)"

text \<open>A text without a line boundary.\<close>

definition one_line :: "string \<Rightarrow> bool" where
  "one_line s \<longleftrightarrow> list_all (\<lambda>c. \<not> line_end c) s"

lemma splitlines_line: "one_line l \<Longrightarrow> splitlines_aux cur (l @ newline @ s) = (rev cur @ l) # splitlines_aux [] s"
  by (induction l arbitrary: cur) (auto simp: newline_def one_line_def line_end_def split: list.split)

lemma splitlines_render:
  "list_all one_line ls \<Longrightarrow> splitlines (render_lines ls) = ls"
  by (induction ls) (simp_all add: splitlines_def render_lines_Cons splitlines_line)

text \<open>Values printed on a line of their own, and read back with the blanks around them taken off.\<close>

definition plain :: "string \<Rightarrow> bool" where
  "plain s \<longleftrightarrow> one_line s \<and> py_strip s = s"

lemma one_line_append [simp]: "one_line (s @ t) \<longleftrightarrow> one_line s \<and> one_line t"
  by (simp add: one_line_def)

lemma splitlines_one_line: "one_line cur \<Longrightarrow> list_all one_line (splitlines_aux cur s)"
proof (induction cur s rule: splitlines_aux.induct)
  case (2 cur c cs)
  have cur: "one_line (rev cur)"
    using "2.prems" by (simp add: one_line_def)
  show ?case
  proof (cases "line_end c")
    case True
    have nil: "one_line []"
      by (simp add: one_line_def)
    show ?thesis
    proof (cases cs)
      case (Cons d ds)
      have eq: "splitlines_aux cur (c # cs) = rev cur # (if c = CHR 0x0D \<and> d = CHR 0x0A
          then splitlines_aux [] ds else splitlines_aux [] (d # ds))"
        by (simp only: Cons splitlines_aux.simps(2) [of cur c "d # ds"] True if_True list.case)
      have "list_all one_line (if c = CHR 0x0D \<and> d = CHR 0x0A
          then splitlines_aux [] ds else splitlines_aux [] (d # ds))"
        using "2.IH"(2,3) [OF True Cons] nil by (simp only: split: if_split) blast
      then show ?thesis
        unfolding eq by (simp only: list.pred_inject cur simp_thms)
    qed (use True cur in simp)
  next
    case False
    with "2.IH"(4) "2.prems" show ?thesis
      by (simp add: one_line_def)
  qed
qed (simp add: one_line_def)

lemma hd_of_prefix: "t = u @ v \<Longrightarrow> u \<noteq> [] \<Longrightarrow> t \<noteq> [] \<and> hd t = hd u"
  by simp

lemma strip_ends: "py_strip s = [] \<or> \<not> py_space (hd (py_strip s)) \<and> \<not> py_space (last (py_strip s))"
proof (cases "dropWhile py_space (rev (dropWhile py_space s)) = []")
  case False
  let ?t = "dropWhile py_space s" and ?u = "dropWhile py_space (rev (dropWhile py_space s))"
  obtain zs where "rev ?t = zs @ ?u"
    by (metis takeWhile_dropWhile_id)
  then have t: "?t = rev ?u @ rev zs"
    by (metis rev_append rev_rev_ident)
  have "?t \<noteq> [] \<and> hd ?t = hd (rev ?u)"
    by (rule hd_of_prefix [OF t]) (use False in simp)
  then have "\<not> py_space (hd (rev ?u))"
    using hd_dropWhile [of py_space s] by metis
  moreover have "\<not> py_space (last (rev ?u))"
    using hd_dropWhile [of py_space "rev ?t"] False by (simp add: last_rev)
  ultimately show ?thesis
    by (simp add: py_strip_def)
qed (simp add: py_strip_def)

lemma strip_unchanged:
  assumes "s = [] \<or> \<not> py_space (hd s) \<and> \<not> py_space (last s)"
  shows "py_strip s = s"
proof (cases "s = []")
  case False
  with assms have "dropWhile py_space s = s" "dropWhile py_space (rev s) = rev s"
    by (metis dropWhile_eq_self_iff, metis dropWhile_eq_self_iff hd_rev)
  then show ?thesis by (simp add: py_strip_def)
qed (simp add: py_strip_def)

lemma strip_idem [simp]: "py_strip (py_strip s) = py_strip s"
  by (rule strip_unchanged [OF strip_ends])

lemma strip_one_line: "one_line s \<Longrightarrow> one_line (py_strip s)"
  by (auto simp: one_line_def py_strip_def list_all_iff dest!: set_dropWhileD)

lemma plain_strip: "one_line s \<Longrightarrow> plain (py_strip s)"
  by (simp add: plain_def strip_one_line)

lemma plain_ends:
  "plain s \<longleftrightarrow> one_line s \<and> (s = [] \<or> \<not> py_space (hd s) \<and> \<not> py_space (last s))"
  unfolding plain_def using strip_ends [of s] strip_unchanged [of s] by metis

lemma plain_append: "plain s \<Longrightarrow> plain t \<Longrightarrow> plain (s @ t)"
  by (cases "t = []") (auto simp: plain_ends hd_append)

text \<open>Texts without blanks are plain; most of what the scripts print is.\<close>

definition printable :: "string \<Rightarrow> bool" where
  "printable s \<longleftrightarrow> list_all (\<lambda>c. 33 \<le> (of_char c :: nat) \<and> of_char c < (127 :: nat)) s"

lemma printable_plain: "printable s \<Longrightarrow> plain s"
proof -
  assume s: "printable s"
  have c: "\<not> line_end c \<and> \<not> py_space c" if "c \<in> set s" for c
    using s that by (auto simp: printable_def list_all_iff line_end_def py_space_def)
  then have "one_line s"
    by (simp add: one_line_def list_all_iff)
  moreover have "s = [] \<or> hd s \<in> set s \<and> last s \<in> set s"
    by (cases s) auto
  ultimately show ?thesis
    using c by (auto simp: plain_ends)
qed

lemma printable_append [simp]: "printable (s @ t) \<longleftrightarrow> printable s \<and> printable t"
  by (simp add: printable_def)

lemma printable_Nil [simp]: "printable []"
  by (simp add: printable_def)

lemma printable_Cons [simp]: "printable (c # s) \<longleftrightarrow> 33 \<le> (of_char c :: nat) \<and> of_char c < (127 :: nat) \<and> printable s"
  by (simp add: printable_def)

lemma printable_replicate: "printable [c] \<Longrightarrow> printable (replicate n c)"
  by (induction n) auto

lemma printable_hex_digit: "n < 16 \<Longrightarrow> printable [hex_digit n]"
proof -
  assume "n < 16"
  then have "n \<in> set [0..<16]" by simp
  moreover have "list_all (\<lambda>k. printable [hex_digit k]) [0..<16]"
    by code_simp
  ultimately show ?thesis
    by (simp only: list_all_iff)
qed

lemma printable_dec_str [simp]: "printable (dec_str n)"
proof (induction n rule: dec_str.induct)
  case (1 n)
  then show ?case
    using printable_hex_digit [of n] printable_hex_digit [of "n mod 10"]
    by (subst dec_str.simps) (simp del: printable_Cons)
qed

lemma printable_str_int [simp]: "printable (str_int n)"
  by (auto simp: str_int_def)

section \<open>Starting programs\<close>

definition which_required :: "os \<Rightarrow> string list \<Rightarrow> string flow" where
  "which_required os names =
     (case List.map_filter (find_exe os) names of
        exe # _ \<Rightarrow> give exe
      | [] \<Rightarrow> raise_exc (SystemExit (''Missing required executable: one of '' @ join_with '', '' names)))"

definition cmd_text :: "command \<Rightarrow> string" where
  "cmd_text c = join_with '' '' (cmd_args c)"

definition log_header :: "command \<Rightarrow> string" where
  "log_header c = ''$ '' @ cmd_text c @ newline @ newline"

fun output_of :: "run_result \<Rightarrow> string" where
  "output_of (Exited rc out) = out"
| "output_of (Expired out) = out"
| "output_of Unstarted = []"

text \<open>The log of a command as it is once the program has ended.\<close>

definition log_of :: "command \<Rightarrow> run_result \<Rightarrow> string" where
  "log_of c r = log_header c @ output_of r"

text \<open>\<^verbatim>\<open>run_logged\<close> of \<^verbatim>\<open>run_fpga_autodebug.py\<close>, which hands the return code back.\<close>

definition run_logged_rc :: "os \<Rightarrow> command \<Rightarrow> int flow" where
  "run_logged_rc os c m =
     (case run_cmd os (actions m) c ((files m)(cmd_log c \<mapsto> log_header c)) of (r, fs) \<Rightarrow>
        (case r of Exited rc out \<Rightarrow> Inr rc | Expired out \<Rightarrow> Inl TimeoutExpired | Unstarted \<Rightarrow> Inl OSError,
         \<lparr>files = fs(cmd_log c \<mapsto> log_of c r), actions = actions m @ [Ran c r]\<rparr>))"

text \<open>
  \<^verbatim>\<open>run_logged\<close> of the other scripts raises; which exception, with which message, differs and is the
  first parameter.
\<close>

definition run_logged :: "(int \<Rightarrow> command \<Rightarrow> py_exc) \<Rightarrow> os \<Rightarrow> command \<Rightarrow> unit flow" where
  "run_logged exc os c = and_then (run_logged_rc os c) (\<lambda>rc. require (rc = 0) (exc rc c))"

definition runtime_exc :: "int \<Rightarrow> command \<Rightarrow> py_exc" where
  "runtime_exc rc c =
     RuntimeError (''Command failed ('' @ str_int rc @ ''): '' @ cmd_text c @ ''; see '' @ cmd_log c)"

definition system_exit_exc :: "int \<Rightarrow> command \<Rightarrow> py_exc" where
  "system_exit_exc rc c =
     SystemExit (''Command failed ('' @ str_int rc @ ''): '' @ cmd_text c @ newline @ ''See log: '' @ cmd_log c)"

lemma and_then_Inr:
  "and_then f g m = (Inr y, m'') \<longleftrightarrow> (\<exists>x m'. f m = (Inr x, m') \<and> g x m' = (Inr y, m''))"
  by (auto simp: and_then_def split: prod.splits sum.splits)

lemma and_then_Inl:
  "and_then f g m = (Inl e, m'') \<longleftrightarrow> f m = (Inl e, m'') \<or> (\<exists>x m'. f m = (Inr x, m') \<and> g x m' = (Inl e, m''))"
  by (auto simp: and_then_def split: prod.splits sum.splits)

lemma require_Inr: "require b e m = (Inr u, m') \<longleftrightarrow> b \<and> m' = m"
  by (auto simp: require_def give_def raise_exc_def)

lemma give_Inr: "give x m = (Inr y, m') \<longleftrightarrow> y = x \<and> m' = m"
  by (auto simp: give_def)

lemma look_file_Inr: "look_file path m = (Inr y, m') \<longleftrightarrow> y = files m path \<and> m' = m"
  by (auto simp: look_file_def)

lemma write_file_Inr: "write_file path text m = (Inr y, m') \<longleftrightarrow> m' = m\<lparr>files := (files m)(path \<mapsto> text)\<rparr>"
  by (auto simp: write_file_def)

lemmas flow_Inr = and_then_Inr require_Inr give_Inr look_file_Inr write_file_Inr

text \<open>The program a script finds under one of the names; the flow stops where there is none.\<close>

definition exe_of :: "os \<Rightarrow> string list \<Rightarrow> string" where
  "exe_of os names = (case List.map_filter (find_exe os) names of [] \<Rightarrow> [] | exe # _ \<Rightarrow> exe)"

section \<open>Plans\<close>

text \<open>A stage: a command and what its log must show for the flow to go on.\<close>

type_synonym stage = "command \<times> (string \<Rightarrow> bool)"

definition passed :: "stage \<Rightarrow> run_result \<Rightarrow> bool" where
  "passed s r = (case r of Exited rc out \<Rightarrow> rc = 0 \<and> snd s (log_of (fst s) r) | _ \<Rightarrow> False)"

definition any_log :: "string \<Rightarrow> bool" where
  "any_log log = True"

lemma passed_iff: "passed s r \<longleftrightarrow> (\<exists>out. r = Exited 0 out \<and> snd s (log_of (fst s) (Exited 0 out)))"
  by (auto simp: passed_def split: run_result.splits)

text \<open>The actions of a run that performed the first stages of a plan, with these ends.\<close>

definition performed :: "stage list \<Rightarrow> run_result list \<Rightarrow> action list" where
  "performed plan rs = map2 (\<lambda>s. Ran (fst s)) plan rs"

text \<open>
  A run of a flow follows a plan: it runs the commands of the plan in order and nothing else, it
  goes past a stage only when the stage passed, and it returns only when the whole plan passed.
\<close>

definition follows :: "stage list \<Rightarrow> 'a flow \<Rightarrow> bool" where
  "follows plan f \<longleftrightarrow> (\<forall>m. \<exists>rs. length rs \<le> length plan
     \<and> actions (snd (f m)) = actions m @ performed plan rs
     \<and> list_all2 passed (take (length rs - 1) plan) (butlast rs)
     \<and> (\<forall>x. fst (f m) = Inr x \<longrightarrow> length rs = length plan \<and> list_all2 passed plan rs))"

named_theorems follow_rules

lemma followsE:
  assumes "follows plan f"
  obtains rs where "length rs \<le> length plan" "actions (snd (f m)) = actions m @ performed plan rs"
    "list_all2 passed (take (length rs - 1) plan) (butlast rs)"
    "\<And>x. fst (f m) = Inr x \<Longrightarrow> length rs = length plan \<and> list_all2 passed plan rs"
  using assms unfolding follows_def by blast

lemma follows_silent:
  assumes "\<And>m. actions (snd (f m)) = actions m"
  shows "follows [] f"
  unfolding follows_def by (auto simp: assms performed_def)

lemma follows_give [follow_rules]: "follows [] (give x)"
  by (rule follows_silent) (simp add: give_def)

lemma follows_raise [follow_rules]: "follows [] (raise_exc e)"
  by (rule follows_silent) (simp add: raise_exc_def)

lemma follows_raise_any [follow_rules]: "follows plan (raise_exc e)"
  unfolding follows_def raise_exc_def performed_def by (auto intro: exI [of _ "[]"])

lemma follows_require [follow_rules]: "follows [] (require b e)"
  by (simp add: require_def follow_rules)

lemma follows_look [follow_rules]: "follows [] (look_file p)"
  by (rule follows_silent) (simp add: look_file_def)

lemma follows_read [follow_rules]: "follows [] (read_text p)"
  by (rule follows_silent) (simp add: read_text_def split: option.split)

lemma follows_write [follow_rules]: "follows [] (write_file p t)"
  by (rule follows_silent) (simp add: write_file_def)

lemma follows_remove [follow_rules]: "follows [] (remove_file p)"
  by (rule follows_silent) (simp add: remove_file_def)

lemma performed_append:
  "length rs = length p \<Longrightarrow> performed (p @ q) (rs @ ss) = performed p rs @ performed q ss"
  by (simp add: performed_def zip_append)

lemma performed_prefix: "length rs \<le> length p \<Longrightarrow> performed (p @ q) rs = performed p rs"
  by (simp add: performed_def zip_append1)

text \<open>Plans of parts make the plan of the whole; the later part may depend on the value of the first.\<close>

lemma follows_and_then:
  assumes f: "follows p f" and g: "\<And>m x m'. f m = (Inr x, m') \<Longrightarrow> follows q (g x)"
  shows "follows (p @ q) (and_then f g)"
  unfolding follows_def
proof
  fix m
  obtain rs where rs: "length rs \<le> length p" "actions (snd (f m)) = actions m @ performed p rs"
    "list_all2 passed (take (length rs - 1) p) (butlast rs)"
    "\<And>x. fst (f m) = Inr x \<Longrightarrow> length rs = length p \<and> list_all2 passed p rs"
    using followsE [OF f] by metis
  obtain r m' where fm: "f m = (r, m')" by (cases "f m")
  let ?P = "\<lambda>rs. length rs \<le> length (p @ q)
     \<and> actions (snd (and_then f g m)) = actions m @ performed (p @ q) rs
     \<and> list_all2 passed (take (length rs - 1) (p @ q)) (butlast rs)
     \<and> (\<forall>x. fst (and_then f g m) = Inr x \<longrightarrow> length rs = length (p @ q) \<and> list_all2 passed (p @ q) rs)"
  show "\<exists>rs. ?P rs"
  proof (cases r)
    case (Inl e)
    with rs fm have "?P rs"
      by (simp add: and_then_def performed_prefix take_append)
    then show ?thesis ..
  next
    case (Inr x)
    with rs(4) fm have len: "length rs = length p" and ok: "list_all2 passed p rs" by auto
    obtain ss where ss: "length ss \<le> length q" "actions (snd (g x m')) = actions m' @ performed q ss"
      "list_all2 passed (take (length ss - 1) q) (butlast ss)"
      "\<And>y. fst (g x m') = Inr y \<Longrightarrow> length ss = length q \<and> list_all2 passed q ss"
      using followsE [OF g [OF fm [unfolded Inr]]] by metis
    have but: "list_all2 passed (take (length (rs @ ss) - 1) (p @ q)) (butlast (rs @ ss))"
    proof (cases "ss = []")
      case True
      then show ?thesis using rs(3) len by (simp add: take_append)
    next
      case False
      then show ?thesis
        using ss(3) ok len by (cases ss) (auto simp: butlast_append take_append intro: list_all2_appendI)
    qed
    have "?P (rs @ ss)"
      using rs ss fm Inr len ok but
      by (simp add: and_then_def performed_append list_all2_appendI)
    then show ?thesis ..
  qed
qed

lemma follows_then_silent:
  assumes "follows p f" and "\<And>x. follows [] (g x)"
  shows "follows p (and_then f g)"
  using follows_and_then [of p f "[]" g] assms by simp

lemma follows_silent_then:
  assumes "follows [] f" and "\<And>x. follows p (g x)"
  shows "follows p (and_then f g)"
  using follows_and_then [of "[]" f p g] assms by simp

lemma follows_which [follow_rules]: "follows [] (which_required os names)"
  unfolding which_required_def by (auto intro: follow_rules split: list.split)

lemma run_logged_cases:
  obtains (passed) fs out where "run_logged exc os c m = (Inr (), \<lparr>files = fs(cmd_log c \<mapsto> log_of c (Exited 0 out)),
        actions = actions m @ [Ran c (Exited 0 out)]\<rparr>)"
    | (failed) e m' r where "run_logged exc os c m = (Inl e, m')" "actions m' = actions m @ [Ran c r]"
proof -
  obtain r fs where r: "run_cmd os (actions m) c ((files m)(cmd_log c \<mapsto> log_header c)) = (r, fs)"
    by fastforce
  show thesis
  proof (cases r)
    case (Exited rc out)
    then show thesis
      using passed [of fs out] failed r
      by (cases "rc = 0") (auto simp: run_logged_def run_logged_rc_def and_then_def require_def give_def raise_exc_def)
  qed (use failed r in \<open>auto simp: run_logged_def run_logged_rc_def and_then_def\<close>)
qed

text \<open>The log of a stage is read and looked at: the check of the plan is what the rest lets through.\<close>

lemma follows_checked:
  assumes g: "\<And>t m. actions (snd (g t m)) = actions m"
    and chk: "\<And>t m x. fst (g t m) = Inr x \<Longrightarrow> chk t"
  shows "follows [(c, chk)] (and_then (run_logged exc os c) (\<lambda>_. and_then (read_text (cmd_log c)) g))"
  unfolding follows_def
proof
  fix m
  let ?f = "and_then (run_logged exc os c) (\<lambda>_. and_then (read_text (cmd_log c)) g)"
  show "\<exists>rs. length rs \<le> length [(c, chk)] \<and> actions (snd (?f m)) = actions m @ performed [(c, chk)] rs
     \<and> list_all2 passed (take (length rs - 1) [(c, chk)]) (butlast rs)
     \<and> (\<forall>x. fst (?f m) = Inr x \<longrightarrow> length rs = length [(c, chk)] \<and> list_all2 passed [(c, chk)] rs)"
  proof (cases rule: run_logged_cases [of exc os c m])
    case (passed fs out)
    then show ?thesis
      using chk by (intro exI [of _ "[Exited 0 out]"])
        (auto simp: and_then_def read_text_def g performed_def passed_def)
  next
    case (failed e m' r)
    then show ?thesis
      by (intro exI [of _ "[r]"]) (auto simp: and_then_def performed_def)
  qed
qed

lemma follows_run [follow_rules]: "follows [(c, any_log)] (run_logged exc os c)"
  unfolding follows_def
proof
  fix m
  show "\<exists>rs. length rs \<le> length [(c, any_log)] \<and> actions (snd (run_logged exc os c m)) = actions m @ performed [(c, any_log)] rs
     \<and> list_all2 passed (take (length rs - 1) [(c, any_log)]) (butlast rs)
     \<and> (\<forall>x. fst (run_logged exc os c m) = Inr x \<longrightarrow> length rs = length [(c, any_log)] \<and> list_all2 passed [(c, any_log)] rs)"
  proof (cases rule: run_logged_cases [of exc os c m])
    case (passed fs out)
    then show ?thesis
      by (intro exI [of _ "[Exited 0 out]"]) (auto simp: performed_def passed_def any_log_def)
  next
    case (failed e m' r)
    then show ?thesis
      by (intro exI [of _ "[r]"]) (auto simp: performed_def)
  qed
qed

text \<open>What following a plan gives: whatever was run, everything before it had passed.\<close>

lemma follows_safe:
  assumes f: "follows plan f" and m: "actions m = []" and i: "i < length (actions (snd (f m)))" and j: "j < i"
  shows "i < length plan \<and> (\<exists>r. actions (snd (f m)) ! i = Ran (fst (plan ! i)) r)
    \<and> (\<exists>r. actions (snd (f m)) ! j = Ran (fst (plan ! j)) r \<and> passed (plan ! j) r)"
proof -
  obtain rs where rs: "length rs \<le> length plan" "actions (snd (f m)) = performed plan rs"
    "list_all2 passed (take (length rs - 1) plan) (butlast rs)"
    using followsE [OF f, of m] m by (metis append_Nil)
  have len: "length (performed plan rs) = length rs"
    using rs(1) by (simp add: performed_def)
  have nth: "performed plan rs ! k = Ran (fst (plan ! k)) (rs ! k)" if "k < length rs" for k
    using that rs(1) by (simp add: performed_def)
  have "passed (plan ! j) (rs ! j)"
    using list_all2_nthD2 [OF rs(3), of j] i j rs(2) len by (simp add: nth_butlast)
  then show ?thesis
    using i j rs(1,2) len nth by auto
qed

lemma follows_complete:
  assumes f: "follows plan f" and m: "actions m = []" and ok: "f m = (Inr x, m')"
  shows "\<exists>rs. actions m' = performed plan rs \<and> list_all2 passed plan rs"
  using followsE [OF f, of m] m ok by (metis append_Nil fst_conv snd_conv)

lemma follows_with_exe:
  assumes "follows p (g (exe_of os names))"
  shows "follows p (and_then (which_required os names) g)"
proof -
  have "follows ([] @ p) (and_then (which_required os names) g)"
    using assms by (intro follows_and_then follows_which)
      (auto simp: which_required_def exe_of_def give_def raise_exc_def split: list.splits)
  then show ?thesis by simp
qed

lemma follows_run_then:
  assumes "\<And>x. follows p (g x)"
  shows "follows ((c, any_log) # p) (and_then (run_logged exc os c) g)"
  using follows_and_then [OF follows_run, where q = p and g = g] assms by (simp add: append_Cons)

lemma follows_stage_then:
  assumes "follows [s] f" and "\<And>x. follows p (g x)"
  shows "follows (s # p) (and_then f g)"
  using follows_and_then [OF assms(1), where q = p and g = g] assms(2) by simp

lemma performed_all:
  assumes "length rs = length plan" and "s \<in> set plan"
  shows "\<exists>r. Ran (fst s) r \<in> set (performed plan rs)"
proof -
  obtain i where "i < length plan" "plan ! i = s"
    using assms(2) by (auto simp: in_set_conv_nth)
  then have "performed plan rs ! i = Ran (fst s) (rs ! i)" "i < length (performed plan rs)"
    using assms(1) by (simp_all add: performed_def)
  then show ?thesis
    by (metis nth_mem)
qed

section \<open>Runs that end well\<close>

definition succeeds :: "'a flow \<Rightarrow> machine \<Rightarrow> bool" where
  "succeeds f m \<longleftrightarrow> (\<exists>x m'. f m = (Inr x, m'))"

lemma succeeds_and_then:
  assumes "succeeds f m" and "\<And>x m'. f m = (Inr x, m') \<Longrightarrow> succeeds (g x) m'"
  shows "succeeds (and_then f g) m"
  using assms unfolding succeeds_def by (auto simp: and_then_Inr)

lemma succeeds_simple [simp]: "succeeds (give x) m" "succeeds (look_file path) m" "succeeds (write_file path t) m"
  "succeeds (remove_file path) m" "succeeds (require b e) m \<longleftrightarrow> b"
  by (auto simp: succeeds_def give_def look_file_def write_file_def remove_file_def require_def raise_exc_def)

lemma succeeds_which: "succeeds (which_required os names) m \<longleftrightarrow> List.map_filter (find_exe os) names \<noteq> []"
  by (auto simp: succeeds_def which_required_def give_def raise_exc_def split: list.split)

lemma run_logged_ok:
  assumes "run_cmd os (actions m) c ((files m)(cmd_log c \<mapsto> log_header c)) = (Exited 0 out, fs)"
  shows "run_logged exc os c m
    = (Inr (), \<lparr>files = fs(cmd_log c \<mapsto> log_of c (Exited 0 out)), actions = actions m @ [Ran c (Exited 0 out)]\<rparr>)"
  using assms by (simp add: run_logged_def run_logged_rc_def and_then_def require_def give_def)

lemma run_logged_world:
  assumes "run_logged exc os c m = (Inr u, m')"
  obtains out fs where "run_cmd os (actions m) c ((files m)(cmd_log c \<mapsto> log_header c)) = (Exited 0 out, fs)"
    "m' = \<lparr>files = fs(cmd_log c \<mapsto> log_of c (Exited 0 out)), actions = actions m @ [Ran c (Exited 0 out)]\<rparr>"
proof -
  obtain r fs where r: "run_cmd os (actions m) c ((files m)(cmd_log c \<mapsto> log_header c)) = (r, fs)"
    by fastforce
  then obtain out where "r = Exited 0 out"
    using assms by (cases r) (auto simp: run_logged_def run_logged_rc_def and_then_def require_def raise_exc_def split: if_splits)
  with r show thesis
    using assms by (intro that [of out fs])
      (auto simp: run_logged_def run_logged_rc_def and_then_def require_def give_def)
qed

end
