(* ===== verification/Feedback.thy ===== *)
theory Feedback
  imports Flow
begin

text \<open>
  \<^verbatim>\<open>run_board_feedback.py\<close>: the board bring-up flow, from the simulation of the top level over synthesis
  and programming to the capture of what the board sends, with its summary file.

  A clock is a whole number of hertz; the message of a clock that is not positive does not show it.
\<close>

section \<open>Profiles and arguments\<close>

record profile =
  p_top :: string
  p_tb :: string
  p_tb_file :: string
  p_rom :: "string option"
  p_expect_token :: string
  p_send_text :: string
  p_expect_text :: string
  p_send_delay_ms :: int
  p_mem_subsys :: bool
  p_ddr3 :: bool
  p_rxdata_reg_test :: bool
  p_rom_defines :: "string list"

definition in_dir :: "string \<Rightarrow> string \<Rightarrow> string" where
  "in_dir dir name = dir @ ''/'' @ name"

definition rom_file :: "os \<Rightarrow> string \<Rightarrow> string" where
  "rom_file os name = in_dir (in_dir (repo_root os) ''rom'') name"

definition comp_test_file :: "os \<Rightarrow> string \<Rightarrow> string" where
  "comp_test_file os name = in_dir (in_dir (repo_root os) ''comp_test'') name"

definition build_file :: "os \<Rightarrow> string \<Rightarrow> string" where
  "build_file os name = in_dir (in_dir (repo_root os) ''build'') name"

definition plain_profile :: "os \<Rightarrow> string \<Rightarrow> string \<Rightarrow> string option \<Rightarrow> string \<Rightarrow> profile" where
  "plain_profile os dut tb rom token = \<lparr>p_top = dut, p_tb = tb, p_tb_file = comp_test_file os (tb @ ''.sv''),
     p_rom = map_option (rom_file os) rom, p_expect_token = token, p_send_text = [], p_expect_text = [],
     p_send_delay_ms = 0, p_mem_subsys = False, p_ddr3 = False, p_rxdata_reg_test = False, p_rom_defines = []\<rparr>"

definition echo_profile :: "profile \<Rightarrow> profile" where
  "echo_profile p = p\<lparr>p_send_text := ''Z'', p_expect_text := ''Z'', p_send_delay_ms := 800\<rparr>"

definition PROFILES :: "os \<Rightarrow> (string \<times> profile) list" where
  "PROFILES os =
    [(''core_diag'', plain_profile os ''sifang_core_ax7203_top'' ''tb_ax7203_top_smoke''
        (Some ''test_fpga_uart_board_diag_gap.s'') ''[AX7203_TOP] PASS''),
     (''core_status'', plain_profile os ''sifang_core_ax7203_status_top'' ''tb_ax7203_status_top_smoke''
        (Some ''test_fpga_uart_board_diag_pollsafe.s'') ''[AX7203_STATUS] PASS''),
     (''issue_probe'', plain_profile os ''sifang_core_ax7203_issue_probe_top'' ''tb_ax7203_issue_probe_smoke''
        (Some ''test_fpga_uart_board_diag_pollsafe.s'') ''[AX7203_ISSUE_PROBE] PASS''),
     (''branch_probe'', plain_profile os ''sifang_core_ax7203_branch_probe_top'' ''tb_ax7203_branch_probe_smoke''
        (Some ''test_fpga_uart_board_diag_pollsafe.s'') ''[AX7203_BRANCH_PROBE] PASS''),
     (''main_bridge_probe'', plain_profile os ''sifang_core_ax7203_main_bridge_probe_top''
        ''tb_ax7203_main_bridge_probe_smoke'' (Some ''test_fpga_uart_board_diag.s'') ''[AX7203_MAIN_BRIDGE_PROBE] PASS''),
     (''io_smoke'', plain_profile os ''sifang_core_ax7203_io_smoke_top'' ''tb_ax7203_io_smoke''
        None ''[AX7203_IO_SMOKE] PASS''),
     (''uart_echo'', echo_profile (plain_profile os ''sifang_core_ax7203_top'' ''tb_ax7203_uart_echo_smoke''
        (Some ''test_fpga_uart_echo.s'') ''[AX7203_UART_ECHO] PASS'')),
     (''uart16550_echo'', (echo_profile (plain_profile os ''sifang_core_ax7203_top'' ''tb_ax7203_uart_echo_smoke''
        (Some ''test_fpga_uart16550_echo.s'') ''[AX7203_UART_ECHO] PASS''))
          \<lparr>p_mem_subsys := True, p_ddr3 := False, p_rxdata_reg_test := True, p_rom_defines := [''SIM_BUILD=1'']\<rparr>),
     (''uart_echo_raw'', echo_profile (plain_profile os ''sifang_core_ax7203_uart_echo_raw_top''
        ''tb_ax7203_uart_echo_raw_smoke'' None ''[AX7203_UART_ECHO_RAW] PASS''))]"

record feedback_args =
  fa_profile :: string
  fa_port :: string
  fa_capture_seconds :: int
  fa_rom :: "string option"
  fa_allow_empty_serial :: bool
  fa_send_text :: string
  fa_send_hex :: string
  fa_expect_text :: string
  fa_rs_depth :: int
  fa_fetch_buffer_depth :: int
  fa_core_hz :: int

text \<open>\<^verbatim>\<open>--profile\<close> only accepts the names of the table.\<close>

definition feedback_profile :: "os \<Rightarrow> feedback_args \<Rightarrow> profile option" where
  "feedback_profile os a = map_option
     (\<lambda>p. case fa_rom a of None \<Rightarrow> p | Some rom \<Rightarrow> p\<lparr>p_rom := Some rom\<rparr>)
     (map_of (PROFILES os) (fa_profile a))"

section \<open>Commands\<close>

definition feedback_logs :: "os \<Rightarrow> feedback_args \<Rightarrow> string" where
  "feedback_logs os a = build_file os (''board_feedback_'' @ fa_profile a)"

definition rom_command :: "os \<Rightarrow> feedback_args \<Rightarrow> profile \<Rightarrow> string \<Rightarrow> command" where
  "rom_command os a p rom =
     \<lparr>cmd_args = [sys_executable os, in_dir (repo_root os) ''fpga/scripts/build_rom_image.py'', ''--asm'', rom]
        @ (if p_mem_subsys p then [''--merge-mem-subsys''] else [])
        @ concat (map (\<lambda>d. [''--define'', d]) (p_rom_defines p)),
      cmd_cwd = Some (repo_root os), cmd_env = None,
      cmd_log = in_dir (feedback_logs os a) ''01_build_rom.log'', cmd_timeout = None\<rparr>"

definition sim_binary :: "os \<Rightarrow> profile \<Rightarrow> string" where
  "sim_binary os p = comp_test_file os (''out_iverilog/bin/'' @ p_tb p @ ''.out'')"

definition compile_command :: "os \<Rightarrow> feedback_args \<Rightarrow> profile \<Rightarrow> string \<Rightarrow> nat \<Rightarrow> nat \<Rightarrow> command" where
  "compile_command os a p iverilog half_div clk_div =
     \<lparr>cmd_args = [iverilog, ''-g2012'', ''-DFPGA_MODE=1'',
          ''-DENABLE_MEM_SUBSYS='' @ flag01 (p_mem_subsys p), ''-DENABLE_ROCC_ACCEL=0'', ''-DSMT_MODE=0'']
        @ (if p_ddr3 p then [''-DENABLE_DDR3=1''] else [])
        @ (if p_rxdata_reg_test p then [''-DTRANSPORT_UART_RXDATA_REG_TEST=1''] else [])
        @ [''-DFPGA_SCOREBOARD_RS_DEPTH='' @ str_int (fa_rs_depth a),
           ''-DFPGA_SCOREBOARD_RS_IDX_W='' @ dec_str (derive_idx_width (fa_rs_depth a)),
           ''-DFPGA_FETCH_BUFFER_DEPTH='' @ str_int (fa_fetch_buffer_depth a),
           ''-DFPGA_CLK_WIZ_HALF_DIV='' @ dec_str half_div, ''-DFPGA_UART_CLK_DIV='' @ dec_str clk_div,
           ''-s'', p_tb p, ''-o'', sim_binary os p,
           ''-I'', in_dir (repo_root os) ''rtl'', ''-I'', in_dir (repo_root os) ''fpga/rtl'']
        @ verilog_in os (in_dir (repo_root os) ''rtl'') @ verilog_in os (in_dir (repo_root os) ''fpga/rtl'')
        @ [in_dir (repo_root os) ''libs/REG_ARRAY/SRAM/ram_bfm.v'', comp_test_file os ''clk_wiz_0_stub.v'',
           comp_test_file os ''ibufgds_stub.v'', p_tb_file p],
      cmd_cwd = Some (repo_root os), cmd_env = None,
      cmd_log = in_dir (feedback_logs os a) ''02_compile_top_sim.log'', cmd_timeout = Some 300\<rparr>"

definition sim_command :: "os \<Rightarrow> feedback_args \<Rightarrow> profile \<Rightarrow> string \<Rightarrow> command" where
  "sim_command os a p vvp =
     \<lparr>cmd_args = [vvp, sim_binary os p],
      cmd_cwd = Some (case p_rom p of None \<Rightarrow> repo_root os | Some _ \<Rightarrow> in_dir (repo_root os) ''rom''),
      cmd_env = None, cmd_log = in_dir (feedback_logs os a) ''03_run_top_sim.log'', cmd_timeout = Some 300\<rparr>"

definition vivado_command :: "os \<Rightarrow> feedback_args \<Rightarrow> string \<Rightarrow> string \<Rightarrow> environ \<Rightarrow> string \<Rightarrow> nat \<Rightarrow> command" where
  "vivado_command os a vivado script env step timeout =
     \<lparr>cmd_args = [vivado, ''-mode'', ''batch'', ''-source'', in_dir (in_dir (repo_root os) ''fpga'') script],
      cmd_cwd = Some (repo_root os), cmd_env = Some env,
      cmd_log = in_dir (feedback_logs os a) (step @ ''.log''), cmd_timeout = Some timeout\<rparr>"

definition uart_capture_file :: "os \<Rightarrow> feedback_args \<Rightarrow> string" where
  "uart_capture_file os a = build_file os (''ax7203_'' @ fa_profile a @ ''_uart_capture.txt'')"

definition capture_command :: "os \<Rightarrow> feedback_args \<Rightarrow> string \<Rightarrow> string \<Rightarrow> int \<Rightarrow> command" where
  "capture_command os a powershell send_text delay_ms =
     \<lparr>cmd_args = [powershell, ''-ExecutionPolicy'', ''Bypass'', ''-File'',
          in_dir (repo_root os) ''fpga/scripts/capture_uart_once.ps1'', ''-Port'', fa_port a,
          ''-OutFile'', uart_capture_file os a, ''-Seconds'', str_int (fa_capture_seconds a)]
        @ (if send_text \<noteq> [] then [''-SendText'', send_text] else [])
        @ (if fa_send_hex a \<noteq> [] then [''-SendHex'', fa_send_hex a] else [])
        @ (if delay_ms \<noteq> 0 then [''-SendDelayMs'', str_int delay_ms] else []),
      cmd_cwd = Some (repo_root os), cmd_env = None,
      cmd_log = in_dir (feedback_logs os a) ''07_capture_uart.log'',
      cmd_timeout = Some (nat (max 60 (fa_capture_seconds a + 30)))\<rparr>"

text \<open>The clock with three decimals.\<close>

definition fmt_mhz3 :: "int \<Rightarrow> string" where
  "fmt_mhz3 hz = (let k = round_div (nat hz) 1000; d = dec_str (k mod 1000)
     in dec_str (k div 1000) @ ''.'' @ replicate (3 - length d) (CHR ''0'') @ d)"

definition feedback_env :: "os \<Rightarrow> feedback_args \<Rightarrow> profile \<Rightarrow> nat \<Rightarrow> environ" where
  "feedback_env os a p clk_div =
     (let env = (os_environ os)(
            ''AX7203_ENABLE_MEM_SUBSYS'' \<mapsto> flag01 (p_mem_subsys p),
            ''AX7203_ENABLE_DDR3'' \<mapsto> flag01 (p_ddr3 p),
            ''AX7203_TRANSPORT_UART_RXDATA_REG_TEST'' \<mapsto> flag01 (p_rxdata_reg_test p),
            ''AX7203_ENABLE_ROCC'' \<mapsto> ''0'', ''AX7203_SMT_MODE'' \<mapsto> ''0'',
            ''AX7203_RS_DEPTH'' \<mapsto> str_int (fa_rs_depth a),
            ''AX7203_RS_IDX_W'' \<mapsto> dec_str (derive_idx_width (fa_rs_depth a)),
            ''AX7203_FETCH_BUFFER_DEPTH'' \<mapsto> str_int (fa_fetch_buffer_depth a),
            ''AX7203_CORE_CLK_MHZ'' \<mapsto> fmt_mhz3 (fa_core_hz a),
            ''AX7203_UART_CLK_DIV'' \<mapsto> dec_str clk_div);
          jobs = default_vivado_jobs (os_environ os) (cpu_count os);
          env = setdefault ''AX7203_IMPL_JOBS'' jobs (setdefault ''AX7203_SYNTH_JOBS'' jobs
            (setdefault ''AX7203_MAX_THREADS'' jobs env));
          env = env(''AX7203_TOP_MODULE'' \<mapsto> p_top p)
      in set_optional ''AX7203_ROM_ASM'' (p_rom p) env)"

section \<open>The steps\<close>

definition positive_clock :: "(string \<Rightarrow> py_exc) \<Rightarrow> int \<Rightarrow> nat flow" where
  "positive_clock exc hz = (if hz \<le> 0 then raise_exc (exc ''Core clock must be positive'') else give (nat hz))"

definition run_top_sim :: "os \<Rightarrow> feedback_args \<Rightarrow> profile \<Rightarrow> string flow" where
  "run_top_sim os a p =
     and_then (case p_rom p of
         None \<Rightarrow> give ()
       | Some rom \<Rightarrow> run_logged system_exit_exc os (rom_command os a p rom)) (\<lambda>_.
     and_then (which_required os [''iverilog'']) (\<lambda>iverilog.
     and_then (positive_clock SystemExit (fa_core_hz a)) (\<lambda>hz.
     and_then (run_logged system_exit_exc os
       (compile_command os a p iverilog (derive_clk_wiz_half_div hz) (derive_uart_clk_div hz 115200))) (\<lambda>_.
     and_then (which_required os [''vvp'']) (\<lambda>vvp.
     and_then (run_logged system_exit_exc os (sim_command os a p vvp)) (\<lambda>_.
     and_then (read_text (cmd_log (sim_command os a p vvp))) (\<lambda>sim_text.
     and_then (require (contains_text (p_expect_token p) sim_text)
       (SystemExit (''Top-level simulation did not reach PASS token. See log: '' @ cmd_log (sim_command os a p vvp)))) (\<lambda>_.
     give (cmd_log (sim_command os a p vvp))))))))))"

definition run_vivado :: "os \<Rightarrow> feedback_args \<Rightarrow> string \<Rightarrow> environ \<Rightarrow> string \<Rightarrow> nat \<Rightarrow> string flow" where
  "run_vivado os a script env step timeout =
     and_then (which_required os [''vivado.bat'', ''vivado'']) (\<lambda>vivado.
     and_then (run_logged system_exit_exc os (vivado_command os a vivado script env step timeout)) (\<lambda>_.
     give (cmd_log (vivado_command os a vivado script env step timeout))))"

text \<open>\<^verbatim>\<open>parse_build_id\<close>: the text after \<^verbatim>\<open>BUILD_ID=\<close> in the first line that starts with it.\<close>

definition bitstream_build_id :: "string \<Rightarrow> string option" where
  "bitstream_build_id text = (case filter (\<lambda>l. take 9 l = ''BUILD_ID='') (splitlines text) of
       [] \<Rightarrow> None
     | l # _ \<Rightarrow> Some (py_strip (drop 9 l)))"

definition require_build_id :: "string \<Rightarrow> string flow" where
  "require_build_id path = and_then (look_file path) (\<lambda>text. case text of
       None \<Rightarrow> raise_exc (SystemExit (''Missing build manifest: '' @ path))
     | Some t \<Rightarrow> (case bitstream_build_id t of
           None \<Rightarrow> raise_exc (SystemExit (''Failed to parse BUILD_ID from '' @ path))
         | Some bid \<Rightarrow> give bid))"

definition capture_uart :: "os \<Rightarrow> feedback_args \<Rightarrow> string \<Rightarrow> int \<Rightarrow> string flow" where
  "capture_uart os a send_text delay_ms =
     and_then (which_required os [''powershell'']) (\<lambda>powershell.
     and_then (run_logged system_exit_exc os (capture_command os a powershell send_text delay_ms)) (\<lambda>_.
     give (cmd_log (capture_command os a powershell send_text delay_ms))))"

definition build_id_file :: "os \<Rightarrow> profile \<Rightarrow> string" where
  "build_id_file os p = build_file os (in_dir ''ax7203''
     (if p_top p = ''sifang_core_ax7203_top'' then ''sifang_core_ax7203_bitstream_id.txt''
      else ''sifang_core_ax7203_'' @ p_top p @ ''_bitstream_id.txt''))"

text \<open>The length of the UTF-8 encoding of a text of characters below 256.\<close>

definition utf8_length :: "string \<Rightarrow> nat" where
  "utf8_length s = sum_list (map (\<lambda>c. if of_char c < (128 :: nat) then 1 else 2) s)"

definition first_text :: "string \<Rightarrow> string \<Rightarrow> string" where
  "first_text s t = (if s \<noteq> [] then s else t)"

record feedback_outcome =
  fo_env :: environ
  fo_clk_div :: nat
  fo_build_id :: string
  fo_sim_log :: string
  fo_program_log :: string
  fo_capture_log :: string
  fo_uart_text :: string

definition feedback_expect :: "feedback_args \<Rightarrow> profile \<Rightarrow> string" where
  "feedback_expect a p = first_text (fa_expect_text a) (p_expect_text p)"

definition feedback_fields :: "os \<Rightarrow> feedback_args \<Rightarrow> profile \<Rightarrow> feedback_outcome \<Rightarrow> (string \<times> string) list" where
  "feedback_fields os a p fo =
     [(''Profile'', fa_profile a), (''TopModule'', p_top p), (''RSDepth'', str_int (fa_rs_depth a)),
      (''RSIdxW'', dec_str (derive_idx_width (fa_rs_depth a))),
      (''FetchBufferDepth'', str_int (fa_fetch_buffer_depth a)), (''CoreClkMHz'', fmt_mhz3 (fa_core_hz a)),
      (''UartClkDiv'', dec_str (fo_clk_div fo)),
      (''MaxThreads'', env_or (fo_env fo) ''AX7203_MAX_THREADS'' []),
      (''SynthJobs'', env_or (fo_env fo) ''AX7203_SYNTH_JOBS'' []),
      (''ImplJobs'', env_or (fo_env fo) ''AX7203_IMPL_JOBS'' []),
      (''BuildID'', fo_build_id fo), (''SimulationLog'', fo_sim_log fo), (''ProgramLog'', fo_program_log fo),
      (''CaptureLog'', fo_capture_log fo), (''UartCapture'', uart_capture_file os a),
      (''UartBytes'', dec_str (utf8_length (fo_uart_text fo))), (''ExpectText'', feedback_expect a p)]"

definition summary_line :: "string \<times> string \<Rightarrow> string" where
  "summary_line kv = fst kv @ '': '' @ snd kv"

definition summary_text :: "(string \<times> string) list \<Rightarrow> string" where
  "summary_text kvs = join_with newline (map summary_line kvs) @ newline"

definition feedback_summary :: "os \<Rightarrow> feedback_args \<Rightarrow> string" where
  "feedback_summary os a = in_dir (feedback_logs os a) ''summary.txt''"

section \<open>The flow\<close>

text \<open>\<^verbatim>\<open>main\<close> after the arguments: the value is the path it prints, and the return code is then 0.\<close>

definition feedback_board :: "os \<Rightarrow> feedback_args \<Rightarrow> profile \<Rightarrow> environ \<Rightarrow> nat \<Rightarrow> string \<Rightarrow> feedback_outcome flow" where
  "feedback_board os a p env clk_div sim_log =
     and_then (run_vivado os a ''create_project_ax7203.tcl'' env ''04_create_project'' 600) (\<lambda>_.
     and_then (run_vivado os a ''run_ax7203_synth.tcl'' env ''05_run_synth'' 1200) (\<lambda>_.
     and_then (run_vivado os a ''build_ax7203_bitstream.tcl'' env ''06_build_bitstream'' 7200) (\<lambda>_.
     and_then (remove_file (uart_capture_file os a)) (\<lambda>_.
     and_then (require_build_id (build_id_file os p)) (\<lambda>bid.
     and_then (run_vivado os a ''program_ax7203_jtag.tcl'' env ''07_program_jtag'' 600) (\<lambda>program_log.
     and_then (capture_uart os a (first_text (fa_send_text a) (p_send_text p)) (p_send_delay_ms p)) (\<lambda>capture_log.
     and_then (look_file (uart_capture_file os a)) (\<lambda>uart.
     give \<lparr>fo_env = env, fo_clk_div = clk_div, fo_build_id = bid, fo_sim_log = sim_log,
       fo_program_log = program_log, fo_capture_log = capture_log,
       fo_uart_text = (case uart of None \<Rightarrow> [] | Some t \<Rightarrow> t)\<rparr>))))))))"

definition feedback_verdict :: "os \<Rightarrow> feedback_args \<Rightarrow> profile \<Rightarrow> feedback_outcome \<Rightarrow> string flow" where
  "feedback_verdict os a p fo =
     and_then (write_file (feedback_summary os a) (summary_text (feedback_fields os a p fo))) (\<lambda>_.
     and_then (require (fo_uart_text fo \<noteq> [] \<or> fa_allow_empty_serial a)
       (SystemExit (''UART capture is empty. See summary: '' @ feedback_summary os a))) (\<lambda>_.
     and_then (require (feedback_expect a p = [] \<or> contains_text (feedback_expect a p) (fo_uart_text fo))
       (SystemExit (''UART capture missing expected text '' @ quoted (feedback_expect a p)
          @ ''. See summary: '' @ feedback_summary os a))) (\<lambda>_.
     give (feedback_summary os a))))"

definition feedback_main :: "os \<Rightarrow> feedback_args \<Rightarrow> profile \<Rightarrow> string flow" where
  "feedback_main os a p =
     and_then (remove_file (feedback_summary os a)) (\<lambda>_.
     and_then (run_top_sim os a p) (\<lambda>sim_log.
     and_then (positive_clock SystemExit (fa_core_hz a)) (\<lambda>hz.
     and_then (feedback_board os a p (feedback_env os a p (derive_uart_clk_div hz 115200))
       (derive_uart_clk_div hz 115200) sim_log) (\<lambda>fo.
     feedback_verdict os a p fo))))"

section \<open>The plan\<close>

definition sim_plan :: "os \<Rightarrow> feedback_args \<Rightarrow> profile \<Rightarrow> stage list" where
  "sim_plan os a p =
     (case p_rom p of None \<Rightarrow> [] | Some rom \<Rightarrow> [(rom_command os a p rom, any_log)])
     @ [(compile_command os a p (exe_of os [''iverilog'']) (derive_clk_wiz_half_div (nat (fa_core_hz a)))
           (derive_uart_clk_div (nat (fa_core_hz a)) 115200), any_log),
        (sim_command os a p (exe_of os [''vvp'']), contains_text (p_expect_token p))]"

definition vivado_stage :: "os \<Rightarrow> feedback_args \<Rightarrow> profile \<Rightarrow> string \<Rightarrow> string \<Rightarrow> nat \<Rightarrow> stage" where
  "vivado_stage os a p script step timeout =
     (vivado_command os a (exe_of os [''vivado.bat'', ''vivado'']) script
        (feedback_env os a p (derive_uart_clk_div (nat (fa_core_hz a)) 115200)) step timeout, any_log)"

definition program_stage :: "os \<Rightarrow> feedback_args \<Rightarrow> profile \<Rightarrow> stage" where
  "program_stage os a p = vivado_stage os a p ''program_ax7203_jtag.tcl'' ''07_program_jtag'' 600"

definition board_plan :: "os \<Rightarrow> feedback_args \<Rightarrow> profile \<Rightarrow> stage list" where
  "board_plan os a p =
     [vivado_stage os a p ''create_project_ax7203.tcl'' ''04_create_project'' 600,
      vivado_stage os a p ''run_ax7203_synth.tcl'' ''05_run_synth'' 1200,
      vivado_stage os a p ''build_ax7203_bitstream.tcl'' ''06_build_bitstream'' 7200,
      program_stage os a p,
      (capture_command os a (exe_of os [''powershell'']) (first_text (fa_send_text a) (p_send_text p))
         (p_send_delay_ms p), any_log)]"

lemma follows_positive_clock:
  assumes "follows p (g (nat hz))"
  shows "follows p (and_then (positive_clock exc hz) g)"
proof -
  have "follows ([] @ p) (and_then (positive_clock exc hz) g)"
    using assms by (intro follows_and_then)
      (auto simp: positive_clock_def give_def raise_exc_def follow_rules split: if_splits)
  then show ?thesis by simp
qed

lemma sim_follows: "follows (sim_plan os a p) (run_top_sim os a p)"
proof -
  let ?c = "sim_command os a p (exe_of os [''vvp''])"
  have gate: "follows [(?c, contains_text (p_expect_token p))]
      (and_then (run_logged system_exit_exc os ?c) (\<lambda>_. and_then (read_text (cmd_log ?c)) (\<lambda>t.
         and_then (require (contains_text (p_expect_token p) t) e) (\<lambda>_. give x))))" for e and x :: string
    by (rule follows_checked)
      (auto simp: and_then_def require_def give_def raise_exc_def split: if_splits)
  have rest: "follows [(compile_command os a p (exe_of os [''iverilog'']) (derive_clk_wiz_half_div (nat (fa_core_hz a)))
           (derive_uart_clk_div (nat (fa_core_hz a)) 115200), any_log), (?c, contains_text (p_expect_token p))]
      (and_then (which_required os [''iverilog'']) (\<lambda>iverilog.
       and_then (positive_clock SystemExit (fa_core_hz a)) (\<lambda>hz.
       and_then (run_logged system_exit_exc os
         (compile_command os a p iverilog (derive_clk_wiz_half_div hz) (derive_uart_clk_div hz 115200))) (\<lambda>_.
       and_then (which_required os [''vvp'']) (\<lambda>vvp.
       and_then (run_logged system_exit_exc os (sim_command os a p vvp)) (\<lambda>_.
       and_then (read_text (cmd_log (sim_command os a p vvp))) (\<lambda>sim_text.
       and_then (require (contains_text (p_expect_token p) sim_text)
         (SystemExit (''Top-level simulation did not reach PASS token. See log: '' @ cmd_log (sim_command os a p vvp)))) (\<lambda>_.
       give (cmd_log (sim_command os a p vvp))))))))))"
    by (intro follows_with_exe follows_positive_clock follows_run_then gate)
  show ?thesis
    unfolding sim_plan_def run_top_sim_def
    by (rule follows_and_then [OF _ rest]) (auto split: option.split intro: follow_rules)
qed

lemma vivado_follows:
  assumes "env = feedback_env os a p (derive_uart_clk_div (nat (fa_core_hz a)) 115200)"
  shows "follows [vivado_stage os a p script step timeout] (run_vivado os a script env step timeout)"
  unfolding run_vivado_def vivado_stage_def assms
  by (intro follows_with_exe follows_run_then follow_rules)

lemma capture_follows: "follows [(capture_command os a (exe_of os [''powershell'']) t d, any_log)] (capture_uart os a t d)"
  unfolding capture_uart_def by (intro follows_with_exe follows_run_then follow_rules)

lemma build_id_follows: "follows [] (require_build_id path)"
  unfolding require_build_id_def
  by (rule follows_silent_then) (auto intro: follow_rules split: option.split)

lemma board_follows:
  "follows (board_plan os a p) (feedback_board os a p
     (feedback_env os a p (derive_uart_clk_div (nat (fa_core_hz a)) 115200)) clk_div sim_log)"
  unfolding feedback_board_def board_plan_def program_stage_def
  by (intro follows_stage_then [OF vivado_follows] follows_silent_then [OF follows_remove]
      follows_silent_then [OF build_id_follows] follows_stage_then [OF capture_follows]
      follows_silent_then [OF follows_look] follows_give refl)

lemma verdict_follows: "follows [] (feedback_verdict os a p fo)"
  unfolding feedback_verdict_def
  by (intro follows_silent_then [OF follows_write] follows_silent_then [OF follows_require] follows_give)

lemma main_follows: "follows (sim_plan os a p @ board_plan os a p) (feedback_main os a p)"
  unfolding feedback_main_def
  by (intro follows_silent_then [OF follows_remove] follows_and_then [OF sim_follows] follows_positive_clock
      follows_then_silent [OF board_follows] verdict_follows)

text \<open>
  C27. A board feedback run carries out its plan: it builds the boot memory, compiles and simulates the top
  level, creates the project, synthesises, builds the bitstream, programs the board and captures what it
  sends, in this order and nothing else; it goes on only after a command that returned 0 and, after the
  simulation, whose log has the pass token of the profile; and it ends well only with the whole plan done.
\<close>

theorem feedback_follows_plan: "follows (sim_plan os a p @ board_plan os a p) (feedback_main os a p)"
  by (rule main_follows)

section \<open>What the flow guarantees\<close>

definition fresh :: "machine \<Rightarrow> bool" where
  "fresh m \<longleftrightarrow> actions m = []"

lemma plan_logs_distinct:
  "distinct (map (\<lambda>s. cmd_log (fst s)) (sim_plan os a p @ board_plan os a p))"
  by (simp add: sim_plan_def board_plan_def program_stage_def vivado_stage_def rom_command_def compile_command_def
      sim_command_def vivado_command_def capture_command_def in_dir_def split: option.split)

lemma distinct_map_nth_eq: "distinct (map f xs) \<Longrightarrow> i < length xs \<Longrightarrow> j < length xs \<Longrightarrow> f (xs ! i) = f (xs ! j) \<Longrightarrow> i = j"
  by (metis distinct_conv_nth length_map nth_map)

text \<open>
  C26. The board is programmed only with what has been checked: when the programming command was run,
  the simulation had run to its end with return code 0 and a log with the pass token of the profile, and
  every other command before it had returned 0.
\<close>

theorem board_programmed_after_pass:
  assumes "fresh m" and "feedback_main os a p m = (r, m')" and "Ran (fst (program_stage os a p)) res \<in> set (actions m')"
  shows "\<exists>out before after. actions m' = before @ Ran (fst (program_stage os a p)) res # after
    \<and> Ran (sim_command os a p (exe_of os [''vvp''])) (Exited 0 out) \<in> set before
    \<and> contains_text (p_expect_token p) (log_of (sim_command os a p (exe_of os [''vvp''])) (Exited 0 out))
    \<and> list_all (\<lambda>act. \<exists>c out. act = Ran c (Exited 0 out)) before"
proof -
  let ?plan = "sim_plan os a p @ board_plan os a p" and ?acts = "actions m'"
  have m': "snd (feedback_main os a p m) = m'" and m: "actions m = []"
    using assms(1,2) by (simp_all add: fresh_def)
  obtain i where i: "i < length ?acts" "?acts ! i = Ran (fst (program_stage os a p)) res"
    using assms(3) by (auto simp: in_set_conv_nth)
  note safe = follows_safe [OF main_follows [of os a p] m, unfolded m', OF i(1)]
  have at: "i < length ?plan" "fst (?plan ! i) = fst (program_stage os a p)"
  proof -
    obtain rs where "?acts = performed ?plan rs" "length rs \<le> length ?plan"
      using followsE [OF main_follows, of os a p m] m m' by (metis append_Nil)
    then show "i < length ?plan" "fst (?plan ! i) = fst (program_stage os a p)"
      using i by (auto simp: performed_def)
  qed
  define n where "n = length (sim_plan os a p)"
  have sim: "0 < n" "n - 1 < length ?plan" "?plan ! (n - 1) = (sim_command os a p (exe_of os [''vvp'']), contains_text (p_expect_token p))"
    by (auto simp: n_def sim_plan_def nth_append split: option.split)
  have "?plan ! (n + 3) = program_stage os a p" "n + 3 < length ?plan"
    by (simp_all add: n_def board_plan_def nth_append)
  then have "i = n + 3"
    using at distinct_map_nth_eq [OF plan_logs_distinct, of i os a p "n + 3"] by simp
  then have j: "n - 1 < i" using sim(1) by simp
  from safe [OF j] sim obtain out where out:
    "?acts ! (n - 1) = Ran (sim_command os a p (exe_of os [''vvp''])) (Exited 0 out)"
    "contains_text (p_expect_token p) (log_of (sim_command os a p (exe_of os [''vvp''])) (Exited 0 out))"
    by (auto simp: passed_iff)
  have "list_all (\<lambda>act. \<exists>c out. act = Ran c (Exited 0 out)) (take i ?acts)"
    using safe i(1) by (fastforce simp: list_all_length passed_iff)
  moreover have "Ran (sim_command os a p (exe_of os [''vvp''])) (Exited 0 out) \<in> set (take i ?acts)"
    using out(1) j i(1) by (metis in_set_conv_nth length_take min.strict_order_iff nth_take min_less_iff_conj less_trans)
  moreover have "?acts = take i ?acts @ Ran (fst (program_stage os a p)) res # drop (Suc i) ?acts"
    using id_take_nth_drop [OF i(1)] i(2) by simp
  ultimately show ?thesis
    using out(2) by blast
qed

definition own_log :: "os \<Rightarrow> feedback_args \<Rightarrow> string \<Rightarrow> string" where
  "own_log os a name = in_dir (feedback_logs os a) name"

definition outcome_of :: "os \<Rightarrow> feedback_args \<Rightarrow> profile \<Rightarrow> string \<Rightarrow> string \<Rightarrow> feedback_outcome" where
  "outcome_of os a p bid uart =
     (let clk_div = derive_uart_clk_div (nat (fa_core_hz a)) 115200 in
      \<lparr>fo_env = feedback_env os a p clk_div, fo_clk_div = clk_div, fo_build_id = bid,
       fo_sim_log = own_log os a ''03_run_top_sim.log'', fo_program_log = own_log os a ''07_program_jtag.log'',
       fo_capture_log = own_log os a ''07_capture_uart.log'', fo_uart_text = uart\<rparr>)"

lemma bitstream_build_id_plain: "bitstream_build_id t = Some bid \<Longrightarrow> plain bid"
proof -
  assume b: "bitstream_build_id t = Some bid"
  then obtain l ls where f: "filter (\<lambda>l. take 9 l = ''BUILD_ID='') (splitlines t) = l # ls"
    and bid: "bid = py_strip (drop 9 l)"
    by (auto simp: bitstream_build_id_def split: list.splits)
  have l: "l \<in> set (splitlines t)"
    using f by (metis filter_is_subset list.set_intros(1) subsetD)
  then have "one_line l"
    using l splitlines_one_line [of "[]" t] by (auto simp: splitlines_def one_line_def list_all_iff)
  then have "one_line (drop 9 l)"
    by (auto simp: one_line_def list_all_iff dest: in_set_dropD)
  then show ?thesis
    using bid by (simp add: plain_strip)
qed

lemma run_top_sim_Inr: "run_top_sim os a p m = (Inr x, m') \<Longrightarrow> x = own_log os a ''03_run_top_sim.log''"
  unfolding run_top_sim_def by (auto simp: flow_Inr sim_command_def own_log_def)

lemma run_vivado_Inr: "run_vivado os a script env step timeout m = (Inr x, m') \<Longrightarrow> x = own_log os a (step @ ''.log'')"
  unfolding run_vivado_def by (auto simp: flow_Inr vivado_command_def own_log_def)

lemma capture_uart_Inr: "capture_uart os a t d m = (Inr x, m') \<Longrightarrow> x = own_log os a ''07_capture_uart.log''"
  unfolding capture_uart_def by (auto simp: flow_Inr capture_command_def own_log_def)

lemma require_build_id_Inr: "require_build_id path m = (Inr bid, m') \<Longrightarrow> plain bid"
  unfolding require_build_id_def
  by (auto simp: flow_Inr raise_exc_def intro: bitstream_build_id_plain split: option.splits)

lemma positive_clock_Inr: "positive_clock exc hz m = (Inr n, m') \<longleftrightarrow> 0 < hz \<and> n = nat hz \<and> m' = m"
  by (auto simp: positive_clock_def give_def raise_exc_def)

lemma feedback_run:
  assumes "feedback_main os a p m = (Inr path, m')"
  obtains bid uart where "path = feedback_summary os a" "plain bid"
    "files m' path = Some (summary_text (feedback_fields os a p (outcome_of os a p bid uart)))"
    "uart = env_or (files m') (uart_capture_file os a) []"
    "uart \<noteq> [] \<or> fa_allow_empty_serial a"
    "feedback_expect a p = [] \<or> contains_text (feedback_expect a p) uart"
proof -
  have diff: "uart_capture_file os a \<noteq> feedback_summary os a"
    by (simp add: uart_capture_file_def feedback_summary_def feedback_logs_def build_file_def in_dir_def)
  let ?div = "derive_uart_clk_div (nat (fa_core_hz a)) 115200"
  obtain sim_log fo m0 m1 where v: "feedback_verdict os a p fo m1 = (Inr path, m')"
    and sim: "sim_log = own_log os a ''03_run_top_sim.log''"
    and b: "feedback_board os a p (feedback_env os a p ?div) ?div sim_log m0 = (Inr fo, m1)"
    using assms unfolding feedback_main_def by (auto simp: and_then_Inr positive_clock_Inr dest!: run_top_sim_Inr)
  from b obtain bid where fo: "fo = outcome_of os a p bid (fo_uart_text fo)" "plain bid"
    and u: "fo_uart_text fo = (case files m1 (uart_capture_file os a) of None \<Rightarrow> [] | Some t \<Rightarrow> t)"
    unfolding feedback_board_def
    by (auto simp: flow_Inr outcome_of_def Let_def sim dest!: run_vivado_Inr capture_uart_Inr require_build_id_Inr)
  have "path = feedback_summary os a" "files m' path = Some (summary_text (feedback_fields os a p fo))"
    "fo_uart_text fo = env_or (files m') (uart_capture_file os a) []"
    "fo_uart_text fo \<noteq> [] \<or> fa_allow_empty_serial a"
    "feedback_expect a p = [] \<or> contains_text (feedback_expect a p) (fo_uart_text fo)"
    using v u diff unfolding feedback_verdict_def by (auto simp: flow_Inr env_or_def split: option.splits)
  with fo show thesis
    by (intro that [of bid "fo_uart_text fo"]) auto
qed

text \<open>
  A run that ends well has written the summary of what happened, and the text the board sent, which
  is what the capture file then holds, is not empty unless that is allowed, and has the expected text.
\<close>

theorem feedback_success:
  assumes "feedback_main os a p m = (Inr path, m')"
  shows "path = feedback_summary os a
    \<and> (\<exists>bid uart. files m' path = Some (summary_text (feedback_fields os a p (outcome_of os a p bid uart)))
        \<and> uart = env_or (files m') (uart_capture_file os a) []
        \<and> (uart \<noteq> [] \<or> fa_allow_empty_serial a)
        \<and> (feedback_expect a p = [] \<or> contains_text (feedback_expect a p) uart))"
  by (rule feedback_run [OF assms]) blast

section \<open>A run\<close>

text \<open>
  What has to be so for a run to end well: the programs are found and return 0 whenever they are started,
  the simulation prints the pass token, a bitstream has its id, and the board sends what is expected.
\<close>

definition good_files :: "os \<Rightarrow> feedback_args \<Rightarrow> profile \<Rightarrow> file_map \<Rightarrow> bool" where
  "good_files os a p fs \<longleftrightarrow> (\<exists>t u. fs (build_id_file os p) = Some t \<and> bitstream_build_id t \<noteq> None
     \<and> fs (uart_capture_file os a) = Some u \<and> (u \<noteq> [] \<or> fa_allow_empty_serial a)
     \<and> (feedback_expect a p = [] \<or> contains_text (feedback_expect a p) u))"

definition healthy :: "os \<Rightarrow> feedback_args \<Rightarrow> profile \<Rightarrow> bool" where
  "healthy os a p \<longleftrightarrow> 0 < fa_core_hz a
     \<and> list_all (\<lambda>names. List.map_filter (find_exe os) names \<noteq> [])
         [[''iverilog''], [''vvp''], [''vivado.bat'', ''vivado''], [''powershell'']]
     \<and> (\<forall>acts c fs. \<exists>out fs'. run_cmd os acts c fs = (Exited 0 out, fs')
          \<and> contains_text (p_expect_token p) out \<and> good_files os a p fs')"

definition result_file :: "os \<Rightarrow> feedback_args \<Rightarrow> profile \<Rightarrow> string \<Rightarrow> bool" where
  "result_file os a p path \<longleftrightarrow> path = build_id_file os p \<or> path = uart_capture_file os a"

lemma healthy_run:
  assumes h: "healthy os a p"
  obtains out fs where "run_logged exc os c m
      = (Inr (), \<lparr>files = fs(cmd_log c \<mapsto> log_of c (Exited 0 out)), actions = actions m @ [Ran c (Exited 0 out)]\<rparr>)"
    "contains_text (p_expect_token p) out" "good_files os a p fs"
  using h run_logged_ok unfolding healthy_def by blast

lemma healthy_succeeds: "healthy os a p \<Longrightarrow> succeeds (run_logged exc os c) m"
  by (rule healthy_run) (auto simp: succeeds_def)

lemma healthy_good:
  assumes "healthy os a p" and "run_logged exc os c m = (Inr x, m')" and "\<not> result_file os a p (cmd_log c)"
  shows "good_files os a p (files m')"
  using assms by (elim healthy_run [of os a p exc c m]) (auto simp: good_files_def result_file_def)

lemma contains_text_append: "contains_text tok s \<Longrightarrow> contains_text tok (t @ s)"
  by (auto simp: contains_text_sublist sublist_append)

lemma healthy_log:
  assumes "healthy os a p" and "run_logged exc os c m = (Inr x, m')"
  shows "\<exists>t. files m' (cmd_log c) = Some t \<and> contains_text (p_expect_token p) t"
  using assms by (elim healthy_run [of os a p exc c m]) (auto simp: log_of_def contains_text_append)

lemma logs_no_results: "\<not> result_file os a p (in_dir (feedback_logs os a) name)"
  by (simp add: result_file_def build_id_file_def uart_capture_file_def feedback_logs_def build_file_def in_dir_def)

lemma healthy_exes:
  assumes "healthy os a p"
  shows "succeeds (which_required os [''iverilog'']) m" "succeeds (which_required os [''vvp'']) m"
    "succeeds (which_required os [''vivado.bat'', ''vivado'']) m" "succeeds (which_required os [''powershell'']) m"
  using assms by (simp_all add: succeeds_which healthy_def)

lemma healthy_clock: "healthy os a p \<Longrightarrow> succeeds (positive_clock exc (fa_core_hz a)) m"
  by (simp add: positive_clock_def healthy_def)

lemma healthy_sim:
  assumes h: "healthy os a p"
  shows "succeeds (run_top_sim os a p) m"
proof -
  have gate: "succeeds (and_then (read_text (cmd_log c)) (\<lambda>t. and_then (require (contains_text (p_expect_token p) t) e) (\<lambda>_. give x))) m'"
    if "run_logged exc os c m0 = (Inr u, m')" for exc c m0 u m' e x
    using healthy_log [OF h that]
    by (auto simp: read_text_def succeeds_def and_then_def require_def give_def)
  show ?thesis
    unfolding run_top_sim_def
    by (intro succeeds_and_then [OF _ gate] succeeds_and_then healthy_exes [OF h] healthy_clock [OF h] healthy_succeeds [OF h])
      (auto split: option.split intro: healthy_succeeds [OF h])
qed

lemma healthy_vivado: "healthy os a p \<Longrightarrow> succeeds (run_vivado os a script env step timeout) m"
  unfolding run_vivado_def by (intro succeeds_and_then healthy_exes healthy_succeeds succeeds_simple)

lemma healthy_vivado_files:
  assumes "healthy os a p" and "run_vivado os a script env step timeout m = (Inr x, m')"
  shows "good_files os a p (files m')"
  using assms(2) healthy_good [OF assms(1)] logs_no_results
  unfolding run_vivado_def by (auto simp: and_then_Inr give_Inr vivado_command_def)

lemma healthy_build_id:
  assumes "good_files os a p fs" and "files m = fs(uart_capture_file os a := None)"
  shows "\<exists>bid. require_build_id (build_id_file os p) m = (Inr bid, m)"
proof -
  have "build_id_file os p \<noteq> uart_capture_file os a"
    by (simp add: build_id_file_def uart_capture_file_def build_file_def in_dir_def)
  with assms show ?thesis
    by (auto simp: good_files_def require_build_id_def and_then_def look_file_def give_def)
qed

lemma healthy_capture:
  assumes h: "healthy os a p"
  obtains x m' where "capture_uart os a t d m = (Inr x, m')" "good_files os a p (files m')"
proof -
  have "succeeds (capture_uart os a t d) m"
    unfolding capture_uart_def by (intro succeeds_and_then healthy_exes [OF h] healthy_succeeds [OF h] succeeds_simple)
  then obtain x m' where run: "capture_uart os a t d m = (Inr x, m')"
    by (auto simp: succeeds_def)
  then have "good_files os a p (files m')"
    using healthy_good [OF h] logs_no_results unfolding capture_uart_def
    by (auto simp: and_then_Inr give_Inr capture_command_def)
  with run that show thesis by blast
qed

lemma healthy_board:
  assumes h: "healthy os a p"
  obtains fo m' where "feedback_board os a p env clk_div sim_log m = (Inr fo, m')"
    "fo_uart_text fo \<noteq> [] \<or> fa_allow_empty_serial a"
    "feedback_expect a p = [] \<or> contains_text (feedback_expect a p) (fo_uart_text fo)"
proof -
  have vivado: "\<exists>x m'. run_vivado os a script env step timeout m = (Inr x, m') \<and> good_files os a p (files m')"
    for script step timeout m
    using healthy_vivado [OF h] healthy_vivado_files [OF h] by (fastforce simp: succeeds_def)
  obtain x1 m1 where v1: "run_vivado os a ''create_project_ax7203.tcl'' env ''04_create_project'' 600 m = (Inr x1, m1)"
    using vivado by blast
  obtain x2 m2 where v2: "run_vivado os a ''run_ax7203_synth.tcl'' env ''05_run_synth'' 1200 m1 = (Inr x2, m2)"
    using vivado by blast
  obtain x3 m3 where v3: "run_vivado os a ''build_ax7203_bitstream.tcl'' env ''06_build_bitstream'' 7200 m2 = (Inr x3, m3)"
    and g3: "good_files os a p (files m3)"
    using vivado by blast
  define m4 where "m4 = m3\<lparr>files := (files m3)(uart_capture_file os a := None)\<rparr>"
  obtain bid where b: "require_build_id (build_id_file os p) m4 = (Inr bid, m4)"
    using healthy_build_id [OF g3, of m4] by (auto simp: m4_def)
  obtain x5 m5 where v5: "run_vivado os a ''program_ax7203_jtag.tcl'' env ''07_program_jtag'' 600 m4 = (Inr x5, m5)"
    using vivado by blast
  obtain x6 m6 where v6: "capture_uart os a (first_text (fa_send_text a) (p_send_text p)) (p_send_delay_ms p) m5 = (Inr x6, m6)"
    and g6: "good_files os a p (files m6)"
    by (rule healthy_capture [OF h])
  obtain u where u: "files m6 (uart_capture_file os a) = Some u" "u \<noteq> [] \<or> fa_allow_empty_serial a"
    "feedback_expect a p = [] \<or> contains_text (feedback_expect a p) u"
    using g6 by (auto simp: good_files_def)
  let ?fo = "\<lparr>fo_env = env, fo_clk_div = clk_div, fo_build_id = bid, fo_sim_log = sim_log,
    fo_program_log = x5, fo_capture_log = x6, fo_uart_text = u\<rparr>"
  have "feedback_board os a p env clk_div sim_log m = (Inr ?fo, m6)"
    by (simp add: feedback_board_def and_then_def v1 v2 v3 b v5 v6 u(1) remove_file_def look_file_def give_def
        flip: m4_def)
  then show thesis
    by (rule that) (use u in simp_all)
qed

lemma healthy_completes:
  assumes "healthy os a p"
  shows "\<exists>m'. feedback_main os a p m = (Inr (feedback_summary os a), m')"
proof -
  have verdict: "succeeds (feedback_verdict os a p fo) m'"
    if "feedback_board os a p env d l m0 = (Inr fo, m')" for env d l m0 fo m'
    by (rule healthy_board [OF assms, of env d l m0])
      (use that in \<open>auto simp: feedback_verdict_def intro!: succeeds_and_then\<close>)
  have board: "succeeds (feedback_board os a p env d l) m0" for env d l m0
    by (rule healthy_board [OF assms, of env d l m0]) (auto simp: succeeds_def)
  have "succeeds (feedback_main os a p) m"
    unfolding feedback_main_def
    by (intro succeeds_and_then [OF board verdict] succeeds_and_then healthy_sim [OF assms] healthy_clock [OF assms] succeeds_simple)
  then obtain x m' where run: "feedback_main os a p m = (Inr x, m')"
    by (auto simp: succeeds_def)
  then have "x = feedback_summary os a"
    unfolding feedback_main_def feedback_verdict_def by (auto simp: flow_Inr)
  with run show ?thesis by blast
qed


text \<open>A machine on which every program succeeds, the board sends one line and its bitstream has an id.\<close>

definition demo_run :: "action list \<Rightarrow> command \<Rightarrow> file_map \<Rightarrow> run_result \<times> file_map" where
  "demo_run acts c fs = (Exited 0 ''[AX7203_IO_SMOKE] PASS'',
     fs(''/r/build/ax7203/sifang_core_ax7203_sifang_core_ax7203_io_smoke_top_bitstream_id.txt'' \<mapsto> ''BUILD_ID=0x12'',
        ''/r/build/ax7203_io_smoke_uart_capture.txt'' \<mapsto> ''hello''))"

definition demo_os :: os where
  "demo_os = \<lparr>repo_root = ''/r'', sys_executable = ''python'', os_environ = Map.empty, cpu_count = Some 4,
     find_exe = Some, verilog_in = \<lambda>dir. [], run_cmd = demo_run, spawn_cmd = \<lambda>acts c fs. (True, fs),
     wait_cmd = \<lambda>acts t fs. (Some 0, fs)\<rparr>"

definition demo_args :: feedback_args where
  "demo_args = \<lparr>fa_profile = ''io_smoke'', fa_port = ''COM5'', fa_capture_seconds = 8, fa_rom = None,
     fa_allow_empty_serial = False, fa_send_text = [], fa_send_hex = [], fa_expect_text = [],
     fa_rs_depth = 48, fa_fetch_buffer_depth = 16, fa_core_hz = 10000000\<rparr>"

definition demo_profile :: profile where
  "demo_profile = plain_profile demo_os ''sifang_core_ax7203_io_smoke_top'' ''tb_ax7203_io_smoke''
     None ''[AX7203_IO_SMOKE] PASS''"

definition demo_start :: machine where
  "demo_start = \<lparr>files = Map.empty, actions = []\<rparr>"

lemma demo_profile_listed: "feedback_profile demo_os demo_args = Some demo_profile"
  by (simp add: feedback_profile_def PROFILES_def demo_args_def demo_profile_def)

lemma demo_healthy: "healthy demo_os demo_args demo_profile"
proof -
  have "list_all (\<lambda>names. List.map_filter (find_exe demo_os) names \<noteq> [])
      [[''iverilog''], [''vvp''], [''vivado.bat'', ''vivado''], [''powershell'']]"
    by (simp add: demo_os_def map_filter_def)
  moreover have "good_files demo_os demo_args demo_profile (snd (demo_run acts c fs))" for acts c fs
  proof -
    have "build_id_file demo_os demo_profile
        = ''/r/build/ax7203/sifang_core_ax7203_sifang_core_ax7203_io_smoke_top_bitstream_id.txt''"
      "uart_capture_file demo_os demo_args = ''/r/build/ax7203_io_smoke_uart_capture.txt''"
      by (simp_all add: build_id_file_def uart_capture_file_def build_file_def in_dir_def demo_os_def demo_args_def
          demo_profile_def plain_profile_def)
    moreover have "bitstream_build_id ''BUILD_ID=0x12'' = Some ''0x12''"
      by code_simp
    moreover have "feedback_expect demo_args demo_profile = []"
      by (simp add: feedback_expect_def first_text_def demo_args_def demo_profile_def plain_profile_def)
    ultimately show ?thesis
      unfolding good_files_def demo_run_def by simp
  qed
  moreover have "contains_text (p_expect_token demo_profile) ''[AX7203_IO_SMOKE] PASS''"
    by (simp add: demo_profile_def plain_profile_def)
  ultimately show ?thesis
    unfolding healthy_def by (auto simp: demo_args_def) (auto simp: demo_os_def demo_run_def)
qed


lemma demo_succeeds: "\<exists>path m'. feedback_main demo_os demo_args demo_profile demo_start = (Inr path, m')"
  using healthy_completes [OF demo_healthy] by blast

lemma board_programmed_after_pass_witness:
  "\<exists>m' before. feedback_main demo_os demo_args demo_profile demo_start = (Inr (feedback_summary demo_os demo_args), m')
     \<and> before \<noteq> [] \<and> list_all (\<lambda>act. \<exists>c out. act = Ran c (Exited 0 out)) before"
proof -
  obtain path m' where run: "feedback_main demo_os demo_args demo_profile demo_start = (Inr path, m')"
    using demo_succeeds by blast
  have fresh: "fresh demo_start"
    by (simp add: fresh_def demo_start_def)
  have path: "path = feedback_summary demo_os demo_args"
    using run unfolding feedback_main_def feedback_verdict_def by (auto simp: flow_Inr)
  let ?plan = "sim_plan demo_os demo_args demo_profile @ board_plan demo_os demo_args demo_profile"
  obtain rs where rs: "actions m' = performed ?plan rs" "list_all2 passed ?plan rs"
    using follows_complete [OF main_follows _ run] by (auto simp: demo_start_def)
  then obtain res where "Ran (fst (program_stage demo_os demo_args demo_profile)) res \<in> set (actions m')"
    using performed_all [of rs ?plan "program_stage demo_os demo_args demo_profile"] list_all2_lengthD [OF rs(2)]
    by (auto simp: board_plan_def)
  from board_programmed_after_pass [OF fresh run this] show ?thesis
    using run path by fastforce
qed

lemma feedback_success_witness:
  "\<exists>path m'. feedback_main demo_os demo_args demo_profile demo_start = (Inr path, m')
     \<and> path = feedback_summary demo_os demo_args"
  using demo_succeeds feedback_success [of demo_os demo_args demo_profile demo_start] by blast

end
