(* ===== verification/Autodebug.thy ===== *)
theory Autodebug
  imports Feedback
begin

text \<open>
  \<^verbatim>\<open>run_fpga_autodebug.py\<close>: the basic tests, then the two main profiles of the board feedback flow until
  one fails, then the diagnostic profiles, and a summary of all.  The board feedback flow is a program
  that this script starts; what it reads back of it is the summary file.
\<close>

section \<open>Summaries\<close>

fun split_colon :: "string \<Rightarrow> string \<Rightarrow> (string \<times> string) option" where
  "split_colon key [] = None"
| "split_colon key (c # cs) = (if c = CHR '':'' then Some (rev key, cs) else split_colon (c # key) cs)"

definition parse_summary :: "string option \<Rightarrow> (string \<rightharpoonup> string)" where
  "parse_summary text = (case text of
       None \<Rightarrow> Map.empty
     | Some t \<Rightarrow> fold (\<lambda>line data. case split_colon [] line of
           None \<Rightarrow> data
         | Some (key, value) \<Rightarrow> data(py_strip key \<mapsto> py_strip value)) (splitlines t) Map.empty)"

section \<open>The flow\<close>

definition MAIN_PROFILES :: "string list" where
  "MAIN_PROFILES = [''core_diag'', ''uart_echo'']"

definition DIAGNOSTIC_PROFILES :: "string list" where
  "DIAGNOSTIC_PROFILES = [''core_status'', ''issue_probe'', ''branch_probe'', ''main_bridge_probe'']"

record autodebug_args =
  ad_port :: string
  ad_rs_depth :: int
  ad_fetch_buffer_depth :: int
  ad_core_hz :: int
  ad_main_seconds :: int
  ad_diag_seconds :: int

record board_run =
  br_profile :: string
  br_rc :: int
  br_log :: string
  br_summary_path :: string
  br_summary :: "string \<rightharpoonup> string"

definition autodebug_file :: "os \<Rightarrow> string \<Rightarrow> string" where
  "autodebug_file os name = build_file os (in_dir ''fpga_autodebug'' name)"

definition board_summary_path :: "os \<Rightarrow> string \<Rightarrow> string" where
  "board_summary_path os profile = build_file os (in_dir (''board_feedback_'' @ profile) ''summary.txt'')"

definition basic_command :: "os \<Rightarrow> command" where
  "basic_command os = \<lparr>cmd_args = [sys_executable os, in_dir (repo_root os) ''verification/run_all_tests.py'', ''--basic''],
     cmd_cwd = Some (repo_root os), cmd_env = None, cmd_log = autodebug_file os ''01_basic.log'', cmd_timeout = Some 1800\<rparr>"

definition board_command :: "os \<Rightarrow> autodebug_args \<Rightarrow> string \<Rightarrow> int \<Rightarrow> string \<Rightarrow> command" where
  "board_command os a profile seconds log =
     \<lparr>cmd_args = [sys_executable os, in_dir (repo_root os) ''fpga/scripts/run_board_feedback.py'',
        ''--profile'', profile, ''--port'', ad_port a, ''--capture-seconds'', str_int seconds,
        ''--rs-depth'', str_int (ad_rs_depth a), ''--fetch-buffer-depth'', str_int (ad_fetch_buffer_depth a),
        ''--core-clk-mhz'', fmt_mhz3 (ad_core_hz a)],
      cmd_cwd = Some (repo_root os), cmd_env = None, cmd_log = log, cmd_timeout = Some 7200\<rparr>"

definition run_board_profile :: "os \<Rightarrow> autodebug_args \<Rightarrow> string \<Rightarrow> int \<Rightarrow> string \<Rightarrow> board_run flow" where
  "run_board_profile os a profile seconds log =
     and_then (remove_file (board_summary_path os profile)) (\<lambda>_.
     and_then (run_logged_rc os (board_command os a profile seconds log)) (\<lambda>rc.
     and_then (look_file (board_summary_path os profile)) (\<lambda>text.
     give \<lparr>br_profile = profile, br_rc = rc, br_log = log, br_summary_path = board_summary_path os profile,
       br_summary = parse_summary text\<rparr>)))"

text \<open>\<^verbatim>\<open>f"{idx:02d}_{profile}.log"\<close>\<close>

definition numbered_log :: "os \<Rightarrow> nat \<Rightarrow> string \<Rightarrow> string" where
  "numbered_log os idx profile =
     autodebug_file os ((if idx < 10 then ''0'' else []) @ dec_str idx @ ''_'' @ profile @ ''.log'')"

text \<open>The loop over the main profiles, which a profile that fails ends, with the failed stage.\<close>

fun main_profiles :: "os \<Rightarrow> autodebug_args \<Rightarrow> nat \<Rightarrow> string list \<Rightarrow> (board_run list \<times> string) flow" where
  "main_profiles os a idx [] = give ([], ''none'')"
| "main_profiles os a idx (profile # rest) =
     and_then (run_board_profile os a profile (ad_main_seconds a) (numbered_log os idx profile)) (\<lambda>r.
     if br_rc r \<noteq> 0 then give ([r], profile)
     else and_then (main_profiles os a (Suc idx) rest) (\<lambda>(rs, failed). give (r # rs, failed)))"

fun diag_profiles :: "os \<Rightarrow> autodebug_args \<Rightarrow> nat \<Rightarrow> string list \<Rightarrow> board_run list flow" where
  "diag_profiles os a idx [] = give []"
| "diag_profiles os a idx (profile # rest) =
     and_then (run_board_profile os a profile (ad_diag_seconds a) (numbered_log os idx profile)) (\<lambda>r.
     and_then (diag_profiles os a (Suc idx) rest) (\<lambda>rs. give (r # rs)))"

definition board_run_lines :: "board_run \<Rightarrow> string list" where
  "board_run_lines r =
     [''  - '' @ br_profile r @ '': rc='' @ str_int (br_rc r), ''    Log: '' @ br_log r,
      ''    Summary: '' @ br_summary_path r, ''    BuildID: '' @ env_or (br_summary r) ''BuildID'' ''N/A'',
      ''    UartBytes: '' @ env_or (br_summary r) ''UartBytes'' ''N/A'']"

definition overall_lines :: "os \<Rightarrow> autodebug_args \<Rightarrow> int \<Rightarrow> board_run list \<Rightarrow> board_run list \<Rightarrow> string \<Rightarrow> string list" where
  "overall_lines os a basic_rc mains diags failed =
     [''Flow: AX7203 FPGA AutoDebug'', ''RSDepth: '' @ str_int (ad_rs_depth a),
      ''RSIdxW: '' @ dec_str (derive_idx_width (ad_rs_depth a)),
      ''FetchBufferDepth: '' @ str_int (ad_fetch_buffer_depth a), ''CoreClkMHz: '' @ fmt_mhz3 (ad_core_hz a),
      ''UartClkDiv: '' @ dec_str (derive_uart_clk_div (nat (ad_core_hz a)) 115200),
      ''BasicReturnCode: '' @ str_int basic_rc, ''FailedStage: '' @ failed,
      ''MainPass: '' @ str_bool (failed = ''none''), ''MainProfiles:'']
     @ concat (map board_run_lines mains)
     @ (if diags \<noteq> [] then ''DiagnosticProfiles:'' # concat (map board_run_lines diags) else [])
     @ [''TimingReport: '' @ build_file os ''ax7203/reports/timing_summary.rpt'',
        ''UtilizationReport: '' @ build_file os ''ax7203/reports/utilization.rpt'',
        ''SynthUtilizationReport: '' @ build_file os ''ax7203/reports/synth_utilization.rpt'']"

text \<open>The value is the return code.\<close>

definition autodebug_main :: "os \<Rightarrow> autodebug_args \<Rightarrow> int flow" where
  "autodebug_main os a =
     and_then (run_logged_rc os (basic_command os)) (\<lambda>basic_rc.
     and_then (if basic_rc = 0 then main_profiles os a 2 MAIN_PROFILES else give ([], ''basic'')) (\<lambda>(mains, failed).
     and_then (if failed \<in> {''core_diag'', ''uart_echo''} then diag_profiles os a 10 DIAGNOSTIC_PROFILES else give [])
       (\<lambda>diags.
     and_then (write_file (autodebug_file os ''summary.txt'')
       (join_with newline (overall_lines os a basic_rc mains diags failed) @ newline)) (\<lambda>_.
     give (if failed = ''none'' then 0 else 1)))))"

section \<open>Reading a summary back\<close>

definition plain_key :: "string \<Rightarrow> bool" where
  "plain_key k \<longleftrightarrow> plain k \<and> CHR '':'' \<notin> set k"

lemma split_colon_append: "CHR '':'' \<notin> set k \<Longrightarrow> split_colon acc (k @ CHR '':'' # v) = Some (rev acc @ k, v)"
  by (induction k arbitrary: acc) auto

lemma strip_blank [simp]: "py_strip (CHR '' '' # s) = py_strip s"
  by (simp add: py_strip_def py_space_def)

lemma summary_line_split:
  assumes "plain_key k" and "plain v"
  shows "split_colon [] (summary_line (k, v)) = Some (k, CHR '' '' # v)" "one_line (summary_line (k, v))"
  using assms split_colon_append [of k "[]" "CHR '' '' # v"]
  by (auto simp: summary_line_def plain_key_def plain_def) (simp_all add: one_line_def line_end_def)

lemma summary_text_render: "kvs \<noteq> [] \<Longrightarrow> summary_text kvs = render_lines (map summary_line kvs)"
  by (simp add: summary_text_def render_lines_def)

lemma parse_summary_fold:
  assumes "list_all (\<lambda>(k, v). plain_key k \<and> plain v) kvs"
  shows "fold (\<lambda>line data. case split_colon [] line of
        None \<Rightarrow> data
      | Some (key, value) \<Rightarrow> data(py_strip key \<mapsto> py_strip value)) (map summary_line kvs) data
    = fold (\<lambda>(k, v) data. data(k \<mapsto> v)) kvs data"
  using assms
proof (induction kvs arbitrary: data)
  case (Cons kv kvs)
  obtain k v where kv: "kv = (k, v)" by (cases kv)
  then have "split_colon [] (summary_line kv) = Some (k, CHR '' '' # v)" "py_strip k = k" "py_strip v = v"
    using Cons.prems summary_line_split [of k v] by (auto simp: plain_key_def plain_def)
  with Cons kv show ?case by (simp del: fun_upd_apply)
qed simp

lemma fold_update_map_of: "distinct (map fst kvs) \<Longrightarrow> fold (\<lambda>(k, v) data. data(k \<mapsto> v)) kvs data = data ++ map_of kvs"
proof (induction kvs arbitrary: data)
  case (Cons kv kvs)
  obtain k v where kv: "kv = (k, v)" by (cases kv)
  have "k \<notin> dom (map_of kvs)"
    using Cons.prems kv by (simp add: dom_map_of_conv_image_fst)
  then have "data(k \<mapsto> v) ++ map_of kvs = (data ++ map_of kvs)(k \<mapsto> v)"
    by (simp add: map_add_upd_left)
  with Cons kv show ?case by (simp del: fun_upd_apply)
qed simp

lemma parse_summary_text:
  assumes "list_all (\<lambda>(k, v). plain_key k \<and> plain v) kvs" and "distinct (map fst kvs)" and "kvs \<noteq> []"
  shows "parse_summary (Some (summary_text kvs)) = map_of kvs"
proof -
  have "list_all one_line (map summary_line kvs)"
    using assms(1) summary_line_split(2) by (auto simp: list_all_iff)
  then have "splitlines (summary_text kvs) = map summary_line kvs"
    using assms(3) by (simp add: summary_text_render splitlines_render)
  then show ?thesis
    using parse_summary_fold [OF assms(1)] fold_update_map_of [OF assms(2)]
    by (simp add: parse_summary_def)
qed

text \<open>What is printed in a summary is plain as long as what came from outside is.\<close>

definition plain_inputs :: "os \<Rightarrow> feedback_args \<Rightarrow> profile \<Rightarrow> bool" where
  "plain_inputs os a p \<longleftrightarrow> list_all plain
     ([repo_root os, fa_profile a, p_top p, feedback_expect a p]
      @ map (\<lambda>k. env_or (os_environ os) k []) [''AX7203_MAX_THREADS'', ''AX7203_SYNTH_JOBS'', ''AX7203_IMPL_JOBS''])"

lemma printable_fmt_mhz3 [simp]: "printable (fmt_mhz3 hz)"
  by (simp add: fmt_mhz3_def Let_def printable_replicate)

lemma plain_const: "printable s \<Longrightarrow> plain t \<Longrightarrow> plain (s @ t)" "printable s \<Longrightarrow> plain t \<Longrightarrow> plain (t @ s)"
  by (simp_all add: plain_append printable_plain)

lemma plain_in_dir: "plain dir \<Longrightarrow> plain name \<Longrightarrow> plain (in_dir dir name)"
  unfolding in_dir_def by (intro plain_append plain_const) simp_all

lemma plain_build_file: "plain (repo_root os) \<Longrightarrow> plain name \<Longrightarrow> plain (build_file os name)"
  unfolding build_file_def by (intro plain_in_dir) (simp_all add: printable_plain)

lemma plain_own_log: "plain (repo_root os) \<Longrightarrow> plain (fa_profile a) \<Longrightarrow> printable name \<Longrightarrow> plain (own_log os a name)"
  unfolding own_log_def feedback_logs_def
  by (intro plain_in_dir plain_build_file plain_append) (simp_all add: printable_plain)

lemma plain_capture_file: "plain (repo_root os) \<Longrightarrow> plain (fa_profile a) \<Longrightarrow> plain (uart_capture_file os a)"
  unfolding uart_capture_file_def by (intro plain_build_file plain_append) (simp_all add: printable_plain)

lemma feedback_env_jobs:
  assumes "k \<in> {''AX7203_MAX_THREADS'', ''AX7203_SYNTH_JOBS'', ''AX7203_IMPL_JOBS''}"
  shows "env_or (feedback_env os a p d) k [] = (case os_environ os k of
      None \<Rightarrow> default_vivado_jobs (os_environ os) (cpu_count os) | Some v \<Rightarrow> v)"
  using assms by (elim insertE emptyE)
    (simp_all add: feedback_env_def Let_def env_or_def set_optional_apply setdefault_same split: option.split)

lemma feedback_env_plain:
  assumes "plain_inputs os a p" and k: "k \<in> {''AX7203_MAX_THREADS'', ''AX7203_SYNTH_JOBS'', ''AX7203_IMPL_JOBS''}"
  shows "plain (env_or (feedback_env os a p d) k [])"
proof -
  have "plain (env_or (os_environ os) k [])"
    using assms by (auto simp: plain_inputs_def)
  moreover have "plain (default_vivado_jobs (os_environ os) (cpu_count os))"
    by (simp add: default_vivado_jobs_def Let_def printable_plain)
  ultimately show ?thesis
    unfolding feedback_env_jobs [OF k] by (auto simp: env_or_def split: option.splits)
qed

lemma feedback_fields_plain:
  assumes in_: "plain_inputs os a p" and bid: "plain bid"
  shows "list_all (\<lambda>(k, v). plain_key k \<and> plain v) (feedback_fields os a p (outcome_of os a p bid uart))"
proof -
  have root: "plain (repo_root os)" "plain (fa_profile a)" "plain (p_top p)" "plain (feedback_expect a p)"
    using in_ by (simp_all add: plain_inputs_def)
  have keys: "list_all (\<lambda>(k, v). plain_key k) (feedback_fields os a p fo)" for fo
    by (simp add: feedback_fields_def plain_key_def printable_plain)
  have "list_all (\<lambda>(k, v). plain v) (feedback_fields os a p (outcome_of os a p bid uart))"
    using feedback_env_plain [OF in_]
    by (simp add: feedback_fields_def outcome_of_def Let_def root bid printable_plain plain_own_log
        plain_capture_file)
  then show ?thesis
    using keys [of "outcome_of os a p bid uart"] by (fastforce simp: list_all_iff)
qed

lemma feedback_fields_distinct: "distinct (map fst (feedback_fields os a p fo))"
  by (simp add: feedback_fields_def)

lemma report_read_back:
  assumes "plain_inputs os a p" and "plain bid"
  shows "parse_summary (Some (summary_text (feedback_fields os a p (outcome_of os a p bid uart))))
    = map_of (feedback_fields os a p (outcome_of os a p bid uart))"
  by (rule parse_summary_text [OF feedback_fields_plain [OF assms] feedback_fields_distinct])
    (simp add: feedback_fields_def)

section \<open>What a run comes to\<close>

lemma run_logged_rc_Inr:
  "run_logged_rc os c m = (Inr rc, m') \<Longrightarrow>
     \<exists>out fs. m' = \<lparr>files = fs(cmd_log c \<mapsto> log_of c (Exited rc out)), actions = actions m @ [Ran c (Exited rc out)]\<rparr>
       \<and> run_cmd os (actions m) c ((files m)(cmd_log c \<mapsto> log_header c)) = (Exited rc out, fs)"
  by (auto simp: run_logged_rc_def split: prod.splits run_result.splits)

lemma run_logged_rc_Inl:
  "run_logged_rc os c m = (Inl e, m') \<Longrightarrow>
     e \<in> {TimeoutExpired, OSError} \<and> (\<exists>r. actions m' = actions m @ [Ran c r] \<and> (\<forall>rc out. r \<noteq> Exited rc out))"
  by (auto simp: run_logged_rc_def split: prod.splits run_result.splits)

text \<open>A command that ran to its end with a return code.\<close>

definition ended :: "command \<Rightarrow> int \<Rightarrow> action \<Rightarrow> bool" where
  "ended c rc act \<longleftrightarrow> (\<exists>out. act = Ran c (Exited rc out))"

definition main_command :: "os \<Rightarrow> autodebug_args \<Rightarrow> nat \<Rightarrow> string \<Rightarrow> command" where
  "main_command os a idx profile = board_command os a profile (ad_main_seconds a) (numbered_log os idx profile)"

definition diag_command :: "os \<Rightarrow> autodebug_args \<Rightarrow> nat \<Rightarrow> string \<Rightarrow> command" where
  "diag_command os a idx profile = board_command os a profile (ad_diag_seconds a) (numbered_log os idx profile)"

lemma run_board_profile_Inr:
  assumes "run_board_profile os a profile seconds log m = (Inr r, m')"
  shows "\<exists>act. actions m' = actions m @ [act] \<and> ended (board_command os a profile seconds log) (br_rc r) act"
  using assms unfolding run_board_profile_def ended_def
  by (auto simp: flow_Inr remove_file_def dest!: run_logged_rc_Inr)

lemma main_profiles_Inr:
  assumes "main_profiles os a idx ps m = (Inr (rs, failed), m')" and "''none'' \<notin> set ps"
  shows "\<exists>acts. actions m' = actions m @ acts \<and> length acts = length rs \<and> length rs \<le> length ps
    \<and> (\<forall>i < length acts. ended (main_command os a (idx + i) (ps ! i)) (br_rc (rs ! i)) (acts ! i))
    \<and> (\<forall>i < length rs. br_profile (rs ! i) = ps ! i)
    \<and> (if failed = ''none'' then length rs = length ps \<and> list_all (\<lambda>r. br_rc r = 0) rs
       else rs \<noteq> [] \<and> failed = br_profile (last rs) \<and> br_rc (last rs) \<noteq> 0 \<and> list_all (\<lambda>r. br_rc r = 0) (butlast rs))"
  using assms
proof (induction ps arbitrary: idx m rs)
  case (Cons p ps)
  then obtain r m1 where r: "run_board_profile os a p (ad_main_seconds a) (numbered_log os idx p) m = (Inr r, m1)"
    and rest: "(if br_rc r \<noteq> 0 then give ([r], p)
      else and_then (main_profiles os a (Suc idx) ps) (\<lambda>(rs, failed). give (r # rs, failed))) m1 = (Inr (rs, failed), m')"
    by (auto simp: and_then_Inr)
  have prof: "br_profile r = p"
    using r by (auto simp: run_board_profile_def flow_Inr)
  obtain act where act: "actions m1 = actions m @ [act]" "ended (main_command os a idx p) (br_rc r) act"
    using run_board_profile_Inr [OF r] by (auto simp: main_command_def)
  show ?case
  proof (cases "br_rc r = 0")
    case False
    with rest have "rs = [r]" "failed = p" "m' = m1"
      by (auto simp: give_Inr)
    with act False prof Cons.prems(2) show ?thesis
      by (intro exI [of _ "[act]"]) auto
  next
    case True
    with rest obtain rs' where rs: "rs = r # rs'" and m': "main_profiles os a (Suc idx) ps m1 = (Inr (rs', failed), m')"
      by (auto simp: and_then_Inr give_Inr)
    obtain acts where acts: "actions m' = actions m1 @ acts" "length acts = length rs'" "length rs' \<le> length ps"
      "\<forall>i < length acts. ended (main_command os a (Suc idx + i) (ps ! i)) (br_rc (rs' ! i)) (acts ! i)"
      "\<forall>i < length rs'. br_profile (rs' ! i) = ps ! i"
      "if failed = ''none'' then length rs' = length ps \<and> list_all (\<lambda>r. br_rc r = 0) rs'
       else rs' \<noteq> [] \<and> failed = br_profile (last rs') \<and> br_rc (last rs') \<noteq> 0 \<and> list_all (\<lambda>r. br_rc r = 0) (butlast rs')"
      using Cons.IH [OF m'] Cons.prems(2) by auto
    have "ended (main_command os a (idx + i) ((p # ps) ! i)) (br_rc ((r # rs') ! i)) ((act # acts) ! i)"
      if "i < length (act # acts)" for i
      using act(2) acts(4) that by (cases i) auto
    moreover have "br_profile ((r # rs') ! i) = (p # ps) ! i" if "i < length (r # rs')" for i
      using prof acts(5) that by (cases i) auto
    ultimately show ?thesis
      using act(1) acts(1-3,6) True unfolding rs by (intro exI [of _ "act # acts"]) auto
  qed
qed (auto simp: give_Inr)

lemma diag_profiles_Inr:
  assumes "diag_profiles os a idx ps m = (Inr rs, m')"
  shows "\<exists>acts. actions m' = actions m @ acts \<and> length acts = length ps \<and> length rs = length ps
    \<and> (\<forall>i < length ps. br_profile (rs ! i) = ps ! i \<and> ended (diag_command os a (idx + i) (ps ! i)) (br_rc (rs ! i)) (acts ! i))"
  using assms
proof (induction ps arbitrary: idx m rs)
  case (Cons p ps)
  then obtain r m1 rs' where r: "run_board_profile os a p (ad_diag_seconds a) (numbered_log os idx p) m = (Inr r, m1)"
    and rest: "diag_profiles os a (Suc idx) ps m1 = (Inr rs', m')" and rs: "rs = r # rs'"
    by (auto simp: and_then_Inr give_Inr)
  have prof: "br_profile r = p"
    using r by (auto simp: run_board_profile_def flow_Inr)
  obtain act where act: "actions m1 = actions m @ [act]" "ended (diag_command os a idx p) (br_rc r) act"
    using run_board_profile_Inr [OF r] by (auto simp: diag_command_def)
  obtain acts where acts: "actions m' = actions m1 @ acts" "length acts = length ps" "length rs' = length ps"
    "\<forall>i < length ps. br_profile (rs' ! i) = ps ! i \<and> ended (diag_command os a (Suc idx + i) (ps ! i)) (br_rc (rs' ! i)) (acts ! i)"
    using Cons.IH [OF rest] by auto
  have "br_profile ((r # rs') ! i) = (p # ps) ! i
      \<and> ended (diag_command os a (idx + i) ((p # ps) ! i)) (br_rc ((r # rs') ! i)) ((act # acts) ! i)"
    if "i < length (p # ps)" for i
    using act(2) acts(4) prof that by (cases i) auto
  then show ?case
    using act(1) acts(1-3) unfolding rs by (intro exI [of _ "act # acts"]) auto
qed (auto simp: give_Inr)

text \<open>
  C29. A debug run that returns did this: the basic tests; if they passed, the main profiles in order up to
  and with the first that failed; if one failed, all four diagnostic profiles.  It returns 0 just when the
  basic tests and both main profiles returned 0, and its summary shows the runs with their return codes.
\<close>

theorem autodebug_outcome:
  assumes "fresh m" and "autodebug_main os a m = (Inr rc, m')"
  shows "\<exists>basic b rs diags mains tail failed. actions m' = basic # mains @ tail \<and> ended (basic_command os) b basic
    \<and> files m' (autodebug_file os ''summary.txt'')
        = Some (join_with newline (overall_lines os a b rs diags failed) @ newline)
    \<and> (if b \<noteq> 0 then rc = 1 \<and> failed = ''basic'' \<and> mains = [] \<and> tail = [] \<and> rs = [] \<and> diags = []
       else length mains = length rs \<and> rs \<noteq> [] \<and> length rs \<le> 2 \<and> list_all (\<lambda>r. br_rc r = 0) (butlast rs)
         \<and> list_all (\<lambda>(i, r, act). ended (main_command os a (2 + i) (MAIN_PROFILES ! i)) (br_rc r) act)
             (zip [0..<length rs] (zip rs mains))
         \<and> (if br_rc (last rs) = 0 then rc = 0 \<and> failed = ''none'' \<and> length rs = 2 \<and> tail = [] \<and> diags = []
            else rc = 1 \<and> failed = MAIN_PROFILES ! (length rs - 1) \<and> length tail = 4 \<and> length diags = 4
              \<and> list_all (\<lambda>(i, r, act). ended (diag_command os a (10 + i) (DIAGNOSTIC_PROFILES ! i)) (br_rc r) act)
                  (zip [0..<4] (zip diags tail))))"
proof -
  obtain b m1 rs failed m2 diags m3 where
    basic: "run_logged_rc os (basic_command os) m = (Inr b, m1)"
    and mains: "(if b = 0 then main_profiles os a 2 MAIN_PROFILES else give ([], ''basic'')) m1 = (Inr (rs, failed), m2)"
    and diag: "(if failed \<in> {''core_diag'', ''uart_echo''} then diag_profiles os a 10 DIAGNOSTIC_PROFILES else give []) m2
      = (Inr diags, m3)"
    and last: "m' = m3\<lparr>files := (files m3)(autodebug_file os ''summary.txt''
      \<mapsto> join_with newline (overall_lines os a b rs diags failed) @ newline)\<rparr>"
      "rc = (if failed = ''none'' then 0 else 1)"
    using assms(2) unfolding autodebug_main_def by (auto simp: flow_Inr)
  obtain act where act: "actions m1 = [act]" "ended (basic_command os) b act"
    using run_logged_rc_Inr [OF basic] assms(1) by (auto simp: fresh_def ended_def)
  have summ: "files m' (autodebug_file os ''summary.txt'')
      = Some (join_with newline (overall_lines os a b rs diags failed) @ newline)" and acts': "actions m' = actions m3"
    using last(1) by simp_all
  show ?thesis
  proof (cases "b = 0")
    case False
    with mains diag have "rs = []" "failed = ''basic''" "diags = []" "m3 = m1"
      by (auto simp: give_Inr)
    with False act summ last(2) acts' show ?thesis
      by (intro exI [of _ act] exI [of _ b] exI [of _ "[]"] exI [of _ "''basic''"]) simp
  next
    case b: True
    have names: "''none'' \<notin> set MAIN_PROFILES" "length MAIN_PROFILES = 2" "length DIAGNOSTIC_PROFILES = 4"
      "set MAIN_PROFILES = {''core_diag'', ''uart_echo''}"
      by (auto simp: MAIN_PROFILES_def DIAGNOSTIC_PROFILES_def)
    obtain ma where ma: "actions m2 = act # ma" "length ma = length rs" "length rs \<le> 2"
      "\<forall>i < length ma. ended (main_command os a (2 + i) (MAIN_PROFILES ! i)) (br_rc (rs ! i)) (ma ! i)"
      "\<forall>i < length rs. br_profile (rs ! i) = MAIN_PROFILES ! i"
      "if failed = ''none'' then length rs = 2 \<and> list_all (\<lambda>r. br_rc r = 0) rs
       else rs \<noteq> [] \<and> failed = br_profile (last rs) \<and> br_rc (last rs) \<noteq> 0 \<and> list_all (\<lambda>r. br_rc r = 0) (butlast rs)"
      using main_profiles_Inr [OF mains [unfolded b, simplified] names(1)] act(1) names(2) by auto
    have all: "list_all (\<lambda>(i, r, act). ended (main_command os a (2 + i) (MAIN_PROFILES ! i)) (br_rc r) act)
             (zip [0..<length rs] (zip rs ma))"
      using ma(2,4) by (auto simp: list_all_length)
    show ?thesis
    proof (cases "failed = ''none''")
      case True
      with ma(6) have rs: "length rs = 2" "list_all (\<lambda>r. br_rc r = 0) rs" by auto
      then have "rs \<noteq> []" by auto
      with rs have "rs \<noteq> []" "br_rc (List.last rs) = 0" "list_all (\<lambda>r. br_rc r = 0) (butlast rs)"
        by (auto simp: list_all_iff dest: in_set_butlastD)
      moreover have "diags = []" "m3 = m2"
        using diag True by (auto simp: give_Inr)
      ultimately show ?thesis
        using act(2) all b summ last(2) acts' ma(1,2) rs True
        by (intro exI [of _ act] exI [of _ b] exI [of _ rs] exI [of _ "[]"] exI [of _ ma] exI [of _ "''none''"]) simp
    next
      case False
      with ma(6) have rs: "rs \<noteq> []" "failed = br_profile (List.last rs)" "br_rc (List.last rs) \<noteq> 0"
        "list_all (\<lambda>r. br_rc r = 0) (butlast rs)" by auto
      then have failed: "failed = MAIN_PROFILES ! (length rs - 1)"
        using ma(5) by (simp add: last_conv_nth)
      then have "failed \<in> set MAIN_PROFILES"
        using ma(3) rs(1) names(2) by (metis One_nat_def Suc_pred length_greater_0_conv less_le_trans lessI nth_mem)
      then have "diag_profiles os a 10 DIAGNOSTIC_PROFILES m2 = (Inr diags, m3)"
        using diag names(4) by simp
      then obtain da where da: "actions m3 = actions m2 @ da" "length da = 4" "length diags = 4"
        "\<forall>i < 4. ended (diag_command os a (10 + i) (DIAGNOSTIC_PROFILES ! i)) (br_rc (diags ! i)) (da ! i)"
        using diag_profiles_Inr names(3) by metis
      then have "list_all (\<lambda>(i, r, act). ended (diag_command os a (10 + i) (DIAGNOSTIC_PROFILES ! i)) (br_rc r) act)
                  (zip [0..<4] (zip diags da))"
        by (auto simp: list_all_length)
      then show ?thesis
        using act(2) all b summ last(2) acts' ma(1-3) rs False da(1-3) failed
        by (intro exI [of _ act] exI [of _ b] exI [of _ rs] exI [of _ diags] exI [of _ ma] exI [of _ da] exI [of _ failed]) simp
    qed
  qed
qed

definition demo_autodebug :: autodebug_args where
  "demo_autodebug = \<lparr>ad_port = ''COM5'', ad_rs_depth = 48, ad_fetch_buffer_depth = 16, ad_core_hz = 10000000,
     ad_main_seconds = 4, ad_diag_seconds = 8\<rparr>"

text \<open>A machine on which the tests and the board flow return a given code and leave given files.\<close>

definition fixed_os :: "int \<Rightarrow> file_map \<Rightarrow> os" where
  "fixed_os rc fs = demo_os\<lparr>run_cmd := \<lambda>acts c fs0. (Exited rc [], fs)\<rparr>"

lemma fixed_run: "run_logged_rc (fixed_os rc fs) c m
    = (Inr rc, \<lparr>files = fs(cmd_log c \<mapsto> log_of c (Exited rc [])), actions = actions m @ [Ran c (Exited rc [])]\<rparr>)"
  by (simp add: run_logged_rc_def fixed_os_def)

lemma autodebug_outcome_witness:
  "\<exists>m'. autodebug_main (fixed_os 1 Map.empty) demo_autodebug demo_start = (Inr 1, m') \<and> length (actions m') = 1"
proof -
  have run: "\<exists>m'. autodebug_main (fixed_os 1 Map.empty) demo_autodebug demo_start = (Inr 1, m') \<and> length (actions m') = 1"
    by (simp add: autodebug_main_def and_then_def fixed_run give_def write_file_def demo_start_def)
  then obtain m' where m': "autodebug_main (fixed_os 1 Map.empty) demo_autodebug demo_start = (Inr 1, m')" by blast
  have "fresh demo_start"
    by (simp add: fresh_def demo_start_def)
  from autodebug_outcome [OF this m'] run show ?thesis by auto
qed



section \<open>Runs that are stopped\<close>

text \<open>A flow that leaves a file alone, as long as the programs it starts do.\<close>

definition keeps :: "string \<Rightarrow> 'a flow \<Rightarrow> bool" where
  "keeps path f \<longleftrightarrow> (\<forall>m. files (snd (f m)) path = files m path)"

lemma keeps_and_then: "keeps path f \<Longrightarrow> (\<And>x. keeps path (g x)) \<Longrightarrow> keeps path (and_then f g)"
  unfolding keeps_def and_then_def by (auto split: prod.splits sum.splits) (metis snd_conv)+

lemma keeps_simple: "keeps path (give x)" "keeps path (look_file p)" "p \<noteq> path \<Longrightarrow> keeps path (remove_file p)"
  by (simp_all add: keeps_def give_def look_file_def remove_file_def)

lemma keeps_run:
  assumes "\<And>acts c fs. snd (run_cmd os acts c fs) path = fs path" and "cmd_log c \<noteq> path"
  shows "keeps path (run_logged_rc os c)"
  unfolding keeps_def
proof
  fix m
  show "files (snd (run_logged_rc os c m)) path = files m path"
    using assms(1) [of "actions m" c "(files m)(cmd_log c \<mapsto> log_header c)"] assms(2)
    by (auto simp: run_logged_rc_def split: prod.splits)
qed

lemma log_no_summary: "autodebug_file os (s @ ''.log'') \<noteq> autodebug_file os ''summary.txt''"
proof
  assume "autodebug_file os (s @ ''.log'') = autodebug_file os ''summary.txt''"
  then have "s @ ''.log'' = ''summary.txt''"
    by (simp add: autodebug_file_def build_file_def in_dir_def)
  then have "last (s @ ''.log'') = last ''summary.txt''"
    by (rule arg_cong)
  then show False by simp
qed

lemma board_profile_keeps:
  assumes "\<And>acts c fs. snd (run_cmd os acts c fs) (autodebug_file os ''summary.txt'') = fs (autodebug_file os ''summary.txt'')"
  shows "keeps (autodebug_file os ''summary.txt'') (run_board_profile os a p s (numbered_log os idx p'))"
proof -
  have "board_summary_path os p \<noteq> autodebug_file os ''summary.txt''"
    by (simp add: board_summary_path_def autodebug_file_def build_file_def in_dir_def)
  moreover have "cmd_log (board_command os a p s (numbered_log os idx p')) \<noteq> autodebug_file os ''summary.txt''"
    using log_no_summary [of os "(if idx < 10 then ''0'' else []) @ dec_str idx @ ''_'' @ p'"]
    by (simp add: board_command_def numbered_log_def)
  ultimately show ?thesis
    unfolding run_board_profile_def by (intro keeps_and_then keeps_run keeps_simple assms)
qed

lemma main_profiles_keep:
  assumes "\<And>acts c fs. snd (run_cmd os acts c fs) (autodebug_file os ''summary.txt'') = fs (autodebug_file os ''summary.txt'')"
  shows "keeps (autodebug_file os ''summary.txt'') (main_profiles os a idx ps)"
  by (induction ps arbitrary: idx) (auto intro!: keeps_and_then keeps_simple board_profile_keeps assms split: prod.split)

lemma diag_profiles_keep:
  assumes "\<And>acts c fs. snd (run_cmd os acts c fs) (autodebug_file os ''summary.txt'') = fs (autodebug_file os ''summary.txt'')"
  shows "keeps (autodebug_file os ''summary.txt'') (diag_profiles os a idx ps)"
  by (induction ps arbitrary: idx) (auto intro!: keeps_and_then keeps_simple board_profile_keeps assms)

definition cut_off :: "machine \<Rightarrow> bool" where
  "cut_off m \<longleftrightarrow> (\<exists>acts c r. actions m = acts @ [Ran c r] \<and> (\<forall>rc out. r \<noteq> Exited rc out))"

lemma cut_off_bind:
  assumes "and_then f g m = (Inl e, m')"
    and "\<And>m'. f m = (Inl e, m') \<Longrightarrow> Q e m'" and "\<And>x m1. g x m1 = (Inl e, m') \<Longrightarrow> Q e m'"
  shows "Q e m'"
  using assms by (auto simp: and_then_Inl)

lemma run_board_profile_Inl:
  assumes "run_board_profile os a p s log m = (Inl e, m')"
  shows "e \<in> {TimeoutExpired, OSError} \<and> cut_off m'"
  using assms run_logged_rc_Inl unfolding run_board_profile_def cut_off_def
  by (fastforce simp: and_then_Inl give_def look_file_def remove_file_def)

lemma main_profiles_Inl:
  "main_profiles os a idx ps m = (Inl e, m') \<Longrightarrow> e \<in> {TimeoutExpired, OSError} \<and> cut_off m'"
proof (induction ps arbitrary: idx m)
  case (Cons p ps)
  from Cons.prems show ?case
    unfolding main_profiles.simps
    by (rule cut_off_bind) (auto simp: and_then_Inl give_def dest: run_board_profile_Inl Cons.IH split: if_splits)
qed (simp add: give_def)

lemma diag_profiles_Inl:
  "diag_profiles os a idx ps m = (Inl e, m') \<Longrightarrow> e \<in> {TimeoutExpired, OSError} \<and> cut_off m'"
proof (induction ps arbitrary: idx m)
  case (Cons p ps)
  from Cons.prems show ?case
    unfolding diag_profiles.simps
    by (rule cut_off_bind) (auto simp: and_then_Inl give_def dest: run_board_profile_Inl Cons.IH)
qed (simp add: give_def)

text \<open>
  The debug flow has no answer to a program that exceeds its time limit or cannot be started: it ends
  with that exception at once, without the diagnostic profiles, and the summary of an earlier run, whatever
  it says, stays in place.
\<close>

theorem autodebug_cut_off:
  assumes "autodebug_main os a m = (Inl e, m')"
    and "\<And>acts c fs. snd (run_cmd os acts c fs) (autodebug_file os ''summary.txt'') = fs (autodebug_file os ''summary.txt'')"
  shows "e \<in> {TimeoutExpired, OSError} \<and> cut_off m'
    \<and> files m' (autodebug_file os ''summary.txt'') = files m (autodebug_file os ''summary.txt'')"
proof -
  let ?s = "autodebug_file os ''summary.txt''"
  have basic: "keeps ?s (run_logged_rc os (basic_command os))"
    using log_no_summary [of os "''01_basic''"] by (intro keeps_run assms) (simp add: basic_command_def)
  note keep = main_profiles_keep [OF assms(2), unfolded keeps_def] diag_profiles_keep [OF assms(2), unfolded keeps_def]
    basic [unfolded keeps_def]
  consider (basic) "run_logged_rc os (basic_command os) m = (Inl e, m')"
    | (main) b m1 where "run_logged_rc os (basic_command os) m = (Inr b, m1)"
        "main_profiles os a 2 MAIN_PROFILES m1 = (Inl e, m')"
    | (diag) b m1 x m2 where "run_logged_rc os (basic_command os) m = (Inr b, m1)"
        "main_profiles os a 2 MAIN_PROFILES m1 = (Inr x, m2) \<or> m2 = m1"
        "diag_profiles os a 10 DIAGNOSTIC_PROFILES m2 = (Inl e, m')"
    using assms(1) unfolding autodebug_main_def
    by (auto simp: and_then_Inl give_def write_file_def split: if_splits prod.splits)
  then show ?thesis
  proof cases
    case basic
    then have "files m' ?s = files m ?s"
      using keep(3) by (metis snd_conv)
    then show ?thesis
      using run_logged_rc_Inl [OF basic] by (auto simp: cut_off_def)
  next
    case (main b m1)
    then show ?thesis
      using main_profiles_Inl [OF main(2)] keep(1,3) by (metis snd_conv)
  next
    case (diag b m1 x m2)
    then show ?thesis
      using diag_profiles_Inl [OF diag(3)] keep by (metis snd_conv)
  qed
qed

text \<open>A machine on which every program exceeds its limit.\<close>

definition hanging_os :: os where
  "hanging_os = demo_os\<lparr>run_cmd := \<lambda>acts c fs. (Expired [], fs)\<rparr>"

lemma autodebug_cut_off_witness:
  "\<exists>m'. autodebug_main hanging_os demo_autodebug
       \<lparr>files = [autodebug_file hanging_os ''summary.txt'' \<mapsto> ''MainPass: True''], actions = []\<rparr> = (Inl TimeoutExpired, m')
     \<and> files m' (autodebug_file hanging_os ''summary.txt'') = Some ''MainPass: True''"
proof -
  let ?m = "\<lparr>files = [autodebug_file hanging_os ''summary.txt'' \<mapsto> ''MainPass: True''], actions = []\<rparr>"
  obtain m' where run: "autodebug_main hanging_os demo_autodebug ?m = (Inl TimeoutExpired, m')"
    by (simp add: autodebug_main_def and_then_def run_logged_rc_def hanging_os_def)
  have "snd (run_cmd hanging_os acts c fs) (autodebug_file hanging_os ''summary.txt'')
      = fs (autodebug_file hanging_os ''summary.txt'')" for acts c fs
    by (simp add: hanging_os_def)
  from autodebug_cut_off [OF run this] run show ?thesis by simp
qed

end
