(* ===== verification/Json.thy ===== *)
theory Json
  imports Pattern
begin

text \<open>
  \<^verbatim>\<open>json.dumps(value, indent=2)\<close> and \<^verbatim>\<open>json.loads(text)\<close>, by which the scripts hand summaries and payload
  manifests to each other.  A dict is the list of its items in insertion order.  A number with a fraction
  or an exponent is kept as its text; strings hold characters below 256, so an escape for a larger one is
  an input outside the model.  The reader takes fuel, one unit for each value it goes into.
\<close>

section \<open>Values\<close>

datatype json = JNull | JBool bool | JInt int | JReal string | JStr string | JList "json list" | JObj "(string \<times> json) list"

text \<open>\<^verbatim>\<open>d[key] = value\<close>\<close>

fun set_item :: "string \<Rightarrow> json \<Rightarrow> (string \<times> json) list \<Rightarrow> (string \<times> json) list" where
  "set_item key v [] = [(key, v)]"
| "set_item key v ((k, w) # kvs) = (if k = key then (k, v) # kvs else (k, w) # set_item key v kvs)"

section \<open>Writing\<close>

text \<open>One character of a string; the flag is \<^verbatim>\<open>ensure_ascii\<close>.\<close>

definition short_escapes :: "(char \<times> char) list" where
  "short_escapes = [(CHR 0x22, CHR 0x22), (CHR 0x5C, CHR 0x5C), (CHR 0x0A, CHR ''n''), (CHR 0x0D, CHR ''r''),
     (CHR 0x09, CHR ''t''), (CHR 0x0C, CHR ''f''), (CHR 0x08, CHR ''b'')]"

definition json_char :: "bool \<Rightarrow> char \<Rightarrow> string" where
  "json_char ascii c =
     (case map_of short_escapes c of
        Some e \<Rightarrow> [CHR 0x5C, e]
      | None \<Rightarrow>
          (let k = of_char c :: nat in
           if k < 32 \<or> ascii \<and> 126 < k then CHR 0x5C # CHR ''u'' # fmt_x 4 k else [c]))"

definition json_string :: "bool \<Rightarrow> string \<Rightarrow> string" where
  "json_string ascii s = CHR 0x22 # concat (map (json_char ascii) s) @ [CHR 0x22]"

definition indent_line :: "nat \<Rightarrow> string" where
  "indent_line level = newline @ replicate (2 * level) (CHR '' '')"

fun json_text :: "bool \<Rightarrow> nat \<Rightarrow> json \<Rightarrow> string"
  and json_items :: "bool \<Rightarrow> nat \<Rightarrow> json list \<Rightarrow> string"
  and json_members :: "bool \<Rightarrow> nat \<Rightarrow> (string \<times> json) list \<Rightarrow> string" where
  "json_text ascii n JNull = ''null''"
| "json_text ascii n (JBool b) = (if b then ''true'' else ''false'')"
| "json_text ascii n (JInt i) = str_int i"
| "json_text ascii n (JReal t) = t"
| "json_text ascii n (JStr s) = json_string ascii s"
| "json_text ascii n (JList xs) =
     (if xs = [] then ''[]'' else ''['' @ json_items ascii (Suc n) xs @ indent_line n @ '']'')"
| "json_text ascii n (JObj kvs) =
     (if kvs = [] then ''{}'' else ''{'' @ json_members ascii (Suc n) kvs @ indent_line n @ ''}'')"
| "json_items ascii n [] = []"
| "json_items ascii n (x # xs) =
     indent_line n @ json_text ascii n x @ (if xs = [] then [] else '','') @ json_items ascii n xs"
| "json_members ascii n [] = []"
| "json_members ascii n ((k, x) # kvs) =
     indent_line n @ json_string ascii k @ '': '' @ json_text ascii n x @ (if kvs = [] then [] else '','')
     @ json_members ascii n kvs"

definition json_dumps :: "bool \<Rightarrow> json \<Rightarrow> string" where
  "json_dumps ascii j = json_text ascii 0 j"

section \<open>Reading\<close>

definition json_space :: "char \<Rightarrow> bool" where
  "json_space c \<longleftrightarrow> c \<in> {CHR '' '', CHR 0x09, CHR 0x0A, CHR 0x0D}"

definition skip_space :: "string \<Rightarrow> string" where
  "skip_space s = dropWhile json_space s"

definition json_escape :: "char \<Rightarrow> char option" where
  "json_escape c = map_of [(CHR 0x22, CHR 0x22), (CHR 0x5C, CHR 0x5C), (CHR ''/'', CHR ''/''), (CHR ''b'', CHR 0x08),
     (CHR ''f'', CHR 0x0C), (CHR ''n'', CHR 0x0A), (CHR ''r'', CHR 0x0D), (CHR ''t'', CHR 0x09)] c"

definition cons_first :: "char \<Rightarrow> (string \<times> string) option \<Rightarrow> (string \<times> string) option" where
  "cons_first c r = map_option (\<lambda>(s, rest). (c # s, rest)) r"

text \<open>The rest of a string after its opening quote.\<close>

fun read_string :: "string \<Rightarrow> (string \<times> string) option" where
  "read_string [] = None"
| "read_string (c # r) =
     (if c = CHR 0x22 then Some ([], r)
      else if c = CHR 0x5C then
        (case r of
           [] \<Rightarrow> None
         | e # r1 \<Rightarrow>
             if e = CHR ''u'' then
               (if 4 \<le> length r1 \<and> list_all is_hex (take 4 r1) \<and> hex_value (take 4 r1) < 256
                then cons_first (char_of (hex_value (take 4 r1))) (read_string (drop 4 r1)) else None)
             else (case json_escape e of None \<Rightarrow> None | Some d \<Rightarrow> cons_first d (read_string r1)))
      else if (of_char c :: nat) < 32 then None
      else cons_first c (read_string r))"

text \<open>A number: digits without a leading zero, and perhaps a fraction and an exponent.\<close>

definition starts :: "char \<Rightarrow> string \<Rightarrow> bool" where
  "starts c s \<longleftrightarrow> s \<noteq> [] \<and> hd s = c"

definition leading_digits :: "string \<Rightarrow> string" where
  "leading_digits s = (if starts (CHR ''0'') s then ''0'' else takeWhile is_dec s)"

definition read_fraction :: "string \<Rightarrow> string \<times> string" where
  "read_fraction s = (case s of
       c # d # r \<Rightarrow> if c = CHR ''.'' \<and> is_dec d
         then (c # takeWhile is_dec (d # r), dropWhile is_dec (d # r)) else ([], s)
     | _ \<Rightarrow> ([], s))"

definition read_exponent :: "string \<Rightarrow> string \<times> string" where
  "read_exponent s = (case s of
       c # r \<Rightarrow> if c \<in> {CHR ''e'', CHR ''E''} then
           (let sign = (case r of d # _ \<Rightarrow> if d \<in> {CHR ''+'', CHR ''-''} then [d] else [] | [] \<Rightarrow> []);
                rest = drop (length sign) r
            in if takeWhile is_dec rest \<noteq> [] then (c # sign @ takeWhile is_dec rest, dropWhile is_dec rest) else ([], s))
         else ([], s)
     | [] \<Rightarrow> ([], s))"

definition read_unsigned :: "bool \<Rightarrow> string \<Rightarrow> (json \<times> string) option" where
  "read_unsigned neg s =
     (let digits = leading_digits s;
          (frac, r1) = read_fraction (drop (length digits) s);
          (expo, r2) = read_exponent r1
      in if digits = [] then None
         else if frac = [] \<and> expo = [] then Some (JInt (if neg then - int (dec_value digits) else int (dec_value digits)), r2)
         else Some (JReal ((if neg then ''-'' else []) @ digits @ frac @ expo), r2))"

definition read_number :: "string \<Rightarrow> (json \<times> string) option" where
  "read_number s = (if starts (CHR ''-'') s then read_unsigned True (tl s) else read_unsigned False s)"

definition json_words :: "(string \<times> json) list" where
  "json_words = [(''null'', JNull), (''true'', JBool True), (''false'', JBool False), (''NaN'', JReal ''NaN''),
     (''Infinity'', JReal ''Infinity''), (''-Infinity'', JReal ''-Infinity'')]"

definition read_word :: "string \<Rightarrow> (json \<times> string) option" where
  "read_word s = (case filter (\<lambda>(w, j). take (length w) s = w) json_words of
       (w, j) # _ \<Rightarrow> Some (j, drop (length w) s) | [] \<Rightarrow> None)"

fun read_value :: "nat \<Rightarrow> string \<Rightarrow> (json \<times> string) option"
  and read_items :: "nat \<Rightarrow> string \<Rightarrow> (json list \<times> string) option"
  and read_members :: "nat \<Rightarrow> string \<Rightarrow> ((string \<times> json) list \<times> string) option" where
  "read_value 0 s = None"
| "read_value (Suc n) s =
     (if starts (CHR 0x22) s then map_option (\<lambda>(t, r). (JStr t, r)) (read_string (tl s))
      else if starts (CHR ''['') s then
        (let r = skip_space (tl s) in
         if starts (CHR '']'') r then Some (JList [], tl r) else map_option (\<lambda>(xs, u). (JList xs, u)) (read_items n r))
      else if starts (CHR ''{'') s then
        (let r = skip_space (tl s) in
         if starts (CHR ''}'') r then Some (JObj [], tl r) else map_option (\<lambda>(kvs, u). (JObj kvs, u)) (read_members n r))
      else (case read_word s of Some r \<Rightarrow> Some r | None \<Rightarrow> read_number s))"
| "read_items 0 s = None"
| "read_items (Suc n) s =
     (case read_value n s of
        None \<Rightarrow> None
      | Some (x, r) \<Rightarrow>
          (let u = skip_space r in
           if starts (CHR '']'') u then Some ([x], tl u)
           else if starts (CHR '','') u then map_option (\<lambda>(xs, v). (x # xs, v)) (read_items n (skip_space (tl u)))
           else None))"
| "read_members 0 s = None"
| "read_members (Suc n) s =
     (if starts (CHR 0x22) s then
        (case read_string (tl s) of
           None \<Rightarrow> None
         | Some (k, r) \<Rightarrow>
             (let c = skip_space r in
              if starts (CHR '':'') c then
                (case read_value n (skip_space (tl c)) of
                   None \<Rightarrow> None
                 | Some (x, r1) \<Rightarrow>
                     (let u = skip_space r1 in
                      if starts (CHR ''}'') u then Some ([(k, x)], tl u)
                      else if starts (CHR '','') u
                      then map_option (\<lambda>(kvs, v). ((k, x) # kvs, v)) (read_members n (skip_space (tl u)))
                      else None))
              else None))
      else None)"

definition json_loads :: "string \<Rightarrow> json option" where
  "json_loads s = (case read_value (2 * length s + 2) (skip_space s) of
       Some (j, r) \<Rightarrow> if skip_space r = [] then Some j else None
     | None \<Rightarrow> None)"

section \<open>Reading back\<close>

lemma dec_value_str: "dec_value (dec_str n) = n"
proof (induction n rule: dec_str.induct)
  case (1 n)
  show ?case
  proof (cases "n < 10")
    case True
    then show ?thesis
      using hex_digit_cases [of n] by (simp add: dec_str.simps [of n] dec_value_def)
  next
    case False
    then show ?thesis
      using 1 hex_digit_cases [of "n mod 10"] by (simp add: dec_str.simps [of n] dec_value_def)
  qed
qed

lemma dec_str_inj: "dec_str a = dec_str b \<Longrightarrow> a = b"
  by (metis dec_value_str)

lemma dec_digit: "n < 10 \<Longrightarrow> is_dec (hex_digit n)"
  using hex_digit_cases [of n] by (simp add: is_dec_def)

lemma dec_str_digits:
  "dec_str n \<noteq> [] \<and> list_all is_dec (dec_str n) \<and> (hd (dec_str n) = CHR ''0'' \<longrightarrow> n = 0)"
proof (induction n rule: dec_str.induct)
  case (1 n)
  have "n < 10 \<Longrightarrow> hex_digit n = CHR ''0'' \<Longrightarrow> n = 0"
    using hex_digit_cases [of n] by (auto simp: digit_val_def)
  with 1 show ?case
    using dec_digit [of n] dec_digit [of "n mod 10"] by (auto simp: dec_str.simps [of n])
qed

text \<open>What follows a value in a printed text.\<close>

definition value_ends :: "string \<Rightarrow> bool" where
  "value_ends rest \<longleftrightarrow> rest = [] \<or> hd rest \<in> {CHR '','', CHR 0x0A}"

lemma take_digits: "list_all is_dec ds \<Longrightarrow> value_ends rest \<Longrightarrow> takeWhile is_dec (ds @ rest) = ds"
  by (induction ds; cases rest) (auto simp: value_ends_def is_dec_def digit_val_def)

lemma no_fraction: "value_ends rest \<Longrightarrow> read_fraction rest = ([], rest) \<and> read_exponent rest = ([], rest)"
  by (auto simp: value_ends_def read_fraction_def read_exponent_def split: list.split)

lemma leading_digits_dec: "value_ends rest \<Longrightarrow> leading_digits (dec_str n @ rest) = dec_str n"
proof -
  assume "value_ends rest"
  moreover have "dec_str 0 = ''0''"
    by code_simp
  ultimately show ?thesis
    using dec_str_digits [of n] take_digits [of "dec_str n" rest] by (auto simp: leading_digits_def starts_def)
qed

lemma read_unsigned_dec:
  "value_ends rest \<Longrightarrow> read_unsigned neg (dec_str n @ rest) = Some (JInt (if neg then - int n else int n), rest)"
  using dec_str_digits [of n] by (simp add: read_unsigned_def leading_digits_dec no_fraction dec_value_str)

lemma dec_str_starts: "\<exists>d ds. dec_str n = d # ds \<and> is_dec d"
  using dec_str_digits [of n] by (cases "dec_str n") auto

lemma digit_not:
  "is_dec d \<Longrightarrow> d \<notin> {CHR 0x22, CHR ''['', CHR ''{'', CHR ''n'', CHR ''t'', CHR ''f'', CHR ''N'', CHR ''I'', CHR ''-'', CHR '']'', CHR ''}'', CHR '','', CHR '':'',
    CHR '' '', CHR 0x09, CHR 0x0A, CHR 0x0D}"
  by (auto simp: is_dec_def digit_val_def)

lemma read_value_int:
  assumes "value_ends rest"
  shows "read_value (Suc n) (str_int i @ rest) = Some (JInt i, rest)"
proof -
  obtain d ds where d: "dec_str (nat \<bar>i\<bar>) = d # ds" "is_dec d"
    using dec_str_starts by blast
  have word: "read_word (str_int i @ rest) = None"
    using d digit_not [OF d(2)] by (auto simp: str_int_def read_word_def json_words_def abs_if split: if_splits)
  have num: "read_number (str_int i @ rest) = Some (JInt i, rest)"
    using d digit_not [OF d(2)] read_unsigned_dec [OF assms, of "i < 0" "nat \<bar>i\<bar>"]
    by (auto simp: str_int_def read_number_def starts_def abs_if split: if_splits)
  show ?thesis
    using d digit_not [OF d(2)] word num by (auto simp: str_int_def starts_def abs_if split: if_splits)
qed

lemma digit_val_lower: "is_hex c \<Longrightarrow> map digit_val (py_lower [c]) = [digit_val c]"
  by (auto simp: py_lower_def is_hex_def digit_val_def Let_def split: if_splits)

lemma lower_hex: "list_all is_hex s \<Longrightarrow> hex_value (py_lower s) = hex_value s \<and> list_all is_hex (py_lower s)"
proof (induction s rule: rev_induct)
  case (snoc c s)
  have split: "py_lower (s @ [c]) = py_lower s @ py_lower [c]"
    by (simp add: py_lower_def)
  obtain d where d: "py_lower [c] = [d]"
    by (simp add: py_lower_def)
  then have "digit_val d = digit_val c"
    using digit_val_lower [of c] snoc.prems by simp
  then show ?case
    using snoc split d by (simp add: hex_value_def is_hex_def)
qed (simp add: py_lower_def)

lemma unicode_escape: "k < 256 \<Longrightarrow> length (fmt_x 4 k) = 4 \<and> list_all is_hex (fmt_x 4 k) \<and> hex_value (fmt_x 4 k) = k"
  using lower_hex [of "fmt_X 4 k"] length_fmt_X [of k 4] by (simp add: fmt_x_def) (simp add: py_lower_def)

lemma read_unicode:
  assumes "k = (of_char c :: nat)"
  shows "read_string (CHR 0x5C # CHR ''u'' # fmt_x 4 k @ u) = cons_first c (read_string u)"
proof -
  have "k < 256"
    using assms by auto
  from unicode_escape [OF this] have "take 4 (fmt_x 4 k @ u) = fmt_x 4 k" "drop 4 (fmt_x 4 k @ u) = u"
    by simp_all
  with unicode_escape [OF \<open>k < 256\<close>] \<open>k < 256\<close> show ?thesis
    using assms by simp
qed

lemma read_char: "read_string (json_char ascii c @ u) = cons_first c (read_string u)"
proof (cases "map_of short_escapes c")
  case (Some e)
  then show ?thesis
    by (auto simp: json_char_def short_escapes_def json_escape_def split: if_splits)
next
  case None
  then have "c \<noteq> CHR 0x22" "c \<noteq> CHR 0x5C"
    by (auto simp: short_escapes_def split: if_splits)
  with None show ?thesis
    using read_unicode [of "of_char c" c u] by (auto simp: json_char_def Let_def)
qed

lemma read_json_string: "read_string (concat (map (json_char ascii) s) @ CHR 0x22 # u) = Some (s, u)"
  by (induction s) (simp_all add: read_char cons_first_def del: read_string.simps(2), simp)

lemma skip_indent: "skip_space (indent_line n @ s) = skip_space s"
  by (simp add: skip_space_def indent_line_def newline_def json_space_def dropWhile_append)

text \<open>The first character of a printed value is no blank and closes nothing.\<close>

definition opens :: "string \<Rightarrow> bool" where
  "opens s \<longleftrightarrow> s \<noteq> [] \<and> \<not> json_space (hd s) \<and> hd s \<notin> {CHR '']'', CHR ''}'', CHR '','', CHR '':''}"

lemma skip_opens: "opens s \<Longrightarrow> skip_space (s @ u) = s @ u"
  by (cases s) (auto simp: opens_def skip_space_def)

fun no_real :: "json \<Rightarrow> bool" where
  "no_real (JReal t) = False"
| "no_real (JList xs) = list_all no_real xs"
| "no_real (JObj kvs) = list_all (\<lambda>(k, x). no_real x) kvs"
| "no_real _ = True"

lemma opens_string: "opens (json_string ascii s @ u)"
  by (simp add: opens_def json_string_def json_space_def)

lemma digit_opens: "is_dec d \<Longrightarrow> opens (d # s)"
  using digit_not [of d] by (simp add: opens_def json_space_def)

lemma opens_value: "no_real j \<Longrightarrow> opens (json_text ascii n j)"
proof (cases j)
  case (JInt i)
  obtain d ds where d: "dec_str (nat \<bar>i\<bar>) = d # ds" "is_dec d"
    using dec_str_starts by blast
  have minus: "opens (CHR ''-'' # s)" for s
    by (simp add: opens_def json_space_def)
  show ?thesis
    using JInt d digit_opens minus by (simp add: str_int_def abs_if split: if_splits)
qed (auto simp: opens_def json_string_def json_space_def)

lemma value_ends_more: "value_ends (indent_line n @ s)" "value_ends (CHR '','' # s)"
  by (simp_all add: value_ends_def indent_line_def newline_def)

lemma skip_items:
  "no_real y \<Longrightarrow> skip_space (json_items ascii n (y # ys) @ u)
    = json_text ascii n y @ (if ys = [] then [] else '','') @ json_items ascii n ys @ u"
  using skip_opens [OF opens_value] by (simp add: skip_indent)

lemma skip_members:
  "skip_space (json_members ascii n ((k, y) # kvs) @ u)
    = json_string ascii k @ '': '' @ json_text ascii n y @ (if kvs = [] then [] else '','') @ json_members ascii n kvs @ u"
  using skip_opens [OF opens_string [of ascii k "[]"]] by (simp add: skip_indent)

lemma skip_char: "\<not> json_space c \<Longrightarrow> skip_space (c # s) = c # s"
  by (simp add: skip_space_def)

lemma skip_blank: "skip_space (CHR '' '' # s) = skip_space s"
  by (simp add: skip_space_def json_space_def)

lemma no_space: "\<not> json_space (CHR '']'')" "\<not> json_space (CHR ''}'')" "\<not> json_space (CHR '','')" "\<not> json_space (CHR '':'')"
  by (simp_all add: json_space_def)

lemma starts_opens: "opens s \<Longrightarrow> c \<in> {CHR '']'', CHR ''}'', CHR '','', CHR '':''} \<Longrightarrow> \<not> starts c (s @ u)"
  by (auto simp: opens_def starts_def)

lemma read_list:
  assumes y: "no_real y" and items: "read_items g (skip_space (json_items ascii m (y # ys) @ u)) = Some (xs, r)"
  shows "read_value (Suc g) (CHR ''['' # json_items ascii m (y # ys) @ u) = Some (JList xs, r)"
proof -
  have "\<not> starts (CHR '']'') (skip_space (json_items ascii m (y # ys) @ u))"
    unfolding skip_items [OF y] by (rule starts_opens [OF opens_value [OF y]]) simp
  with items show ?thesis
    by (simp add: starts_def [of _ "_ # _"] del: json_items.simps)
qed

lemma read_object:
  assumes members: "read_members g (skip_space (json_members ascii m ((k, y) # ys) @ u)) = Some (kvs, r)"
  shows "read_value (Suc g) (CHR ''{'' # json_members ascii m ((k, y) # ys) @ u) = Some (JObj kvs, r)"
proof -
  have "\<not> starts (CHR ''}'') (skip_space (json_members ascii m ((k, y) # ys) @ u))"
    unfolding skip_members by (simp add: starts_def json_string_def)
  with members show ?thesis
    by (simp add: starts_def [of _ "_ # _"] del: json_members.simps)
qed

lemma read_next_item:
  assumes y: "no_real y" and val: "\<And>v. value_ends v \<Longrightarrow> read_value g (json_text ascii m y @ v) = Some (y, v)"
    and rest: "ys \<noteq> [] \<Longrightarrow> read_items g (skip_space (json_items ascii m ys @ indent_line n @ CHR '']'' # r)) = Some (ys, r)"
  shows "read_items (Suc g) (skip_space (json_items ascii m (y # ys) @ indent_line n @ CHR '']'' # r)) = Some (y # ys, r)"
proof -
  let ?v = "(if ys = [] then [] else '','') @ json_items ascii m ys @ indent_line n @ CHR '']'' # r"
  have "value_ends ?v"
    by (simp add: value_ends_more)
  then show ?thesis
    unfolding skip_items [OF y] using val [of ?v] rest
    by (cases "ys = []") (simp_all add: skip_indent skip_char no_space starts_def)
qed

lemma read_next_member:
  assumes y: "no_real y" and val: "\<And>v. value_ends v \<Longrightarrow> read_value g (json_text ascii m y @ v) = Some (y, v)"
    and rest: "ys \<noteq> [] \<Longrightarrow> read_members g (skip_space (json_members ascii m ys @ indent_line n @ CHR ''}'' # r)) = Some (ys, r)"
  shows "read_members (Suc g) (skip_space (json_members ascii m ((k, y) # ys) @ indent_line n @ CHR ''}'' # r)) = Some ((k, y) # ys, r)"
proof -
  let ?v = "(if ys = [] then [] else '','') @ json_members ascii m ys @ indent_line n @ CHR ''}'' # r"
  have "value_ends ?v"
    by (simp add: value_ends_more)
  then show ?thesis
    unfolding skip_members using val [of ?v] rest skip_opens [OF opens_value [OF y], of ascii m ?v]
    by (cases "ys = []")
      (simp_all add: skip_indent skip_char skip_blank no_space starts_def json_string_def read_json_string)
qed

lemma read_back:
  shows "no_real j \<Longrightarrow> value_ends rest \<Longrightarrow> 2 * length (json_text ascii lvl j) \<le> f \<Longrightarrow>
      read_value f (json_text ascii lvl j @ rest) = Some (j, rest)"
    and "list_all no_real xs \<Longrightarrow> xs \<noteq> [] \<Longrightarrow> 2 * length (json_items ascii lvl xs) \<le> f \<Longrightarrow>
      read_items f (skip_space (json_items ascii lvl xs @ indent_line n @ CHR '']'' # rest)) = Some (xs, rest)"
    and "list_all (\<lambda>(k, x). no_real x) kvs \<Longrightarrow> kvs \<noteq> [] \<Longrightarrow> 2 * length (json_members ascii lvl kvs) \<le> f \<Longrightarrow>
      read_members f (skip_space (json_members ascii lvl kvs @ indent_line n @ CHR ''}'' # rest)) = Some (kvs, rest)"
proof (induction ascii lvl j and ascii lvl xs and ascii lvl kvs arbitrary: f rest and f n rest and f n rest
    rule: json_text_json_items_json_members.induct)
  case (3 ascii lvl i)
  then obtain g where "f = Suc g"
    using dec_str_starts [of "nat \<bar>i\<bar>"] by (cases f) (auto simp: str_int_def abs_if split: if_splits)
  then show ?case
    using 3 read_value_int [of rest g i] by simp
next
  case (5 ascii lvl s)
  then show ?case
    by (cases f) (simp_all add: json_string_def starts_def read_json_string)
next
  case (6 ascii lvl xs)
  then obtain g where g: "f = Suc g"
    by (cases f) (auto split: if_splits)
  show ?case
  proof (cases xs)
    case (Cons y ys)
    have "read_items g (skip_space (json_items ascii (Suc lvl) xs @ indent_line lvl @ CHR '']'' # rest)) = Some (xs, rest)"
      using 6 g Cons by (intro 6) auto
    then show ?thesis
      using 6 g Cons read_list by simp
  qed (use g in \<open>simp add: starts_def skip_char no_space\<close>)
next
  case (7 ascii lvl kvs)
  then obtain g where g: "f = Suc g"
    by (cases f) (auto split: if_splits)
  show ?case
  proof (cases kvs)
    case (Cons ky ys)
    have "read_members g (skip_space (json_members ascii (Suc lvl) kvs @ indent_line lvl @ CHR ''}'' # rest)) = Some (kvs, rest)"
      using 7 g Cons by (intro 7) auto
    then show ?thesis
      using 7 g Cons read_object by (cases ky) simp
  qed (use g in \<open>simp add: starts_def skip_char no_space\<close>)
next
  case (9 ascii lvl y ys)
  then obtain g where g: "f = Suc g"
    by (cases f) (auto simp: indent_line_def newline_def)
  show ?case
    unfolding g using 9 g by (intro read_next_item) (auto simp: indent_line_def newline_def)
next
  case (11 ascii lvl k y ys)
  then obtain g where g: "f = Suc g"
    by (cases f) (auto simp: indent_line_def newline_def)
  show ?case
    unfolding g using 11 g by (intro read_next_member) (auto simp: indent_line_def newline_def)
next
  case (1 ascii n)
  then show ?case
    by (cases f) (simp_all add: starts_def read_word_def json_words_def)
next
  case (2 ascii n b)
  then show ?case
    by (cases f) (simp_all add: starts_def read_word_def json_words_def split: if_splits)
qed simp_all

text \<open>What one script has written, the other reads: without a newline at the end, or with one.\<close>

lemma json_roundtrip:
  assumes "no_real j" and "tail = [] \<or> tail = newline"
  shows "json_loads (json_dumps ascii j @ tail) = Some j"
proof -
  have "opens (json_text ascii 0 j)"
    by (rule opens_value [OF assms(1)])
  then have "skip_space (json_text ascii 0 j @ tail) = json_text ascii 0 j @ tail"
    by (rule skip_opens)
  moreover have "value_ends tail" "skip_space tail = []"
    using assms(2) by (auto simp: value_ends_def newline_def skip_space_def json_space_def)
  ultimately show ?thesis
    using read_back(1) [OF assms(1), of tail ascii 0 "2 * length (json_text ascii 0 j @ tail) + 2"]
    by (simp add: json_loads_def json_dumps_def)
qed

end
