(* ===== verification/SimGate.thy ===== *)
theory SimGate
  imports Feedback LogScan MemWords LoaderDrive Json
begin

unbundle bit_operations_syntax

text \<open>
  The simulations of \<^verbatim>\<open>run_fpga_benchmark_ddr3.py\<close> that a bitstream must pass before it is built: the
  loader in its modes, the beacon self-test, the transport matrix and the bridge tests.  Each builds the
  boot memory, compiles a test bench, runs it and judges its log; \<^verbatim>\<open>top_sim\<close> is that sequence, which the
  script writes out in every function.

  A clock is a positive number of hertz or zero, where the script raises \<^verbatim>\<open>ZeroDivisionError\<close>.
\<close>

section \<open>Building, compiling, running, judging\<close>

record core_params =
  cp_rs_depth :: int
  cp_fetch_buffer_depth :: int
  cp_core_hz :: nat
  cp_baud :: nat

record payload_manifest =
  pm_elf :: "string option"
  pm_bin :: string
  pm_entry :: nat
  pm_load_addr :: nat
  pm_size_bytes :: nat
  pm_checksum :: nat

definition RTL_DIR :: "os \<Rightarrow> string" where
  "RTL_DIR os = in_dir (repo_root os) ''rtl''"

definition FPGA_RTL_DIR :: "os \<Rightarrow> string" where
  "FPGA_RTL_DIR os = in_dir (repo_root os) ''fpga/rtl''"

definition ROM_DIR :: "os \<Rightarrow> string" where
  "ROM_DIR os = in_dir (repo_root os) ''rom''"

definition bench_binary :: "os \<Rightarrow> string \<Rightarrow> string" where
  "bench_binary os tb_top = comp_test_file os (''out_iverilog/bin/'' @ tb_top @ ''.out'')"

definition bench_source :: "os \<Rightarrow> string \<Rightarrow> string" where
  "bench_source os tb_top = comp_test_file os (tb_top @ ''.sv'')"

definition rom_image_command :: "os \<Rightarrow> string \<Rightarrow> string list \<Rightarrow> string \<Rightarrow> command" where
  "rom_image_command os asm args log =
     \<lparr>cmd_args = [sys_executable os, in_dir (repo_root os) ''fpga/scripts/build_rom_image.py'', ''--asm'', asm]
        @ args @ [''--merge-mem-subsys''],
      cmd_cwd = Some (repo_root os), cmd_env = None, cmd_log = log, cmd_timeout = Some 300\<rparr>"

definition sizing_defines :: "core_params \<Rightarrow> nat \<Rightarrow> string list" where
  "sizing_defines cp clk_div =
     [''-DFPGA_SCOREBOARD_RS_DEPTH='' @ str_int (cp_rs_depth cp),
      ''-DFPGA_SCOREBOARD_RS_IDX_W='' @ dec_str (derive_idx_width (cp_rs_depth cp)),
      ''-DFPGA_FETCH_BUFFER_DEPTH='' @ str_int (cp_fetch_buffer_depth cp),
      ''-DFPGA_CLK_WIZ_HALF_DIV='' @ dec_str (derive_clk_wiz_half_div (cp_core_hz cp)),
      ''-DFPGA_UART_CLK_DIV='' @ dec_str clk_div]"

definition top_sources :: "os \<Rightarrow> string \<Rightarrow> string list" where
  "top_sources os tb_top =
     [''-s'', tb_top, ''-o'', bench_binary os tb_top, ''-I'', RTL_DIR os, ''-I'', FPGA_RTL_DIR os]
     @ verilog_in os (RTL_DIR os) @ verilog_in os (FPGA_RTL_DIR os)
     @ [in_dir (repo_root os) ''libs/REG_ARRAY/SRAM/ram_bfm.v'', comp_test_file os ''clk_wiz_0_stub.v'',
        comp_test_file os ''ibufgds_stub.v'', comp_test_file os ''mig_7series_0_stub.v'', bench_source os tb_top]"

definition compile_bench :: "os \<Rightarrow> string \<Rightarrow> string list \<Rightarrow> string \<Rightarrow> command" where
  "compile_bench os iverilog args log =
     \<lparr>cmd_args = iverilog # ''-g2012'' # args, cmd_cwd = Some (repo_root os), cmd_env = None, cmd_log = log,
      cmd_timeout = Some 300\<rparr>"

definition run_bench :: "string \<Rightarrow> string \<Rightarrow> string \<Rightarrow> string list \<Rightarrow> string \<Rightarrow> nat \<Rightarrow> command" where
  "run_bench vvp cwd binary args log timeout =
     \<lparr>cmd_args = vvp # binary # args, cmd_cwd = Some cwd, cmd_env = None, cmd_log = log, cmd_timeout = Some timeout\<rparr>"

text \<open>A gate looks at the log: the message of the \<^verbatim>\<open>RuntimeError\<close>, or nothing to complain about.\<close>

type_synonym gate = "string \<Rightarrow> string option"

definition check_log :: "gate \<Rightarrow> string \<Rightarrow> unit flow" where
  "check_log gate text = (case gate text of None \<Rightarrow> give () | Some msg \<Rightarrow> raise_exc (RuntimeError msg))"

definition token_gate :: "string \<Rightarrow> string \<Rightarrow> gate" where
  "token_gate token msg text = (if contains_text token text then None else Some msg)"

definition run_and_judge :: "os \<Rightarrow> (string \<Rightarrow> command) \<Rightarrow> gate \<Rightarrow> string flow" where
  "run_and_judge os sim gate =
     and_then (which_required os [''vvp'']) (\<lambda>vvp.
     and_then (run_logged runtime_exc os (sim vvp)) (\<lambda>_.
     and_then (read_text (cmd_log (sim vvp))) (\<lambda>text.
     and_then (check_log gate text) (\<lambda>_.
     give (cmd_log (sim vvp))))))"

definition positive_hz :: "nat \<Rightarrow> unit flow" where
  "positive_hz n = require (n \<noteq> 0) ZeroDivisionError"

definition compile_step :: "os \<Rightarrow> nat \<Rightarrow> (string \<Rightarrow> command) \<Rightarrow> unit flow" where
  "compile_step os divisor compile =
     and_then (which_required os [''iverilog'']) (\<lambda>iverilog.
     and_then (positive_hz divisor) (\<lambda>_.
     run_logged runtime_exc os (compile iverilog)))"

text \<open>The number the script divides by is not zero; where it divides by two, their product.\<close>

definition top_sim :: "os \<Rightarrow> nat \<Rightarrow> command \<Rightarrow> (string \<Rightarrow> command) \<Rightarrow> (string \<Rightarrow> command) \<Rightarrow> gate \<Rightarrow> string flow" where
  "top_sim os divisor rom compile sim gate =
     and_then (run_logged runtime_exc os rom) (\<lambda>_.
     and_then (compile_step os divisor compile) (\<lambda>_.
     run_and_judge os sim gate))"

definition judged :: "gate \<Rightarrow> string \<Rightarrow> bool" where
  "judged gate text \<longleftrightarrow> gate text = None"

definition top_plan :: "os \<Rightarrow> command \<Rightarrow> (string \<Rightarrow> command) \<Rightarrow> (string \<Rightarrow> command) \<Rightarrow> gate \<Rightarrow> stage list" where
  "top_plan os rom compile sim gate =
     [(rom, any_log), (compile (exe_of os [''iverilog'']), any_log), (sim (exe_of os [''vvp'']), judged gate)]"

lemma judge_follows: "follows [(sim (exe_of os [''vvp'']), judged gate)] (run_and_judge os sim gate)"
  unfolding run_and_judge_def
  by (intro follows_with_exe follows_checked)
    (auto simp: and_then_def check_log_def give_def raise_exc_def judged_def split: option.splits)

lemma compile_follows: "follows [(compile (exe_of os [''iverilog'']), any_log)] (compile_step os divisor compile)"
  unfolding compile_step_def positive_hz_def
  by (intro follows_with_exe follows_silent_then follows_require follows_run)

lemma top_sim_follows: "follows (top_plan os rom compile sim gate) (top_sim os divisor rom compile sim gate)"
  unfolding top_plan_def top_sim_def
  by (intro follows_run_then follows_stage_then [OF compile_follows] judge_follows)

section \<open>The loader\<close>

record loader_sim =
  ls_expect_exec_pass :: bool
  ls_prefix_enable :: bool
  ls_prefix_target :: nat
  ls_fetch_debug :: bool
  ls_smt_mode :: int
  ls_log_name :: string
  ls_fast_uart_profile :: bool
  ls_fast_uart_inject :: "int option"
  ls_header_wait_bits :: "int option"
  ls_payload_wait_bits :: "int option"
  ls_u32_gap_bits :: "int option"
  ls_chunk_ack_gap_bits :: "int option"
  ls_block_done_gap_bits :: "int option"
  ls_tb_timeout_ns :: "int option"
  ls_sim_timeout_s :: "nat option"
  ls_rom_asm :: "string option"
  ls_early_audit :: bool
  ls_bad_magic_byte :: int
  ls_selftest :: bool
  ls_block_trace :: bool
  ls_chunk_trace :: bool
  ls_rx_trace :: bool

definition define_args :: "string list \<Rightarrow> string list" where
  "define_args ds = concat (map (\<lambda>d. [''--define'', d]) ds)"

definition loader_rom_defines :: "script_env \<Rightarrow> loader_sim \<Rightarrow> int \<times> int \<Rightarrow> string list" where
  "loader_rom_defines se ls limits =
     [''SIM_FAST_STORE_DRAIN=1'', ''LOADER_BLOCK_CHECKSUM_BYTES='' @ dec_str (block_checksum_bytes se)]
     @ (if ls_block_trace ls then [''LOADER_BLOCK_TRACE=1''] else [])
     @ (if ls_chunk_trace ls then
          [''LOADER_CHUNK_TRACE=1'', ''LOADER_CHUNK_TRACE_FIRST_BLOCK='' @ str_int (fst limits),
           ''LOADER_CHUNK_TRACE_BLOCK_LIMIT='' @ str_int (snd limits)] else [])
     @ (if ls_rx_trace ls then [''LOADER_RX_TRACE=1''] else [])
     @ (if stream_to_ddr3 se then [''LOADER_STREAM_TO_DDR3=1''] else [])
     @ (if wait_drain_per_chunk se then [''LOADER_WAIT_DRAIN_PER_CHUNK=1''] else [])"

definition loader_rom_command :: "os \<Rightarrow> script_env \<Rightarrow> string \<Rightarrow> loader_sim \<Rightarrow> int \<times> int \<Rightarrow> command" where
  "loader_rom_command os se logs ls limits = rom_image_command os
     (case ls_rom_asm ls of Some asm \<Rightarrow> asm | None \<Rightarrow> rom_file os ''test_fpga_ddr3_loader.s'')
     (define_args (loader_rom_defines se ls limits)) (in_dir logs ''03_build_loader_rom.log'')"

text \<open>
  The pauses of the test bench, in bits: injection, before the header, before the payload, between words,
  after a chunk and after a block.
\<close>

definition or_default :: "'a option \<Rightarrow> 'a \<Rightarrow> 'a" where
  "or_default given dflt = (case given of None \<Rightarrow> dflt | Some x \<Rightarrow> x)"

definition default_pauses :: "loader_sim \<Rightarrow> int list" where
  "default_pauses ls =
     (if ls_selftest ls then [0, 4, 4, 1, 1, 1]
      else if ls_early_audit ls then [1, 4, 4, 1, 1, 1]
      else if ls_fetch_debug ls \<or> ls_expect_exec_pass ls then [0, 80, 80, 64, 4, 8]
      else [0, 8, 8, 2, 1, 1])"

definition pauses :: "loader_sim \<Rightarrow> int list" where
  "pauses ls = map2 or_default
     [ls_fast_uart_inject ls, ls_header_wait_bits ls, ls_payload_wait_bits ls, ls_u32_gap_bits ls,
      ls_chunk_ack_gap_bits ls, ls_block_done_gap_bits ls] (default_pauses ls)"

definition FULL_GATE_FAST_UART_CLK_DIV :: nat where
  "FULL_GATE_FAST_UART_CLK_DIV = 4"

definition loader_uart_clk_div :: "loader_sim \<Rightarrow> nat" where
  "loader_uart_clk_div ls =
     (if ls_selftest ls then 4 else if ls_early_audit ls then 4
      else if ls_fetch_debug ls \<or> ls_expect_exec_pass ls then 4
      else if ls_fast_uart_profile ls then FULL_GATE_FAST_UART_CLK_DIV else 4)"

text \<open>\<^verbatim>\<open>max(1, round(div * (1000.0 / core_clk_mhz)))\<close>\<close>

definition tb_bit_ns :: "nat \<Rightarrow> nat \<Rightarrow> nat" where
  "tb_bit_ns clk_div hz = max 1 (round_div (clk_div * 1000000000) hz)"

definition limited :: "int \<Rightarrow> int \<Rightarrow> int \<Rightarrow> int" where
  "limited lo hi x = min (max lo x) hi"

definition tb_timeout_ns :: "script_env \<Rightarrow> loader_sim \<Rightarrow> nat \<Rightarrow> nat \<Rightarrow> int" where
  "tb_timeout_ns se ls payload_size bit_ns = or_default (ls_tb_timeout_ns ls)
     (if ls_selftest ls then 1000000
      else if ls_early_audit ls then 3000000
      else if ls_expect_exec_pass ls then limited 5000000 20000000 (int ((payload_size + 512) * 14 * bit_ns * 6))
      else if ls_prefix_enable ls then limited 12000000 60000000
        (int ((min payload_size (ls_prefix_target ls * block_checksum_bytes se) + 512) * 14 * bit_ns * 4))
      else limited 40000000 200000000 (int ((payload_size + 1024) * 14 * bit_ns * 3)))"

definition sim_timeout_s :: "loader_sim \<Rightarrow> nat" where
  "sim_timeout_s ls = or_default (ls_sim_timeout_s ls)
     (if ls_selftest ls then 180 else if ls_early_audit ls then 600 else if ls_expect_exec_pass ls then 1200
      else if ls_prefix_enable ls then 300 else 1200)"

definition loader_tb_top :: "loader_sim \<Rightarrow> string" where
  "loader_tb_top ls =
     (if ls_fetch_debug ls then ''tb_ax7203_top_ddr3_fetch_probe_smoke'' else ''tb_ax7203_top_ddr3_loader_smoke'')"

definition loader_compile ::
  "os \<Rightarrow> script_env \<Rightarrow> string \<Rightarrow> core_params \<Rightarrow> loader_sim \<Rightarrow> nat \<Rightarrow> string \<Rightarrow> command" where
  "loader_compile os se logs cp ls payload_size iverilog =
     (let bit_ns = tb_bit_ns (loader_uart_clk_div ls) (cp_core_hz cp) in
      compile_bench os iverilog
       ([''-DFPGA_MODE=1'', ''-DENABLE_MEM_SUBSYS=1'', ''-DENABLE_DDR3=1'', ''-DAX7203_DDR3_LOADER_BEACON_DEBUG=1'',
         ''-DL2_PASSTHROUGH=1''] @ dcache_iverilog_defines (fpga_dcache_mode se)
        @ [''-DTRANSPORT_UART_RXDATA_REG_TEST=1'']
        @ (if ls_fast_uart_profile ls then [''-DFULL_GATE_FAST_UART=1''] else [])
        @ (if ls_fetch_debug ls then [''-DDDR3_FETCH_DEBUG=1'', ''-DDDR3_FETCH_PROBE_FAST=1''] else [])
        @ [''-DENABLE_ROCC_ACCEL=0'', ''-DSMT_MODE='' @ str_int (ls_smt_mode ls),
           ''-DTB_SHORT_TIMEOUT_NS='' @ str_int (tb_timeout_ns se ls payload_size bit_ns),
           ''-DTB_UART_BIT_NS='' @ dec_str bit_ns]
        @ sizing_defines cp (loader_uart_clk_div ls) @ top_sources os (loader_tb_top ls))
       (in_dir logs ''04_compile_loader_top_sim.log''))"

definition loader_plusargs :: "script_env \<Rightarrow> payload_manifest \<Rightarrow> loader_sim \<Rightarrow> string list" where
  "loader_plusargs se man ls =
     [''+PAYLOAD_SIZE='' @ dec_str (pm_size_bytes man), ''+PAYLOAD_CHECKSUM='' @ dec_str (pm_checksum man),
      ''+BLOCK_CHECKSUM_BYTES='' @ dec_str (block_checksum_bytes se),
      ''+EXPECT_EXEC_PASS='' @ flag01 (ls_expect_exec_pass ls),
      ''+FULL_GATE_PREFIX_ENABLE='' @ flag01 (ls_prefix_enable ls),
      ''+FULL_GATE_PREFIX_BLOCK_ACK_TARGET='' @ dec_str (ls_prefix_target ls)]
     @ map2 (\<lambda>name v. name @ str_int v)
         [''+FAST_UART_INJECT='', ''+INITIAL_HEADER_WAIT_BITS='', ''+INITIAL_PAYLOAD_WAIT_BITS='',
          ''+INTER_U32_GAP_BITS='', ''+CHUNK_ACK_GAP_BITS='', ''+BLOCK_DONE_GAP_BITS=''] (pauses ls)
     @ [''+EARLY_AUDIT_ENABLE='' @ flag01 (ls_early_audit ls),
        ''+EARLY_AUDIT_BAD_MAGIC_BYTE='' @ str_int (ls_bad_magic_byte ls),
        ''+BEACON_SELFTEST_ENABLE='' @ flag01 (ls_selftest ls)]"

definition loader_run :: "os \<Rightarrow> script_env \<Rightarrow> string \<Rightarrow> payload_manifest \<Rightarrow> loader_sim \<Rightarrow> string \<Rightarrow> command" where
  "loader_run os se logs man ls vvp = run_bench vvp (ROM_DIR os) (bench_binary os (loader_tb_top ls))
     (loader_plusargs se man ls) (in_dir logs (ls_log_name ls)) (sim_timeout_s ls)"

text \<open>What the early-audit simulation must have reported.\<close>

definition bad_magic_reported :: "int \<Rightarrow> early_result \<Rightarrow> bool" where
  "bad_magic_reported byte_index r \<longleftrightarrow> ea_ready_seen r \<and> ea_bad_magic_seen r
     \<and> (case ea_bad_magic_byte_index r of Some k \<Rightarrow> int (unat k) = byte_index | None \<Rightarrow> False)
     \<and> ea_summary_seen r
     \<and> (case ea_summary_mask r of Some m \<Rightarrow> m AND LOADER_SUM_ANY_BAD \<noteq> 0 | None \<Rightarrow> False)"

definition header_path_done :: "early_result \<Rightarrow> bool" where
  "header_path_done r \<longleftrightarrow> ea_ready_seen r \<and> ea_header_magic_ok r \<and> ea_load_start_seen r
     \<and> ea_first_block_ack_seen r \<and> ea_summary_ok_seen r"

definition loader_gate :: "string \<Rightarrow> loader_sim \<Rightarrow> gate" where
  "loader_gate log ls text =
     (let see = ''; see '' @ log;
          early = ean_result (analyze_loader_early_audit_sim_log text);
          loader = analyze_loader_sim_log text
      in if \<not> contains_text
             (if ls_fetch_debug ls then ''[AX7203_DDR3_FETCH_PROBE] PASS'' else ''[AX7203_DDR3_LOADER] PASS'') text
         then Some (''DDR3 loader top simulation did not pass'' @ see)
         else if ls_fetch_debug ls then None
         else if ls_selftest ls then
           (if sr_pass (analyze_loader_beacon_selftest_sim_log text) then None
            else Some (''DDR3 loader beacon selftest sim did not produce the exact fixed sequence'' @ see))
         else if ls_early_audit ls then
           (if 0 \<le> ls_bad_magic_byte ls then
              (if bad_magic_reported (ls_bad_magic_byte ls) early then None
               else Some (''DDR3 loader early-audit sim did not report BAD_MAGIC byte ''
                  @ str_int (ls_bad_magic_byte ls) @ see))
            else if header_path_done early then None
            else Some (''DDR3 loader early-audit sim did not complete header/first-block path'' @ see))
         else if ls_prefix_enable ls then
           (if loader_prefix_target_ok (loader_result.truncate loader) (ls_prefix_target ls) then None
            else Some (''DDR3 loader full-prefix gate did not reach target '' @ dec_str (ls_prefix_target ls) @ see))
         else if ls_expect_exec_pass ls \<and> \<not> saw_exec_pass loader then
           Some (''DDR3 loader quick gate missing EXEC_PASS'' @ see)
         else None)"

text \<open>\<^verbatim>\<open>write_payload_hex\<close>, and the limits of the chunk trace, which are only read when it is on.\<close>

definition PAYLOAD_HEX :: "os \<Rightarrow> string" where
  "PAYLOAD_HEX os = in_dir (ROM_DIR os) ''ddr3_loader_payload.hex''"

definition write_payload_hex :: "os \<Rightarrow> string \<Rightarrow> unit flow" where
  "write_payload_hex os path =
     and_then (read_text path) (\<lambda>bin. write_file (PAYLOAD_HEX os) (write_hex_bytes (latin1_encode bin)))"

definition chunk_limits :: "os \<Rightarrow> loader_sim \<Rightarrow> (int \<times> int) flow" where
  "chunk_limits os ls =
     (if ls_chunk_trace ls then (case trace_limits (os_environ os) of None \<Rightarrow> raise_exc ValueError | Some l \<Rightarrow> give l)
      else give (0, 8))"

definition run_loader_top_sim ::
  "os \<Rightarrow> script_env \<Rightarrow> string \<Rightarrow> payload_manifest \<Rightarrow> core_params \<Rightarrow> loader_sim \<Rightarrow> string flow" where
  "run_loader_top_sim os se logs man cp ls =
     and_then (write_payload_hex os (pm_bin man)) (\<lambda>_.
     and_then (chunk_limits os ls) (\<lambda>limits.
     and_then (run_logged runtime_exc os (loader_rom_command os se logs ls limits)) (\<lambda>_.
     and_then (positive_hz (cp_core_hz cp)) (\<lambda>_.
     and_then (compile_step os 1 (loader_compile os se logs cp ls (pm_size_bytes man))) (\<lambda>_.
     run_and_judge os (loader_run os se logs man ls) (loader_gate (in_dir logs (ls_log_name ls)) ls))))))"

text \<open>The profile of the full gate.\<close>

definition loader_full_gate_profile :: "script_env \<Rightarrow> nat \<Rightarrow> nat \<Rightarrow> loader_sim \<Rightarrow> loader_sim" where
  "loader_full_gate_profile se block_target hz ls =
     (let size = block_target * block_checksum_bytes se;
          bit_ns = tb_bit_ns FULL_GATE_FAST_UART_CLK_DIV hz
      in ls\<lparr>ls_fast_uart_profile := True, ls_fast_uart_inject := Some 0, ls_header_wait_bits := Some 384,
            ls_payload_wait_bits := Some 128, ls_u32_gap_bits := Some 96, ls_chunk_ack_gap_bits := Some 16,
            ls_block_done_gap_bits := Some 16,
            ls_tb_timeout_ns := Some (max 24000000 (min (int ((size + 512) * 14 * bit_ns * 8)) 120000000)),
            ls_sim_timeout_s := Some 840\<rparr>)"

section \<open>The beacon self-test\<close>

record selftest_sim =
  ss_smt_mode :: int
  ss_log_name :: string
  ss_rom_asm :: "string option"
  ss_tb_timeout_ns :: "int option"
  ss_sim_timeout_s :: "nat option"

definition selftest_tb_top :: string where
  "selftest_tb_top = ''tb_ax7203_top_loader_beacon_selftest''"

definition selftest_rom_command :: "os \<Rightarrow> string \<Rightarrow> selftest_sim \<Rightarrow> command" where
  "selftest_rom_command os logs ss = rom_image_command os
     (case ss_rom_asm ss of Some asm \<Rightarrow> asm | None \<Rightarrow> rom_file os ''test_fpga_ddr3_loader_beacon_selftest.s'')
     (define_args [''SIM_FAST_STORE_DRAIN=1'']) (in_dir logs ''03_build_loader_rom.log'')"

definition selftest_compile :: "os \<Rightarrow> string \<Rightarrow> core_params \<Rightarrow> selftest_sim \<Rightarrow> string \<Rightarrow> command" where
  "selftest_compile os logs cp ss iverilog = compile_bench os iverilog
     ([''-DFPGA_MODE=1'', ''-DENABLE_MEM_SUBSYS=1'', ''-DENABLE_DDR3=1'', ''-DAX7203_DDR3_LOADER_BEACON_DEBUG=1'',
       ''-DL2_PASSTHROUGH=1'', ''-DTRANSPORT_UART_RXDATA_REG_TEST=1'', ''-DENABLE_ROCC_ACCEL=0'',
       ''-DSMT_MODE='' @ str_int (ss_smt_mode ss),
       ''-DTB_SHORT_TIMEOUT_NS='' @ str_int (or_default (ss_tb_timeout_ns ss) 120000000)]
      @ sizing_defines cp FULL_GATE_FAST_UART_CLK_DIV @ top_sources os selftest_tb_top)
     (in_dir logs ''04_compile_loader_beacon_selftest_top_sim.log'')"

definition selftest_run :: "os \<Rightarrow> string \<Rightarrow> selftest_sim \<Rightarrow> string \<Rightarrow> command" where
  "selftest_run os logs ss vvp = run_bench vvp (ROM_DIR os) (bench_binary os selftest_tb_top) []
     (in_dir logs (ss_log_name ss)) (or_default (ss_sim_timeout_s ss) 600)"

definition selftest_gate :: "string \<Rightarrow> gate" where
  "selftest_gate log text =
     (if \<not> contains_text ''[AX7203_LOADER_BEACON_SELFTEST] PASS'' text
      then Some (''DDR3 loader beacon selftest top simulation did not pass; see '' @ log)
      else if \<not> sr_pass (analyze_loader_beacon_selftest_sim_log text)
      then Some (''DDR3 loader beacon selftest sim did not produce the exact fixed sequence; see '' @ log)
      else None)"

definition run_loader_beacon_selftest_top_sim :: "os \<Rightarrow> string \<Rightarrow> core_params \<Rightarrow> selftest_sim \<Rightarrow> string flow" where
  "run_loader_beacon_selftest_top_sim os logs cp ss =
     top_sim os (cp_core_hz cp) (selftest_rom_command os logs ss) (selftest_compile os logs cp ss)
       (selftest_run os logs ss) (selftest_gate (in_dir logs (ss_log_name ss)))"

section \<open>The transport matrix and the bridge\<close>

record transport_case =
  tc_name :: string
  tc_payload_size :: int
  tc_seed :: int
  tc_jitter_pct :: int
  tc_byte_gap_bits :: int
  tc_ack_extra_bits :: int

definition tcase :: "string \<Rightarrow> int \<Rightarrow> int \<Rightarrow> int \<Rightarrow> int \<Rightarrow> int \<Rightarrow> transport_case" where
  "tcase name bytes_n seed jitter gap ack = \<lparr>tc_name = name, tc_payload_size = bytes_n, tc_seed = seed,
     tc_jitter_pct = jitter, tc_byte_gap_bits = gap, tc_ack_extra_bits = ack\<rparr>"

definition transport_case_specs :: "int \<Rightarrow> int \<Rightarrow> string \<Rightarrow> int \<Rightarrow> transport_case list" where
  "transport_case_specs jitter gap ack_mode seeds =
     (let loose = (if ack_mode = ''loose'' then 16 else 0) in
      [tcase ''nominal_16'' 16 1 0 0 0, tcase ''nominal_64'' 64 1 0 0 0, tcase ''nominal_256'' 256 1 0 0 0,
       tcase ''nominal_1024'' 1024 1 0 0 0, tcase ''jitter_1024'' 1024 1 jitter 0 0,
       tcase ''gap_1024'' 1024 1 0 gap 0, tcase ''ack_1024'' 1024 1 0 0 loose]
      @ map (\<lambda>i. tcase (''combo_1024_seed'' @ dec_str (i + 1)) 1024 (int i + 1) jitter gap loose)
          [0..<nat (max 1 seeds)])"

definition transport_tb_top :: string where
  "transport_tb_top = ''tb_uart_loader_transport''"

definition matrix_compile :: "os \<Rightarrow> string \<Rightarrow> nat \<Rightarrow> nat \<Rightarrow> string \<Rightarrow> command" where
  "matrix_compile os logs hz baud iverilog = compile_bench os iverilog
     ([''-DFPGA_MODE=1'', ''-DFPGA_UART_CLK_DIV='' @ dec_str (derive_uart_clk_div hz baud),
       ''-DTRANSPORT_UART_RXDATA_REG_TEST'',
       ''-DTB_CLK_PERIOD_NS='' @ dec_str (max 1 (round_div 1000000000 hz)),
       ''-DTB_UART_BIT_NS='' @ dec_str (max 1 (round_div 1000000000 baud)),
       ''-s'', transport_tb_top, ''-o'', bench_binary os transport_tb_top, ''-I'', RTL_DIR os]
      @ verilog_in os (RTL_DIR os) @ [bench_source os transport_tb_top])
     (in_dir logs ''03_transport_tb_compile.log'')"

definition case_run :: "os \<Rightarrow> string \<Rightarrow> transport_case \<Rightarrow> string \<Rightarrow> command" where
  "case_run os logs c vvp = run_bench vvp (ROM_DIR os) (bench_binary os transport_tb_top)
     [''+CASE_NAME='' @ tc_name c, ''+PAYLOAD_SIZE='' @ str_int (tc_payload_size c),
      ''+TEST_SEED='' @ str_int (tc_seed c), ''+JITTER_PCT='' @ str_int (tc_jitter_pct c),
      ''+BYTE_GAP_BITS='' @ str_int (tc_byte_gap_bits c), ''+ACK_EXTRA_BITS='' @ str_int (tc_ack_extra_bits c)]
     (in_dir logs (''03_transport_tb_'' @ tc_name c @ ''.log'')) 300"

definition case_gate :: "string \<Rightarrow> transport_case \<Rightarrow> gate" where
  "case_gate logs c = token_gate ''[TRANSPORT_TB] PASS'' (''Transport TB case failed: '' @ tc_name c @ ''; see ''
     @ in_dir logs (''03_transport_tb_'' @ tc_name c @ ''.log''))"

text \<open>The cases one after the other; the results pair a case with its log.\<close>

fun run_cases :: "os \<Rightarrow> ('c \<Rightarrow> string \<Rightarrow> command) \<Rightarrow> ('c \<Rightarrow> gate) \<Rightarrow> 'c list \<Rightarrow> ('c \<times> string) list flow" where
  "run_cases os run gate [] = give []"
| "run_cases os run gate (c # cs) =
     and_then (run_and_judge os (run c) (gate c)) (\<lambda>log.
     and_then (run_cases os run gate cs) (\<lambda>results. give ((c, log) # results)))"

definition run_transport_tb_matrix ::
  "os \<Rightarrow> string \<Rightarrow> nat \<Rightarrow> nat \<Rightarrow> int \<Rightarrow> int \<Rightarrow> string \<Rightarrow> int \<Rightarrow> (transport_case \<times> string) list flow" where
  "run_transport_tb_matrix os logs hz baud jitter gap ack_mode seeds =
     and_then (compile_step os (hz * baud) (matrix_compile os logs hz baud)) (\<lambda>_.
     run_cases os (case_run os logs) (case_gate logs) (transport_case_specs jitter gap ack_mode seeds))"

record bridge_case =
  bc_name :: string
  bc_core_clk_ns :: nat
  bc_ui_clk_ns :: nat
  bc_seed :: nat

definition bridge_cases :: "bridge_case list" where
  "bridge_cases =
     [\<lparr>bc_name = ''25to100'', bc_core_clk_ns = 40, bc_ui_clk_ns = 10, bc_seed = 1\<rparr>,
      \<lparr>bc_name = ''20to100'', bc_core_clk_ns = 50, bc_ui_clk_ns = 10, bc_seed = 2\<rparr>,
      \<lparr>bc_name = ''30to100'', bc_core_clk_ns = 33, bc_ui_clk_ns = 10, bc_seed = 3\<rparr>,
      \<lparr>bc_name = ''25to200'', bc_core_clk_ns = 40, bc_ui_clk_ns = 5, bc_seed = 4\<rparr>]"

definition bridge_tb_top :: string where
  "bridge_tb_top = ''tb_ddr3_mem_port_async_stress''"

definition stress_compile :: "os \<Rightarrow> string \<Rightarrow> string \<Rightarrow> command" where
  "stress_compile os logs iverilog = compile_bench os iverilog
     [''-DDDR3_BRIDGE_AUDIT=1'', ''-I'', RTL_DIR os, ''-s'', bridge_tb_top, ''-o'', bench_binary os bridge_tb_top,
      in_dir (RTL_DIR os) ''ddr3_mem_port.v'', bench_source os bridge_tb_top]
     (in_dir logs ''03_bridge_tb_compile.log'')"

definition stress_log :: "string \<Rightarrow> bridge_case \<Rightarrow> string" where
  "stress_log logs c = in_dir logs (''03_bridge_tb_'' @ bc_name c @ ''.log'')"

definition stress_run :: "os \<Rightarrow> string \<Rightarrow> bridge_case \<Rightarrow> string \<Rightarrow> command" where
  "stress_run os logs c vvp = run_bench vvp (repo_root os) (bench_binary os bridge_tb_top)
     [''+CORE_CLK_NS='' @ dec_str (bc_core_clk_ns c), ''+UI_CLK_NS='' @ dec_str (bc_ui_clk_ns c),
      ''+AXI_STALL_PCT=35'', ''+RESP_LAT_MIN=1'', ''+RESP_LAT_MAX=8'', ''+OP_COUNT=256'',
      ''+TEST_SEED='' @ dec_str (bc_seed c)] (stress_log logs c) 300"

definition stress_gate :: "string \<Rightarrow> bridge_case \<Rightarrow> gate" where
  "stress_gate logs c = token_gate ''[DDR3_BRIDGE_TB] PASS''
     (''DDR3 bridge TB case failed: '' @ bc_name c @ ''; see '' @ stress_log logs c)"

definition run_bridge_stress_tb :: "os \<Rightarrow> string \<Rightarrow> (bridge_case \<times> string) list flow" where
  "run_bridge_stress_tb os logs =
     and_then (compile_step os 1 (stress_compile os logs)) (\<lambda>_.
     run_cases os (stress_run os logs) (stress_gate logs) bridge_cases)"

text \<open>The three simulations of the bridge on the whole chip, and that of the transport loader.\<close>

record chip_sim =
  ch_tb_top :: string
  ch_rom :: string
  ch_rom_defines :: "string list"
  ch_extra_defines :: "string list"
  ch_tb_timeout_ns :: nat
  ch_sim_timeout_s :: nat
  ch_stem :: string
  ch_token :: string
  ch_what :: string

definition bridge_chip :: chip_sim where
  "bridge_chip = \<lparr>ch_tb_top = ''tb_ax7203_top_ddr3_bridge_stress_smoke'', ch_rom = ''test_fpga_ddr3_bridge_stress.s'',
     ch_rom_defines = [''SIM_FAST_BRIDGE_STRESS=1''], ch_extra_defines = [''-DDDR3_BRIDGE_AUDIT=1''],
     ch_tb_timeout_ns = 30000000, ch_sim_timeout_s = 300, ch_stem = ''bridge'',
     ch_token = ''[AX7203_DDR3_BRIDGE] PASS'', ch_what = ''DDR3 bridge''\<rparr>"

definition bridge_steps_chip :: chip_sim where
  "bridge_steps_chip = \<lparr>ch_tb_top = ''tb_ax7203_top_ddr3_bridge_steps_smoke'', ch_rom = ''test_fpga_ddr3_bridge_steps.s'',
     ch_rom_defines = [''SIM_FAST_BRIDGE_STEPS=1''], ch_extra_defines = [''-DDDR3_BRIDGE_AUDIT=1''],
     ch_tb_timeout_ns = 1000000, ch_sim_timeout_s = 300, ch_stem = ''bridge_steps'',
     ch_token = ''[AX7203_DDR3_BSTEPS] PASS'', ch_what = ''DDR3 bridge-steps''\<rparr>"

definition step2_only_chip :: chip_sim where
  "step2_only_chip = \<lparr>ch_tb_top = ''tb_ax7203_top_ddr3_bridge_step2_only_smoke'',
     ch_rom = ''test_fpga_ddr3_bridge_step2_only.s'', ch_rom_defines = [],
     ch_extra_defines = [''-DDDR3_BRIDGE_AUDIT=1'', ''-DAX7203_STEP2_BEACON_DEBUG=1''],
     ch_tb_timeout_ns = 2000000, ch_sim_timeout_s = 300, ch_stem = ''step2_only'',
     ch_token = ''[AX7203_DDR3_S2] PASS'', ch_what = ''DDR3 step2-only''\<rparr>"

definition transport_chip :: chip_sim where
  "transport_chip = \<lparr>ch_tb_top = ''tb_ax7203_top_uart_loader_transport_smoke'',
     ch_rom = ''test_fpga_uart_loader_transport.s'', ch_rom_defines = [],
     ch_extra_defines = [''-DTRANSPORT_UART_RXDATA_REG_TEST=1''], ch_tb_timeout_ns = 35000000,
     ch_sim_timeout_s = 1200, ch_stem = ''transport'', ch_token = ''[AX7203_UART_TRANSPORT] PASS'',
     ch_what = ''Transport''\<rparr>"

definition chip_rom_command :: "os \<Rightarrow> string \<Rightarrow> chip_sim \<Rightarrow> command" where
  "chip_rom_command os logs ch = rom_image_command os (rom_file os (ch_rom ch))
     ([''--march'', ''rv32i_zicsr''] @ define_args (ch_rom_defines ch))
     (in_dir logs (''04_build_'' @ ch_stem ch @ ''_rom.log''))"

text \<open>The last argument lists what the transport simulation adds after the time limit.\<close>

definition chip_compile :: "os \<Rightarrow> string \<Rightarrow> core_params \<Rightarrow> nat \<Rightarrow> chip_sim \<Rightarrow> string list \<Rightarrow> string \<Rightarrow> command" where
  "chip_compile os logs cp clk_div ch extra iverilog = compile_bench os iverilog
     ([''-DFPGA_MODE=1'', ''-DENABLE_MEM_SUBSYS=1'', ''-DENABLE_DDR3=1'', ''-DL2_PASSTHROUGH=1'',
       ''-DENABLE_ROCC_ACCEL=0'', ''-DSMT_MODE=0''] @ ch_extra_defines ch
      @ [''-DTB_SHORT_TIMEOUT_NS='' @ dec_str (ch_tb_timeout_ns ch)] @ extra
      @ sizing_defines cp clk_div @ top_sources os (ch_tb_top ch))
     (in_dir logs (''05_compile_'' @ ch_stem ch @ ''_top_sim.log''))"

definition chip_log :: "string \<Rightarrow> chip_sim \<Rightarrow> string" where
  "chip_log logs ch = in_dir logs (''06_run_'' @ ch_stem ch @ ''_top_sim.log'')"

definition chip_run :: "os \<Rightarrow> string \<Rightarrow> chip_sim \<Rightarrow> string list \<Rightarrow> string \<Rightarrow> command" where
  "chip_run os logs ch args vvp = run_bench vvp (ROM_DIR os) (bench_binary os (ch_tb_top ch)) args (chip_log logs ch)
     (ch_sim_timeout_s ch)"

definition chip_gate :: "string \<Rightarrow> chip_sim \<Rightarrow> gate" where
  "chip_gate logs ch = token_gate (ch_token ch)
     (ch_what ch @ '' top simulation did not pass; see '' @ chip_log logs ch)"

definition run_bridge_top_sim :: "os \<Rightarrow> string \<Rightarrow> core_params \<Rightarrow> string flow" where
  "run_bridge_top_sim os logs cp = top_sim os (cp_core_hz cp * cp_baud cp) (chip_rom_command os logs bridge_chip)
     (chip_compile os logs cp (derive_uart_clk_div (cp_core_hz cp) (cp_baud cp)) bridge_chip [])
     (chip_run os logs bridge_chip []) (chip_gate logs bridge_chip)"

definition run_bridge_steps_top_sim :: "os \<Rightarrow> string \<Rightarrow> core_params \<Rightarrow> string flow" where
  "run_bridge_steps_top_sim os logs cp = top_sim os (cp_core_hz cp) (chip_rom_command os logs bridge_steps_chip)
     (chip_compile os logs cp 2 bridge_steps_chip []) (chip_run os logs bridge_steps_chip [])
     (chip_gate logs bridge_steps_chip)"

definition run_step2_only_top_sim :: "os \<Rightarrow> string \<Rightarrow> core_params \<Rightarrow> string flow" where
  "run_step2_only_top_sim os logs cp = top_sim os (cp_core_hz cp) (chip_rom_command os logs step2_only_chip)
     (chip_compile os logs cp 2 step2_only_chip []) (chip_run os logs step2_only_chip [])
     (chip_gate logs step2_only_chip)"

text \<open>The payload of the transport test: the bytes count up, whatever the seed.\<close>

definition transport_payload_bytes :: "nat \<Rightarrow> bytes" where
  "transport_payload_bytes size_bytes = map word_of_nat [0..<size_bytes]"

definition materialize_transport_payload :: "string \<Rightarrow> nat \<Rightarrow> string \<Rightarrow> payload_manifest flow" where
  "materialize_transport_payload out_dir size_bytes stem =
     (let payload = transport_payload_bytes size_bytes; path = in_dir out_dir (stem @ ''.bin'') in
      and_then (write_file path (latin1_decode payload)) (\<lambda>_.
      give \<lparr>pm_elf = None, pm_bin = path, pm_entry = 0, pm_load_addr = 0, pm_size_bytes = length payload,
        pm_checksum = checksum32 payload\<rparr>))"

definition run_transport_top_sim :: "os \<Rightarrow> string \<Rightarrow> core_params \<Rightarrow> (string \<times> payload_manifest) flow" where
  "run_transport_top_sim os logs cp =
     and_then (materialize_transport_payload (in_dir logs ''transport_payload'') 64 ''uart_loader_transport'') (\<lambda>man.
     and_then (read_text (pm_bin man)) (\<lambda>bin.
     and_then (write_file (in_dir (ROM_DIR os) ''uart_loader_transport_payload.hex'')
       (write_hex_bytes (latin1_encode bin))) (\<lambda>_.
     and_then (run_logged runtime_exc os (chip_rom_command os logs transport_chip)) (\<lambda>_.
     and_then (positive_hz (cp_baud cp)) (\<lambda>_.
     and_then (compile_step os (cp_core_hz cp)
       (chip_compile os logs cp (derive_uart_clk_div (cp_core_hz cp) (cp_baud cp)) transport_chip
         [''-DTB_UART_BIT_NS='' @ dec_str (max 1 (round_div 1000000000 (cp_baud cp)))])) (\<lambda>_.
     and_then (run_and_judge os
       (chip_run os logs transport_chip
         [''+PAYLOAD_SIZE='' @ dec_str (pm_size_bytes man), ''+PAYLOAD_CHECKSUM='' @ dec_str (pm_checksum man)])
       (chip_gate logs transport_chip)) (\<lambda>log.
     give (log, man))))))))"

section \<open>What a simulation that returns has shown\<close>

lemma run_logged_Inr:
  assumes "run_logged exc os c m = (Inr u, m')"
  obtains out where "files m' (cmd_log c) = Some (log_of c (Exited 0 out))" "actions m' = actions m @ [Ran c (Exited 0 out)]"
  using assms by (cases rule: run_logged_cases [of exc os c m]) auto

lemma run_and_judge_Inr:
  assumes "run_and_judge os sim gate m = (Inr log, m')"
  obtains vvp out where "vvp = exe_of os [''vvp'']" "log = cmd_log (sim vvp)"
    "files m' log = Some (log_of (sim vvp) (Exited 0 out))" "actions m' = actions m @ [Ran (sim vvp) (Exited 0 out)]"
    "gate (log_of (sim vvp) (Exited 0 out)) = None"
proof -
  obtain vvp m1 m2 tx m3 where vvp: "which_required os [''vvp''] m = (Inr vvp, m1)"
    and run: "run_logged runtime_exc os (sim vvp) m1 = (Inr (), m2)"
    and tx: "read_text (cmd_log (sim vvp)) m2 = (Inr tx, m3)" and chk: "check_log gate tx m3 = (Inr (), m')"
    and log: "log = cmd_log (sim vvp)"
    using assms unfolding run_and_judge_def by (auto simp: and_then_Inr give_Inr)
  have "vvp = exe_of os [''vvp'']" "m1 = m"
    using vvp by (auto simp: which_required_def exe_of_def give_def raise_exc_def split: list.splits)
  moreover obtain out where "files m2 (cmd_log (sim vvp)) = Some (log_of (sim vvp) (Exited 0 out))"
    "actions m2 = actions m1 @ [Ran (sim vvp) (Exited 0 out)]"
    using run by (rule run_logged_Inr)
  moreover have "files m2 (cmd_log (sim vvp)) = Some tx" "m3 = m2"
    using tx by (auto simp: read_text_def split: option.splits)
  moreover have "gate tx = None" "m' = m3"
    using chk by (auto simp: check_log_def give_def raise_exc_def split: option.splits)
  ultimately show thesis
    using that log by auto
qed

definition chunk_limits_of :: "os \<Rightarrow> int \<times> int" where
  "chunk_limits_of os = (case trace_limits (os_environ os) of Some l \<Rightarrow> l | None \<Rightarrow> (0, 8))"

definition loader_plan ::
  "os \<Rightarrow> script_env \<Rightarrow> string \<Rightarrow> payload_manifest \<Rightarrow> core_params \<Rightarrow> loader_sim \<Rightarrow> stage list" where
  "loader_plan os se logs man cp ls = top_plan os
     (loader_rom_command os se logs ls (if ls_chunk_trace ls then chunk_limits_of os else (0, 8)))
     (loader_compile os se logs cp ls (pm_size_bytes man)) (loader_run os se logs man ls)
     (loader_gate (in_dir logs (ls_log_name ls)) ls)"

lemma write_payload_follows: "follows [] (write_payload_hex os path)"
  unfolding write_payload_hex_def by (intro follows_silent_then [OF follows_read] follows_write)

lemma chunk_limits_follows:
  assumes "follows p (g (if ls_chunk_trace ls then chunk_limits_of os else (0, 8)))"
  shows "follows p (and_then (chunk_limits os ls) g)"
proof -
  have "follows ([] @ p) (and_then (chunk_limits os ls) g)"
    using assms by (intro follows_and_then)
      (auto simp: chunk_limits_def chunk_limits_of_def give_def raise_exc_def
        split: option.splits if_splits intro: follow_rules follows_silent)
  then show ?thesis by simp
qed

lemma loader_sim_follows: "follows (loader_plan os se logs man cp ls) (run_loader_top_sim os se logs man cp ls)"
  unfolding loader_plan_def top_plan_def run_loader_top_sim_def positive_hz_def
  by (intro follows_silent_then [OF write_payload_follows] chunk_limits_follows follows_run_then
      follows_silent_then [OF follows_require] follows_stage_then [OF compile_follows] judge_follows)

lemma loader_sim_Inr:
  assumes "run_loader_top_sim os se logs man cp ls m = (Inr log, m')"
  obtains tx where "log = in_dir logs (ls_log_name ls)" "files m' log = Some tx" "loader_gate log ls tx = None"
proof -
  obtain m1 where "run_and_judge os (loader_run os se logs man ls) (loader_gate (in_dir logs (ls_log_name ls)) ls) m1
      = (Inr log, m')"
    using assms unfolding run_loader_top_sim_def by (auto simp: and_then_Inr)
  then show thesis
    by (rule run_and_judge_Inr) (auto simp: loader_run_def run_bench_def intro: that)
qed

lemma prefix_gate_session:
  assumes "loader_prefix_target_ok (loader_result.truncate (analyze_loader_sim_log text)) target"
  shows "let D = first_per_seq {} (session_events (loader_session_or_all (sim_log_events text))) in
      target \<le> length (filter (of_type LOADER_EVT_BLOCK_ACK) D)
    \<and> (\<exists>e \<in> set D. of_type LOADER_EVT_BLOCK_ACK e \<and> target \<le> Suc (unat (ev_arg e)))
    \<and> list_ex (of_type LOADER_EVT_LOAD_START) D
    \<and> \<not> list_ex (of_type LOADER_EVT_BLOCK_NACK) D \<and> \<not> list_ex bad_event D"
proof -
  let ?S = "loader_session_or_all (sim_log_events text)"
  have ok: "loader_prefix_target_ok
      (reduce_loader_events ?S (map sim_log_line (sim_log_events text)) 0 []) target"
    using assms by (simp add: loader_prefix_target_ok_def analyze_loader_sim_log_def Let_def loader_result.defs)
  have "\<not> session_start_not_found ?S"
  proof
    assume none: "session_start_not_found ?S"
    then have "session_events ?S = []"
      by (auto simp: loader_session_or_all_def split_loader_session_def Let_def split: if_splits option.splits)
    then show False
      using ok none by (simp add: loader_prefix_target_ok_def reduce_loader_events_def loader_loop_init_def
          loader_flags.defs loader_result.defs)
  qed
  from prefix_gate_content [OF this ok] show ?thesis .
qed

text \<open>
  A prefix simulation that returns has shown the prefix: its log, which is the file named, has the pass
  token of the test bench, and in the session it shows the loader started, acknowledged as many blocks as
  the target with the last one among them, and reported no refused block and no error.
\<close>

theorem prefix_simulation_sound:
  assumes "run_loader_top_sim os se logs man cp ls m = (Inr log, m')"
    and "ls_prefix_enable ls \<and> \<not> ls_fetch_debug ls \<and> \<not> ls_selftest ls \<and> \<not> ls_early_audit ls"
  shows "\<exists>tx. log = in_dir logs (ls_log_name ls) \<and> files m' log = Some tx
    \<and> contains_text ''[AX7203_DDR3_LOADER] PASS'' tx
    \<and> (let D = first_per_seq {} (session_events (loader_session_or_all (sim_log_events tx))) in
         ls_prefix_target ls \<le> length (filter (of_type LOADER_EVT_BLOCK_ACK) D)
       \<and> (\<exists>e \<in> set D. of_type LOADER_EVT_BLOCK_ACK e \<and> ls_prefix_target ls \<le> Suc (unat (ev_arg e)))
       \<and> list_ex (of_type LOADER_EVT_LOAD_START) D
       \<and> \<not> list_ex (of_type LOADER_EVT_BLOCK_NACK) D \<and> \<not> list_ex bad_event D)"
proof -
  obtain tx where tx: "log = in_dir logs (ls_log_name ls)" "files m' log = Some tx" "loader_gate log ls tx = None"
    using assms(1) by (rule loader_sim_Inr)
  then have "contains_text ''[AX7203_DDR3_LOADER] PASS'' tx"
    and "loader_prefix_target_ok (loader_result.truncate (analyze_loader_sim_log tx)) (ls_prefix_target ls)"
    using assms(2) by (auto simp: loader_gate_def Let_def split: if_splits)
  with tx(1,2) prefix_gate_session show ?thesis by blast
qed

text \<open>
  A simulation of the loader carries out its plan of three stages, the last judged by its gate, and
  returns only when all of them passed.
\<close>

theorem loader_sim_follows_plan: "follows (loader_plan os se logs man cp ls) (run_loader_top_sim os se logs man cp ls)"
  by (rule loader_sim_follows)

section \<open>Time limits of the test bench\<close>

text \<open>Ten bits on the line for every byte of the payload.\<close>

definition line_time_ns :: "nat \<Rightarrow> nat \<Rightarrow> int" where
  "line_time_ns size_bytes bit_ns = int (10 * size_bytes * bit_ns)"

lemma limited_bounds: "lo \<le> hi \<Longrightarrow> lo \<le> limited lo hi x \<and> limited lo hi x \<le> hi"
  by (simp add: limited_def)

lemma limited_covers: "y \<le> x \<Longrightarrow> min hi y \<le> limited lo hi x"
  by (simp add: limited_def)

text \<open>
  C31. The time a test bench gets by default is between 1 ms and 200 ms of simulated time, and in the modes
  that load a payload it covers the time the line needs for the bytes that are loaded, unless that is over
  the limit of the mode, which is then all it gets.
\<close>

theorem tb_timeout_bounds:
  assumes "ls_tb_timeout_ns ls = None"
  shows "1000000 \<le> tb_timeout_ns se ls n bit_ns \<and> tb_timeout_ns se ls n bit_ns \<le> 200000000
    \<and> (ls_selftest ls \<or> ls_early_audit ls
       \<or> (if ls_expect_exec_pass ls then min 20000000 (line_time_ns n bit_ns)
          else if ls_prefix_enable ls
            then min 60000000 (line_time_ns (min n (ls_prefix_target ls * block_checksum_bytes se)) bit_ns)
          else min 200000000 (line_time_ns n bit_ns)) \<le> tb_timeout_ns se ls n bit_ns)"
proof -
  have le: "line_time_ns k bit_ns \<le> int ((k + e) * 14 * bit_ns * f)" if "1 \<le> f" for k e f
  proof -
    have "10 * k * bit_ns \<le> (k + e) * 14 * bit_ns"
      by (intro mult_right_mono) auto
    also have "\<dots> \<le> (k + e) * 14 * bit_ns * f"
      using that by (simp add: mult_le_mono)
    finally show ?thesis
      unfolding line_time_ns_def by linarith
  qed
  have covers: "min hi (line_time_ns k bit_ns) \<le> limited lo hi (int ((k + e) * 14 * bit_ns * f))"
    if "1 \<le> f" for lo hi k e f
    using le [OF that] by (rule limited_covers)
  show ?thesis
    using covers [where f = 6 and k = n and e = 512 and lo = 5000000 and hi = 20000000]
      covers [where f = 4 and k = "min n (ls_prefix_target ls * block_checksum_bytes se)" and e = 512
        and lo = 12000000 and hi = 60000000]
      covers [where f = 3 and k = n and e = 1024 and lo = 40000000 and hi = 200000000]
      limited_bounds [of 5000000 20000000 "int ((n + 512) * 14 * bit_ns * 6)"]
      limited_bounds [of 12000000 60000000 "int ((min n (ls_prefix_target ls * block_checksum_bytes se) + 512) * 14 * bit_ns * 4)"]
      limited_bounds [of 40000000 200000000 "int ((n + 1024) * 14 * bit_ns * 3)"]
    unfolding tb_timeout_ns_def assms or_default_def option.case
    by (simp del: of_nat_mult of_nat_add)
qed

section \<open>The matrix\<close>

lemma run_cases_Inr:
  assumes "run_cases os run gate cs m = (Inr results, m')"
  shows "map fst results = cs \<and> (\<exists>acts. actions m' = actions m @ acts
    \<and> list_all2 (\<lambda>c act. \<exists>out. act = Ran (run c (exe_of os [''vvp''])) (Exited 0 out)
        \<and> gate c (log_of (run c (exe_of os [''vvp''])) (Exited 0 out)) = None) cs acts
    \<and> map snd results = map (\<lambda>c. cmd_log (run c (exe_of os [''vvp'']))) cs)"
  using assms
proof (induction cs arbitrary: m results)
  case (Cons c cs)
  then obtain log m1 rs where judge: "run_and_judge os (run c) (gate c) m = (Inr log, m1)"
    and rest: "run_cases os run gate cs m1 = (Inr rs, m')" and results: "results = (c, log) # rs"
    by (auto simp: and_then_Inr give_Inr)
  obtain out where out: "log = cmd_log (run c (exe_of os [''vvp'']))"
    "actions m1 = actions m @ [Ran (run c (exe_of os [''vvp''])) (Exited 0 out)]"
    "gate c (log_of (run c (exe_of os [''vvp''])) (Exited 0 out)) = None"
    using judge by (rule run_and_judge_Inr) auto
  obtain acts where acts: "map fst rs = cs" "actions m' = actions m1 @ acts"
    "list_all2 (\<lambda>c act. \<exists>out. act = Ran (run c (exe_of os [''vvp''])) (Exited 0 out)
        \<and> gate c (log_of (run c (exe_of os [''vvp''])) (Exited 0 out)) = None) cs acts"
    "map snd rs = map (\<lambda>c. cmd_log (run c (exe_of os [''vvp'']))) cs"
    using Cons.IH [OF rest] by auto
  show ?case
    using out acts unfolding results
    by (intro conjI exI [of _ "Ran (run c (exe_of os [''vvp''])) (Exited 0 out) # acts"]) auto
qed (simp add: give_Inr)

lemma case_names_distinct: "distinct (map tc_name (transport_case_specs jitter gap ack_mode seeds))"
proof -
  have "inj_on (\<lambda>i. ''combo_1024_seed'' @ dec_str (i + 1)) A" for A :: "nat set"
    by (rule inj_onI) (auto dest: dec_str_inj)
  then show ?thesis
    by (auto simp: transport_case_specs_def Let_def tcase_def comp_def distinct_map)
qed

text \<open>
  C32. A transport matrix that returns ran every case of the table, in its order and each once, with a log of
  its own; every case returned 0 with the pass token in its log.  There are seven fixed cases and as many
  combined ones as seeds were asked for, but at least one.
\<close>

theorem transport_matrix_complete:
  assumes "run_transport_tb_matrix os logs hz baud jitter gap ack_mode seeds m = (Inr results, m')"
  shows "map fst results = transport_case_specs jitter gap ack_mode seeds \<and> distinct (map snd results)
    \<and> length results = 7 + nat (max 1 seeds)
    \<and> (\<exists>compiled acts. actions m' = actions m @ compiled # acts
        \<and> list_all2 (\<lambda>r act. \<exists>out. act = Ran (case_run os logs (fst r) (exe_of os [''vvp''])) (Exited 0 out)
            \<and> contains_text ''[TRANSPORT_TB] PASS''
                (log_of (case_run os logs (fst r) (exe_of os [''vvp''])) (Exited 0 out))) results acts)"
proof -
  let ?cs = "transport_case_specs jitter gap ack_mode seeds"
  obtain m1 where compile: "compile_step os (hz * baud) (matrix_compile os logs hz baud) m = (Inr (), m1)"
    and rest: "run_cases os (case_run os logs) (case_gate logs) ?cs m1 = (Inr results, m')"
    using assms unfolding run_transport_tb_matrix_def by (auto simp: and_then_Inr)
  obtain compiled where compiled: "actions m1 = actions m @ [compiled]"
    using compile unfolding compile_step_def positive_hz_def
    by (auto simp: and_then_Inr require_Inr which_required_def give_def raise_exc_def
        elim!: run_logged_Inr split: list.splits)
  obtain acts where acts: "map fst results = ?cs" "actions m' = actions m1 @ acts"
    "list_all2 (\<lambda>c act. \<exists>out. act = Ran (case_run os logs c (exe_of os [''vvp''])) (Exited 0 out)
        \<and> case_gate logs c (log_of (case_run os logs c (exe_of os [''vvp''])) (Exited 0 out)) = None) ?cs acts"
    "map snd results = map (\<lambda>c. cmd_log (case_run os logs c (exe_of os [''vvp'']))) ?cs"
    using run_cases_Inr [OF rest] by auto
  have "list_all2 (\<lambda>r act. \<exists>out. act = Ran (case_run os logs (fst r) (exe_of os [''vvp''])) (Exited 0 out)
      \<and> contains_text ''[TRANSPORT_TB] PASS'' (log_of (case_run os logs (fst r) (exe_of os [''vvp''])) (Exited 0 out)))
      results acts"
    using acts(3) unfolding acts(1) [symmetric] list_all2_map1
    by (rule list_all2_mono) (auto simp: case_gate_def token_gate_def split: if_splits)
  moreover have "distinct (map snd results)"
    using case_names_distinct [of jitter gap ack_mode seeds] unfolding acts(4)
    by (auto simp: case_run_def run_bench_def in_dir_def distinct_map inj_on_def)
  moreover have "length results = 7 + nat (max 1 seeds)"
    using arg_cong [OF acts(1), of length] by (simp add: transport_case_specs_def Let_def)
  ultimately show ?thesis
    using acts(1,2) compiled by auto
qed

section \<open>Examples\<close>

definition quick_sim :: loader_sim where
  "quick_sim = \<lparr>ls_expect_exec_pass = False, ls_prefix_enable = True, ls_prefix_target = 1, ls_fetch_debug = False,
     ls_smt_mode = 0, ls_log_name = ''sim.log'', ls_fast_uart_profile = False, ls_fast_uart_inject = None,
     ls_header_wait_bits = None, ls_payload_wait_bits = None, ls_u32_gap_bits = None, ls_chunk_ack_gap_bits = None,
     ls_block_done_gap_bits = None, ls_tb_timeout_ns = None, ls_sim_timeout_s = None, ls_rom_asm = None,
     ls_early_audit = False, ls_bad_magic_byte = - 1, ls_selftest = False, ls_block_trace = False,
     ls_chunk_trace = False, ls_rx_trace = False\<rparr>"

definition quick_output :: string where
  "quick_output = ''[AX7203_DDR3_LOADER_EVT] seq=00 type=01 arg=00 [AX7203_DDR3_LOADER_EVT] seq=01 type=02 arg=00 ''
     @ ''[AX7203_DDR3_LOADER_EVT] seq=02 type=11 arg=00 [AX7203_DDR3_LOADER] PASS''"

definition quiet_os :: "string \<Rightarrow> os" where
  "quiet_os out = demo_os\<lparr>run_cmd := \<lambda>acts c fs. (Exited 0 out, fs)\<rparr>"

lemma quiet_run: "run_logged exc (quiet_os out) c m
    = (Inr (), \<lparr>files = (files m)(cmd_log c \<mapsto> log_of c (Exited 0 out)), actions = actions m @ [Ran c (Exited 0 out)]\<rparr>)"
proof -
  have "run_cmd (quiet_os out) (actions m) c ((files m)(cmd_log c \<mapsto> log_header c))
      = (Exited 0 out, (files m)(cmd_log c \<mapsto> log_header c))"
    by (simp add: quiet_os_def)
  from run_logged_ok [OF this, of exc] show ?thesis by simp
qed

lemma quiet_which: "which_required (quiet_os out) [name] m = (Inr name, m)"
  by (simp add: which_required_def quiet_os_def demo_os_def map_filter_def give_def)

lemma quiet_judge:
  "gate (log_of (sim ''vvp'') (Exited 0 out)) = None \<Longrightarrow> fst (run_and_judge (quiet_os out) sim gate m) = Inr (cmd_log (sim ''vvp''))"
  by (simp add: run_and_judge_def and_then_def quiet_which quiet_run read_text_def check_log_def give_def)

definition demo_core :: core_params where
  "demo_core = \<lparr>cp_rs_depth = 16, cp_fetch_buffer_depth = 8, cp_core_hz = 25000000, cp_baud = 115200\<rparr>"

definition demo_manifest :: payload_manifest where
  "demo_manifest = \<lparr>pm_elf = None, pm_bin = ''p.bin'', pm_entry = 0, pm_load_addr = 0, pm_size_bytes = 1, pm_checksum = 65\<rparr>"

definition payload_there :: machine where
  "payload_there = \<lparr>files = [''p.bin'' \<mapsto> ''A''], actions = []\<rparr>"

lemma sim_log_events_noise: "CHR ''['' \<notin> set noise \<Longrightarrow> sim_log_events (noise @ s) = sim_log_events s"
  using findall_noise [of "CHR ''[''" noise] by (simp add: sim_log_events_def loader_evt_pattern_def)

lemma quick_gate:
  assumes "CHR ''['' \<notin> set noise"
  shows "loader_gate log quick_sim (noise @ quick_output) = None"
proof -
  have "sim_log_events quick_output = [(0, 0, 1, 0), (5, 1, 2, 0), (10, 2, 0x11, 0)]"
    by code_simp
  then have ev: "sim_log_events (noise @ quick_output) = [(0, 0, 1, 0), (5, 1, 2, 0), (10, 2, 0x11, 0)]"
    using sim_log_events_noise [OF assms] by simp
  have "loader_prefix_target_ok (reduce_loader_events
      (loader_session_or_all [(0, 0, 1, 0), (5, 1, 2, 0), (10, 2, 0x11, 0)]) [] 0 []) 1"
    by code_simp
  then have "loader_prefix_target_ok (loader_result.truncate (analyze_loader_sim_log (noise @ quick_output))) 1"
    unfolding analyze_loader_sim_log_def ev
    by (simp add: loader_prefix_target_ok_def Let_def loader_result.defs loader_flags.defs reduce_loader_events_def)
  moreover have "contains_text ''[AX7203_DDR3_LOADER] PASS'' quick_output"
    by code_simp
  ultimately show ?thesis
    by (simp add: loader_gate_def quick_sim_def contains_text_append)
qed

lemma prefix_simulation_sound_witness:
  "\<exists>log m' tx. run_loader_top_sim (quiet_os quick_output) example_env ''l'' demo_manifest demo_core quick_sim payload_there
      = (Inr log, m') \<and> files m' log = Some tx \<and> contains_text ''[AX7203_DDR3_LOADER] PASS'' tx"
proof -
  let ?os = "quiet_os quick_output"
  have "CHR ''['' \<notin> set (log_header (loader_run ?os example_env ''l'' demo_manifest quick_sim ''vvp''))"
    unfolding quiet_os_def by code_simp
  then have "fst (run_and_judge ?os (loader_run ?os example_env ''l'' demo_manifest quick_sim)
      (loader_gate (in_dir ''l'' (ls_log_name quick_sim)) quick_sim) m1) = Inr
        (cmd_log (loader_run ?os example_env ''l'' demo_manifest quick_sim ''vvp''))" for m1
    using quick_gate by (intro quiet_judge) (simp add: log_of_def)
  then have judge: "succeeds (run_and_judge ?os (loader_run ?os example_env ''l'' demo_manifest quick_sim)
      (loader_gate (in_dir ''l'' (ls_log_name quick_sim)) quick_sim)) m1" for m1
    by (metis succeeds_def prod.collapse)
  have "succeeds (write_payload_hex ?os (pm_bin demo_manifest)) payload_there"
    by (simp add: write_payload_hex_def succeeds_def and_then_def read_text_def payload_there_def demo_manifest_def write_file_def)
  moreover have "succeeds (chunk_limits ?os quick_sim) m1" for m1
    by (simp add: chunk_limits_def quick_sim_def)
  moreover have "succeeds (run_logged exc ?os c) m1" for exc c m1
    by (simp add: succeeds_def quiet_run)
  moreover have "succeeds (positive_hz (cp_core_hz demo_core)) m1" for m1
    by (simp add: positive_hz_def demo_core_def)
  moreover have "succeeds (compile_step ?os 1 compile) m1" for compile m1
    by (simp add: compile_step_def positive_hz_def succeeds_def and_then_def quiet_which quiet_run require_def give_def)
  ultimately have "succeeds (run_loader_top_sim ?os example_env ''l'' demo_manifest demo_core quick_sim) payload_there"
    unfolding run_loader_top_sim_def by (intro succeeds_and_then judge)
  then obtain log m' where run: "run_loader_top_sim ?os example_env ''l'' demo_manifest demo_core quick_sim payload_there = (Inr log, m')"
    by (auto simp: succeeds_def)
  show ?thesis
    using run prefix_simulation_sound [OF run] by (auto simp: quick_sim_def)
qed

lemma tb_timeout_bounds_witness: "tb_timeout_ns example_env quick_sim 1000 160 \<le> 200000000"
  using tb_timeout_bounds [of quick_sim example_env 1000 160] by (simp add: quick_sim_def)

lemma transport_matrix_complete_witness:
  "\<exists>results m'. run_transport_tb_matrix (quiet_os ''[TRANSPORT_TB] PASS'') ''l'' 25000000 115200 5 2 ''loose'' 0 demo_start
     = (Inr results, m') \<and> length results = 8"
proof -
  let ?os = "quiet_os ''[TRANSPORT_TB] PASS''"
  have judge: "fst (run_and_judge ?os (case_run ?os ''l'' c) (case_gate ''l'' c) m1) = Inr (cmd_log (case_run ?os ''l'' c ''vvp''))" for c m1
    by (rule quiet_judge) (simp add: case_gate_def token_gate_def log_of_def contains_text_append)
  have cases: "succeeds (run_cases ?os (case_run ?os ''l'') (case_gate ''l'') cs) m1" for cs m1
  proof (induction cs arbitrary: m1)
    case (Cons c cs)
    have "succeeds (run_and_judge ?os (case_run ?os ''l'' c) (case_gate ''l'' c)) m1"
      using judge [of c m1] by (cases "run_and_judge ?os (case_run ?os ''l'' c) (case_gate ''l'' c) m1") (auto simp: succeeds_def)
    then show ?case
      unfolding run_cases.simps by (intro succeeds_and_then Cons.IH succeeds_simple)
  qed simp
  have "succeeds (run_transport_tb_matrix ?os ''l'' 25000000 115200 5 2 ''loose'' 0) demo_start"
    unfolding run_transport_tb_matrix_def
    by (rule succeeds_and_then [OF _ cases])
      (simp add: compile_step_def positive_hz_def succeeds_def and_then_def quiet_which quiet_run require_def give_def)
  then obtain results m' where run: "run_transport_tb_matrix ?os ''l'' 25000000 115200 5 2 ''loose'' 0 demo_start = (Inr results, m')"
    by (auto simp: succeeds_def)
  from transport_matrix_complete [OF run] run show ?thesis by auto
qed

end
