(* ===== verification/Block.thy ===== *)
theory Block
  imports Flow
begin

text \<open>
  Python's \<^verbatim>\<open>try\<close> blocks: statements over local variables that keep what they assigned before an exception
  came up.  The local variables are a record of the function modelled, \<^verbatim>\<open>'l\<close> here; the stage variable,
  which the flows use to say where they failed, is read by a function on it.
\<close>

section \<open>Statements over local variables\<close>

type_synonym ('l, 'a) block = "'l \<Rightarrow> machine \<Rightarrow> (py_exc + 'a) \<times> 'l \<times> machine"

definition perform :: "'a flow \<Rightarrow> ('l, 'a) block" where
  "perform f l m = (case f m of (r, m') \<Rightarrow> (r, l, m'))"

definition assign :: "('l \<Rightarrow> 'l) \<Rightarrow> ('l, unit) block" where
  "assign u l m = (Inr (), u l, m)"

definition then_do :: "('l, 'a) block \<Rightarrow> ('a \<Rightarrow> ('l, 'b) block) \<Rightarrow> ('l, 'b) block" where
  "then_do f g l m = (case f l m of (Inl e, l', m') \<Rightarrow> (Inl e, l', m') | (Inr x, l', m') \<Rightarrow> g x l' m')"

text \<open>The exceptions \<^verbatim>\<open>except Exception\<close> takes: \<^verbatim>\<open>SystemExit\<close>, with a text or a return code, is not one of them.\<close>

fun is_exception :: "py_exc \<Rightarrow> bool" where
  "is_exception (SystemExit s) = False"
| "is_exception (ExitCode n) = False"
| "is_exception _ = True"

definition try_except :: "('l, unit) block \<Rightarrow> 'l \<Rightarrow> (py_exc option \<times> 'l) flow" where
  "try_except b l m =
     (case b l m of
        (Inr u, l', m') \<Rightarrow> (Inr (None, l'), m')
      | (Inl e, l', m') \<Rightarrow> if is_exception e then (Inr (Some e, l'), m') else (Inl e, m'))"

text \<open>\<^verbatim>\<open>try: f except Exception: g; raise\<close> without local variables.\<close>

definition on_exception :: "'a flow \<Rightarrow> unit flow \<Rightarrow> 'a flow" where
  "on_exception f g m =
     (case f m of
        (Inr x, m') \<Rightarrow> (Inr x, m')
      | (Inl e, m') \<Rightarrow> if is_exception e
          then (case g m' of (Inl e', m'') \<Rightarrow> (Inl e', m'') | (Inr u, m'') \<Rightarrow> (Inl e, m''))
          else (Inl e, m'))"

text \<open>The text of an exception: those raised with a text have it; the others are the interpreter's.\<close>

definition exc_text :: "(py_exc \<Rightarrow> string) \<Rightarrow> py_exc \<Rightarrow> string" where
  "exc_text shown e = (case e of SystemExit s \<Rightarrow> s | RuntimeError s \<Rightarrow> s | _ \<Rightarrow> shown e)"

section \<open>Processes in the background\<close>

definition spawn :: "os \<Rightarrow> command \<Rightarrow> unit flow" where
  "spawn os c m =
     (case spawn_cmd os (actions m) c ((files m)(cmd_log c \<mapsto> log_header c)) of (started, fs) \<Rightarrow>
        (if started then Inr () else Inl OSError, \<lparr>files = fs, actions = actions m @ [Spawned c started]\<rparr>))"

definition wait_process :: "os \<Rightarrow> nat \<Rightarrow> int flow" where
  "wait_process os timeout m =
     (case wait_cmd os (actions m) timeout (files m) of (r, fs) \<Rightarrow>
        (case r of None \<Rightarrow> Inl TimeoutExpired | Some rc \<Rightarrow> Inr rc,
         \<lparr>files = fs, actions = actions m @ [Waited timeout r]\<rparr>))"

definition terminate_process :: "unit flow" where
  "terminate_process m = (Inr (), m\<lparr>actions := actions m @ [Terminated]\<rparr>)"

definition kill_process :: "unit flow" where
  "kill_process m = (Inr (), m\<lparr>actions := actions m @ [Killed]\<rparr>)"

text \<open>\<^verbatim>\<open>terminate\<close>, \<^verbatim>\<open>wait\<close> for five seconds, and \<^verbatim>\<open>kill\<close> when they have passed.\<close>

definition stop_process :: "os \<Rightarrow> unit flow" where
  "stop_process os = and_then terminate_process (\<lambda>_ m.
     case wait_process os 5 m of
       (Inl TimeoutExpired, m') \<Rightarrow> kill_process m'
     | (Inl e, m') \<Rightarrow> (Inl e, m')
     | (Inr rc, m') \<Rightarrow> (Inr (), m'))"

section \<open>Staged blocks\<close>

text \<open>
  A watch list says what a block does in order: for each action the stage it belongs to, which action it
  is, and when it has ended well.  A block keeps to it when every action before the last one has ended
  well, when it only returns after all of them, and when the stage variable is the stage of the last
  action whenever it returns or raises an exception.  Stopping a background process may follow the failure.
\<close>

type_synonym watch = "string \<times> (action \<Rightarrow> bool) \<times> (action \<Rightarrow> bool)"

definition watched :: "watch list \<Rightarrow> action list \<Rightarrow> bool" where
  "watched ws acts \<longleftrightarrow> length acts \<le> length ws
     \<and> (\<forall>i < length acts. fst (snd (ws ! i)) (acts ! i))
     \<and> (\<forall>i. Suc i < length acts \<longrightarrow> snd (snd (ws ! i)) (acts ! i))"

definition watched_all :: "watch list \<Rightarrow> action list \<Rightarrow> bool" where
  "watched_all ws acts \<longleftrightarrow> list_all2 (\<lambda>w a. fst (snd w) a \<and> snd (snd w) a) ws acts"

definition stage_after :: "watch list \<Rightarrow> string \<Rightarrow> action list \<Rightarrow> string" where
  "stage_after ws s acts = (if acts = [] then s else fst (ws ! (length acts - 1)))"

definition only_stops :: "action list \<Rightarrow> bool" where
  "only_stops acts \<longleftrightarrow> list_all (\<lambda>a. case a of Ran c r \<Rightarrow> False | Spawned c b \<Rightarrow> False | _ \<Rightarrow> True) acts"

definition staged :: "('l \<Rightarrow> string) \<Rightarrow> watch list \<Rightarrow> ('l, 'a) block \<Rightarrow> bool" where
  "staged \<sigma> ws b \<longleftrightarrow> (\<forall>l m r l' m'. b l m = (r, l', m') \<longrightarrow>
     (\<exists>acts stops. actions m' = actions m @ acts @ stops \<and> only_stops stops \<and> watched ws acts
        \<and> (case r of
             Inr x \<Rightarrow> stops = [] \<and> watched_all ws acts \<and> \<sigma> l' = stage_after ws (\<sigma> l) acts
           | Inl e \<Rightarrow> is_exception e \<longrightarrow> \<sigma> l' = stage_after ws (\<sigma> l) acts)))"

lemma watched_all_length: "watched_all ws acts \<Longrightarrow> length acts = length ws"
  by (auto simp: watched_all_def dest: list_all2_lengthD)

lemma watched_all_nth:
  "watched_all ws acts \<Longrightarrow> i < length acts \<Longrightarrow> fst (snd (ws ! i)) (acts ! i) \<and> snd (snd (ws ! i)) (acts ! i)"
  by (auto simp: watched_all_def list_all2_conv_all_nth)

lemma watched_append:
  assumes all: "watched_all ws acts" and more: "watched vs acts'"
  shows "watched (ws @ vs) (acts @ acts')"
proof -
  have len: "length acts = length ws"
    using all by (rule watched_all_length)
  have "fst (snd ((ws @ vs) ! i)) ((acts @ acts') ! i)" if "i < length (acts @ acts')" for i
    using that watched_all_nth [OF all] more len by (auto simp: nth_append watched_def)
  moreover have "snd (snd ((ws @ vs) ! i)) ((acts @ acts') ! i)" if "Suc i < length (acts @ acts')" for i
  proof (cases "i < length acts")
    case True
    then show ?thesis
      using watched_all_nth [OF all True] len by (simp add: nth_append)
  next
    case False
    moreover from that False have "Suc (i - length acts) < length acts'"
      by (simp add: Suc_diff_le)
    ultimately show ?thesis
      using more len by (auto simp: nth_append watched_def)
  qed
  ultimately show ?thesis
    using more len by (simp add: watched_def)
qed

lemma watched_prefix: "watched ws acts \<Longrightarrow> watched (ws @ vs) acts"
  by (auto simp: watched_def nth_append)

lemma watched_all_append: "watched_all ws acts \<Longrightarrow> watched_all vs acts' \<Longrightarrow> watched_all (ws @ vs) (acts @ acts')"
  by (simp add: watched_all_def list_all2_appendI)

lemma stage_after_prefix: "length acts \<le> length ws \<Longrightarrow> stage_after (ws @ vs) s acts = stage_after ws s acts"
  by (cases acts) (auto simp: stage_after_def nth_append)

lemma stage_after_append:
  assumes "length acts = length ws"
  shows "stage_after (ws @ vs) s (acts @ acts') = stage_after vs (stage_after ws s acts) acts'"
proof (cases acts')
  case Nil
  with assms show ?thesis
    by (simp add: stage_after_prefix) (simp add: stage_after_def)
next
  case (Cons a as)
  with assms show ?thesis
    by (simp add: stage_after_def nth_append)
qed

lemma stagedE:
  assumes "staged \<sigma> ws b" and "b l m = (r, l', m')"
  obtains acts stops where "actions m' = actions m @ acts @ stops" "only_stops stops" "watched ws acts"
    "\<And>x. r = Inr x \<Longrightarrow> stops = [] \<and> watched_all ws acts \<and> \<sigma> l' = stage_after ws (\<sigma> l) acts"
    "\<And>e. r = Inl e \<Longrightarrow> is_exception e \<Longrightarrow> \<sigma> l' = stage_after ws (\<sigma> l) acts"
proof -
  obtain acts stops where *: "actions m' = actions m @ acts @ stops" "only_stops stops" "watched ws acts"
    "case r of Inr x \<Rightarrow> stops = [] \<and> watched_all ws acts \<and> \<sigma> l' = stage_after ws (\<sigma> l) acts
      | Inl e \<Rightarrow> is_exception e \<longrightarrow> \<sigma> l' = stage_after ws (\<sigma> l) acts"
    using assms unfolding staged_def by blast
  show thesis
    using *(4) by (intro that [OF *(1-3)]) auto
qed

lemma then_do_Inr:
  "then_do f g l m = (Inr y, l'', m'') \<longleftrightarrow> (\<exists>x l' m'. f l m = (Inr x, l', m') \<and> g x l' m' = (Inr y, l'', m''))"
  by (auto simp: then_do_def split: prod.splits sum.splits)

lemma perform_Inr: "perform f l m = (Inr y, l', m') \<longleftrightarrow> f m = (Inr y, m') \<and> l' = l"
  by (auto simp: perform_def split: prod.splits)

lemma assign_Inr: "assign u l m = (Inr y, l', m') \<longleftrightarrow> l' = u l \<and> m' = m"
  by (auto simp: assign_def)

lemmas block_Inr = then_do_Inr perform_Inr assign_Inr

lemma staged_then_value:
  assumes f: "staged \<sigma> ws f" and g: "\<And>x l m l' m'. f l m = (Inr x, l', m') \<Longrightarrow> staged \<sigma> vs (g x)"
  shows "staged \<sigma> (ws @ vs) (then_do f g)"
  unfolding staged_def
proof (intro allI impI)
  fix l m r l' m'
  assume run: "then_do f g l m = (r, l', m')"
  obtain r1 l1 m1 where f1: "f l m = (r1, l1, m1)"
    by (metis prod_cases3)
  let ?P = "\<lambda>acts stops. actions m' = actions m @ acts @ stops \<and> only_stops stops \<and> watched (ws @ vs) acts
        \<and> (case r of
             Inr x \<Rightarrow> stops = [] \<and> watched_all (ws @ vs) acts \<and> \<sigma> l' = stage_after (ws @ vs) (\<sigma> l) acts
           | Inl e \<Rightarrow> is_exception e \<longrightarrow> \<sigma> l' = stage_after (ws @ vs) (\<sigma> l) acts)"
  obtain acts stops where 1: "actions m1 = actions m @ acts @ stops" "only_stops stops" "watched ws acts"
    "\<And>x. r1 = Inr x \<Longrightarrow> stops = [] \<and> watched_all ws acts \<and> \<sigma> l1 = stage_after ws (\<sigma> l) acts"
    "\<And>e. r1 = Inl e \<Longrightarrow> is_exception e \<Longrightarrow> \<sigma> l1 = stage_after ws (\<sigma> l) acts"
    using stagedE [OF f f1] by metis
  show "\<exists>acts stops. ?P acts stops"
  proof (cases r1)
    case (Inl e)
    with run f1 have "r = Inl e" "l' = l1" "m' = m1"
      by (auto simp: then_do_def)
    moreover have "length acts \<le> length ws"
      using 1(3) by (simp add: watched_def)
    ultimately have "?P acts stops"
      using 1 Inl by (simp add: watched_prefix stage_after_prefix)
    then show ?thesis by blast
  next
    case (Inr x)
    with run f1 have g1: "g x l1 m1 = (r, l', m')"
      by (simp add: then_do_def)
    have ok: "stops = []" "watched_all ws acts" "\<sigma> l1 = stage_after ws (\<sigma> l) acts"
      using 1(4) Inr by auto
    note len = watched_all_length [OF ok(2)]
    obtain acts' stops' where 2: "actions m' = actions m1 @ acts' @ stops'" "only_stops stops'" "watched vs acts'"
      "\<And>x. r = Inr x \<Longrightarrow> stops' = [] \<and> watched_all vs acts' \<and> \<sigma> l' = stage_after vs (\<sigma> l1) acts'"
      "\<And>e. r = Inl e \<Longrightarrow> is_exception e \<Longrightarrow> \<sigma> l' = stage_after vs (\<sigma> l1) acts'"
      using stagedE [OF g [OF f1 [unfolded Inr]] g1] by metis
    have "?P (acts @ acts') stops'"
      using 1(1) 2 ok len by (cases r) (auto simp: watched_append watched_all_append stage_after_append)
    then show ?thesis by blast
  qed
qed

lemma staged_then:
  assumes "staged \<sigma> ws f" and "\<And>x. staged \<sigma> vs (g x)"
  shows "staged \<sigma> (ws @ vs) (then_do f g)"
  using assms by (intro staged_then_value)

lemma staged_perform:
  assumes "\<And>m. actions (snd (f m)) = actions m"
  shows "staged (\<sigma> :: 'l \<Rightarrow> string) [] (perform f)"
  unfolding staged_def perform_def
proof (intro allI impI)
  fix l :: 'l and m r l' m'
  assume "(case f m of (r, m') \<Rightarrow> (r, l, m')) = (r, l', m')"
  then have "f m = (r, m')" "l' = l" by (auto split: prod.splits)
  with assms [of m] show "\<exists>acts stops. actions m' = actions m @ acts @ stops \<and> only_stops stops \<and> watched [] acts
      \<and> (case r of Inr x \<Rightarrow> stops = [] \<and> watched_all [] acts \<and> \<sigma> l' = stage_after [] (\<sigma> l) acts
         | Inl e \<Rightarrow> is_exception e \<longrightarrow> \<sigma> l' = stage_after [] (\<sigma> l) acts)"
    by (intro exI [of _ "[]"]) (auto simp: only_stops_def watched_def watched_all_def stage_after_def split: sum.split)
qed

lemma staged_assign: "(\<And>l. \<sigma> (u l) = \<sigma> l) \<Longrightarrow> staged \<sigma> [] (assign u)"
  by (auto simp: staged_def assign_def only_stops_def watched_def watched_all_def stage_after_def)

lemma staged_then_silent:
  assumes "staged \<sigma> ws f" and "\<And>x. staged \<sigma> [] (g x)"
  shows "staged \<sigma> ws (then_do f g)"
  using staged_then [of \<sigma> ws f "[]" g] assms by simp

lemma staged_silent_then:
  assumes "staged \<sigma> [] f" and "\<And>x. staged \<sigma> ws (g x)"
  shows "staged \<sigma> ws (then_do f g)"
  using staged_then [of \<sigma> "[]" f ws g] assms by simp

text \<open>One watched action, with the stage assigned before it.\<close>

lemma staged_one:
  assumes stage: "\<And>l. \<sigma> (u l) = s"
    and act: "\<And>m r m'. f m = (r, m') \<Longrightarrow> \<exists>a stops. actions m' = actions m @ a # stops \<and> only_stops stops
      \<and> is_it a \<and> (\<forall>x. r = Inr x \<longrightarrow> stops = [] \<and> good a)"
  shows "staged (\<sigma> :: 'l \<Rightarrow> string) [(s, is_it, good)] (then_do (assign u) (\<lambda>_. perform f))"
  unfolding staged_def
proof (intro allI impI)
  fix l :: 'l and m r l' m'
  assume "then_do (assign u) (\<lambda>_. perform f) l m = (r, l', m')"
  then have f: "f m = (r, m')" and l': "l' = u l"
    by (auto simp: then_do_def assign_def perform_def split: prod.splits)
  obtain a stops where a: "actions m' = actions m @ a # stops" "only_stops stops" "is_it a"
    "\<And>x. r = Inr x \<Longrightarrow> stops = [] \<and> good a"
    using act [OF f] by blast
  let ?ws = "[(s, is_it, good)]"
  have "actions m' = actions m @ [a] @ stops \<and> only_stops stops \<and> watched ?ws [a]
     \<and> (case r of
          Inr x \<Rightarrow> stops = [] \<and> watched_all ?ws [a] \<and> \<sigma> l' = stage_after ?ws (\<sigma> l) [a]
        | Inl e \<Rightarrow> is_exception e \<longrightarrow> \<sigma> l' = stage_after ?ws (\<sigma> l) [a])"
    using a l' stage by (cases r) (auto simp: watched_def watched_all_def stage_after_def)
  then show "\<exists>acts stops. actions m' = actions m @ acts @ stops \<and> only_stops stops \<and> watched ?ws acts
     \<and> (case r of
          Inr x \<Rightarrow> stops = [] \<and> watched_all ?ws acts \<and> \<sigma> l' = stage_after ?ws (\<sigma> l) acts
        | Inl e \<Rightarrow> is_exception e \<longrightarrow> \<sigma> l' = stage_after ?ws (\<sigma> l) acts)"
    by blast
qed

text \<open>The stages of a plan, as watches of one stage of the block.\<close>

definition ran :: "command \<Rightarrow> action \<Rightarrow> bool" where
  "ran c a \<longleftrightarrow> (\<exists>r. a = Ran c r)"

definition ran_well :: "stage \<Rightarrow> action \<Rightarrow> bool" where
  "ran_well st a \<longleftrightarrow> (\<exists>r. a = Ran (fst st) r \<and> passed st r)"

definition stage_watch :: "string \<Rightarrow> stage \<Rightarrow> watch" where
  "stage_watch s st = (s, ran (fst st), ran_well st)"

lemma performed_watched:
  assumes "length rs \<le> length plan" and "list_all2 passed (take (length rs - 1) plan) (butlast rs)"
  shows "watched (map (stage_watch s) plan) (performed plan rs)"
proof -
  have len: "length (performed plan rs) = length rs"
    using assms(1) by (simp add: performed_def)
  have nth: "performed plan rs ! i = Ran (fst (plan ! i)) (rs ! i)" if "i < length rs" for i
    using that assms(1) by (simp add: performed_def)
  have ok: "passed (plan ! i) (rs ! i)" if "Suc i < length rs" for i
    using list_all2_nthD2 [OF assms(2), of i] that by (simp add: nth_butlast)
  show ?thesis
    using assms(1) len nth ok by (auto simp: watched_def stage_watch_def ran_def ran_well_def)
qed

lemma performed_watched_all:
  "list_all2 passed plan rs \<Longrightarrow> watched_all (map (stage_watch s) plan) (performed plan rs)"
  by (auto simp: watched_all_def performed_def list_all2_conv_all_nth stage_watch_def ran_def ran_well_def)

lemma stage_after_plan: "acts \<noteq> [] \<Longrightarrow> length acts \<le> length plan \<Longrightarrow> stage_after (map (stage_watch s) plan) s' acts = s"
  by (cases acts) (auto simp: stage_after_def stage_watch_def)

lemma staged_plan:
  assumes stage: "\<And>l. \<sigma> (u l) = s" and f: "follows plan f" and some: "\<And>m. actions (snd (f m)) \<noteq> actions m"
  shows "staged (\<sigma> :: 'l \<Rightarrow> string) (map (stage_watch s) plan) (then_do (assign u) (\<lambda>_. perform f))"
  unfolding staged_def
proof (intro allI impI)
  fix l :: 'l and m r l' m'
  assume "then_do (assign u) (\<lambda>_. perform f) l m = (r, l', m')"
  then have fm: "f m = (r, m')" and l': "l' = u l"
    by (auto simp: then_do_def assign_def perform_def split: prod.splits)
  obtain rs where rs: "length rs \<le> length plan" "actions m' = actions m @ performed plan rs"
    "list_all2 passed (take (length rs - 1) plan) (butlast rs)"
    "\<And>x. r = Inr x \<Longrightarrow> length rs = length plan \<and> list_all2 passed plan rs"
    using followsE [OF f, of m] fm by (metis fst_conv snd_conv)
  let ?acts = "performed plan rs" and ?ws = "map (stage_watch s) plan"
  have "?acts \<noteq> []" "length ?acts \<le> length plan"
    using some [of m] fm rs(1,2) by (auto simp: performed_def)
  then have "\<sigma> l' = stage_after ?ws (\<sigma> l) ?acts"
    using stage l' by (simp add: stage_after_plan)
  then show "\<exists>acts stops. actions m' = actions m @ acts @ stops \<and> only_stops stops \<and> watched ?ws acts
     \<and> (case r of
          Inr x \<Rightarrow> stops = [] \<and> watched_all ?ws acts \<and> \<sigma> l' = stage_after ?ws (\<sigma> l) acts
        | Inl e \<Rightarrow> is_exception e \<longrightarrow> \<sigma> l' = stage_after ?ws (\<sigma> l) acts)"
    using rs performed_watched [OF rs(1,3)] performed_watched_all
    by (intro exI [of _ ?acts] exI [of _ "[]"]) (auto simp: only_stops_def split: sum.split)
qed

lemma run_logged_acts: "actions (snd (run_logged exc os c m)) \<noteq> actions m"
  by (cases rule: run_logged_cases [of exc os c m]) auto

lemma run_first_acts:
  assumes "\<And>x. follows p (g x)"
  shows "actions (snd (and_then (run_logged exc os c) g m)) \<noteq> actions m"
proof (cases rule: run_logged_cases [of exc os c m])
  case (passed fs out)
  let ?m = "\<lparr>files = fs(cmd_log c \<mapsto> log_of c (Exited 0 out)), actions = actions m @ [Ran c (Exited 0 out)]\<rparr>"
  obtain rs where "actions (snd (g () ?m)) = actions ?m @ performed p rs"
    using followsE [OF assms [of "()"], of ?m] by metis
  with passed show ?thesis by (simp add: and_then_def)
next
  case (failed e m' r)
  then show ?thesis by (simp add: and_then_def)
qed

lemma staged_run:
  assumes "\<And>l. \<sigma> (u l) = s"
  shows "staged \<sigma> [stage_watch s (c, any_log)] (then_do (assign u) (\<lambda>_. perform (run_logged exc os c)))"
proof -
  have "staged \<sigma> (map (stage_watch s) [(c, any_log)]) (then_do (assign u) (\<lambda>_. perform (run_logged exc os c)))"
    by (rule staged_plan, rule assms, rule follows_run, rule run_logged_acts)
  then show ?thesis by simp
qed

lemma staged_cong: "staged \<sigma> ws b \<Longrightarrow> ws = vs \<Longrightarrow> staged \<sigma> vs b"
  by simp

text \<open>A program looked up by a name: the block goes on with its path or ends with a \<^verbatim>\<open>SystemExit\<close>.\<close>

lemma staged_with_exe:
  assumes "staged \<sigma> ws (g (exe_of os names))"
  shows "staged \<sigma> ws (then_do (perform (which_required os names)) g)"
proof (cases "List.map_filter (find_exe os) names")
  case Nil
  then show ?thesis
    unfolding staged_def
    by (auto simp: then_do_def perform_def which_required_def raise_exc_def only_stops_def watched_def
        intro!: exI [of _ "[]"])
next
  case (Cons exe rest)
  then have "then_do (perform (which_required os names)) g = g (exe_of os names)"
    by (intro ext) (simp add: then_do_def perform_def which_required_def exe_of_def give_def)
  with assms show ?thesis by simp
qed

text \<open>A block that runs a command first.\<close>

definition acts_first :: "('l, 'a) block \<Rightarrow> bool" where
  "acts_first b \<longleftrightarrow> (\<forall>l m r l' m'. b l m = (r, l', m') \<longrightarrow> (\<exists>c e as. actions m' = actions m @ Ran c e # as))"

lemma acts_first_perform:
  assumes "\<And>m. actions (snd (f m)) \<noteq> actions m" and "follows plan f"
  shows "acts_first (then_do (assign u) (\<lambda>_. perform f))"
  unfolding acts_first_def
proof (intro allI impI)
  fix l m r l' m'
  assume "then_do (assign u) (\<lambda>_. perform f) l m = (r, l', m')"
  then have fm: "f m = (r, m')"
    by (auto simp: then_do_def assign_def perform_def split: prod.splits)
  obtain rs where "actions m' = actions m @ performed plan rs"
    using followsE [OF assms(2), of m] fm by (metis snd_conv)
  moreover have "performed plan rs \<noteq> []"
    using assms(1) [of m] fm calculation by auto
  then obtain p0 ps r0 rs0 where "plan = p0 # ps" "rs = r0 # rs0"
    by (cases plan; cases rs) (auto simp: performed_def)
  ultimately show "\<exists>c e as. actions m' = actions m @ Ran c e # as"
    by (auto simp: performed_def)
qed

lemma acts_first_then_value:
  assumes f: "acts_first f" and g: "\<And>x l m l' m'. f l m = (Inr x, l', m') \<Longrightarrow> staged \<sigma> ws (g x)"
  shows "acts_first (then_do f g)"
  unfolding acts_first_def
proof (intro allI impI)
  fix l m r l' m'
  assume run: "then_do f g l m = (r, l', m')"
  obtain r1 l1 m1 where f1: "f l m = (r1, l1, m1)"
    by (metis prod_cases3)
  then obtain c e as where len: "actions m1 = actions m @ Ran c e # as"
    using f unfolding acts_first_def by blast
  show "\<exists>c e as. actions m' = actions m @ Ran c e # as"
  proof (cases r1)
    case (Inl e)
    then show ?thesis using run f1 len by (auto simp: then_do_def)
  next
    case (Inr x)
    then have "g x l1 m1 = (r, l', m')" using run f1 by (simp add: then_do_def)
    then obtain acts stops where "actions m' = actions m1 @ acts @ stops"
      using stagedE [OF g [OF f1 [unfolded Inr]]] by metis
    then show ?thesis using len by simp
  qed
qed

lemma acts_first_then:
  assumes "acts_first f" and "\<And>x. staged \<sigma> ws (g x)"
  shows "acts_first (then_do f g)"
  using assms by (rule acts_first_then_value)

lemma staged_spawn:
  assumes "\<And>l. \<sigma> (u l) = s"
  shows "staged \<sigma> [(s, \<lambda>a. \<exists>b. a = Spawned c b, \<lambda>a. \<exists>c. a = Spawned c True)]
    (then_do (assign u) (\<lambda>_. perform (spawn os c)))"
proof (rule staged_one, rule assms)
  fix m r m'
  assume "spawn os c m = (r, m')"
  then have "\<exists>b. actions m' = actions m @ [Spawned c b] \<and> (\<forall>x. r = Inr x \<longrightarrow> b)"
    by (auto simp: spawn_def split: prod.splits if_splits)
  then show "\<exists>a stops. actions m' = actions m @ a # stops \<and> only_stops stops \<and> (\<exists>b. a = Spawned c b)
      \<and> (\<forall>x. r = Inr x \<longrightarrow> stops = [] \<and> (\<exists>c. a = Spawned c True))"
    by (auto simp: only_stops_def intro!: exI [of _ "[]"])
qed

lemma staged_wait:
  assumes "\<And>l. \<sigma> (u l) = s" and "\<And>rc m. actions (snd (g rc m)) = actions m" and "\<And>rc m x. fst (g rc m) = Inr x \<Longrightarrow> rc = 0"
  shows "staged \<sigma> [(s, \<lambda>a. \<exists>r. a = Waited t r, \<lambda>a. \<exists>t. a = Waited t (Some 0))]
    (then_do (assign u) (\<lambda>_. perform (and_then (wait_process os t) g)))"
proof (rule staged_one, rule assms(1))
  fix m r m'
  assume run: "and_then (wait_process os t) g m = (r, m')"
  obtain w fs where w: "wait_cmd os (actions m) t (files m) = (w, fs)"
    by fastforce
  have "actions m' = actions m @ [Waited t w] \<and> (\<forall>x. r = Inr x \<longrightarrow> w = Some 0)"
  proof (cases w)
    case None
    then show ?thesis using run w by (auto simp: and_then_def wait_process_def)
  next
    case (Some rc)
    then have "g rc \<lparr>files = fs, actions = actions m @ [Waited t w]\<rparr> = (r, m')"
      using run w by (simp add: and_then_def wait_process_def)
    then show ?thesis
      using assms(2) [of rc "\<lparr>files = fs, actions = actions m @ [Waited t w]\<rparr>"] assms(3) [of rc "\<lparr>files = fs, actions = actions m @ [Waited t w]\<rparr>"] Some by auto
  qed
  then show "\<exists>a stops. actions m' = actions m @ a # stops \<and> only_stops stops \<and> (\<exists>r. a = Waited t r)
      \<and> (\<forall>x. r = Inr x \<longrightarrow> stops = [] \<and> (\<exists>t. a = Waited t (Some 0)))"
    by (auto simp: only_stops_def intro!: exI [of _ "[]"])
qed

lemma stop_process_effect:
  assumes "stop_process os m = (r, m')"
  shows "r = Inr () \<and> (\<exists>stops. actions m' = actions m @ stops \<and> only_stops stops)"
  using assms
  by (auto simp: stop_process_def and_then_def terminate_process_def wait_process_def kill_process_def only_stops_def
      split: prod.splits option.splits)

text \<open>A logged command whose failure stops the background process.\<close>

lemma staged_run_or_stop:
  assumes "\<And>l. \<sigma> (u l) = s"
  shows "staged \<sigma> [stage_watch s (c, any_log)]
    (then_do (assign u) (\<lambda>_. perform (on_exception (run_logged exc os c) (stop_process os))))"
  unfolding stage_watch_def
proof (rule staged_one, rule assms)
  fix m r m'
  assume run: "on_exception (run_logged exc os c) (stop_process os) m = (r, m')"
  show "\<exists>a stops. actions m' = actions m @ a # stops \<and> only_stops stops \<and> ran (fst (c, any_log)) a
      \<and> (\<forall>x. r = Inr x \<longrightarrow> stops = [] \<and> ran_well (c, any_log) a)"
  proof (cases rule: run_logged_cases [of exc os c m])
    case (passed fs out)
    then show ?thesis
      using run by (auto simp: on_exception_def ran_def ran_well_def passed_def any_log_def only_stops_def intro!: exI [of _ "[]"])
  next
    case (failed e m1 r1)
    obtain r2 m2 where stop: "stop_process os m1 = (r2, m2)" by fastforce
    with stop_process_effect [OF stop] obtain stops where
      "r2 = Inr ()" "actions m2 = actions m1 @ stops" "only_stops stops" by blast
    moreover have "(\<exists>e. r = Inl e) \<and> (m' = m2 \<or> m' = m1)"
      using run failed stop calculation(1) by (auto simp: on_exception_def split: if_splits)
    moreover have "only_stops []"
      by (simp add: only_stops_def)
    ultimately show ?thesis
      using failed(2) by (auto simp: ran_def)
  qed
qed

lemmas staged_rules = staged_then_silent staged_silent_then staged_run staged_assign

text \<open>What a caught failure says: the watched actions in order, all but the last having ended well.\<close>

lemma try_except_cases:
  assumes "try_except b l m = (Inr (caught, l'), m')"
  shows "b l m = (case caught of None \<Rightarrow> Inr () | Some e \<Rightarrow> Inl e, l', m') \<and> (\<forall>e. caught = Some e \<longrightarrow> is_exception e)"
  using assms by (auto simp: try_except_def split: prod.splits sum.splits if_splits)

end
