(* ===== verification/Validation.thy ===== *)
theory Validation
  imports Block Feedback LogScan
begin

text \<open>
  \<^verbatim>\<open>run_fpga_mainline_validation.py\<close>: the validation of the 25 MHz mainline, from the basic tests over the
  simulation of the top level, synthesis and timing to a capture that is started before the board is
  programmed.  Its stages run in one \<^verbatim>\<open>try\<close> block (\<^verbatim>\<open>Block\<close>); the summary names the stage that failed.
\<close>

section \<open>Reading the reports\<close>

text \<open>
  \<^verbatim>\<open>float(s) < 0.0\<close> for a text of digits, signs and points; \<^term>\<open>None\<close> is the \<^verbatim>\<open>ValueError\<close> of a text that is no
  number.  A number too small for a double would count as zero.
\<close>

definition negative_slack :: "string \<Rightarrow> bool option" where
  "negative_slack s =
     (let minus = (s \<noteq> [] \<and> hd s = CHR ''-'');
          body = (if minus then tl s else s);
          whole = takeWhile is_dec body;
          rest = dropWhile is_dec body;
          frac = (if rest \<noteq> [] \<and> hd rest = CHR ''.'' then tl rest else rest)
      in if list_all is_dec frac \<and> (rest = [] \<or> hd rest = CHR ''.'') \<and> whole @ frac \<noteq> []
         then Some (minus \<and> list_ex (\<lambda>c. c \<noteq> CHR ''0'') (whole @ frac))
         else None)"

record uart_analysis =
  ua_valid_char_total :: nat
  ua_counts :: "(char \<times> nat) list"
  ua_base_count :: nat
  ua_ratio_ok :: bool
  ua_file_size :: nat
  ua_saw_cal :: bool
  ua_saw_ddr3_pass :: bool

definition char_count :: "(char \<times> nat) list \<Rightarrow> char \<Rightarrow> nat" where
  "char_count counts ch = (case map_of counts ch of None \<Rightarrow> 0 | Some n \<Rightarrow> n)"

text \<open>\<^verbatim>\<open>abs(n - expected) <= tol\<close>\<close>

definition near :: "nat \<Rightarrow> nat \<Rightarrow> nat \<Rightarrow> bool" where
  "near n expected tol \<longleftrightarrow> \<bar>int n - int expected\<bar> \<le> int tol"

definition base_chars :: string where
  "base_chars = ''URTDIGP''"

definition ratio_in_tolerance :: "(char \<Rightarrow> nat) \<Rightarrow> nat \<Rightarrow> bool" where
  "ratio_in_tolerance cnt base \<longleftrightarrow> 100 \<le> base
     \<and> list_all (\<lambda>ch. near (cnt ch) base (max 8 (round_div base 10))) base_chars
     \<and> near (cnt (CHR ''A'')) (3 * base) (max 16 (round_div (3 * base) 10))
     \<and> near (cnt (CHR ''S'')) (2 * base) (max 12 (round_div (2 * base) 10))"

definition analyze_uart_capture :: "string option \<Rightarrow> uart_analysis" where
  "analyze_uart_capture file =
     (let text_in = (case file of None \<Rightarrow> [] | Some t \<Rightarrow> t);
          cnt = count_list text_in;
          base = (if list_all (\<lambda>ch. 0 < cnt ch) base_chars then min_list (map cnt base_chars) else 0)
      in \<lparr>ua_valid_char_total = sum_list (map cnt ''UARTDIGPS''),
          ua_counts = map (\<lambda>ch. (ch, cnt ch)) ''UARTDIGPS'',
          ua_base_count = base, ua_ratio_ok = ratio_in_tolerance cnt base, ua_file_size = length text_in,
          ua_saw_cal = contains_text ''CAL=1'' text_in,
          ua_saw_ddr3_pass = contains_text ''DDR3 PASS'' text_in\<rparr>)"

section \<open>Commands\<close>

record validation_args =
  va_port :: string
  va_rs_depth :: int
  va_fetch_buffer_depth :: int
  va_core_hz :: int
  va_capture_seconds :: int

definition validation_dir :: "os \<Rightarrow> string" where
  "validation_dir os = build_file os ''fpga_mainline_validation''"

definition validation_log :: "os \<Rightarrow> string \<Rightarrow> string" where
  "validation_log os name = in_dir (validation_dir os) name"

definition TIMING_SUMMARY_AGGR :: "os \<Rightarrow> string" where
  "TIMING_SUMMARY_AGGR os = build_file os ''ax7203/reports/timing_summary_aggressive.rpt''"

definition MAINLINE_BUILD_ID_FILE :: "os \<Rightarrow> string" where
  "MAINLINE_BUILD_ID_FILE os = build_file os ''ax7203/sifang_core_ax7203_bitstream_id.txt''"

definition MAINLINE_CAPTURE_FILE :: "os \<Rightarrow> string" where
  "MAINLINE_CAPTURE_FILE os = build_file os ''uart_test_rs16.txt''"

definition MAINLINE_ROM :: "os \<Rightarrow> string" where
  "MAINLINE_ROM os = rom_file os ''test_fpga_ddr3_mainline.s''"

definition MAINLINE_TB_TOP :: string where
  "MAINLINE_TB_TOP = ''tb_ax7203_top_mainline_ddr3_smoke''"

definition MAINLINE_EXPECT_TOKEN :: string where
  "MAINLINE_EXPECT_TOKEN = ''[AX7203_MAINLINE_DDR3] PASS''"

definition basic_tests_command :: "os \<Rightarrow> string list \<Rightarrow> string \<Rightarrow> command" where
  "basic_tests_command os flags log =
     \<lparr>cmd_args = [sys_executable os, in_dir (repo_root os) ''verification/run_all_tests.py''] @ flags,
      cmd_cwd = Some (repo_root os), cmd_env = None, cmd_log = validation_log os log, cmd_timeout = Some 3600\<rparr>"

definition mainline_rom_command :: "os \<Rightarrow> command" where
  "mainline_rom_command os =
     \<lparr>cmd_args = [sys_executable os, in_dir (repo_root os) ''fpga/scripts/build_rom_image.py'', ''--asm'',
        MAINLINE_ROM os, ''--merge-mem-subsys''],
      cmd_cwd = Some (repo_root os), cmd_env = None, cmd_log = validation_log os ''03_build_rom.log'',
      cmd_timeout = Some 300\<rparr>"

definition mainline_binary :: "os \<Rightarrow> string" where
  "mainline_binary os = comp_test_file os (''out_iverilog/bin/'' @ MAINLINE_TB_TOP @ ''.out'')"

definition mainline_compile :: "os \<Rightarrow> validation_args \<Rightarrow> nat \<Rightarrow> string \<Rightarrow> command" where
  "mainline_compile os a hz iverilog =
     \<lparr>cmd_args = [iverilog, ''-g2012'', ''-DFPGA_MODE=1'', ''-DENABLE_MEM_SUBSYS=1'', ''-DENABLE_DDR3=1'',
          ''-DL2_PASSTHROUGH=1'', ''-DENABLE_ROCC_ACCEL=0'', ''-DSMT_MODE=0'', ''-DTB_SHORT_TIMEOUT_NS=8000000'',
          ''-DFPGA_SCOREBOARD_RS_DEPTH='' @ str_int (va_rs_depth a),
          ''-DFPGA_SCOREBOARD_RS_IDX_W='' @ dec_str (derive_idx_width (va_rs_depth a)),
          ''-DFPGA_FETCH_BUFFER_DEPTH='' @ str_int (va_fetch_buffer_depth a),
          ''-DFPGA_CLK_WIZ_HALF_DIV='' @ dec_str (derive_clk_wiz_half_div hz),
          ''-DFPGA_UART_CLK_DIV='' @ dec_str (derive_uart_clk_div hz 115200),
          ''-s'', MAINLINE_TB_TOP, ''-o'', mainline_binary os,
          ''-I'', in_dir (repo_root os) ''rtl'', ''-I'', in_dir (repo_root os) ''fpga/rtl'']
        @ verilog_in os (in_dir (repo_root os) ''rtl'') @ verilog_in os (in_dir (repo_root os) ''fpga/rtl'')
        @ [in_dir (repo_root os) ''libs/REG_ARRAY/SRAM/ram_bfm.v'', comp_test_file os ''clk_wiz_0_stub.v'',
           comp_test_file os ''ibufgds_stub.v'', comp_test_file os ''mig_7series_0_stub.v'',
           comp_test_file os (MAINLINE_TB_TOP @ ''.sv'')],
      cmd_cwd = Some (repo_root os), cmd_env = None, cmd_log = validation_log os ''04_compile_top_sim.log'',
      cmd_timeout = Some 300\<rparr>"

definition mainline_run :: "os \<Rightarrow> string \<Rightarrow> command" where
  "mainline_run os vvp =
     \<lparr>cmd_args = [vvp, mainline_binary os], cmd_cwd = Some (in_dir (repo_root os) ''rom''), cmd_env = None,
      cmd_log = validation_log os ''05_run_top_sim.log'', cmd_timeout = Some 900\<rparr>"

definition validation_vivado :: "os \<Rightarrow> string \<Rightarrow> environ \<Rightarrow> string \<Rightarrow> string \<Rightarrow> nat \<Rightarrow> command" where
  "validation_vivado os vivado env script log timeout =
     \<lparr>cmd_args = [vivado, ''-mode'', ''batch'', ''-source'', in_dir (in_dir (repo_root os) ''fpga'') script],
      cmd_cwd = Some (repo_root os), cmd_env = Some env, cmd_log = validation_log os log,
      cmd_timeout = Some timeout\<rparr>"

definition capture_window :: "validation_args \<Rightarrow> int" where
  "capture_window a = max (va_capture_seconds a + 60) 75"

definition prearm_command :: "os \<Rightarrow> validation_args \<Rightarrow> string \<Rightarrow> command" where
  "prearm_command os a powershell =
     \<lparr>cmd_args = [powershell, ''-ExecutionPolicy'', ''Bypass'', ''-File'',
        in_dir (repo_root os) ''fpga/scripts/capture_uart_once.ps1'', ''-Port'', va_port a,
        ''-OutFile'', MAINLINE_CAPTURE_FILE os, ''-Seconds'', str_int (capture_window a), ''-OpenDelayMs'', ''0''],
      cmd_cwd = Some (repo_root os), cmd_env = None, cmd_log = validation_log os ''10_capture_uart.log'',
      cmd_timeout = None\<rparr>"

definition validation_env :: "os \<Rightarrow> validation_args \<Rightarrow> nat \<Rightarrow> environ" where
  "validation_env os a hz =
     (let jobs = default_vivado_jobs (os_environ os) (cpu_count os);
          env = os_environ os ++ map_of
            [(''AX7203_ENABLE_MEM_SUBSYS'', ''1''), (''AX7203_ENABLE_ROCC'', ''0''), (''AX7203_ENABLE_DDR3'', ''1''),
             (''AX7203_SMT_MODE'', ''0''), (''AX7203_RS_DEPTH'', str_int (va_rs_depth a)),
             (''AX7203_RS_IDX_W'', dec_str (derive_idx_width (va_rs_depth a))),
             (''AX7203_FETCH_BUFFER_DEPTH'', str_int (va_fetch_buffer_depth a)),
             (''AX7203_CORE_CLK_MHZ'', fmt_mhz1 hz),
             (''AX7203_UART_CLK_DIV'', dec_str (derive_uart_clk_div hz 115200)),
             (''AX7203_ROM_ASM'', MAINLINE_ROM os), (''AX7203_TOP_MODULE'', ''sifang_core_ax7203_top'')]
      in setdefault ''AX7203_IMPL_JOBS'' jobs (setdefault ''AX7203_SYNTH_JOBS'' jobs
           (setdefault ''AX7203_MAX_THREADS'' jobs env)))"

section \<open>The flow\<close>

definition mainline_sim :: "os \<Rightarrow> validation_args \<Rightarrow> nat \<Rightarrow> string flow" where
  "mainline_sim os a hz =
     and_then (run_logged runtime_exc os (mainline_rom_command os)) (\<lambda>_.
     and_then (which_required os [''iverilog'']) (\<lambda>iverilog.
     and_then (run_logged runtime_exc os (mainline_compile os a hz iverilog)) (\<lambda>_.
     and_then (which_required os [''vvp'']) (\<lambda>vvp.
     and_then (run_logged runtime_exc os (mainline_run os vvp)) (\<lambda>_.
     and_then (read_text (cmd_log (mainline_run os vvp))) (\<lambda>sim_text.
     and_then (require (contains_text MAINLINE_EXPECT_TOKEN sim_text)
       (RuntimeError (''Mainline top-level simulation did not reach PASS token; see '' @ cmd_log (mainline_run os vvp)))) (\<lambda>_.
     give (cmd_log (mainline_run os vvp)))))))))"

text \<open>The local variables of \<^verbatim>\<open>main\<close> that its \<^verbatim>\<open>try\<close> block assigns.\<close>

record validation_locals =
  vl_current_stage :: string
  vl_build_id :: string
  vl_uart :: uart_analysis

definition no_uart_analysis :: uart_analysis where
  "no_uart_analysis = \<lparr>ua_valid_char_total = 0, ua_counts = [], ua_base_count = 0, ua_ratio_ok = False,
     ua_file_size = 0, ua_saw_cal = False, ua_saw_ddr3_pass = False\<rparr>"

definition validation_start :: validation_locals where
  "validation_start = \<lparr>vl_current_stage = ''init'', vl_build_id = ''N/A'', vl_uart = no_uart_analysis\<rparr>"

definition set_stage :: "string \<Rightarrow> validation_locals \<Rightarrow> validation_locals" where
  "set_stage s l = l\<lparr>vl_current_stage := s\<rparr>"

definition at_stage :: "string \<Rightarrow> 'a flow \<Rightarrow> (validation_locals, 'a) block" where
  "at_stage s f = then_do (assign (set_stage s)) (\<lambda>_. perform f)"

definition timing_gate :: "os \<Rightarrow> unit flow" where
  "timing_gate os = and_then (look_file (TIMING_SUMMARY_AGGR os)) (\<lambda>t.
     let ts = parse_timing_summary t in
     and_then (require (ts_constraints_met ts)
       (RuntimeError (''Aggressive implementation did not meet timing; see '' @ TIMING_SUMMARY_AGGR os))) (\<lambda>_.
     case negative_slack (ts_wns ts) of
       None \<Rightarrow> raise_exc ValueError
     | Some True \<Rightarrow> raise_exc (RuntimeError (''Aggressive implementation has negative slack; see '' @ TIMING_SUMMARY_AGGR os))
     | Some False \<Rightarrow> (case negative_slack (ts_whs ts) of
           None \<Rightarrow> raise_exc ValueError
         | Some neg \<Rightarrow> require (\<not> neg)
             (RuntimeError (''Aggressive implementation has negative slack; see '' @ TIMING_SUMMARY_AGGR os)))))"

definition capture_ends :: "os \<Rightarrow> validation_args \<Rightarrow> unit flow" where
  "capture_ends os a =
     and_then (wait_process os (nat (capture_window a + 30))) (\<lambda>rc.
     require (rc = 0) (RuntimeError (''UART capture failed ('' @ str_int rc @ ''); see '' @ validation_log os ''10_capture_uart.log'')))"

definition uart_gate :: "os \<Rightarrow> uart_analysis \<Rightarrow> unit flow" where
  "uart_gate os u =
     and_then (require (ua_saw_cal u) (RuntimeError (''UART capture is missing CAL=1; see '' @ MAINLINE_CAPTURE_FILE os))) (\<lambda>_.
     require (ua_saw_ddr3_pass u) (RuntimeError (''UART capture is missing DDR3 PASS; see '' @ MAINLINE_CAPTURE_FILE os)))"

text \<open>The stages up to the timing report, and those with the board.\<close>

definition validation_build :: "os \<Rightarrow> validation_args \<Rightarrow> nat \<Rightarrow> environ \<Rightarrow> (validation_locals, string) block" where
  "validation_build os a hz env =
     then_do (at_stage ''basic'' (run_logged runtime_exc os (basic_tests_command os [''--basic''] ''01_basic.log''))) (\<lambda>_.
     then_do (at_stage ''basic_fpga_config''
       (run_logged runtime_exc os (basic_tests_command os [''--basic'', ''--fpga-config''] ''02_basic_fpga_config.log''))) (\<lambda>_.
     then_do (at_stage ''fpga_top_sim'' (mainline_sim os a hz)) (\<lambda>_.
     then_do (perform (which_required os [''vivado.bat'', ''vivado''])) (\<lambda>vivado.
     then_do (at_stage ''create_project''
       (run_logged runtime_exc os (validation_vivado os vivado env ''create_project_ax7203.tcl'' ''06_create_project.log'' 3600))) (\<lambda>_.
     then_do (at_stage ''synth''
       (run_logged runtime_exc os (validation_vivado os vivado env ''run_ax7203_synth.tcl'' ''07_run_synth.log'' 7200))) (\<lambda>_.
     then_do (at_stage ''impl_aggressive''
       (run_logged runtime_exc os (validation_vivado os vivado env ''impl_aggressive.tcl'' ''08_impl_aggressive.log'' 7200))) (\<lambda>_.
     then_do (perform (timing_gate os)) (\<lambda>_.
     perform (give vivado)))))))))"

definition validation_board :: "os \<Rightarrow> validation_args \<Rightarrow> environ \<Rightarrow> string \<Rightarrow> (validation_locals, unit) block" where
  "validation_board os a env vivado =
     then_do (perform (which_required os [''powershell.exe'', ''powershell''])) (\<lambda>powershell.
     then_do (at_stage ''uart_capture_prearm'' (spawn os (prearm_command os a powershell))) (\<lambda>_.
     then_do (at_stage ''program_jtag''
       (on_exception (run_logged runtime_exc os
          (validation_vivado os vivado env ''program_ax7203_jtag.tcl'' ''09_program_jtag.log'' 1800)) (stop_process os))) (\<lambda>_.
     then_do (perform (look_file (MAINLINE_BUILD_ID_FILE os))) (\<lambda>bid.
     then_do (assign (\<lambda>l. l\<lparr>vl_build_id := parse_build_id bid\<rparr>)) (\<lambda>_.
     then_do (at_stage ''uart_capture'' (capture_ends os a)) (\<lambda>_.
     then_do (perform (look_file (MAINLINE_CAPTURE_FILE os))) (\<lambda>cap.
     then_do (assign (\<lambda>l. l\<lparr>vl_uart := analyze_uart_capture cap\<rparr>)) (\<lambda>_.
     perform (uart_gate os (analyze_uart_capture cap))))))))))"

definition validation_body :: "os \<Rightarrow> validation_args \<Rightarrow> nat \<Rightarrow> environ \<Rightarrow> (validation_locals, unit) block" where
  "validation_body os a hz env = then_do (validation_build os a hz env) (validation_board os a env)"

section \<open>The summary\<close>

definition validation_fields ::
  "os \<Rightarrow> validation_args \<Rightarrow> nat \<Rightarrow> string \<Rightarrow> string \<Rightarrow> validation_locals \<Rightarrow> timing_summary \<Rightarrow> (string \<times> string) list" where
  "validation_fields os a hz failed_stage detail l ts =
     [(''Flow'', ''AX7203 25MHz Single-Thread Mainline Validation''),
      (''Result'', if failed_stage = ''none'' then ''PASS'' else ''FAIL''),
      (''FailedStage'', failed_stage), (''FailureDetail'', if detail = [] then ''none'' else detail),
      (''RSDepth'', str_int (va_rs_depth a)), (''RSIdxW'', dec_str (derive_idx_width (va_rs_depth a))),
      (''FetchBufferDepth'', str_int (va_fetch_buffer_depth a)), (''CoreClkMHz'', fmt_mhz1 hz),
      (''UartClkDiv'', dec_str (derive_uart_clk_div hz 115200)),
      (''EnableMemSubsys'', ''1''), (''EnableDDR3'', ''1''), (''L2Passthrough'', ''1''),
      (''BuildID'', vl_build_id l)]
     @ map (\<lambda>(k, log). (k, validation_log os log))
       [(''BasicLog'', ''01_basic.log''), (''BasicFpgaConfigLog'', ''02_basic_fpga_config.log''),
        (''TopSimLog'', ''05_run_top_sim.log''), (''CreateProjectLog'', ''06_create_project.log''),
        (''SynthLog'', ''07_run_synth.log''), (''ImplAggressiveLog'', ''08_impl_aggressive.log''),
        (''ProgramLog'', ''09_program_jtag.log''), (''UartCaptureLog'', ''10_capture_uart.log'')]
     @ [(''UartCaptureFile'', MAINLINE_CAPTURE_FILE os),
        (''TimingSummaryAggressive'', TIMING_SUMMARY_AGGR os),
        (''TimingDetailAggressive'', build_file os ''ax7203/reports/timing_detail_aggressive.rpt''),
        (''UtilizationAggressive'', build_file os ''ax7203/reports/utilization_aggressive.rpt''),
        (''WNS'', ts_wns ts), (''WHS'', ts_whs ts), (''ConstraintsMet'', str_bool (ts_constraints_met ts)),
        (''UartValidChars'', dec_str (ua_valid_char_total (vl_uart l))),
        (''UartBaseCount'', dec_str (ua_base_count (vl_uart l))),
        (''UartRatioOK'', str_bool (ua_ratio_ok (vl_uart l))),
        (''SawCAL1'', str_bool (ua_saw_cal (vl_uart l))),
        (''SawDDR3PASS'', str_bool (ua_saw_ddr3_pass (vl_uart l)))]
     @ map (\<lambda>ch. (''Count'' @ [ch], dec_str (char_count (ua_counts (vl_uart l)) ch))) ''UARTDIGPS''"

definition validation_summary :: "os \<Rightarrow> string" where
  "validation_summary os = validation_log os ''summary.txt''"

text \<open>\<^verbatim>\<open>main\<close> after the arguments; the value is the return code.\<close>

definition validation_main :: "os \<Rightarrow> (py_exc \<Rightarrow> string) \<Rightarrow> validation_args \<Rightarrow> int flow" where
  "validation_main os shown a =
     and_then (positive_clock RuntimeError (va_core_hz a)) (\<lambda>hz.
     and_then (try_except (validation_body os a hz (validation_env os a hz)) validation_start) (\<lambda>(caught, l).
     let failed_stage = (case caught of None \<Rightarrow> ''none'' | Some e \<Rightarrow> vl_current_stage l);
         detail = (case caught of None \<Rightarrow> [] | Some e \<Rightarrow> exc_text shown e)
     in and_then (look_file (TIMING_SUMMARY_AGGR os)) (\<lambda>t.
        and_then (write_file (validation_summary os)
          (summary_text (validation_fields os a hz failed_stage detail l (parse_timing_summary t)))) (\<lambda>_.
        give (if failed_stage = ''none'' then 0 else 1)))))"

section \<open>What is run, in which stage\<close>

definition mainline_plan :: "os \<Rightarrow> validation_args \<Rightarrow> nat \<Rightarrow> stage list" where
  "mainline_plan os a hz =
     [(mainline_rom_command os, any_log), (mainline_compile os a hz (exe_of os [''iverilog'']), any_log),
      (mainline_run os (exe_of os [''vvp'']), contains_text MAINLINE_EXPECT_TOKEN)]"

definition vivado_watch :: "os \<Rightarrow> environ \<Rightarrow> string \<Rightarrow> string \<Rightarrow> string \<Rightarrow> nat \<Rightarrow> watch" where
  "vivado_watch os env s script log timeout =
     stage_watch s (validation_vivado os (exe_of os [''vivado.bat'', ''vivado'']) env script log timeout, any_log)"

definition build_watches :: "os \<Rightarrow> validation_args \<Rightarrow> nat \<Rightarrow> environ \<Rightarrow> watch list" where
  "build_watches os a hz env =
     [stage_watch ''basic'' (basic_tests_command os [''--basic''] ''01_basic.log'', any_log),
      stage_watch ''basic_fpga_config''
        (basic_tests_command os [''--basic'', ''--fpga-config''] ''02_basic_fpga_config.log'', any_log)]
     @ map (stage_watch ''fpga_top_sim'') (mainline_plan os a hz)
     @ [vivado_watch os env ''create_project'' ''create_project_ax7203.tcl'' ''06_create_project.log'' 3600,
        vivado_watch os env ''synth'' ''run_ax7203_synth.tcl'' ''07_run_synth.log'' 7200,
        vivado_watch os env ''impl_aggressive'' ''impl_aggressive.tcl'' ''08_impl_aggressive.log'' 7200]"

definition board_watches :: "os \<Rightarrow> validation_args \<Rightarrow> environ \<Rightarrow> watch list" where
  "board_watches os a env =
     [(''uart_capture_prearm'',
        \<lambda>act. \<exists>b. act = Spawned (prearm_command os a (exe_of os [''powershell.exe'', ''powershell''])) b,
        \<lambda>act. \<exists>c. act = Spawned c True),
      vivado_watch os env ''program_jtag'' ''program_ax7203_jtag.tcl'' ''09_program_jtag.log'' 1800,
      (''uart_capture'', \<lambda>act. \<exists>r. act = Waited (nat (capture_window a + 30)) r, \<lambda>act. \<exists>t. act = Waited t (Some 0))]"

definition validation_watches :: "os \<Rightarrow> validation_args \<Rightarrow> watch list" where
  "validation_watches os a = (let hz = nat (va_core_hz a); env = validation_env os a hz
     in build_watches os a hz env @ board_watches os a env)"

lemma stage_set [simp]: "vl_current_stage (set_stage s l) = s"
  by (simp add: set_stage_def)

lemma mainline_follows:
  "follows (mainline_plan os a hz) (mainline_sim os a hz)" (is ?plan)
  and mainline_acts: "actions (snd (mainline_sim os a hz m)) \<noteq> actions m" (is ?acts)
proof -
  let ?c = "mainline_run os (exe_of os [''vvp''])"
  have gate: "follows [(?c, contains_text MAINLINE_EXPECT_TOKEN)]
      (and_then (run_logged runtime_exc os ?c) (\<lambda>_. and_then (read_text (cmd_log ?c)) (\<lambda>t.
         and_then (require (contains_text MAINLINE_EXPECT_TOKEN t) e) (\<lambda>_. give x))))" for e and x :: string
    by (rule follows_checked)
      (auto simp: and_then_def require_def give_def raise_exc_def split: if_splits)
  show ?plan
    unfolding mainline_sim_def mainline_plan_def
    by (intro follows_run_then follows_with_exe gate)
  show ?acts
    unfolding mainline_sim_def
    by (rule run_first_acts [where p = "[(mainline_compile os a hz (exe_of os [''iverilog'']), any_log),
          (?c, contains_text MAINLINE_EXPECT_TOKEN)]"])
      (intro follows_run_then follows_with_exe gate)
qed

lemma staged_at_run:
  "staged vl_current_stage [stage_watch s (c, any_log)] (at_stage s (run_logged exc os c))"
  unfolding at_stage_def by (rule staged_run) simp

lemma staged_sim:
  "staged vl_current_stage (map (stage_watch ''fpga_top_sim'') (mainline_plan os a hz)) (at_stage ''fpga_top_sim'' (mainline_sim os a hz))"
  unfolding at_stage_def by (rule staged_plan, simp, rule mainline_follows, rule mainline_acts)

lemma timing_gate_acts: "actions (snd (timing_gate os m)) = actions m"
  by (simp add: timing_gate_def and_then_def look_file_def require_def give_def raise_exc_def Let_def
      split: option.split bool.split)

text \<open>The first stage always runs its command.\<close>

lemma build_staged:
  "staged vl_current_stage (build_watches os a hz env) (validation_build os a hz env)"
  and build_acts: "acts_first (validation_build os a hz env)"
proof -
  let ?ws = "[stage_watch ''basic_fpga_config''
        (basic_tests_command os [''--basic'', ''--fpga-config''] ''02_basic_fpga_config.log'', any_log)]
      @ map (stage_watch ''fpga_top_sim'') (mainline_plan os a hz)
      @ [vivado_watch os env ''create_project'' ''create_project_ax7203.tcl'' ''06_create_project.log'' 3600]
      @ [vivado_watch os env ''synth'' ''run_ax7203_synth.tcl'' ''07_run_synth.log'' 7200]
      @ [vivado_watch os env ''impl_aggressive'' ''impl_aggressive.tcl'' ''08_impl_aggressive.log'' 7200]"
  obtain g where build: "validation_build os a hz env = then_do
      (at_stage ''basic'' (run_logged runtime_exc os (basic_tests_command os [''--basic''] ''01_basic.log''))) (\<lambda>_. g)"
    and rest: "staged vl_current_stage ?ws g"
    by (rule that, unfold validation_build_def vivado_watch_def, rule refl)
      (intro staged_then staged_with_exe staged_at_run staged_sim staged_then_silent
        staged_perform timing_gate_acts, simp add: give_def)
  have "staged vl_current_stage ([stage_watch ''basic'' (basic_tests_command os [''--basic''] ''01_basic.log'', any_log)] @ ?ws)
      (validation_build os a hz env)"
    unfolding build by (rule staged_then [OF staged_at_run rest])
  then show "staged vl_current_stage (build_watches os a hz env) (validation_build os a hz env)"
    by (simp add: build_watches_def)
  show "acts_first (validation_build os a hz env)"
    unfolding build
    by (rule acts_first_then [OF _ rest], unfold at_stage_def, rule acts_first_perform [OF run_logged_acts follows_run])
qed

lemma board_staged:
  "staged vl_current_stage (board_watches os a env)
    (validation_board os a env (exe_of os [''vivado.bat'', ''vivado'']))"
proof -
  have "staged vl_current_stage
      ([(''uart_capture_prearm'',
          \<lambda>act. \<exists>b. act = Spawned (prearm_command os a (exe_of os [''powershell.exe'', ''powershell''])) b,
          \<lambda>act. \<exists>c. act = Spawned c True)]
       @ [vivado_watch os env ''program_jtag'' ''program_ax7203_jtag.tcl'' ''09_program_jtag.log'' 1800]
       @ [(''uart_capture'', \<lambda>act. \<exists>r. act = Waited (nat (capture_window a + 30)) r, \<lambda>act. \<exists>t. act = Waited t (Some 0))])
      (validation_board os a env (exe_of os [''vivado.bat'', ''vivado'']))"
    unfolding validation_board_def vivado_watch_def at_stage_def capture_ends_def
    by (intro staged_with_exe staged_then [OF staged_spawn] staged_then [OF staged_run_or_stop]
        staged_silent_then [OF staged_perform] staged_silent_then [OF staged_assign] staged_then_silent [OF staged_wait]
        staged_perform)
      (auto simp: uart_gate_def and_then_def look_file_def require_def give_def raise_exc_def split: if_splits)
  then show ?thesis
    by (simp add: board_watches_def)
qed

lemma build_value:
  "validation_build os a hz env l m = (Inr v, l', m') \<Longrightarrow> v = exe_of os [''vivado.bat'', ''vivado'']"
  by (auto simp: validation_build_def block_Inr give_Inr which_required_def exe_of_def raise_exc_def split: list.splits)

lemma body_staged:
  "staged vl_current_stage (validation_watches os a)
    (validation_body os a (nat (va_core_hz a)) (validation_env os a (nat (va_core_hz a))))"
  unfolding validation_watches_def validation_body_def Let_def
  by (rule staged_then_value [OF build_staged]) (auto dest: build_value intro: board_staged)

lemma body_acts: "acts_first (validation_body os a (nat (va_core_hz a)) (validation_env os a (nat (va_core_hz a))))"
  unfolding validation_body_def
  by (rule acts_first_then_value [OF build_acts]) (auto dest: build_value intro: board_staged)

text \<open>What the timing report of a good implementation is.\<close>

definition timing_ok :: "string option \<Rightarrow> bool" where
  "timing_ok t \<longleftrightarrow> (let ts = parse_timing_summary t in ts_constraints_met ts
     \<and> negative_slack (ts_wns ts) = Some False \<and> negative_slack (ts_whs ts) = Some False)"

lemma timing_gate_Inr: "timing_gate os m = (Inr u, m') \<longleftrightarrow> timing_ok (files m (TIMING_SUMMARY_AGGR os)) \<and> m' = m"
  by (auto simp: timing_gate_def timing_ok_def flow_Inr Let_def raise_exc_def split: option.splits bool.splits)

lemma body_Inr:
  assumes "validation_body os a hz env l m = (Inr u, l', m')"
  shows "\<exists>mt l1. validation_build os a hz env l m = (Inr (exe_of os [''vivado.bat'', ''vivado'']), l1, mt)
      \<and> timing_ok (files mt (TIMING_SUMMARY_AGGR os))
      \<and> vl_uart l' = analyze_uart_capture (files m' (MAINLINE_CAPTURE_FILE os))
      \<and> ua_saw_cal (vl_uart l') \<and> ua_saw_ddr3_pass (vl_uart l')"
proof -
  obtain v l1 mt where build: "validation_build os a hz env l m = (Inr v, l1, mt)"
    and board: "validation_board os a env v l1 mt = (Inr u, l', m')"
    using assms by (auto simp: validation_body_def then_do_Inr)
  have "timing_ok (files mt (TIMING_SUMMARY_AGGR os))"
    using build by (auto simp: validation_build_def block_Inr give_Inr timing_gate_Inr)
  moreover have "vl_uart l' = analyze_uart_capture (files m' (MAINLINE_CAPTURE_FILE os))
      \<and> ua_saw_cal (vl_uart l') \<and> ua_saw_ddr3_pass (vl_uart l')"
    using board by (auto simp: validation_board_def block_Inr flow_Inr uart_gate_def)
  ultimately show ?thesis
    using build build_value [OF build] by blast
qed

section \<open>The verdict\<close>

lemma main_cases:
  assumes "validation_main os shown a m = (Inr rc, m')"
  obtains r l mb where "validation_body os a (nat (va_core_hz a)) (validation_env os a (nat (va_core_hz a))) validation_start m
      = (r, l, mb)"
    "\<And>e. r = Inl e \<Longrightarrow> is_exception e" "actions m' = actions mb"
    "files m' = (files mb)(validation_summary os \<mapsto> summary_text (validation_fields os a (nat (va_core_hz a))
       (case r of Inr u \<Rightarrow> ''none'' | Inl e \<Rightarrow> vl_current_stage l) (case r of Inr u \<Rightarrow> [] | Inl e \<Rightarrow> exc_text shown e) l
       (parse_timing_summary (files mb (TIMING_SUMMARY_AGGR os)))))"
    "rc = (if (case r of Inr u \<Rightarrow> ''none'' | Inl e \<Rightarrow> vl_current_stage l) = ''none'' then 0 else 1)"
proof -
  let ?hz = "nat (va_core_hz a)"
  obtain caught l mb where tried: "try_except (validation_body os a ?hz (validation_env os a ?hz)) validation_start m
      = (Inr (caught, l), mb)"
    and out: "m' = mb\<lparr>files := (files mb)(validation_summary os \<mapsto> summary_text (validation_fields os a ?hz
       (case caught of None \<Rightarrow> ''none'' | Some e \<Rightarrow> vl_current_stage l) (case caught of None \<Rightarrow> [] | Some e \<Rightarrow> exc_text shown e) l
       (parse_timing_summary (files mb (TIMING_SUMMARY_AGGR os)))))\<rparr>"
    and rc: "rc = (if (case caught of None \<Rightarrow> ''none'' | Some e \<Rightarrow> vl_current_stage l) = ''none'' then 0 else 1)"
    using assms unfolding validation_main_def
    by (auto simp: flow_Inr positive_clock_def raise_exc_def Let_def split: if_splits prod.splits)
  show thesis
    using that [OF conjunct1 [OF try_except_cases [OF tried]]] conjunct2 [OF try_except_cases [OF tried]] out rc
    by (cases caught) (simp_all del: fun_upd_apply)
qed

lemma watch_names: "list_all (\<lambda>w. fst w \<noteq> ''none'') (validation_watches os a)"
  by (simp add: validation_watches_def build_watches_def board_watches_def mainline_plan_def vivado_watch_def
      stage_watch_def Let_def)

lemma body_outcome:
  assumes body: "validation_body os a (nat (va_core_hz a)) (validation_env os a (nat (va_core_hz a))) validation_start m
      = (r, l, mb)"
    and e: "\<And>e. r = Inl e \<Longrightarrow> is_exception e"
  obtains acts stops where "actions mb = actions m @ acts @ stops" "only_stops stops"
    "watched (validation_watches os a) acts" "acts \<noteq> []"
    "\<And>x. r = Inr x \<Longrightarrow> stops = [] \<and> watched_all (validation_watches os a) acts"
    "\<And>e. r = Inl e \<Longrightarrow> vl_current_stage l = fst (validation_watches os a ! (length acts - 1)) \<and> vl_current_stage l \<noteq> ''none''"
proof -
  obtain acts stops where run: "actions mb = actions m @ acts @ stops" "only_stops stops"
      "watched (validation_watches os a) acts"
    and ok: "\<And>x. r = Inr x \<Longrightarrow> stops = [] \<and> watched_all (validation_watches os a) acts
      \<and> vl_current_stage l = stage_after (validation_watches os a) (vl_current_stage validation_start) acts"
    and bad: "\<And>e. r = Inl e \<Longrightarrow> is_exception e \<Longrightarrow>
      vl_current_stage l = stage_after (validation_watches os a) (vl_current_stage validation_start) acts"
    using stagedE [OF body_staged body] by metis
  have "acts \<noteq> []"
    using body_acts body run(1,2) unfolding acts_first_def by (fastforce simp: only_stops_def)
  moreover have "length acts \<le> length (validation_watches os a)"
    using run(3) by (simp add: watched_def)
  moreover from calculation have "length acts - 1 < length (validation_watches os a)"
    by (cases acts) auto
  ultimately have "stage_after (validation_watches os a) s0 acts = fst (validation_watches os a ! (length acts - 1))
      \<and> fst (validation_watches os a ! (length acts - 1)) \<noteq> ''none''" for s0
    using watch_names [of os a] by (simp add: stage_after_def list_all_length)
  then show thesis
    using run ok bad e \<open>acts \<noteq> []\<close> by (intro that [of acts stops]) auto
qed

text \<open>
  C34. The failed stage of the summary is where the validation stopped.  When the script returns, it has run
  commands in the order of its plan, each one after those before it ended well (for the simulation of the
  top level, with the pass token in its log), and nothing after a failure but stopping the capture; the
  summary file names, as the failed stage, the stage of the last command run, with return code 1, or
  \<^verbatim>\<open>none\<close>, with return code 0.
\<close>

theorem validation_failed_stage:
  assumes "validation_main os shown a m = (Inr rc, m')"
  shows "\<exists>acts stops stage detail l ts. actions m' = actions m @ acts @ stops \<and> only_stops stops
    \<and> acts \<noteq> [] \<and> watched (validation_watches os a) acts
    \<and> files m' (validation_summary os)
        = Some (summary_text (validation_fields os a (nat (va_core_hz a)) stage detail l ts))
    \<and> (if rc = 0 then stage = ''none'' \<and> stops = [] \<and> watched_all (validation_watches os a) acts
       else rc = 1 \<and> stage = fst (validation_watches os a ! (length acts - 1)))"
proof -
  obtain r l mb where body: "validation_body os a (nat (va_core_hz a)) (validation_env os a (nat (va_core_hz a)))
      validation_start m = (r, l, mb)"
    and e: "\<And>e. r = Inl e \<Longrightarrow> is_exception e" and acts': "actions m' = actions mb"
    and fs: "files m' = (files mb)(validation_summary os \<mapsto> summary_text (validation_fields os a (nat (va_core_hz a))
       (case r of Inr u \<Rightarrow> ''none'' | Inl e \<Rightarrow> vl_current_stage l) (case r of Inr u \<Rightarrow> [] | Inl e \<Rightarrow> exc_text shown e) l
       (parse_timing_summary (files mb (TIMING_SUMMARY_AGGR os)))))"
    and rc: "rc = (if (case r of Inr u \<Rightarrow> ''none'' | Inl e \<Rightarrow> vl_current_stage l) = ''none'' then 0 else 1)"
    using main_cases [OF assms] by metis
  obtain acts stops where run: "actions mb = actions m @ acts @ stops" "only_stops stops"
    "watched (validation_watches os a) acts" "acts \<noteq> []"
    "\<And>x. r = Inr x \<Longrightarrow> stops = [] \<and> watched_all (validation_watches os a) acts"
    "\<And>e. r = Inl e \<Longrightarrow> vl_current_stage l = fst (validation_watches os a ! (length acts - 1)) \<and> vl_current_stage l \<noteq> ''none''"
    using body_outcome [OF body e] by metis
  show ?thesis
  proof (cases r)
    case (Inl e0)
    then show ?thesis
      using run acts' rc fs by fastforce
  next
    case (Inr u)
    then show ?thesis
      using run acts' rc fs by fastforce
  qed
qed

lemma summary_other:
  "validation_summary os \<noteq> MAINLINE_CAPTURE_FILE os"
  by (simp add: validation_summary_def MAINLINE_CAPTURE_FILE_def validation_log_def validation_dir_def build_file_def in_dir_def)


text \<open>A machine on which everything succeeds, and one on which the first tests fail.\<close>

definition good_report :: string where
  "good_report = newline @ ''  0.5  0.0  0  9  0.1  0.0'' @ newline @ ''All user specified timing constraints are met.''"

definition good_board :: machine where
  "good_board = \<lparr>files = [''/r/build/ax7203/reports/timing_summary_aggressive.rpt'' \<mapsto> good_report,
     ''/r/build/uart_test_rs16.txt'' \<mapsto> ''CAL=1 DDR3 PASS''], actions = []\<rparr>"

definition demo_validation :: validation_args where
  "demo_validation = \<lparr>va_port = ''COM5'', va_rs_depth = 48, va_fetch_buffer_depth = 16, va_core_hz = 25000000,
     va_capture_seconds = 10\<rparr>"

definition calm_os :: os where
  "calm_os = demo_os\<lparr>run_cmd := \<lambda>acts c fs. (Exited 0 MAINLINE_EXPECT_TOKEN, fs)\<rparr>"

definition failing_os :: os where
  "failing_os = demo_os\<lparr>run_cmd := \<lambda>acts c fs. (Exited 1 [], fs)\<rparr>"

text \<open>On it a block succeeds as long as the report and the capture stay.\<close>

definition intact :: "machine \<Rightarrow> bool" where
  "intact m \<longleftrightarrow> files m (TIMING_SUMMARY_AGGR calm_os) = Some good_report
     \<and> files m (MAINLINE_CAPTURE_FILE calm_os) = Some ''CAL=1 DDR3 PASS''"

definition calm_flow :: "'a flow \<Rightarrow> bool" where
  "calm_flow f \<longleftrightarrow> (\<forall>m. intact m \<longrightarrow> (\<exists>x m'. f m = (Inr x, m') \<and> intact m'))"

definition calm :: "('l, 'a) block \<Rightarrow> bool" where
  "calm b \<longleftrightarrow> (\<forall>l m. intact m \<longrightarrow> (\<exists>x l' m'. b l m = (Inr x, l', m') \<and> intact m'))"

lemma calm_then: "calm f \<Longrightarrow> (\<And>x. calm (g x)) \<Longrightarrow> calm (then_do f g)"
  unfolding calm_def then_do_Inr by blast

lemma calm_and_then: "calm_flow f \<Longrightarrow> (\<And>x. calm_flow (g x)) \<Longrightarrow> calm_flow (and_then f g)"
  unfolding calm_flow_def and_then_Inr by blast

lemma calm_assign: "calm (assign u)"
  by (simp add: calm_def assign_def)

lemma calm_perform: "calm_flow f \<Longrightarrow> calm (perform f)"
  by (simp add: calm_def calm_flow_def perform_Inr)

lemma calm_at: "calm_flow f \<Longrightarrow> calm (at_stage s f)"
  unfolding at_stage_def by (intro calm_then calm_assign calm_perform)

lemma intact_log:
  "intact m \<Longrightarrow> intact \<lparr>files = (files m)(validation_log calm_os name \<mapsto> t), actions = acts\<rparr>"
  by (simp add: intact_def TIMING_SUMMARY_AGGR_def MAINLINE_CAPTURE_FILE_def validation_log_def validation_dir_def
      build_file_def in_dir_def)

lemma calm_token: "contains_text MAINLINE_EXPECT_TOKEN (log_of c (Exited 0 MAINLINE_EXPECT_TOKEN))"
  unfolding log_of_def output_of.simps by (rule contains_text_append) code_simp

lemma calm_run_eq: "run_logged exc calm_os c m
    = (Inr (), \<lparr>files = (files m)(cmd_log c \<mapsto> log_of c (Exited 0 MAINLINE_EXPECT_TOKEN)),
        actions = actions m @ [Ran c (Exited 0 MAINLINE_EXPECT_TOKEN)]\<rparr>)"
proof -
  have "run_cmd calm_os (actions m) c ((files m)(cmd_log c \<mapsto> log_header c))
      = (Exited 0 MAINLINE_EXPECT_TOKEN, (files m)(cmd_log c \<mapsto> log_header c))"
    by (simp add: calm_os_def)
  from run_logged_ok [OF this, of exc] show ?thesis by simp
qed

lemma calm_run: "cmd_log c = validation_log calm_os name \<Longrightarrow> calm_flow (run_logged exc calm_os c)"
  by (simp add: calm_flow_def calm_run_eq intact_log)

lemma calm_run_checked:
  assumes "cmd_log c = validation_log calm_os name"
  shows "calm_flow (and_then (run_logged exc calm_os c) (\<lambda>_. and_then (read_text (cmd_log c)) (\<lambda>t.
    and_then (require (contains_text MAINLINE_EXPECT_TOKEN t) e) (\<lambda>_. give x))))"
  using assms by (simp add: calm_flow_def and_then_def calm_run_eq read_text_def require_def calm_token give_def intact_log)

lemma calm_which: "calm_flow (which_required calm_os (name # names))"
  by (simp add: calm_flow_def which_required_def calm_os_def demo_os_def map_filter_def give_def)

lemma calm_simple: "calm_flow (look_file p)" "calm_flow (give x)"
  by (simp_all add: calm_flow_def look_file_def give_def)

lemma calm_program:
  assumes "cmd_log c = validation_log calm_os name"
  shows "calm_flow (on_exception (run_logged exc calm_os c) g)"
  using assms by (simp add: calm_flow_def on_exception_def calm_run_eq intact_log)

lemma calm_background: "spawn_cmd calm_os acts c fs = (True, fs)" "wait_cmd calm_os acts t fs = (Some 0, fs)"
  by (simp_all add: calm_os_def demo_os_def)

lemma calm_spawn: "cmd_log c = validation_log calm_os name \<Longrightarrow> calm_flow (spawn calm_os c)"
  by (simp add: calm_flow_def spawn_def calm_background intact_log)

lemma calm_ends: "calm_flow (capture_ends calm_os a)"
  by (simp add: calm_flow_def capture_ends_def and_then_def wait_process_def require_def give_def calm_background)
    (simp add: intact_def)

lemma good_report_ok: "timing_ok (Some good_report)"
  by code_simp

lemma calm_timing: "calm_flow (timing_gate calm_os)"
  by (simp add: calm_flow_def timing_gate_Inr intact_def good_report_ok)

lemma calm_uart: "calm (then_do (perform (look_file (MAINLINE_CAPTURE_FILE calm_os))) (\<lambda>cap.
    then_do (assign (\<lambda>l. l\<lparr>vl_uart := analyze_uart_capture cap\<rparr>)) (\<lambda>_.
    perform (uart_gate calm_os (analyze_uart_capture cap)))))"
proof -
  have "ua_saw_cal (analyze_uart_capture (Some ''CAL=1 DDR3 PASS''))" "ua_saw_ddr3_pass (analyze_uart_capture (Some ''CAL=1 DDR3 PASS''))"
    by code_simp+
  then show ?thesis
    by (simp add: calm_def block_Inr flow_Inr uart_gate_def intact_def)
qed

lemmas calm_logs = basic_tests_command_def mainline_rom_command_def mainline_compile_def mainline_run_def
  validation_vivado_def prearm_command_def

lemma calm_body: "calm (validation_body calm_os a hz env)"
proof -
  have "calm (validation_build calm_os a hz env)"
    unfolding validation_build_def mainline_sim_def
    by (intro calm_then calm_at calm_perform calm_timing calm_which calm_simple calm_and_then calm_run_checked calm_run)
      (simp_all add: calm_logs)
  moreover have "calm (validation_board calm_os a env vivado)" for vivado
    unfolding validation_board_def
    by (intro calm_then calm_at calm_perform calm_which calm_simple calm_assign calm_ends calm_spawn calm_program calm_uart)
      (simp_all add: calm_logs)
  ultimately show ?thesis
    unfolding validation_body_def by (intro calm_then)
qed

lemma calm_main: "\<exists>m'. validation_main calm_os shown demo_validation good_board = (Inr 0, m')"
proof -
  let ?env = "validation_env calm_os demo_validation 25000000"
  have "calm_os = demo_os\<lparr>run_cmd := run_cmd calm_os\<rparr>" by (simp add: calm_os_def)
  have "repo_root calm_os = ''/r''" by (simp add: calm_os_def demo_os_def)
  then have "intact good_board"
    by (simp add: intact_def good_board_def TIMING_SUMMARY_AGGR_def MAINLINE_CAPTURE_FILE_def build_file_def in_dir_def)
  then obtain l m1 where "validation_body calm_os demo_validation 25000000 ?env validation_start good_board = (Inr (), l, m1)"
    using calm_body unfolding calm_def by (metis (full_types) old.unit.exhaust)
  then show ?thesis
    by (simp add: validation_main_def flow_Inr try_except_def positive_clock_def demo_validation_def Let_def)
qed


text \<open>When the first tests fail, the summary says so.\<close>

lemma validation_failed_stage_witness:
  "\<exists>m' acts stage. validation_main failing_os (\<lambda>e. []) demo_validation demo_start = (Inr 1, m')
    \<and> actions m' = acts \<and> length acts = 1 \<and> stage = ''basic''
    \<and> (\<exists>detail l ts. files m' (validation_summary failing_os)
        = Some (summary_text (validation_fields failing_os demo_validation 25000000 stage detail l ts)))"
proof -
  have "run_logged exc failing_os c m = (Inl (exc 1 c), \<lparr>files = (files m)(cmd_log c \<mapsto> log_of c (Exited 1 [])),
      actions = actions m @ [Ran c (Exited 1 [])]\<rparr>)" for exc c m
    by (simp add: run_logged_def run_logged_rc_def failing_os_def and_then_def require_def raise_exc_def)
  then obtain m' where run: "validation_main failing_os (\<lambda>e. []) demo_validation demo_start = (Inr 1, m')"
    and one: "length (actions m') = 1"
    by (simp add: validation_main_def and_then_def try_except_def positive_clock_def demo_validation_def give_def
        validation_body_def validation_build_def at_stage_def then_do_def assign_def perform_def runtime_exc_def
        look_file_def write_file_def set_stage_def demo_start_def Let_def)
  obtain acts stops stage detail l ts where *: "actions m' = actions demo_start @ acts @ stops" "acts \<noteq> []"
    "files m' (validation_summary failing_os)
        = Some (summary_text (validation_fields failing_os demo_validation (nat (va_core_hz demo_validation)) stage detail l ts))"
    "stage = fst (validation_watches failing_os demo_validation ! (length acts - 1))"
    using validation_failed_stage [OF run] by auto
  have acts: "actions m' = acts" "length acts = 1"
    using *(1,2) one by (cases acts; simp add: demo_start_def)+
  moreover have "stage = ''basic''"
    unfolding *(4) acts(2) by (simp add: validation_watches_def build_watches_def stage_watch_def Let_def)
  ultimately show ?thesis
    using run *(3) by (auto simp: demo_validation_def)
qed

end
