(* ===== verification/Images.thy ===== *)
theory Images
  imports Feedback Json MemWords
begin

text \<open>
  The scripts that build what is loaded: \<^verbatim>\<open>build_rom_image.py\<close> (the boot memory of an assembly source) and
  \<^verbatim>\<open>build_benchmark_image.py\<close> (a benchmark for block memory or for DDR3, with a JSON manifest), and the
  functions of \<^verbatim>\<open>run_fpga_benchmark_ddr3.py\<close> that have payloads built, read their manifests and copy what
  the manifests name.

  The programs started here leave no log: their output is what the script reads, of a failed command the
  error text.  What the scripts print is not modelled.
\<close>

section \<open>Running tools\<close>

definition tool_command :: "string list \<Rightarrow> string \<Rightarrow> command" where
  "tool_command args cwd = \<lparr>cmd_args = args, cmd_cwd = Some cwd, cmd_env = None, cmd_log = [], cmd_timeout = None\<rparr>"

definition run_captured :: "os \<Rightarrow> command \<Rightarrow> (int \<times> string) flow" where
  "run_captured os c m =
     (case run_cmd os (actions m) c (files m) of (r, fs) \<Rightarrow>
        (case r of Exited rc out \<Rightarrow> Inr (rc, out) | Expired out \<Rightarrow> Inl TimeoutExpired | Unstarted \<Rightarrow> Inl OSError,
         \<lparr>files = fs, actions = actions m @ [Ran c r]\<rparr>))"

definition run_checked :: "os \<Rightarrow> command \<Rightarrow> string flow" where
  "run_checked os c = and_then (run_captured os c) (\<lambda>(rc, out).
     and_then (require (rc = 0) (ExitCode rc)) (\<lambda>_. give out))"

definition copy_file :: "string \<Rightarrow> string \<Rightarrow> unit flow" where
  "copy_file src dst = and_then (read_text src) (write_file dst)"

text \<open>\<^verbatim>\<open>Path.name\<close>, \<^verbatim>\<open>Path.stem\<close> and \<^verbatim>\<open>Path.suffix\<close>: a dot at either end of a name starts no suffix.\<close>

definition path_name :: "string \<Rightarrow> string" where
  "path_name p = rev (takeWhile (\<lambda>c. c \<noteq> CHR ''/'') (rev p))"

definition path_suffix :: "string \<Rightarrow> string" where
  "path_suffix p = (let n = path_name p; tail = rev (takeWhile (\<lambda>c. c \<noteq> CHR ''.'') (rev n)) in
     if tail = [] \<or> length n \<le> length tail + 1 then [] else CHR ''.'' # tail)"

definition path_stem :: "string \<Rightarrow> string" where
  "path_stem p = (let n = path_name p in take (length n - length (path_suffix p)) n)"

definition absolute :: "string \<Rightarrow> bool" where
  "absolute p \<longleftrightarrow> p \<noteq> [] \<and> hd p = CHR ''/''"

section \<open>The boot memory\<close>

record rom_args =
  ra_asm :: string
  ra_march :: "string option"
  ra_merge :: bool
  ra_defines :: "string list"

definition infer_march :: "string \<Rightarrow> string" where
  "infer_march asm = (if list_ex (\<lambda>token. contains_text token (py_lower (path_name asm)))
       [''csr'', ''interrupt'', ''clint'', ''plic''] then ''rv32i_zicsr'' else ''rv32i'')"

text \<open>The source as a path from the root; paths with \<^verbatim>\<open>..\<close> are taken as they are.\<close>

definition asm_path :: "os \<Rightarrow> rom_args \<Rightarrow> string" where
  "asm_path os a = (if absolute (ra_asm a) then ra_asm a else in_dir (repo_root os) (ra_asm a))"

definition inst_hex :: "os \<Rightarrow> string" where
  "inst_hex os = rom_file os ''inst.hex''"

definition data_hex :: "os \<Rightarrow> string" where
  "data_hex os = rom_file os ''data.hex''"

definition rom_dir :: "os \<Rightarrow> string" where
  "rom_dir os = in_dir (repo_root os) ''rom''"

definition rom_elf :: "os \<Rightarrow> rom_args \<Rightarrow> string" where
  "rom_elf os a = rom_file os (path_stem (asm_path os a) @ ''.elf'')"

definition rom_march :: "os \<Rightarrow> rom_args \<Rightarrow> string" where
  "rom_march os a = (case ra_march a of Some m \<Rightarrow> if m = [] then infer_march (asm_path os a) else m
     | None \<Rightarrow> infer_march (asm_path os a))"

definition rom_gcc :: "os \<Rightarrow> rom_args \<Rightarrow> string \<Rightarrow> command" where
  "rom_gcc os a gcc = tool_command
     ([gcc, ''-nostdlib'', ''-nostartfiles'', ''-Wl,--build-id=none'', ''-Wl,-T,harvard_link.ld'',
       ''-march='' @ rom_march os a, ''-mabi=ilp32'']
      @ (if ra_defines a \<noteq> [] then [''-x'', ''assembler-with-cpp''] @ map ((@) ''-D'') (ra_defines a) else [])
      @ [asm_path os a, ''-o'', rom_elf os a]) (rom_dir os)"

definition rom_objcopy :: "os \<Rightarrow> rom_args \<Rightarrow> string \<Rightarrow> string \<Rightarrow> string \<Rightarrow> command" where
  "rom_objcopy os a objcopy section out = tool_command
     [objcopy, ''-j'', section, ''-O'', ''verilog'', rom_elf os a, out] (rom_dir os)"

definition merge_script :: "os \<Rightarrow> string" where
  "merge_script os = in_dir (repo_root os) ''fpga/scripts/merge_hex_for_mem_subsys.py''"

definition rom_merge :: "os \<Rightarrow> command" where
  "rom_merge os = tool_command
     [sys_executable os, merge_script os, ''--inst'', inst_hex os, ''--data'', data_hex os,
      ''--output'', rom_file os ''mem_subsys_ram.hex''] (repo_root os)"

definition empty_image :: string where
  "empty_image = render_lines [''// empty data image'', ''00000000'']"

definition two_tools :: "os \<Rightarrow> (string \<times> string) flow" where
  "two_tools os = (case (find_exe os ''riscv-none-elf-gcc'', find_exe os ''riscv-none-elf-objcopy'') of
       (Some gcc, Some objcopy) \<Rightarrow> give (gcc, objcopy)
     | _ \<Rightarrow> raise_exc (SystemExit ''Missing riscv-none-elf-gcc or riscv-none-elf-objcopy in PATH''))"

definition rom_images :: "os \<Rightarrow> rom_args \<Rightarrow> string \<Rightarrow> string \<Rightarrow> unit flow" where
  "rom_images os a gcc objcopy =
     and_then (remove_file (inst_hex os)) (\<lambda>_.
     and_then (remove_file (data_hex os)) (\<lambda>_.
     and_then (run_checked os (rom_gcc os a gcc)) (\<lambda>_.
     and_then (run_checked os (rom_objcopy os a objcopy ''.text'' (inst_hex os))) (\<lambda>_.
     and_then (run_checked os (rom_objcopy os a objcopy ''.data'' (data_hex os))) (\<lambda>_.
     and_then (look_file (data_hex os)) (\<lambda>d.
     case d of None \<Rightarrow> write_file (data_hex os) empty_image | Some t \<Rightarrow> give ()))))))"

definition rom_merged :: "os \<Rightarrow> rom_args \<Rightarrow> unit flow" where
  "rom_merged os a =
     (if ra_merge a then
       and_then (look_file (merge_script os)) (\<lambda>script.
       and_then (require (script \<noteq> None) (SystemExit (''Missing mem_subsys merge script: '' @ merge_script os))) (\<lambda>_.
       and_then (run_checked os (rom_merge os)) (\<lambda>_. give ())))
      else give ())"

definition rom_main :: "os \<Rightarrow> rom_args \<Rightarrow> unit flow" where
  "rom_main os a =
     and_then (look_file (asm_path os a)) (\<lambda>src.
     and_then (require (src \<noteq> None) (SystemExit (''ROM source not found: '' @ asm_path os a))) (\<lambda>_.
     and_then (two_tools os) (\<lambda>(gcc, objcopy).
     and_then (rom_images os a gcc objcopy) (\<lambda>_. rom_merged os a))))"

text \<open>
  C36. The boot memory does not depend on what an earlier build left: a build that succeeds does the same, and
  leaves the same files, whatever \<^verbatim>\<open>inst.hex\<close> and \<^verbatim>\<open>data.hex\<close> held before, or whether they were there.
\<close>

theorem rom_image_fresh:
  assumes "rom_main os a m = (Inr (), m')" and "asm_path os a \<notin> {inst_hex os, data_hex os}"
  shows "rom_main os a (m\<lparr>files := (files m)(inst_hex os := i, data_hex os := d)\<rparr>) = (Inr (), m')"
proof -
  have same: "rom_images os a gcc objcopy (m\<lparr>files := (files m)(inst_hex os := i, data_hex os := d)\<rparr>)
      = rom_images os a gcc objcopy m" for gcc objcopy
    by (simp add: rom_images_def and_then_def remove_file_def fun_upd_twist)
  have ne: "inst_hex os \<noteq> data_hex os"
    by (simp add: inst_hex_def data_hex_def rom_file_def in_dir_def)
  obtain gcc objcopy where tools: "two_tools os = give (gcc, objcopy)"
    using assms(1) by (auto simp: rom_main_def flow_Inr two_tools_def raise_exc_def split: option.splits)
  have "rom_main os a m' = (case files m' (asm_path os a) of
      None \<Rightarrow> raise_exc (SystemExit (''ROM source not found: '' @ asm_path os a)) m'
    | Some t \<Rightarrow> and_then (rom_images os a gcc objcopy) (\<lambda>_. rom_merged os a) m')" for m'
    by (simp add: rom_main_def tools and_then_def look_file_def require_def give_def raise_exc_def split: option.split)
  then show ?thesis
    using assms ne by (auto simp: and_then_def same raise_exc_def split: option.splits)
qed

section \<open>Benchmarks\<close>

record bench_args =
  ba_benchmark :: string
  ba_cpu_hz :: int
  ba_dhrystone_runs :: int
  ba_fixed_runs :: "int option"
  ba_iterations :: int
  ba_total_data_size :: int
  ba_startup_delay_ms :: int
  ba_verilator_mainline :: bool
  ba_ddr3_xip :: bool
  ba_emit_bin :: bool
  ba_manifest :: bool

definition which_one :: "os \<Rightarrow> string \<Rightarrow> string flow" where
  "which_one os name = (case find_exe os name of
       Some exe \<Rightarrow> give exe | None \<Rightarrow> raise_exc (SystemExit (''Missing required executable: '' @ name)))"

definition bench_file :: "os \<Rightarrow> string \<Rightarrow> string" where
  "bench_file os name = in_dir (in_dir (repo_root os) ''benchmarks'') name"

definition build_common_flags :: "int \<Rightarrow> string list" where
  "build_common_flags cpu_hz =
     [''-march=rv32im_zicsr'', ''-mabi=ilp32'', ''-msave-restore'', ''-msmall-data-limit=0'', ''-ffunction-sections'',
      ''-fdata-sections'', ''-fno-common'', ''-fno-builtin'', ''-DAX7203_CPU_HZ='' @ str_int cpu_hz]"

definition board_runtime :: "os \<Rightarrow> string" where
  "board_runtime os = bench_file os ''common_ax7203/ax7203_board_runtime.c''"

definition build_dhrystone_sources :: "os \<Rightarrow> int \<Rightarrow> int \<Rightarrow> string list \<times> string list" where
  "build_dhrystone_sources os cpu_hz runs =
     ([bench_file os ''common_ax7203/ax7203_bare_crt0.S'', board_runtime os,
       bench_file os ''dhrystone/dhrystone.c'', bench_file os ''dhrystone/dhrystone_main.c''],
      build_common_flags cpu_hz @
      [''-O2'', ''-std=gnu89'', ''-Wno-return-type'', ''-DAX7203_DHRYSTONE_RUNS='' @ str_int runs,
       ''-I'', bench_file os ''common_ax7203'', ''-I'', bench_file os ''dhrystone'',
       ''-I'', in_dir (repo_root os) ''verification/riscv-tests/benchmarks/dhrystone''])"

text \<open>The CoreMark sources lie in a directory that is filled from the network; which one it is is a parameter.\<close>

definition COREMARK_FILES :: "string list" where
  "COREMARK_FILES = [''core_main.c'', ''core_list_join.c'', ''core_matrix.c'', ''core_state.c'', ''core_util.c'', ''coremark.h'']"

definition build_coremark_sources :: "os \<Rightarrow> string \<Rightarrow> int \<Rightarrow> int \<Rightarrow> int \<Rightarrow> string list \<times> string list" where
  "build_coremark_sources os cache_dir cpu_hz iterations total_data_size =
     ([bench_file os ''common_ax7203/ax7203_bare_crt0.S'', board_runtime os, bench_file os ''coremark/core_portme.c'']
      @ map (in_dir cache_dir) (filter (\<lambda>n. path_suffix n = ''.c'') COREMARK_FILES),
      build_common_flags cpu_hz @
      [''-Os'', ''-std=gnu99'', ''-DITERATIONS='' @ str_int iterations, ''-DTOTAL_DATA_SIZE='' @ str_int total_data_size,
       ''-DMEM_METHOD=MEM_STATIC'', ''-DMULTITHREAD=1'', ''-DMAIN_HAS_NOARGC=1'', ''-DHAS_FLOAT=0'', ''-DHAS_TIME_H=0'',
       ''-DUSE_CLOCK=0'', ''-I'', bench_file os ''common_ax7203'', ''-I'', bench_file os ''coremark'', ''-I'', cache_dir])"

text \<open>The sizes \<^verbatim>\<open>size\<close> reports; \<^term>\<open>None\<close> is the \<^verbatim>\<open>ValueError\<close> of a field that is no number.\<close>

definition parse_size_report :: "string \<Rightarrow> (int \<times> int \<times> int) option" where
  "parse_size_report out =
     (let lines = filter (\<lambda>l. l \<noteq> []) (map py_strip (splitlines out)) in
      if length lines < 2 then Some (0, 0, 0)
      else let fs = py_split (last lines) in
        if length fs < 3 then Some (0, 0, 0)
        else (case (py_int10 (fs ! 0), py_int10 (fs ! 1), py_int10 (fs ! 2)) of
            (Some t, Some d, Some b) \<Rightarrow> Some (t, d, b)
          | _ \<Rightarrow> None))"

text \<open>The address of a symbol in the output of \<^verbatim>\<open>nm\<close>, as a text.\<close>

definition symbol_field :: "string \<Rightarrow> string \<Rightarrow> string option" where
  "symbol_field symbol out =
     (case filter (\<lambda>fs. 3 \<le> length fs \<and> fs ! 2 = symbol) (map py_split (splitlines out)) of
        [] \<Rightarrow> None | fs # _ \<Rightarrow> Some (fs ! 0))"

definition parse_symbol_addr :: "os \<Rightarrow> string \<Rightarrow> string \<Rightarrow> int flow" where
  "parse_symbol_addr os elf symbol =
     and_then (which_one os ''riscv-none-elf-nm'') (\<lambda>nm.
     and_then (run_checked os (tool_command [nm, elf] (repo_root os))) (\<lambda>out.
     case symbol_field symbol out of
       None \<Rightarrow> raise_exc (SystemExit (''Symbol not found in '' @ elf @ '': '' @ symbol))
     | Some t \<Rightarrow> (case py_int16 t of None \<Rightarrow> raise_exc ValueError | Some addr \<Rightarrow> give addr)))"

definition bench_dir :: "os \<Rightarrow> string \<Rightarrow> string" where
  "bench_dir os benchmark = build_file os (''benchmark_images/'' @ benchmark)"

definition bench_out :: "os \<Rightarrow> bench_args \<Rightarrow> string \<Rightarrow> string" where
  "bench_out os a ext =
     in_dir (bench_dir os (ba_benchmark a)) (ba_benchmark a @ (if ba_ddr3_xip a then ''_ddr3'' else ''_bram'') @ ext)"

definition bench_flags :: "bench_args \<Rightarrow> string list \<Rightarrow> string list" where
  "bench_flags a cflags = cflags @ [''-DAX7203_BENCH_STARTUP_DELAY_MS='' @ str_int (ba_startup_delay_ms a)]
     @ (case ba_fixed_runs a of None \<Rightarrow> [] | Some n \<Rightarrow> [''-DAX7203_FIXED_DHRYSTONE_RUNS='' @ str_int n])
     @ (if ba_verilator_mainline a then [''-DVERILATOR_MAINLINE=1''] else [])
     @ (if ba_ddr3_xip a then [''-DAX7203_CLEAR_BSS=1''] else [])"

definition runtime_obj :: "os \<Rightarrow> bench_args \<Rightarrow> string" where
  "runtime_obj os a = in_dir (bench_dir os (ba_benchmark a)) ''ax7203_board_runtime.o''"

definition compile_runtime :: "os \<Rightarrow> bench_args \<Rightarrow> string \<Rightarrow> string list \<Rightarrow> command" where
  "compile_runtime os a gcc cflags = tool_command
     ([gcc] @ filter (\<lambda>f. take 2 f \<noteq> ''-O'') cflags @ [''-O1'', ''-c'', board_runtime os, ''-o'', runtime_obj os a])
     (rom_dir os)"

definition link_bench :: "os \<Rightarrow> bench_args \<Rightarrow> string \<Rightarrow> string list \<Rightarrow> string list \<Rightarrow> command" where
  "link_bench os a gcc sources cflags = tool_command
     ([gcc] @ cflags @ [''-nostartfiles'', ''-nostdlib'', ''-Wl,--build-id=none'', ''-Wl,--gc-sections'',
        ''-Wl,-T,'' @ bench_file os (if ba_ddr3_xip a then ''common_ax7203/ax7203_ddr3_xip.ld''
           else ''common_ax7203/ax7203_harvard_bench.ld'')]
      @ filter (\<lambda>s. s \<noteq> board_runtime os) sources
      @ [runtime_obj os a, ''-lgcc'', ''-o'', bench_out os a ''.elf'']) (rom_dir os)"

definition bench_manifest :: "os \<Rightarrow> bench_args \<Rightarrow> bytes \<Rightarrow> int \<Rightarrow> int \<times> int \<times> int \<Rightarrow> json" where
  "bench_manifest os a payload entry sizes = (case sizes of (text_size, data_size, bss_size) \<Rightarrow> JObj
     [(''benchmark'', JStr (ba_benchmark a)), (''format'', JStr ''ax7203-ddr3-uart-loader-v1''),
      (''elf'', JStr (bench_out os a ''.elf'')), (''bin'', JStr (bench_out os a ''.bin'')),
      (''load_addr'', JInt 0x80000000), (''entry'', JInt entry), (''size_bytes'', JInt (int (length payload))),
      (''checksum32'', JInt (int (checksum32 payload))), (''cpu_hz'', JInt (ba_cpu_hz a)),
      (''text_size'', JInt text_size), (''data_size'', JInt data_size), (''bss_size'', JInt bss_size)])"

text \<open>
  The data image of a build for block memory: the sections are extracted one after the other, into files
  of their own, and the image is written from what was read back (\<^verbatim>\<open>HexImage\<close>).
\<close>

definition scratch_bin :: "os \<Rightarrow> bench_args \<Rightarrow> string \<Rightarrow> string" where
  "scratch_bin os a section = in_dir (bench_dir os (ba_benchmark a)) (dropWhile (\<lambda>c. c = CHR ''.'') section @ ''.bin'')"

definition extract_section :: "os \<Rightarrow> bench_args \<Rightarrow> string \<Rightarrow> string \<Rightarrow> bytes flow" where
  "extract_section os a objcopy section =
     and_then (run_checked os (tool_command [objcopy, ''-O'', ''binary'', ''-j'', section, bench_out os a ''.elf'',
       scratch_bin os a section] (repo_root os))) (\<lambda>_.
     and_then (read_text (scratch_bin os a section)) (\<lambda>t. give (latin1_encode t)))"

fun extract_sections ::
  "os \<Rightarrow> bench_args \<Rightarrow> string \<Rightarrow> (string \<times> int \<times> int) list \<Rightarrow> string list \<Rightarrow> (string \<times> bytes) list flow" where
  "extract_sections os a objcopy sections [] = give []"
| "extract_sections os a objcopy sections (name # names) =
     (case map_of sections name of
        Some (vma, sz) \<Rightarrow> if sz = 0 then extract_sections os a objcopy sections names
          else and_then (extract_section os a objcopy name) (\<lambda>d.
               and_then (extract_sections os a objcopy sections names) (\<lambda>ds. give ((name, d) # ds)))
      | None \<Rightarrow> extract_sections os a objcopy sections names)"

definition extracted :: "(string \<times> bytes) list \<Rightarrow> string \<Rightarrow> bytes" where
  "extracted ds name = (case map_of ds name of None \<Rightarrow> [] | Some d \<Rightarrow> d)"

definition write_data_image :: "os \<Rightarrow> bench_args \<Rightarrow> string \<Rightarrow> string list \<Rightarrow> unit flow" where
  "write_data_image os a objcopy names =
     and_then (which_one os ''riscv-none-elf-objdump'') (\<lambda>objdump.
     and_then (run_checked os (tool_command [objdump, ''-h'', bench_out os a ''.elf''] (repo_root os))) (\<lambda>out.
     case parse_section_vmas out of
       None \<Rightarrow> raise_exc ValueError
     | Some sections \<Rightarrow>
         and_then (extract_sections os a objcopy sections names) (\<lambda>ds.
         case write_verilog_byte_image out (extracted ds) names of
           None \<Rightarrow> raise_exc ValueError
         | Some contents \<Rightarrow> write_file (data_hex os) contents)))"

definition bench_manifest_file :: "os \<Rightarrow> bench_args \<Rightarrow> string" where
  "bench_manifest_file os a = bench_out os a ''.json''"

text \<open>What follows the link: an image for DDR3, with its manifest, or one for the block memories.\<close>

definition xip_outputs :: "os \<Rightarrow> bench_args \<Rightarrow> string \<Rightarrow> int \<Rightarrow> int \<times> int \<times> int \<Rightarrow> unit flow" where
  "xip_outputs os a objcopy entry sizes =
     and_then (if ba_emit_bin a \<or> ba_manifest a then
         run_checked os (tool_command [objcopy, ''-O'', ''binary'', bench_out os a ''.elf'', bench_out os a ''.bin''] (repo_root os))
       else give []) (\<lambda>_.
     if ba_manifest a then
       and_then (read_text (bench_out os a ''.bin'')) (\<lambda>t.
       write_file (bench_manifest_file os a)
         (json_dumps True (bench_manifest os a (latin1_encode t) entry sizes) @ newline))
     else give ())"

definition bram_outputs :: "os \<Rightarrow> bench_args \<Rightarrow> string \<Rightarrow> int \<times> int \<times> int \<Rightarrow> unit flow" where
  "bram_outputs os a objcopy sizes = (case sizes of (text_size, data_size, bss_size) \<Rightarrow>
     and_then (require (text_size \<le> 16 * 1024) (SystemExit (ba_benchmark a
       @ '' text image is too large for the 16KB instruction backing store: '' @ str_int text_size @ '' bytes''))) (\<lambda>_.
     and_then (require (data_size + bss_size \<le> 11 * 1024) (SystemExit (ba_benchmark a
       @ '' data+bss footprint is too large for the 16KB data RAM budget: '' @ str_int (data_size + bss_size) @ '' bytes''))) (\<lambda>_.
     and_then (run_checked os (tool_command [objcopy, ''-j'', ''.text'', ''-O'', ''verilog'', bench_out os a ''.elf'', inst_hex os]
       (rom_dir os))) (\<lambda>_.
     write_data_image os a objcopy [''.rodata'', ''.data'']))))"

text \<open>\<^verbatim>\<open>coremark\<close> fetches the CoreMark sources and gives their directory.\<close>

definition bench_sources :: "os \<Rightarrow> string flow \<Rightarrow> bench_args \<Rightarrow> (string list \<times> string list) flow" where
  "bench_sources os coremark a =
     (if ba_benchmark a = ''dhrystone'' then
        and_then (case ba_fixed_runs a of None \<Rightarrow> give ()
          | Some n \<Rightarrow> require (0 < n) (SystemExit (''fixed dhrystone runs must be positive, got '' @ str_int n))) (\<lambda>_.
        give (build_dhrystone_sources os (ba_cpu_hz a) (ba_dhrystone_runs a)))
      else and_then coremark (\<lambda>dir.
        give (build_coremark_sources os dir (ba_cpu_hz a) (ba_iterations a) (ba_total_data_size a))))"

definition bench_link :: "os \<Rightarrow> bench_args \<Rightarrow> string \<Rightarrow> string \<Rightarrow> string list \<Rightarrow> string list \<Rightarrow> (int \<times> int \<times> int) flow" where
  "bench_link os a gcc sz sources flags =
     and_then (remove_file (inst_hex os)) (\<lambda>_.
     and_then (remove_file (data_hex os)) (\<lambda>_.
     and_then (run_checked os (compile_runtime os a gcc flags)) (\<lambda>_.
     and_then (run_checked os (link_bench os a gcc sources flags)) (\<lambda>_.
     and_then (run_checked os (tool_command [sz, bench_out os a ''.elf''] (rom_dir os))) (\<lambda>out.
     case parse_size_report out of None \<Rightarrow> raise_exc ValueError | Some sizes \<Rightarrow> give sizes)))))"

definition bench_main :: "os \<Rightarrow> string flow \<Rightarrow> bench_args \<Rightarrow> unit flow" where
  "bench_main os coremark a =
     and_then (which_one os ''riscv-none-elf-gcc'') (\<lambda>gcc.
     and_then (which_one os ''riscv-none-elf-objcopy'') (\<lambda>objcopy.
     and_then (which_one os ''riscv-none-elf-size'') (\<lambda>sz.
     and_then (bench_sources os coremark a) (\<lambda>(sources, cflags).
     and_then (require (0 \<le> ba_startup_delay_ms a)
       (SystemExit (''startup delay must be non-negative, got '' @ str_int (ba_startup_delay_ms a)))) (\<lambda>_.
     and_then (bench_link os a gcc sz sources (bench_flags a cflags)) (\<lambda>sizes.
     and_then (parse_symbol_addr os (bench_out os a ''.elf'') ''_start'') (\<lambda>entry.
     if ba_ddr3_xip a then xip_outputs os a objcopy entry sizes else bram_outputs os a objcopy sizes)))))))"

section \<open>Payloads of the loader flow\<close>

text \<open>
  A manifest is a dict; its items are read one by one, and a missing one is a \<^verbatim>\<open>KeyError\<close>.  A file that holds
  some other value fails at the first use of it, here at once and with a \<^verbatim>\<open>ValueError\<close>.
\<close>

type_synonym items = "(string \<times> json) list"

definition load_json :: "string \<Rightarrow> json flow" where
  "load_json path = and_then (read_text path) (\<lambda>t.
     case json_loads t of None \<Rightarrow> raise_exc ValueError | Some j \<Rightarrow> give j)"

text \<open>The truth value of a value; an item of a dict, of several with one key the last.\<close>

fun json_true :: "json \<Rightarrow> bool" where
  "json_true JNull = False"
| "json_true (JBool b) = b"
| "json_true (JInt i) = (i \<noteq> 0)"
| "json_true (JReal t) = True"
| "json_true (JStr s) = (s \<noteq> [])"
| "json_true (JList xs) = (xs \<noteq> [])"
| "json_true (JObj kvs) = (kvs \<noteq> [])"

definition get_item :: "string \<Rightarrow> items \<Rightarrow> json option" where
  "get_item key kvs = map_of (rev kvs) key"

text \<open>
  A copied manifest: the files it names are copied next to each other under a new stem and the copies take
  their place.  An item that is true but no text would be the path of no file.
\<close>

definition clone_item :: "string \<Rightarrow> string \<Rightarrow> string \<Rightarrow> items \<Rightarrow> items \<Rightarrow> items flow" where
  "clone_item out_dir stem key source kvs =
     (case get_item key source of
        None \<Rightarrow> give kvs
      | Some v \<Rightarrow>
          if \<not> json_true v then give kvs
          else (case v of
              JStr src \<Rightarrow>
                (let dst = in_dir out_dir (stem @ path_suffix src) in
                 and_then (copy_file src dst) (\<lambda>_. give (set_item key (JStr dst) kvs)))
            | _ \<Rightarrow> raise_exc OSError))"

definition clone_manifest_outputs :: "items \<Rightarrow> string \<Rightarrow> string \<Rightarrow> items flow" where
  "clone_manifest_outputs kvs out_dir stem =
     and_then (clone_item out_dir stem ''elf'' kvs kvs) (\<lambda>cloned.
     clone_item out_dir stem ''bin'' kvs cloned)"

definition dhrystone_manifest :: "os \<Rightarrow> string" where
  "dhrystone_manifest os = build_file os ''benchmark_images/dhrystone/dhrystone_ddr3.json''"

definition payload_command :: "os \<Rightarrow> string \<Rightarrow> int \<Rightarrow> int \<Rightarrow> string \<Rightarrow> int option \<Rightarrow> command" where
  "payload_command os logs cpu_hz runs stem fixed =
     \<lparr>cmd_args = [sys_executable os, in_dir (repo_root os) ''fpga/scripts/build_benchmark_image.py'',
        ''--benchmark'', ''dhrystone'', ''--cpu-hz'', str_int cpu_hz, ''--dhrystone-runs'', str_int runs,
        ''--ddr3-xip'', ''--emit-bin'', ''--manifest'']
        @ (case fixed of None \<Rightarrow> [] | Some n \<Rightarrow> [''--fixed-dhrystone-runs'', str_int n]),
      cmd_cwd = Some (repo_root os), cmd_env = None,
      cmd_log = in_dir logs (''06_build_'' @ stem @ ''_payload.log''), cmd_timeout = Some 600\<rparr>"

definition as_dict :: "json \<Rightarrow> items flow" where
  "as_dict j = (case j of JObj kvs \<Rightarrow> give kvs | _ \<Rightarrow> raise_exc ValueError)"

definition build_dhrystone_payload :: "os \<Rightarrow> string \<Rightarrow> int \<Rightarrow> int \<Rightarrow> string \<Rightarrow> int option \<Rightarrow> items flow" where
  "build_dhrystone_payload os logs cpu_hz runs stem fixed =
     and_then (run_logged runtime_exc os (payload_command os logs cpu_hz runs stem fixed)) (\<lambda>_.
     and_then (load_json (dhrystone_manifest os)) (\<lambda>j.
     and_then (as_dict j) (\<lambda>kvs.
     clone_manifest_outputs kvs (in_dir logs ''payload_manifests'') stem)))"

definition with_payload :: "items \<Rightarrow> string \<Rightarrow> bytes \<Rightarrow> items" where
  "with_payload kvs path payload =
     set_item ''checksum32'' (JInt (int (checksum32 payload)))
       (set_item ''size_bytes'' (JInt (int (length payload))) (set_item ''bin'' (JStr path) kvs))"

definition bin_path :: "items \<Rightarrow> string flow" where
  "bin_path kvs = (case get_item ''bin'' kvs of
       None \<Rightarrow> raise_exc KeyError | Some (JStr p) \<Rightarrow> give p | Some _ \<Rightarrow> raise_exc OSError)"

text \<open>The first block of a payload as a payload of its own; the number of bytes is the block of the loader.\<close>

definition build_early_audit_manifest :: "nat \<Rightarrow> string \<Rightarrow> items \<Rightarrow> string \<Rightarrow> items flow" where
  "build_early_audit_manifest block_bytes logs kvs stem =
     and_then (bin_path kvs) (\<lambda>p.
     and_then (read_text p) (\<lambda>t.
     let payload = take block_bytes (latin1_encode t);
         path = in_dir (in_dir logs ''payload_manifests'') (stem @ ''.bin'')
     in and_then (write_file path (latin1_decode payload)) (\<lambda>_. give (with_payload kvs path payload))))"

definition load_existing_early_audit_manifest :: "os \<Rightarrow> string \<Rightarrow> string \<Rightarrow> items flow" where
  "load_existing_early_audit_manifest os logs stem =
     (let path = in_dir (in_dir logs ''payload_manifests'') (stem @ ''.bin'') in
      and_then (look_file (dhrystone_manifest os)) (\<lambda>mt.
      and_then (require (mt \<noteq> None) (RuntimeError (''Existing benchmark manifest not found: '' @ dhrystone_manifest os
        @ ''. Run --loader-early-audit once first.''))) (\<lambda>_.
      and_then (look_file path) (\<lambda>bt.
      and_then (require (bt \<noteq> None) (RuntimeError (''Existing early-audit payload not found: '' @ path
        @ ''. Run --loader-early-audit once first.''))) (\<lambda>_.
      and_then (load_json (dhrystone_manifest os)) (\<lambda>j.
      and_then (read_text path) (\<lambda>t.
      and_then (as_dict j) (\<lambda>kvs.
      give (with_payload kvs path (latin1_encode t))))))))))"

definition payload_items :: "string \<Rightarrow> bytes \<Rightarrow> int \<Rightarrow> items" where
  "payload_items path payload entry =
     [(''bin'', JStr path), (''entry'', JInt entry), (''load_addr'', JInt 0x80000000),
      (''size_bytes'', JInt (int (length payload))), (''checksum32'', JInt (int (checksum32 payload)))]"

definition load_existing_payload_manifest :: "string \<Rightarrow> string \<Rightarrow> items flow" where
  "load_existing_payload_manifest logs stem =
     (let path = in_dir (in_dir logs ''payload_manifests'') (stem @ ''.bin'') in
      and_then (look_file path) (\<lambda>bt.
      and_then (require (bt \<noteq> None) (RuntimeError (''Existing board payload not found: '' @ path
        @ ''. Run a non-board-only flow once first.''))) (\<lambda>_.
      and_then (read_text path) (\<lambda>t.
      give (payload_items path (latin1_encode t) 0x80000000)))))"

text \<open>\<^verbatim>\<open>compile_ddr3_asm_payload\<close>; the entry is the start of the memory unless \<^verbatim>\<open>nm\<close> shows \<^verbatim>\<open>_start\<close>.\<close>

definition asm_gcc :: "os \<Rightarrow> string \<Rightarrow> string \<Rightarrow> string \<Rightarrow> string \<Rightarrow> command" where
  "asm_gcc os gcc source out_dir name =
     \<lparr>cmd_args = [gcc, ''-nostdlib'', ''-nostartfiles'', ''-Wl,--build-id=none'',
        ''-Wl,-T,'' @ bench_file os ''common_ax7203/ax7203_ddr3_xip.ld'', ''-march=rv32i'', ''-mabi=ilp32'',
        source, ''-o'', in_dir out_dir (name @ ''.elf'')],
      cmd_cwd = Some (rom_dir os), cmd_env = None, cmd_log = in_dir out_dir (name @ ''_compile.log''),
      cmd_timeout = Some 300\<rparr>"

definition asm_objcopy :: "os \<Rightarrow> string \<Rightarrow> string \<Rightarrow> string \<Rightarrow> command" where
  "asm_objcopy os objcopy out_dir name =
     \<lparr>cmd_args = [objcopy, ''-O'', ''binary'', in_dir out_dir (name @ ''.elf''), in_dir out_dir (name @ ''.bin'')],
      cmd_cwd = Some (repo_root os), cmd_env = None, cmd_log = in_dir out_dir (name @ ''_objcopy.log''),
      cmd_timeout = Some 120\<rparr>"

definition compile_ddr3_asm_payload :: "os \<Rightarrow> string \<Rightarrow> string \<Rightarrow> string \<Rightarrow> items flow" where
  "compile_ddr3_asm_payload os source out_dir name =
     and_then (which_required os [''riscv-none-elf-gcc'']) (\<lambda>gcc.
     and_then (which_required os [''riscv-none-elf-objcopy'']) (\<lambda>objcopy.
     and_then (which_required os [''riscv-none-elf-nm'']) (\<lambda>nm.
     and_then (run_logged runtime_exc os (asm_gcc os gcc source out_dir name)) (\<lambda>_.
     and_then (run_logged runtime_exc os (asm_objcopy os objcopy out_dir name)) (\<lambda>_.
     and_then (run_captured os (tool_command [nm, in_dir out_dir (name @ ''.elf'')] (repo_root os))) (\<lambda>(rc, out).
     and_then (require (rc = 0) (RuntimeError out)) (\<lambda>_.
     and_then (case symbol_field ''_start'' out of
         None \<Rightarrow> give 0x80000000
       | Some t \<Rightarrow> (case py_int16 t of None \<Rightarrow> raise_exc ValueError | Some e \<Rightarrow> give e)) (\<lambda>entry.
     and_then (read_text (in_dir out_dir (name @ ''.bin''))) (\<lambda>t.
     give ((''elf'', JStr (in_dir out_dir (name @ ''.elf'')))
       # payload_items (in_dir out_dir (name @ ''.bin'')) (latin1_encode t) entry))))))))))"

section \<open>A manifest describes its payload\<close>

lemma read_text_Inr: "read_text path m = (Inr t, m') \<longleftrightarrow> files m path = Some t \<and> m' = m"
  by (auto simp: read_text_def split: option.splits)

lemma xip_outputs_Inr:
  assumes "xip_outputs os a objcopy entry sizes m = (Inr (), m')" and "ba_manifest a"
  shows "\<exists>t. files m' (bench_out os a ''.bin'') = Some t \<and> files m' (bench_manifest_file os a)
    = Some (json_dumps True (bench_manifest os a (latin1_encode t) entry sizes) @ newline)"
  using assms
  by (auto simp: xip_outputs_def flow_Inr read_text_Inr bench_manifest_file_def bench_out_def in_dir_def)

lemma bench_main_manifest:
  assumes "bench_main os coremark a m = (Inr (), m')" and "ba_ddr3_xip a" and "ba_manifest a"
  shows "\<exists>t entry sizes. files m' (bench_out os a ''.bin'') = Some t \<and> files m' (bench_manifest_file os a)
    = Some (json_dumps True (bench_manifest os a (latin1_encode t) entry sizes) @ newline)"
proof -
  obtain m1 objcopy entry sizes where "xip_outputs os a objcopy entry sizes m1 = (Inr (), m')"
    using assms(1,2) by (auto simp: bench_main_def and_then_Inr require_Inr)
  then show ?thesis
    using xip_outputs_Inr assms(3) by blast
qed

lemma load_written_manifest:
  "json_loads (json_dumps True (bench_manifest os a payload entry sizes) @ newline) = Some (bench_manifest os a payload entry sizes)"
  by (rule json_roundtrip) (cases sizes; simp add: bench_manifest_def)+

lemma clone_item_Inr:
  assumes "clone_item out_dir stem key source kvs m = (Inr kvs', m')" and "get_item key source = Some (JStr src)" and "src \<noteq> []"
  shows "\<exists>t. files m src = Some t \<and> files m' = (files m)(in_dir out_dir (stem @ path_suffix src) \<mapsto> t)
    \<and> kvs' = set_item key (JStr (in_dir out_dir (stem @ path_suffix src))) kvs"
  using assms by (auto simp: clone_item_def copy_file_def flow_Inr read_text_Inr Let_def)

text \<open>The script a command runs is the one modelled, on tools of its own.\<close>

definition runs_bench :: "os \<Rightarrow> command \<Rightarrow> os \<Rightarrow> string flow \<Rightarrow> bench_args \<Rightarrow> bool" where
  "runs_bench os c tools coremark a \<longleftrightarrow> (\<forall>acts fs out fs'. run_cmd os acts c fs = (Exited 0 out, fs') \<longrightarrow>
     (\<exists>m. bench_main tools coremark a \<lparr>files = fs, actions = []\<rparr> = (Inr (), m) \<and> fs' = files m))"

lemma path_name_in_dir: "CHR ''/'' \<notin> set n \<Longrightarrow> path_name (in_dir d n) = n"
  by (auto simp: path_name_def in_dir_def takeWhile_append)

lemma dhrystone_out:
  assumes "ba_benchmark a = ''dhrystone''" and "ba_ddr3_xip a"
  shows "bench_out os a ext = in_dir (bench_dir os ''dhrystone'') (''dhrystone_ddr3'' @ ext)"
  using assms by (simp add: bench_out_def)

lemma in_dir_nonempty: "in_dir d n \<noteq> []"
  by (simp add: in_dir_def)

lemma dhrystone_suffix:
  "path_suffix (in_dir d ''dhrystone_ddr3.elf'') = ''.elf''" "path_suffix (in_dir d ''dhrystone_ddr3.bin'') = ''.bin''"
  by (simp_all add: path_suffix_def path_name_in_dir)

lemma ends_apart: "u @ [c] = v @ [d] \<Longrightarrow> c = d"
  by simp

text \<open>
  C35. A payload and its manifest agree.  When the loader flow has had the benchmark built by the script
  modelled above, the manifest it goes on with names a copy of the binary in its own directory, and the
  size, the checksum and the load address in it are those of the bytes in that copy, so that the header the
  loader is sent describes the payload it is sent.
\<close>

theorem payload_manifest_true:
  assumes build: "build_dhrystone_payload os logs cpu_hz runs stem fixed m = (Inr kvs, m')"
    and script: "runs_bench os (payload_command os logs cpu_hz runs stem fixed) tools coremark a"
    and args: "ba_benchmark a = ''dhrystone''" "ba_ddr3_xip a" "ba_manifest a" "repo_root tools = repo_root os"
  shows "\<exists>payload. let path = in_dir (in_dir logs ''payload_manifests'') (stem @ ''.bin'') in
      files m' path = Some (latin1_decode payload) \<and> get_item ''bin'' kvs = Some (JStr path)
      \<and> get_item ''size_bytes'' kvs = Some (JInt (int (length payload)))
      \<and> get_item ''checksum32'' kvs = Some (JInt (int (checksum32 payload)))
      \<and> get_item ''load_addr'' kvs = Some (JInt 0x80000000)"
proof -
  let ?c = "payload_command os logs cpu_hz runs stem fixed"
  let ?dir = "in_dir logs ''payload_manifests''"
  obtain m1 j kvs0 where run: "run_logged runtime_exc os ?c m = (Inr (), m1)"
    and read: "files m1 (dhrystone_manifest os) = Some j" "json_loads j = Some (JObj kvs0)"
    and clone: "clone_manifest_outputs kvs0 ?dir stem m1 = (Inr kvs, m')"
    using build by (auto simp: build_dhrystone_payload_def load_json_def as_dict_def flow_Inr read_text_Inr raise_exc_def
        split: option.splits json.splits)
  obtain out fs where world: "run_cmd os (actions m) ?c ((files m)(cmd_log ?c \<mapsto> log_header ?c)) = (Exited 0 out, fs)"
    and m1: "m1 = \<lparr>files = fs(cmd_log ?c \<mapsto> log_of ?c (Exited 0 out)), actions = actions m @ [Ran ?c (Exited 0 out)]\<rparr>"
    using run_logged_world [OF run] by metis
  obtain ms where ms: "bench_main tools coremark a \<lparr>files = (files m)(cmd_log ?c \<mapsto> log_header ?c), actions = []\<rparr> = (Inr (), ms)"
    and fs: "fs = files ms"
    using script world unfolding runs_bench_def by blast
  define d where "d = bench_dir tools ''dhrystone''"
  have out: "bench_out tools a ext = in_dir d (''dhrystone_ddr3'' @ ext)" for ext
    unfolding d_def by (rule dhrystone_out [OF args(1,2)])
  have man: "dhrystone_manifest os = in_dir d ''dhrystone_ddr3.json''" "bench_manifest_file tools a = in_dir d ''dhrystone_ddr3.json''"
    using args(4) by (simp_all add: bench_manifest_file_def out)
      (simp add: dhrystone_manifest_def d_def bench_dir_def build_file_def in_dir_def)
  obtain t entry sizes where t: "fs (in_dir d ''dhrystone_ddr3.bin'') = Some t"
    "fs (in_dir d ''dhrystone_ddr3.json'') = Some (json_dumps True (bench_manifest tools a (latin1_encode t) entry sizes) @ newline)"
    using bench_main_manifest [OF ms args(2,3)] fs man by (auto simp: out)
  have log: "cmd_log ?c = logs @ ''/06_build_'' @ stem @ ''_payload.log''"
    by (simp add: payload_command_def in_dir_def)
  have apart: "cmd_log ?c \<noteq> in_dir d ''dhrystone_ddr3.bin''" "cmd_log ?c \<noteq> in_dir d ''dhrystone_ddr3.json''"
    "in_dir ?dir (stem @ ''.elf'') \<noteq> in_dir d ''dhrystone_ddr3.bin''" "in_dir ?dir (stem @ ''.elf'') \<noteq> in_dir ?dir (stem @ ''.bin'')"
    unfolding log in_dir_def by (auto dest!: arg_cong [where f = last])
  have kvs0: "JObj kvs0 = bench_manifest tools a (latin1_encode t) entry sizes"
  proof -
    have "j = json_dumps True (bench_manifest tools a (latin1_encode t) entry sizes) @ newline"
      using read(1) t(2) m1 apart(2) man by simp
    then show ?thesis
      using read(2) load_written_manifest by (metis option.inject)
  qed
  have elf: "get_item ''elf'' kvs0 = Some (JStr (in_dir d ''dhrystone_ddr3.elf''))"
    and bin: "get_item ''bin'' kvs0 = Some (JStr (in_dir d ''dhrystone_ddr3.bin''))"
    using kvs0 by (cases sizes; simp add: bench_manifest_def get_item_def out)+
  obtain kvs1 m2 where first: "clone_item ?dir stem ''elf'' kvs0 kvs0 m1 = (Inr kvs1, m2)"
    and second: "clone_item ?dir stem ''bin'' kvs0 kvs1 m2 = (Inr kvs, m')"
    using clone by (auto simp: clone_manifest_outputs_def and_then_Inr)
  have kvs1: "kvs1 = set_item ''elf'' (JStr (in_dir ?dir (stem @ ''.elf''))) kvs0"
    and m2: "\<exists>e. files m2 = (files m1)(in_dir ?dir (stem @ ''.elf'') \<mapsto> e)"
    using clone_item_Inr [OF first elf] by (auto simp: dhrystone_suffix in_dir_nonempty)
  have bin_t: "files m2 (in_dir d ''dhrystone_ddr3.bin'') = Some t"
    using m2 m1 t(1) apart by auto
  have kvs: "kvs = set_item ''bin'' (JStr (in_dir ?dir (stem @ ''.bin''))) kvs1"
    and m': "files m' (in_dir ?dir (stem @ ''.bin'')) = Some t"
    using clone_item_Inr [OF second bin] bin_t by (auto simp: dhrystone_suffix in_dir_nonempty)
  have "get_item ''bin'' kvs = Some (JStr (in_dir ?dir (stem @ ''.bin'')))"
    "get_item ''size_bytes'' kvs = Some (JInt (int (length (latin1_encode t))))"
    "get_item ''checksum32'' kvs = Some (JInt (int (checksum32 (latin1_encode t))))"
    "get_item ''load_addr'' kvs = Some (JInt 0x80000000)"
    using kvs0 unfolding kvs kvs1 by (cases sizes; simp add: bench_manifest_def get_item_def)+
  then show ?thesis
    using m' by (intro exI [of _ "latin1_encode t"]) (simp add: Let_def)
qed

section \<open>Concrete builds\<close>

text \<open>Tools that do their work: every command writes the binary and the listing of the benchmark.\<close>

definition tools_output :: string where
  "tools_output = render_lines [''40 T _start'', ''1 2 3'']"

definition good_tools :: os where
  "good_tools = demo_os\<lparr>run_cmd := \<lambda>acts c fs. (Exited 0 tools_output,
     fs(''/r/build/benchmark_images/dhrystone/dhrystone_ddr3.elf'' \<mapsto> ''E'',
        ''/r/build/benchmark_images/dhrystone/dhrystone_ddr3.bin'' \<mapsto> ''AB''))\<rparr>"

definition demo_bench :: bench_args where
  "demo_bench = \<lparr>ba_benchmark = ''dhrystone'', ba_cpu_hz = 25000000, ba_dhrystone_runs = 10, ba_fixed_runs = None,
     ba_iterations = 10, ba_total_data_size = 1200, ba_startup_delay_ms = 0, ba_verilator_mainline = False,
     ba_ddr3_xip = True, ba_emit_bin = True, ba_manifest = True\<rparr>"

lemma good_checked: "run_checked good_tools c m = (Inr tools_output, \<lparr>files = (files m)(
     ''/r/build/benchmark_images/dhrystone/dhrystone_ddr3.elf'' \<mapsto> ''E'',
     ''/r/build/benchmark_images/dhrystone/dhrystone_ddr3.bin'' \<mapsto> ''AB''), actions = actions m @ [Ran c (Exited 0 tools_output)]\<rparr>)"
  by (simp add: run_checked_def run_captured_def and_then_def require_def give_def good_tools_def)

lemma good_which: "which_one good_tools name m = (Inr name, m)"
  by (simp add: which_one_def good_tools_def demo_os_def give_def)

lemma good_listing: "parse_size_report tools_output = Some (1, 2, 3)" "symbol_field ''_start'' tools_output = Some ''40''"
  "py_int16 ''40'' = Some 64"
  by code_simp+

lemma good_bench: "\<exists>m'. bench_main good_tools (give []) demo_bench m = (Inr (), m')
  \<and> files m' ''/r/build/benchmark_images/dhrystone/dhrystone_ddr3.elf'' = Some ''E''"
proof -
  have link: "\<exists>m1. bench_link good_tools demo_bench gcc sz sources flags m = (Inr (1, 2, 3), m1)" for gcc sz sources flags m
    by (simp add: bench_link_def and_then_def remove_file_def good_checked good_listing give_def)
  have entry: "\<exists>m1. parse_symbol_addr good_tools elf ''_start'' m = (Inr 64, m1)" for elf m
    by (simp add: parse_symbol_addr_def and_then_def good_which good_checked good_listing give_def)
  have outs: "\<exists>m1. xip_outputs good_tools demo_bench objcopy e sizes m = (Inr (), m1)
      \<and> files m1 ''/r/build/benchmark_images/dhrystone/dhrystone_ddr3.elf'' = Some ''E''" for objcopy e sizes m
  proof -
    have "bench_out good_tools demo_bench ''.bin'' = ''/r/build/benchmark_images/dhrystone/dhrystone_ddr3.bin''"
      "bench_manifest_file good_tools demo_bench \<noteq> ''/r/build/benchmark_images/dhrystone/dhrystone_ddr3.elf''"
      by (simp_all add: bench_manifest_file_def bench_out_def bench_dir_def build_file_def in_dir_def demo_bench_def
          good_tools_def demo_os_def)
    then show ?thesis
      by (simp add: xip_outputs_def demo_bench_def and_then_def good_checked read_text_def write_file_def)
  qed
  have "ba_benchmark demo_bench = ''dhrystone''" "ba_fixed_runs demo_bench = None" "ba_startup_delay_ms demo_bench = 0"
    "ba_ddr3_xip demo_bench"
    by (simp_all add: demo_bench_def)
  moreover obtain sources cflags where
    "build_dhrystone_sources good_tools (ba_cpu_hz demo_bench) (ba_dhrystone_runs demo_bench) = (sources, cflags)"
    by fastforce
  moreover obtain m1 where "bench_link good_tools demo_bench ''riscv-none-elf-gcc'' ''riscv-none-elf-size'' sources
      (bench_flags demo_bench cflags) m = (Inr (1, 2, 3), m1)"
    using link by blast
  moreover obtain m2 where "parse_symbol_addr good_tools (bench_out good_tools demo_bench ''.elf'') ''_start'' m1 = (Inr 64, m2)"
    using entry by blast
  moreover obtain m3 where "xip_outputs good_tools demo_bench ''riscv-none-elf-objcopy'' 64 (1, 2, 3) m2 = (Inr (), m3)"
    "files m3 ''/r/build/benchmark_images/dhrystone/dhrystone_ddr3.elf'' = Some ''E''"
    using outs by blast
  ultimately show ?thesis
    by (simp add: bench_main_def and_then_def good_which bench_sources_def give_def require_def)
qed

text \<open>The loader flow with this script behind its command.\<close>

definition loader_world :: os where
  "loader_world = demo_os\<lparr>run_cmd := \<lambda>acts c fs.
     (Exited 0 [], files (snd (bench_main good_tools (give []) demo_bench \<lparr>files = fs, actions = []\<rparr>)))\<rparr>"

lemma loader_world_run: "run_cmd loader_world acts c fs
    = (Exited 0 [], files (snd (bench_main good_tools (give []) demo_bench \<lparr>files = fs, actions = []\<rparr>)))"
  by (simp add: loader_world_def)

lemma loader_world_runs: "runs_bench loader_world c good_tools (give []) demo_bench"
proof -
  have "\<exists>m. bench_main good_tools (give []) demo_bench \<lparr>files = fs, actions = []\<rparr> = (Inr (), m)
      \<and> files (snd (bench_main good_tools (give []) demo_bench \<lparr>files = fs, actions = []\<rparr>)) = files m" for fs
    using good_bench [of "\<lparr>files = fs, actions = []\<rparr>"] by auto
  then show ?thesis
    by (simp add: runs_bench_def loader_world_def)
qed

lemma loader_world_builds: "succeeds (build_dhrystone_payload loader_world logs cpu_hz runs stem fixed) m"
proof -
  let ?c = "payload_command loader_world logs cpu_hz runs stem fixed"
  obtain ms where ms: "bench_main good_tools (give []) demo_bench \<lparr>files = (files m)(cmd_log ?c \<mapsto> log_header ?c), actions = []\<rparr>
      = (Inr (), ms)" and elf: "files ms ''/r/build/benchmark_images/dhrystone/dhrystone_ddr3.elf'' = Some ''E''"
    using good_bench by blast
  obtain t entry sizes where t: "files ms (bench_out good_tools demo_bench ''.bin'') = Some t"
    "files ms (bench_manifest_file good_tools demo_bench)
      = Some (json_dumps True (bench_manifest good_tools demo_bench (latin1_encode t) entry sizes) @ newline)"
    using bench_main_manifest [OF ms] by (auto simp: demo_bench_def)
  have names: "bench_out good_tools demo_bench ext = ''/r/build/benchmark_images/dhrystone/dhrystone_ddr3'' @ ext"
    "bench_manifest_file good_tools demo_bench = ''/r/build/benchmark_images/dhrystone/dhrystone_ddr3.json''"
    "dhrystone_manifest loader_world = ''/r/build/benchmark_images/dhrystone/dhrystone_ddr3.json''" for ext
    by (simp_all add: bench_manifest_file_def bench_out_def bench_dir_def build_file_def in_dir_def demo_bench_def
        good_tools_def demo_os_def dhrystone_manifest_def loader_world_def)
  have log: "cmd_log ?c = logs @ ''/06_build_'' @ stem @ ''_payload.log''"
    by (simp add: payload_command_def in_dir_def)
  have apart: "cmd_log ?c \<noteq> ''/r/build/benchmark_images/dhrystone/dhrystone_ddr3.elf''"
    "cmd_log ?c \<noteq> ''/r/build/benchmark_images/dhrystone/dhrystone_ddr3.bin''"
    "cmd_log ?c \<noteq> ''/r/build/benchmark_images/dhrystone/dhrystone_ddr3.json''"
    unfolding log by (auto dest!: arg_cong [where f = last])
  let ?m1 = "\<lparr>files = (files ms)(cmd_log ?c \<mapsto> log_of ?c (Exited 0 [])), actions = actions m @ [Ran ?c (Exited 0 [])]\<rparr>"
  have run: "run_logged runtime_exc loader_world ?c m = (Inr (), ?m1)"
    by (rule run_logged_ok) (simp add: loader_world_run ms)
  have there: "files ?m1 ''/r/build/benchmark_images/dhrystone/dhrystone_ddr3.elf'' = Some ''E''"
    "files ?m1 ''/r/build/benchmark_images/dhrystone/dhrystone_ddr3.bin'' = Some t"
    "files ?m1 ''/r/build/benchmark_images/dhrystone/dhrystone_ddr3.json''
      = Some (json_dumps True (bench_manifest good_tools demo_bench (latin1_encode t) entry sizes) @ newline)"
    using t elf apart by (simp_all add: names fun_upd_other del: fun_upd_apply)
  obtain kvs where kvs: "bench_manifest good_tools demo_bench (latin1_encode t) entry sizes = JObj kvs"
    and items: "get_item ''elf'' kvs = Some (JStr ''/r/build/benchmark_images/dhrystone/dhrystone_ddr3.elf'')"
      "get_item ''bin'' kvs = Some (JStr ''/r/build/benchmark_images/dhrystone/dhrystone_ddr3.bin'')"
    by (cases sizes) (simp add: bench_manifest_def get_item_def names)
  have suffix: "path_suffix ''/r/build/benchmark_images/dhrystone/dhrystone_ddr3.elf'' = ''.elf''"
    by code_simp
  have load: "load_json (dhrystone_manifest loader_world) ?m1 = (Inr (JObj kvs), ?m1)"
    using there(3) load_written_manifest [of good_tools demo_bench "latin1_encode t" entry sizes]
    by (simp add: load_json_def and_then_def read_text_def names kvs give_def)
  have apart': "dir @ CHR ''/'' # stem @ ''.elf'' \<noteq> ''/r/build/benchmark_images/dhrystone/dhrystone_ddr3.bin''" for dir
    by (auto dest!: arg_cong [where f = last])
  have "succeeds (clone_manifest_outputs kvs (in_dir logs ''payload_manifests'') stem) ?m1"
    using there(1,2) apart' items suffix
    by (simp add: succeeds_def clone_manifest_outputs_def clone_item_def and_then_def copy_file_def read_text_def
        write_file_def Let_def give_def in_dir_def)
  then show ?thesis
    using run load by (simp add: succeeds_def build_dhrystone_payload_def and_then_def as_dict_def give_def)
qed

lemma payload_manifest_true_witness:
  "\<exists>kvs m' payload. build_dhrystone_payload loader_world ''l'' 25000000 10 ''s'' None demo_start = (Inr kvs, m')
    \<and> files m' ''l/payload_manifests/s.bin'' = Some (latin1_decode payload)
    \<and> get_item ''size_bytes'' kvs = Some (JInt (int (length payload)))"
proof -
  obtain kvs m' where run: "build_dhrystone_payload loader_world ''l'' 25000000 10 ''s'' None demo_start = (Inr kvs, m')"
    using loader_world_builds unfolding succeeds_def by blast
  have "repo_root good_tools = repo_root loader_world"
    by (simp add: good_tools_def loader_world_def)
  then show ?thesis
    using payload_manifest_true [OF run loader_world_runs] run
    by (auto simp: demo_bench_def Let_def in_dir_def)
qed

text \<open>A boot memory built without a data section.\<close>

definition demo_rom :: rom_args where
  "demo_rom = \<lparr>ra_asm = ''/s/boot.s'', ra_march = None, ra_merge = False, ra_defines = []\<rparr>"

definition rom_world :: os where
  "rom_world = demo_os\<lparr>run_cmd := \<lambda>acts c fs. (Exited 0 [], fs)\<rparr>"

lemma rom_image_fresh_witness:
  "\<exists>m'. rom_main rom_world demo_rom \<lparr>files = [''/s/boot.s'' \<mapsto> ''nop''], actions = []\<rparr> = (Inr (), m')
    \<and> rom_main rom_world demo_rom \<lparr>files = [''/s/boot.s'' \<mapsto> ''nop'', ''/r/rom/inst.hex'' \<mapsto> ''old'',
        ''/r/rom/data.hex'' \<mapsto> ''old''], actions = []\<rparr> = (Inr (), m')"
proof -
  let ?m = "\<lparr>files = [''/s/boot.s'' \<mapsto> ''nop''], actions = []\<rparr>"
  have paths: "asm_path rom_world demo_rom = ''/s/boot.s''" "inst_hex rom_world = ''/r/rom/inst.hex''"
    "data_hex rom_world = ''/r/rom/data.hex''"
    by (simp_all add: asm_path_def demo_rom_def absolute_def inst_hex_def data_hex_def rom_file_def in_dir_def
        rom_world_def demo_os_def)
  have run: "run_checked rom_world c m = (Inr [], m\<lparr>actions := actions m @ [Ran c (Exited 0 [])]\<rparr>)" for c m
    by (simp add: run_checked_def run_captured_def and_then_def require_def give_def rom_world_def)
  have tools: "two_tools rom_world = give (''riscv-none-elf-gcc'', ''riscv-none-elf-objcopy'')"
    by (simp add: two_tools_def rom_world_def demo_os_def)
  obtain m' where ok: "rom_main rom_world demo_rom ?m = (Inr (), m')"
    by (simp add: rom_main_def rom_images_def rom_merged_def and_then_def look_file_def require_def give_def tools run
        remove_file_def write_file_def paths) (simp add: demo_rom_def give_def)
  then show ?thesis
    using rom_image_fresh [OF ok, of "Some ''old''" "Some ''old''"] by (auto simp: paths)
qed

end
