(* ===== verification/Board.thy ===== *)
theory Board
  imports Block Images EarlyDrive TransportDrive Capture
begin

text \<open>
  The board behind a serial port: opening the port, talking to it by the drives of \<^verbatim>\<open>LoaderDrive\<close>,
  \<^verbatim>\<open>EarlyDrive\<close>, \<^verbatim>\<open>TransportDrive\<close> and \<^verbatim>\<open>Capture\<close>, and the files those leave.

  The board is not part of the model: a record of type \<^verbatim>\<open>board\<close> answers for it, after the programs run so
  far.  An exchange is the clock at its start and the reads of the drive, or nothing when a call to the
  port raises an exception; the drives write their files at the end, so then they leave none.
\<close>

section \<open>The port\<close>

record board =
  has_pyserial :: bool
  port_opens :: "action list \<Rightarrow> string \<Rightarrow> int \<Rightarrow> bool"
  port_reads :: "action list \<Rightarrow> (int \<times> (nat \<times> bytes) list) option"
  port_polls :: "action list \<Rightarrow> (string option \<times> bytes) list \<times> bytes"
  board_env :: loader_env

definition import_serial :: "board \<Rightarrow> string \<Rightarrow> unit flow" where
  "import_serial brd what = require (has_pyserial brd) (RuntimeError (''pyserial is required for '' @ what))"

definition open_port :: "board \<Rightarrow> string \<Rightarrow> int \<Rightarrow> unit flow" where
  "open_port brd port baud m = (if port_opens brd (actions m) port baud then Inr () else Inl OSError, m)"

definition write_files :: "(string \<times> string) list \<Rightarrow> file_map \<Rightarrow> file_map" where
  "write_files outs fs = fold (\<lambda>(path, t) fs. fs(path \<mapsto> t)) outs fs"

definition exchange ::
  "board \<Rightarrow> (int \<Rightarrow> (nat \<times> bytes) list \<Rightarrow> 'r) \<Rightarrow> ('r \<Rightarrow> (string \<times> string) list) \<Rightarrow> 'r flow" where
  "exchange brd drive outs m =
     (case port_reads brd (actions m) of
        None \<Rightarrow> (Inl OSError, m)
      | Some (start, script) \<Rightarrow>
          (Inr (drive start script), m\<lparr>files := write_files (outs (drive start script)) (files m)\<rparr>))"

definition seconds :: "int \<Rightarrow> int" where
  "seconds s = s * 1000000"

text \<open>\<^verbatim>\<open>Path.with_suffix\<close>\<close>

definition with_suffix :: "string \<Rightarrow> string \<Rightarrow> string" where
  "with_suffix p s = take (length p - length (path_suffix p)) p @ s"

section \<open>Manifests\<close>

text \<open>
  \<^verbatim>\<open>int(manifest[key])\<close> as a number that \<^verbatim>\<open>struct.pack\<close> takes for 32 bits.  Its \<^verbatim>\<open>struct.error\<close> is taken for
  a \<^verbatim>\<open>ValueError\<close>, and so is a number with a fraction, which no manifest has.
\<close>

fun json_int :: "json \<Rightarrow> int option" where
  "json_int (JInt i) = Some i"
| "json_int (JBool b) = Some (flag_int b)"
| "json_int (JStr s) = py_int10 s"
| "json_int _ = None"

definition word_item :: "string \<Rightarrow> items \<Rightarrow> nat flow" where
  "word_item key kvs =
     (case get_item key kvs of
        None \<Rightarrow> raise_exc KeyError
      | Some j \<Rightarrow> (case json_int j of
            None \<Rightarrow> raise_exc ValueError
          | Some i \<Rightarrow> if 0 \<le> i \<and> i < 2 ^ 32 then give (nat i) else raise_exc ValueError))"

definition read_payload :: "items \<Rightarrow> bytes flow" where
  "read_payload kvs = and_then (bin_path kvs) (\<lambda>p. and_then (read_text p) (\<lambda>t. give (latin1_encode t)))"

definition read_manifest :: "items \<Rightarrow> manifest flow" where
  "read_manifest kvs =
     and_then (read_payload kvs) (\<lambda>payload.
     and_then (word_item ''load_addr'' kvs) (\<lambda>load_addr.
     and_then (word_item ''entry'' kvs) (\<lambda>entry.
     and_then (word_item ''checksum32'' kvs) (\<lambda>sum.
     give \<lparr>m_payload = payload, m_load_addr = load_addr, m_entry = entry, m_checksum32 = sum\<rparr>))))"

text \<open>The early audit takes the checksum of its one block from the payload, not from the manifest.\<close>

definition read_early_manifest :: "items \<Rightarrow> manifest flow" where
  "read_early_manifest kvs =
     and_then (read_payload kvs) (\<lambda>payload.
     and_then (word_item ''load_addr'' kvs) (\<lambda>load_addr.
     and_then (word_item ''entry'' kvs) (\<lambda>entry.
     give \<lparr>m_payload = payload, m_load_addr = load_addr, m_entry = entry, m_checksum32 = checksum32 payload\<rparr>)))"

section \<open>Sessions as JSON\<close>

definition json_opt :: "('a \<Rightarrow> json) \<Rightarrow> 'a option \<Rightarrow> json" where
  "json_opt f x = (case x of None \<Rightarrow> JNull | Some y \<Rightarrow> f y)"

definition json_byte :: "byte \<Rightarrow> json" where
  "json_byte b = JInt (uint b)"

definition json_nat :: "nat \<Rightarrow> json" where
  "json_nat n = JInt (int n)"

definition early_session_json :: "early_session \<Rightarrow> json" where
  "early_session_json x =
     (let s = es_loop x; b = json_opt json_byte in
      JObj [(''session_index'', json_nat (es_session_index x)),
        (''start_offset'', json_opt json_nat (es_start_offset x)), (''ready_seq'', b (es_ready_seq x)),
        (''ready_arg'', b (sl_ready_arg s)), (''first_event_types'', JList (map JStr (es_first_event_types x))),
        (''idle_ok_seen'', JBool (sl_idle_ok_seen s)), (''train_start_seen'', JBool (sl_train_start_seen s)),
        (''train_done_seen'', JBool (sl_train_done_seen s)), (''train_done_count'', b (sl_train_done_count s)),
        (''flush_done_seen'', JBool (sl_flush_done_seen s)), (''flush_done_count'', b (sl_flush_done_count s)),
        (''header_enter_seen'', JBool (sl_header_enter_seen s)),
        (''train_timeout_seen'', JBool (sl_train_timeout_seen s)), (''train_timeout_count'', b (sl_train_timeout_count s)),
        (''flush_timeout_seen'', JBool (sl_flush_timeout_seen s)), (''flush_timeout_count'', b (sl_flush_timeout_count s)),
        (''header_byte0'', b (sl_header_bytes s ! 0)), (''header_byte1'', b (sl_header_bytes s ! 1)),
        (''header_byte2'', b (sl_header_bytes s ! 2)), (''header_byte3'', b (sl_header_bytes s ! 3)),
        (''header_magic_ok'', JBool (es_header_magic_ok x)), (''load_start_seen'', JBool (es_load_start_seen x)),
        (''first_block_ack_seen'', JBool (es_first_block_ack_seen x)), (''bad_magic_seen'', JBool (sl_bad_magic_seen s)),
        (''bad_magic_byte_index'', b (sl_bad_magic_byte_index s)), (''summary_mask'', b (sl_summary_mask s)),
        (''event_count'', json_nat (es_event_count x)), (''classification'', JStr (es_classification x)),
        (''bad_code'', b (sl_bad_code s)), (''event_order_valid'', JBool (es_event_order_valid x)),
        (''event_order_error'', JStr (es_event_order_error x))])"

definition selftest_session_json :: "selftest_session \<Rightarrow> json" where
  "selftest_session_json x =
     JObj [(''session_index'', json_nat (st_session_index x)),
       (''start_offset'', json_opt json_nat (st_start_offset x)), (''ready_seq'', json_opt json_byte (st_ready_seq x)),
       (''ready_arg'', json_opt json_byte (st_ready_arg x)),
       (''first_event_types'', JList (map JStr (st_first_event_types x))),
       (''matched_prefix_len'', json_nat (st_matched_prefix_len x)), (''event_count'', json_nat (st_event_count x)),
       (''duplicate_frame_count'', json_nat (st_duplicate_frame_count x)),
       (''event_order_valid'', JBool (st_event_order_valid x)), (''event_order_error'', JStr (st_event_order_error x)),
       (''classification'', JStr (st_classification x)), (''pass_seen'', JBool (st_pass_seen x)),
       (''summary_seen'', JBool (st_summary_seen x))]"

definition write_json :: "string \<Rightarrow> json \<Rightarrow> unit flow" where
  "write_json path j = write_file path (json_dumps False j @ newline)"

section \<open>Drives with their files\<close>

text \<open>
  Each takes the port as an open object or opens it itself, with a message of its own when the serial
  library is missing; no port to open is an error.
\<close>

definition with_port :: "board \<Rightarrow> bool \<Rightarrow> string \<Rightarrow> string option \<Rightarrow> int \<Rightarrow> 'r flow \<Rightarrow> 'r flow" where
  "with_port brd is_open what port baud f =
     (if is_open then f
      else and_then (import_serial brd what) (\<lambda>_.
        (case port of
           None \<Rightarrow> raise_exc (RuntimeError ''Serial port must be provided when no open serial object is passed'')
         | Some p \<Rightarrow> and_then (open_port brd p baud) (\<lambda>_. f))))"

record capture_files =
  cf_text :: string
  cf_raw :: string
  cf_decoded :: string

definition loader_files :: "capture_files \<Rightarrow> drive_result \<Rightarrow> (string \<times> string) list" where
  "loader_files cf r = [(cf_text cf, dr_text_log r), (cf_raw cf, latin1_decode (dr_raw_log r)),
     (cf_decoded cf, dr_decoded_log r), (with_suffix (cf_raw cf) ''.host_trace.txt'', dr_host_trace r)]"

definition run_uart_loader_capture ::
  "board \<Rightarrow> bool \<Rightarrow> string option \<Rightarrow> items \<Rightarrow> int \<Rightarrow> capture_files \<Rightarrow> int \<Rightarrow> bool \<Rightarrow> drive_result flow" where
  "run_uart_loader_capture brd is_open port kvs capture_seconds cf baud expect_dhrystone =
     with_port brd is_open ''board benchmark UART loading'' port baud
       (and_then (read_manifest kvs) (\<lambda>man.
        exchange brd (drive_uart_loader (board_env brd) man expect_dhrystone (seconds capture_seconds)) (loader_files cf)))"

definition early_files :: "capture_files \<Rightarrow> string option \<Rightarrow> early_drive_result \<Rightarrow> (string \<times> string) list" where
  "early_files cf sessions r =
     [(cf_text cf, edr_text_log r), (cf_raw cf, latin1_decode (edr_raw_log r)), (cf_decoded cf, edr_decoded_log r)]
     @ (case sessions of None \<Rightarrow> []
        | Some p \<Rightarrow> [(p, json_dumps True (JList (map early_session_json (ean_sessions (edr_analysis r)))))])"

definition run_uart_loader_early_audit_capture ::
  "board \<Rightarrow> bool \<Rightarrow> string option \<Rightarrow> items \<Rightarrow> int \<Rightarrow> capture_files \<Rightarrow> string option \<Rightarrow> int \<Rightarrow> early_options
     \<Rightarrow> early_drive_result flow" where
  "run_uart_loader_early_audit_capture brd is_open port kvs capture_seconds cf sessions baud opt =
     with_port brd is_open ''board early-audit UART loading'' port baud
       (and_then (read_early_manifest kvs) (\<lambda>man.
        exchange brd (drive_uart_loader_early_audit (board_env brd) opt man (seconds capture_seconds))
          (early_files cf sessions)))"

definition selftest_files :: "capture_files \<Rightarrow> string option \<Rightarrow> bytes \<Rightarrow> selftest_capture \<Rightarrow> (string \<times> string) list" where
  "selftest_files cf sessions raw r =
     [(cf_text cf, sc_text_log r), (cf_raw cf, latin1_decode raw), (cf_decoded cf, sc_decoded_log r)]
     @ (case sessions of None \<Rightarrow> []
        | Some p \<Rightarrow> [(p, json_dumps False (JList (map selftest_session_json (sr_sessions (sc_analysis r)))) @ newline)])"

definition capture_bridge_audit :: "board \<Rightarrow> string \<Rightarrow> int \<Rightarrow> string \<Rightarrow> int \<Rightarrow> bridge_seen capture_result flow" where
  "capture_bridge_audit brd port capture_seconds log_path baud =
     with_port brd False ''bridge-audit UART capture'' (Some port) baud
       (exchange brd (capture_bridge_audit_stream (seconds capture_seconds)) (\<lambda>r. [(log_path, cr_log r)]))"

section \<open>What an exchange gives\<close>

lemma exchange_Inr:
  "exchange brd drive outs m = (Inr r, m') \<longleftrightarrow> (\<exists>start script. port_reads brd (actions m) = Some (start, script)
     \<and> r = drive start script \<and> m' = m\<lparr>files := write_files (outs r) (files m)\<rparr>)"
  by (auto simp: exchange_def split: option.splits)

lemma open_port_Inr: "open_port brd port baud m = (Inr u, m') \<longleftrightarrow> port_opens brd (actions m) port baud \<and> m' = m"
  by (auto simp: open_port_def)

lemma import_serial_Inr: "import_serial brd what m = (Inr u, m') \<longleftrightarrow> has_pyserial brd \<and> m' = m"
  by (simp add: import_serial_def require_Inr)

lemma word_item_keeps: "snd (word_item key kvs m) = m"
  by (auto simp: word_item_def raise_exc_def give_def split: option.split)

lemma read_payload_keeps: "snd (read_payload kvs m) = m"
  by (auto simp: read_payload_def bin_path_def and_then_def raise_exc_def give_def read_text_def
      split: option.split json.split)

text \<open>Flows that run no program.\<close>

definition quietly :: "'a flow \<Rightarrow> bool" where
  "quietly f \<longleftrightarrow> (\<forall>m. actions (snd (f m)) = actions m)"

lemma quietly_and_then: "quietly f \<Longrightarrow> (\<And>x. quietly (g x)) \<Longrightarrow> quietly (and_then f g)"
  unfolding quietly_def and_then_def
  by (auto split: prod.splits sum.splits) (metis snd_conv)+

lemma quietly_basic:
  "quietly (give x)" "quietly (raise_exc e)" "quietly (require b e)" "quietly (look_file p)" "quietly (read_text p)"
  "quietly (write_file p t)" "quietly (exchange brd drive outs)" "quietly (open_port brd port baud)"
  "quietly (import_serial brd what)" "quietly (word_item key kvs)" "quietly (read_payload kvs)"
  by (auto simp: quietly_def give_def raise_exc_def require_def look_file_def read_text_def write_file_def exchange_def
      open_port_def import_serial_def word_item_keeps read_payload_keeps split: option.split)

lemma quietly_with_port: "quietly f \<Longrightarrow> quietly (with_port brd is_open what port baud f)"
  by (auto simp: with_port_def intro!: quietly_and_then quietly_basic split: option.split)

lemma quietly_manifests: "quietly (read_manifest kvs)" "quietly (read_early_manifest kvs)"
  unfolding read_manifest_def read_early_manifest_def
  by (intro quietly_and_then quietly_basic)+

lemma quietly_captures:
  "quietly (run_uart_loader_capture brd is_open port kvs secs cf baud expect)"
  "quietly (run_uart_loader_early_audit_capture brd is_open port kvs secs cf sessions baud opt)"
  "quietly (capture_bridge_audit brd p secs log baud)"
  unfolding run_uart_loader_capture_def run_uart_loader_early_audit_capture_def capture_bridge_audit_def
  by (intro quietly_with_port quietly_and_then quietly_basic quietly_manifests)+

lemma quietlyD: "quietly f \<Longrightarrow> f m = (r, m') \<Longrightarrow> actions m' = actions m"
  unfolding quietly_def by (metis snd_conv)

text \<open>A capture on an open port answers for its manifest.\<close>

lemma early_capture_Inr:
  "run_uart_loader_early_audit_capture brd True port kvs secs cf sessions baud opt m = (Inr r, m') \<longleftrightarrow>
     (\<exists>man start script. read_early_manifest kvs m = (Inr man, m) \<and> port_reads brd (actions m) = Some (start, script)
        \<and> r = drive_uart_loader_early_audit (board_env brd) opt man (seconds secs) start script
        \<and> m' = m\<lparr>files := write_files (early_files cf sessions r) (files m)\<rparr>)"
proof -
  have keeps: "read_early_manifest kvs m = (Inr man, m1) \<Longrightarrow> m1 = m" for man m1
    using read_payload_keeps [of kvs m] word_item_keeps
    by (auto simp: read_early_manifest_def flow_Inr) (metis snd_conv)+
  then show ?thesis
    by (auto simp: run_uart_loader_early_audit_capture_def with_port_def flow_Inr exchange_Inr)
qed

lemma loader_capture_Inr:
  "run_uart_loader_capture brd True port kvs secs cf baud expect m = (Inr r, m') \<longleftrightarrow>
     (\<exists>man start script. read_manifest kvs m = (Inr man, m) \<and> port_reads brd (actions m) = Some (start, script)
        \<and> r = drive_uart_loader (board_env brd) man expect (seconds secs) start script
        \<and> m' = m\<lparr>files := write_files (loader_files cf r) (files m)\<rparr>)"
proof -
  have keeps: "read_manifest kvs m = (Inr man, m1) \<Longrightarrow> m1 = m" for man m1
    using read_payload_keeps [of kvs m] word_item_keeps
    by (auto simp: read_manifest_def flow_Inr) (metis snd_conv)+
  then show ?thesis
    by (auto simp: run_uart_loader_capture_def with_port_def flow_Inr exchange_Inr)
qed

end
