(* ===== verification/BoardTrial.thy ===== *)
theory BoardTrial
  imports Board
begin

text \<open>
  The runs of \<^verbatim>\<open>run_fpga_benchmark_ddr3.py\<close> on a board that has its bitstream: one early-audit trial, the
  sweep over the three quiet times, the beacon self-test and the benchmark itself.  Each opens the port
  first and programs the board through JTAG while it is open, so that nothing the board says is lost.
\<close>

section \<open>Programming\<close>

record board_job =
  bj_port :: string
  bj_uart_baud :: int
  bj_capture_seconds :: int
  bj_vivado :: string
  bj_env :: environ

definition BUILD_ID_FILE :: "os \<Rightarrow> string" where
  "BUILD_ID_FILE os = (case os_environ os ''BUILD_ID_FILE'' of
     Some p \<Rightarrow> p | None \<Rightarrow> build_file os ''ax7203/sifang_core_ax7203_bitstream_id.txt'')"

definition program_command :: "os \<Rightarrow> board_job \<Rightarrow> string \<Rightarrow> command" where
  "program_command os job log =
     \<lparr>cmd_args = [bj_vivado job, ''-mode'', ''batch'', ''-source'', in_dir (repo_root os) ''fpga/program_ax7203_jtag.tcl''],
      cmd_cwd = Some (repo_root os), cmd_env = Some (bj_env job), cmd_log = log, cmd_timeout = Some 1800\<rparr>"

definition read_build_id :: "os \<Rightarrow> string flow" where
  "read_build_id os = and_then (look_file (BUILD_ID_FILE os)) (\<lambda>t. give (parse_build_id t))"

text \<open>What the \<^verbatim>\<open>with serial.Serial\<close> blocks start with; the build id is kept in a local variable.\<close>

definition program_board ::
  "os \<Rightarrow> board \<Rightarrow> board_job \<Rightarrow> string \<Rightarrow> (string \<Rightarrow> 'l \<Rightarrow> 'l) \<Rightarrow> ('l, 'a) block \<Rightarrow> ('l, 'a) block" where
  "program_board os brd job log keep rest =
     then_do (perform (open_port brd (bj_port job) (bj_uart_baud job))) (\<lambda>_.
     then_do (perform (run_logged runtime_exc os (program_command os job log))) (\<lambda>_.
     then_do (perform (read_build_id os)) (\<lambda>bid.
     then_do (assign (keep bid)) (\<lambda>_. rest))))"

text \<open>\<^verbatim>\<open>str(value)\<close> and \<^verbatim>\<open>fmt_optional_hex\<close>; the values are numbers, texts, truth values and \<^verbatim>\<open>None\<close>.\<close>

fun py_str :: "json \<Rightarrow> string" where
  "py_str JNull = ''None''"
| "py_str (JBool b) = str_bool b"
| "py_str (JInt i) = str_int i"
| "py_str (JStr s) = s"
| "py_str j = json_dumps True j"

fun fmt_optional_hex :: "json \<Rightarrow> string" where
  "fmt_optional_hex (JInt i) = ''0x'' @ fmt_X_int 8 i"
| "fmt_optional_hex (JBool b) = ''0x'' @ fmt_X_int 8 (flag_int b)"
| "fmt_optional_hex j = py_str j"

section \<open>One early-audit trial\<close>

text \<open>
  The dict of a trial: its paths follow from the directory, and what it takes from the result of the
  drive, all at once, is the result itself.
\<close>

record board_trial =
  bt_name :: string
  bt_quiet_ms :: int
  bt_delay_ms :: int
  bt_dir :: string
  bt_build_id :: string
  bt_pass :: bool
  bt_failure_stage :: string
  bt_failure_detail :: string
  bt_result :: "early_drive_result option"

definition new_trial :: "string \<Rightarrow> string \<Rightarrow> int \<Rightarrow> int \<Rightarrow> board_trial" where
  "new_trial dir name quiet delay =
     \<lparr>bt_name = name, bt_quiet_ms = quiet, bt_delay_ms = delay, bt_dir = dir, bt_build_id = ''N/A'', bt_pass = False,
      bt_failure_stage = ''none'', bt_failure_detail = ''none'', bt_result = None\<rparr>"

definition trial_files :: "string \<Rightarrow> capture_files" where
  "trial_files dir = \<lparr>cf_text = in_dir dir ''capture.txt'', cf_raw = in_dir dir ''capture.bin'',
     cf_decoded = in_dir dir ''capture.loader.decoded.txt''\<rparr>"

definition trial_jtag_log :: "string \<Rightarrow> string" where
  "trial_jtag_log dir = in_dir dir ''program_jtag.log''"

definition seen_item :: "board_trial \<Rightarrow> json \<Rightarrow> (early_drive_result \<Rightarrow> json) \<Rightarrow> json" where
  "seen_item t before f = (case bt_result t of None \<Rightarrow> before | Some r \<Rightarrow> f r)"

definition chosen_item :: "(early_session \<Rightarrow> 'a) \<Rightarrow> 'a \<Rightarrow> early_drive_result \<Rightarrow> 'a" where
  "chosen_item f other r = (case ean_chosen (edr_analysis r) of None \<Rightarrow> other | Some x \<Rightarrow> f x)"

definition trial_items :: "board_trial \<Rightarrow> items" where
  "trial_items t =
     (let na = JStr ''N/A''; b = json_opt json_byte; e = (\<lambda>r. ean_result (edr_analysis r));
          cf = trial_files (bt_dir t) in
      [(''trial_name'', JStr (bt_name t)), (''post_jtag_quiet_ms'', JInt (bt_quiet_ms t)),
       (''header_send_delay_ms'', JInt (bt_delay_ms t)), (''build_id'', JStr (bt_build_id t)), (''pass'', JBool (bt_pass t)),
       (''failure_stage'', JStr (bt_failure_stage t)), (''failure_detail'', JStr (bt_failure_detail t)),
       (''session_start_not_found'', seen_item t (JBool False) (\<lambda>r. JBool (session_start_not_found (ea_session (e r))))),
       (''session_classification'', seen_item t na (\<lambda>r. JStr (ean_session_classification (edr_analysis r)))),
       (''chosen_session_ready_arg'', seen_item t na (\<lambda>r. chosen_item (\<lambda>x. b (sl_ready_arg (es_loop x))) JNull r)),
       (''chosen_session_first_events'',
          seen_item t (JList []) (\<lambda>r. JList (map JStr (chosen_item es_first_event_types [] r)))),
       (''header_byte0'', seen_item t na (\<lambda>r. b (ea_header_bytes (e r) ! 0))),
       (''header_byte1'', seen_item t na (\<lambda>r. b (ea_header_bytes (e r) ! 1))),
       (''bad_magic_seen'', seen_item t (JBool False) (\<lambda>r. JBool (ea_bad_magic_seen (e r)))),
       (''bad_magic_byte_index'', seen_item t na (\<lambda>r. b (ea_bad_magic_byte_index (e r)))),
       (''bad_reason'', seen_item t (JStr ''none'') (\<lambda>r. JStr (ea_bad_reason (e r)))),
       (''summary_mask'', seen_item t na (\<lambda>r. b (ea_summary_mask (e r)))),
       (''capture_file'', JStr (cf_text cf)), (''capture_raw_file'', JStr (cf_raw cf)),
       (''decoded_file'', JStr (cf_decoded cf)), (''sessions_file'', JStr (in_dir (bt_dir t) ''sessions.json'')),
       (''jtag_log'', JStr (trial_jtag_log (bt_dir t)))])"

definition item_of :: "items \<Rightarrow> string \<Rightarrow> json" where
  "item_of kvs key = (case get_item key kvs of None \<Rightarrow> JNull | Some j \<Rightarrow> j)"

text \<open>\<^verbatim>\<open>','.join(events)\<close>\<close>

fun joined :: "json \<Rightarrow> string" where
  "joined (JList xs) = join_with '','' (map py_str xs)"
| "joined j = []"

definition trial_line :: "items \<Rightarrow> string \<times> (json \<Rightarrow> string) \<times> string \<Rightarrow> string" where
  "trial_line kvs l = (case l of (label, show_it, key) \<Rightarrow> label @ '': '' @ show_it (item_of kvs key))"

definition write_early_audit_trial_summary :: "string \<Rightarrow> board_trial \<Rightarrow> unit flow" where
  "write_early_audit_trial_summary path t =
     write_file path (render_lines (''Flow: AX7203 Loader Early Audit Board-Only Trial'' # map (trial_line (trial_items t))
       [(''TrialName'', py_str, ''trial_name''), (''PostJtagQuietMs'', py_str, ''post_jtag_quiet_ms''),
        (''HeaderSendDelayMs'', py_str, ''header_send_delay_ms''), (''BuildID'', py_str, ''build_id''),
        (''Pass'', py_str, ''pass''), (''FailureStage'', py_str, ''failure_stage''),
        (''FailureDetail'', py_str, ''failure_detail''), (''SessionStartNotFound'', py_str, ''session_start_not_found''),
        (''SessionClassification'', py_str, ''session_classification''),
        (''ChosenSessionReadyArg'', py_str, ''chosen_session_ready_arg''),
        (''ChosenSessionFirstEvents'', joined, ''chosen_session_first_events''),
        (''HeaderByte0'', fmt_optional_hex, ''header_byte0''), (''HeaderByte1'', fmt_optional_hex, ''header_byte1''),
        (''BadMagicSeen'', py_str, ''bad_magic_seen''), (''BadMagicByteIndex'', py_str, ''bad_magic_byte_index''),
        (''BadReason'', py_str, ''bad_reason''), (''SummaryMask'', fmt_optional_hex, ''summary_mask''),
        (''CaptureFile'', py_str, ''capture_file''), (''CaptureRawFile'', py_str, ''capture_raw_file''),
        (''DecodedFile'', py_str, ''decoded_file''), (''SessionsFile'', py_str, ''sessions_file''),
        (''JtagLog'', py_str, ''jtag_log'')]))"

definition EARLY_AUDIT_TRAINING_COUNT_BOARD :: nat where
  "EARLY_AUDIT_TRAINING_COUNT_BOARD = 32"

definition trial_options :: "int \<Rightarrow> int \<Rightarrow> early_options" where
  "trial_options quiet delay = \<lparr>wait_for_fresh_ready_only = True, allow_blind_header_fallback = False,
     post_jtag_quiet_ms = quiet, header_send_delay_ms = delay, training_count = EARLY_AUDIT_TRAINING_COUNT_BOARD\<rparr>"

definition trial_block :: "os \<Rightarrow> board \<Rightarrow> board_job \<Rightarrow> items \<Rightarrow> string \<Rightarrow> int \<Rightarrow> int \<Rightarrow> (board_trial, unit) block" where
  "trial_block os brd job kvs dir quiet delay =
     program_board os brd job (trial_jtag_log dir) (\<lambda>bid t. t\<lparr>bt_build_id := bid\<rparr>)
       (then_do (perform (run_uart_loader_early_audit_capture brd True None kvs (bj_capture_seconds job) (trial_files dir)
          (Some (in_dir dir ''sessions.json'')) (bj_uart_baud job) (trial_options quiet delay))) (\<lambda>r.
        assign (\<lambda>t. t\<lparr>bt_result := Some r, bt_pass := early_audit_passed r\<rparr>)))"

text \<open>Where a failed run failed: a log file of the programming command says that it was reached.\<close>

definition stage_from_log :: "string \<Rightarrow> string \<Rightarrow> string flow" where
  "stage_from_log log later = and_then (look_file log) (\<lambda>t. give (if t = None then ''program_jtag'' else later))"

definition run_loader_early_audit_board_trial ::
  "os \<Rightarrow> board \<Rightarrow> (py_exc \<Rightarrow> string) \<Rightarrow> board_job \<Rightarrow> items \<Rightarrow> string \<Rightarrow> string \<Rightarrow> int \<Rightarrow> int \<Rightarrow> board_trial flow" where
  "run_loader_early_audit_board_trial os brd shown job kvs dir name quiet delay =
     and_then (import_serial brd ''board early-audit sweep'') (\<lambda>_.
     and_then (try_except (trial_block os brd job kvs dir quiet delay) (new_trial dir name quiet delay)) (\<lambda>(caught, t).
     and_then (case caught of
         None \<Rightarrow> give t
       | Some e \<Rightarrow> and_then (stage_from_log (trial_jtag_log dir) ''uart_load_and_capture_early_audit'') (\<lambda>s.
           give (t\<lparr>bt_failure_stage := s, bt_failure_detail := exc_text shown e\<rparr>))) (\<lambda>t.
     and_then (write_early_audit_trial_summary (in_dir dir ''summary.txt'') t) (\<lambda>_. give t))))"

section \<open>The sweep\<close>

definition EARLY_AUDIT_SWEEP_TRIALS :: "(string \<times> int \<times> int) list" where
  "EARLY_AUDIT_SWEEP_TRIALS = [(''Q100_H0'', 100, 0), (''Q200_H0'', 200, 0), (''Q100_H10'', 100, 10)]"

fun sweep_trials ::
  "os \<Rightarrow> board \<Rightarrow> (py_exc \<Rightarrow> string) \<Rightarrow> board_job \<Rightarrow> items \<Rightarrow> string \<Rightarrow> (string \<times> int \<times> int) list
     \<Rightarrow> board_trial list \<Rightarrow> (string \<times> board_trial list) flow" where
  "sweep_trials os brd shown job kvs logs [] results = give (''none'', results)"
| "sweep_trials os brd shown job kvs logs ((name, quiet, delay) # trials) results =
     and_then (run_loader_early_audit_board_trial os brd shown job kvs (in_dir logs name) name quiet delay) (\<lambda>t.
       if bt_pass t then give (name, results @ [t])
       else sweep_trials os brd shown job kvs logs trials (results @ [t]))"

definition sweep_trial_lines :: "string \<Rightarrow> board_trial \<Rightarrow> string list" where
  "sweep_trial_lines logs t =
     [] # map (trial_line (trial_items t))
       [(''TrialName'', py_str, ''trial_name''), (''PostJtagQuietMs'', py_str, ''post_jtag_quiet_ms''),
        (''HeaderSendDelayMs'', py_str, ''header_send_delay_ms''), (''BuildID'', py_str, ''build_id''),
        (''Pass'', py_str, ''pass''), (''FailureStage'', py_str, ''failure_stage''),
        (''FailureDetail'', py_str, ''failure_detail''), (''SessionStartNotFound'', py_str, ''session_start_not_found''),
        (''SessionClassification'', py_str, ''session_classification''),
        (''ChosenSessionFirstEvents'', joined, ''chosen_session_first_events''),
        (''HeaderByte0'', fmt_optional_hex, ''header_byte0''), (''HeaderByte1'', fmt_optional_hex, ''header_byte1''),
        (''BadMagicSeen'', py_str, ''bad_magic_seen''), (''BadMagicByteIndex'', py_str, ''bad_magic_byte_index''),
        (''BadReason'', py_str, ''bad_reason''), (''SummaryMask'', fmt_optional_hex, ''summary_mask'')]
     @ [''TrialSummary: '' @ in_dir (in_dir logs (bt_name t)) ''summary.txt'']"

definition run_loader_early_audit_board_sweep ::
  "os \<Rightarrow> board \<Rightarrow> (py_exc \<Rightarrow> string) \<Rightarrow> board_job \<Rightarrow> items \<Rightarrow> string \<Rightarrow> int flow" where
  "run_loader_early_audit_board_sweep os brd shown job kvs logs =
     and_then (sweep_trials os brd shown job kvs logs EARLY_AUDIT_SWEEP_TRIALS []) (\<lambda>(winning, results).
     and_then (write_json (in_dir logs ''sweep_summary.json'')
       (JObj [(''EarlyStopOnPass'', JBool True), (''WinningTrial'', JStr winning),
              (''Trials'', JList (map (JObj \<circ> trial_items) results))])) (\<lambda>_.
     and_then (write_file (in_dir logs ''sweep_summary.txt'') (render_lines
       ([''Flow: AX7203 Loader Early Audit Board-Only 3-Point Sweep'', ''WinningTrial: '' @ winning, ''EarlyStopOnPass: True'']
        @ concat (map (sweep_trial_lines logs) results)))) (\<lambda>_.
     give (if winning \<noteq> ''none'' then 0 else 1))))"

section \<open>The beacon self-test on the board\<close>

text \<open>
  A thread reads the port from before the programming on; what the loop that waits for the verdict sees
  at each look is the text of the thread's exception, if it had one, and the bytes so far.  The looks end
  with the time for the capture, and the bytes at the end may be more than at the last look.
\<close>

fun selftest_polls :: "(string option \<times> bytes) list \<Rightarrow> unit flow" where
  "selftest_polls [] = give ()"
| "selftest_polls ((err, raw) # polls) =
     (case err of
        Some e \<Rightarrow> raise_exc (RuntimeError (''Beacon selftest UART capture failed: '' @ e))
      | None \<Rightarrow> (let a = analyze_loader_beacon_selftest_beacon raw in
          if sr_pass a \<or> sr_summary_seen a then give () else selftest_polls polls))"

record selftest_locals =
  sb_result :: "selftest_capture option"
  sb_build_id :: string

definition selftest_board_files :: "os \<Rightarrow> capture_files" where
  "selftest_board_files os = \<lparr>cf_text = build_file os ''loader_beacon_selftest_uart_capture.txt'',
     cf_raw = build_file os ''loader_beacon_selftest_uart_capture.bin'',
     cf_decoded = build_file os ''loader_beacon_selftest_uart_capture.loader.decoded.txt''\<rparr>"

definition selftest_sessions_file :: "os \<Rightarrow> string" where
  "selftest_sessions_file os = build_file os ''loader_beacon_selftest_sessions.json''"

definition selftest_listen :: "os \<Rightarrow> board \<Rightarrow> selftest_capture flow" where
  "selftest_listen os brd m =
     (case port_polls brd (actions m) of (polls, raw) \<Rightarrow>
        and_then (selftest_polls polls) (\<lambda>_ m.
          let r = finalize_loader_beacon_selftest_capture raw in
          (Inr r, m\<lparr>files := write_files (selftest_files (selftest_board_files os) (Some (selftest_sessions_file os)) raw r)
             (files m)\<rparr>)) m)"

definition selftest_block :: "os \<Rightarrow> board \<Rightarrow> board_job \<Rightarrow> string \<Rightarrow> (selftest_locals, unit) block" where
  "selftest_block os brd job log =
     program_board os brd job log (\<lambda>bid l. l\<lparr>sb_build_id := bid\<rparr>)
       (then_do (perform (selftest_listen os brd)) (\<lambda>r.
        then_do (assign (\<lambda>l. l\<lparr>sb_result := Some r\<rparr>)) (\<lambda>_.
        perform (require (sr_pass (sc_analysis r)) (RuntimeError (''Beacon selftest capture mismatch (''
          @ sr_session_classification (sc_analysis r) @ ''); see '' @ cf_decoded (selftest_board_files os)))))))"

text \<open>The summary; an empty result gives every item its default.\<close>

definition selftest_item :: "selftest_locals \<Rightarrow> 'a \<Rightarrow> (selftest_result \<Rightarrow> 'a) \<Rightarrow> 'a" where
  "selftest_item l other f = (case sb_result l of None \<Rightarrow> other | Some r \<Rightarrow> f (sc_analysis r))"

definition selftest_chosen :: "selftest_locals \<Rightarrow> 'a \<Rightarrow> 'a \<Rightarrow> (selftest_session \<Rightarrow> 'a) \<Rightarrow> 'a" where
  "selftest_chosen l other none f = selftest_item l other (\<lambda>a. case sr_chosen a of None \<Rightarrow> none | Some x \<Rightarrow> f x)"

definition selftest_summary_lines :: "os \<Rightarrow> selftest_locals \<Rightarrow> string \<Rightarrow> string \<Rightarrow> string \<Rightarrow> string list" where
  "selftest_summary_lines os l stage why log =
     (let path = (\<lambda>p. selftest_item l ''N/A'' (\<lambda>a. p)); cf = selftest_board_files os
      in [''Flow: AX7203 Loader Beacon Selftest'',
          ''Pass: '' @ str_bool (selftest_item l False sr_pass \<and> stage = ''none''),
          ''BuildID: '' @ sb_build_id l,
          ''FailureStage: '' @ stage,
          ''FailureDetail: '' @ (if why = [] then ''none'' else why),
          ''SessionCount: '' @ dec_str (selftest_item l 0 sr_session_count),
          ''PassSessionCount: '' @ dec_str (selftest_item l 0 sr_pass_session_count),
          ''GoodFrames: '' @ dec_str (selftest_item l 0 sr_good_frames),
          ''BadFrames: '' @ dec_str (selftest_item l 0 sr_bad_frames),
          ''SessionClassification: '' @ selftest_item l ''N/A'' sr_session_classification,
          ''ChosenSessionIndex: '' @ py_str (selftest_chosen l (JStr ''N/A'') JNull (\<lambda>x. json_nat (st_session_index x))),
          ''ChosenSessionOffset: '' @ fmt_optional_hex (selftest_chosen l (JStr ''N/A'') JNull (\<lambda>x. json_opt json_nat (st_start_offset x))),
          ''ChosenSessionReadyArg: '' @ fmt_optional_hex (selftest_chosen l (JStr ''N/A'') JNull (\<lambda>x. json_opt json_byte (st_ready_arg x))),
          ''ChosenSessionFirstEvents: '' @ join_with '','' (selftest_chosen l [] [] st_first_event_types),
          ''ChosenSessionMatchedPrefixLen: '' @ dec_str (selftest_chosen l 0 0 st_matched_prefix_len),
          ''ChosenSessionEventCount: '' @ dec_str (selftest_chosen l 0 0 st_event_count),
          ''ChosenSessionOrderValid: '' @ str_bool (selftest_chosen l False False st_event_order_valid),
          ''ChosenSessionOrderError: '' @ selftest_chosen l [] [] st_event_order_error,
          ''CaptureFile: '' @ path (cf_text cf),
          ''CaptureRawFile: '' @ path (cf_raw cf),
          ''DecodedFile: '' @ path (cf_decoded cf),
          ''SessionsFile: '' @ path (selftest_sessions_file os),
          ''JtagLog: '' @ log])"

definition run_loader_beacon_selftest_board ::
  "os \<Rightarrow> board \<Rightarrow> (py_exc \<Rightarrow> string) \<Rightarrow> board_job \<Rightarrow> string \<Rightarrow> (selftest_locals \<times> string \<times> string) flow" where
  "run_loader_beacon_selftest_board os brd shown job logs =
     (let log = in_dir logs ''10_program_jtag.log'' in
      and_then (import_serial brd ''board beacon selftest capture'') (\<lambda>_.
      and_then (try_except (selftest_block os brd job log) \<lparr>sb_result = None, sb_build_id = ''N/A''\<rparr>) (\<lambda>(caught, l).
      and_then (case caught of
          None \<Rightarrow> give (''none'', [])
        | Some e \<Rightarrow> and_then (look_file log) (\<lambda>t.
            give (if t \<noteq> None then ''uart_capture_beacon_selftest'' else ''program_jtag'', exc_text shown e))) (\<lambda>(stage, why).
      and_then (write_file (in_dir logs ''summary.txt'') (render_lines (selftest_summary_lines os l stage why log))) (\<lambda>_.
      give (l, stage, why))))))"

section \<open>The benchmark on the board\<close>

definition smoke_files :: "os \<Rightarrow> capture_files" where
  "smoke_files os = \<lparr>cf_text = build_file os ''dhrystone_ddr3_smoke_uart_capture.txt'',
     cf_raw = build_file os ''dhrystone_ddr3_smoke_uart_capture.bin'',
     cf_decoded = build_file os ''dhrystone_ddr3_smoke_uart_capture.loader.decoded.txt''\<rparr>"

definition baseline_files :: "os \<Rightarrow> capture_files" where
  "baseline_files os = \<lparr>cf_text = build_file os ''dhrystone_ddr3_uart_capture.txt'',
     cf_raw = build_file os ''dhrystone_ddr3_uart_capture.bin'',
     cf_decoded = build_file os ''dhrystone_ddr3_uart_capture.loader.decoded.txt''\<rparr>"

text \<open>One load: the port, the bitstream, the build id and the drive.\<close>

definition board_load ::
  "os \<Rightarrow> board \<Rightarrow> board_job \<Rightarrow> items \<Rightarrow> string \<Rightarrow> capture_files \<Rightarrow> (string, drive_result) block" where
  "board_load os brd job kvs log cf =
     program_board os brd job log (\<lambda>bid l. bid)
       (perform (run_uart_loader_capture brd True None kvs (bj_capture_seconds job) cf (bj_uart_baud job) True))"

definition smoke_checks :: "os \<Rightarrow> drive_result \<Rightarrow> unit flow" where
  "smoke_checks os r =
     (let see = ''; see '' @ cf_text (smoke_files os) in
      and_then (require (\<not> bad_seen (dr_analysis r))
        (RuntimeError (''Smoke loader beacon reported failure ('' @ dr_bad_reason r @ '')'' @ see))) (\<lambda>_.
      and_then (require (summary_seen (dr_analysis r)) (RuntimeError (''Smoke loader beacon missing SUMMARY'' @ see))) (\<lambda>_.
      and_then (require (summary_ok_seen (dr_analysis r)) (RuntimeError (''Smoke loader SUMMARY indicates failure'' @ see))) (\<lambda>_.
      and_then (require (dr_saw_start r) (RuntimeError (''Smoke board run missing DHRYSTONE START'' @ see))) (\<lambda>_.
      require (dr_saw_done r) (RuntimeError (''Smoke board run missing DHRYSTONE DONE'' @ see)))))))"

record board_capture =
  bc_result :: drive_result
  bc_smoke :: drive_result
  bc_build_id :: string
  bc_capture_file :: string

definition dhrystone_block ::
  "os \<Rightarrow> board \<Rightarrow> board_job \<Rightarrow> string \<Rightarrow> int \<Rightarrow> items \<Rightarrow> items \<Rightarrow> (string, drive_result \<times> drive_result \<times> string) block" where
  "dhrystone_block os brd job logs dhrystone_runs smoke_manifest baseline_manifest =
     then_do (board_load os brd job smoke_manifest (in_dir logs ''10_program_jtag_smoke.log'') (smoke_files os)) (\<lambda>smoke.
     then_do (perform (smoke_checks os smoke)) (\<lambda>_.
     if dhrystone_runs = 1 then perform (give (smoke, smoke, cf_text (smoke_files os)))
     else
       then_do (board_load os brd job baseline_manifest (in_dir logs ''11_program_jtag_baseline.log'') (baseline_files os)) (\<lambda>r.
       perform (give (r, smoke, cf_text (baseline_files os))))))"

definition run_dhrystone_board_capture ::
  "os \<Rightarrow> board \<Rightarrow> board_job \<Rightarrow> string \<Rightarrow> int \<Rightarrow> items \<Rightarrow> items \<Rightarrow> board_capture flow" where
  "run_dhrystone_board_capture os brd job logs dhrystone_runs smoke_manifest baseline_manifest =
     and_then (import_serial brd ''board benchmark UART loading'') (\<lambda>_ m.
       case dhrystone_block os brd job logs dhrystone_runs smoke_manifest baseline_manifest ''N/A'' m of
         (Inl e, bid, m') \<Rightarrow> (Inl e, m')
       | (Inr (r, smoke, path), bid, m') \<Rightarrow>
           (Inr \<lparr>bc_result = r, bc_smoke = smoke, bc_build_id = bid, bc_capture_file = path\<rparr>, m'))"

section \<open>What programming does\<close>

lemma run_logged_ends:
  obtains (passed) fs out where "run_logged exc os c m = (Inr (), \<lparr>files = fs(cmd_log c \<mapsto> log_of c (Exited 0 out)),
        actions = actions m @ [Ran c (Exited 0 out)]\<rparr>)"
    | (failed) e fs r where "run_logged exc os c m = (Inl e, \<lparr>files = fs(cmd_log c \<mapsto> log_of c r), actions = actions m @ [Ran c r]\<rparr>)"
        "\<forall>out. r \<noteq> Exited 0 out" "(\<exists>rc. e = exc rc c) \<or> e \<in> {TimeoutExpired, OSError}"
proof -
  obtain r fs where r: "run_cmd os (actions m) c ((files m)(cmd_log c \<mapsto> log_header c)) = (r, fs)"
    by fastforce
  show thesis
  proof (cases r)
    case (Exited rc out)
    then show thesis
      using passed [of fs out] failed [of "exc rc c" fs r] r
      by (cases "rc = 0") (auto simp: run_logged_def run_logged_rc_def and_then_def require_def give_def raise_exc_def)
  next
    case (Expired out)
    then show thesis
      using failed [of TimeoutExpired fs r] r by (auto simp: run_logged_def run_logged_rc_def and_then_def)
  next
    case Unstarted
    then show thesis
      using failed [of OSError fs r] r by (auto simp: run_logged_def run_logged_rc_def and_then_def)
  qed
qed

text \<open>The port does not open, the command fails, or the rest goes on from the programmed board.\<close>

definition programmed :: "os \<Rightarrow> board_job \<Rightarrow> string \<Rightarrow> file_map \<Rightarrow> string \<Rightarrow> machine \<Rightarrow> machine" where
  "programmed os job log fs out m =
     \<lparr>files = fs(log \<mapsto> log_of (program_command os job log) (Exited 0 out)),
      actions = actions m @ [Ran (program_command os job log) (Exited 0 out)]\<rparr>"

lemma program_board_cases:
  obtains (closed) "\<not> port_opens brd (actions m) (bj_port job) (bj_uart_baud job)"
      "program_board os brd job log keep rest l m = (Inl OSError, l, m)"
    | (stopped) e m' r where "program_board os brd job log keep rest l m = (Inl e, l, m')" "is_exception e"
      "actions m' = actions m @ [Ran (program_command os job log) r]" "files m' log \<noteq> None" "\<forall>out. r \<noteq> Exited 0 out"
    | (went_on) fs out bid where
      "program_board os brd job log keep rest l m = rest (keep bid l) (programmed os job log fs out m)"
proof (cases "port_opens brd (actions m) (bj_port job) (bj_uart_baud job)")
  case False
  then show thesis
    using closed by (simp add: program_board_def then_do_def perform_def open_port_def)
next
  case opens: True
  let ?c = "program_command os job log"
  have log: "cmd_log ?c = log"
    by (simp add: program_command_def)
  show thesis
  proof (cases rule: run_logged_ends [of runtime_exc os ?c m])
    case (passed fs out)
    then show thesis
      using opens went_on [of "parse_build_id (files (programmed os job log fs out m) (BUILD_ID_FILE os))" fs out]
      by (simp add: program_board_def then_do_def perform_def open_port_def programmed_def log assign_def
          read_build_id_def and_then_def look_file_def give_def)
  next
    case (failed e fs r)
    then show thesis
      using opens stopped [of e "\<lparr>files = fs(log \<mapsto> log_of ?c r), actions = actions m @ [Ran ?c r]\<rparr>" r]
      by (auto simp: program_board_def then_do_def perform_def open_port_def log runtime_exc_def)
  qed
qed

section \<open>A trial\<close>

lemma early_capture_fails:
  "run_uart_loader_early_audit_capture brd True port kvs secs cf sessions baud opt m = (Inl e, m') \<Longrightarrow> m' = m \<and> is_exception e"
  using read_payload_keeps [of kvs m] word_item_keeps
  by (auto simp: run_uart_loader_early_audit_capture_def with_port_def read_early_manifest_def flow_Inr and_then_Inl
      exchange_def read_payload_def bin_path_def raise_exc_def give_def read_text_def word_item_def
      split: option.splits json.splits if_splits)

text \<open>How a trial ends: nothing programmed, programming failed, no result, or a result of the drive.\<close>

definition trial_accepts ::
  "board \<Rightarrow> board_job \<Rightarrow> items \<Rightarrow> int \<Rightarrow> int \<Rightarrow> machine \<Rightarrow> early_drive_result \<Rightarrow> bool" where
  "trial_accepts brd job kvs quiet delay m r \<longleftrightarrow>
     (\<exists>man start script. read_early_manifest kvs m = (Inr man, m) \<and> port_reads brd (actions m) = Some (start, script)
        \<and> r = drive_uart_loader_early_audit (board_env brd) (trial_options quiet delay) man
              (seconds (bj_capture_seconds job)) start script)"

lemma trial_block_ends:
  assumes run: "trial_block os brd job kvs dir quiet delay l m = (r, l', m')"
  shows "(\<exists>e. r = Inl e \<and> is_exception e \<and> bt_result l' = bt_result l \<and> bt_pass l' = bt_pass l
      \<and> bt_failure_stage l' = bt_failure_stage l \<and> bt_name l' = bt_name l
      \<and> (m' = m \<or> files m' (trial_jtag_log dir) \<noteq> None
           \<and> (\<exists>res. actions m' = actions m @ [Ran (program_command os job (trial_jtag_log dir)) res])))
    \<or> (\<exists>d fs out. let m1 = programmed os job (trial_jtag_log dir) fs out m in
        r = Inr () \<and> trial_accepts brd job kvs quiet delay m1 d \<and> actions m' = actions m1
        \<and> bt_result l' = Some d \<and> bt_pass l' = early_audit_passed d \<and> bt_failure_stage l' = bt_failure_stage l
        \<and> bt_name l' = bt_name l)"
proof (cases rule: program_board_cases [of brd m job os "trial_jtag_log dir" "\<lambda>bid t. t\<lparr>bt_build_id := bid\<rparr>"
    "then_do (perform (run_uart_loader_early_audit_capture brd True None kvs (bj_capture_seconds job) (trial_files dir)
       (Some (in_dir dir ''sessions.json'')) (bj_uart_baud job) (trial_options quiet delay))) (\<lambda>r.
       assign (\<lambda>t. t\<lparr>bt_result := Some r, bt_pass := early_audit_passed r\<rparr>))" l])
  case closed
  then show ?thesis using run by (auto simp: trial_block_def)
next
  case (stopped e m1 res)
  then show ?thesis using run by (auto simp: trial_block_def)
next
  case (went_on fs out bid)
  let ?m1 = "programmed os job (trial_jtag_log dir) fs out m"
  let ?f = "run_uart_loader_early_audit_capture brd True None kvs (bj_capture_seconds job) (trial_files dir)
       (Some (in_dir dir ''sessions.json'')) (bj_uart_baud job) (trial_options quiet delay)"
  obtain x m2 where f: "?f ?m1 = (x, m2)" by fastforce
  show ?thesis
  proof (cases x)
    case (Inl e)
    then show ?thesis
      using went_on run f early_capture_fails [OF f [unfolded Inl]]
      by (auto simp: trial_block_def then_do_def perform_def programmed_def)
  next
    case (Inr d)
    have "trial_accepts brd job kvs quiet delay ?m1 d" "actions m2 = actions ?m1"
      using early_capture_Inr [THEN iffD1, OF f [unfolded Inr]] by (auto simp: trial_accepts_def)
    moreover have "r = Inr ()" "l' = l\<lparr>bt_build_id := bid, bt_result := Some d, bt_pass := early_audit_passed d\<rparr>" "m' = m2"
      using went_on run f Inr by (auto simp: trial_block_def then_do_def perform_def assign_def)
    ultimately show ?thesis
      unfolding Let_def by (intro disjI2 exI [of _ d] exI [of _ fs] exI [of _ out]) simp
  qed
qed

lemma trial_ends:
  assumes run: "run_loader_early_audit_board_trial os brd shown job kvs dir name quiet delay m = (Inr t, m')"
  shows "bt_name t = name \<and>
    ((\<not> bt_pass t \<and> bt_result t = None \<and> bt_failure_stage t = ''program_jtag'' \<and> actions m' = actions m)
     \<or> (\<not> bt_pass t \<and> bt_result t = None \<and> bt_failure_stage t = ''uart_load_and_capture_early_audit''
        \<and> (files m (trial_jtag_log dir) = None \<longrightarrow>
             (\<exists>res. actions m' = actions m @ [Ran (program_command os job (trial_jtag_log dir)) res])))
     \<or> (\<exists>d fs out. bt_failure_stage t = ''none'' \<and> bt_result t = Some d \<and> bt_pass t = early_audit_passed d
        \<and> actions m' = actions m @ [Ran (program_command os job (trial_jtag_log dir)) (Exited 0 out)]
        \<and> trial_accepts brd job kvs quiet delay (programmed os job (trial_jtag_log dir) fs out m) d))"
proof -
  obtain caught t1 m1 where tr: "try_except (trial_block os brd job kvs dir quiet delay) (new_trial dir name quiet delay) m
      = (Inr (caught, t1), m1)"
    and rest: "and_then (case caught of
         None \<Rightarrow> give t1
       | Some e \<Rightarrow> and_then (stage_from_log (trial_jtag_log dir) ''uart_load_and_capture_early_audit'') (\<lambda>s.
           give (t1\<lparr>bt_failure_stage := s, bt_failure_detail := exc_text shown e\<rparr>))) (\<lambda>t.
       and_then (write_early_audit_trial_summary (in_dir dir ''summary.txt'') t) (\<lambda>_. give t)) m1 = (Inr t, m')"
    using run by (auto simp: run_loader_early_audit_board_trial_def import_serial_Inr and_then_Inr)
  note blk = trial_block_ends [OF try_except_cases [OF tr, THEN conjunct1]]
  show ?thesis
  proof (cases caught)
    case None
    then show ?thesis
      using blk rest by (auto simp: flow_Inr write_early_audit_trial_summary_def new_trial_def programmed_def Let_def)
  next
    case (Some e)
    then show ?thesis
      using blk rest
      by (auto simp: flow_Inr write_early_audit_trial_summary_def new_trial_def stage_from_log_def)
  qed
qed

section \<open>A sweep\<close>

text \<open>A trial won: the board was programmed last and what it then said passes the audit.\<close>

definition trial_won :: "os \<Rightarrow> board \<Rightarrow> board_job \<Rightarrow> items \<Rightarrow> string \<Rightarrow> (string \<times> int \<times> int) \<Rightarrow> machine \<Rightarrow> bool" where
  "trial_won os brd job kvs logs p m \<longleftrightarrow>
     (\<exists>d out m1. actions m1 = actions m \<and> actions m \<noteq> []
        \<and> last (actions m) = Ran (program_command os job (trial_jtag_log (in_dir logs (fst p)))) (Exited 0 out)
        \<and> trial_accepts brd job kvs (fst (snd p)) (snd (snd p)) m1 d \<and> early_audit_passed d)"

lemma trial_wins:
  assumes "run_loader_early_audit_board_trial os brd shown job kvs (in_dir logs name) name quiet delay m = (Inr t, m')"
    and "bt_pass t"
  shows "trial_won os brd job kvs logs (name, quiet, delay) m'"
proof -
  obtain d fs out where
    "actions m' = actions m @ [Ran (program_command os job (trial_jtag_log (in_dir logs name))) (Exited 0 out)]"
    "trial_accepts brd job kvs quiet delay (programmed os job (trial_jtag_log (in_dir logs name)) fs out m) d"
    "early_audit_passed d"
    using trial_ends [OF assms(1)] assms(2) by auto
  then show ?thesis
    unfolding trial_won_def
    by (intro exI [of _ d] exI [of _ out] exI [of _ "programmed os job (trial_jtag_log (in_dir logs name)) fs out m"])
      (auto simp: programmed_def)
qed

lemma sweep_trials_ends:
  assumes "sweep_trials os brd shown job kvs logs trials results m = (Inr (winning, rs), m')"
  shows "\<exists>ts. rs = results @ ts \<and> map bt_name ts = take (length ts) (map fst trials)
    \<and> (winning = ''none'' \<and> length ts = length trials \<and> list_all (\<lambda>t. \<not> bt_pass t) ts
       \<or> (\<exists>p \<in> set trials. ts \<noteq> [] \<and> winning = fst p \<and> bt_name (last ts) = winning \<and> bt_pass (last ts)
            \<and> list_all (\<lambda>t. \<not> bt_pass t) (butlast ts) \<and> trial_won os brd job kvs logs p m'))"
  using assms
proof (induction trials arbitrary: results m)
  case Nil
  then show ?case by (auto simp: give_Inr)
next
  case (Cons p trials)
  obtain name quiet delay where p: "p = (name, quiet, delay)" by (metis prod_cases3)
  obtain t m1 where t: "run_loader_early_audit_board_trial os brd shown job kvs (in_dir logs name) name quiet delay m = (Inr t, m1)"
    and rest: "(if bt_pass t then give (name, results @ [t])
       else sweep_trials os brd shown job kvs logs trials (results @ [t])) m1 = (Inr (winning, rs), m')"
    using Cons.prems p by (auto simp: and_then_Inr)
  have name: "bt_name t = name"
    using trial_ends [OF t] by blast
  show ?case
  proof (cases "bt_pass t")
    case True
    then show ?thesis
      using rest trial_wins [OF t True] name p by (intro exI [of _ "[t]"]) (auto simp: give_Inr)
  next
    case False
    then have "sweep_trials os brd shown job kvs logs trials (results @ [t]) m1 = (Inr (winning, rs), m')"
      using rest by simp
    from Cons.IH [OF this] obtain ts where ts: "rs = (results @ [t]) @ ts" "map bt_name ts = take (length ts) (map fst trials)"
      "winning = ''none'' \<and> length ts = length trials \<and> list_all (\<lambda>t. \<not> bt_pass t) ts
       \<or> (\<exists>p \<in> set trials. ts \<noteq> [] \<and> winning = fst p \<and> bt_name (last ts) = winning \<and> bt_pass (last ts)
            \<and> list_all (\<lambda>t. \<not> bt_pass t) (butlast ts) \<and> trial_won os brd job kvs logs p m')"
      by blast
    show ?thesis
      using ts name p False by (intro exI [of _ "t # ts"]) auto
  qed
qed

text \<open>
  C37. The sweep over the quiet times: the trials are run in their order and no further than the first that
  passes; the summary files hold exactly the trials run; the sweep returns 0 when the last one passed, and
  that says that the board was programmed without an error just before and that the bytes it then sent
  pass the audit; it returns 1 only when all three trials were run and none passed.
\<close>

theorem sweep_verdict:
  assumes "run_loader_early_audit_board_sweep os brd shown job kvs logs m = (Inr rc, m')"
  shows "\<exists>ts. map bt_name ts = take (length ts) [''Q100_H0'', ''Q200_H0'', ''Q100_H10'']
    \<and> list_all (\<lambda>t. \<not> bt_pass t) (butlast ts) \<and> ts \<noteq> []
    \<and> files m' (in_dir logs ''sweep_summary.json'') = Some (json_dumps False (JObj [(''EarlyStopOnPass'', JBool True),
         (''WinningTrial'', JStr (if rc = 0 then bt_name (last ts) else ''none'')),
         (''Trials'', JList (map (JObj \<circ> trial_items) ts))]) @ newline)
    \<and> (rc = 0 \<and> bt_pass (last ts) \<and> (\<exists>p \<in> set EARLY_AUDIT_SWEEP_TRIALS. trial_won os brd job kvs logs p m')
       \<or> rc = 1 \<and> \<not> bt_pass (last ts) \<and> length ts = 3)"
proof -
  obtain winning ts m1 where sw: "sweep_trials os brd shown job kvs logs EARLY_AUDIT_SWEEP_TRIALS [] m = (Inr (winning, ts), m1)"
    and rc: "rc = (if winning \<noteq> ''none'' then 0 else 1)" and acts: "actions m' = actions m1"
    and json: "files m' (in_dir logs ''sweep_summary.json'') = Some (json_dumps False (JObj [(''EarlyStopOnPass'', JBool True),
         (''WinningTrial'', JStr winning), (''Trials'', JList (map (JObj \<circ> trial_items) ts))]) @ newline)"
    using assms by (auto simp: run_loader_early_audit_board_sweep_def flow_Inr write_json_def in_dir_def)
  have won: "trial_won os brd job kvs logs p m' = trial_won os brd job kvs logs p m1" for p
    by (simp add: trial_won_def acts)
  have names: "map fst EARLY_AUDIT_SWEEP_TRIALS = [''Q100_H0'', ''Q200_H0'', ''Q100_H10'']" "length EARLY_AUDIT_SWEEP_TRIALS = 3"
    "p \<in> set EARLY_AUDIT_SWEEP_TRIALS \<Longrightarrow> fst p \<noteq> ''none''" for p
    by (auto simp: EARLY_AUDIT_SWEEP_TRIALS_def)
  from sweep_trials_ends [OF sw] consider
      (none) "winning = ''none''" "length ts = 3" "list_all (\<lambda>t. \<not> bt_pass t) ts"
    | (winner) p where "p \<in> set EARLY_AUDIT_SWEEP_TRIALS" "ts \<noteq> []" "winning = fst p" "bt_name (last ts) = winning"
        "bt_pass (last ts)" "list_all (\<lambda>t. \<not> bt_pass t) (butlast ts)" "trial_won os brd job kvs logs p m1"
    using names by auto
  then show ?thesis
  proof cases
    case none
    then have "ts \<noteq> []" by auto
    then show ?thesis
      using none sweep_trials_ends [OF sw] rc json names
      by (intro exI [of _ ts]) (auto simp: list_all_iff in_set_butlastD)
  next
    case winner
    then show ?thesis
      using sweep_trials_ends [OF sw] rc json names won by (intro exI [of _ ts]) auto
  qed
qed

text \<open>
  C38. Where a trial says it failed: \<^verbatim>\<open>program_jtag\<close> is said only when no programming was tried at all; a
  programming command that was started and failed is reported as \<^verbatim>\<open>uart_load_and_capture_early_audit\<close>,
  because the command's log file, whose absence is what tells the stages apart, is made before the command
  is started.
\<close>

theorem trial_failure_stage:
  assumes "run_loader_early_audit_board_trial os brd shown job kvs dir name quiet delay m = (Inr t, m')"
  shows "(bt_failure_stage t = ''program_jtag'' \<longrightarrow> actions m' = actions m)
    \<and> (\<forall>c r. actions m' = actions m @ [Ran c r] \<and> (\<forall>out. r \<noteq> Exited 0 out)
         \<longrightarrow> bt_failure_stage t = ''uart_load_and_capture_early_audit'')
    \<and> (bt_failure_stage t = ''none'' \<longleftrightarrow> bt_result t \<noteq> None) \<and> (bt_pass t \<longrightarrow> bt_failure_stage t = ''none'')"
  using trial_ends [OF assms] by auto

section \<open>The self-test and the benchmark\<close>

lemma selftest_polls_quiet: "selftest_polls polls m = (r, m') \<Longrightarrow> m' = m \<and> (\<forall>e. r = Inl e \<longrightarrow> is_exception e)"
  by (induction polls rule: selftest_polls.induct)
    (auto simp: give_def raise_exc_def Let_def split: option.splits if_splits)

lemma selftest_listen_ends:
  "selftest_listen os brd m = (r, m') \<Longrightarrow> actions m' = actions m \<and> (\<forall>e. r = Inl e \<longrightarrow> is_exception e)
     \<and> (\<forall>x. r = Inr x \<longrightarrow> x = finalize_loader_beacon_selftest_capture (snd (port_polls brd (actions m))))"
  by (auto simp: selftest_listen_def and_then_def Let_def split: prod.splits sum.splits dest!: selftest_polls_quiet)

text \<open>
  The verdict of the self-test: no failure is reported only when the board was programmed without an error
  and all that was captured up to the end passes the analysis.
\<close>

lemma selftest_board_verdict:
  assumes "run_loader_beacon_selftest_board os brd shown job logs m = (Inr (l, stage, why), m')"
  shows "stage = ''none'' \<longrightarrow> (\<exists>out raw. sb_result l = Some (finalize_loader_beacon_selftest_capture raw)
      \<and> sr_pass (analyze_loader_beacon_selftest_beacon raw) \<and> raw = snd (port_polls brd (actions m'))
      \<and> actions m' = actions m @ [Ran (program_command os job (in_dir logs ''10_program_jtag.log'')) (Exited 0 out)])"
proof
  assume none: "stage = ''none''"
  let ?log = "in_dir logs ''10_program_jtag.log''"
  let ?l0 = "\<lparr>sb_result = None, sb_build_id = ''N/A''\<rparr>"
  obtain caught m1 where tr: "try_except (selftest_block os brd job ?log) ?l0 m = (Inr (caught, l), m1)"
    and rest: "and_then (case caught of
          None \<Rightarrow> give (''none'', [])
        | Some e \<Rightarrow> and_then (look_file ?log) (\<lambda>t.
            give (if t \<noteq> None then ''uart_capture_beacon_selftest'' else ''program_jtag'', exc_text shown e))) (\<lambda>(stage, why).
      and_then (write_file (in_dir logs ''summary.txt'') (render_lines (selftest_summary_lines os l stage why ?log))) (\<lambda>_.
      give (l, stage, why))) m1 = (Inr (l, stage, why), m')"
    using assms unfolding run_loader_beacon_selftest_board_def Let_def
    by (auto simp: import_serial_Inr and_then_Inr give_Inr split: prod.splits)
  have caught: "caught = None" and acts: "actions m' = actions m1"
    using rest none by (auto simp: flow_Inr split: option.splits if_splits)
  note tr = tr [unfolded caught]
  then have blk: "selftest_block os brd job ?log ?l0 m = (Inr (), l, m1)"
    using try_except_cases [OF tr] by simp
  let ?rest = "then_do (perform (selftest_listen os brd)) (\<lambda>r.
        then_do (assign (\<lambda>l. l\<lparr>sb_result := Some r\<rparr>)) (\<lambda>_.
        perform (require (sr_pass (sc_analysis r)) (RuntimeError (''Beacon selftest capture mismatch (''
          @ sr_session_classification (sc_analysis r) @ ''); see '' @ cf_decoded (selftest_board_files os))))))"
  show "\<exists>out raw. sb_result l = Some (finalize_loader_beacon_selftest_capture raw)
      \<and> sr_pass (analyze_loader_beacon_selftest_beacon raw) \<and> raw = snd (port_polls brd (actions m'))
      \<and> actions m' = actions m @ [Ran (program_command os job (in_dir logs ''10_program_jtag.log'')) (Exited 0 out)]"
  proof (cases rule: program_board_cases [of brd m job os ?log "\<lambda>bid l. l\<lparr>sb_build_id := bid\<rparr>" ?rest ?l0])
    case closed
    then show ?thesis using blk by (simp add: selftest_block_def)
  next
    case (stopped e m2 r)
    then show ?thesis using blk by (simp add: selftest_block_def)
  next
    case (went_on fs out bid)
    let ?m1 = "programmed os job ?log fs out m"
    obtain x m2 where x: "selftest_listen os brd ?m1 = (x, m2)" by fastforce
    show ?thesis
      using blk went_on x selftest_listen_ends [OF x] acts
      by (cases x) (auto simp: selftest_block_def then_do_def perform_def assign_def require_Inr programmed_def
          finalize_loader_beacon_selftest_capture_def Let_def split: prod.splits sum.splits)
  qed
qed

lemma board_load_ends:
  assumes "board_load os brd job kvs log cf l m = (Inr r, l', m')"
  shows "\<exists>fs out man start script. read_manifest kvs (programmed os job log fs out m) = (Inr man, programmed os job log fs out m)
    \<and> port_reads brd (actions m') = Some (start, script)
    \<and> r = drive_uart_loader (board_env brd) man True (seconds (bj_capture_seconds job)) start script
    \<and> actions m' = actions m @ [Ran (program_command os job log) (Exited 0 out)]"
proof (cases rule: program_board_cases [of brd m job os log "\<lambda>bid l. bid"
    "perform (run_uart_loader_capture brd True None kvs (bj_capture_seconds job) cf (bj_uart_baud job) True)" l])
  case closed
  then show ?thesis using assms by (simp add: board_load_def)
next
  case (stopped e m2 r)
  then show ?thesis using assms by (simp add: board_load_def)
next
  case (went_on fs out bid)
  then have "run_uart_loader_capture brd True None kvs (bj_capture_seconds job) cf (bj_uart_baud job) True
      (programmed os job log fs out m) = (Inr r, m')"
    using assms by (auto simp: board_load_def perform_def split: prod.splits)
  then show ?thesis
    unfolding loader_capture_Inr by (intro exI [of _ fs] exI [of _ out]) (auto simp: programmed_def)
qed

lemma smoke_checks_Inr:
  "smoke_checks os r m = (Inr u, m') \<longleftrightarrow> m' = m \<and> \<not> bad_seen (dr_analysis r) \<and> summary_seen (dr_analysis r)
     \<and> summary_ok_seen (dr_analysis r) \<and> dr_saw_start r \<and> dr_saw_done r"
  by (auto simp: smoke_checks_def Let_def flow_Inr)

text \<open>What one load of the benchmark is: programmed without an error, then the drive on what the board sent.\<close>

definition loaded :: "os \<Rightarrow> board \<Rightarrow> board_job \<Rightarrow> items \<Rightarrow> string \<Rightarrow> action list \<Rightarrow> drive_result \<Rightarrow> bool" where
  "loaded os brd job kvs log acts r \<longleftrightarrow>
     (\<exists>before out fs man start script. acts = before @ [Ran (program_command os job log) (Exited 0 out)]
        \<and> read_manifest kvs \<lparr>files = fs, actions = acts\<rparr> = (Inr man, \<lparr>files = fs, actions = acts\<rparr>)
        \<and> port_reads brd acts = Some (start, script)
        \<and> r = drive_uart_loader (board_env brd) man True (seconds (bj_capture_seconds job)) start script)"

lemma board_load_loaded:
  assumes "board_load os brd job kvs log cf l m = (Inr r, l', m')"
  shows "loaded os brd job kvs log (actions m') r
    \<and> (\<exists>out. actions m' = actions m @ [Ran (program_command os job log) (Exited 0 out)])"
  using board_load_ends [OF assms] by (fastforce simp: loaded_def programmed_def)

text \<open>
  The benchmark on the board: a capture is returned only when the short smoke load was programmed
  without an error and its drive saw no failure, a summary with all it must say, and both the start and the
  end of the benchmark.  For one run that load is the result; otherwise the board is programmed again and
  the result is the drive of the second load, whose own outcome is left for the caller to judge.
\<close>

theorem board_capture_after_smoke:
  assumes "run_dhrystone_board_capture os brd job logs runs smoke_kvs kvs m = (Inr cap, m')"
  shows "\<exists>acts. loaded os brd job smoke_kvs (in_dir logs ''10_program_jtag_smoke.log'') acts (bc_smoke cap)
    \<and> length acts = length (actions m) + 1
    \<and> \<not> bad_seen (dr_analysis (bc_smoke cap)) \<and> summary_ok_seen (dr_analysis (bc_smoke cap))
    \<and> dr_saw_start (bc_smoke cap) \<and> dr_saw_done (bc_smoke cap)
    \<and> (if runs = 1 then bc_result cap = bc_smoke cap \<and> actions m' = acts
       else loaded os brd job kvs (in_dir logs ''11_program_jtag_baseline.log'') (actions m') (bc_result cap)
         \<and> (\<exists>a. actions m' = acts @ [a]))"
proof -
  obtain bid where blk: "dhrystone_block os brd job logs runs smoke_kvs kvs ''N/A'' m
      = (Inr (bc_result cap, bc_smoke cap, bc_capture_file cap), bid, m')"
    using assms by (auto simp: run_dhrystone_board_capture_def and_then_Inr import_serial_Inr split: prod.splits sum.splits)
  then obtain smoke bid1 m1 where load: "board_load os brd job smoke_kvs (in_dir logs ''10_program_jtag_smoke.log'')
        (smoke_files os) ''N/A'' m = (Inr smoke, bid1, m1)"
    and rest: "then_do (perform (smoke_checks os smoke)) (\<lambda>_.
       if runs = 1 then perform (give (smoke, smoke, cf_text (smoke_files os)))
       else then_do (board_load os brd job kvs (in_dir logs ''11_program_jtag_baseline.log'') (baseline_files os)) (\<lambda>r.
         perform (give (r, smoke, cf_text (baseline_files os))))) bid1 m1
      = (Inr (bc_result cap, bc_smoke cap, bc_capture_file cap), bid, m')"
    unfolding dhrystone_block_def by (auto simp: then_do_def split: prod.splits sum.splits)
  note first = board_load_loaded [OF load]
  from rest obtain u where checks: "smoke_checks os smoke m1 = (Inr u, m1)"
    by (auto simp: then_do_def perform_def smoke_checks_Inr split: prod.splits sum.splits)
  show ?thesis
  proof (cases "runs = 1")
    case True
    then have "bc_result cap = smoke \<and> bc_smoke cap = smoke \<and> m' = m1"
      using rest checks by (auto simp: then_do_def perform_def give_def)
    then show ?thesis
      using True first checks by (intro exI [of _ "actions m1"]) (auto simp: smoke_checks_Inr)
  next
    case False
    then obtain bid2 where second: "board_load os brd job kvs (in_dir logs ''11_program_jtag_baseline.log'') (baseline_files os)
        bid1 m1 = (Inr (bc_result cap), bid2, m')" and "bc_smoke cap = smoke"
      using rest checks by (auto simp: then_do_def perform_def give_def split: prod.splits sum.splits)
    then show ?thesis
      using False first checks board_load_loaded [OF second]
      by (intro exI [of _ "actions m1"]) (auto simp: smoke_checks_Inr)
  qed
qed

section \<open>Two boards\<close>

definition demo_job :: board_job where
  "demo_job = \<lparr>bj_port = ''COM5'', bj_uart_baud = 115200, bj_capture_seconds = 1, bj_vivado = ''vivado'', bj_env = Map.empty\<rparr>"

definition demo_board :: "bytes \<Rightarrow> board" where
  "demo_board wire = \<lparr>has_pyserial = True, port_opens = \<lambda>acts port baud. True,
     port_reads = \<lambda>acts. Some (0, [(2000000, wire)]), port_polls = \<lambda>acts. ([], []), board_env = default_env\<rparr>"

text \<open>No program can be started: every trial fails at the programming, and says otherwise.\<close>

definition broken_os :: os where
  "broken_os = demo_os\<lparr>run_cmd := \<lambda>acts c fs. (Unstarted, fs)\<rparr>"

lemma broken_trial:
  "\<exists>m' t. run_loader_early_audit_board_trial broken_os (demo_board wire) shown job kvs dir name quiet delay m = (Inr t, m')
     \<and> bt_failure_stage t = ''uart_load_and_capture_early_audit'' \<and> \<not> bt_pass t
     \<and> actions m' = actions m @ [Ran (program_command broken_os job (trial_jtag_log dir)) Unstarted]"
proof -
  let ?c = "program_command broken_os job (trial_jtag_log dir)"
  have run: "run_logged runtime_exc broken_os ?c m
    = (Inl OSError, \<lparr>files = (files m)(trial_jtag_log dir \<mapsto> log_header ?c), actions = actions m @ [Ran ?c Unstarted]\<rparr>)"
    by (simp add: run_logged_def run_logged_rc_def and_then_def broken_os_def log_of_def program_command_def)
  have open_it: "open_port (demo_board wire) port baud m = (Inr (), m)" for port baud
    by (simp add: open_port_def demo_board_def)
  have lib: "import_serial (demo_board wire) what m = (Inr (), m)" for what
    by (simp add: import_serial_def demo_board_def require_def give_def)
  show ?thesis
    by (simp add: run_loader_early_audit_board_trial_def and_then_def lib try_except_def trial_block_def program_board_def
        then_do_def perform_def open_it run stage_from_log_def look_file_def give_def write_early_audit_trial_summary_def
        write_file_def new_trial_def)
qed

lemma broken_sweep:
  "\<exists>m'. run_loader_early_audit_board_sweep broken_os (demo_board wire) shown job kvs logs m = (Inr 1, m')"
proof -
  have "\<exists>m' ts. sweep_trials broken_os (demo_board wire) shown job kvs logs trials results m = (Inr (''none'', ts), m')"
    for trials results m
  proof (induction trials arbitrary: results m)
    case Nil
    then show ?case by (simp add: give_def)
  next
    case (Cons p trials)
    obtain name quiet delay where p: "p = (name, quiet, delay)" by (metis prod_cases3)
    obtain m1 t where "run_loader_early_audit_board_trial broken_os (demo_board wire) shown job kvs (in_dir logs name) name
        quiet delay m = (Inr t, m1)" "\<not> bt_pass t"
      using broken_trial by blast
    then show ?case
      using Cons.IH [of "results @ [t]" m1] p by (simp add: and_then_def)
  qed
  then obtain m1 ts where "sweep_trials broken_os (demo_board wire) shown job kvs logs EARLY_AUDIT_SWEEP_TRIALS [] m
      = (Inr (''none'', ts), m1)"
    by blast
  then show ?thesis
    by (simp add: run_loader_early_audit_board_sweep_def and_then_def write_json_def write_file_def give_def)
qed

lemma sweep_verdict_witness:
  "\<exists>m' ts. run_loader_early_audit_board_sweep broken_os (demo_board []) (\<lambda>e. []) demo_job [] ''/l'' demo_start = (Inr 1, m')
     \<and> length ts = 3 \<and> files m' (in_dir ''/l'' ''sweep_summary.json'') = Some (json_dumps False (JObj
         [(''EarlyStopOnPass'', JBool True), (''WinningTrial'', JStr ''none''),
          (''Trials'', JList (map (JObj \<circ> trial_items) ts))]) @ newline)"
proof -
  obtain m' where m': "run_loader_early_audit_board_sweep broken_os (demo_board []) (\<lambda>e. []) demo_job [] ''/l'' demo_start = (Inr 1, m')"
    using broken_sweep by blast
  from sweep_verdict [OF m'] obtain ts where "length ts = 3"
    "files m' (in_dir ''/l'' ''sweep_summary.json'') = Some (json_dumps False (JObj
         [(''EarlyStopOnPass'', JBool True), (''WinningTrial'', JStr ''none''),
          (''Trials'', JList (map (JObj \<circ> trial_items) ts))]) @ newline)"
    by auto
  with m' show ?thesis by blast
qed

lemma trial_failure_stage_witness:
  "\<exists>m' t. run_loader_early_audit_board_trial broken_os (demo_board []) (\<lambda>e. []) demo_job [] ''/l'' ''Q'' 100 0 demo_start = (Inr t, m')
     \<and> bt_failure_stage t = ''uart_load_and_capture_early_audit'' \<and> bt_result t = None"
proof -
  obtain m' t where t: "run_loader_early_audit_board_trial broken_os (demo_board []) (\<lambda>e. []) demo_job [] ''/l'' ''Q'' 100 0 demo_start
      = (Inr t, m')" "actions m' = actions demo_start @ [Ran (program_command broken_os demo_job (trial_jtag_log ''/l'')) Unstarted]"
    using broken_trial by blast
  then show ?thesis
    using trial_failure_stage [OF t(1)] by auto
qed

text \<open>A board whose loader sums up a good load before the host has said anything, with the benchmark's lines.\<close>

definition smoke_wire :: bytes where
  "smoke_wire = [0xA5, 0, 0xF0, 0x1F, frame_chk 0 0xF0 0x1F] @ latin1_encode ''DHRYSTONE START DHRYSTONE DONE''"

lemma smoke_wire_analysis:
  "\<not> ready_seen (analyze_loader_beacon smoke_wire) \<and> \<not> load_start_seen (analyze_loader_beacon smoke_wire)
   \<and> \<not> bad_seen (analyze_loader_beacon smoke_wire) \<and> summary_seen (analyze_loader_beacon smoke_wire)
   \<and> summary_ok_seen (analyze_loader_beacon smoke_wire)
   \<and> contains_text ''DHRYSTONE START'' (latin1_decode (passthrough_bytes (analyze_loader_beacon smoke_wire)))
   \<and> contains_text ''DHRYSTONE DONE'' (latin1_decode (passthrough_bytes (analyze_loader_beacon smoke_wire)))
   \<and> smoke_wire \<noteq> []"
  by code_simp

lemma smoke_drive:
  assumes "wire = smoke_wire"
  shows "raw_bytes (loader_final default_env man True 1000000 0 [(2000000, wire)]) = wire"
proof -
  let ?h0 = "driver_init analyze_loader_beacon 0 1000000 [(2000000, wire)]"
  let ?h1 = "?h0\<lparr>clock := 2000000, incoming := []\<rparr>"
  let ?h2 = "ingest_serial_bytes analyze_loader_beacon wire ?h1"
  note an = smoke_wire_analysis [folded assms]
  have rd: "ser_read ?h0 = (wire, ?h1)"
    by (simp add: ser_read_def driver_init_def)
  have rest: "driver_rest ?h2 = driver_rest ?h0"
    unfolding driver_rest_ingest by (simp add: driver_rest_def)
  then have f: "\<not> sent_header ?h2" "\<not> sent_payload ?h2" "deadline ?h2 = 1000000" "\<not> ready_seen_ever ?h2"
    by (simp_all add: driver_rest_fields, simp_all add: driver_init_def)
  have an2: "analysis ?h2 = analyze_loader_beacon wire" and raw: "raw_bytes ?h2 = wire" and clk: "clock ?h2 = 2000000"
    by (simp_all add: ingest_serial_bytes_def split_beta fold_ingest_effect fold_ingest_port driver_init_def)
  have "listen_step default_env man True 1000000 ?h0 = (False, ?h2)"
    using f an an2 by (simp add: listen_step_def rd Let_def)
  then have "loader_iteration default_env man True 1000000 1000000 ?h0 = (False, ?h2)"
    using f by (simp add: loader_iteration_def retry_header_step_def payload_step_def payload_due_def)
  moreover have "drive_loop default_env man True 1000000 1000000 ?h2 = ?h2"
    using f clk by (subst drive_loop.simps) simp
  moreover have "clock ?h0 < deadline ?h0"
    by (simp add: driver_init_def)
  ultimately show ?thesis
    using raw by (simp add: loader_final_def drive_loop.simps [of _ _ _ _ _ ?h0])
qed

definition ready_os :: os where
  "ready_os = demo_os\<lparr>run_cmd := \<lambda>acts c fs. (Exited 0 [], fs)\<rparr>"

definition demo_kvs :: items where
  "demo_kvs = payload_items ''/p'' (latin1_encode ''AB'') 0x80000000"

definition payload_there :: "machine \<Rightarrow> bool" where
  "payload_there m \<longleftrightarrow> files m ''/p'' = Some ''AB''"

lemma demo_manifest_read:
  "payload_there m \<Longrightarrow> read_manifest demo_kvs m
     = (Inr \<lparr>m_payload = latin1_encode ''AB'', m_load_addr = 0x80000000, m_entry = 0x80000000, m_checksum32 = checksum32 (latin1_encode ''AB'')\<rparr>, m)"
proof -
  have "checksum32 (latin1_encode ''AB'') < 2 ^ 32"
    by (rule checksum32_bound)
  then have ab: "int (checksum32 (latin1_encode ''AB'')) < 2 ^ 32"
    by simp
  show "payload_there m \<Longrightarrow> ?thesis"
    by (simp add: payload_there_def read_manifest_def read_payload_def and_then_def bin_path_def demo_kvs_def payload_items_def
      get_item_def read_text_def give_def word_item_def ab [simplified])
qed

lemma smoke_load:
  assumes "payload_there m" and log: "log \<noteq> ''/p''" and cf: "''/p'' \<notin> {cf_text cf, cf_raw cf, cf_decoded cf,
    with_suffix (cf_raw cf) ''.host_trace.txt''}"
  shows "\<exists>r bid m'. board_load ready_os (demo_board smoke_wire) demo_job demo_kvs log cf l m = (Inr r, bid, m')
     \<and> payload_there m' \<and> smoke_checks os r m' = (Inr (), m')"
proof -
  let ?c = "program_command ready_os demo_job log"
  let ?m1 = "\<lparr>files = (files m)(log \<mapsto> log_of ?c (Exited 0 [])), actions = actions m @ [Ran ?c (Exited 0 [])]\<rparr>"
  let ?man = "\<lparr>m_payload = latin1_encode ''AB'', m_load_addr = 0x80000000, m_entry = 0x80000000, m_checksum32 = checksum32 (latin1_encode ''AB'')\<rparr>"
  let ?r = "drive_uart_loader default_env ?man True 1000000 0 [(2000000, smoke_wire)]"
  have run: "run_logged runtime_exc ready_os ?c m = (Inr (), ?m1)"
    by (simp add: run_logged_def run_logged_rc_def and_then_def ready_os_def program_command_def require_def give_def)
  have there: "payload_there ?m1"
    using assms by (simp add: payload_there_def)
  have raw: "raw_bytes (loader_final default_env ?man True 1000000 0 [(2000000, smoke_wire)]) = smoke_wire"
    by (rule smoke_drive) simp
  note an = smoke_wire_analysis
  let ?m2 = "?m1\<lparr>files := write_files (loader_files cf ?r) (files ?m1)\<rparr>"
  have "run_uart_loader_capture (demo_board smoke_wire) True None demo_kvs 1 cf 115200 True ?m1 = (Inr ?r, ?m2)"
    using demo_manifest_read [OF there] unfolding loader_capture_Inr
    by (intro exI [of _ ?man] exI [of _ "0 :: int"] exI [of _ "[(2000000, smoke_wire)]"])
      (simp add: demo_board_def seconds_def)
  moreover have "open_port (demo_board smoke_wire) port baud m = (Inr (), m)" for port baud
    by (simp add: open_port_def demo_board_def)
  ultimately have "\<exists>bid. board_load ready_os (demo_board smoke_wire) demo_job demo_kvs log cf l m = (Inr ?r, bid, ?m2)"
    by (simp add: board_load_def program_board_def then_do_def perform_def run assign_def read_build_id_def and_then_def
        look_file_def give_def demo_job_def [THEN arg_cong [where f = bj_capture_seconds]]
        demo_job_def [THEN arg_cong [where f = bj_uart_baud]])
  moreover have "payload_there ?m2"
    using there cf by (auto simp: payload_there_def write_files_def loader_files_def)
  moreover have "smoke_checks os ?r ?m2 = (Inr (), ?m2)"
    using an raw by (simp add: smoke_checks_Inr drive_uart_loader_def drive_summary_def Let_def)
  ultimately show ?thesis by blast
qed

lemma board_capture_after_smoke_witness:
  "\<exists>cap m'. run_dhrystone_board_capture ready_os (demo_board smoke_wire) demo_job ''/l'' 5 demo_kvs demo_kvs
       \<lparr>files = [''/p'' \<mapsto> ''AB''], actions = []\<rparr> = (Inr cap, m')
     \<and> summary_ok_seen (dr_analysis (bc_smoke cap)) \<and> length (actions m') = 2"
proof -
  let ?m = "\<lparr>files = [''/p'' \<mapsto> ''AB''], actions = []\<rparr>"
  have start: "payload_there ?m"
    by (simp add: payload_there_def)
  have logs: "in_dir ''/l'' ''10_program_jtag_smoke.log'' \<noteq> ''/p''" "in_dir ''/l'' ''11_program_jtag_baseline.log'' \<noteq> ''/p''"
    by (simp_all add: in_dir_def)
  have files: "''/p'' \<notin> {cf_text cf, cf_raw cf, cf_decoded cf, with_suffix (cf_raw cf) ''.host_trace.txt''}"
    if "cf = smoke_files ready_os \<or> cf = baseline_files ready_os" for cf
    using that by (auto simp: smoke_files_def baseline_files_def with_suffix_def build_file_def in_dir_def dest!: arg_cong [where f = last])
  obtain smoke bid m1 where first: "board_load ready_os (demo_board smoke_wire) demo_job demo_kvs
      (in_dir ''/l'' ''10_program_jtag_smoke.log'') (smoke_files ready_os) ''N/A'' ?m = (Inr smoke, bid, m1)"
    "payload_there m1" "smoke_checks ready_os smoke m1 = (Inr (), m1)"
    using smoke_load [OF start logs(1) files] by blast
  obtain r bid' m2 where second: "board_load ready_os (demo_board smoke_wire) demo_job demo_kvs
      (in_dir ''/l'' ''11_program_jtag_baseline.log'') (baseline_files ready_os) bid m1 = (Inr r, bid', m2)"
    using smoke_load [OF first(2) logs(2) files] by blast
  have lib: "import_serial (demo_board smoke_wire) what m = (Inr (), m)" for what m
    by (simp add: import_serial_def demo_board_def require_def give_def)
  let ?cap = "\<lparr>bc_result = r, bc_smoke = smoke, bc_build_id = bid', bc_capture_file = cf_text (baseline_files ready_os)\<rparr>"
  have run: "run_dhrystone_board_capture ready_os (demo_board smoke_wire) demo_job ''/l'' 5 demo_kvs demo_kvs ?m = (Inr ?cap, m2)"
    by (simp add: run_dhrystone_board_capture_def and_then_def lib dhrystone_block_def then_do_def first second perform_def give_def)
  from board_capture_after_smoke [OF run] run show ?thesis
    by (intro exI [of _ ?cap] exI [of _ m2]) auto
qed

end
