(* ===== verification/Results.thy ===== *)
theory Results
  imports BoardTrial
begin

text \<open>
  The results of the drives, captures and log analyses as the dicts they are in
  \<^verbatim>\<open>run_fpga_benchmark_ddr3.py\<close>, item by item in the order of the code.  The main flow hands one of them on as
  \<^verbatim>\<open>uart_result\<close>, reads it with \<^verbatim>\<open>get\<close> and a default, and writes it to JSON files.
\<close>

section \<open>Reading a dict\<close>

definition get_or :: "items \<Rightarrow> string \<Rightarrow> json \<Rightarrow> json" where
  "get_or kvs key other = (case get_item key kvs of None \<Rightarrow> other | Some j \<Rightarrow> j)"

text \<open>\<^verbatim>\<open>bool(d.get(key, False))\<close>\<close>

definition get_bool :: "items \<Rightarrow> string \<Rightarrow> bool" where
  "get_bool kvs key = json_true (get_or kvs key (JBool False))"

definition json_words_list :: "string list \<Rightarrow> json" where
  "json_words_list xs = JList (map JStr xs)"

definition json_octet :: "byte option \<Rightarrow> json" where
  "json_octet b = json_opt json_byte b"

definition json_offset :: "nat option \<Rightarrow> json" where
  "json_offset n = json_opt json_nat n"

section \<open>Console reports\<close>

definition field_items :: "string \<Rightarrow> items" where
  "field_items line = fold (\<lambda>key kvs. case probe_wide key None line of None \<Rightarrow> kvs | Some v \<Rightarrow> set_item key (json_nat v) kvs)
     probe_wide_keys (fold (\<lambda>(k, v) kvs. set_item k (json_nat v) kvs) (probe_fields None line) [])"

definition probe_items :: "fetch_probe \<Rightarrow> items" where
  "probe_items p =
     [(''lines'', json_words_list (fp_lines p)), (''last_line'', JStr (fp_last_line p)),
      (''classification'', JStr (fp_classification p))]
     @ (if fp_lines p = [] then [] else [(''fields'', JObj (field_items (last (fp_lines p))))])"

definition bad_block_items :: "bad_block_report option \<Rightarrow> items" where
  "bad_block_items r = (case r of None \<Rightarrow> [] | Some b \<Rightarrow>
     [(''block_index'', json_nat (bb_block_index b)), (''host_checksum32'', json_nat (bb_host_checksum32 b)),
      (''write_checksum32'', json_nat (bb_write_checksum32 b)), (''read_checksum32'', json_nat (bb_read_checksum32 b)),
      (''cause'', JStr (bb_cause b))])"

definition bad_checksum_items :: "bad_checksum_report option \<Rightarrow> items" where
  "bad_checksum_items r = (case r of None \<Rightarrow> [] | Some b \<Rightarrow>
     [(''expected_checksum32'', json_nat (bc_expected_checksum32 b)),
      (''actual_checksum32'', json_nat (bc_actual_checksum32 b)), (''delta_signed'', JInt (bc_delta_signed b))])"

definition write_blocks_items :: "write_blocks_report option \<Rightarrow> items" where
  "write_blocks_items r = (case r of None \<Rightarrow> [] | Some b \<Rightarrow>
     (''dumped_blocks'', json_nat (wb_dumped_blocks b))
     # (case wb_first_mismatch b of None \<Rightarrow> [] | Some (i, host, device) \<Rightarrow>
          [(''block_index'', json_nat i), (''host_checksum32'', json_nat host), (''device_checksum32'', json_nat device)]))"

definition bridge_bad_items :: "bridge_bad_report option \<Rightarrow> items" where
  "bridge_bad_items r = (case r of None \<Rightarrow> [] | Some b \<Rightarrow>
     [(''line'', JStr (br_line b)), (''step'', json_nat (br_step b)), (''words'', json_nat (br_words b)),
      (''addr'', json_nat (br_addr b)), (''expected'', json_nat (br_expected b)), (''actual'', json_nat (br_actual b)),
      (''last_write_addr'', json_nat (br_last_write_addr b)), (''last_write_data'', json_nat (br_last_write_data b)),
      (''drain_ready'', json_nat (br_drain_ready b)), (''bridge_idle'', json_nat (br_bridge_idle b)),
      (''status_word'', json_nat (br_status_word b))])"

section \<open>Loads\<close>

definition drive_items :: "capture_files \<Rightarrow> drive_result \<Rightarrow> items" where
  "drive_items cf r =
     (let c = dr_counts r; a = dr_analysis r; n = json_nat in
      [(''sent_header'', JBool (dr_sent_header r)), (''sent_payload'', JBool (dr_sent_payload r)),
       (''payload_ack_timeout'', JBool (payload_ack_timeout c)), (''payload_ack_count'', n (dr_ack_count r)),
       (''payload_ack_credit_remaining'', n (dr_ack_credit_remaining r)),
       (''payload_chunk_ack_miss_count'', n (payload_chunk_ack_miss_count c)),
       (''payload_checksum_ack_miss_count'', n (payload_checksum_ack_miss_count c)),
       (''payload_chunks_sent'', n (payload_chunks_sent c)), (''payload_block_ack_count'', n (payload_block_ack_count c)),
       (''payload_block_nack_count'', n (payload_block_nack_count c)),
       (''payload_block_retry_count'', n (payload_block_retry_count c)),
       (''payload_block_retry_limit_hit'', JBool (payload_block_retry_limit_hit c)),
       (''payload_failed_block'', JInt (payload_failed_block c)), (''payload_size_bytes'', n (dr_payload_size_bytes r)),
       (''saw_ready'', JBool (ready_seen a)), (''saw_load_start'', JBool (load_start_seen a)),
       (''saw_read_ok'', JBool (read_ok_seen a)), (''saw_load_ok'', JBool (load_ok_seen a)),
       (''saw_jump'', JBool (jump_seen a)), (''loader_summary_seen'', JBool (summary_seen a)),
       (''loader_summary_mask'', json_octet (summary_mask a)), (''loader_summary_ok'', JBool (summary_ok_seen a)),
       (''loader_bad_seen'', JBool (bad_seen a)), (''loader_bad_code'', json_octet (bad_code a)),
       (''loader_bad_block'', json_octet (bad_block a)), (''loader_good_frames'', n (good_frames a)),
       (''loader_bad_frames'', n (bad_frames a)), (''loader_dropped_duplicate_frames'', n (dropped_duplicates a)),
       (''loader_block_ack_events'', n (block_ack_events a)), (''loader_block_nack_events'', n (block_nack_events a)),
       (''loader_decoded_log_path'', JStr (cf_decoded cf)), (''uart_capture_raw_file'', JStr (cf_raw cf)),
       (''uart_capture_text_file'', JStr (cf_text cf)), (''saw_probe'', JBool (fp_lines (dr_fetch_probe r) \<noteq> [])),
       (''fetch_probe'', JObj (probe_items (dr_fetch_probe r))), (''bad_block'', JObj (bad_block_items (dr_bad_block r))),
       (''bad_checksum'', JObj (bad_checksum_items (dr_bad_checksum r))),
       (''write_blocks'', JObj (write_blocks_items (dr_write_blocks r))), (''bad_reason'', JStr (dr_bad_reason r)),
       (''saw_start'', JBool (dr_saw_start r)), (''saw_done'', JBool (dr_saw_done r)), (''saw_bad'', JBool (dr_saw_bad r)),
       (''dhrystones_per_second'', json_words_list (dr_dhrystones_per_second r)),
       (''microseconds_per_run'', json_words_list (dr_microseconds_per_run r)),
       (''bench_cycles'', JStr (bench_cycles (dr_counters r))), (''bench_instret'', JStr (bench_instret (dr_counters r))),
       (''bench_ipc_x1000'', JStr (bench_ipc_x1000 (dr_counters r))), (''capture_bytes'', n (dr_capture_bytes r)),
       (''host_trace_file'', JStr (with_suffix (cf_raw cf) ''.host_trace.txt''))])"

definition early_drive_items :: "capture_files \<Rightarrow> string option \<Rightarrow> early_drive_result \<Rightarrow> items" where
  "early_drive_items cf sessions r =
     (let c = edr_counts r; a = edr_analysis r; e = ean_result a; s = ea_session e; n = json_nat; b = json_octet in
      [(''sent_header'', JBool (edr_sent_header r)), (''sent_payload'', JBool (edr_sent_payload r)),
       (''payload_ack_timeout'', JBool (payload_ack_timeout c)), (''payload_ack_count'', n (edr_ack_count r)),
       (''payload_ack_credit_remaining'', n (edr_ack_credit_remaining r)), (''payload_chunks_sent'', n (payload_chunks_sent c)),
       (''payload_block_ack_count'', n (payload_block_ack_count c)),
       (''payload_block_nack_count'', n (payload_block_nack_count c)),
       (''payload_block_retry_count'', n (payload_block_retry_count c)),
       (''payload_block_retry_limit_hit'', JBool (payload_block_retry_limit_hit c)),
       (''payload_failed_block'', JInt (payload_failed_block c)), (''payload_size_bytes'', n (edr_payload_size_bytes r)),
       (''loader_ready_seen'', JBool (ea_ready_seen e)), (''loader_header_byte0'', b (ea_header_bytes e ! 0)),
       (''loader_header_byte1'', b (ea_header_bytes e ! 1)), (''loader_header_byte2'', b (ea_header_bytes e ! 2)),
       (''loader_header_byte3'', b (ea_header_bytes e ! 3)), (''loader_header_magic_ok'', JBool (ea_header_magic_ok e)),
       (''loader_load_start_seen'', JBool (ea_load_start_seen e)),
       (''loader_first_block_ack_seen'', JBool (ea_first_block_ack_seen e)),
       (''loader_summary_seen'', JBool (ea_summary_seen e)), (''loader_summary_mask'', b (ea_summary_mask e)),
       (''loader_summary_ok'', JBool (ea_summary_ok_seen e)), (''loader_bad_magic_seen'', JBool (ea_bad_magic_seen e)),
       (''loader_bad_magic_byte_index'', b (ea_bad_magic_byte_index e)), (''loader_bad_seen'', JBool (ea_bad_seen e)),
       (''loader_bad_code'', b (ea_bad_code e)), (''loader_good_frames'', n (ea_good_frames e)),
       (''loader_bad_frames'', n (ea_bad_frames e)), (''loader_dropped_duplicate_frames'', n (ea_dropped_duplicates e)),
       (''loader_pre_session_frame_count'', n (pre_session_frame_count s)),
       (''loader_session_start_offset'', json_offset (session_start_offset s)),
       (''loader_session_ready_seq'', b (session_ready_seq s)),
       (''loader_session_start_not_found'', JBool (session_start_not_found s)),
       (''loader_session_count'', n (length (ean_sessions a))),
       (''loader_chosen_session_index'', chosen_item (\<lambda>x. n (es_session_index x)) JNull r),
       (''loader_chosen_session_start_offset'', chosen_item (\<lambda>x. json_offset (es_start_offset x)) JNull r),
       (''loader_chosen_session_ready_arg'', chosen_item (\<lambda>x. b (sl_ready_arg (es_loop x))) JNull r),
       (''loader_chosen_session_first_events'', json_words_list (chosen_item es_first_event_types [] r)),
       (''loader_chosen_session_order_valid'', JBool (chosen_item es_event_order_valid False r)),
       (''loader_chosen_session_order_error'', JStr (chosen_item es_event_order_error [] r)),
       (''loader_session_classification'', JStr (ean_session_classification a)),
       (''loader_sessions_json_path'', JStr (case sessions of None \<Rightarrow> [] | Some p \<Rightarrow> p)),
       (''loader_decoded_log_path'', JStr (cf_decoded cf)), (''uart_capture_raw_file'', JStr (cf_raw cf)),
       (''uart_capture_text_file'', JStr (cf_text cf)), (''bad_reason'', JStr (ea_bad_reason e)),
       (''capture_bytes'', n (edr_capture_bytes r))])"

definition session_items :: "session_result \<Rightarrow> items" where
  "session_items s = [(''index'', json_nat (ts_index s)), (''size_bytes'', json_nat (ts_size_bytes s)),
     (''checksum32'', json_nat (ts_checksum32 s)), (''seed'', JInt (ts_seed s))]"

definition transport_items :: "transport_result \<Rightarrow> items" where
  "transport_items r =
     [(''ready_seen'', JBool (tr_ready_seen r)), (''saw_load_start'', JBool (tr_saw_load_start r)),
      (''saw_load_ok'', JBool (tr_saw_load_ok r)), (''saw_bad'', JBool (tr_saw_bad r)),
      (''session_results'', JList (map (JObj \<circ> session_items) (tr_session_results r))),
      (''session_count'', json_nat (tr_session_count r)), (''expected_sessions'', json_nat (tr_expected_sessions r)),
      (''payload_ack_timeout'', JBool (tr_ack_timeout r)), (''payload_ack_count'', json_nat (tr_ack_count r)),
      (''payload_ack_credit_remaining'', json_nat (tr_ack_credit_remaining r)),
      (''payload_chunks_sent'', json_nat (tr_chunks_sent r)), (''bad_reason'', JStr (tr_bad_reason r)),
      (''capture_bytes'', json_nat (tr_capture_bytes r))]"

section \<open>Captures\<close>

definition bridge_items :: "bridge_seen capture_result \<Rightarrow> items" where
  "bridge_items r = (let s = cr_seen r in
     [(''ready_seen'', JBool (bg_ready_seen s)), (''ok_count'', json_nat (bg_ok_count s)), (''saw_bad'', JBool (bg_saw_bad s)),
      (''bad_reason'', JStr (bg_bad_reason s)), (''last_bad_line'', JStr (bg_last_bad_line s)),
      (''capture_bytes'', json_nat (cr_capture_bytes r))])"

definition steps_items :: "steps_seen capture_result \<Rightarrow> items" where
  "steps_items r = (let s = cr_seen r in
     [(''ready_seen'', JBool (bs_ready_seen s)), (''step1_pass'', JBool (bs_step1_pass s)),
      (''step2_pass'', JBool (bs_step2_pass s)), (''step3_2_pass'', JBool (bs_step3_2_pass s)),
      (''step3_4_pass'', JBool (bs_step3_4_pass s)), (''step3_pass'', JBool (bs_step3_pass s)),
      (''all_ok_seen'', JBool (bs_all_ok_seen s)), (''saw_bad'', JBool (bs_saw_bad s)),
      (''bad_reason'', JStr (bs_bad_reason s)), (''bad_detail'', JObj (bridge_bad_items (bs_bad_detail s))),
      (''capture_bytes'', json_nat (cr_capture_bytes r))])"

definition detail_items :: "step2_detail option \<Rightarrow> items" where
  "detail_items d = (case d of None \<Rightarrow> [] | Some x \<Rightarrow>
     (if d_kind x = [] then [] else [(''kind'', JStr (d_kind x))])
     @ (case d_case x of None \<Rightarrow> [] | Some n \<Rightarrow> [(''case'', json_nat n)])
     @ (case d_phase x of None \<Rightarrow> [] | Some n \<Rightarrow> [(''phase'', json_nat n)]) @ [(''line'', JStr (d_line x))])"

definition step2_verdict_items :: "step2_result \<Rightarrow> items" where
  "step2_verdict_items s =
     [(''ready_seen'', JBool (s2_ready_seen s)), (''saw_start_case1'', JBool False), (''case1_pass'', JBool (s2_case1_pass s)),
      (''saw_start_case2'', JBool False), (''case2_pass'', JBool (s2_case2_pass s)),
      (''saw_start_case3'', JBool (s2_saw_start_case3 s)), (''saw_after_write_case3'', JBool (s2_saw_after_write_case3 s)),
      (''case3_pass'', JBool (s2_case3_pass s)), (''saw_start_case4'', JBool (s2_saw_start_case4 s)),
      (''saw_after_write_case4'', JBool (s2_saw_after_write_case4 s)), (''case4_pass'', JBool (s2_case4_pass s)),
      (''saw_start_case5'', JBool (s2_saw_start_case5 s)), (''saw_after_write_case5'', JBool (s2_saw_after_write_case5 s)),
      (''case5_pass'', JBool (s2_case5_pass s)), (''summary_seen'', JBool (s2_summary_seen s)),
      (''summary_mask'', json_octet (s2_summary_mask s)), (''all_ok_seen'', JBool (s2_all_ok_seen s)),
      (''saw_bad'', JBool (s2_saw_bad s)), (''saw_trap'', JBool (s2_saw_trap s)), (''saw_cal_fail'', JBool (s2_saw_cal_fail s)),
      (''bad_reason'', JStr (s2_bad_reason s)), (''bad_detail'', JObj (detail_items (s2_bad_detail s))),
      (''last_phase_detail'', JObj []), (''last_progress_detail'', JObj (detail_items (s2_last_progress_detail s))),
      (''good_frames'', json_nat (s2_good_frames s)), (''bad_frames'', json_nat (s2_bad_frames s)),
      (''dropped_duplicate_frames'', json_nat (s2_dropped_duplicates s))]"

definition step2_items :: "string \<Rightarrow> step2_result capture_result \<Rightarrow> items" where
  "step2_items decoded_path r = step2_verdict_items (cr_seen r)
     @ [(''decoded_text'', JStr (s2_decoded_text (cr_seen r))), (''capture_bytes'', json_nat (cr_capture_bytes r)),
        (''decoded_log_path'', JStr decoded_path)]"

definition selftest_items :: "capture_files \<Rightarrow> string option \<Rightarrow> selftest_capture \<Rightarrow> items" where
  "selftest_items cf sessions r =
     (let a = sc_analysis r; n = json_nat;
          chosen = (\<lambda>none f. case sr_chosen a of None \<Rightarrow> none | Some x \<Rightarrow> f x) in
      [(''loader_beacon_selftest_pass'', JBool (sr_pass a)), (''loader_session_count'', n (sr_session_count a)),
       (''loader_pass_session_count'', n (sr_pass_session_count a)), (''loader_bad_frames'', n (sr_bad_frames a)),
       (''loader_good_frames'', n (sr_good_frames a)), (''loader_session_classification'', JStr (sr_session_classification a)),
       (''loader_chosen_session_index'', chosen JNull (\<lambda>x. n (st_session_index x))),
       (''loader_chosen_session_start_offset'', chosen JNull (\<lambda>x. json_offset (st_start_offset x))),
       (''loader_chosen_session_ready_arg'', chosen JNull (\<lambda>x. json_octet (st_ready_arg x))),
       (''loader_chosen_session_first_events'', chosen (JList []) (\<lambda>x. json_words_list (st_first_event_types x))),
       (''loader_chosen_session_matched_prefix_len'', chosen (n 0) (\<lambda>x. n (st_matched_prefix_len x))),
       (''loader_chosen_session_event_count'', chosen (n 0) (\<lambda>x. n (st_event_count x))),
       (''loader_chosen_session_order_valid'', chosen (JBool False) (\<lambda>x. JBool (st_event_order_valid x))),
       (''loader_chosen_session_order_error'', chosen (JStr []) (\<lambda>x. JStr (st_event_order_error x))),
       (''loader_decoded_log_path'', JStr (cf_decoded cf)),
       (''loader_sessions_json_path'', JStr (case sessions of None \<Rightarrow> ''N/A'' | Some p \<Rightarrow> p)),
       (''uart_capture_raw_file'', JStr (cf_raw cf)), (''uart_capture_text_file'', JStr (cf_text cf)),
       (''capture_bytes'', n (sc_capture_bytes r)), (''bad_reason'', JStr (sc_bad_reason r))])"

section \<open>Simulation logs\<close>

text \<open>
  What the summary reads of the analyses of simulation logs: the decoded text, the bytes outside frames and
  the sessions, which nothing reads, are left out.
\<close>

definition loader_sim_items :: "loader_sim_result \<Rightarrow> string \<Rightarrow> items" where
  "loader_sim_items a path =
     (let n = json_nat; b = json_octet in
      [(''ready_seen'', JBool (ready_seen a)), (''load_start_seen'', JBool (load_start_seen a)),
       (''read_ok_seen'', JBool (read_ok_seen a)), (''load_ok_seen'', JBool (load_ok_seen a)), (''jump_seen'', JBool (jump_seen a)),
       (''summary_seen'', JBool (summary_seen a)), (''summary_mask'', b (summary_mask a)),
       (''summary_ok_seen'', JBool (summary_ok_seen a)), (''bad_seen'', JBool (bad_seen a)), (''bad_code'', b (bad_code a)),
       (''bad_block'', b (bad_block a)), (''first_bad_event_offset'', json_offset (first_bad_event_offset a)),
       (''bad_reason'', JStr (bad_reason a)), (''block_ack_events'', n (block_ack_events a)),
       (''block_nack_events'', n (block_nack_events a)), (''max_block_ack_arg'', b (max_block_ack_arg a)),
       (''good_frames'', n (good_frames a)), (''bad_frames'', n (bad_frames a)),
       (''dropped_duplicate_frames'', n (dropped_duplicates a)),
       (''pre_session_frame_count'', n (res_pre_session_frame_count a)),
       (''session_start_offset'', json_offset (res_session_start_offset a)),
       (''session_ready_seq'', b (res_session_ready_seq a)), (''session_start_not_found'', JBool (res_session_start_not_found a)),
       (''capture_bytes'', n 0), (''saw_exec_pass'', JBool (saw_exec_pass a)), (''decoded_log_path'', JStr path)])"

definition early_sim_items :: "early_analysis \<Rightarrow> string \<Rightarrow> items" where
  "early_sim_items a path =
     (let e = ean_result a; s = ea_session e; n = json_nat; b = json_octet;
          chosen = (\<lambda>none f. case ean_chosen a of None \<Rightarrow> none | Some x \<Rightarrow> f x) in
      [(''ready_seen'', JBool (ea_ready_seen e)), (''idle_ok_seen'', JBool (ea_idle_ok_seen e)),
       (''train_start_seen'', JBool (ea_train_start_seen e)), (''train_done_seen'', JBool (ea_train_done_seen e)),
       (''train_done_count'', b (ea_train_done_count e)), (''flush_done_seen'', JBool (ea_flush_done_seen e)),
       (''flush_done_count'', b (ea_flush_done_count e)), (''header_enter_seen'', JBool (ea_header_enter_seen e)),
       (''train_timeout_seen'', JBool (ea_train_timeout_seen e)), (''train_timeout_count'', b (ea_train_timeout_count e)),
       (''flush_timeout_seen'', JBool (ea_flush_timeout_seen e)), (''flush_timeout_count'', b (ea_flush_timeout_count e)),
       (''header_byte0'', b (ea_header_bytes e ! 0)), (''header_byte1'', b (ea_header_bytes e ! 1)),
       (''header_byte2'', b (ea_header_bytes e ! 2)), (''header_byte3'', b (ea_header_bytes e ! 3)),
       (''header_magic_ok'', JBool (ea_header_magic_ok e)), (''load_start_seen'', JBool (ea_load_start_seen e)),
       (''first_block_ack_seen'', JBool (ea_first_block_ack_seen e)), (''summary_seen'', JBool (ea_summary_seen e)),
       (''summary_mask'', b (ea_summary_mask e)), (''summary_ok_seen'', JBool (ea_summary_ok_seen e)),
       (''bad_magic_seen'', JBool (ea_bad_magic_seen e)), (''bad_magic_byte_index'', b (ea_bad_magic_byte_index e)),
       (''bad_seen'', JBool (ea_bad_seen e)), (''bad_code'', b (ea_bad_code e)), (''bad_reason'', JStr (ea_bad_reason e)),
       (''good_frames'', n (ea_good_frames e)), (''bad_frames'', n (ea_bad_frames e)),
       (''dropped_duplicate_frames'', n (ea_dropped_duplicates e)),
       (''pre_session_frame_count'', n (pre_session_frame_count s)),
       (''session_start_offset'', json_offset (session_start_offset s)), (''session_ready_seq'', b (session_ready_seq s)),
       (''session_start_not_found'', JBool (session_start_not_found s)), (''capture_bytes'', n 0),
       (''decoded_log_path'', JStr path), (''sessions'', JList (map early_session_json (ean_sessions a))),
       (''chosen_session_index'', chosen JNull (\<lambda>x. n (es_session_index x))),
       (''chosen_session_start_offset'', chosen JNull (\<lambda>x. json_offset (es_start_offset x))),
       (''chosen_session_ready_arg'', chosen JNull (\<lambda>x. b (sl_ready_arg (es_loop x)))),
       (''chosen_session_first_event_types'', chosen (JList []) (\<lambda>x. json_words_list (es_first_event_types x))),
       (''chosen_session_order_valid'', chosen (JBool False) (\<lambda>x. JBool (es_event_order_valid x))),
       (''chosen_session_order_error'', chosen (JStr []) (\<lambda>x. JStr (es_event_order_error x))),
       (''session_classification'', JStr (ean_session_classification a))])"

definition step2_sim_items :: "step2_result \<Rightarrow> string \<Rightarrow> items" where
  "step2_sim_items s path = step2_verdict_items s @ [(''capture_bytes'', json_nat 0), (''decoded_log_path'', JStr path)]"

definition selftest_sim_items :: "selftest_result \<Rightarrow> string \<Rightarrow> items" where
  "selftest_sim_items a path =
     (let n = json_nat; chosen = (\<lambda>none f. case sr_chosen a of None \<Rightarrow> none | Some x \<Rightarrow> f x) in
      [(''loader_beacon_selftest_pass'', JBool (sr_pass a)), (''loader_session_count'', n (sr_session_count a)),
       (''loader_pass_session_count'', n (sr_pass_session_count a)), (''loader_bad_frames'', n (sr_bad_frames a)),
       (''loader_good_frames'', n (sr_good_frames a)), (''loader_session_classification'', JStr (sr_session_classification a)),
       (''loader_chosen_session_index'', chosen JNull (\<lambda>x. n (st_session_index x))),
       (''loader_chosen_session_start_offset'', chosen JNull (\<lambda>x. json_offset (st_start_offset x))),
       (''loader_chosen_session_ready_arg'', chosen JNull (\<lambda>x. json_octet (st_ready_arg x))),
       (''loader_chosen_session_first_events'', chosen (JList []) (\<lambda>x. json_words_list (st_first_event_types x))),
       (''loader_chosen_session_matched_prefix_len'', chosen (n 0) (\<lambda>x. n (st_matched_prefix_len x))),
       (''loader_chosen_session_event_count'', chosen (n 0) (\<lambda>x. n (st_event_count x))),
       (''loader_chosen_session_order_valid'', chosen (JBool False) (\<lambda>x. JBool (st_event_order_valid x))),
       (''loader_chosen_session_order_error'', chosen (JStr []) (\<lambda>x. JStr (st_event_order_error x))),
       (''loader_decoded_log_path'', JStr path), (''decoded_log_path'', JStr path),
       (''loader_sessions_json_path'', JStr ''N/A''), (''capture_bytes'', n 0),
       (''bad_reason'', JStr (if sr_pass a then ''none'' else sr_session_classification a))])"

end
