(* ===== verification/MainModes.thy ===== *)
theory MainModes
  imports Results Validation SimGate
begin

text \<open>
  The entry of \<^verbatim>\<open>run_fpga_benchmark_ddr3.py\<close>: its options, what they exclude, the names that follow from
  the mode, and the modes that use only the board.  The staged flow that builds a bitstream first is in
  \<^verbatim>\<open>MainBuild\<close> and \<^verbatim>\<open>MainFlow\<close>.
\<close>

section \<open>Options\<close>

text \<open>The clock is in hertz; \<^verbatim>\<open>--early-audit-bad-magic-byte\<close>, which nothing reads, is left out.\<close>

record main_args =
  ma_port :: string
  ma_rs_depth :: int
  ma_fetch_buffer_depth :: int
  ma_core_hz :: nat
  ma_capture_seconds :: int
  ma_uart_baud :: nat
  ma_dhrystone_runs :: int
  ma_fetch_debug :: bool
  ma_transport_only :: bool
  ma_bridge_audit :: bool
  ma_bridge_audit_steps :: bool
  ma_step2_only :: bool
  ma_early_audit :: bool
  ma_early_audit_board_only :: bool
  ma_selftest :: bool
  ma_selftest_board_only :: bool
  ma_sweep_3point :: bool
  ma_header_send_delay_ms :: int
  ma_post_jtag_quiet_ms :: int
  ma_transport_jitter_pct :: int
  ma_transport_byte_gap :: int
  ma_transport_ack_mode :: string
  ma_transport_seeds :: int
  ma_run_loader_long_sim :: bool
  ma_block_trace :: bool
  ma_chunk_trace :: bool
  ma_rx_trace :: bool
  ma_skip_vivado :: bool
  ma_impl_mode :: string

definition active_modes :: "main_args \<Rightarrow> bool list" where
  "active_modes a = filter id [ma_fetch_debug a, ma_transport_only a, ma_bridge_audit a, ma_bridge_audit_steps a,
     ma_step2_only a, ma_early_audit a, ma_early_audit_board_only a, ma_selftest a, ma_selftest_board_only a]"

definition any_bridge :: "main_args \<Rightarrow> bool" where
  "any_bridge a \<longleftrightarrow> ma_bridge_audit a \<or> ma_bridge_audit_steps a \<or> ma_step2_only a"

definition check_modes :: "main_args \<Rightarrow> unit flow" where
  "check_modes a =
     and_then (require (length (active_modes a) \<le> 1) (SystemExit
       (''--fetch-debug, --transport-only, --bridge-audit, --bridge-audit-steps, --bridge-audit-step2-only, ''
        @ ''--loader-early-audit, --loader-early-audit-board-only, --loader-beacon-selftest, and ''
        @ ''--loader-beacon-selftest-board-only are mutually exclusive''))) (\<lambda>_.
     and_then (require (ma_sweep_3point a \<longrightarrow> ma_early_audit_board_only a) (SystemExit
       ''--early-audit-sweep-3point requires --loader-early-audit-board-only'')) (\<lambda>_.
     require (ma_impl_mode a = ''board-only'' \<and> active_modes a \<noteq> [] \<longrightarrow> any_bridge a) (SystemExit
       (''--fpga-impl-mode board-only is only supported for the standard dhrystone DDR3 loader flow and bridge DDR3 ''
        @ ''diagnostic modes; use the existing dedicated *-board-only options for loader diagnostics''))))"

section \<open>Names\<close>

definition logs_dir_name :: "main_args \<Rightarrow> string" where
  "logs_dir_name a =
     (if ma_step2_only a then ''fpga_bridge_audit_step2_only''
      else if ma_bridge_audit_steps a then ''fpga_bridge_audit_steps''
      else if ma_bridge_audit a then ''fpga_bridge_audit''
      else if ma_selftest a then ''fpga_loader_beacon_selftest''
      else if ma_selftest_board_only a then ''fpga_loader_beacon_selftest_board_only''
      else if ma_early_audit a then ''fpga_loader_early_audit''
      else if ma_early_audit_board_only a then ''fpga_loader_early_audit_sweep''
      else ''fpga_benchmark_ddr3'')"

definition main_logs :: "os \<Rightarrow> main_args \<Rightarrow> string" where
  "main_logs os a = build_file os (logs_dir_name a)"

definition STEP2_ONLY_CAPTURE_FILE :: "os \<Rightarrow> string" where
  "STEP2_ONLY_CAPTURE_FILE os = build_file os ''ddr3_bridge_audit_step2_only_uart_capture.bin''"

definition STEP2_ONLY_CAPTURE_DECODED_FILE :: "os \<Rightarrow> string" where
  "STEP2_ONLY_CAPTURE_DECODED_FILE os = build_file os ''ddr3_bridge_audit_step2_only_uart_capture.decoded.txt''"

definition early_files_main :: "os \<Rightarrow> capture_files" where
  "early_files_main os = \<lparr>cf_text = build_file os ''loader_early_audit_uart_capture.txt'',
     cf_raw = build_file os ''loader_early_audit_uart_capture.bin'',
     cf_decoded = build_file os ''loader_early_audit_uart_capture.loader.decoded.txt''\<rparr>"

definition early_sessions_file :: "os \<Rightarrow> string" where
  "early_sessions_file os = build_file os ''loader_early_audit_sessions.json''"

definition mode_capture_file :: "os \<Rightarrow> main_args \<Rightarrow> string" where
  "mode_capture_file os a =
     (if ma_step2_only a then STEP2_ONLY_CAPTURE_FILE os
      else if ma_bridge_audit_steps a then build_file os ''ddr3_bridge_audit_steps_uart_capture.txt''
      else if ma_bridge_audit a then build_file os ''ddr3_bridge_audit_uart_capture.txt''
      else if ma_transport_only a then build_file os ''uart_loader_transport_capture.txt''
      else if ma_selftest a \<or> ma_selftest_board_only a then cf_text (selftest_board_files os)
      else if ma_early_audit a then cf_text (early_files_main os)
      else cf_text (baseline_files os))"

definition flow_name :: "main_args \<Rightarrow> string" where
  "flow_name a =
     (if ma_step2_only a then ''AX7203 DDR3 Bridge Audit Step2 Only''
      else if ma_bridge_audit_steps a then ''AX7203 DDR3 Bridge Audit Steps''
      else if ma_bridge_audit a then ''AX7203 DDR3 Bridge Audit''
      else if ma_selftest a then ''AX7203 Loader Beacon Selftest''
      else if ma_selftest_board_only a then ''AX7203 Loader Beacon Selftest Board-Only''
      else if ma_transport_only a then ''AX7203 UART Loader Transport''
      else if ma_early_audit a then ''AX7203 DDR3 Loader Early Audit''
      else if ma_early_audit_board_only a then ''AX7203 DDR3 Loader Early Audit Board Sweep''
      else ''AX7203 DDR3 Benchmark Loader'')"

definition mode_rom :: "os \<Rightarrow> main_args \<Rightarrow> string" where
  "mode_rom os a = rom_file os
     (if ma_step2_only a then ''test_fpga_ddr3_bridge_step2_only.s''
      else if ma_bridge_audit_steps a then ''test_fpga_ddr3_bridge_steps.s''
      else if ma_bridge_audit a then ''test_fpga_ddr3_bridge_stress.s''
      else if ma_transport_only a then ''test_fpga_uart_loader_transport.s''
      else if ma_selftest a \<or> ma_selftest_board_only a then ''test_fpga_ddr3_loader_beacon_selftest.s''
      else if ma_early_audit a \<or> ma_early_audit_board_only a then ''test_fpga_ddr3_loader_early_audit.s''
      else ''test_fpga_ddr3_loader.s'')"

definition main_options :: "os \<Rightarrow> main_args \<Rightarrow> build_options" where
  "main_options os a =
     \<lparr>bo_smt_mode = 0, bo_fetch_debug = (ma_fetch_debug a \<and> \<not> ma_transport_only a), bo_bridge_audit = any_bridge a,
      bo_step2_beacon_debug = ma_step2_only a,
      bo_loader_beacon_debug = (\<not> (ma_transport_only a \<or> any_bridge a)),
      bo_loader_block_trace = ma_block_trace a, bo_loader_chunk_trace = ma_chunk_trace a,
      bo_loader_rx_trace = ma_rx_trace a, bo_uart_baud = ma_uart_baud a, bo_rom_asm = Some (mode_rom os a),
      bo_rom_march = (if ma_transport_only a \<or> any_bridge a then Some ''rv32i_zicsr'' else None),
      bo_uart_rxdata_reg_test = True\<rparr>"

definition main_env :: "os \<Rightarrow> script_env \<Rightarrow> main_args \<Rightarrow> environ flow" where
  "main_env os se a =
     and_then (positive_hz (ma_uart_baud a)) (\<lambda>_.
     case build_env (os_environ os) (cpu_count os) se (main_options os a) (ma_rs_depth a) (ma_fetch_buffer_depth a)
            (ma_core_hz a) (rom_file os ''test_fpga_ddr3_loader.s'') of
       None \<Rightarrow> raise_exc ValueError
     | Some env \<Rightarrow> give env)"

definition board_job_of :: "main_args \<Rightarrow> environ \<Rightarrow> string \<Rightarrow> board_job" where
  "board_job_of a env vivado = \<lparr>bj_port = ma_port a, bj_uart_baud = int (ma_uart_baud a),
     bj_capture_seconds = ma_capture_seconds a, bj_vivado = vivado, bj_env = env\<rparr>"

definition BITSTREAM_FILE :: "os \<Rightarrow> string" where
  "BITSTREAM_FILE os = (case os_environ os ''BITSTREAM_FILE'' of
     Some p \<Rightarrow> p | None \<Rightarrow> build_file os ''ax7203/sifang_core_ax7203_xc7a200tfbg484-2.bit'')"

section \<open>The self-test and the early audit on the board\<close>

definition selftest_result_items :: "os \<Rightarrow> selftest_locals \<Rightarrow> items" where
  "selftest_result_items os l = (case sb_result l of
     None \<Rightarrow> [] | Some r \<Rightarrow> selftest_items (selftest_board_files os) (Some (selftest_sessions_file os)) r)"

text \<open>A dict literal with another dict spread at its end.\<close>

definition spread_items :: "items \<Rightarrow> items \<Rightarrow> items" where
  "spread_items kvs added = fold (\<lambda>(k, v). set_item k v) added kvs"

definition main_selftest_board_only ::
  "os \<Rightarrow> board \<Rightarrow> (py_exc \<Rightarrow> string) \<Rightarrow> main_args \<Rightarrow> environ \<Rightarrow> int flow" where
  "main_selftest_board_only os brd shown a env =
     and_then (which_required os [''vivado.bat'', ''vivado'']) (\<lambda>vivado.
     and_then (run_loader_beacon_selftest_board os brd shown (board_job_of a env vivado) (main_logs os a)) (\<lambda>(l, stage, why).
     let result = selftest_result_items os l in
     and_then (write_json (in_dir (main_logs os a) ''summary.json'') (JObj (spread_items
       [(''Flow'', JStr (flow_name a)), (''BuildID'', JStr (sb_build_id l)), (''FailedStage'', JStr stage),
        (''FailureDetail'', JStr why)] result))) (\<lambda>_.
     give (if stage = ''none'' \<and> get_bool result ''loader_beacon_selftest_pass'' then 0 else 1))))"

definition single_summary_lines :: "string \<Rightarrow> board_trial \<Rightarrow> string list" where
  "single_summary_lines logs t =
     ''Flow: AX7203 Loader Early Audit Board-Only'' # map (trial_line (trial_items t))
       [(''Pass'', py_str, ''pass''), (''TrialName'', py_str, ''trial_name''),
        (''PostJtagQuietMs'', py_str, ''post_jtag_quiet_ms''), (''HeaderSendDelayMs'', py_str, ''header_send_delay_ms''),
        (''BuildID'', py_str, ''build_id''), (''FailureStage'', py_str, ''failure_stage''),
        (''FailureDetail'', py_str, ''failure_detail''), (''SessionStartNotFound'', py_str, ''session_start_not_found''),
        (''SessionClassification'', py_str, ''session_classification''),
        (''ChosenSessionFirstEvents'', joined, ''chosen_session_first_events''),
        (''HeaderByte0'', fmt_optional_hex, ''header_byte0''), (''HeaderByte1'', fmt_optional_hex, ''header_byte1''),
        (''BadMagicSeen'', py_str, ''bad_magic_seen''), (''BadMagicByteIndex'', py_str, ''bad_magic_byte_index''),
        (''BadReason'', py_str, ''bad_reason''), (''SummaryMask'', fmt_optional_hex, ''summary_mask'')]
     @ [''TrialSummary: '' @ in_dir (in_dir logs ''single'') ''summary.txt'']"

definition main_early_board_only ::
  "os \<Rightarrow> board \<Rightarrow> (py_exc \<Rightarrow> string) \<Rightarrow> main_args \<Rightarrow> environ \<Rightarrow> int flow" where
  "main_early_board_only os brd shown a env =
     (let logs = main_logs os a in
      and_then (load_existing_early_audit_manifest os (build_file os ''fpga_loader_early_audit'')
        ''dhrystone_loader_early_audit'') (\<lambda>kvs.
      and_then (which_required os [''vivado.bat'', ''vivado'']) (\<lambda>vivado.
      let job = board_job_of a env vivado in
      if ma_sweep_3point a then run_loader_early_audit_board_sweep os brd shown job kvs logs
      else
        and_then (run_loader_early_audit_board_trial os brd shown job kvs (in_dir logs ''single'') ''single''
          (ma_post_jtag_quiet_ms a) (ma_header_send_delay_ms a)) (\<lambda>t.
        and_then (write_json (in_dir logs ''summary.json'') (JObj (trial_items t))) (\<lambda>_.
        and_then (write_file (in_dir logs ''summary.txt'') (render_lines (single_summary_lines logs t))) (\<lambda>_.
        give (if bt_pass t then 0 else 1)))))))"

section \<open>The bridge tests on the board\<close>

text \<open>The three captures, with the log they leave; that of the step-2 test is raw and has a decoded log beside it.\<close>

definition step2_decoded_path :: "os \<Rightarrow> string \<Rightarrow> string" where
  "step2_decoded_path os log_path =
     (if log_path = STEP2_ONLY_CAPTURE_FILE os then STEP2_ONLY_CAPTURE_DECODED_FILE os
      else with_suffix log_path ''.decoded.txt'')"

definition step2_capture :: "os \<Rightarrow> board \<Rightarrow> int \<Rightarrow> string \<Rightarrow> items flow" where
  "step2_capture os brd secs log_path =
     and_then (exchange brd (capture_step2_only_stream (seconds secs))
       (\<lambda>r. [(log_path, cr_log r), (step2_decoded_path os log_path, s2_decoded_text (cr_seen r))])) (\<lambda>r.
     give (step2_items (step2_decoded_path os log_path) r))"

definition steps_capture :: "board \<Rightarrow> int \<Rightarrow> string \<Rightarrow> items flow" where
  "steps_capture brd secs log_path =
     and_then (exchange brd (capture_bridge_audit_steps_stream (seconds secs)) (\<lambda>r. [(log_path, cr_log r)])) (\<lambda>r.
     give (steps_items r))"

definition bridge_capture :: "board \<Rightarrow> int \<Rightarrow> string \<Rightarrow> items flow" where
  "bridge_capture brd secs log_path =
     and_then (exchange brd (capture_bridge_audit_stream (seconds secs)) (\<lambda>r. [(log_path, cr_log r)])) (\<lambda>r.
     give (bridge_items r))"

definition mode_capture :: "os \<Rightarrow> board \<Rightarrow> main_args \<Rightarrow> string \<Rightarrow> items flow" where
  "mode_capture os brd a log_path =
     (if ma_step2_only a then step2_capture os brd (ma_capture_seconds a) log_path
      else if ma_bridge_audit_steps a then steps_capture brd (ma_capture_seconds a) log_path
      else bridge_capture brd (ma_capture_seconds a) log_path)"

record board_only_locals =
  bl_uart :: items
  bl_build_id :: string

definition bridge_board_block :: "os \<Rightarrow> board \<Rightarrow> main_args \<Rightarrow> board_job \<Rightarrow> (board_only_locals, unit) block" where
  "bridge_board_block os brd a job =
     then_do (perform (import_serial brd ''bridge-audit UART capture'')) (\<lambda>_.
     program_board os brd job (in_dir (main_logs os a) ''10_program_jtag.log'') (\<lambda>bid l. l\<lparr>bl_build_id := bid\<rparr>)
       (then_do (perform (mode_capture os brd a (mode_capture_file os a))) (\<lambda>r. assign (\<lambda>l. l\<lparr>bl_uart := r\<rparr>))))"

text \<open>\<^verbatim>\<open>result.get("summary_mask") == 0x1F\<close> and \<^verbatim>\<open>int(result.get("ok_count", 0))\<close> of the results there are\<close>

definition get_int :: "items \<Rightarrow> string \<Rightarrow> int" where
  "get_int kvs key = (case json_int (get_or kvs key (JInt 0)) of Some i \<Rightarrow> i | None \<Rightarrow> 0)"

definition bridge_board_passed :: "main_args \<Rightarrow> string \<Rightarrow> items \<Rightarrow> bool" where
  "bridge_board_passed a stage r \<longleftrightarrow> stage = ''none'' \<and>
     (if ma_step2_only a then
        \<not> get_bool r ''saw_bad'' \<and> \<not> get_bool r ''saw_trap'' \<and> \<not> get_bool r ''saw_cal_fail'' \<and> get_bool r ''ready_seen''
        \<and> get_bool r ''case1_pass'' \<and> get_bool r ''case2_pass'' \<and> get_bool r ''case3_pass'' \<and> get_bool r ''case4_pass''
        \<and> get_bool r ''case5_pass'' \<and> get_bool r ''summary_seen'' \<and> get_item ''summary_mask'' r = Some (JInt 0x1F)
      else if ma_bridge_audit_steps a then
        \<not> get_bool r ''saw_bad'' \<and> get_bool r ''ready_seen'' \<and> get_bool r ''step1_pass'' \<and> get_bool r ''step2_pass''
        \<and> get_bool r ''step3_pass'' \<and> get_bool r ''all_ok_seen''
      else \<not> get_bool r ''saw_bad'' \<and> get_bool r ''ready_seen'' \<and> 2 \<le> get_int r ''ok_count'')"

definition pass_text :: "bool \<Rightarrow> string" where
  "pass_text b = (if b then ''PASS'' else ''FAIL'')"

definition bridge_board_lines :: "os \<Rightarrow> main_args \<Rightarrow> bool \<Rightarrow> string \<Rightarrow> string \<Rightarrow> string \<Rightarrow> items \<Rightarrow> string list" where
  "bridge_board_lines os a ok bid stage why r =
     [''Flow: '' @ flow_name a, ''Result: '' @ pass_text ok, ''FpgaImplMode: '' @ ma_impl_mode a, ''BuildID: '' @ bid,
      ''FailedStage: '' @ stage, ''FailureDetail: '' @ why, ''Bitstream: '' @ BITSTREAM_FILE os,
      ''CaptureFile: '' @ mode_capture_file os a,
      ''DecodedCaptureFile: '' @ py_str (get_or r ''decoded_log_path'' (JStr ''N/A'')),
      ''CaptureBytes: '' @ py_str (get_or r ''capture_bytes'' (JInt 0)),
      ''ReadySeen: '' @ py_str (get_or r ''ready_seen'' (JBool False)),
      ''SawBad: '' @ py_str (get_or r ''saw_bad'' (JBool False)),
      ''BadReason: '' @ py_str (get_or r ''bad_reason'' (JStr ''none'')),
      ''Step2SummarySeen: '' @ py_str (get_or r ''summary_seen'' (JBool False)),
      ''Step2SummaryMask: '' @ fmt_optional_hex (get_or r ''summary_mask'' (JStr ''N/A'')),
      ''BridgeOkCount: '' @ py_str (get_or r ''ok_count'' (JInt 0)),
      ''BridgeStepsAllOkSeen: '' @ py_str (get_or r ''all_ok_seen'' (JBool False))]"

text \<open>The report of a run that used only the board, as JSON; the standard run adds its smoke load.\<close>

definition board_only_report ::
  "main_args \<Rightarrow> bool \<Rightarrow> string \<Rightarrow> string \<Rightarrow> string \<Rightarrow> string \<Rightarrow> items \<Rightarrow> items \<Rightarrow> json" where
  "board_only_report a ok bid stage why capture smoke r =
     JObj ([(''Flow'', JStr (flow_name a)), (''FpgaImplMode'', JStr (ma_impl_mode a)), (''Result'', JStr (pass_text ok)),
       (''BuildID'', JStr bid), (''FailedStage'', JStr stage), (''FailureDetail'', JStr why),
       (''CaptureFile'', JStr capture)] @ smoke @ [(''BoardResult'', JObj r)])"

definition require_bitstream :: "os \<Rightarrow> unit flow" where
  "require_bitstream os = and_then (look_file (BITSTREAM_FILE os)) (\<lambda>t. require (t \<noteq> None)
     (SystemExit (''Existing bitstream not found for board-only mode: '' @ BITSTREAM_FILE os)))"

definition main_bridge_board_only ::
  "os \<Rightarrow> board \<Rightarrow> (py_exc \<Rightarrow> string) \<Rightarrow> main_args \<Rightarrow> environ \<Rightarrow> int flow" where
  "main_bridge_board_only os brd shown a env =
     (let logs = main_logs os a in
      and_then (require_bitstream os) (\<lambda>_.
      and_then (which_required os [''vivado.bat'', ''vivado'']) (\<lambda>vivado.
      and_then (try_except (bridge_board_block os brd a (board_job_of a env vivado)) \<lparr>bl_uart = [], bl_build_id = ''N/A''\<rparr>)
        (\<lambda>(caught, l).
      and_then (case caught of
          None \<Rightarrow> give (''none'', ''none'', bl_build_id l)
        | Some e \<Rightarrow> and_then (read_build_id os) (\<lambda>bid. give (''board_only_uart_capture'', exc_text shown e, bid)))
        (\<lambda>(stage, why, bid).
      let r = bl_uart l; ok = bridge_board_passed a stage r in
      and_then (write_json (in_dir logs ''summary.json'')
        (board_only_report a ok bid stage why (mode_capture_file os a) [] r)) (\<lambda>_.
      and_then (write_file (in_dir logs ''summary.txt'') (render_lines (bridge_board_lines os a ok bid stage why r))) (\<lambda>_.
      give (if ok then 0 else 1))))))))"

section \<open>The benchmark on the board\<close>

definition loaded_and_ran :: "items \<Rightarrow> bool" where
  "loaded_and_ran r \<longleftrightarrow> get_bool r ''loader_summary_ok'' \<and> get_bool r ''saw_start'' \<and> get_bool r ''saw_done''"

definition standard_board_lines ::
  "os \<Rightarrow> main_args \<Rightarrow> bool \<Rightarrow> string \<Rightarrow> string \<Rightarrow> string \<Rightarrow> string \<Rightarrow> items \<Rightarrow> items \<Rightarrow> string list" where
  "standard_board_lines os a ok bid stage why capture smoke r =
     [''Flow: '' @ flow_name a, ''Result: '' @ pass_text ok, ''FpgaImplMode: '' @ ma_impl_mode a, ''BuildID: '' @ bid,
      ''FailedStage: '' @ stage, ''FailureDetail: '' @ why, ''Bitstream: '' @ BITSTREAM_FILE os,
      ''SmokeCaptureFile: '' @ cf_text (smoke_files os), ''SmokeCaptureRawFile: '' @ cf_raw (smoke_files os),
      ''SmokeLoaderDecodedFile: '' @ cf_decoded (smoke_files os),
      ''SmokePassed: '' @ str_bool (loaded_and_ran smoke),
      ''BaselineCaptureFile: '' @ cf_text (baseline_files os), ''BaselineCaptureRawFile: '' @ cf_raw (baseline_files os),
      ''BaselineLoaderDecodedFile: '' @ cf_decoded (baseline_files os),
      ''BaselinePassed: '' @ str_bool (loaded_and_ran r),
      ''LoaderSummaryMask: '' @ fmt_optional_hex (get_or r ''loader_summary_mask'' (JStr ''N/A'')),
      ''UartSawReady: '' @ py_str (get_or r ''saw_ready'' (JBool False)),
      ''UartSawLoadStart: '' @ py_str (get_or r ''saw_load_start'' (JBool False)),
      ''UartSawDhrystoneStart: '' @ py_str (get_or r ''saw_start'' (JBool False)),
      ''UartSawDhrystoneDone: '' @ py_str (get_or r ''saw_done'' (JBool False)),
      ''UartBadReason: '' @ py_str (get_or r ''bad_reason'' (JStr ''none'')),
      ''CaptureFile: '' @ capture]"

definition existing_payloads :: "os \<Rightarrow> main_args \<Rightarrow> (items \<times> items) flow" where
  "existing_payloads os a =
     and_then (load_existing_payload_manifest (build_file os ''fpga_benchmark_ddr3'') ''dhrystone_smoke'') (\<lambda>smoke.
     and_then (if ma_dhrystone_runs a = 1 then give smoke
       else load_existing_payload_manifest (build_file os ''fpga_benchmark_ddr3'') ''dhrystone_baseline'') (\<lambda>baseline.
     give (smoke, baseline)))"

text \<open>What the two captures leave for the report: results, build id and capture file, or those of a failure.\<close>

definition standard_outcome ::
  "os \<Rightarrow> (py_exc \<Rightarrow> string) \<Rightarrow> board_capture flow \<Rightarrow> (string \<times> string \<times> items \<times> items \<times> string \<times> string) flow" where
  "standard_outcome os shown f m =
     (case f m of
        (Inr bc, m') \<Rightarrow> (Inr (''none'', ''none'',
           drive_items (if bc_capture_file bc = cf_text (smoke_files os) then smoke_files os else baseline_files os) (bc_result bc),
           drive_items (smoke_files os) (bc_smoke bc), bc_build_id bc, bc_capture_file bc), m')
      | (Inl e, m') \<Rightarrow> if is_exception e
          then and_then (read_build_id os) (\<lambda>bid. give (''board_only_uart_load_and_capture'', exc_text shown e, [], [], bid,
                 cf_text (smoke_files os))) m'
          else (Inl e, m'))"

definition main_standard_board_only ::
  "os \<Rightarrow> board \<Rightarrow> (py_exc \<Rightarrow> string) \<Rightarrow> main_args \<Rightarrow> environ \<Rightarrow> int flow" where
  "main_standard_board_only os brd shown a env =
     (let logs = main_logs os a in
      and_then (require_bitstream os) (\<lambda>_.
      and_then (existing_payloads os a) (\<lambda>(smoke_manifest, baseline_manifest).
      and_then (which_required os [''vivado.bat'', ''vivado'']) (\<lambda>vivado.
      and_then (standard_outcome os shown (run_dhrystone_board_capture os brd (board_job_of a env vivado) logs
        (ma_dhrystone_runs a) smoke_manifest baseline_manifest)) (\<lambda>(stage, why, r, smoke, bid, capture).
      let ok = (stage = ''none'' \<and> loaded_and_ran r) in
      and_then (write_json (in_dir logs ''summary.json'')
        (board_only_report a ok bid stage why capture [(''SmokeResult'', JObj smoke)] r)) (\<lambda>_.
      and_then (write_file (in_dir logs ''summary.txt'')
        (render_lines (standard_board_lines os a ok bid stage why capture smoke r))) (\<lambda>_.
      give (if ok then 0 else 1))))))))"

section \<open>Which of them\<close>

text \<open>The early returns of the script; nothing, when the staged flow is to run.\<close>

definition main_board_only ::
  "os \<Rightarrow> board \<Rightarrow> (py_exc \<Rightarrow> string) \<Rightarrow> main_args \<Rightarrow> environ \<Rightarrow> int flow option" where
  "main_board_only os brd shown a env =
     (if ma_selftest_board_only a then Some (main_selftest_board_only os brd shown a env)
      else if ma_early_audit_board_only a then Some (main_early_board_only os brd shown a env)
      else if ma_impl_mode a = ''board-only'' \<and> any_bridge a then Some (main_bridge_board_only os brd shown a env)
      else if ma_impl_mode a = ''board-only'' then Some (main_standard_board_only os brd shown a env)
      else None)"

end
