(* ===== verification/MainBuild.thy ===== *)
theory MainBuild
  imports MainModes
begin

text \<open>
  The first half of the staged flow of \<^verbatim>\<open>run_fpga_benchmark_ddr3.py\<close>, up to a bitstream that meets its
  timing: the regression tests, the simulations of the mode, and the synthesis and implementation.
\<close>

section \<open>The local variables\<close>

text \<open>
  The manifests are dicts; a log path of the loader simulations is that of \<^verbatim>\<open>not_run.log\<close> until the
  simulation is about to run.
\<close>

record main_locals =
  ml_stage :: string
  ml_manifest :: items
  ml_early :: items
  ml_smoke :: items
  ml_baseline :: items
  ml_transport :: "items list"
  ml_transport_tb :: "(transport_case \<times> string) list"
  ml_bridge_tb :: "(bridge_case \<times> string) list"
  ml_uart :: items
  ml_uart_smoke :: items
  ml_fault_logs :: "string list"
  ml_build_id :: string
  ml_sim_log :: string
  ml_quick_log :: string
  ml_prefix1_log :: string
  ml_prefix4_log :: string
  ml_long_log :: string
  ml_prefix4_failure :: string
  ml_long_failure :: string
  ml_capture_file :: string

definition main_start :: "os \<Rightarrow> main_args \<Rightarrow> main_locals" where
  "main_start os a = (let none_log = in_dir (main_logs os a) ''not_run.log'' in
     \<lparr>ml_stage = ''init'', ml_manifest = [], ml_early = [], ml_smoke = [], ml_baseline = [], ml_transport = [],
      ml_transport_tb = [], ml_bridge_tb = [], ml_uart = [], ml_uart_smoke = [], ml_fault_logs = [],
      ml_build_id = ''N/A'', ml_sim_log = none_log, ml_quick_log = none_log, ml_prefix1_log = none_log,
      ml_prefix4_log = none_log, ml_long_log = none_log, ml_prefix4_failure = [], ml_long_failure = [],
      ml_capture_file = mode_capture_file os a\<rparr>)"

type_synonym 'a step = "(main_locals, 'a) block"

definition enter :: "string \<Rightarrow> unit step" where
  "enter s = assign (\<lambda>l. l\<lparr>ml_stage := s\<rparr>)"

definition in_stage :: "string \<Rightarrow> 'a flow \<Rightarrow> 'a step" where
  "in_stage s f = then_do (enter s) (\<lambda>_. perform f)"

section \<open>The tests\<close>

definition main_tests_command :: "os \<Rightarrow> string \<Rightarrow> string list \<Rightarrow> string \<Rightarrow> command" where
  "main_tests_command os logs args name =
     \<lparr>cmd_args = [sys_executable os, in_dir (repo_root os) ''verification/run_all_tests.py''] @ args,
      cmd_cwd = Some (repo_root os), cmd_env = None, cmd_log = in_dir logs name, cmd_timeout = Some 3600\<rparr>"

definition basic_step :: "os \<Rightarrow> main_args \<Rightarrow> unit step" where
  "basic_step os a = in_stage ''basic''
     (run_logged runtime_exc os (main_tests_command os (main_logs os a) [''--basic''] ''01_basic.log''))"

definition fpga_config_step :: "os \<Rightarrow> main_args \<Rightarrow> unit step" where
  "fpga_config_step os a = in_stage ''basic_fpga_config'' (run_logged runtime_exc os
     (main_tests_command os (main_logs os a) [''--basic'', ''--fpga-config''] ''02_basic_fpga_config.log''))"

section \<open>Simulations of the special modes\<close>

definition main_core :: "main_args \<Rightarrow> core_params" where
  "main_core a = \<lparr>cp_rs_depth = ma_rs_depth a, cp_fetch_buffer_depth = ma_fetch_buffer_depth a,
     cp_core_hz = ma_core_hz a, cp_baud = ma_uart_baud a\<rparr>"

definition transport_items_of :: "payload_manifest \<Rightarrow> int \<Rightarrow> items" where
  "transport_items_of p seed =
     [(''bin'', JStr (pm_bin p)), (''entry'', json_nat (pm_entry p)), (''load_addr'', json_nat (pm_load_addr p)),
      (''size_bytes'', json_nat (pm_size_bytes p)), (''checksum32'', json_nat (pm_checksum p)), (''seed'', JInt seed)]"

definition TRANSPORT_CASE_SIZES :: "nat list" where
  "TRANSPORT_CASE_SIZES = [16, 64, 256, 1024]"

fun board_payloads :: "string \<Rightarrow> nat \<Rightarrow> nat list \<Rightarrow> items list flow" where
  "board_payloads dir i [] = give []"
| "board_payloads dir i (n # ns) =
     and_then (materialize_transport_payload dir n (''transport_'' @ dec_str n @ ''b'')) (\<lambda>p.
     and_then (board_payloads dir (Suc i) ns) (\<lambda>rest. give (transport_items_of p (int i + 1) # rest)))"

definition transport_steps :: "os \<Rightarrow> main_args \<Rightarrow> unit step" where
  "transport_steps os a =
     (let logs = main_logs os a in
      then_do (in_stage ''transport_tb_matrix'' (run_transport_tb_matrix os logs (ma_core_hz a) (ma_uart_baud a)
        (ma_transport_jitter_pct a) (ma_transport_byte_gap a) (ma_transport_ack_mode a) (ma_transport_seeds a))) (\<lambda>rs.
      then_do (assign (\<lambda>l. l\<lparr>ml_transport_tb := rs, ml_sim_log := in_dir logs ''06_run_transport_top_sim.log''\<rparr>)) (\<lambda>_.
      then_do (in_stage ''transport_top_sim'' (run_transport_top_sim os logs (main_core a))) (\<lambda>(log, p).
      then_do (assign (\<lambda>l. l\<lparr>ml_sim_log := log, ml_manifest := transport_items_of p 1\<rparr>)) (\<lambda>_.
      then_do (in_stage ''build_transport_board_payloads''
        (board_payloads (in_dir logs ''transport_board_payloads'') 0 TRANSPORT_CASE_SIZES)) (\<lambda>ps.
      assign (\<lambda>l. l\<lparr>ml_transport := ps\<rparr>)))))))"

text \<open>The three bridge modes: the stress test bench, then the whole chip.\<close>

definition bridge_steps ::
  "os \<Rightarrow> main_args \<Rightarrow> string \<Rightarrow> string \<Rightarrow> (os \<Rightarrow> string \<Rightarrow> core_params \<Rightarrow> string flow) \<Rightarrow> unit step" where
  "bridge_steps os a stage log_name sim =
     (let logs = main_logs os a in
      then_do (in_stage ''bridge_stress_tb'' (run_bridge_stress_tb os logs)) (\<lambda>rs.
      then_do (assign (\<lambda>l. l\<lparr>ml_bridge_tb := rs, ml_sim_log := in_dir logs log_name\<rparr>)) (\<lambda>_.
      then_do (in_stage stage (sim os logs (main_core a))) (\<lambda>log.
      assign (\<lambda>l. l\<lparr>ml_sim_log := log\<rparr>)))))"

definition bridge_steps_mode :: "os \<Rightarrow> main_args \<Rightarrow> unit step" where
  "bridge_steps_mode os a =
     bridge_steps os a ''bridge_steps_top_sim'' ''06_run_bridge_steps_top_sim.log'' run_bridge_steps_top_sim"

definition bridge_mode :: "os \<Rightarrow> main_args \<Rightarrow> unit step" where
  "bridge_mode os a = bridge_steps os a ''bridge_top_sim'' ''06_run_bridge_top_sim.log'' run_bridge_top_sim"

text \<open>Without the synthesis the log of the simulation is what there is to report.\<close>

definition report_sim :: "main_args \<Rightarrow> (string \<Rightarrow> string \<Rightarrow> items) \<Rightarrow> unit step" where
  "report_sim a analyze l =
     (if ma_skip_vivado a then
        then_do (perform (read_text (ml_sim_log l))) (\<lambda>t.
        assign (\<lambda>l. l\<lparr>ml_uart := analyze t (ml_sim_log l)\<rparr>)) l
      else perform (give ()) l)"

definition step2_mode :: "os \<Rightarrow> main_args \<Rightarrow> unit step" where
  "step2_mode os a =
     then_do (bridge_steps os a ''step2_only_top_sim'' ''06_run_step2_only_top_sim.log'' run_step2_only_top_sim) (\<lambda>_.
     report_sim a (\<lambda>t path. step2_sim_items (analyze_step2_only_sim_log t) path))"

definition selftest_mode :: "os \<Rightarrow> main_args \<Rightarrow> unit step" where
  "selftest_mode os a =
     (let logs = main_logs os a; log_name = ''05_run_loader_beacon_selftest_top_sim.log'' in
      then_do (assign (\<lambda>l. l\<lparr>ml_sim_log := in_dir logs log_name\<rparr>)) (\<lambda>_.
      then_do (in_stage ''loader_beacon_selftest_top_sim'' (run_loader_beacon_selftest_top_sim os logs (main_core a)
        \<lparr>ss_smt_mode = 0, ss_log_name = log_name,
         ss_rom_asm = Some (rom_file os ''test_fpga_ddr3_loader_beacon_selftest.s''),
         ss_tb_timeout_ns = None, ss_sim_timeout_s = None\<rparr>)) (\<lambda>log.
      then_do (assign (\<lambda>l. l\<lparr>ml_sim_log := log\<rparr>)) (\<lambda>_.
      report_sim a (\<lambda>t path. selftest_sim_items (analyze_loader_beacon_selftest_sim_log t) path)))))"

section \<open>Simulations of the loader\<close>

text \<open>
  A manifest as the simulation uses it.  Its numbers are read when they are printed, here first; a number
  that does not fit 32 bits is that of no payload.
\<close>

definition sim_manifest :: "items \<Rightarrow> payload_manifest flow" where
  "sim_manifest kvs =
     and_then (bin_path kvs) (\<lambda>p.
     and_then (word_item ''size_bytes'' kvs) (\<lambda>n.
     and_then (word_item ''checksum32'' kvs) (\<lambda>sum.
     give \<lparr>pm_elf = None, pm_bin = p, pm_entry = 0, pm_load_addr = 0, pm_size_bytes = n, pm_checksum = sum\<rparr>)))"

definition loader_sim_flow :: "os \<Rightarrow> script_env \<Rightarrow> main_args \<Rightarrow> string \<Rightarrow> items \<Rightarrow> loader_sim \<Rightarrow> string flow" where
  "loader_sim_flow os se a logs kvs ls =
     and_then (sim_manifest kvs) (\<lambda>p. run_loader_top_sim os se logs p (main_core a) ls)"

text \<open>The parameters a call leaves out.\<close>

definition default_sim :: "string \<Rightarrow> loader_sim" where
  "default_sim log_name = \<lparr>ls_expect_exec_pass = False, ls_prefix_enable = False, ls_prefix_target = 1,
     ls_fetch_debug = False, ls_smt_mode = 0, ls_log_name = log_name, ls_fast_uart_profile = False,
     ls_fast_uart_inject = None, ls_header_wait_bits = None, ls_payload_wait_bits = None, ls_u32_gap_bits = None,
     ls_chunk_ack_gap_bits = None, ls_block_done_gap_bits = None, ls_tb_timeout_ns = None, ls_sim_timeout_s = None,
     ls_rom_asm = None, ls_early_audit = False, ls_bad_magic_byte = - 1, ls_selftest = False, ls_block_trace = False,
     ls_chunk_trace = False, ls_rx_trace = False\<rparr>"

definition traced :: "main_args \<Rightarrow> loader_sim \<Rightarrow> loader_sim" where
  "traced a ls = ls\<lparr>ls_block_trace := ma_block_trace a, ls_chunk_trace := ma_chunk_trace a, ls_rx_trace := ma_rx_trace a\<rparr>"

subsection \<open>The early audit\<close>

definition early_sim :: "os \<Rightarrow> string \<Rightarrow> int \<Rightarrow> loader_sim" where
  "early_sim os log_name bad_byte = (default_sim log_name)
     \<lparr>ls_rom_asm := Some (rom_file os ''test_fpga_ddr3_loader_early_audit.s''), ls_early_audit := True,
      ls_bad_magic_byte := bad_byte\<rparr>"

fun early_faults :: "os \<Rightarrow> script_env \<Rightarrow> main_args \<Rightarrow> nat list \<Rightarrow> unit step" where
  "early_faults os se a [] = perform (give ())"
| "early_faults os se a (k # ks) =
     then_do (enter (''loader_early_audit_fault_b'' @ dec_str k)) (\<lambda>_.
     then_do (\<lambda>l. perform (loader_sim_flow os se a (in_dir (main_logs os a) (''fault_b'' @ dec_str k)) (ml_early l)
       (early_sim os (''06_run_loader_early_audit_fault_b'' @ dec_str k @ ''.log'') (int k))) l) (\<lambda>log.
     then_do (assign (\<lambda>l. l\<lparr>ml_fault_logs := ml_fault_logs l @ [log]\<rparr>)) (\<lambda>_.
     early_faults os se a ks)))"

definition early_mode :: "os \<Rightarrow> script_env \<Rightarrow> main_args \<Rightarrow> unit step" where
  "early_mode os se a =
     (let logs = main_logs os a; log_name = ''05_run_loader_early_audit_top_sim.log'' in
      then_do (in_stage ''build_dhrystone_payload'' (build_dhrystone_payload os logs (int (ma_core_hz a))
        (ma_dhrystone_runs a) ''dhrystone_loader_early_audit_source'' None)) (\<lambda>kvs.
      then_do (assign (\<lambda>l. l\<lparr>ml_manifest := kvs\<rparr>)) (\<lambda>_.
      then_do (in_stage ''build_loader_early_audit_manifest''
        (build_early_audit_manifest (block_checksum_bytes se) logs kvs ''dhrystone_loader_early_audit'')) (\<lambda>early.
      then_do (assign (\<lambda>l. l\<lparr>ml_early := early, ml_sim_log := in_dir logs log_name\<rparr>)) (\<lambda>_.
      then_do (in_stage ''loader_early_audit_top_sim'' (loader_sim_flow os se a logs early (early_sim os log_name (- 1)))) (\<lambda>log.
      then_do (assign (\<lambda>l. l\<lparr>ml_sim_log := log\<rparr>)) (\<lambda>_.
      then_do (early_faults os se a [0, 1, 2, 3]) (\<lambda>_.
      report_sim a (\<lambda>t path. early_sim_items (analyze_loader_early_audit_sim_log t) path)))))))))"

subsection \<open>The fetch probe\<close>

text \<open>The five items taken from a compiled payload.\<close>

definition taken_items :: "items \<Rightarrow> items" where
  "taken_items kvs = map (\<lambda>k. (k, item_of kvs k)) [''bin'', ''entry'', ''load_addr'', ''size_bytes'', ''checksum32'']"

definition tiny_payload :: "os \<Rightarrow> main_args \<Rightarrow> string \<Rightarrow> string \<Rightarrow> items flow" where
  "tiny_payload os a dir name =
     and_then (compile_ddr3_asm_payload os (rom_file os ''test_fpga_ddr3_exec_payload.s'') (in_dir (main_logs os a) dir) name)
       (\<lambda>kvs. give (taken_items kvs))"

definition fetch_debug_mode :: "os \<Rightarrow> script_env \<Rightarrow> main_args \<Rightarrow> unit step" where
  "fetch_debug_mode os se a =
     (let logs = main_logs os a; log_name = ''05_run_loader_top_sim.log'' in
      then_do (in_stage ''build_fetch_probe_payload''
        (tiny_payload os a ''fetch_probe_payload'' ''ddr3_fetch_probe_payload'')) (\<lambda>kvs.
      then_do (assign (\<lambda>l. l\<lparr>ml_manifest := kvs, ml_sim_log := in_dir logs log_name\<rparr>)) (\<lambda>_.
      then_do (in_stage ''loader_top_sim''
        (loader_sim_flow os se a logs kvs (traced a ((default_sim log_name)\<lparr>ls_fetch_debug := True\<rparr>)))) (\<lambda>log.
      assign (\<lambda>l. l\<lparr>ml_sim_log := log\<rparr>)))))"

subsection \<open>The loader\<close>

definition quick_gate_sim :: "main_args \<Rightarrow> string \<Rightarrow> loader_sim" where
  "quick_gate_sim a log_name = traced a ((default_sim log_name)
     \<lparr>ls_expect_exec_pass := True, ls_fast_uart_inject := Some 1, ls_header_wait_bits := Some 4,
      ls_payload_wait_bits := Some 4, ls_u32_gap_bits := Some 1, ls_chunk_ack_gap_bits := Some 1,
      ls_block_done_gap_bits := Some 1, ls_tb_timeout_ns := Some 2000000, ls_sim_timeout_s := Some 720\<rparr>)"

definition prefix_sim :: "script_env \<Rightarrow> main_args \<Rightarrow> nat \<Rightarrow> string \<Rightarrow> loader_sim" where
  "prefix_sim se a blocks log_name = traced a (loader_full_gate_profile se blocks (ma_core_hz a) ((default_sim log_name)
     \<lparr>ls_prefix_enable := True, ls_prefix_target := blocks\<rparr>))"

definition quick_steps :: "os \<Rightarrow> script_env \<Rightarrow> main_args \<Rightarrow> unit step" where
  "quick_steps os se a =
     (let dir = in_dir (main_logs os a) ''loader_quick''; log_name = ''05_run_loader_quick_sim.log'' in
      then_do (in_stage ''build_loader_quick_payload''
        (tiny_payload os a ''loader_quick_payload'' ''ddr3_loader_quick_payload'')) (\<lambda>kvs.
      then_do (assign (\<lambda>l. l\<lparr>ml_quick_log := in_dir dir log_name, ml_sim_log := in_dir dir log_name\<rparr>)) (\<lambda>_.
      then_do (in_stage ''loader_quick_sim'' (loader_sim_flow os se a dir kvs (quick_gate_sim a log_name))) (\<lambda>log.
      assign (\<lambda>l. l\<lparr>ml_quick_log := log\<rparr>)))))"

definition prefix1_steps :: "os \<Rightarrow> script_env \<Rightarrow> main_args \<Rightarrow> items step" where
  "prefix1_steps os se a =
     (let logs = main_logs os a; dir = in_dir logs ''loader_full_prefix1'';
          log_name = ''06_run_loader_full_payload_prefix1_sim.log'' in
      then_do (in_stage ''build_dhrystone_smoke_payload''
        (build_dhrystone_payload os logs (int (ma_core_hz a)) 1 ''dhrystone_smoke'' (Some 10))) (\<lambda>smoke.
      then_do (assign (\<lambda>l. l\<lparr>ml_smoke := smoke\<rparr>)) (\<lambda>_.
      then_do (in_stage ''loader_full_payload_prefix1_sim'' (positive_hz (ma_core_hz a))) (\<lambda>_.
      then_do (assign (\<lambda>l. l\<lparr>ml_prefix1_log := in_dir dir log_name, ml_sim_log := in_dir dir log_name\<rparr>)) (\<lambda>_.
      then_do (perform (loader_sim_flow os se a dir smoke (prefix_sim se a 1 log_name))) (\<lambda>log.
      then_do (assign (\<lambda>l. l\<lparr>ml_prefix1_log := log\<rparr>)) (\<lambda>_. perform (give smoke))))))))"

text \<open>\<^verbatim>\<open>try: ... except Exception as exc: detail = str(exc)\<close>, for the two simulations that may fail.\<close>

definition noting :: "(py_exc \<Rightarrow> string) \<Rightarrow> (string \<Rightarrow> main_locals \<Rightarrow> main_locals) \<Rightarrow> unit step \<Rightarrow> unit step" where
  "noting shown note_it b l m =
     (case b l m of
        (Inr u, l', m') \<Rightarrow> (Inr (), l', m')
      | (Inl e, l', m') \<Rightarrow> if is_exception e then (Inr (), note_it (exc_text shown e) l', m') else (Inl e, l', m'))"

definition long_prefix_sim ::
  "os \<Rightarrow> script_env \<Rightarrow> main_args \<Rightarrow> items \<Rightarrow> nat \<Rightarrow> string \<Rightarrow> string \<Rightarrow> (string \<Rightarrow> main_locals \<Rightarrow> main_locals) \<Rightarrow> unit step" where
  "long_prefix_sim os se a smoke blocks dir log_name keep =
     then_do (assign (\<lambda>l. l\<lparr>ml_sim_log := in_dir (in_dir (main_logs os a) dir) log_name\<rparr>)) (\<lambda>_.
     then_do (perform (loader_sim_flow os se a (in_dir (main_logs os a) dir) smoke (prefix_sim se a blocks log_name))) (\<lambda>log.
     assign (keep log)))"

definition long_steps :: "os \<Rightarrow> script_env \<Rightarrow> (py_exc \<Rightarrow> string) \<Rightarrow> main_args \<Rightarrow> items \<Rightarrow> unit step" where
  "long_steps os se shown a smoke =
     (let logs = main_logs os a;
          name4 = ''07_run_loader_full_payload_prefix4_sim.log''; name16 = ''08_run_loader_full_payload_long_sim.log'' in
      if ma_run_loader_long_sim a then
        then_do (assign (\<lambda>l. l\<lparr>ml_stage := ''loader_full_payload_prefix4_sim'',
          ml_prefix4_log := in_dir (in_dir logs ''loader_full_prefix4'') name4,
          ml_long_log := in_dir (in_dir logs ''loader_full_long'') name16\<rparr>)) (\<lambda>_.
        then_do (noting shown (\<lambda>s l. l\<lparr>ml_prefix4_failure := s\<rparr>)
          (long_prefix_sim os se a smoke 4 ''loader_full_prefix4'' name4 (\<lambda>log l. l\<lparr>ml_prefix4_log := log\<rparr>))) (\<lambda>_.
        then_do (noting shown (\<lambda>s l. l\<lparr>ml_long_failure := s\<rparr>)
          (then_do (enter ''loader_full_payload_long_sim'') (\<lambda>_.
           long_prefix_sim os se a smoke 16 ''loader_full_long'' name16 (\<lambda>log l. l\<lparr>ml_long_log := log\<rparr>)))) (\<lambda>_.
        assign (\<lambda>l. l\<lparr>ml_stage := ''loader_full_payload_prefix1_sim'', ml_sim_log := ml_prefix1_log l\<rparr>))))
      else perform (give ()))"

definition baseline_steps :: "os \<Rightarrow> main_args \<Rightarrow> items \<Rightarrow> unit step" where
  "baseline_steps os a smoke =
     then_do (in_stage ''build_dhrystone_baseline_payload''
       (if ma_dhrystone_runs a = 1 then give smoke
        else build_dhrystone_payload os (main_logs os a) (int (ma_core_hz a)) (ma_dhrystone_runs a) ''dhrystone_baseline''
          (Some (ma_dhrystone_runs a)))) (\<lambda>baseline.
     then_do (assign (\<lambda>l. l\<lparr>ml_baseline := baseline, ml_manifest := baseline\<rparr>)) (\<lambda>_ l.
       if ma_skip_vivado a then
         then_do (perform (read_text (ml_prefix1_log l))) (\<lambda>t.
         assign (\<lambda>l. l\<lparr>ml_uart := loader_sim_items (analyze_loader_sim_log t) (ml_prefix1_log l),
           ml_capture_file := ml_prefix1_log l\<rparr>)) l
       else perform (give ()) l))"

definition loader_mode :: "os \<Rightarrow> script_env \<Rightarrow> (py_exc \<Rightarrow> string) \<Rightarrow> main_args \<Rightarrow> unit step" where
  "loader_mode os se shown a =
     then_do (quick_steps os se a) (\<lambda>_.
     then_do (prefix1_steps os se a) (\<lambda>smoke.
     then_do (long_steps os se shown a smoke) (\<lambda>_.
     baseline_steps os a smoke)))"

definition mode_steps :: "os \<Rightarrow> script_env \<Rightarrow> (py_exc \<Rightarrow> string) \<Rightarrow> main_args \<Rightarrow> unit step" where
  "mode_steps os se shown a =
     (if ma_transport_only a then transport_steps os a
      else if ma_bridge_audit_steps a then bridge_steps_mode os a
      else if ma_step2_only a then step2_mode os a
      else if ma_selftest a then selftest_mode os a
      else if ma_early_audit a then early_mode os se a
      else if ma_bridge_audit a then bridge_mode os a
      else if ma_fetch_debug a then fetch_debug_mode os se a
      else loader_mode os se shown a)"

section \<open>Synthesis and implementation\<close>

definition main_vivado :: "os \<Rightarrow> main_args \<Rightarrow> string \<Rightarrow> environ \<Rightarrow> string \<Rightarrow> string \<Rightarrow> nat \<Rightarrow> command" where
  "main_vivado os a vivado env script log timeout =
     \<lparr>cmd_args = [vivado, ''-mode'', ''batch'', ''-source'', in_dir (repo_root os) script],
      cmd_cwd = Some (repo_root os), cmd_env = Some env, cmd_log = in_dir (main_logs os a) log, cmd_timeout = Some timeout\<rparr>"

definition PROJECT_FILE :: "os \<Rightarrow> string" where
  "PROJECT_FILE os = build_file os ''ax7203/sifang_core_ax7203.xpr''"

definition MIG_DIR :: "os \<Rightarrow> string" where
  "MIG_DIR os = build_file os ''ax7203/sifang_core_ax7203.gen/sources_1/ip/mig_7series_0''"

text \<open>
  Why a project has to be made, if it has to.  Directories are not part of the machine, so whether the
  generated one is there is an answer of the world, to what has been run so far.
\<close>

definition create_reason :: "os \<Rightarrow> environ \<Rightarrow> bool \<Rightarrow> string option \<Rightarrow> string option" where
  "create_reason os env mig_there project =
     (if project = None then Some ''project missing''
      else if env ''AX7203_ENABLE_DDR3'' = Some ''1'' \<and> \<not> mig_there
        then Some (''DDR3 MIG generated directory missing: '' @ MIG_DIR os)
      else None)"

definition create_project ::
  "os \<Rightarrow> (action list \<Rightarrow> bool) \<Rightarrow> main_args \<Rightarrow> environ \<Rightarrow> string \<Rightarrow> unit flow" where
  "create_project os mig_there a env vivado =
     and_then (look_file (PROJECT_FILE os)) (\<lambda>project m.
       case create_reason os env (mig_there (actions m)) project of
         None \<Rightarrow> write_file (in_dir (main_logs os a) ''07_create_project.log'')
           (''Reusing existing Vivado project for --fpga-impl-mode '' @ ma_impl_mode a @ '': '' @ PROJECT_FILE os @ newline) m
       | Some why \<Rightarrow>
           and_then (write_file (in_dir (main_logs os a) ''07_create_project.reason.txt'')
             (''Creating Vivado project because '' @ why @ ''.'' @ newline)) (\<lambda>_.
           run_logged runtime_exc os
             (main_vivado os a vivado env ''fpga/create_project_ax7203.tcl'' ''07_create_project.log'' 3600)) m)"

definition TIMING_SUMMARY_INCR :: "os \<Rightarrow> string" where
  "TIMING_SUMMARY_INCR os = build_file os ''ax7203/reports/timing_summary_incremental.rpt''"

definition SYNTH_TIMING_SUMMARY :: "os \<Rightarrow> string" where
  "SYNTH_TIMING_SUMMARY os = build_file os ''ax7203/reports/synth_timing_summary.rpt''"

text \<open>A report without the two numbers is a \<^verbatim>\<open>ValueError\<close>, when the constraints are said to be met.\<close>

definition timing_check :: "string \<Rightarrow> string \<Rightarrow> unit flow" where
  "timing_check path msg = and_then (look_file path) (\<lambda>t.
     let ts = parse_timing_summary t in
     and_then (require (ts_constraints_met ts) (RuntimeError msg)) (\<lambda>_.
     case negative_slack (ts_wns ts) of
       None \<Rightarrow> raise_exc ValueError
     | Some True \<Rightarrow> raise_exc (RuntimeError msg)
     | Some False \<Rightarrow> (case negative_slack (ts_whs ts) of
           None \<Rightarrow> raise_exc ValueError
         | Some neg \<Rightarrow> require (\<not> neg) (RuntimeError msg))))"

text \<open>A failure of the incremental implementation is written down and raised again with advice.\<close>

definition incremental_log :: "os \<Rightarrow> main_args \<Rightarrow> string" where
  "incremental_log os a = in_dir (main_logs os a) ''09_impl_incremental.log''"

definition impl_incremental ::
  "os \<Rightarrow> (py_exc \<Rightarrow> string) \<Rightarrow> main_args \<Rightarrow> environ \<Rightarrow> string \<Rightarrow> unit flow" where
  "impl_incremental os shown a env vivado m =
     (case and_then (run_logged runtime_exc os
             (main_vivado os a vivado env ''fpga/impl_incremental.tcl'' ''09_impl_incremental.log'' 18000)) (\<lambda>_.
           timing_check (TIMING_SUMMARY_INCR os)
             (''incremental implementation timing failed; see '' @ TIMING_SUMMARY_INCR os)) m of
        (Inr u, m') \<Rightarrow> (Inr (), m')
      | (Inl e, m') \<Rightarrow> if is_exception e
          then and_then (write_file (in_dir (main_logs os a) ''09_impl_incremental_fallback.log'')
                 (''Incremental implementation failed; not falling back to aggressive implementation automatically.'' @ newline
                  @ ''Reason: '' @ exc_text shown e @ newline @ ''Incremental log: '' @ incremental_log os a @ newline)) (\<lambda>_.
               raise_exc (RuntimeError (''incremental implementation failed; see '' @ incremental_log os a
                 @ ''. Run --fpga-impl-mode aggressive explicitly only after the Verilator-first debug loop allows it.''))) m'
          else (Inl e, m'))"

definition timing_report :: "os \<Rightarrow> main_args \<Rightarrow> string" where
  "timing_report os a = (if ma_impl_mode a = ''incremental'' then TIMING_SUMMARY_INCR os else TIMING_SUMMARY_AGGR os)"

definition impl_step :: "os \<Rightarrow> (py_exc \<Rightarrow> string) \<Rightarrow> main_args \<Rightarrow> environ \<Rightarrow> string \<Rightarrow> unit step" where
  "impl_step os shown a env vivado =
     then_do (if ma_impl_mode a = ''incremental''
       then in_stage ''impl_incremental'' (impl_incremental os shown a env vivado)
       else in_stage ''impl_aggressive'' (run_logged runtime_exc os
         (main_vivado os a vivado env ''fpga/impl_aggressive.tcl'' ''09_impl_aggressive.log'' 18000))) (\<lambda>_.
     perform (timing_check (timing_report os a)
       (ma_impl_mode a @ '' implementation timing failed; see '' @ timing_report os a)))"

text \<open>The path of the synthesis tool where the flow goes on to the board; nothing when it ends with the synthesis.\<close>

definition vivado_steps ::
  "os \<Rightarrow> (action list \<Rightarrow> bool) \<Rightarrow> (py_exc \<Rightarrow> string) \<Rightarrow> main_args \<Rightarrow> environ \<Rightarrow> string option step" where
  "vivado_steps os mig_there shown a env =
     then_do (perform (which_required os [''vivado.bat'', ''vivado''])) (\<lambda>vivado.
     then_do (in_stage ''create_project'' (create_project os mig_there a env vivado)) (\<lambda>_.
     then_do (in_stage ''synth'' (run_logged runtime_exc os
       (main_vivado os a vivado env ''fpga/run_ax7203_synth.tcl'' ''08_run_synth.log'' 7200))) (\<lambda>_.
     if ma_impl_mode a = ''synth-only'' then then_do (enter ''none'') (\<lambda>_. perform (give None))
     else then_do (impl_step os shown a env vivado) (\<lambda>_. perform (give (Some vivado))))))"

text \<open>Everything before the board.\<close>

definition build_steps ::
  "os \<Rightarrow> script_env \<Rightarrow> (action list \<Rightarrow> bool) \<Rightarrow> (py_exc \<Rightarrow> string) \<Rightarrow> main_args \<Rightarrow> environ \<Rightarrow> string option step" where
  "build_steps os se mig_there shown a env =
     then_do (basic_step os a) (\<lambda>_.
     then_do (fpga_config_step os a) (\<lambda>_.
     then_do (mode_steps os se shown a) (\<lambda>_.
     if ma_skip_vivado a then perform (give None) else vivado_steps os mig_there shown a env)))"

end
