(* ===== verification/MainFlow.thy ===== *)
theory MainFlow
  imports MainBuild
begin

text \<open>
  The second half of the staged flow of \<^verbatim>\<open>run_fpga_benchmark_ddr3.py\<close>: the new bitstream on the board, what
  the board must have shown, and the flow as a whole up to its summary.
\<close>

section \<open>On the board\<close>

text \<open>A \<^verbatim>\<open>with serial.Serial\<close> block that programs the board, in a stage of its own.\<close>

definition board_session ::
  "os \<Rightarrow> board \<Rightarrow> board_job \<Rightarrow> string \<Rightarrow> string \<Rightarrow> 'a step \<Rightarrow> 'a step" where
  "board_session os brd job stage log rest =
     then_do (perform (open_port brd (bj_port job) (bj_uart_baud job))) (\<lambda>_.
     then_do (in_stage stage (run_logged runtime_exc os (program_command os job log))) (\<lambda>_.
     then_do (perform (read_build_id os)) (\<lambda>bid.
     then_do (assign (\<lambda>l. l\<lparr>ml_build_id := bid\<rparr>)) (\<lambda>_. rest))))"

definition keep_uart :: "items \<Rightarrow> unit step" where
  "keep_uart r = assign (\<lambda>l. l\<lparr>ml_uart := r\<rparr>)"

definition selftest_board :: "os \<Rightarrow> board \<Rightarrow> (py_exc \<Rightarrow> string) \<Rightarrow> main_args \<Rightarrow> board_job \<Rightarrow> unit step" where
  "selftest_board os brd shown a job =
     then_do (perform (run_loader_beacon_selftest_board os brd shown job (main_logs os a))) (\<lambda>(r, stage, why).
     then_do (assign (\<lambda>l. l\<lparr>ml_uart := selftest_result_items os r, ml_build_id := sb_build_id r, ml_stage := stage\<rparr>)) (\<lambda>_.
     perform (require (stage = ''none'') (RuntimeError why))))"

definition bridge_board :: "os \<Rightarrow> board \<Rightarrow> main_args \<Rightarrow> board_job \<Rightarrow> unit step" where
  "bridge_board os brd a job =
     then_do (perform (import_serial brd ''bridge-audit UART capture'')) (\<lambda>_.
     board_session os brd job ''program_jtag'' (in_dir (main_logs os a) ''10_program_jtag.log'')
       (then_do (\<lambda>l. in_stage ''uart_load_and_capture'' (mode_capture os brd a (ml_capture_file l)) l) keep_uart))"

definition EARLY_AUDIT_TRAINING_COUNT_SIM :: nat where
  "EARLY_AUDIT_TRAINING_COUNT_SIM = 16"

definition early_board_options :: "main_args \<Rightarrow> early_options" where
  "early_board_options a = \<lparr>wait_for_fresh_ready_only = True, allow_blind_header_fallback = False,
     post_jtag_quiet_ms = ma_post_jtag_quiet_ms a, header_send_delay_ms = ma_header_send_delay_ms a,
     training_count = EARLY_AUDIT_TRAINING_COUNT_SIM\<rparr>"

definition early_board :: "os \<Rightarrow> board \<Rightarrow> main_args \<Rightarrow> board_job \<Rightarrow> unit step" where
  "early_board os brd a job =
     board_session os brd job ''program_jtag'' (in_dir (main_logs os a) ''10_program_jtag.log'')
       (then_do (\<lambda>l. in_stage ''uart_load_and_capture_early_audit'' (run_uart_loader_early_audit_capture brd True None (ml_early l)
          (ma_capture_seconds a) (early_files_main os) (Some (early_sessions_file os)) (int (ma_uart_baud a))
          (early_board_options a)) l) (\<lambda>r.
        assign (\<lambda>l. l\<lparr>ml_uart := early_drive_items (early_files_main os) (Some (early_sessions_file os)) r,
          ml_capture_file := cf_text (early_files_main os)\<rparr>)))"

text \<open>The manifests of the sessions are read from their files as the sessions start, here before the first.\<close>

definition read_transport_manifest :: "items \<Rightarrow> transport_manifest flow" where
  "read_transport_manifest kvs =
     and_then (read_manifest kvs) (\<lambda>m.
     give \<lparr>m_payload = m_payload m, m_load_addr = m_load_addr m, m_entry = m_entry m, m_checksum32 = m_checksum32 m,
       m_seed = (case get_item ''seed'' kvs of None \<Rightarrow> None | Some j \<Rightarrow> json_int j)\<rparr>)"

fun read_transport_manifests :: "items list \<Rightarrow> transport_manifest list flow" where
  "read_transport_manifests [] = give []"
| "read_transport_manifests (kvs # rest) =
     and_then (read_transport_manifest kvs) (\<lambda>m. and_then (read_transport_manifests rest) (\<lambda>ms. give (m # ms)))"

definition transport_capture :: "board \<Rightarrow> main_args \<Rightarrow> items list \<Rightarrow> string \<Rightarrow> items flow" where
  "transport_capture brd a ps log_path =
     and_then (read_transport_manifests ps) (\<lambda>ms.
     and_then (exchange brd (drive_uart_transport_sessions (board_env brd) ms)
       (\<lambda>r. [(log_path, latin1_decode (tr_log r))])) (\<lambda>r.
     give (transport_items r)))"

definition transport_board :: "os \<Rightarrow> board \<Rightarrow> main_args \<Rightarrow> board_job \<Rightarrow> unit step" where
  "transport_board os brd a job =
     board_session os brd job ''program_jtag'' (in_dir (main_logs os a) ''10_program_jtag.log'')
       (then_do (\<lambda>l. in_stage ''uart_load_and_capture'' (transport_capture brd a (ml_transport l) (ml_capture_file l)) l) keep_uart)"

text \<open>The fetch probe and the benchmark first program the board without listening.\<close>

definition program_only :: "os \<Rightarrow> main_args \<Rightarrow> board_job \<Rightarrow> unit step" where
  "program_only os a job =
     then_do (in_stage ''program_jtag''
       (run_logged runtime_exc os (program_command os job (in_dir (main_logs os a) ''10_program_jtag.log'')))) (\<lambda>_.
     then_do (perform (read_build_id os)) (\<lambda>bid.
     assign (\<lambda>l. l\<lparr>ml_build_id := bid\<rparr>)))"

definition fetch_debug_board :: "os \<Rightarrow> board \<Rightarrow> main_args \<Rightarrow> board_job \<Rightarrow> unit step" where
  "fetch_debug_board os brd a job =
     then_do (program_only os a job) (\<lambda>_.
     then_do (\<lambda>l. in_stage ''uart_load_and_capture'' (run_uart_loader_capture brd False (Some (ma_port a)) (ml_manifest l)
       (ma_capture_seconds a) (baseline_files os) (int (ma_uart_baud a)) False) l) (\<lambda>r.
     keep_uart (drive_items (baseline_files os) r)))"

definition load_on_board :: "os \<Rightarrow> board \<Rightarrow> main_args \<Rightarrow> string \<Rightarrow> items \<Rightarrow> capture_files \<Rightarrow> items step" where
  "load_on_board os brd a stage kvs cf =
     then_do (in_stage stage (run_uart_loader_capture brd True None kvs (ma_capture_seconds a) cf (int (ma_uart_baud a)) True))
       (\<lambda>r. perform (give (drive_items cf r)))"

text \<open>Conditions asked for in order, each with the text of its \<^verbatim>\<open>RuntimeError\<close>.\<close>

fun check_all :: "(bool \<times> string) list \<Rightarrow> unit flow" where
  "check_all [] = give ()"
| "check_all ((ok, msg) # cs) = and_then (require ok (RuntimeError msg)) (\<lambda>_. check_all cs)"

definition shown_item :: "items \<Rightarrow> string \<Rightarrow> string \<Rightarrow> string" where
  "shown_item r key other = py_str (get_or r key (JStr other))"

definition smoke_load_checks :: "os \<Rightarrow> items \<Rightarrow> (bool \<times> string) list" where
  "smoke_load_checks os r =
     (let see = ''; see '' @ cf_text (smoke_files os) in
      [(\<not> get_bool r ''loader_bad_seen'',
          ''Smoke loader beacon reported failure ('' @ shown_item r ''bad_reason'' ''unknown'' @ '')'' @ see),
       (get_bool r ''loader_summary_seen'', ''Smoke loader beacon missing SUMMARY'' @ see),
       (get_bool r ''loader_summary_ok'', ''Smoke loader SUMMARY indicates failure'' @ see),
       (get_bool r ''saw_start'', ''Smoke board run missing DHRYSTONE START'' @ see),
       (get_bool r ''saw_done'', ''Smoke board run missing DHRYSTONE DONE'' @ see)])"

definition benchmark_board :: "os \<Rightarrow> board \<Rightarrow> main_args \<Rightarrow> board_job \<Rightarrow> unit step" where
  "benchmark_board os brd a job =
     (let logs = main_logs os a in
      then_do (program_only os a job) (\<lambda>_.
      then_do (enter ''uart_load_and_capture_smoke'') (\<lambda>_.
      then_do (\<lambda>l. board_session os brd job ''program_jtag_smoke'' (in_dir logs ''10_program_jtag_smoke.log'')
        (load_on_board os brd a ''uart_load_and_capture_smoke'' (ml_smoke l) (smoke_files os)) l) (\<lambda>smoke.
      then_do (assign (\<lambda>l. l\<lparr>ml_uart_smoke := smoke\<rparr>)) (\<lambda>_.
      then_do (perform (check_all (smoke_load_checks os smoke))) (\<lambda>_.
      if ma_dhrystone_runs a = 1 then
        assign (\<lambda>l. l\<lparr>ml_uart := smoke, ml_capture_file := cf_text (smoke_files os)\<rparr>)
      else
        then_do (\<lambda>l. board_session os brd job ''program_jtag_baseline'' (in_dir logs ''11_program_jtag_baseline.log'')
          (load_on_board os brd a ''uart_load_and_capture_baseline'' (ml_baseline l) (baseline_files os)) l) (\<lambda>r.
        assign (\<lambda>l. l\<lparr>ml_uart := r, ml_capture_file := cf_text (baseline_files os)\<rparr>))))))))"

definition board_steps :: "os \<Rightarrow> board \<Rightarrow> (py_exc \<Rightarrow> string) \<Rightarrow> main_args \<Rightarrow> board_job \<Rightarrow> unit step" where
  "board_steps os brd shown a job =
     (if ma_selftest a then selftest_board os brd shown a job
      else if any_bridge a then bridge_board os brd a job
      else
        then_do (perform (import_serial brd ''board benchmark UART loading'')) (\<lambda>_.
        if ma_early_audit a then early_board os brd a job
        else if ma_transport_only a then transport_board os brd a job
        else if ma_fetch_debug a then fetch_debug_board os brd a job
        else benchmark_board os brd a job))"

section \<open>What the board must have shown\<close>

definition step2_checks :: "items \<Rightarrow> string \<Rightarrow> (bool \<times> string) list" where
  "step2_checks r see =
     (let profile = ''DDR3 step2-only board profile '' in
      [(\<not> (get_bool r ''saw_bad'' \<or> get_bool r ''saw_trap'' \<or> get_bool r ''saw_cal_fail''),
          profile @ ''reported failure ('' @ shown_item r ''bad_reason'' ''unknown'' @ '')'' @ see),
       (get_bool r ''ready_seen'', profile @ ''did not emit READY beacon'' @ see),
       (get_bool r ''case1_pass'', profile @ ''did not complete case1'' @ see),
       (get_bool r ''case2_pass'', profile @ ''did not complete case2'' @ see),
       (get_bool r ''case3_pass'', profile @ ''did not complete case3'' @ see),
       (get_bool r ''case4_pass'', profile @ ''did not complete case4'' @ see),
       (get_bool r ''case5_pass'', profile @ ''did not complete case5'' @ see),
       (get_bool r ''summary_seen'', profile @ ''did not emit SUMMARY beacon'' @ see),
       (get_bool r ''all_ok_seen'', profile @ ''emitted a failing SUMMARY mask'' @ see)])"

definition steps_checks :: "items \<Rightarrow> string \<Rightarrow> (bool \<times> string) list" where
  "steps_checks r see =
     (let profile = ''DDR3 bridge-steps board profile '' in
      [(\<not> get_bool r ''saw_bad'', profile @ ''reported compare failure'' @ see),
       (get_bool r ''ready_seen'', profile @ ''did not print BSTEP READY'' @ see),
       (get_bool r ''step1_pass'', profile @ ''did not complete step1'' @ see),
       (get_bool r ''step2_pass'', profile @ ''did not complete step2'' @ see),
       (get_bool r ''step3_pass'', profile @ ''did not complete step3'' @ see),
       (get_bool r ''all_ok_seen'', profile @ ''did not print BSTEP ALL OK'' @ see)])"

definition bridge_checks :: "items \<Rightarrow> string \<Rightarrow> (bool \<times> string) list" where
  "bridge_checks r see =
     [(\<not> get_bool r ''saw_bad'', ''DDR3 bridge board profile reported compare failure'' @ see),
      (2 \<le> get_int r ''ok_count'', ''DDR3 bridge board profile did not produce enough BRIDGE OK tokens'' @ see)]"

definition transport_checks :: "items \<Rightarrow> nat \<Rightarrow> string \<Rightarrow> (bool \<times> string) list" where
  "transport_checks r expected see =
     [(get_or r ''bad_reason'' (JStr ''none'') = JStr ''none'',
         ''UART reported transport error ('' @ shown_item r ''bad_reason'' ''unknown'' @ '')'' @ see),
      (get_int r ''session_count'' = int expected,
         ''Transport board session count mismatch ('' @ py_str (get_or r ''session_count'' (JInt 0)) @ ''/'' @ dec_str expected
         @ '')'' @ see)]"

definition fetch_checks :: "items \<Rightarrow> string \<Rightarrow> (bool \<times> string) list" where
  "fetch_checks r see =
     [(\<not> get_bool r ''loader_bad_seen'',
         ''Fetch-debug loader beacon reported failure ('' @ shown_item r ''bad_reason'' ''unknown'' @ '')'' @ see),
      (get_bool r ''loader_summary_seen'', ''Fetch-debug loader beacon missing SUMMARY'' @ see),
      (get_bool r ''loader_summary_ok'', ''Fetch-debug loader SUMMARY indicates failure'' @ see),
      (get_bool r ''saw_probe'', ''UART missing M0D fetch probe beacon'' @ see)]"

definition selftest_checks :: "items \<Rightarrow> string \<Rightarrow> (bool \<times> string) list" where
  "selftest_checks r see =
     [(get_bool r ''loader_beacon_selftest_pass'',
         ''Beacon selftest mismatch ('' @ shown_item r ''loader_session_classification'' ''unknown'' @ '')'' @ see),
      (get_int r ''loader_bad_frames'' = 0, ''Beacon selftest saw bad frames'' @ see),
      (get_int r ''loader_session_count'' = 1, ''Beacon selftest expected exactly one session'' @ see)]"

definition early_checks :: "items \<Rightarrow> string \<Rightarrow> (bool \<times> string) list" where
  "early_checks r see =
     (let class = '' ('' @ shown_item r ''loader_session_classification'' ''other'' @ '')'' in
      [(\<not> get_bool r ''loader_session_start_not_found'', ''Early-audit session start not found'' @ see),
       (\<not> (get_bool r ''loader_bad_seen'' \<or> get_bool r ''loader_bad_magic_seen''),
          ''Early-audit loader reported failure ('' @ shown_item r ''bad_reason'' ''unknown'' @ '', byte=''
          @ shown_item r ''loader_bad_magic_byte_index'' ''N/A'' @ '')'' @ see),
       (get_bool r ''loader_ready_seen'', ''Early-audit missing READY'' @ see),
       (get_bool r ''loader_header_magic_ok'', ''Early-audit missing HDR_MAGIC_OK'' @ class @ see),
       (get_bool r ''loader_load_start_seen'', ''Early-audit missing LOAD_START'' @ class @ see),
       (get_bool r ''loader_first_block_ack_seen'', ''Early-audit missing BLOCK_ACK(0)'' @ class @ see),
       (get_bool r ''loader_summary_seen'', ''Early-audit missing SUMMARY'' @ see),
       (get_bool r ''loader_summary_ok'', ''Early-audit SUMMARY indicates failure'' @ see)])"

definition benchmark_checks :: "items \<Rightarrow> string \<Rightarrow> (bool \<times> string) list" where
  "benchmark_checks r see =
     [(\<not> get_bool r ''loader_bad_seen'',
         ''Loader beacon reported failure ('' @ shown_item r ''bad_reason'' ''unknown'' @ '')'' @ see),
      (get_bool r ''loader_summary_seen'', ''Loader beacon missing SUMMARY'' @ see),
      (get_bool r ''loader_summary_ok'', ''Loader SUMMARY indicates failure'' @ see),
      (get_bool r ''saw_start'', ''UART missing DHRYSTONE START'' @ see),
      (get_bool r ''saw_done'', ''UART missing DHRYSTONE DONE'' @ see)]"

definition verdict_checks :: "main_args \<Rightarrow> main_locals \<Rightarrow> (bool \<times> string) list" where
  "verdict_checks a l =
     (let r = ml_uart l; see = ''; see '' @ ml_capture_file l in
      if ma_step2_only a then step2_checks r see
      else if ma_bridge_audit_steps a then steps_checks r see
      else if ma_bridge_audit a then bridge_checks r see
      else if ma_transport_only a then transport_checks r (length (ml_transport l)) see
      else if ma_fetch_debug a then fetch_checks r see
      else if ma_selftest a then selftest_checks r see
      else if ma_early_audit a then early_checks r see
      else benchmark_checks r see)"

definition verdict :: "main_args \<Rightarrow> unit step" where
  "verdict a l = perform (check_all (verdict_checks a l)) l"

definition main_body ::
  "os \<Rightarrow> script_env \<Rightarrow> (action list \<Rightarrow> bool) \<Rightarrow> board \<Rightarrow> (py_exc \<Rightarrow> string) \<Rightarrow> main_args \<Rightarrow> environ \<Rightarrow> unit step" where
  "main_body os se mig_there brd shown a env =
     then_do (build_steps os se mig_there shown a env) (\<lambda>r.
     case r of
       None \<Rightarrow> perform (give ())
     | Some vivado \<Rightarrow> then_do (board_steps os brd shown a (board_job_of a env vivado)) (\<lambda>_. verdict a))"

end
