(* ===== verification/MainSummary.thy ===== *)
theory MainSummary
  imports MainFlow
begin

text \<open>
  The summary of \<^verbatim>\<open>run_fpga_benchmark_ddr3.py\<close>, line by line, and \<^verbatim>\<open>main\<close> as a whole.
\<close>

section \<open>Items\<close>

text \<open>\<^verbatim>\<open>d.get(key, d.get(other_key, default))\<close>\<close>

fun first_of :: "items \<Rightarrow> string list \<Rightarrow> json \<Rightarrow> json" where
  "first_of kvs [] other = other"
| "first_of kvs (k # ks) other = (case get_item k kvs of Some j \<Rightarrow> j | None \<Rightarrow> first_of kvs ks other)"

definition dict_of :: "items \<Rightarrow> string \<Rightarrow> items" where
  "dict_of kvs key = (case get_item key kvs of Some (JObj d) \<Rightarrow> d | _ \<Rightarrow> [])"

definition list_of :: "items \<Rightarrow> string \<Rightarrow> json list" where
  "list_of kvs key = (case get_item key kvs of Some (JList xs) \<Rightarrow> xs | _ \<Rightarrow> [])"

definition session_count_text :: "items \<Rightarrow> string" where
  "session_count_text r = (case get_item ''loader_session_count'' r of
     Some j \<Rightarrow> py_str j
   | None \<Rightarrow> (case get_item ''sessions'' r of Some (JList xs) \<Rightarrow> dec_str (length xs) | _ \<Rightarrow> ''N/A''))"

definition early_audit_pass :: "items \<Rightarrow> bool" where
  "early_audit_pass r =
     (let seen = (\<lambda>keys. json_true (first_of r keys (JBool False))) in
      seen [''loader_ready_seen'', ''ready_seen''] \<and> seen [''loader_header_magic_ok'', ''header_magic_ok'']
      \<and> seen [''loader_load_start_seen'', ''load_start_seen''] \<and> seen [''loader_first_block_ack_seen'', ''first_block_ack_seen'']
      \<and> seen [''loader_summary_ok'', ''summary_ok_seen''] \<and> \<not> seen [''loader_bad_seen'', ''bad_seen'']
      \<and> \<not> seen [''loader_session_start_not_found'', ''session_start_not_found''])"

text \<open>The analysis of a simulation log, if there is the log.\<close>

definition sim_of :: "file_map \<Rightarrow> string \<Rightarrow> loader_sim_result option" where
  "sim_of fs path = map_option analyze_loader_sim_log (fs path)"

definition sim_items :: "loader_sim_result option \<Rightarrow> items" where
  "sim_items s = (case s of None \<Rightarrow> [] | Some x \<Rightarrow> loader_sim_items x [])"

definition prefix_passed :: "loader_sim_result option \<Rightarrow> nat \<Rightarrow> bool" where
  "prefix_passed s target = (case s of None \<Rightarrow> False | Some x \<Rightarrow> loader_prefix_target_ok (loader_result.truncate x) target)"

section \<open>The lines\<close>

definition option_lines :: "script_env \<Rightarrow> main_args \<Rightarrow> main_locals \<Rightarrow> string \<Rightarrow> string \<Rightarrow> (string \<times> string) list" where
  "option_lines se a l stage why =
     [(''Flow'', flow_name a), (''Result'', pass_text (stage = ''none'')), (''FailedStage'', stage),
      (''FailureDetail'', (if why = [] then ''none'' else why)), (''Benchmark'', ''dhrystone''),
      (''FpgaImplMode'', ma_impl_mode a), (''FpgaImplActualMode'', ma_impl_mode a),
      (''TransportOnly'', str_bool (ma_transport_only a)), (''BridgeAudit'', str_bool (ma_bridge_audit a)),
      (''BridgeAuditSteps'', str_bool (ma_bridge_audit_steps a)),
      (''BridgeAuditStep2Only'', str_bool (ma_step2_only a)), (''RSDepth'', str_int (ma_rs_depth a)),
      (''FetchBufferDepth'', str_int (ma_fetch_buffer_depth a)), (''CoreClkMHz'', fmt_mhz1 (ma_core_hz a)),
      (''UartBaud'', dec_str (ma_uart_baud a)), (''EnableMemSubsys'', ''1''), (''EnableDDR3'', ''1''),
      (''L2Passthrough'', ''1''), (''DCacheMode'', fpga_dcache_mode se),
      (''UartBlockBytes'', dec_str (block_checksum_bytes se)), (''FetchDebug'', str_bool (ma_fetch_debug a)),
      (''TransportJitterPct'', str_int (ma_transport_jitter_pct a)),
      (''TransportByteGapBits'', str_int (ma_transport_byte_gap a)), (''TransportAckMode'', ma_transport_ack_mode a),
      (''TransportSeeds'', str_int (ma_transport_seeds a)), (''RegisteredUartRxdata'', ''True''),
      (''LoaderStreamToDdr3'', str_bool (stream_to_ddr3 se)),
      (''LoaderWaitDrainPerChunk'', str_bool (wait_drain_per_chunk se)), (''BuildID'', ml_build_id l)]"

definition log_lines :: "main_locals \<Rightarrow> (string \<times> string) list" where
  "log_lines l =
     (let man = ml_manifest l; sman = ml_smoke l; bman = ml_baseline l; eman = ml_early l in
      [(''TopSimLog'', ml_sim_log l), (''LoaderQuickSimLog'', ml_quick_log l),
       (''LoaderFullPrefix1SimLog'', ml_prefix1_log l), (''LoaderFullPrefix4SimLog'', ml_prefix4_log l),
       (''LoaderFullPayloadSimLog'', ml_prefix4_log l), (''LoaderFullLongSimLog'', ml_long_log l),
       (''LoaderFullGateMode'', ''prefix1''), (''LoaderFullGateTargetBlocks'', ''1''),
       (''BenchmarkManifest'', py_str (first_of man [''bin''] (JStr ''N/A''))),
       (''SmokeManifest'', py_str (first_of sman [''bin''] (JStr ''N/A''))),
       (''BaselineManifest'', py_str (first_of bman [''bin''] (JStr ''N/A''))),
       (''EarlyAuditManifest'', py_str (first_of eman [''bin''] (JStr ''N/A''))),
       (''EarlyAuditFaultLogs'', (if ml_fault_logs l = [] then ''N/A'' else join_with '','' (ml_fault_logs l))),
       (''TransportBoardPayloadCount'', dec_str (length (ml_transport l))),
       (''TransportTbCaseCount'', dec_str (length (ml_transport_tb l))),
       (''BridgeTbCaseCount'', dec_str (length (ml_bridge_tb l)))])"

definition selected_timing :: "os \<Rightarrow> main_args \<Rightarrow> string" where
  "selected_timing os a = (if ma_impl_mode a = ''incremental'' then TIMING_SUMMARY_INCR os
     else if ma_impl_mode a = ''synth-only'' then SYNTH_TIMING_SUMMARY os else TIMING_SUMMARY_AGGR os)"

definition report_lines :: "os \<Rightarrow> main_args \<Rightarrow> timing_summary \<Rightarrow> (string \<times> string) list" where
  "report_lines os a timing =
     [(''TimingSummarySelected'', selected_timing os a), (''TimingSummaryAggressive'', TIMING_SUMMARY_AGGR os),
      (''TimingDetailAggressive'', build_file os ''ax7203/reports/timing_detail_aggressive.rpt''),
      (''UtilizationAggressive'', build_file os ''ax7203/reports/utilization_aggressive.rpt''),
      (''TimingSummaryIncremental'', TIMING_SUMMARY_INCR os),
      (''TimingDetailIncremental'', build_file os ''ax7203/reports/timing_detail_incremental.rpt''),
      (''UtilizationIncremental'', build_file os ''ax7203/reports/utilization_incremental.rpt''),
      (''SynthTimingSummary'', SYNTH_TIMING_SUMMARY os), (''WNS'', ts_wns timing), (''WHS'', ts_whs timing),
      (''ConstraintsMet'', str_bool (ts_constraints_met timing))]"

definition capture_lines :: "os \<Rightarrow> file_map \<Rightarrow> main_locals \<Rightarrow> (string \<times> string) list" where
  "capture_lines os fs l =
     (let r = ml_uart l; smoke = ml_uart_smoke l; there = (\<lambda>p. fs p \<noteq> None); if_there = (\<lambda>p. if fs p \<noteq> None then p else ''N/A'') in
      [(''UartCaptureFile'', (if there (ml_capture_file l) then ml_capture_file l else ml_sim_log l)),
       (''UartCaptureRawFile'', py_str (first_of r [''uart_capture_raw_file''] (JStr ''N/A''))),
       (''LoaderDecodedCaptureFile'', py_str (first_of r [''loader_decoded_log_path'', ''decoded_log_path''] (JStr ''N/A''))),
       (''LoaderEarlyAuditSessionsFile'', py_str (first_of r [''loader_sessions_json_path''] (JStr ''N/A''))),
       (''LoaderBeaconSelftestSessionsFile'', py_str (first_of r [''loader_sessions_json_path''] (JStr ''N/A''))),
       (''SmokeCaptureFile'', if_there (cf_text (smoke_files os))),
       (''SmokeCaptureRawFile'', if_there (cf_raw (smoke_files os))),
       (''SmokeLoaderDecodedFile'', if_there (cf_decoded (smoke_files os))),
       (''SmokePassed'', str_bool (loaded_and_ran smoke)),
       (''SmokeLoaderSummaryMask'', fmt_optional_hex (first_of smoke [''loader_summary_mask''] (JStr ''N/A''))),
       (''SmokeSawDhrystoneStart'', py_str (first_of smoke [''saw_start''] (JBool False))),
       (''SmokeSawDhrystoneDone'', py_str (first_of smoke [''saw_done''] (JBool False))),
       (''BaselineCaptureFile'', if_there (cf_text (baseline_files os))),
       (''BaselineCaptureRawFile'', if_there (cf_raw (baseline_files os))),
       (''BaselineLoaderDecodedFile'', if_there (cf_decoded (baseline_files os))),
       (''BaselinePassed'', str_bool (loaded_and_ran r)),
       (''UartSawReady'', py_str (first_of r [''saw_ready'', ''ready_seen''] (JBool False))),
       (''UartSawLoadStart'', py_str (first_of r [''saw_load_start''] (JBool False))),
       (''UartSawReadOK'', py_str (first_of r [''saw_read_ok''] (JBool False))),
       (''UartSawLoadOK'', py_str (first_of r [''saw_load_ok''] (JBool False))),
       (''UartSawJump'', py_str (first_of r [''saw_jump''] (JBool False))),
       (''UartBadReason'', py_str (first_of r [''bad_reason''] (JStr ''none''))),
       (''UartPayloadAckTimeout'', py_str (first_of r [''payload_ack_timeout''] (JBool False))),
       (''UartPayloadChunkAckMissCount'', py_str (first_of r [''payload_chunk_ack_miss_count''] (JInt 0))),
       (''UartPayloadChecksumAckMissCount'', py_str (first_of r [''payload_checksum_ack_miss_count''] (JInt 0))),
       (''UartPayloadChunksSent'', py_str (first_of r [''payload_chunks_sent''] (JInt 0))),
       (''UartPayloadAckCount'', py_str (first_of r [''payload_ack_count''] (JInt 0))),
       (''UartPayloadAckCreditRemaining'', py_str (first_of r [''payload_ack_credit_remaining''] (JInt 0))),
       (''UartPayloadBlockAckCount'', py_str (first_of r [''payload_block_ack_count''] (JInt 0))),
       (''UartPayloadBlockNackCount'', py_str (first_of r [''payload_block_nack_count''] (JInt 0))),
       (''UartPayloadBlockRetryCount'', py_str (first_of r [''payload_block_retry_count''] (JInt 0))),
       (''UartPayloadBlockRetryLimitHit'', py_str (first_of r [''payload_block_retry_limit_hit''] (JBool False))),
       (''UartPayloadFailedBlock'', py_str (first_of r [''payload_failed_block''] (JInt (- 1)))),
       (''LoaderReadySeen'', py_str (first_of r [''saw_ready''] (JBool False))),
       (''LoaderLoadStartSeen'', py_str (first_of r [''saw_load_start''] (JBool False))),
       (''LoaderReadOkSeen'', py_str (first_of r [''saw_read_ok''] (JBool False))),
       (''LoaderLoadOkSeen'', py_str (first_of r [''saw_load_ok''] (JBool False))),
       (''LoaderJumpSeen'', py_str (first_of r [''saw_jump''] (JBool False))),
       (''LoaderSummarySeen'', py_str (first_of r [''loader_summary_seen''] (JBool False))),
       (''LoaderSummaryMask'', fmt_optional_hex (first_of r [''loader_summary_mask''] (JStr ''N/A''))),
       (''LoaderSummaryOk'', py_str (first_of r [''loader_summary_ok''] (JBool False))),
       (''LoaderBadSeen'', py_str (first_of r [''loader_bad_seen''] (JBool False))),
       (''LoaderBadCode'', fmt_optional_hex (first_of r [''loader_bad_code''] (JStr ''N/A''))),
       (''LoaderBadBlock'', py_str (first_of r [''loader_bad_block''] (JStr ''N/A''))),
       (''LoaderGoodFrames'', py_str (first_of r [''loader_good_frames''] (JInt 0))),
       (''LoaderBadFrames'', py_str (first_of r [''loader_bad_frames''] (JInt 0))),
       (''LoaderDroppedDuplicateFrames'', py_str (first_of r [''loader_dropped_duplicate_frames''] (JInt 0))),
       (''LoaderBlockAckEvents'', py_str (first_of r [''loader_block_ack_events''] (JInt 0)))])"

definition early_lines :: "items \<Rightarrow> (string \<times> string) list" where
  "early_lines r =
     [(''LoaderBlockNackEvents'', py_str (first_of r [''loader_block_nack_events''] (JInt 0))),
      (''LoaderPreSessionFrameCount'', py_str (first_of r [''loader_pre_session_frame_count'', ''pre_session_frame_count''] (JStr ''N/A''))),
      (''LoaderSessionStartOffset'', fmt_optional_hex (first_of r [''loader_session_start_offset'', ''session_start_offset''] (JStr ''N/A''))),
      (''LoaderSessionReadySeq'', py_str (first_of r [''loader_session_ready_seq'', ''session_ready_seq''] (JStr ''N/A''))),
      (''LoaderSessionStartNotFound'', py_str (first_of r [''loader_session_start_not_found'', ''session_start_not_found''] (JBool False))),
      (''LoaderEarlyAuditSessionCount'', session_count_text r),
      (''LoaderEarlyAuditChosenSessionIndex'', py_str (first_of r [''loader_chosen_session_index''] (JStr ''N/A''))),
      (''LoaderEarlyAuditChosenSessionOffset'', fmt_optional_hex (first_of r [''loader_chosen_session_start_offset'', ''loader_session_start_offset'', ''session_start_offset''] (JStr ''N/A''))),
      (''LoaderEarlyAuditChosenSessionReadyArg'', py_str (first_of r [''loader_chosen_session_ready_arg''] (JStr ''N/A''))),
      (''LoaderEarlyAuditChosenSessionFirstEvents'', joined (first_of r [''loader_chosen_session_first_events''] (JList []))),
      (''LoaderEarlyAuditChosenSessionOrderValid'', py_str (first_of r [''loader_chosen_session_order_valid''] (JStr ''N/A''))),
      (''LoaderEarlyAuditChosenSessionOrderError'', py_str (first_of r [''loader_chosen_session_order_error''] (JStr []))),
      (''LoaderEarlyAuditSessionClassification'', py_str (first_of r [''loader_session_classification''] (JStr ''N/A''))),
      (''LoaderEarlyAuditReadySeen'', py_str (first_of r [''loader_ready_seen'', ''ready_seen''] (JBool False))),
      (''LoaderEarlyAuditIdleOkSeen'', py_str (first_of r [''loader_idle_ok_seen'', ''idle_ok_seen''] (JBool False))),
      (''LoaderEarlyAuditTrainStartSeen'', py_str (first_of r [''loader_train_start_seen'', ''train_start_seen''] (JBool False))),
      (''LoaderEarlyAuditTrainDoneSeen'', py_str (first_of r [''loader_train_done_seen'', ''train_done_seen''] (JBool False))),
      (''LoaderEarlyAuditTrainDoneCount'', py_str (first_of r [''loader_train_done_count'', ''train_done_count''] (JStr ''N/A''))),
      (''LoaderEarlyAuditFlushDoneSeen'', py_str (first_of r [''loader_flush_done_seen'', ''flush_done_seen''] (JBool False))),
      (''LoaderEarlyAuditFlushDoneCount'', py_str (first_of r [''loader_flush_done_count'', ''flush_done_count''] (JStr ''N/A''))),
      (''LoaderEarlyAuditHeaderEnterSeen'', py_str (first_of r [''loader_header_enter_seen'', ''header_enter_seen''] (JBool False))),
      (''LoaderEarlyAuditTrainTimeoutSeen'', py_str (first_of r [''loader_train_timeout_seen'', ''train_timeout_seen''] (JBool False))),
      (''LoaderEarlyAuditTrainTimeoutCount'', py_str (first_of r [''loader_train_timeout_count'', ''train_timeout_count''] (JStr ''N/A''))),
      (''LoaderEarlyAuditFlushTimeoutSeen'', py_str (first_of r [''loader_flush_timeout_seen'', ''flush_timeout_seen''] (JBool False))),
      (''LoaderEarlyAuditFlushTimeoutCount'', py_str (first_of r [''loader_flush_timeout_count'', ''flush_timeout_count''] (JStr ''N/A''))),
      (''LoaderEarlyAuditHeaderByte0'', fmt_optional_hex (first_of r [''loader_header_byte0'', ''header_byte0''] (JStr ''N/A''))),
      (''LoaderEarlyAuditHeaderByte1'', fmt_optional_hex (first_of r [''loader_header_byte1'', ''header_byte1''] (JStr ''N/A''))),
      (''LoaderEarlyAuditHeaderByte2'', fmt_optional_hex (first_of r [''loader_header_byte2'', ''header_byte2''] (JStr ''N/A''))),
      (''LoaderEarlyAuditHeaderByte3'', fmt_optional_hex (first_of r [''loader_header_byte3'', ''header_byte3''] (JStr ''N/A''))),
      (''LoaderEarlyAuditBadMagicSeen'', py_str (first_of r [''loader_bad_magic_seen'', ''bad_magic_seen''] (JBool False))),
      (''LoaderEarlyAuditBadMagicByteIndex'', py_str (first_of r [''loader_bad_magic_byte_index'', ''bad_magic_byte_index''] (JStr ''N/A''))),
      (''LoaderEarlyAuditHeaderMagicOk'', py_str (first_of r [''loader_header_magic_ok'', ''header_magic_ok''] (JBool False))),
      (''LoaderEarlyAuditLoadStartSeen'', py_str (first_of r [''loader_load_start_seen'', ''load_start_seen''] (JBool False))),
      (''LoaderEarlyAuditFirstBlockAckSeen'', py_str (first_of r [''loader_first_block_ack_seen'', ''first_block_ack_seen''] (JBool False))),
      (''LoaderEarlyAuditSummaryMask'', fmt_optional_hex (first_of r [''loader_summary_mask'', ''summary_mask''] (JStr ''N/A''))),
      (''LoaderEarlyAuditPass'', str_bool (early_audit_pass r))]"

definition selftest_lines :: "items \<Rightarrow> (string \<times> string) list" where
  "selftest_lines r =
     [(''LoaderBeaconSelftestPass'', py_str (first_of r [''loader_beacon_selftest_pass''] (JBool False))),
      (''LoaderBeaconSelftestSessionCount'', py_str (first_of r [''loader_session_count''] (JStr ''N/A''))),
      (''LoaderBeaconSelftestPassSessionCount'', py_str (first_of r [''loader_pass_session_count''] (JStr ''N/A''))),
      (''LoaderBeaconSelftestGoodFrames'', py_str (first_of r [''loader_good_frames''] (JInt 0))),
      (''LoaderBeaconSelftestBadFrames'', py_str (first_of r [''loader_bad_frames''] (JInt 0))),
      (''LoaderBeaconSelftestClassification'', py_str (first_of r [''loader_session_classification''] (JStr ''N/A''))),
      (''LoaderBeaconSelftestChosenSessionIndex'', py_str (first_of r [''loader_chosen_session_index''] (JStr ''N/A''))),
      (''LoaderBeaconSelftestChosenSessionOffset'', fmt_optional_hex (first_of r [''loader_chosen_session_start_offset''] (JStr ''N/A''))),
      (''LoaderBeaconSelftestChosenSessionReadyArg'', fmt_optional_hex (first_of r [''loader_chosen_session_ready_arg''] (JStr ''N/A''))),
      (''LoaderBeaconSelftestChosenSessionFirstEvents'', joined (first_of r [''loader_chosen_session_first_events''] (JList []))),
      (''LoaderBeaconSelftestChosenSessionMatchedPrefixLen'', py_str (first_of r [''loader_chosen_session_matched_prefix_len''] (JStr ''N/A''))),
      (''LoaderBeaconSelftestChosenSessionEventCount'', py_str (first_of r [''loader_chosen_session_event_count''] (JStr ''N/A''))),
      (''LoaderBeaconSelftestChosenSessionOrderValid'', py_str (first_of r [''loader_chosen_session_order_valid''] (JStr ''N/A''))),
      (''LoaderBeaconSelftestChosenSessionOrderError'', py_str (first_of r [''loader_chosen_session_order_error''] (JStr [])))]"

definition gate_lines :: "file_map \<Rightarrow> main_args \<Rightarrow> main_locals \<Rightarrow> (string \<times> string) list" where
  "gate_lines fs a l =
     (let s1 = sim_of fs (ml_prefix1_log l); s4 = sim_of fs (ml_prefix4_log l); s16 = sim_of fs (ml_long_log l);
        quick = sim_items (sim_of fs (ml_quick_log l)); p1 = sim_items s1; p4 = sim_items s4; p16 = sim_items s16 in
      [(''LoaderFullPrefix1Pass'', str_bool (prefix_passed s1 1)),
       (''LoaderFullPrefix1AckEvents'', py_str (first_of p1 [''block_ack_events''] (JInt 0))),
       (''LoaderFullPrefix1MaxAckBlock'', py_str (first_of p1 [''max_block_ack_arg''] (JStr ''N/A''))),
       (''LoaderFullPrefix1NackEvents'', py_str (first_of p1 [''block_nack_events''] (JInt 0))),
       (''LoaderFullGateAckEvents'', py_str (first_of p1 [''block_ack_events''] (JInt 0))),
       (''LoaderFullGateMaxAckBlock'', py_str (first_of p1 [''max_block_ack_arg''] (JStr ''N/A''))),
       (''LoaderFullGateNackEvents'', py_str (first_of p1 [''block_nack_events''] (JInt 0))),
       (''LoaderFullGatePass'', str_bool (prefix_passed s1 1)),
       (''LoaderFullGateBadSeen'', py_str (first_of p1 [''bad_seen''] (JBool False))),
       (''LoaderFullGateBadCode'', fmt_optional_hex (first_of p1 [''bad_code''] (JStr ''N/A''))),
       (''LoaderFullGateBadBlock'', py_str (first_of p1 [''bad_block''] (JStr ''N/A''))),
       (''LoaderFullGateFirstBadEventOffset'', py_str (first_of p1 [''first_bad_event_offset''] (JStr ''N/A''))),
       (''LoaderFullPrefix4Pass'', str_bool (ma_run_loader_long_sim a \<and> prefix_passed s4 4)),
       (''LoaderFullPrefix4AckEvents'', py_str (first_of p4 [''block_ack_events''] (JInt 0))),
       (''LoaderFullPrefix4MaxAckBlock'', py_str (first_of p4 [''max_block_ack_arg''] (JStr ''N/A''))),
       (''LoaderFullPrefix4NackEvents'', py_str (first_of p4 [''block_nack_events''] (JInt 0))),
       (''LoaderFullLongRequested'', str_bool (ma_run_loader_long_sim a)),
       (''LoaderFullLongPass'', str_bool (ma_run_loader_long_sim a \<and> prefix_passed s16 16)),
       (''LoaderFullLongTargetBlocks'', ''16''),
       (''LoaderFullLongAckEvents'', py_str (first_of p16 [''block_ack_events''] (JInt 0))),
       (''LoaderFullLongMaxAckBlock'', py_str (first_of p16 [''max_block_ack_arg''] (JStr ''N/A''))),
       (''LoaderFullLongNackEvents'', py_str (first_of p16 [''block_nack_events''] (JInt 0))),
       (''LoaderFullPrefix4FailureDetail'', (if ml_prefix4_failure l = [] then ''none'' else ml_prefix4_failure l)),
       (''LoaderFullLongFailureDetail'', (if ml_long_failure l = [] then ''none'' else ml_long_failure l)),
       (''LoaderFullLongLog'', ml_long_log l),
       (''LoaderQuickGateExecPassSeen'', py_str (first_of quick [''saw_exec_pass''] (JBool False)))])"

definition report_detail_lines :: "items \<Rightarrow> (string \<times> string) list" where
  "report_detail_lines r =
     (let probe = dict_of r ''fetch_probe''; block = dict_of r ''bad_block''; sums = dict_of r ''bad_checksum''; blocks = dict_of r ''write_blocks'' in
      [(''UartSawFetchProbe'', py_str (first_of r [''saw_probe''] (JBool False))),
       (''FetchProbeClassification'', py_str (first_of probe [''classification''] (JStr ''N/A''))),
       (''FetchProbeLastLine'', py_str (first_of probe [''last_line''] (JStr ''N/A''))),
       (''LoaderBadBlockIndex'', py_str (first_of block [''block_index''] (JStr ''N/A''))),
       (''LoaderBadBlockHostChecksum'', py_str (first_of block [''host_checksum32''] (JStr ''N/A''))),
       (''LoaderBadBlockWriteChecksum'', py_str (first_of block [''write_checksum32''] (JStr ''N/A''))),
       (''LoaderBadBlockReadChecksum'', py_str (first_of block [''read_checksum32''] (JStr ''N/A''))),
       (''LoaderBadBlockCause'', py_str (first_of block [''cause''] (JStr ''N/A''))),
       (''LoaderBadChecksumExpected'', py_str (first_of sums [''expected_checksum32''] (JStr ''N/A''))),
       (''LoaderBadChecksumActual'', py_str (first_of sums [''actual_checksum32''] (JStr ''N/A''))),
       (''LoaderBadChecksumDeltaSigned'', py_str (first_of sums [''delta_signed''] (JStr ''N/A''))),
       (''LoaderWriteBlocksDumped'', py_str (first_of blocks [''dumped_blocks''] (JStr ''N/A''))),
       (''LoaderWriteBlockFirstMismatch'', py_str (first_of blocks [''block_index''] (JStr ''N/A''))),
       (''LoaderWriteBlockHostChecksum'', py_str (first_of blocks [''host_checksum32''] (JStr ''N/A''))),
       (''LoaderWriteBlockDeviceChecksum'', py_str (first_of blocks [''device_checksum32''] (JStr ''N/A''))),
       (''UartSawDhrystoneStart'', py_str (first_of r [''saw_start''] (JBool False))),
       (''UartSawDhrystoneDone'', py_str (first_of r [''saw_done''] (JBool False)))])"

definition bridge_lines :: "items \<Rightarrow> (string \<times> string) list" where
  "bridge_lines r =
     (let bad = dict_of r ''bad_detail'' in
      [(''TransportBoardReadySeen'', py_str (first_of r [''ready_seen''] (JBool False))),
       (''TransportBoardSessionsOK'', py_str (first_of r [''session_count''] (JInt 0))),
       (''TransportBoardSessionsExpected'', py_str (first_of r [''expected_sessions''] (JInt 0))),
       (''BridgeBoardReadySeen'', py_str (first_of r [''ready_seen''] (JBool False))),
       (''BridgeBoardOkCount'', py_str (first_of r [''ok_count''] (JInt 0))),
       (''BridgeBoardBadSeen'', py_str (first_of r [''saw_bad''] (JBool False))),
       (''BridgeBoardBadReason'', py_str (first_of r [''bad_reason''] (JStr ''none''))),
       (''BridgeBoardBadLine'', py_str (first_of r [''last_bad_line''] (JStr []))),
       (''BridgeStepsReadySeen'', py_str (first_of r [''ready_seen''] (JBool False))),
       (''BridgeStep1Pass'', py_str (first_of r [''step1_pass''] (JBool False))),
       (''BridgeStep2Pass'', py_str (first_of r [''step2_pass''] (JBool False))),
       (''BridgeStep3Pass'', py_str (first_of r [''step3_pass''] (JBool False))),
       (''BridgeStep3_2WordPass'', py_str (first_of r [''step3_2_pass''] (JBool False))),
       (''BridgeStep3_4WordPass'', py_str (first_of r [''step3_4_pass''] (JBool False))),
       (''BridgeStepsAllOkSeen'', py_str (first_of r [''all_ok_seen''] (JBool False))),
       (''BridgeBadStep'', py_str (first_of bad [''step''] (JStr ''N/A''))),
       (''BridgeBadWords'', py_str (first_of bad [''words''] (JStr ''N/A''))),
       (''BridgeBadAddr'', fmt_optional_hex (first_of bad [''addr''] (JStr ''N/A''))),
       (''BridgeBadExpected'', fmt_optional_hex (first_of bad [''expected''] (JStr ''N/A''))),
       (''BridgeBadActual'', fmt_optional_hex (first_of bad [''actual''] (JStr ''N/A''))),
       (''BridgeLastWriteAddr'', fmt_optional_hex (first_of bad [''last_write_addr''] (JStr ''N/A''))),
       (''BridgeLastWriteData'', fmt_optional_hex (first_of bad [''last_write_data''] (JStr ''N/A''))),
       (''BridgeDrainReady'', py_str (first_of bad [''drain_ready''] (JStr ''N/A''))),
       (''BridgeBridgeIdle'', py_str (first_of bad [''bridge_idle''] (JStr ''N/A''))),
       (''BridgeStatusWord'', fmt_optional_hex (first_of bad [''status_word''] (JStr ''N/A''))),
       (''BridgeStepsBadLine'', py_str (first_of bad [''line''] (JStr []))),
       (''Step2ReadySeen'', py_str (first_of r [''ready_seen''] (JBool False))),
       (''Step2SawStartCase1'', py_str (first_of r [''saw_start_case1''] (JBool False)))])"

definition step2_lines :: "items \<Rightarrow> (string \<times> string) list" where
  "step2_lines r =
     (let bad = dict_of r ''bad_detail''; phase = dict_of r ''last_phase_detail''; progress = dict_of r ''last_progress_detail'' in
      [(''Step2Case1Pass'', py_str (first_of r [''case1_pass''] (JBool False))),
       (''Step2SawStartCase2'', py_str (first_of r [''saw_start_case2''] (JBool False))),
       (''Step2Case2Pass'', py_str (first_of r [''case2_pass''] (JBool False))),
       (''Step2SawStartCase3'', py_str (first_of r [''saw_start_case3''] (JBool False))),
       (''Step2SawAfterWriteCase3'', py_str (first_of r [''saw_after_write_case3''] (JBool False))),
       (''Step2Case3Pass'', py_str (first_of r [''case3_pass''] (JBool False))),
       (''Step2SawStartCase4'', py_str (first_of r [''saw_start_case4''] (JBool False))),
       (''Step2SawAfterWriteCase4'', py_str (first_of r [''saw_after_write_case4''] (JBool False))),
       (''Step2Case4Pass'', py_str (first_of r [''case4_pass''] (JBool False))),
       (''Step2SawStartCase5'', py_str (first_of r [''saw_start_case5''] (JBool False))),
       (''Step2SawAfterWriteCase5'', py_str (first_of r [''saw_after_write_case5''] (JBool False))),
       (''Step2Case5Pass'', py_str (first_of r [''case5_pass''] (JBool False))), (''Step2VariantCase3'', ''base''),
       (''Step2VariantCase4'', ''nop_pad''), (''Step2VariantCase5'', ''load_barrier''),
       (''Step2AllOkSeen'', py_str (first_of r [''all_ok_seen''] (JBool False))),
       (''Step2SummarySeen'', py_str (first_of r [''summary_seen''] (JBool False))),
       (''Step2SummaryMask'', fmt_optional_hex (first_of r [''summary_mask''] (JStr ''N/A''))),
       (''Step2TrapSeen'', py_str (first_of r [''saw_trap''] (JBool False))),
       (''Step2CalFailSeen'', py_str (first_of r [''saw_cal_fail''] (JBool False))),
       (''Step2BadSeen'', py_str (first_of r [''saw_bad''] (JBool False))),
       (''Step2BadCase'', py_str (first_of bad [''case''] (JStr ''N/A''))),
       (''Step2BadPhase'', py_str (first_of bad [''phase''] (JStr ''N/A''))),
       (''Step2BadAddr'', fmt_optional_hex (first_of bad [''addr''] (JStr ''N/A''))),
       (''Step2BadExpected'', fmt_optional_hex (first_of bad [''expected''] (JStr ''N/A''))),
       (''Step2BadActual'', fmt_optional_hex (first_of bad [''actual''] (JStr ''N/A''))),
       (''Step2Write0Addr'', fmt_optional_hex (first_of bad [''write0_addr''] (JStr ''N/A''))),
       (''Step2Write0Data'', fmt_optional_hex (first_of bad [''write0_data''] (JStr ''N/A''))),
       (''Step2Write1Addr'', fmt_optional_hex (first_of bad [''write1_addr''] (JStr ''N/A''))),
       (''Step2Write1Data'', fmt_optional_hex (first_of bad [''write1_data''] (JStr ''N/A''))),
       (''Step2DrainReady'', py_str (first_of bad [''drain_ready''] (JStr ''N/A''))),
       (''Step2BridgeIdle'', py_str (first_of bad [''bridge_idle''] (JStr ''N/A''))),
       (''Step2StoreBufferEmpty'', py_str (first_of bad [''store_buffer_empty''] (JStr ''N/A''))),
       (''Step2StoreCountT0'', py_str (first_of bad [''store_count_t0''] (JStr ''N/A''))),
       (''Step2StoreCountT1'', py_str (first_of bad [''store_count_t1''] (JStr ''N/A''))),
       (''Step2StatusWord'', fmt_optional_hex (first_of bad [''status_word''] (JStr ''N/A''))),
       (''Step2BadLine'', py_str (first_of bad [''line''] (JStr []))),
       (''Step2LastPhaseCase'', py_str (first_of phase [''case''] (JStr ''N/A''))),
       (''Step2LastPhase'', py_str (first_of phase [''phase''] (JStr ''N/A''))),
       (''Step2LastPhaseLine'', py_str (first_of phase [''line''] (JStr []))),
       (''Step2LastProgressKind'', py_str (first_of progress [''kind''] (JStr ''N/A''))),
       (''Step2LastProgressCase'', py_str (first_of progress [''case''] (JStr ''N/A''))),
       (''Step2LastProgressPhase'', py_str (first_of progress [''phase''] (JStr ''N/A''))),
       (''Step2LastProgressLine'', py_str (first_of progress [''line''] (JStr []))),
       (''Step2GoodFrames'', py_str (first_of r [''good_frames''] (JInt 0))),
       (''Step2BadFrames'', py_str (first_of r [''bad_frames''] (JInt 0))),
       (''Step2DroppedDuplicateFrames'', py_str (first_of r [''dropped_duplicate_frames''] (JInt 0))),
       (''Step2DecodedCaptureFile'', py_str (first_of r [''decoded_log_path''] (JStr ''N/A''))),
       (''UartCaptureBytes'', py_str (first_of r [''capture_bytes''] (JInt 0))),
       (''BenchCycles'', py_str (first_of r [''bench_cycles''] (JStr []))),
       (''BenchInstRetired'', py_str (first_of r [''bench_instret''] (JStr []))),
       (''BenchIPCx1000'', py_str (first_of r [''bench_ipc_x1000''] (JStr []))),
       (''DhrystonesPerSecond'', joined (first_of r [''dhrystones_per_second''] (JList [])))])"

definition transport_tb_line :: "transport_case \<times> string \<Rightarrow> string" where
  "transport_tb_line c = (case c of (t, log) \<Rightarrow>
     ''TransportTbCase: '' @ tc_name t @ '' size='' @ str_int (tc_payload_size t) @ '' seed='' @ str_int (tc_seed t)
     @ '' jitter='' @ str_int (tc_jitter_pct t) @ '' gap='' @ str_int (tc_byte_gap_bits t) @ '' ack_extra=''
     @ str_int (tc_ack_extra_bits t) @ '' log='' @ log)"

definition bridge_tb_line :: "bridge_case \<times> string \<Rightarrow> string" where
  "bridge_tb_line c = (case c of (b, log) \<Rightarrow>
     ''BridgeTbCase: '' @ bc_name b @ '' core_clk_ns='' @ dec_str (bc_core_clk_ns b) @ '' ui_clk_ns='' @ dec_str (bc_ui_clk_ns b)
     @ '' seed='' @ dec_str (bc_seed b) @ '' log='' @ log)"

definition session_line :: "json \<Rightarrow> string" where
  "session_line j = (case j of
     JObj s \<Rightarrow> ''TransportBoardSession: index='' @ py_str (item_of s ''index'') @ '' size='' @ py_str (item_of s ''size_bytes'')
       @ '' checksum32='' @ py_str (item_of s ''checksum32'') @ '' seed='' @ py_str (item_of s ''seed'')
   | _ \<Rightarrow> [])"

definition summary_fields ::
  "os \<Rightarrow> script_env \<Rightarrow> main_args \<Rightarrow> file_map \<Rightarrow> main_locals \<Rightarrow> string \<Rightarrow> string \<Rightarrow> (string \<times> string) list" where
  "summary_fields os se a fs l stage why =
     option_lines se a l stage why @ log_lines l
     @ report_lines os a (parse_timing_summary (fs (selected_timing os a)))
     @ capture_lines os fs l @ early_lines (ml_uart l) @ selftest_lines (ml_uart l) @ gate_lines fs a l
     @ report_detail_lines (ml_uart l) @ bridge_lines (ml_uart l) @ step2_lines (ml_uart l)"

definition field_line :: "string \<times> string \<Rightarrow> string" where
  "field_line f = fst f @ '': '' @ snd f"

definition main_summary_lines ::
  "os \<Rightarrow> script_env \<Rightarrow> main_args \<Rightarrow> file_map \<Rightarrow> main_locals \<Rightarrow> string \<Rightarrow> string \<Rightarrow> string list" where
  "main_summary_lines os se a fs l stage why =
     map field_line (summary_fields os se a fs l stage why)
     @ map transport_tb_line (ml_transport_tb l) @ map bridge_tb_line (ml_bridge_tb l)
     @ map session_line (list_of (ml_uart l) ''session_results'')"

section \<open>The flow\<close>

definition main_staged ::
  "os \<Rightarrow> script_env \<Rightarrow> (action list \<Rightarrow> bool) \<Rightarrow> board \<Rightarrow> (py_exc \<Rightarrow> string) \<Rightarrow> main_args \<Rightarrow> environ \<Rightarrow> int flow" where
  "main_staged os se mig_there brd shown a env =
     and_then (try_except (main_body os se mig_there brd shown a env) (main_start os a)) (\<lambda>(caught, l).
     let stage = (case caught of None \<Rightarrow> ''none'' | Some e \<Rightarrow> ml_stage l);
         why = (case caught of None \<Rightarrow> [] | Some e \<Rightarrow> exc_text shown e) in
     and_then (\<lambda>m. write_file (in_dir (main_logs os a) ''summary.txt'')
       (render_lines (main_summary_lines os se a (files m) l stage why)) m) (\<lambda>_.
     give (if stage = ''none'' then 0 else 1)))"

definition benchmark_main ::
  "os \<Rightarrow> script_env \<Rightarrow> (action list \<Rightarrow> bool) \<Rightarrow> board \<Rightarrow> (py_exc \<Rightarrow> string) \<Rightarrow> main_args \<Rightarrow> int flow" where
  "benchmark_main os se mig_there brd shown a =
     and_then (check_modes a) (\<lambda>_.
     and_then (main_env os se a) (\<lambda>env.
     case main_board_only os brd shown a env of
       Some f \<Rightarrow> f
     | None \<Rightarrow> main_staged os se mig_there brd shown a env))"

end
