(* ===== verification/MainGates.thy ===== *)
theory MainGates
  imports MainSummary "HOL-Library.Sublist"
begin

text \<open>
  What the staged flow of \<^verbatim>\<open>run_fpga_benchmark_ddr3.py\<close> guarantees as a whole: which programs a run has
  been through when it uses the board, and what a run that returns zero has shown.
\<close>

section \<open>Careful runs\<close>

text \<open>
  A careful run goes on only past programs that exited with zero, runs only commands of one kind, and
  when it returns it has run the listed commands in their order.
\<close>

definition exited_zero :: "run_result \<Rightarrow> bool" where
  "exited_zero r = (case r of Exited rc out \<Rightarrow> rc = 0 | _ \<Rightarrow> False)"

definition careful_run ::
  "(command \<Rightarrow> bool) \<Rightarrow> command list \<Rightarrow> machine \<Rightarrow> py_exc + 'a \<Rightarrow> machine \<Rightarrow> bool" where
  "careful_run Q cs m r m' \<longleftrightarrow> (\<exists>runs. actions m' = actions m @ map (\<lambda>(c, e). Ran c e) runs
     \<and> list_all (\<lambda>(c, e). Q c) runs \<and> list_all (\<lambda>(c, e). exited_zero e) (butlast runs)
     \<and> (\<forall>x. r = Inr x \<longrightarrow> list_all (\<lambda>(c, e). exited_zero e) runs \<and> subseq cs (map fst runs)))"

definition careful :: "(command \<Rightarrow> bool) \<Rightarrow> command list \<Rightarrow> 'a flow \<Rightarrow> bool" where
  "careful Q cs f \<longleftrightarrow> (\<forall>m. careful_run Q cs m (fst (f m)) (snd (f m)))"

definition careful_step :: "(command \<Rightarrow> bool) \<Rightarrow> command list \<Rightarrow> ('l, 'a) block \<Rightarrow> bool" where
  "careful_step Q cs b \<longleftrightarrow> (\<forall>l m. careful_run Q cs m (fst (b l m)) (snd (snd (b l m))))"

lemma careful_run_then:
  assumes "careful_run Q cs m (Inr x) m1" and "careful_run Q ds m1 r m2"
  shows "careful_run Q (cs @ ds) m r m2"
proof -
  obtain as where as: "actions m1 = actions m @ map (\<lambda>(c, e). Ran c e) as" "list_all (\<lambda>(c, e). Q c) as"
    "list_all (\<lambda>(c, e). exited_zero e) as" "subseq cs (map fst as)"
    using assms(1) by (auto simp: careful_run_def)
  obtain bs where bs: "actions m2 = actions m1 @ map (\<lambda>(c, e). Ran c e) bs" "list_all (\<lambda>(c, e). Q c) bs"
    "list_all (\<lambda>(c, e). exited_zero e) (butlast bs)"
    "\<forall>x. r = Inr x \<longrightarrow> list_all (\<lambda>(c, e). exited_zero e) bs \<and> subseq ds (map fst bs)"
    using assms(2) by (auto simp: careful_run_def)
  have "list_all (\<lambda>(c, e). exited_zero e) (butlast (as @ bs))"
    using as(3) bs(3) by (auto simp: butlast_append list_all_iff dest: in_set_butlastD)
  moreover have "subseq (cs @ ds) (map fst (as @ bs))" if "subseq ds (map fst bs)"
    using list_emb_append_mono [OF as(4) that] by simp
  ultimately show ?thesis
    unfolding careful_run_def using as bs by (intro exI [of _ "as @ bs"]) auto
qed

lemma careful_run_fails: "careful_run Q cs m (Inl e) m' \<Longrightarrow> careful_run Q ds m (Inl e') m'"
  by (auto simp: careful_run_def)

lemma careful_run_none: "actions m' = actions m \<Longrightarrow> careful_run Q [] m r m'"
  by (auto simp: careful_run_def intro!: exI [of _ "[]"])

lemma careful_run_weaken: "careful_run Q cs m r m' \<Longrightarrow> subseq ds cs \<Longrightarrow> careful_run Q ds m r m'"
  unfolding careful_run_def by (meson subseq_order.trans)

lemma careful_weaken: "careful Q cs f \<Longrightarrow> careful Q [] f"
  unfolding careful_def by (blast intro: careful_run_weaken)

lemma careful_step_weaken: "careful_step Q cs b \<Longrightarrow> careful_step Q [] b"
  unfolding careful_step_def by (blast intro: careful_run_weaken)

lemma careful_and_then:
  assumes f: "careful Q cs f" and g: "\<And>x. careful Q ds (g x)"
  shows "careful Q (cs @ ds) (and_then f g)"
  unfolding careful_def
proof
  fix m
  obtain r m1 where f1: "f m = (r, m1)" by fastforce
  have fm: "careful_run Q cs m r m1"
    using f f1 unfolding careful_def by (metis fst_conv snd_conv)
  show "careful_run Q (cs @ ds) m (fst (and_then f g m)) (snd (and_then f g m))"
  proof (cases r)
    case (Inl e)
    then show ?thesis
      using f1 fm careful_run_fails [of Q cs m e m1] by (simp add: and_then_def)
  next
    case (Inr x)
    then have "careful_run Q cs m (Inr x) m1"
      using fm by simp
    moreover have "careful_run Q ds m1 (fst (g x m1)) (snd (g x m1))"
      using g unfolding careful_def by blast
    ultimately show ?thesis
      using f1 Inr by (simp add: and_then_def careful_run_then)
  qed
qed

lemma careful_then_do:
  assumes f: "careful_step Q cs f" and g: "\<And>x. careful_step Q ds (g x)"
  shows "careful_step Q (cs @ ds) (then_do f g)"
  unfolding careful_step_def
proof (intro allI)
  fix l m
  obtain r l1 m1 where f1: "f l m = (r, l1, m1)" by (metis prod_cases3)
  have fm: "careful_run Q cs m r m1"
    using f f1 unfolding careful_step_def by (metis fst_conv snd_conv)
  show "careful_run Q (cs @ ds) m (fst (then_do f g l m)) (snd (snd (then_do f g l m)))"
  proof (cases r)
    case (Inl e)
    then show ?thesis
      using f1 fm careful_run_fails [of Q cs m e m1] by (simp add: then_do_def)
  next
    case (Inr x)
    then have "careful_run Q cs m (Inr x) m1"
      using fm by simp
    moreover have "careful_run Q ds m1 (fst (g x l1 m1)) (snd (snd (g x l1 m1)))"
      using g unfolding careful_step_def by blast
    ultimately show ?thesis
      using f1 Inr by (simp add: then_do_def careful_run_then)
  qed
qed

text \<open>The rules used where nothing is listed, and where the first part lists nothing.\<close>

lemma careful_both: "careful Q [] f \<Longrightarrow> (\<And>x. careful Q cs (g x)) \<Longrightarrow> careful Q cs (and_then f g)"
  using careful_and_then [of Q "[]" f cs g] by simp

lemma careful_step_both: "careful_step Q [] f \<Longrightarrow> (\<And>x. careful_step Q cs (g x)) \<Longrightarrow> careful_step Q cs (then_do f g)"
  using careful_then_do [of Q "[]" f cs g] by simp

lemma careful_quiet: "quietly f \<Longrightarrow> careful Q [] f"
  unfolding careful_def quietly_def by (simp add: careful_run_none)

lemma careful_perform: "careful Q cs f \<Longrightarrow> careful_step Q cs (perform f)"
  by (simp add: careful_def careful_step_def perform_def case_prod_beta)

lemma careful_assign: "careful_step Q [] (assign u)"
  by (simp add: careful_step_def assign_def careful_run_none)

lemma careful_local: "(\<And>l. careful_step Q cs (b l)) \<Longrightarrow> careful_step Q cs (\<lambda>l. b l l)"
  unfolding careful_step_def by blast

lemma careful_run_logged:
  assumes "Q c"
  shows "careful Q [c] (run_logged exc os c)"
  unfolding careful_def
proof
  fix m
  show "careful_run Q [c] m (fst (run_logged exc os c m)) (snd (run_logged exc os c m))"
  proof (cases rule: run_logged_ends [of exc os c m])
    case (passed fs out)
    then show ?thesis
      using assms unfolding careful_run_def by (intro exI [of _ "[(c, Exited 0 out)]"]) (simp add: exited_zero_def)
  next
    case (failed e fs r)
    then show ?thesis
      using assms unfolding careful_run_def by (intro exI [of _ "[(c, r)]"]) simp
  qed
qed

lemma careful_logged: "Q c \<Longrightarrow> careful Q [] (run_logged exc os c)"
  by (rule careful_weaken [OF careful_run_logged])

lemma careful_in_stage: "careful Q cs f \<Longrightarrow> careful_step Q cs (in_stage s f)"
  unfolding in_stage_def enter_def by (intro careful_step_both careful_assign careful_perform)

lemma quietly_which: "quietly (which_required os names)"
  by (auto simp: quietly_def which_required_def give_def raise_exc_def split: list.split)

lemma quietly_check: "quietly (check_log gate tx)" "quietly (positive_hz n)"
  by (auto simp: check_log_def positive_hz_def intro: quietly_basic split: option.split)

section \<open>The simulations\<close>

text \<open>Programming takes 1800 seconds at most, which no other command of the flow does.\<close>

definition no_programming :: "command \<Rightarrow> bool" where
  "no_programming c \<longleftrightarrow> cmd_timeout c \<noteq> Some 1800"

lemma programming_command: "\<not> no_programming (program_command os job log)"
  by (simp add: no_programming_def program_command_def)

lemmas quiet_steps = careful_quiet quietly_basic quietly_which quietly_check

lemma careful_compile: "(\<And>exe. no_programming (compile exe)) \<Longrightarrow> careful no_programming [] (compile_step os n compile)"
  unfolding compile_step_def by (intro careful_both careful_logged quiet_steps)

lemma careful_judge: "(\<And>exe. no_programming (sim exe)) \<Longrightarrow> careful no_programming [] (run_and_judge os sim gate)"
  unfolding run_and_judge_def by (intro careful_both careful_logged quiet_steps)

lemma careful_top_sim:
  "no_programming rom \<Longrightarrow> (\<And>exe. no_programming (compile exe)) \<Longrightarrow> (\<And>exe. no_programming (sim exe)) \<Longrightarrow>
     careful no_programming [] (top_sim os n rom compile sim gate)"
  unfolding top_sim_def by (intro careful_both careful_logged careful_compile careful_judge)

lemma careful_cases: "(\<And>c exe. no_programming (run c exe)) \<Longrightarrow> careful no_programming [] (run_cases os run gate cs)"
proof (induction cs)
  case (Cons c cs)
  show ?case
    unfolding run_cases.simps
    by (rule careful_both [OF careful_judge careful_both [OF Cons.IH careful_quiet [OF quietly_basic(1)]]]) (rule Cons.prems)+
qed (simp add: quiet_steps)

lemma no_programming_sims [simp]:
  "no_programming (rom_image_command os asm args log)" "no_programming (compile_bench os exe args log)"
  "no_programming (run_bench vvp cwd bin args log t) \<longleftrightarrow> t \<noteq> 1800"
  "no_programming (asm_gcc os gcc source dir name)" "no_programming (asm_objcopy os objcopy dir name)"
  "no_programming (payload_command os logs hz runs stem fixed)" "no_programming (main_tests_command os logs args name)"
  "no_programming (main_vivado os a vivado env script log t) \<longleftrightarrow> t \<noteq> 1800"
  by (auto simp: no_programming_def rom_image_command_def compile_bench_def run_bench_def asm_gcc_def asm_objcopy_def
      payload_command_def main_tests_command_def main_vivado_def)

lemma careful_transport_tb: "careful no_programming [] (run_transport_tb_matrix os logs hz baud jitter gap mode seeds)"
  unfolding run_transport_tb_matrix_def
  by (intro careful_both careful_compile careful_cases) (simp_all add: matrix_compile_def case_run_def)

lemma careful_stress_tb: "careful no_programming [] (run_bridge_stress_tb os logs)"
  unfolding run_bridge_stress_tb_def
  by (intro careful_both careful_compile careful_cases) (simp_all add: stress_compile_def stress_run_def)

lemma careful_chips:
  "careful no_programming [] (run_bridge_top_sim os logs cp)" "careful no_programming [] (run_bridge_steps_top_sim os logs cp)"
  "careful no_programming [] (run_step2_only_top_sim os logs cp)"
  unfolding run_bridge_top_sim_def run_bridge_steps_top_sim_def run_step2_only_top_sim_def
  by (intro careful_top_sim; simp add: chip_rom_command_def chip_compile_def chip_run_def bridge_chip_def
      bridge_steps_chip_def step2_only_chip_def)+

lemma careful_transport_sim: "careful no_programming [] (run_transport_top_sim os logs cp)"
  unfolding run_transport_top_sim_def materialize_transport_payload_def Let_def
  by (intro careful_both careful_compile careful_judge careful_logged quiet_steps)
    (simp_all add: chip_rom_command_def chip_compile_def chip_run_def transport_chip_def)

lemma careful_selftest_sim:
  "ss_sim_timeout_s ss = None \<Longrightarrow> careful no_programming [] (run_loader_beacon_selftest_top_sim os logs cp ss)"
  unfolding run_loader_beacon_selftest_top_sim_def
  by (intro careful_top_sim) (simp_all add: selftest_rom_command_def selftest_compile_def selftest_run_def or_default_def)

lemma careful_loader_sim:
  assumes "sim_timeout_s ls \<noteq> 1800"
  shows "careful no_programming [] (run_loader_top_sim os se logs man cp ls)"
proof -
  have "quietly (chunk_limits os ls)"
    by (auto simp: chunk_limits_def intro: quietly_basic split: option.split)
  then show ?thesis
    unfolding run_loader_top_sim_def write_payload_hex_def using assms
    by (intro careful_both careful_compile careful_judge careful_logged quiet_steps)
      (simp_all add: loader_rom_command_def loader_compile_def loader_run_def Let_def)
qed

section \<open>The modes\<close>

lemma quietly_json: "quietly (load_json p)" "quietly (as_dict j)"
  unfolding load_json_def as_dict_def
  by (auto intro!: quietly_and_then quietly_basic split: option.split json.split)

lemma quietly_bin_path: "quietly (bin_path kvs)"
  by (auto simp: bin_path_def intro: quietly_basic split: option.split json.split)

lemma quietly_clone: "quietly (clone_manifest_outputs kvs dir stem)"
proof -
  have item: "quietly (clone_item dir stem key source kvs)" for key source kvs
    by (auto simp: clone_item_def copy_file_def Let_def intro!: quietly_and_then quietly_basic split: option.split json.split)
  show ?thesis
    unfolding clone_manifest_outputs_def by (intro quietly_and_then item)
qed

lemma quietly_early_manifest: "quietly (build_early_audit_manifest n logs kvs stem)"
  unfolding build_early_audit_manifest_def Let_def by (intro quietly_and_then quietly_basic quietly_bin_path)

lemma quietly_sim_manifest: "quietly (sim_manifest kvs)"
  unfolding sim_manifest_def by (intro quietly_and_then quietly_basic quietly_bin_path)

lemma quietly_payloads: "quietly (board_payloads dir i ns)"
proof (induction ns arbitrary: i)
  case (Cons n ns)
  show ?case
    unfolding board_payloads.simps materialize_transport_payload_def Let_def
    by (intro quietly_and_then Cons.IH quietly_basic)
qed (simp add: quietly_basic)

lemma careful_captured:
  assumes "Q c" and "\<And>out. careful Q cs (g out)"
  shows "careful Q cs (and_then (run_captured os c) (\<lambda>(rc, out). and_then (require (rc = 0) (e out)) (\<lambda>_. g out)))"
    (is "careful Q cs ?f")
  unfolding careful_def
proof
  fix m :: machine
  obtain r fs where r: "run_cmd os (actions m) c (files m) = (r, fs)" by fastforce
  let ?m = "\<lparr>files = fs, actions = actions m @ [Ran c r]\<rparr>"
  have one: "careful_run Q ds m (Inl x) ?m" for ds and x :: py_exc
    using assms(1) unfolding careful_run_def by (intro exI [of _ "[(c, r)]"]) simp
  show "careful_run Q cs m (fst (?f m)) (snd (?f m))"
  proof (cases "\<exists>out. r = Exited 0 out")
    case True
    then obtain out where out: "r = Exited 0 out" by blast
    then have "careful_run Q [] m (Inr ()) ?m"
      using assms(1) unfolding careful_run_def by (intro exI [of _ "[(c, r)]"]) (simp add: exited_zero_def)
    moreover have "careful_run Q cs ?m (fst (g out ?m)) (snd (g out ?m))"
      using assms(2) unfolding careful_def by blast
    ultimately have "careful_run Q ([] @ cs) m (fst (g out ?m)) (snd (g out ?m))"
      by (rule careful_run_then)
    then show ?thesis
      using r out by (simp add: and_then_def run_captured_def require_def give_def)
  next
    case False
    then show ?thesis
      using r one by (cases r) (auto simp: and_then_def run_captured_def require_def give_def raise_exc_def)
  qed
qed

lemma careful_payload: "careful no_programming [] (build_dhrystone_payload os logs hz runs stem fixed)"
  unfolding build_dhrystone_payload_def
  by (intro careful_both careful_logged careful_quiet quietly_json quietly_clone) simp

lemma careful_tiny: "careful no_programming [] (tiny_payload os a dir name)"
  unfolding tiny_payload_def compile_ddr3_asm_payload_def
  by (intro careful_both careful_captured careful_logged quiet_steps)
    (auto simp: no_programming_def asm_gcc_def asm_objcopy_def tool_command_def intro: quietly_basic split: option.split)

lemma careful_loader_flow:
  "sim_timeout_s ls \<noteq> 1800 \<Longrightarrow> careful no_programming [] (loader_sim_flow os se a logs kvs ls)"
  unfolding loader_sim_flow_def by (intro careful_both careful_loader_sim careful_quiet quietly_sim_manifest)

lemma sim_timeouts [simp]:
  "sim_timeout_s (early_sim os name k) = 600" "sim_timeout_s (quick_gate_sim a name) = 720"
  "sim_timeout_s (prefix_sim se a n name) = 840"
  "sim_timeout_s (traced a ((default_sim name)\<lparr>ls_fetch_debug := True\<rparr>)) = 1200"
  by (simp_all add: sim_timeout_s_def early_sim_def quick_gate_sim_def prefix_sim_def traced_def default_sim_def
      loader_full_gate_profile_def or_default_def Let_def)

lemma careful_report: "careful_step no_programming [] (report_sim a analyze)"
proof -
  have "careful_step no_programming [] (\<lambda>l. (if ma_skip_vivado a then
        then_do (perform (read_text (ml_sim_log l))) (\<lambda>t. assign (\<lambda>l. l\<lparr>ml_uart := analyze t (ml_sim_log l)\<rparr>))
      else perform (give ())) l)"
    by (rule careful_local) (auto intro!: careful_step_both careful_assign careful_perform quiet_steps)
  moreover have "report_sim a analyze = (\<lambda>l. (if ma_skip_vivado a then
        then_do (perform (read_text (ml_sim_log l))) (\<lambda>t. assign (\<lambda>l. l\<lparr>ml_uart := analyze t (ml_sim_log l)\<rparr>))
      else perform (give ())) l)"
    by (simp add: fun_eq_iff report_sim_def)
  ultimately show ?thesis by simp
qed

lemmas careful_steps = careful_step_both careful_in_stage careful_assign careful_perform careful_report

lemma careful_transport_mode: "careful_step no_programming [] (transport_steps os a)"
  unfolding transport_steps_def Let_def
  by (intro careful_steps careful_transport_tb careful_transport_sim)
    (auto intro!: careful_steps careful_quiet quietly_payloads)

lemma careful_bridge:
  "(\<And>logs cp. careful no_programming [] (sim os logs cp)) \<Longrightarrow> careful_step no_programming [] (bridge_steps os a stage name sim)"
  unfolding bridge_steps_def Let_def by (intro careful_steps careful_stress_tb) auto

lemma careful_step2: "careful_step no_programming [] (step2_mode os a)"
  unfolding step2_mode_def by (intro careful_steps careful_bridge careful_chips)

lemma careful_selftest: "careful_step no_programming [] (selftest_mode os a)"
  unfolding selftest_mode_def Let_def by (intro careful_steps careful_selftest_sim) simp

lemma careful_faults: "careful_step no_programming [] (early_faults os se a ks)"
proof (induction ks)
  case (Cons k ks)
  have sim: "careful_step no_programming [] (\<lambda>l. perform (loader_sim_flow os se a logs (kvs l) (early_sim os name n)) l)"
    for kvs logs name n
    by (rule careful_local) (simp add: careful_perform careful_loader_flow)
  show ?case
    unfolding early_faults.simps enter_def
    by (intro careful_step_both [OF careful_assign] careful_step_both [OF sim] Cons.IH)
qed (simp add: careful_perform quiet_steps)

lemma careful_early: "careful_step no_programming [] (early_mode os se a)"
  unfolding early_mode_def Let_def
  by (intro careful_steps careful_faults careful_payload careful_loader_flow careful_quiet quietly_early_manifest) simp

lemma careful_fetch: "careful_step no_programming [] (fetch_debug_mode os se a)"
  unfolding fetch_debug_mode_def Let_def by (intro careful_steps careful_tiny careful_loader_flow) simp

lemma careful_loader:
  assumes "\<not> ma_run_loader_long_sim a"
  shows "careful_step no_programming [] (loader_mode os se shown a)"
proof -
  have quick: "careful_step no_programming [] (quick_steps os se a)"
    unfolding quick_steps_def Let_def by (intro careful_steps careful_tiny careful_loader_flow) simp
  have prefix1: "careful_step no_programming [] (prefix1_steps os se a)"
    unfolding prefix1_steps_def Let_def
    by (intro careful_steps careful_payload careful_loader_flow quiet_steps) simp
  have base: "careful_step no_programming [] (baseline_steps os a smoke)" for smoke
  proof -
    have tail: "careful_step no_programming [] (\<lambda>l. (if ma_skip_vivado a then
         then_do (perform (read_text (ml_prefix1_log l))) (\<lambda>t.
         assign (\<lambda>l. l\<lparr>ml_uart := loader_sim_items (analyze_loader_sim_log t) (ml_prefix1_log l),
           ml_capture_file := ml_prefix1_log l\<rparr>))
       else perform (give ())) l)"
      by (rule careful_local) (auto intro!: careful_step_both careful_assign careful_perform quiet_steps)
    show ?thesis
      unfolding baseline_steps_def
      by (rule careful_step_both [OF careful_in_stage careful_step_both [OF careful_assign]])
        (use tail in \<open>auto intro: careful_payload quiet_steps simp: if_distrib [where f = "\<lambda>f. f _"] cong: if_cong\<close>)
  qed
  show ?thesis
    unfolding loader_mode_def long_steps_def Let_def using assms
    by (simp only: if_False) (intro careful_step_both quick prefix1 base careful_perform quiet_steps)
qed

lemma careful_mode: "\<not> ma_run_loader_long_sim a \<Longrightarrow> careful_step no_programming [] (mode_steps os se shown a)"
  unfolding mode_steps_def bridge_steps_mode_def bridge_mode_def
  by (simp add: careful_transport_mode careful_bridge careful_chips careful_step2 careful_selftest careful_early careful_fetch
      careful_loader)

section \<open>Synthesis and implementation\<close>

definition synth_command :: "os \<Rightarrow> main_args \<Rightarrow> environ \<Rightarrow> command" where
  "synth_command os a env = main_vivado os a (exe_of os [''vivado.bat'', ''vivado'']) env ''fpga/run_ax7203_synth.tcl''
     ''08_run_synth.log'' 7200"

definition impl_command :: "os \<Rightarrow> main_args \<Rightarrow> environ \<Rightarrow> command" where
  "impl_command os a env = main_vivado os a (exe_of os [''vivado.bat'', ''vivado'']) env
     (if ma_impl_mode a = ''incremental'' then ''fpga/impl_incremental.tcl'' else ''fpga/impl_aggressive.tcl'')
     (if ma_impl_mode a = ''incremental'' then ''09_impl_incremental.log'' else ''09_impl_aggressive.log'') 18000"

definition basic_commands :: "os \<Rightarrow> main_args \<Rightarrow> command list" where
  "basic_commands os a = [main_tests_command os (main_logs os a) [''--basic''] ''01_basic.log'',
     main_tests_command os (main_logs os a) [''--basic'', ''--fpga-config''] ''02_basic_fpga_config.log'']"

lemma quietly_timing: "quietly (timing_check path msg)"
  unfolding timing_check_def Let_def
  by (auto intro!: quietly_and_then quietly_basic split: option.split bool.split)

lemma timing_check_Inr: "timing_check path msg m = (Inr u, m') \<longleftrightarrow> timing_ok (files m path) \<and> m' = m"
  by (auto simp: timing_check_def timing_ok_def flow_Inr Let_def raise_exc_def split: option.splits bool.splits)

lemma careful_choice:
  assumes "careful Q cs f" and "\<And>x. careful Q cs (g x)"
  shows "careful Q cs (\<lambda>m. case h m of None \<Rightarrow> f m | Some x \<Rightarrow> g x m)"
  using assms unfolding careful_def by (auto split: option.split)

lemma careful_create: "careful no_programming [] (create_project os mig_there a env vivado)"
  unfolding create_project_def
  by (intro careful_both careful_choice careful_logged quiet_steps) simp

lemma careful_rethrow:
  fixes f :: "unit flow"
  assumes f: "careful Q cs f" and h: "\<And>e. quietly (h e)" and fails: "\<And>e m. \<exists>e'. fst (h e m) = Inl e'"
  shows "careful Q cs (\<lambda>m. case f m of (Inr u, m') \<Rightarrow> (Inr (), m')
    | (Inl e, m') \<Rightarrow> if is_exception e then h e m' else (Inl e, m'))"
  unfolding careful_def
proof
  fix m
  obtain r m1 where f1: "f m = (r, m1)" by fastforce
  have fm: "careful_run Q cs m r m1"
    using f f1 unfolding careful_def by (metis fst_conv snd_conv)
  have acts: "actions (snd (h e m1)) = actions m1" for e
    using h unfolding quietly_def by blast
  have moved: "careful_run Q cs m (Inl e :: py_exc + unit) m1 \<Longrightarrow> actions m2 = actions m1
      \<Longrightarrow> careful_run Q cs m (Inl e' :: py_exc + unit) m2" for e e' m2
    by (simp add: careful_run_def)
  show "careful_run Q cs m (fst (case f m of (Inr u, m') \<Rightarrow> (Inr (), m')
      | (Inl e, m') \<Rightarrow> if is_exception e then h e m' else (Inl e, m')))
    (snd (case f m of (Inr u, m') \<Rightarrow> (Inr (), m') | (Inl e, m') \<Rightarrow> if is_exception e then h e m' else (Inl e, m')))"
  proof (cases r)
    case (Inl e)
    obtain e' where e': "fst (h e m1) = Inl e'"
      using fails by blast
    have inl: "careful_run Q cs m (Inl e :: py_exc + unit) m1"
      using fm Inl by simp
    show ?thesis
      using f1 Inl inl moved [OF inl acts [of e], of e'] e' by simp
  qed (use f1 fm in simp)
qed

lemma careful_incremental:
  "careful no_programming [main_vivado os a vivado env ''fpga/impl_incremental.tcl'' ''09_impl_incremental.log'' 18000]
     (impl_incremental os shown a env vivado)"
proof -
  let ?c = "main_vivado os a vivado env ''fpga/impl_incremental.tcl'' ''09_impl_incremental.log'' 18000"
  have run: "careful no_programming ([?c] @ []) (and_then (run_logged runtime_exc os ?c) (\<lambda>_.
      timing_check (TIMING_SUMMARY_INCR os) (''incremental implementation timing failed; see '' @ TIMING_SUMMARY_INCR os)))"
    by (intro careful_and_then careful_run_logged careful_quiet quietly_timing) simp
  show ?thesis
    unfolding impl_incremental_def
    by (rule careful_rethrow [OF run [unfolded append_Nil2]])
      (intro quietly_and_then quietly_basic, simp add: and_then_def write_file_def raise_exc_def)
qed

lemma careful_impl:
  "careful_step no_programming [impl_command os a env] (impl_step os shown a env (exe_of os [''vivado.bat'', ''vivado'']))"
proof -
  let ?v = "exe_of os [''vivado.bat'', ''vivado'']"
  have "careful_step no_programming ([impl_command os a env] @ []) (impl_step os shown a env ?v)"
    unfolding impl_step_def
  proof (rule careful_then_do)
    show "careful_step no_programming [impl_command os a env] (if ma_impl_mode a = ''incremental''
       then in_stage ''impl_incremental'' (impl_incremental os shown a env ?v)
       else in_stage ''impl_aggressive'' (run_logged runtime_exc os
         (main_vivado os a ?v env ''fpga/impl_aggressive.tcl'' ''09_impl_aggressive.log'' 18000)))"
      by (simp add: impl_command_def careful_in_stage careful_incremental careful_run_logged)
  qed (simp add: careful_perform careful_quiet quietly_timing)
  then show ?thesis by simp
qed

lemma careful_with_exe:
  assumes "careful_step Q cs (g (exe_of os names))"
  shows "careful_step Q cs (then_do (perform (which_required os names)) g)"
proof (cases "List.map_filter (find_exe os) names")
  case Nil
  then show ?thesis
    by (simp add: careful_step_def then_do_def perform_def which_required_def raise_exc_def careful_run_def)
next
  case (Cons exe rest)
  then have "then_do (perform (which_required os names)) g = g (exe_of os names)"
    by (intro ext) (simp add: then_do_def perform_def which_required_def exe_of_def give_def)
  with assms show ?thesis by simp
qed

lemma careful_vivado:
  assumes "ma_impl_mode a \<noteq> ''synth-only''"
  shows "careful_step no_programming [synth_command os a env, impl_command os a env] (vivado_steps os mig_there shown a env)"
proof -
  let ?v = "exe_of os [''vivado.bat'', ''vivado'']"
  have impl: "careful_step no_programming ([impl_command os a env] @ [])
      (then_do (impl_step os shown a env ?v) (\<lambda>_. perform (give (Some ?v))))"
    by (intro careful_then_do careful_impl careful_perform quiet_steps)
  have synth: "careful_step no_programming ([synth_command os a env] @ [impl_command os a env])
      (then_do (in_stage ''synth'' (run_logged runtime_exc os (synth_command os a env))) (\<lambda>_.
       then_do (impl_step os shown a env ?v) (\<lambda>_. perform (give (Some ?v)))))"
    using impl by (intro careful_then_do careful_in_stage careful_run_logged) (simp_all add: synth_command_def)
  show ?thesis
    unfolding vivado_steps_def using assms synth
    by (intro careful_with_exe careful_step_both [OF careful_in_stage [OF careful_create]])
      (simp add: synth_command_def)
qed

lemma careful_vivado_any: "careful_step no_programming [] (vivado_steps os mig_there shown a env)"
proof (cases "ma_impl_mode a = ''synth-only''")
  case True
  then show ?thesis
    unfolding vivado_steps_def
    by (intro careful_with_exe careful_step_both [OF careful_in_stage [OF careful_create]]
        careful_step_both [OF careful_in_stage [OF careful_logged]])
      (auto intro!: careful_step_both careful_perform quiet_steps simp: enter_def careful_assign)
qed (rule careful_step_weaken [OF careful_vivado])

section \<open>The board comes last\<close>

lemma careful_build:
  assumes "\<not> ma_run_loader_long_sim a"
  shows "careful_step no_programming (basic_commands os a) (build_steps os se mig_there shown a env)" (is ?any)
    and "\<not> ma_skip_vivado a \<Longrightarrow> ma_impl_mode a \<noteq> ''synth-only'' \<Longrightarrow>
      careful_step no_programming (basic_commands os a @ [synth_command os a env, impl_command os a env])
        (build_steps os se mig_there shown a env)"
proof -
  have front: "careful_step no_programming (basic_commands os a @ cs) (build_steps os se mig_there shown a env)"
    if "careful_step no_programming cs
      (if ma_skip_vivado a then perform (give None) else vivado_steps os mig_there shown a env)" for cs
  proof -
    have mode: "careful_step no_programming cs (then_do (mode_steps os se shown a) (\<lambda>_.
        if ma_skip_vivado a then perform (give None) else vivado_steps os mig_there shown a env))"
      using careful_mode [OF assms] that by (rule careful_step_both)
    have "careful_step no_programming ([main_tests_command os (main_logs os a) [''--basic''] ''01_basic.log'']
        @ [main_tests_command os (main_logs os a) [''--basic'', ''--fpga-config''] ''02_basic_fpga_config.log''] @ cs)
        (build_steps os se mig_there shown a env)"
      unfolding build_steps_def basic_step_def fpga_config_step_def
      by (intro careful_then_do careful_in_stage careful_run_logged mode) simp_all
    then show ?thesis by (simp add: basic_commands_def)
  qed
  show ?any
    using front [of "[]"] by (simp add: careful_vivado_any careful_perform quiet_steps)
  show "careful_step no_programming (basic_commands os a @ [synth_command os a env, impl_command os a env])
        (build_steps os se mig_there shown a env)" if "\<not> ma_skip_vivado a" "ma_impl_mode a \<noteq> ''synth-only''"
    using front [of "[synth_command os a env, impl_command os a env]"] that by (simp add: careful_vivado)
qed

lemma build_goes_on:
  assumes "build_steps os se mig_there shown a env l m = (Inr (Some vivado), l1, m1)"
  shows "\<not> ma_skip_vivado a \<and> ma_impl_mode a \<noteq> ''synth-only'' \<and> timing_ok (files m1 (timing_report os a))"
  using assms
  by (auto simp: build_steps_def vivado_steps_def impl_step_def block_Inr give_Inr timing_check_Inr split: if_splits)

lemma main_staged_body:
  assumes "main_staged os se mig_there brd shown a env m = (r, m')"
  obtains rb l mb where "main_body os se mig_there brd shown a env (main_start os a) m = (rb, l, mb)" "actions m' = actions mb"
  using assms
  by (cases "main_body os se mig_there brd shown a env (main_start os a) m")
    (auto simp: main_staged_def and_then_def try_except_def write_file_def give_def Let_def
      split: sum.splits if_splits prod.splits)

text \<open>What is run is only added to.\<close>

definition grows :: "'a flow \<Rightarrow> bool" where
  "grows f \<longleftrightarrow> (\<forall>m. prefix (actions m) (actions (snd (f m))))"

definition grows_step :: "('l, 'a) block \<Rightarrow> bool" where
  "grows_step b \<longleftrightarrow> (\<forall>l m. prefix (actions m) (actions (snd (snd (b l m)))))"

lemma grows_quiet: "quietly f \<Longrightarrow> grows f"
  by (simp add: quietly_def grows_def)

lemma grows_and_then: "grows f \<Longrightarrow> (\<And>x. grows (g x)) \<Longrightarrow> grows (and_then f g)"
  unfolding grows_def and_then_def
  by (auto split: prod.splits sum.splits) (metis prefix_order.trans snd_conv)+

lemma grows_then_do: "grows_step f \<Longrightarrow> (\<And>x. grows_step (g x)) \<Longrightarrow> grows_step (then_do f g)"
  unfolding grows_step_def then_do_def
  by (auto split: prod.splits sum.splits) (metis prefix_order.trans snd_conv)+

lemma grows_perform: "grows f \<Longrightarrow> grows_step (perform f)"
  by (auto simp: grows_def grows_step_def perform_def split: prod.splits) (metis snd_conv)

lemma grows_assign: "grows_step (assign u)" "grows_step (enter s)"
  by (simp_all add: grows_step_def assign_def enter_def)

lemma grows_local: "(\<And>l. grows_step (b l)) \<Longrightarrow> grows_step (\<lambda>l. b l l)"
  unfolding grows_step_def by blast

lemma grows_run: "grows (run_logged exc os c)"
  unfolding grows_def
proof
  fix m
  show "prefix (actions m) (actions (snd (run_logged exc os c m)))"
    by (cases rule: run_logged_ends [of exc os c m]) simp_all
qed

lemma grows_try: "grows_step b \<Longrightarrow> grows (try_except b l)"
  unfolding grows_step_def grows_def try_except_def
  by (auto split: prod.splits sum.splits) (metis snd_conv)+

lemma grows_in_stage: "grows f \<Longrightarrow> grows_step (in_stage s f)"
  unfolding in_stage_def by (intro grows_then_do grows_assign grows_perform)

lemma quietly_build_id: "quietly (read_build_id os)"
  unfolding read_build_id_def by (intro quietly_and_then quietly_basic)

lemmas grows_rules = grows_then_do grows_in_stage grows_perform grows_assign grows_and_then grows_run

lemmas grows_quiets = grows_quiet [OF quietly_basic(1)] grows_quiet [OF quietly_basic(3)] grows_quiet [OF quietly_basic(4)]
  grows_quiet [OF quietly_basic(6)] grows_quiet [OF quietly_basic(7)] grows_quiet [OF quietly_basic(8)]
  grows_quiet [OF quietly_basic(9)] grows_quiet [OF quietly_build_id] grows_quiet [OF quietly_captures(1)]
  grows_quiet [OF quietly_captures(2)]

lemma grows_session: "grows_step rest \<Longrightarrow> grows_step (board_session os brd job stage log rest)"
  unfolding board_session_def by (intro grows_rules grows_quiets)

lemma grows_in_stage_local: "(\<And>l. grows (f l)) \<Longrightarrow> grows_step (\<lambda>l. in_stage s (f l) l)"
  by (rule grows_local) (rule grows_in_stage)

lemma grows_session_local: "(\<And>l. grows_step (rest l)) \<Longrightarrow> grows_step (\<lambda>l. board_session os brd job stage log (rest l) l)"
  by (rule grows_local) (rule grows_session)

lemma grows_mode_capture: "grows (mode_capture os brd a path)"
  unfolding mode_capture_def step2_capture_def steps_capture_def bridge_capture_def
  by (auto intro!: grows_rules grows_quiets)

lemma grows_transport: "grows (transport_capture brd a ps path)"
proof -
  have "quietly (read_transport_manifests ps)"
  proof (induction ps)
    case (Cons kvs ps)
    then show ?case
      unfolding read_transport_manifests.simps read_transport_manifest_def
      by (intro quietly_and_then quietly_manifests quietly_basic)
  qed (simp add: quietly_basic)
  then show ?thesis
    unfolding transport_capture_def by (intro grows_rules grows_quiets grows_quiet)
qed

lemma grows_checks: "grows (check_all cs)"
proof (induction cs)
  case (Cons c cs)
  then show ?case
    by (cases c) (simp add: grows_and_then grows_quiets)
qed (simp add: grows_quiets)

lemma grows_selftest_board: "grows_step (selftest_board os brd shown a job)"
proof -
  have listen: "grows (selftest_listen os brd)"
  proof -
    have polls: "quietly (selftest_polls ps)" for ps
      by (induction ps rule: selftest_polls.induct) (auto simp: Let_def quietly_basic split: option.split)
    have "quietly (\<lambda>m. (Inr x, m\<lparr>files := F (files m)\<rparr>))" for x :: selftest_capture and F
      by (simp add: quietly_def)
    then have "grows (and_then (selftest_polls ps) (\<lambda>_ m. (Inr x, m\<lparr>files := F (files m)\<rparr>)))"
      for ps and x :: selftest_capture and F
      by (intro grows_quiet quietly_and_then polls)
    then show ?thesis
      unfolding grows_def selftest_listen_def Let_def by (simp split: prod.split)
  qed
  have block: "grows_step (selftest_block os brd job log)" for log
    unfolding selftest_block_def program_board_def by (intro grows_rules grows_quiets listen)
  have "grows (run_loader_beacon_selftest_board os brd shown job logs)" for logs
    unfolding run_loader_beacon_selftest_board_def Let_def
    by (auto intro!: grows_and_then grows_try block grows_quiets split: option.split)
  then show ?thesis
    unfolding selftest_board_def by (auto intro!: grows_rules grows_quiets)
qed

lemma grows_board: "grows_step (board_steps os brd shown a job)"
proof -
  have bridge: "grows_step (bridge_board os brd a job)"
    unfolding bridge_board_def keep_uart_def
    by (intro grows_then_do grows_perform grows_quiets grows_session grows_in_stage_local grows_mode_capture grows_assign)
  have early: "grows_step (early_board os brd a job)"
    unfolding early_board_def
    by (intro grows_session grows_then_do grows_assign grows_in_stage_local grows_quiets)
  have transport: "grows_step (transport_board os brd a job)"
    unfolding transport_board_def keep_uart_def
    by (intro grows_session grows_then_do grows_assign grows_in_stage_local grows_transport)
  have only: "grows_step (program_only os a job)"
    unfolding program_only_def by (intro grows_rules grows_quiets)
  have fetch: "grows_step (fetch_debug_board os brd a job)"
    unfolding fetch_debug_board_def keep_uart_def
    by (intro grows_then_do only grows_in_stage_local grows_quiets grows_assign)
  have load: "grows_step (load_on_board os brd a stage kvs cf)" for stage kvs cf
    unfolding load_on_board_def by (intro grows_rules grows_quiets)
  have baseline: "grows_step (then_do (\<lambda>l. board_session os brd job stage log (load_on_board os brd a stage' (kvs l) cf) l)
      (\<lambda>r. assign (u r)))" for stage log stage' kvs cf u
    by (intro grows_then_do grows_session_local load grows_assign)
  have "grows_step (benchmark_board os brd a job)"
    unfolding benchmark_board_def Let_def
    by (rule grows_then_do [OF only grows_then_do [OF grows_assign(2) grows_then_do [OF grows_session_local [OF load]
        grows_then_do [OF grows_assign(1) grows_then_do [OF grows_perform [OF grows_checks]]]]]])
      (simp add: grows_assign baseline)
  then show ?thesis
    unfolding board_steps_def using grows_selftest_board bridge early transport fetch
    by (auto intro!: grows_then_do grows_perform grows_quiets)
qed

lemma grows_verdict: "grows_step (verdict a)"
  by (auto simp: grows_step_def verdict_def intro: grows_checks [THEN grows_perform, unfolded grows_step_def, rule_format])

lemma main_body_cases:
  assumes "main_body os se mig_there brd shown a env l m = (r, l', m')"
  obtains (before) r1 l1 where "build_steps os se mig_there shown a env l m = (r1, l1, m')"
    | (board) vivado l1 m1 where "build_steps os se mig_there shown a env l m = (Inr (Some vivado), l1, m1)"
        "prefix (actions m1) (actions m')"
proof -
  obtain r1 l1 m1 where b: "build_steps os se mig_there shown a env l m = (r1, l1, m1)"
    by (metis prod_cases3)
  show thesis
  proof (cases "\<exists>v. r1 = Inr (Some v)")
    case True
    then obtain v where v: "r1 = Inr (Some v)" by blast
    have "grows_step (then_do (board_steps os brd shown a (board_job_of a env v)) (\<lambda>_. verdict a))"
      by (intro grows_then_do grows_board grows_verdict)
    then have "prefix (actions m1) (actions (snd (snd (then_do (board_steps os brd shown a (board_job_of a env v))
        (\<lambda>_. verdict a) l1 m1))))"
      unfolding grows_step_def by blast
    moreover have "then_do (board_steps os brd shown a (board_job_of a env v)) (\<lambda>_. verdict a) l1 m1 = (r, l', m')"
      using assms b v by (simp add: main_body_def then_do_def [of "build_steps os se mig_there shown a env"])
    ultimately have "prefix (actions m1) (actions m')"
      by simp
    with b v board show thesis by blast
  next
    case False
    then have "m' = m1"
      using assms b
      by (auto simp: main_body_def then_do_def perform_def give_def split: sum.splits option.splits prod.splits)
    with b before show thesis by blast
  qed
qed

text \<open>The modes in which the staged flow runs.\<close>

definition staged_mode :: "main_args \<Rightarrow> bool" where
  "staged_mode a \<longleftrightarrow> \<not> ma_selftest_board_only a \<and> \<not> ma_early_audit_board_only a \<and> ma_impl_mode a \<noteq> ''board-only''"

definition programs_board :: "os \<Rightarrow> action \<Rightarrow> bool" where
  "programs_board os act \<longleftrightarrow> (\<exists>job log e. act = Ran (program_command os job log) e)"

lemma not_programmed: "list_all (\<lambda>(c, e). no_programming c) runs \<Longrightarrow> act \<in> set (map (\<lambda>(c, e). Ran c e) runs)
    \<Longrightarrow> \<not> programs_board os act"
  by (auto simp: list_all_iff programs_board_def dest: programming_command [THEN notE])

lemma check_modes_keeps: "snd (check_modes a m) = m"
  by (simp add: check_modes_def and_then_def require_def give_def raise_exc_def)

lemma main_env_keeps: "snd (main_env os se a m) = m"
  by (simp add: main_env_def and_then_def positive_hz_def require_def give_def raise_exc_def split: option.split)

lemma main_reaches_body:
  assumes run: "benchmark_main os se mig_there brd shown a m = (r, m')" and mode: "staged_mode a"
    and acts: "actions m' = actions m @ acts"
  shows "acts = [] \<or> (\<exists>env rb l mb. main_env os se a m = (Inr env, m)
    \<and> main_body os se mig_there brd shown a env (main_start os a) m = (rb, l, mb) \<and> actions mb = actions m @ acts)"
proof (cases "fst (check_modes a m)")
  case (Inl e)
  then show ?thesis
    using run acts check_modes_keeps [of a m] by (cases "check_modes a m") (auto simp: benchmark_main_def and_then_def)
next
  case (Inr u)
  then have c: "check_modes a m = (Inr u, m)"
    using check_modes_keeps [of a m] by (metis prod.collapse)
  have none: "main_board_only os brd shown a env = None" for env
    using mode by (simp add: main_board_only_def staged_mode_def)
  show ?thesis
  proof (cases "fst (main_env os se a m)")
    case (Inl e)
    then show ?thesis
      using run acts c main_env_keeps [of os se a m]
      by (cases "main_env os se a m") (auto simp: benchmark_main_def and_then_def)
  next
    case (Inr env)
    then have e: "main_env os se a m = (Inr env, m)"
      using main_env_keeps [of os se a m] by (metis prod.collapse)
    have "main_staged os se mig_there brd shown a env m = (r, m')"
      using run c e none by (simp add: benchmark_main_def and_then_def)
    then obtain rb l mb where "main_body os se mig_there brd shown a env (main_start os a) m = (rb, l, mb)" "actions m' = actions mb"
      by (rule main_staged_body)
    with e acts show ?thesis by auto
  qed
qed

text \<open>
  C1. The board is programmed last: when a run of the staged flow has programmed the board, in whatever mode
  and however it ended, then the part of the run before the first use of the board went all the way; every
  program it started exited with zero, the two regression tests, the synthesis and the implementation were
  among them in this order, none of them programmed the board, and the timing report the mode relies on
  was that of a design that meets its timing.  (With \<^verbatim>\<open>--run-loader-long-sim\<close>, two simulations may fail.)
\<close>

theorem board_comes_last:
  assumes run: "benchmark_main os se mig_there brd shown a m = (r, m')" and mode: "staged_mode a"
    and long: "\<not> ma_run_loader_long_sim a"
    and prog: "actions m' = actions m @ acts" "act \<in> set acts" "programs_board os act"
  shows "\<exists>env vivado l m1 runs. build_steps os se mig_there shown a env (main_start os a) m = (Inr (Some vivado), l, m1)
    \<and> actions m1 = actions m @ map (\<lambda>(c, e). Ran c e) runs \<and> prefix (map (\<lambda>(c, e). Ran c e) runs) acts
    \<and> list_all (\<lambda>(c, e). exited_zero e \<and> \<not> programs_board os (Ran c e)) runs
    \<and> subseq (basic_commands os a @ [synth_command os a env, impl_command os a env]) (map fst runs)
    \<and> timing_ok (files m1 (timing_report os a))"
proof -
  obtain env l mb rb where env: "main_env os se a m = (Inr env, m)"
    and body: "main_body os se mig_there brd shown a env (main_start os a) m = (rb, l, mb)" and acts: "actions mb = actions m @ acts"
    using run mode prog(1) main_reaches_body [OF run mode prog(1)] prog(2) by (metis empty_iff empty_set)
  have careful: "careful_step no_programming (basic_commands os a) (build_steps os se mig_there shown a env)"
    by (rule careful_build(1) [OF long])
  from body show ?thesis
  proof (cases rule: main_body_cases)
    case (before r1 l1)
    then have "careful_run no_programming (basic_commands os a) m r1 mb"
      using careful unfolding careful_step_def by (metis fst_conv snd_conv)
    then show ?thesis
      using acts prog(2,3) not_programmed by (auto simp: careful_run_def)
  next
    case (board vivado l1 m1)
    have on: "\<not> ma_skip_vivado a" "ma_impl_mode a \<noteq> ''synth-only''" "timing_ok (files m1 (timing_report os a))"
      using build_goes_on [OF board(1)] by auto
    have "careful_run no_programming (basic_commands os a @ [synth_command os a env, impl_command os a env]) m
        (Inr (Some vivado)) m1"
      using careful_build(2) [OF long on(1,2)] board(1) unfolding careful_step_def by (metis fst_conv snd_conv)
    then obtain runs where runs: "actions m1 = actions m @ map (\<lambda>(c, e). Ran c e) runs"
      "list_all (\<lambda>(c, e). no_programming c) runs" "list_all (\<lambda>(c, e). exited_zero e) runs"
      "subseq (basic_commands os a @ [synth_command os a env, impl_command os a env]) (map fst runs)"
      by (auto simp: careful_run_def)
    have "list_all (\<lambda>(c, e). exited_zero e \<and> \<not> programs_board os (Ran c e)) runs"
      using runs(2,3) by (auto simp: list_all_iff programs_board_def dest: programming_command [THEN notE])
    moreover have "prefix (map (\<lambda>(c, e). Ran c e) runs) acts"
      using board(2) runs(1) acts by simp
    ultimately show ?thesis
      using board(1) runs(1,4) on(3) by blast
  qed
qed

section \<open>Examples\<close>

text \<open>Tools that always exit with zero and print the same text, and files that no part of a flow overwrites.\<close>

definition stocked :: "(string \<times> string) list \<Rightarrow> machine \<Rightarrow> bool" where
  "stocked K m \<longleftrightarrow> list_all (\<lambda>(p, t). files m p = Some t) K"

definition steady :: "(string \<times> string) list \<Rightarrow> 'a flow \<Rightarrow> bool" where
  "steady K f \<longleftrightarrow> (\<forall>m. stocked K m \<longrightarrow> (\<exists>x m'. f m = (Inr x, m') \<and> stocked K m'))"

definition steady_step :: "(string \<times> string) list \<Rightarrow> 'a step \<Rightarrow> bool" where
  "steady_step K b \<longleftrightarrow> (\<forall>l m. stocked K m \<longrightarrow> (\<exists>x l' m'. b l m = (Inr x, l', m') \<and> stocked K m'))"

lemma stocked_iff: "stocked K m \<longleftrightarrow> (\<forall>p t. (p, t) \<in> set K \<longrightarrow> files m p = Some t)"
  by (auto simp: stocked_def list_all_iff)

lemma stocked_update:
  "stocked K m \<Longrightarrow> p \<notin> fst ` set K \<Longrightarrow> stocked K \<lparr>files = (files m)(p \<mapsto> t), actions = acts\<rparr>"
  by (force simp: stocked_iff image_iff)

lemma steady_then: "steady_step K f \<Longrightarrow> (\<And>x. steady_step K (g x)) \<Longrightarrow> steady_step K (then_do f g)"
  unfolding steady_step_def then_do_Inr by blast

lemma steady_and_then: "steady K f \<Longrightarrow> (\<And>x. steady K (g x)) \<Longrightarrow> steady K (and_then f g)"
  unfolding steady_def and_then_Inr by blast

lemma quiet_which_any: "which_required (quiet_os out) (n # ns) m = (Inr n, m)"
  by (simp add: which_required_def quiet_os_def demo_os_def map_filter_def give_def)

lemma steady_simple: "steady K (give x)" "steady K (look_file p)" "b \<Longrightarrow> steady K (require b e)"
  "steady K (which_required (quiet_os out) (n # ns))" "hz \<noteq> 0 \<Longrightarrow> steady K (positive_hz hz)"
  by (simp_all add: steady_def give_def look_file_def require_def quiet_which_any positive_hz_def)

lemma steady_assign: "steady_step K (assign u)" "steady_step K (enter s)"
  by (simp_all add: steady_step_def assign_def enter_def)

lemma steady_perform: "steady K f \<Longrightarrow> steady_step K (perform f)"
  by (simp add: steady_def steady_step_def perform_Inr)

lemma steady_in_stage: "steady K f \<Longrightarrow> steady_step K (in_stage s f)"
  unfolding in_stage_def by (intro steady_then steady_assign steady_perform)

lemma steady_write: "p \<notin> fst ` set K \<Longrightarrow> steady K (write_file p t)"
  by (force simp: steady_def write_file_def stocked_iff image_iff)

lemma steady_run: "cmd_log c \<notin> fst ` set K \<Longrightarrow> steady K (run_logged exc (quiet_os out) c)"
  by (simp add: steady_def quiet_run stocked_update)

lemma steady_compile: "cmd_log (compile ''iverilog'') \<notin> fst ` set K \<Longrightarrow> n \<noteq> 0 \<Longrightarrow> steady K (compile_step (quiet_os out) n compile)"
  by (simp add: steady_def compile_step_def and_then_def quiet_which quiet_run positive_hz_def require_def give_def stocked_update)

lemma steady_judge:
  assumes "cmd_log (sim ''vvp'') \<notin> fst ` set K" and "gate (log_of (sim ''vvp'') (Exited 0 out)) = None"
  shows "steady K (run_and_judge (quiet_os out) sim gate)"
  using assms
  by (simp add: steady_def run_and_judge_def and_then_def quiet_which quiet_run read_text_def check_log_def give_def
      stocked_update)

lemma steady_timing: "(path, good_report) \<in> set K \<Longrightarrow> steady K (timing_check path msg)"
  by (auto simp: steady_def timing_check_Inr stocked_iff good_report_ok)

lemma steady_create:
  assumes "in_dir (main_logs (quiet_os out) a) ''07_create_project.log'' \<notin> fst ` set K"
    and "in_dir (main_logs (quiet_os out) a) ''07_create_project.reason.txt'' \<notin> fst ` set K"
  shows "steady K (create_project (quiet_os out) mig_there a env vivado)"
proof -
  have choice: "steady K (\<lambda>m. case h m of None \<Rightarrow> f m | Some x \<Rightarrow> g x m)" if "steady K f" "\<And>x. steady K (g x)" for h f g
    using that unfolding steady_def by (auto split: option.split)
  show ?thesis
    unfolding create_project_def using assms
    by (intro steady_and_then choice steady_simple steady_write steady_run) (simp_all add: main_vivado_def)
qed

text \<open>The synthesis, the implementation and the tests, when the logs of the mode are apart from the files kept.\<close>

lemma steady_build:
  assumes logs: "\<And>name. name \<in> {''01_basic.log'', ''02_basic_fpga_config.log'', ''07_create_project.log'',
      ''07_create_project.reason.txt'', ''08_run_synth.log'', ''09_impl_aggressive.log''}
      \<Longrightarrow> in_dir (main_logs (quiet_os out) a) name \<notin> fst ` set K"
    and mode: "ma_impl_mode a = ''aggressive''" "\<not> ma_skip_vivado a"
    and report: "(TIMING_SUMMARY_AGGR (quiet_os out), good_report) \<in> set K"
    and sims: "steady_step K (mode_steps (quiet_os out) se shown a)"
  shows "steady_step K (build_steps (quiet_os out) se mig_there shown a env)"
proof -
  have path: "timing_report (quiet_os out) a = TIMING_SUMMARY_AGGR (quiet_os out)"
    using mode by (simp add: timing_report_def)
  have "steady_step K (vivado_steps (quiet_os out) mig_there shown a env)"
    unfolding vivado_steps_def impl_step_def path mode(1) using report
    by (simp, intro steady_then steady_perform steady_in_stage steady_create steady_run steady_timing steady_simple)
      (simp_all add: main_vivado_def logs)
  then show ?thesis
    unfolding build_steps_def basic_step_def fpga_config_step_def using mode(2) sims
    by (simp, intro steady_then steady_in_stage steady_run) (simp_all add: main_tests_command_def logs)
qed

subsection \<open>The bridge\<close>

definition steady_text :: string where
  "steady_text = ''[DDR3_BRIDGE_TB] PASS [AX7203_DDR3_BRIDGE] PASS''"

definition steady_os :: os where
  "steady_os = quiet_os steady_text"

definition loader_args :: main_args where
  "loader_args = \<lparr>ma_port = ''COM5'', ma_rs_depth = 48, ma_fetch_buffer_depth = 16, ma_core_hz = 25000000,
     ma_capture_seconds = 1, ma_uart_baud = 115200, ma_dhrystone_runs = 1, ma_fetch_debug = False,
     ma_transport_only = False, ma_bridge_audit = False, ma_bridge_audit_steps = False, ma_step2_only = False,
     ma_early_audit = False, ma_early_audit_board_only = False, ma_selftest = False, ma_selftest_board_only = False,
     ma_sweep_3point = False, ma_header_send_delay_ms = 0, ma_post_jtag_quiet_ms = 100, ma_transport_jitter_pct = 4,
     ma_transport_byte_gap = 6, ma_transport_ack_mode = ''loose'', ma_transport_seeds = 3,
     ma_run_loader_long_sim = False, ma_block_trace = False, ma_chunk_trace = False, ma_rx_trace = False,
     ma_skip_vivado = False, ma_impl_mode = ''aggressive''\<rparr>"

definition steady_args :: main_args where
  "steady_args = loader_args\<lparr>ma_bridge_audit := True\<rparr>"

definition steady_files :: "(string \<times> string) list" where
  "steady_files = [(TIMING_SUMMARY_AGGR steady_os, good_report)]"

abbreviation steady_logs :: string where
  "steady_logs \<equiv> main_logs steady_os steady_args"

lemma steady_path: "in_dir steady_logs name \<notin> fst ` set steady_files"
  by (simp add: main_logs_def logs_dir_name_def steady_args_def loader_args_def TIMING_SUMMARY_AGGR_def build_file_def in_dir_def
      steady_files_def)

lemma steady_tokens:
  "contains_text ''[DDR3_BRIDGE_TB] PASS'' (log_of c (Exited 0 steady_text))"
  "contains_text ''[AX7203_DDR3_BRIDGE] PASS'' (log_of c (Exited 0 steady_text))"
  unfolding log_of_def output_of.simps by (rule contains_text_append, code_simp)+

lemma steady_stress: "steady steady_files (run_bridge_stress_tb steady_os steady_logs)"
proof -
  have cases: "steady steady_files (run_cases (quiet_os steady_text) (stress_run steady_os steady_logs) (stress_gate steady_logs) cs)" for cs
  proof (induction cs)
    case (Cons c cs)
    have "steady steady_files (run_and_judge (quiet_os steady_text) (stress_run steady_os steady_logs c) (stress_gate steady_logs c))"
      by (rule steady_judge)
        (simp_all add: stress_run_def run_bench_def stress_log_def steady_path stress_gate_def token_gate_def steady_tokens)
    then show ?case
      unfolding run_cases.simps by (intro steady_and_then Cons.IH steady_simple)
  qed (simp add: steady_simple)
  show ?thesis
    unfolding run_bridge_stress_tb_def
    by (intro steady_and_then cases [folded steady_os_def] steady_compile [where out = steady_text, folded steady_os_def])
      (simp_all add: stress_compile_def compile_bench_def steady_path)
qed

lemma steady_core: "cp_core_hz (main_core steady_args) = 25000000" "cp_baud (main_core steady_args) = 115200"
  by (simp_all add: main_core_def steady_args_def loader_args_def)

lemma steady_chip: "steady steady_files (run_bridge_top_sim steady_os steady_logs (main_core steady_args))"
  unfolding run_bridge_top_sim_def top_sim_def
  by (intro steady_and_then steady_run [where out = steady_text, folded steady_os_def]
      steady_compile [where out = steady_text, folded steady_os_def] steady_judge [where out = steady_text, folded steady_os_def])
    (simp_all add: chip_rom_command_def rom_image_command_def chip_compile_def compile_bench_def chip_run_def run_bench_def
      chip_log_def chip_gate_def token_gate_def bridge_chip_def steady_tokens steady_path steady_core)

lemma steady_bridge_build: "steady_step steady_files (build_steps steady_os se mig_there shown steady_args env)"
proof -
  have picks: "mode_steps steady_os se shown steady_args = bridge_mode steady_os steady_args"
    by (simp add: steady_args_def loader_args_def mode_steps_def)
  have "steady_step steady_files (mode_steps steady_os se shown steady_args)"
    unfolding picks bridge_mode_def bridge_steps_def Let_def
    by (intro steady_then steady_in_stage steady_assign steady_stress steady_chip)
  then show ?thesis
    using steady_path unfolding steady_os_def
    by (intro steady_build) (simp_all add: steady_args_def loader_args_def, simp add: steady_files_def steady_os_def)
qed

definition reported_start :: machine where
  "reported_start = \<lparr>files = [TIMING_SUMMARY_AGGR steady_os \<mapsto> good_report], actions = []\<rparr>"

lemma steady_programs:
  "\<exists>r m' acts act. benchmark_main steady_os example_env mig_there (demo_board wire) shown steady_args reported_start = (r, m')
    \<and> actions m' = actions reported_start @ acts \<and> act \<in> set acts \<and> programs_board steady_os act"
proof -
  let ?brd = "demo_board wire" and ?l = "main_start steady_os steady_args"
  obtain env where env: "main_env steady_os example_env steady_args reported_start = (Inr env, reported_start)"
  proof -
    have "trace_limits (os_environ steady_os) = Some (0, 8)"
      unfolding steady_os_def quiet_os_def demo_os_def by code_simp
    then show thesis
      using that by (simp add: main_env_def and_then_def positive_hz_def require_def give_def steady_args_def loader_args_def build_env_def Let_def)
  qed
  have "stocked steady_files reported_start"
    by (simp add: stocked_def steady_files_def reported_start_def)
  then obtain v l1 m1 where build: "build_steps steady_os example_env mig_there shown steady_args env ?l reported_start = (Inr v, l1, m1)"
    using steady_bridge_build unfolding steady_step_def by blast
  obtain vivado where v: "v = Some vivado"
    using build by (auto simp: build_steps_def vivado_steps_def block_Inr give_Inr steady_args_def loader_args_def)
  let ?job = "board_job_of steady_args env vivado" and ?log = "in_dir steady_logs ''10_program_jtag.log''"
  let ?c = "program_command steady_os ?job ?log"
  obtain rest where board: "board_steps steady_os ?brd shown steady_args ?job
      = then_do (perform (import_serial ?brd ''bridge-audit UART capture'')) (\<lambda>_.
          then_do (perform (open_port ?brd (bj_port ?job) (bj_uart_baud ?job))) (\<lambda>_.
          then_do (in_stage ''program_jtag'' (run_logged runtime_exc steady_os ?c)) (\<lambda>_. rest)))"
    and rest: "grows_step rest"
  proof -
    have cap: "grows_step (then_do (\<lambda>l. in_stage ''uart_load_and_capture''
        (mode_capture steady_os ?brd steady_args (ml_capture_file l)) l) keep_uart)"
      unfolding keep_uart_def by (intro grows_then_do grows_in_stage_local grows_mode_capture grows_assign)
    have "grows_step (then_do (perform (read_build_id steady_os)) (\<lambda>bid. then_do (assign (\<lambda>l. l\<lparr>ml_build_id := bid\<rparr>)) (\<lambda>_.
        then_do (\<lambda>l. in_stage ''uart_load_and_capture'' (mode_capture steady_os ?brd steady_args (ml_capture_file l)) l) keep_uart)))"
      by (intro grows_then_do [OF grows_perform] grows_then_do [OF grows_assign(1)] cap grows_quiets)
    then show thesis
      by (rule that [rotated]) (simp add: board_steps_def bridge_board_def board_session_def any_bridge_def steady_args_def loader_args_def)
  qed
  let ?m2 = "\<lparr>files = (files m1)(?log \<mapsto> log_of ?c (Exited 0 steady_text)), actions = actions m1 @ [Ran ?c (Exited 0 steady_text)]\<rparr>"
  have "board_steps steady_os ?brd shown steady_args ?job l1 m1 = rest (l1\<lparr>ml_stage := ''program_jtag''\<rparr>) ?m2"
    unfolding board by (simp add: then_do_def perform_def import_serial_def open_port_def demo_board_def require_def give_def
        in_stage_def enter_def assign_def steady_os_def quiet_run, simp add: program_command_def)
  then have "prefix (actions ?m2) (actions (snd (snd (board_steps steady_os ?brd shown steady_args ?job l1 m1))))"
    using rest unfolding grows_step_def by metis
  then have acts2: "prefix (actions m1 @ [Ran ?c (Exited 0 steady_text)])
      (actions (snd (snd (board_steps steady_os ?brd shown steady_args ?job l1 m1))))"
    by simp
  obtain rb l2 m3 where b: "board_steps steady_os ?brd shown steady_args ?job l1 m1 = (rb, l2, m3)"
    by (metis prod_cases3)
  have acts3: "prefix (actions m3) (actions (snd (snd (then_do (board_steps steady_os ?brd shown steady_args ?job)
      (\<lambda>_. verdict steady_args) l1 m1))))"
    using b grows_verdict [of steady_args] unfolding grows_step_def by (cases rb) (simp_all add: then_do_def)
  obtain r m' where run: "benchmark_main steady_os example_env mig_there ?brd shown steady_args reported_start = (r, m')"
    by fastforce
  have acts: "actions m' = actions (snd (snd (then_do (board_steps steady_os ?brd shown steady_args ?job)
      (\<lambda>_. verdict steady_args) l1 m1)))"
  proof -
    have "check_modes steady_args reported_start = (Inr (), reported_start)"
      unfolding steady_args_def loader_args_def by (simp add: check_modes_def active_modes_def and_then_def require_def give_def)
    moreover have "main_board_only steady_os ?brd shown steady_args env = None"
      unfolding main_board_only_def by (simp add: steady_args_def loader_args_def)
    ultimately have "main_staged steady_os example_env mig_there ?brd shown steady_args env reported_start = (r, m')"
      using run env by (simp add: benchmark_main_def and_then_def)
    then obtain rb l mb where "main_body steady_os example_env mig_there ?brd shown steady_args env ?l reported_start = (rb, l, mb)"
      "actions m' = actions mb"
      by (rule main_staged_body)
    then show ?thesis
      using build v by (simp add: main_body_def then_do_def [of "build_steps steady_os example_env mig_there shown steady_args env"])
  qed
  have "prefix (actions m1 @ [Ran ?c (Exited 0 steady_text)]) (actions m3)"
    using acts2 unfolding b by simp
  then have "prefix (actions m1 @ [Ran ?c (Exited 0 steady_text)]) (actions m')"
    using acts3 unfolding acts by (rule prefix_order.trans)
  then obtain acts where "actions m' = (actions m1 @ [Ran ?c (Exited 0 steady_text)]) @ acts"
    by (auto simp: prefix_def)
  then show ?thesis
    using run by (intro exI [of _ r] exI [of _ m'] exI [of _ "actions m'"] exI [of _ "Ran ?c (Exited 0 steady_text)"])
      (auto simp: reported_start_def programs_board_def)
qed

lemma board_comes_last_witness:
  "\<exists>r m' act acts runs. benchmark_main steady_os example_env (\<lambda>acts. True) (demo_board []) (\<lambda>e. []) steady_args reported_start = (r, m')
    \<and> act \<in> set (actions m') \<and> programs_board steady_os act \<and> prefix (map (\<lambda>(c, e). Ran c e) runs) (actions m') \<and> 4 \<le> length runs"
proof -
  obtain r m' acts act where run: "benchmark_main steady_os example_env (\<lambda>acts. True) (demo_board []) (\<lambda>e. []) steady_args reported_start
      = (r, m')" and acts: "actions m' = actions reported_start @ acts" "act \<in> set acts" "programs_board steady_os act"
    using steady_programs [of "\<lambda>acts. True" "[]" "\<lambda>e. []"] by blast
  have mode: "staged_mode steady_args" "\<not> ma_run_loader_long_sim steady_args"
    by (simp_all add: staged_mode_def steady_args_def loader_args_def)
  obtain env runs where runs: "prefix (map (\<lambda>(c, e). Ran c e) runs) acts"
    "subseq (basic_commands steady_os steady_args @ [synth_command steady_os steady_args env, impl_command steady_os steady_args env])
       (map fst runs)"
    using board_comes_last [OF run mode acts] by blast
  have "4 \<le> length runs"
    using list_emb_length [OF runs(2)] by (simp add: basic_commands_def)
  moreover have "acts = actions m'"
    using acts(1) by (simp add: reported_start_def)
  ultimately show ?thesis
    using run acts(2,3) runs(1) by blast
qed

end
