(* ===== verification/MainPass.thy ===== *)
theory MainPass
  imports MainGates
begin

text \<open>
  What a benchmark run of \<^verbatim>\<open>run_fpga_benchmark_ddr3.py\<close> that returns zero has shown: both loads of the board
  passed all their checks.  And what the runs that use only the board have shown.
\<close>

section \<open>Items of a load\<close>

lemma get_item_map_of:
  assumes "distinct (map fst kvs)"
  shows "get_item key kvs = map_of kvs key"
proof -
  have "get_item key kvs = Some v \<longleftrightarrow> map_of kvs key = Some v" for v
    using assms by (simp add: get_item_def map_of_eq_Some_iff rev_map [symmetric])
  then show ?thesis
    by (metis not_None_eq)
qed

lemma drive_items_distinct: "distinct (map fst (drive_items cf r))"
  by (simp add: drive_items_def Let_def)

lemma drive_item: "get_item key (drive_items cf r) = map_of (drive_items cf r) key"
  by (rule get_item_map_of [OF drive_items_distinct])

lemma drive_items_seen:
  "get_bool (drive_items cf r) ''loader_bad_seen'' = bad_seen (dr_analysis r)"
  "get_bool (drive_items cf r) ''loader_summary_seen'' = summary_seen (dr_analysis r)"
  "get_bool (drive_items cf r) ''loader_summary_ok'' = summary_ok_seen (dr_analysis r)"
  "get_bool (drive_items cf r) ''saw_start'' = dr_saw_start r"
  "get_bool (drive_items cf r) ''saw_done'' = dr_saw_done r"
  unfolding get_bool_def get_or_def drive_item by (simp_all add: drive_items_def Let_def)

lemma check_all_Inr: "check_all cs m = (Inr u, m') \<longleftrightarrow> list_all fst cs \<and> m' = m"
  by (induction cs) (auto simp: give_Inr and_then_Inr require_Inr)

text \<open>A load that went well, and one that is asked about.\<close>

definition load_passed :: "drive_result \<Rightarrow> bool" where
  "load_passed r \<longleftrightarrow> \<not> bad_seen (dr_analysis r) \<and> summary_seen (dr_analysis r) \<and> summary_ok_seen (dr_analysis r)
     \<and> dr_saw_start r \<and> dr_saw_done r"

lemma smoke_checks_items: "list_all fst (smoke_load_checks os (drive_items cf r)) \<longleftrightarrow> load_passed r"
  by (auto simp: smoke_load_checks_def Let_def drive_items_seen load_passed_def)

lemma benchmark_checks_items: "list_all fst (benchmark_checks (drive_items cf r) see) \<longleftrightarrow> load_passed r"
  by (auto simp: benchmark_checks_def drive_items_seen load_passed_def)

section \<open>The stage of a failure\<close>

text \<open>The stage variable is never that of a run without failure.\<close>

definition named :: "'a step \<Rightarrow> bool" where
  "named b \<longleftrightarrow> (\<forall>l m. ml_stage l \<noteq> ''none'' \<longrightarrow> ml_stage (fst (snd (b l m))) \<noteq> ''none'')"

lemma named_then: "named f \<Longrightarrow> (\<And>x. named (g x)) \<Longrightarrow> named (then_do f g)"
  unfolding named_def then_do_def by (auto split: prod.splits sum.splits) (metis fst_conv snd_conv)+

lemma named_perform: "named (perform f)"
  by (simp add: named_def perform_def case_prod_beta)

lemma named_assign: "(\<And>l. ml_stage l \<noteq> ''none'' \<Longrightarrow> ml_stage (u l) \<noteq> ''none'') \<Longrightarrow> named (assign u)"
  by (simp add: named_def assign_def)

lemma named_in_stage: "s \<noteq> ''none'' \<Longrightarrow> named (in_stage s f)"
  unfolding in_stage_def enter_def by (intro named_then named_perform named_assign) simp

lemma named_in_stage_local: "s \<noteq> ''none'' \<Longrightarrow> named (\<lambda>l. in_stage s (f l) l)"
  using named_in_stage [of s] unfolding named_def by blast

lemma named_noting:
  assumes "named b" and "\<And>s l. ml_stage (note_it s l) = ml_stage l"
  shows "named (noting shown note_it b)"
proof -
  have "ml_stage (fst (snd (noting shown note_it b l m))) = ml_stage (fst (snd (b l m)))" for l m
    using assms(2) by (auto simp: noting_def split: prod.split sum.split)
  with assms(1) show ?thesis
    by (simp add: named_def)
qed

lemmas named_rules = named_then named_in_stage named_in_stage_local named_perform named_assign

lemma named_long: "named (long_steps os se shown a smoke)"
  unfolding long_steps_def long_prefix_sim_def enter_def Let_def
  by (simp, intro conjI impI named_rules named_noting) simp_all

lemma named_baseline: "named (baseline_steps os a smoke)"
proof -
  have tail: "named (\<lambda>l. (if ma_skip_vivado a then
       then_do (perform (read_text (ml_prefix1_log l))) (\<lambda>t.
       assign (\<lambda>l. l\<lparr>ml_uart := loader_sim_items (analyze_loader_sim_log t) (ml_prefix1_log l),
         ml_capture_file := ml_prefix1_log l\<rparr>)) l
     else perform (give ()) l))"
    by (auto simp: named_def then_do_def perform_def assign_def read_text_def give_def split: option.split)
  show ?thesis
    unfolding baseline_steps_def
    by (rule named_then [OF named_in_stage named_then [OF named_assign]])
      (use tail in \<open>simp_all add: if_distrib [where f = "\<lambda>f. f _"] cong: if_cong\<close>)
qed

lemma named_build:
  assumes "active_modes a = []" and "ma_impl_mode a \<noteq> ''synth-only''"
  shows "named (build_steps os se mig_there shown a env)"
proof -
  have loader: "mode_steps os se shown a = loader_mode os se shown a"
    using assms(1) by (auto simp: active_modes_def mode_steps_def split: if_splits)
  have "named (quick_steps os se a)" "named (prefix1_steps os se a)"
    unfolding quick_steps_def prefix1_steps_def Let_def by (intro named_rules; simp)+
  then have "named (mode_steps os se shown a)"
    unfolding loader loader_mode_def by (intro named_then named_long named_baseline)
  moreover have "named (vivado_steps os mig_there shown a env)"
    unfolding vivado_steps_def impl_step_def using assms(2) by (auto intro!: named_rules)
  ultimately show ?thesis
    unfolding build_steps_def basic_step_def fpga_config_step_def by (auto intro!: named_rules)
qed

lemma named_session: "named rest \<Longrightarrow> stage \<noteq> ''none'' \<Longrightarrow> named (board_session os brd job stage log rest)"
  unfolding board_session_def by (intro named_rules) simp_all

lemma named_board:
  assumes "active_modes a = []"
  shows "named (board_steps os brd shown a job)"
proof -
  have load: "named (\<lambda>l. board_session os brd job stage log (load_on_board os brd a stage' (kvs l) cf) l)"
    if "stage \<noteq> ''none''" "stage' \<noteq> ''none''" for stage log stage' kvs cf
  proof -
    have "named (board_session os brd job stage log (load_on_board os brd a stage' k cf))" for k
      unfolding load_on_board_def using that by (intro named_session named_rules) simp_all
    then show ?thesis
      unfolding named_def by blast
  qed
  have only: "named (program_only os a job)"
    unfolding program_only_def by (intro named_rules) simp_all
  have "named (benchmark_board os brd a job)"
    unfolding benchmark_board_def enter_def Let_def
    by (rule named_then [OF only named_then [OF named_assign named_then [OF load named_then [OF named_assign
        named_then [OF named_perform]]]]])
      (auto intro!: named_then load named_assign)
  moreover have "\<not> ma_selftest a" "\<not> any_bridge a" "\<not> ma_early_audit a" "\<not> ma_transport_only a" "\<not> ma_fetch_debug a"
    using assms by (auto simp: active_modes_def any_bridge_def split: if_splits)
  ultimately show ?thesis
    unfolding board_steps_def by (simp add: named_then named_perform)
qed

lemma named_body:
  assumes "active_modes a = []" and "ma_impl_mode a \<noteq> ''synth-only''"
  shows "named (main_body os se mig_there brd shown a env)"
proof -
  have "named (verdict a)"
    by (simp add: named_def verdict_def perform_def case_prod_beta)
  then show ?thesis
    unfolding main_body_def using assms
    by (auto intro!: named_then named_build named_board named_perform split: option.split)
qed

section \<open>A passing benchmark\<close>

lemma load_session_Inr:
  assumes "board_session os brd job stage log (load_on_board os brd a stage' kvs cf) l m = (Inr x, l', m')"
  shows "\<exists>r. x = drive_items cf r \<and> ml_uart_smoke l' = ml_uart_smoke l"
  using assms by (auto simp: board_session_def load_on_board_def in_stage_def enter_def block_Inr give_Inr)

lemma benchmark_board_Inr:
  assumes "benchmark_board os brd a job l m = (Inr u, l', m')"
  shows "\<exists>smoke r cf. ml_uart_smoke l' = drive_items (smoke_files os) smoke \<and> load_passed smoke
    \<and> ml_uart l' = drive_items cf r \<and> (ma_dhrystone_runs a = 1 \<longrightarrow> r = smoke)"
proof -
  let ?logs = "main_logs os a"
  obtain l0 m0 x l1 m1 l2 m2 where
    smoke: "board_session os brd job ''program_jtag_smoke'' (in_dir ?logs ''10_program_jtag_smoke.log'')
        (load_on_board os brd a ''uart_load_and_capture_smoke'' (ml_smoke l0) (smoke_files os)) l0 m0 = (Inr x, l1, m1)"
    and checks: "list_all fst (smoke_load_checks os x)"
    and rest: "(if ma_dhrystone_runs a = 1 then assign (\<lambda>l. l\<lparr>ml_uart := x, ml_capture_file := cf_text (smoke_files os)\<rparr>)
      else then_do (\<lambda>l. board_session os brd job ''program_jtag_baseline'' (in_dir ?logs ''11_program_jtag_baseline.log'')
          (load_on_board os brd a ''uart_load_and_capture_baseline'' (ml_baseline l) (baseline_files os)) l) (\<lambda>r.
        assign (\<lambda>l. l\<lparr>ml_uart := r, ml_capture_file := cf_text (baseline_files os)\<rparr>)))
      (l1\<lparr>ml_uart_smoke := x\<rparr>) m2 = (Inr u, l', m')"
    using assms unfolding benchmark_board_def Let_def then_do_Inr perform_Inr assign_Inr check_all_Inr by blast
  obtain r0 where x: "x = drive_items (smoke_files os) r0"
    using load_session_Inr [OF smoke] by blast
  have passed: "load_passed r0"
    using checks unfolding x smoke_checks_items .
  show ?thesis
  proof (cases "ma_dhrystone_runs a = 1")
    case True
    then show ?thesis
      using rest passed x by (auto simp: assign_Inr)
  next
    case False
    then obtain y l3 m3 where base: "board_session os brd job ''program_jtag_baseline'' (in_dir ?logs ''11_program_jtag_baseline.log'')
        (load_on_board os brd a ''uart_load_and_capture_baseline'' (ml_baseline (l1\<lparr>ml_uart_smoke := x\<rparr>)) (baseline_files os))
        (l1\<lparr>ml_uart_smoke := x\<rparr>) m2 = (Inr y, l3, m3)" and l': "l' = l3\<lparr>ml_uart := y, ml_capture_file := cf_text (baseline_files os)\<rparr>"
      using rest by (auto simp: then_do_Inr assign_Inr)
    then obtain r where "y = drive_items (baseline_files os) r" "ml_uart_smoke l3 = x"
      using load_session_Inr [OF base] by auto
    then show ?thesis
      using passed x l' False by auto
  qed
qed

text \<open>
  C2. A benchmark run that returns zero has run the benchmark twice on the board: its flow came to the end
  without an exception, the short run was loaded and ran to its end with nothing bad reported, and so was
  the run that is reported, which is the same when one run was asked for; before that, the design met its
  timing.
\<close>

theorem benchmark_pass_sound:
  assumes run: "benchmark_main os se mig_there brd shown a m = (Inr 0, m')"
    and mode: "active_modes a = []" "ma_impl_mode a \<noteq> ''board-only''" "ma_impl_mode a \<noteq> ''synth-only''"
      "\<not> ma_skip_vivado a"
  shows "\<exists>env l mb smoke r cf vivado l1 m1. main_body os se mig_there brd shown a env (main_start os a) m = (Inr (), l, mb)
    \<and> build_steps os se mig_there shown a env (main_start os a) m = (Inr (Some vivado), l1, m1)
    \<and> timing_ok (files m1 (timing_report os a))
    \<and> ml_uart_smoke l = drive_items (smoke_files os) smoke \<and> load_passed smoke
    \<and> ml_uart l = drive_items cf r \<and> load_passed r \<and> (ma_dhrystone_runs a = 1 \<longrightarrow> r = smoke)"
proof -
  have off: "\<not> ma_selftest_board_only a" "\<not> ma_early_audit_board_only a" "\<not> ma_step2_only a" "\<not> ma_bridge_audit_steps a"
    "\<not> ma_bridge_audit a" "\<not> ma_transport_only a" "\<not> ma_fetch_debug a" "\<not> ma_selftest a" "\<not> ma_early_audit a"
    using mode(1) by (auto simp: active_modes_def split: if_splits)
  then have none: "main_board_only os brd shown a env = None" for env
    using mode(2) by (simp add: main_board_only_def)
  obtain env where staged: "main_staged os se mig_there brd shown a env m = (Inr 0, m')"
    using run check_modes_keeps [of a m] main_env_keeps [of os se a m]
    by (auto simp: benchmark_main_def and_then_Inr none)
  obtain rb l mb where body: "main_body os se mig_there brd shown a env (main_start os a) m = (rb, l, mb)"
    by (metis prod_cases3)
  have "ml_stage l \<noteq> ''none''"
    using named_body [OF mode(1,3), of os se mig_there brd shown env, unfolded named_def, rule_format, of "main_start os a" m] body
    by (simp add: main_start_def Let_def)
  then have "rb = Inr ()"
    using staged body
    by (auto simp: main_staged_def and_then_def try_except_def write_file_def give_def Let_def split: sum.splits if_splits)
  then have ok: "main_body os se mig_there brd shown a env (main_start os a) m = (Inr (), l, mb)"
    using body by simp
  then obtain v l1 m1 where build: "build_steps os se mig_there shown a env (main_start os a) m = (Inr v, l1, m1)"
    and rest: "(case v of None \<Rightarrow> perform (give ())
      | Some vivado \<Rightarrow> then_do (board_steps os brd shown a (board_job_of a env vivado)) (\<lambda>_. verdict a)) l1 m1 = (Inr (), l, mb)"
    by (auto simp: main_body_def then_do_Inr)
  have "v \<noteq> None"
    using build mode(3,4) by (auto simp: build_steps_def vivado_steps_def block_Inr give_Inr)
  then obtain vivado where v: "v = Some vivado" by blast
  obtain l2 m2 where board: "board_steps os brd shown a (board_job_of a env vivado) l1 m1 = (Inr (), l2, m2)"
    and verdict: "verdict a l2 m2 = (Inr (), l, mb)"
    using rest v by (auto simp: then_do_Inr)
  obtain l3 m3 where "benchmark_board os brd a (board_job_of a env vivado) l3 m3 = (Inr (), l2, m2)"
    using board off by (auto simp: board_steps_def any_bridge_def then_do_Inr)
  from benchmark_board_Inr [OF this] obtain smoke r cf where loads: "ml_uart_smoke l2 = drive_items (smoke_files os) smoke"
    "load_passed smoke" "ml_uart l2 = drive_items cf r" "ma_dhrystone_runs a = 1 \<longrightarrow> r = smoke" by blast
  have "list_all fst (benchmark_checks (drive_items cf r) (''; see '' @ ml_capture_file l2))" "l = l2"
    using verdict off loads(3) by (auto simp: verdict_def perform_Inr check_all_Inr verdict_checks_def Let_def)
  then have "load_passed r"
    by (simp add: benchmark_checks_items)
  then show ?thesis
    using ok build v loads build_goes_on [of os se mig_there shown a env] \<open>l = l2\<close> by blast
qed

section \<open>An example\<close>

text \<open>Total correctness of flows and steps on machines that have the files of a list, with what they return.\<close>

definition yields :: "(string \<times> string) list \<Rightarrow> 'a flow \<Rightarrow> ('a \<Rightarrow> bool) \<Rightarrow> bool" where
  "yields K f P \<longleftrightarrow> (\<forall>m. stocked K m \<longrightarrow> (\<exists>x m'. f m = (Inr x, m') \<and> stocked K m' \<and> P x))"

definition takes :: "(string \<times> string) list \<Rightarrow> (main_locals \<Rightarrow> bool) \<Rightarrow> 'a step \<Rightarrow> ('a \<Rightarrow> main_locals \<Rightarrow> bool) \<Rightarrow> bool" where
  "takes K I b J \<longleftrightarrow> (\<forall>l m. I l \<longrightarrow> stocked K m \<longrightarrow> (\<exists>x l' m'. b l m = (Inr x, l', m') \<and> stocked K m' \<and> J x l'))"

lemma yields_steady: "steady K f \<Longrightarrow> yields K f (\<lambda>_. True)"
  by (simp add: steady_def yields_def)

lemma steady_yields: "yields K f P \<Longrightarrow> steady K f"
  unfolding steady_def yields_def by blast

lemma yields_and_then: "yields K f P \<Longrightarrow> (\<And>x. P x \<Longrightarrow> yields K (g x) Q) \<Longrightarrow> yields K (and_then f g) Q"
  unfolding yields_def and_then_Inr by blast

lemma yields_give: "P x \<Longrightarrow> yields K (give x) P"
  by (simp add: yields_def give_def)

lemma yields_read: "(p, t) \<in> set K \<Longrightarrow> yields K (read_text p) (\<lambda>x. x = t)"
  by (auto simp: yields_def read_text_def stocked_iff)

lemma yields_copy: "(p, t) \<in> set K \<Longrightarrow> (p', t) \<in> set K \<Longrightarrow> distinct (map fst K) \<Longrightarrow> yields K (copy_file p p') (\<lambda>_. True)"
  by (force simp: yields_def copy_file_def and_then_def read_text_def write_file_def stocked_iff dest: eq_key_imp_eq_value)

lemma takes_then: "takes K I f J \<Longrightarrow> (\<And>x. takes K (J x) (g x) L) \<Longrightarrow> takes K I (then_do f g) L"
  unfolding takes_def then_do_Inr by blast

lemma takes_perform: "yields K f P \<Longrightarrow> (\<And>x l. P x \<Longrightarrow> I l \<Longrightarrow> J x l) \<Longrightarrow> takes K I (perform f) J"
  unfolding takes_def yields_def perform_Inr by blast

lemma takes_assign: "(\<And>l. I l \<Longrightarrow> J () (u l)) \<Longrightarrow> takes K I (assign u) J"
  by (simp add: takes_def assign_def)

lemma takes_in_stage:
  "yields K f P \<Longrightarrow> (\<And>x l. P x \<Longrightarrow> I l \<Longrightarrow> J x (l\<lparr>ml_stage := s\<rparr>)) \<Longrightarrow> takes K I (in_stage s f) J"
  unfolding in_stage_def enter_def
  by (rule takes_then [OF takes_assign [where J = "\<lambda>_ l. \<exists>l0. I l0 \<and> l = l0\<lparr>ml_stage := s\<rparr>"]]) (auto intro: takes_perform)

lemma takes_const: "(P \<Longrightarrow> takes K (\<lambda>_. True) b J) \<Longrightarrow> takes K (\<lambda>_. P) b J"
  by (auto simp: takes_def)

text \<open>The first step of a sequence, by what it is.\<close>

lemma takes_value:
  "yields K f P \<Longrightarrow> (\<And>l. I l \<Longrightarrow> I' (l\<lparr>ml_stage := s\<rparr>)) \<Longrightarrow> (\<And>x. P x \<Longrightarrow> takes K I' (g x) L) \<Longrightarrow> takes K I (then_do (in_stage s f) g) L"
  by (rule takes_then [where J = "\<lambda>x l. P x \<and> I' l"], rule takes_in_stage) (auto simp: takes_def)

lemma takes_do: "yields K f P \<Longrightarrow> (\<And>x. P x \<Longrightarrow> takes K I (g x) L) \<Longrightarrow> takes K I (then_do (perform f) g) L"
  by (rule takes_then [where J = "\<lambda>x l. P x \<and> I l"], rule takes_perform) (auto simp: takes_def)

lemma takes_set: "(\<And>l. I l \<Longrightarrow> I' (u l)) \<Longrightarrow> takes K I' (g ()) L \<Longrightarrow> takes K I (then_do (assign u) g) L"
  by (rule takes_then [where J = "\<lambda>x l. I' l"], rule takes_assign) (auto simp: takes_def)

lemma takes_last: "P x \<Longrightarrow> (\<And>l. I l \<Longrightarrow> J x l) \<Longrightarrow> takes K I (perform (give x)) J"
  by (simp add: takes_def perform_def give_def)

subsection \<open>The tools, the files and the arguments\<close>

definition bench_text :: string where
  "bench_text = quick_output @ '' DDR3 EXEC PASS''"

definition bench_os :: os where
  "bench_os = quiet_os bench_text"

abbreviation bench_logs :: string where
  "bench_logs \<equiv> main_logs bench_os loader_args"

definition tiny_bin :: string where
  "tiny_bin = in_dir (in_dir bench_logs ''loader_quick_payload'') ''ddr3_loader_quick_payload.bin''"

definition smoke_bin :: string where
  "smoke_bin = in_dir (in_dir bench_logs ''payload_manifests'') ''dhrystone_smoke.rom''"

definition built_kvs :: items where
  "built_kvs = payload_items ''/p.rom'' (latin1_encode ''AB'') 0x80000000"

definition smoke_kvs :: items where
  "smoke_kvs = payload_items smoke_bin (latin1_encode ''AB'') 0x80000000"

definition bench_files :: "(string \<times> string) list" where
  "bench_files = [(TIMING_SUMMARY_AGGR bench_os, good_report), (dhrystone_manifest bench_os, json_dumps False (JObj built_kvs)),
     (''/p.rom'', ''AB''), (smoke_bin, ''AB''), (tiny_bin, ''AB'')]"

lemmas bench_path_defs = bench_files_def smoke_bin_def tiny_bin_def main_logs_def logs_dir_name_def loader_args_def
  TIMING_SUMMARY_AGGR_def dhrystone_manifest_def build_file_def in_dir_def

lemma bench_paths: "fst ` set bench_files = {TIMING_SUMMARY_AGGR bench_os, dhrystone_manifest bench_os, ''/p.rom'', smoke_bin, tiny_bin}"
  by (simp add: bench_files_def)

lemma bench_distinct: "distinct (map fst bench_files)"
  by (simp add: bench_path_defs)

lemma bench_apart: "p \<noteq> [] \<Longrightarrow> last p \<notin> {CHR ''t'', CHR ''n'', CHR ''m''} \<Longrightarrow> p \<notin> fst ` set bench_files"
  by (auto simp: bench_path_defs dest!: arg_cong [where f = last])

lemma bench_log: "name \<noteq> [] \<Longrightarrow> last name \<notin> {CHR ''t'', CHR ''n'', CHR ''m''} \<Longrightarrow> in_dir dir name \<notin> fst ` set bench_files"
  by (rule bench_apart) (simp_all add: in_dir_def)

subsection \<open>The simulations\<close>

lemma bench_events:
  assumes "CHR ''['' \<notin> set noise"
  shows "sim_log_events (noise @ bench_text) = [(0, 0, 1, 0), (5, 1, 2, 0), (10, 2, 0x11, 0)]"
proof -
  have "sim_log_events bench_text = [(0, 0, 1, 0), (5, 1, 2, 0), (10, 2, 0x11, 0)]"
    unfolding bench_text_def by code_simp
  then show ?thesis
    using sim_log_events_noise [OF assms] by simp
qed

lemma bench_tokens:
  "contains_text ''[AX7203_DDR3_LOADER] PASS'' (noise @ bench_text)" "contains_text ''DDR3 EXEC PASS'' (noise @ bench_text)"
proof -
  have "contains_text ''[AX7203_DDR3_LOADER] PASS'' bench_text" "contains_text ''DDR3 EXEC PASS'' bench_text"
    unfolding bench_text_def by code_simp+
  then show "contains_text ''[AX7203_DDR3_LOADER] PASS'' (noise @ bench_text)" "contains_text ''DDR3 EXEC PASS'' (noise @ bench_text)"
    by (simp_all only: contains_text_append)
qed

lemma bench_gate:
  assumes "CHR ''['' \<notin> set noise"
    and "\<not> ls_fetch_debug ls" "\<not> ls_selftest ls" "\<not> ls_early_audit ls" "ls_prefix_enable ls \<longrightarrow> ls_prefix_target ls = 1"
  shows "loader_gate log ls (noise @ bench_text) = None"
proof -
  have "loader_prefix_target_ok (reduce_loader_events
      (loader_session_or_all [(0, 0, 1, 0), (5, 1, 2, 0), (10, 2, 0x11, 0)]) [] 0 []) 1"
    by code_simp
  then have "loader_prefix_target_ok (loader_result.truncate (analyze_loader_sim_log (noise @ bench_text))) 1"
    unfolding analyze_loader_sim_log_def bench_events [OF assms(1)]
    by (simp add: loader_prefix_target_ok_def Let_def loader_result.defs loader_flags.defs reduce_loader_events_def)
  moreover have "saw_exec_pass (analyze_loader_sim_log (noise @ bench_text))"
    by (simp add: analyze_loader_sim_log_def Let_def bench_tokens loader_result.defs loader_sim_result.fields_def)
  ultimately show ?thesis
    using assms(2-) by (simp add: loader_gate_def bench_tokens Let_def)
qed

abbreviation bracketless :: "string \<Rightarrow> bool" where
  "bracketless s \<equiv> CHR ''['' \<notin> set s"

lemma plain_header: "bracketless (log_header c) \<longleftrightarrow> list_all bracketless (cmd_args c)"
proof -
  have "bracketless (join_with '' '' xs) \<longleftrightarrow> list_all bracketless xs" for xs
    by (induction "'' ''" xs rule: join_with.induct) auto
  then show ?thesis
    by (simp add: log_header_def cmd_text_def newline_def)
qed

lemma plain_numbers: "bracketless (dec_str n)" "bracketless (str_int i)" "bracketless (flag01 b)"
proof -
  show nat: "bracketless (dec_str n)" for n
  proof
    assume "CHR ''['' \<in> set (dec_str n)"
    then have "is_dec (CHR ''['')"
      using dec_str_digits [of n] by (metis list.pred_set)
    then show False
      by (simp add: is_dec_def digit_val_def)
  qed
  show "bracketless (str_int i)"
    using nat by (auto simp: str_int_def)
  show "bracketless (flag01 b)"
    by (simp add: flag01_def)
qed

lemma plain_pauses: "list_all bracketless names \<Longrightarrow> list_all bracketless (map2 (\<lambda>name v. name @ str_int v) names vs)"
  by (induction names vs rule: list_induct2') (auto simp: plain_numbers)

lemma plain_run: "bracketless (log_header (loader_run bench_os example_env logs man ls ''vvp''))"
proof -
  have "list_all bracketless (loader_plusargs example_env man ls)"
    unfolding loader_plusargs_def list_all_append list.pred_inject set_append Un_iff
    by (intro conjI plain_pauses) (simp_all add: plain_numbers)
  moreover have "bracketless (bench_binary bench_os (loader_tb_top ls))"
    by (simp add: bench_binary_def comp_test_file_def bench_os_def quiet_os_def demo_os_def in_dir_def loader_tb_top_def)
  ultimately show ?thesis
    by (simp add: plain_header loader_run_def run_bench_def)
qed

lemma steady_loader_sim:
  assumes "(pm_bin man, ''AB'') \<in> set bench_files" and "\<not> ls_chunk_trace ls"
    and "\<not> ls_fetch_debug ls" "\<not> ls_selftest ls" "\<not> ls_early_audit ls" "ls_prefix_enable ls \<longrightarrow> ls_prefix_target ls = 1"
    and "ls_log_name ls \<noteq> []" "last (ls_log_name ls) = CHR ''g''"
  shows "steady bench_files (run_loader_top_sim bench_os example_env logs man (main_core loader_args) ls)"
proof -
  have hz: "cp_core_hz (main_core loader_args) = 25000000"
    by (simp add: main_core_def loader_args_def)
  have "steady bench_files (write_payload_hex bench_os (pm_bin man))"
    unfolding write_payload_hex_def
    by (intro steady_yields [OF yields_and_then [OF yields_read [OF assms(1)] yields_steady [OF steady_write]]] bench_apart)
      (simp_all add: PAYLOAD_HEX_def in_dir_def)
  moreover have "steady bench_files (chunk_limits bench_os ls)"
    using assms(2) by (simp add: chunk_limits_def steady_simple)
  moreover have "steady bench_files (run_logged exc bench_os (loader_rom_command bench_os example_env logs ls limits))" for exc limits
    unfolding bench_os_def by (intro steady_run) (simp add: loader_rom_command_def rom_image_command_def bench_log)
  moreover have "steady bench_files (compile_step bench_os 1 (loader_compile bench_os example_env logs (main_core loader_args) ls n))" for n
    unfolding bench_os_def by (intro steady_compile) (simp_all add: loader_compile_def compile_bench_def bench_log Let_def)
  moreover have "steady bench_files (run_and_judge bench_os (loader_run bench_os example_env logs man ls)
      (loader_gate (in_dir logs (ls_log_name ls)) ls))"
    unfolding bench_os_def
    using assms(3-) bench_gate [OF plain_run [unfolded bench_os_def]]
    by (intro steady_judge) (simp_all add: log_of_def bench_log loader_run_def run_bench_def)
  ultimately show ?thesis
    unfolding run_loader_top_sim_def hz by (intro steady_and_then) (simp_all add: steady_simple)
qed

subsection \<open>The payloads\<close>

lemma ab_sum: "int (checksum32 (latin1_encode ''AB'')) < 2 ^ 32"
  using checksum32_bound [of "latin1_encode ''AB''"] by simp

lemma payload_words:
  "word_item ''load_addr'' (payload_items p (latin1_encode ''AB'') 0x80000000) = give 0x80000000"
  "word_item ''entry'' (payload_items p (latin1_encode ''AB'') 0x80000000) = give 0x80000000"
  "word_item ''size_bytes'' (payload_items p (latin1_encode ''AB'') 0x80000000) = give 2"
  "word_item ''checksum32'' (payload_items p (latin1_encode ''AB'') 0x80000000) = give (checksum32 (latin1_encode ''AB''))"
  "bin_path (payload_items p (latin1_encode ''AB'') 0x80000000) = give p"
  using ab_sum [simplified] by (simp_all add: word_item_def bin_path_def payload_items_def get_item_def latin1_encode_def)

lemma yields_sim_manifest:
  "yields K (sim_manifest (payload_items p (latin1_encode ''AB'') 0x80000000)) (\<lambda>man. pm_bin man = p)"
  unfolding sim_manifest_def payload_words by (simp add: yields_def and_then_def give_def)

lemma yields_captured: "yields K (run_captured (quiet_os out) c) (\<lambda>x. x = (0, out))"
  by (simp add: yields_def run_captured_def quiet_os_def demo_os_def stocked_def)

lemma no_start: "symbol_field ''_start'' bench_text = None"
  unfolding bench_text_def by code_simp

lemma yields_tiny:
  "yields bench_files (tiny_payload bench_os loader_args ''loader_quick_payload'' ''ddr3_loader_quick_payload'')
     (\<lambda>kvs. kvs = payload_items tiny_bin (latin1_encode ''AB'') 0x80000000)"
proof -
  let ?dir = "in_dir bench_logs ''loader_quick_payload''" and ?name = "''ddr3_loader_quick_payload''"
  have "(in_dir ?dir (?name @ ''.bin''), ''AB'') \<in> set bench_files"
    by (simp add: bench_files_def tiny_bin_def)
  note bin = yields_read [OF this]
  have tools: "steady bench_files (which_required bench_os [name])" for name
    unfolding bench_os_def by (rule steady_simple)
  have runs: "steady bench_files (run_logged runtime_exc bench_os (asm_gcc bench_os gcc src ?dir ?name))"
    "steady bench_files (run_logged runtime_exc bench_os (asm_objcopy bench_os oc ?dir ?name))" for gcc oc src
    unfolding bench_os_def by (intro steady_run; simp add: asm_gcc_def asm_objcopy_def bench_log)+
  have out: "yields bench_files (run_captured bench_os c) (\<lambda>x. x = (0, bench_text))" for c
    unfolding bench_os_def by (rule yields_captured)
  have compiled: "yields bench_files (compile_ddr3_asm_payload bench_os src ?dir ?name)
      (\<lambda>kvs. taken_items kvs = payload_items tiny_bin (latin1_encode ''AB'') 0x80000000)" for src
    unfolding compile_ddr3_asm_payload_def
    by (intro yields_and_then [OF yields_steady [OF tools]] yields_and_then [OF yields_steady [OF runs(1)]]
          yields_and_then [OF yields_steady [OF runs(2)]] yields_and_then [OF out])
      (auto simp: no_start and_then_def require_def give_def yields_def read_text_def stocked_iff bench_files_def tiny_bin_def
          taken_items_def item_of_def payload_items_def get_item_def)
  show ?thesis
    unfolding tiny_payload_def by (rule yields_and_then [OF compiled]) (simp add: yields_give)
qed

lemma yields_smoke:
  "yields bench_files (build_dhrystone_payload bench_os bench_logs hz runs ''dhrystone_smoke'' fixed) (\<lambda>kvs. kvs = smoke_kvs)"
proof -
  have run: "steady bench_files (run_logged runtime_exc bench_os (payload_command bench_os bench_logs hz runs ''dhrystone_smoke'' fixed))"
    unfolding bench_os_def by (intro steady_run) (simp add: payload_command_def bench_log)
  have "(dhrystone_manifest bench_os, json_dumps False (JObj built_kvs)) \<in> set bench_files"
    by (simp add: bench_files_def)
  note stored = yields_read [OF this]
  have parsed: "json_loads (json_dumps False (JObj built_kvs)) = Some (JObj built_kvs)"
    using json_roundtrip [of "JObj built_kvs" "[]" False] by (simp add: built_kvs_def payload_items_def)
  have read: "yields bench_files (load_json (dhrystone_manifest bench_os)) (\<lambda>j. j = JObj built_kvs)"
    unfolding load_json_def by (rule yields_and_then [OF stored]) (simp add: parsed yields_give)
  have copied: "yields bench_files (copy_file ''/p.rom'' smoke_bin) (\<lambda>_. True)"
    using bench_distinct by (intro yields_copy [where t = "''AB''"]) (simp_all add: bench_files_def)
  have "clone_manifest_outputs built_kvs (in_dir bench_logs ''payload_manifests'') ''dhrystone_smoke''
      = and_then (copy_file ''/p.rom'' smoke_bin) (\<lambda>_. give smoke_kvs)"
  proof -
    have "path_suffix ''/p.rom'' = ''.rom''"
      by code_simp
    then show ?thesis
      by (intro ext) (simp add: clone_manifest_outputs_def clone_item_def built_kvs_def smoke_kvs_def payload_items_def
          get_item_def smoke_bin_def and_then_def give_def Let_def)
  qed
  then have cloned: "yields bench_files (clone_manifest_outputs built_kvs (in_dir bench_logs ''payload_manifests'') ''dhrystone_smoke'')
      (\<lambda>kvs. kvs = smoke_kvs)"
    by (simp only:) (rule yields_and_then [OF copied], rule yields_give, rule refl)
  show ?thesis
    unfolding build_dhrystone_payload_def
    by (rule yields_and_then [OF yields_steady [OF run]], rule yields_and_then [OF read],
        simp add: as_dict_def, rule yields_and_then [OF yields_give [where P = "\<lambda>x. x = built_kvs"]])
      (simp_all add: cloned)
qed

subsection \<open>The build and the board\<close>

lemma yields_gated:
  assumes "p \<in> {tiny_bin, smoke_bin}" and "\<not> ls_chunk_trace ls"
    and "\<not> ls_fetch_debug ls" "\<not> ls_selftest ls" "\<not> ls_early_audit ls" "ls_prefix_enable ls \<longrightarrow> ls_prefix_target ls = 1"
    and "ls_log_name ls \<noteq> []" "last (ls_log_name ls) = CHR ''g''"
  shows "yields bench_files (loader_sim_flow bench_os example_env loader_args logs
    (payload_items p (latin1_encode ''AB'') 0x80000000) ls) (\<lambda>_. True)"
  unfolding loader_sim_flow_def using assms
  by (intro yields_and_then [OF yields_sim_manifest] yields_steady steady_loader_sim) (auto simp: bench_files_def)

lemma takes_loader:
  "takes bench_files (\<lambda>_. True) (loader_mode bench_os example_env shown loader_args) (\<lambda>_ l. ml_smoke l = smoke_kvs)"
proof -
  have args: "ma_core_hz loader_args = 25000000" "\<not> ma_chunk_trace loader_args" "\<not> ma_run_loader_long_sim loader_args"
    "ma_dhrystone_runs loader_args = 1" "\<not> ma_skip_vivado loader_args"
    by (simp_all add: loader_args_def)
  have quick: "takes bench_files (\<lambda>_. True) (quick_steps bench_os example_env loader_args) (\<lambda>_ _. True)"
    unfolding quick_steps_def Let_def
    by (rule takes_value [OF yields_tiny], simp, rule takes_set, simp, simp, rule takes_value [OF yields_gated])
      (simp_all add: quick_gate_sim_def traced_def default_sim_def args takes_assign)
  have prefix: "takes bench_files (\<lambda>_. True) (prefix1_steps bench_os example_env loader_args)
      (\<lambda>x l. x = smoke_kvs \<and> ml_smoke l = smoke_kvs)"
    unfolding prefix1_steps_def Let_def
    by (rule takes_value [OF yields_smoke], simp, rule takes_set [where I' = "\<lambda>l. ml_smoke l = smoke_kvs"], simp,
        rule takes_value [OF yields_steady, where I' = "\<lambda>l. ml_smoke l = smoke_kvs"], simp add: args steady_simple, simp,
        rule takes_set [where I' = "\<lambda>l. ml_smoke l = smoke_kvs"], simp, simp add: smoke_kvs_def,
        rule takes_do [OF yields_gated], (simp add: prefix_sim_def traced_def default_sim_def loader_full_gate_profile_def Let_def args)+)
      (rule takes_set [where I' = "\<lambda>l. ml_smoke l = smoke_kvs"], simp_all add: takes_last smoke_kvs_def)
  have base: "takes bench_files (\<lambda>l. ml_smoke l = smoke_kvs) (baseline_steps bench_os loader_args smoke_kvs) (\<lambda>_ l. ml_smoke l = smoke_kvs)"
    unfolding baseline_steps_def args(4,5) if_False if_True simp_thms
    by (rule takes_value [OF yields_give [where P = "\<lambda>_. True"], where I' = "\<lambda>l. ml_smoke l = smoke_kvs"], simp, simp,
        rule takes_set [where I' = "\<lambda>l. ml_smoke l = smoke_kvs"]) (simp_all add: args takes_last)
  have rest: "takes bench_files (\<lambda>l. x = smoke_kvs \<and> ml_smoke l = smoke_kvs) (baseline_steps bench_os loader_args x) (\<lambda>_ l. ml_smoke l = smoke_kvs)" for x
    using base by (auto simp: takes_def)
  have long: "long_steps bench_os example_env shown loader_args smoke = perform (give ())" for smoke
    by (simp add: long_steps_def args)
  show ?thesis
    unfolding loader_mode_def long
    by (rule takes_then [OF quick takes_then [OF prefix takes_do [OF yields_give [where P = "\<lambda>_. True"]]]], rule TrueI, rule rest)
qed

lemma takes_build:
  "takes bench_files (\<lambda>_. True) (build_steps bench_os example_env mig_there shown loader_args env)
     (\<lambda>x l. x \<noteq> None \<and> ml_smoke l = smoke_kvs)"
proof -
  have args: "ma_impl_mode loader_args = ''aggressive''" "\<not> ma_skip_vivado loader_args"
    "mode_steps bench_os example_env shown loader_args = loader_mode bench_os example_env shown loader_args"
    by (simp_all add: loader_args_def mode_steps_def)
  let ?smoke = "\<lambda>l. ml_smoke l = smoke_kvs" and ?no = "\<lambda>_ :: main_locals. True"
  have run: "yields bench_files (run_logged exc bench_os c) (\<lambda>_. True)" if "cmd_log c \<notin> fst ` set bench_files" for exc c
    using that unfolding bench_os_def by (intro yields_steady steady_run)
  have tools: "yields bench_files (which_required bench_os (n # ns)) (\<lambda>_. True)" for n ns
    unfolding bench_os_def by (intro yields_steady steady_simple)
  have create: "yields bench_files (create_project bench_os mig_there loader_args env v) (\<lambda>_. True)" for v
  proof -
    have "in_dir bench_logs ''07_create_project.reason.txt'' \<notin> fst ` set bench_files"
      by (simp add: bench_path_defs)
    then show ?thesis
      unfolding bench_os_def by (intro yields_steady steady_create) (simp_all add: bench_log)
  qed
  have report: "yields bench_files (timing_check (timing_report bench_os loader_args) msg) (\<lambda>_. True)" for msg
    by (intro yields_steady steady_timing) (simp add: timing_report_def args bench_files_def)
  have impl: "takes bench_files ?smoke (impl_step bench_os shown loader_args env v) (\<lambda>_. ?smoke)" for v
    unfolding impl_step_def
    by (simp add: args, rule takes_value [OF run, where I' = ?smoke], simp add: main_vivado_def bench_log, simp,
        rule takes_perform [OF report]) simp
  have "takes bench_files ?smoke (vivado_steps bench_os mig_there shown loader_args env) (\<lambda>x l. x \<noteq> None \<and> ?smoke l)"
    unfolding vivado_steps_def
    by (rule takes_do [OF tools], rule takes_value [OF create, where I' = ?smoke], simp,
        rule takes_value [OF run, where I' = ?smoke], simp add: main_vivado_def bench_log, simp,
        simp add: args, rule takes_then [OF impl], simp add: takes_last)
  then show ?thesis
    unfolding build_steps_def args(3) basic_step_def fpga_config_step_def
    by (intro takes_value [OF run, where I' = ?no] takes_then [OF takes_loader])
      (simp_all add: main_tests_command_def bench_log args)
qed

lemma yields_load:
  "yields bench_files (run_uart_loader_capture (demo_board smoke_wire) True None smoke_kvs 1 (smoke_files bench_os) baud True) load_passed"
  unfolding yields_def
proof (intro allI impI)
  fix m :: machine
  assume m: "stocked bench_files m"
  let ?man = "\<lparr>m_payload = latin1_encode ''AB'', m_load_addr = 0x80000000, m_entry = 0x80000000, m_checksum32 = checksum32 (latin1_encode ''AB'')\<rparr>"
  let ?r = "drive_uart_loader default_env ?man True 1000000 0 [(2000000, smoke_wire)]"
  let ?m' = "m\<lparr>files := write_files (loader_files (smoke_files bench_os) ?r) (files m)\<rparr>"
  have "files m smoke_bin = Some ''AB''"
    using m by (simp add: stocked_iff bench_files_def)
  then have "read_manifest smoke_kvs m = (Inr ?man, m)"
    by (simp add: read_manifest_def read_payload_def smoke_kvs_def payload_words and_then_def give_def read_text_def)
  then have "run_uart_loader_capture (demo_board smoke_wire) True None smoke_kvs 1 (smoke_files bench_os) baud True m = (Inr ?r, ?m')"
    unfolding loader_capture_Inr
    by (intro exI [of _ ?man] exI [of _ "0 :: int"] exI [of _ "[(2000000, smoke_wire)]"]) (simp add: demo_board_def seconds_def)
  moreover have "load_passed ?r"
  proof -
    have "raw_bytes (loader_final default_env ?man True 1000000 0 [(2000000, smoke_wire)]) = smoke_wire"
      by (rule smoke_drive) simp
    then show ?thesis
      using smoke_wire_analysis by (simp add: load_passed_def drive_uart_loader_def drive_summary_def Let_def)
  qed
  moreover have "stocked bench_files ?m'"
    using m by (simp add: stocked_def write_files_def loader_files_def smoke_files_def with_suffix_def bench_path_defs)
  ultimately show "\<exists>x m'. run_uart_loader_capture (demo_board smoke_wire) True None smoke_kvs 1 (smoke_files bench_os) baud True m = (Inr x, m')
      \<and> stocked bench_files m' \<and> load_passed x"
    by blast
qed

lemma takes_board:
  "takes bench_files (\<lambda>l. ml_smoke l = smoke_kvs)
     (board_steps bench_os (demo_board smoke_wire) shown loader_args (board_job_of loader_args env vivado))
     (\<lambda>_ l. \<exists>r. ml_uart l = drive_items (smoke_files bench_os) r \<and> load_passed r)"
proof -
  let ?brd = "demo_board smoke_wire" and ?job = "board_job_of loader_args env vivado" and ?smoke = "\<lambda>l. ml_smoke l = smoke_kvs"
  have args: "ma_dhrystone_runs loader_args = 1" "ma_capture_seconds loader_args = 1"
    by (simp_all add: loader_args_def)
  have run: "yields bench_files (run_logged exc bench_os (program_command bench_os ?job (in_dir dir name))) (\<lambda>_. True)"
    if "name \<noteq> []" "last name = CHR ''g''" for exc dir name
    using that unfolding bench_os_def by (intro yields_steady steady_run) (simp add: program_command_def bench_log)
  have port: "yields bench_files (import_serial ?brd what) (\<lambda>_. True)" "yields bench_files (open_port ?brd p b) (\<lambda>_. True)" for what p b
    by (simp_all add: yields_def import_serial_def open_port_def demo_board_def require_def give_def)
  have bid: "yields bench_files (read_build_id bench_os) (\<lambda>_. True)"
    unfolding read_build_id_def by (intro yields_steady steady_and_then steady_simple)
  have only: "takes bench_files ?smoke (program_only bench_os loader_args ?job) (\<lambda>_. ?smoke)"
    unfolding program_only_def
    by (rule takes_value [OF run, where I' = ?smoke], simp, simp, simp, rule takes_do [OF bid], rule takes_assign) simp
  have load: "takes bench_files ?smoke (load_on_board bench_os ?brd loader_args stage smoke_kvs (smoke_files bench_os))
      (\<lambda>x l. \<exists>r. x = drive_items (smoke_files bench_os) r \<and> load_passed r)" for stage
    unfolding load_on_board_def args(2)
    by (rule takes_value [OF yields_load, where I' = ?smoke], simp, rule takes_last [where P = "\<lambda>_. True"])
      auto
  have session: "takes bench_files ?smoke (\<lambda>l. board_session bench_os ?brd ?job stage (in_dir bench_logs log)
      (load_on_board bench_os ?brd loader_args stage' (ml_smoke l) (smoke_files bench_os)) l)
      (\<lambda>x l. \<exists>r. x = drive_items (smoke_files bench_os) r \<and> load_passed r)"
    if "log \<noteq> []" "last log = CHR ''g''" for stage stage' log
  proof -
    have "takes bench_files ?smoke (board_session bench_os ?brd ?job stage (in_dir bench_logs log)
        (load_on_board bench_os ?brd loader_args stage' smoke_kvs (smoke_files bench_os)))
        (\<lambda>x l. \<exists>r. x = drive_items (smoke_files bench_os) r \<and> load_passed r)"
      unfolding board_session_def using that
      by (intro takes_do [OF port(2)] takes_value [OF run, where I' = ?smoke] takes_do [OF bid] takes_set [where I' = ?smoke] load) simp_all
    then show ?thesis
      by (simp add: takes_def)
  qed
  have board: "board_steps bench_os ?brd shown loader_args ?job
      = then_do (perform (import_serial ?brd ''board benchmark UART loading'')) (\<lambda>_. benchmark_board bench_os ?brd loader_args ?job)"
    by (simp add: board_steps_def loader_args_def any_bridge_def)
  have checked: "yields bench_files (check_all (smoke_load_checks bench_os x)) (\<lambda>_. \<exists>r. x = drive_items (smoke_files bench_os) r \<and> load_passed r)"
    if "\<exists>r. x = drive_items (smoke_files bench_os) r \<and> load_passed r" for x
    using that by (auto simp: yields_def check_all_Inr smoke_checks_items)
  have finish: "takes bench_files (\<lambda>_. \<exists>r. x = drive_items (smoke_files bench_os) r \<and> load_passed r)
      (then_do (assign (\<lambda>l. l\<lparr>ml_uart_smoke := x\<rparr>)) (\<lambda>_. then_do (perform (check_all (smoke_load_checks bench_os x))) (\<lambda>_.
        assign (\<lambda>l. l\<lparr>ml_uart := x, ml_capture_file := cf_text (smoke_files bench_os)\<rparr>))))
      (\<lambda>_ l. \<exists>r. ml_uart l = drive_items (smoke_files bench_os) r \<and> load_passed r)" for x
    by (rule takes_const, rule takes_set [where I' = "\<lambda>_. True"], simp, rule takes_do [OF checked], assumption, rule takes_assign) simp
  show ?thesis
    unfolding board benchmark_board_def Let_def enter_def
    by (rule takes_do [OF port(1)], rule takes_then [OF only], rule takes_set [where I' = ?smoke], simp,
        rule takes_then [OF session]) (simp_all add: args finish)
qed

definition bench_start :: machine where
  "bench_start = \<lparr>files = map_of bench_files, actions = []\<rparr>"

lemma passing_run:
  "\<exists>m'. benchmark_main bench_os example_env mig_there (demo_board smoke_wire) shown loader_args bench_start = (Inr 0, m')"
proof -
  obtain env where env: "main_env bench_os example_env loader_args bench_start = (Inr env, bench_start)"
  proof -
    have "trace_limits (os_environ bench_os) = Some (0, 8)"
      unfolding bench_os_def quiet_os_def demo_os_def by code_simp
    then show thesis
      using that by (simp add: main_env_def and_then_def positive_hz_def require_def give_def loader_args_def build_env_def Let_def)
  qed
  let ?brd = "demo_board smoke_wire" and ?l = "main_start bench_os loader_args"
  have start: "stocked bench_files bench_start"
    using bench_distinct by (auto simp: stocked_iff bench_start_def intro: map_of_is_SomeI)
  obtain vivado l1 m1 where build: "build_steps bench_os example_env mig_there shown loader_args env ?l bench_start = (Inr (Some vivado), l1, m1)"
    "stocked bench_files m1" "ml_smoke l1 = smoke_kvs"
    using takes_build [of mig_there shown env] start unfolding takes_def by blast
  then obtain u l2 m2 where board: "board_steps bench_os ?brd shown loader_args (board_job_of loader_args env vivado) l1 m1 = (Inr u, l2, m2)"
    "\<exists>r. ml_uart l2 = drive_items (smoke_files bench_os) r \<and> load_passed r"
    using takes_board [of shown env vivado] unfolding takes_def by blast
  have "verdict loader_args l2 m2 = (Inr (), l2, m2)"
  proof -
    have "verdict_checks loader_args l2 = benchmark_checks (ml_uart l2) (''; see '' @ ml_capture_file l2)"
      by (simp add: verdict_checks_def loader_args_def Let_def)
    then have "check_all (verdict_checks loader_args l2) m2 = (Inr (), m2)"
      using board(2) by (auto simp: check_all_Inr benchmark_checks_items)
    then show ?thesis
      by (simp add: verdict_def perform_def)
  qed
  then have "main_body bench_os example_env mig_there ?brd shown loader_args env ?l bench_start = (Inr (), l2, m2)"
    using build(1) board(1) by (simp add: main_body_def then_do_def)
  then have staged: "\<exists>m'. main_staged bench_os example_env mig_there ?brd shown loader_args env bench_start = (Inr 0, m')"
    by (simp add: main_staged_def and_then_def try_except_def write_file_def give_def Let_def)
  have "check_modes loader_args bench_start = (Inr (), bench_start)"
    unfolding loader_args_def by (simp add: check_modes_def active_modes_def and_then_def require_def give_def)
  moreover have "main_board_only bench_os ?brd shown loader_args env = None"
    unfolding main_board_only_def by (simp add: loader_args_def)
  ultimately show ?thesis
    using staged env by (simp add: benchmark_main_def and_then_def)
qed

lemma benchmark_pass_sound_witness:
  "\<exists>m' (l :: main_locals) smoke. benchmark_main bench_os example_env (\<lambda>acts. True) (demo_board smoke_wire) (\<lambda>e. []) loader_args bench_start = (Inr 0, m')
    \<and> ml_uart_smoke l = drive_items (smoke_files bench_os) smoke \<and> load_passed smoke"
proof -
  obtain m' where run: "benchmark_main bench_os example_env (\<lambda>acts. True) (demo_board smoke_wire) (\<lambda>e. []) loader_args bench_start = (Inr 0, m')"
    using passing_run by blast
  have mode: "active_modes loader_args = []" "ma_impl_mode loader_args \<noteq> ''board-only''" "ma_impl_mode loader_args \<noteq> ''synth-only''"
    "\<not> ma_skip_vivado loader_args"
    by (simp_all add: active_modes_def loader_args_def)
  obtain l :: main_locals and smoke where "ml_uart_smoke l = drive_items (smoke_files bench_os) smoke" "load_passed smoke"
    using benchmark_pass_sound [OF run mode] by blast
  then show ?thesis
    using run by blast
qed

end
