(* ===== verification/Double.thy ===== *)
theory Double
  imports Config
begin

text \<open>
  Quotients of natural numbers as doubles, for the few places where \<^verbatim>\<open>run_verilator_mainline.py\<close> shows or
  compares one: the nearest number with 53 bits, ties to the even one.  Exponents are not bounded.
\<close>

section \<open>Division\<close>

text \<open>A pair stands for mantissa times a power of two.\<close>

type_synonym double = "nat \<times> int"

text \<open>The number with a scale that leaves it between \<^verbatim>\<open>2**52\<close> and \<^verbatim>\<open>2**53\<close>, as a fraction.\<close>

definition scaled_by :: "int \<Rightarrow> nat \<Rightarrow> nat \<Rightarrow> nat \<times> nat" where
  "scaled_by e a b = (a * 2 ^ nat (- e), b * 2 ^ nat e)"

definition double_div :: "nat \<Rightarrow> nat \<Rightarrow> double" where
  "double_div a b =
     (if a = 0 then (0, 0)
      else
        let low = int (bit_length a) - int (bit_length b) - 53; (n, d) = scaled_by low a b;
            e = (if n < 2 ^ 53 * d then low else low + 1); (n', d') = scaled_by e a b
        in (round_div n' d', e))"

text \<open>The value in units of two to the power of minus the given number, when that is a whole number.\<close>

definition in_units :: "nat \<Rightarrow> double \<Rightarrow> nat" where
  "in_units k x = fst x * 2 ^ nat (int k + snd x)"

text \<open>\<^verbatim>\<open>abs(x - y) > z\<close> for doubles whose difference is a double.\<close>

definition farther_than :: "double \<Rightarrow> double \<Rightarrow> double \<Rightarrow> bool" where
  "farther_than z x y =
     (let k = nat (max 0 (max (- snd x) (max (- snd y) (- snd z))))
      in \<bar>int (in_units k x) - int (in_units k y)\<bar> > int (in_units k z))"

section \<open>Text\<close>

definition zeros_to :: "nat \<Rightarrow> string \<Rightarrow> string" where
  "zeros_to n s = replicate (n - length s) (CHR ''0'') @ s"

text \<open>\<^verbatim>\<open>f"{x:.6f}"\<close>\<close>

definition fmt_6f :: "double \<Rightarrow> string" where
  "fmt_6f x = (let q = round_div (fst x * 1000000 * 2 ^ nat (snd x)) (2 ^ nat (- snd x))
     in dec_str (q div 1000000) @ ''.'' @ zeros_to 6 (dec_str (q mod 1000000)))"

text \<open>
  \<^verbatim>\<open>str(hz / 1000000.0)\<close> for a clock below \<^verbatim>\<open>10**15\<close> Hz: so few digits are those of the double, with an
  exponent below 100 Hz.
\<close>

definition trim_zeros :: "string \<Rightarrow> string" where
  "trim_zeros s = rev (dropWhile (\<lambda>c. c = CHR ''0'') (rev s))"

definition str_mhz :: "nat \<Rightarrow> string" where
  "str_mhz hz =
     (if hz = 0 then ''0.0''
      else if hz < 10 then dec_str hz @ ''e-06''
      else if hz < 100 then
        dec_str (hz div 10) @ (if hz mod 10 = 0 then [] else CHR ''.'' # dec_str (hz mod 10)) @ ''e-05''
      else
        let digits = trim_zeros (zeros_to 6 (dec_str (hz mod 1000000)))
        in dec_str (hz div 1000000) @ ''.'' @ (if digits = [] then ''0'' else digits))"

section \<open>Facts\<close>

lemma round_div_error: "0 < b \<Longrightarrow> 2 * \<bar>int (round_div a b) * int b - int a\<bar> \<le> int b"
proof -
  assume b: "0 < b"
  have a: "int a = int (a div b) * int b + int (a mod b)"
    by (metis of_nat_add of_nat_mult div_mult_mod_eq)
  have r: "int (a mod b) < int b"
    using b by simp
  have c: "2 * (a mod b) < b \<longleftrightarrow> 2 * int (a mod b) < int b" "b < 2 * (a mod b) \<longleftrightarrow> int b < 2 * int (a mod b)"
    by linarith+
  show ?thesis
    using r unfolding round_div_def Let_def c a by (auto simp: algebra_simps)
qed

lemma farther_same: "\<not> farther_than z x x"
  by (simp add: farther_than_def Let_def)

end
