(* ===== verification/Shell.thy ===== *)
theory Shell
  imports Prelude
begin

text \<open>
  \<^verbatim>\<open>shlex.quote\<close>, with which \<^verbatim>\<open>run_verilator_mainline.py\<close> builds the command lines it hands to a shell, and how a
  shell splits a line into words, as far as quoting goes: blanks, single quotes and double quotes, and no line
  that holds any other character with a meaning to the shell.
\<close>

section \<open>Quoting\<close>

abbreviation squote :: char where "squote \<equiv> CHR 0x27"

abbreviation dquote :: char where "dquote \<equiv> CHR 0x22"

text \<open>The characters that \<^verbatim>\<open>[^\w@%+=:,./-]\<close> does not match.\<close>

definition shell_safe :: "char \<Rightarrow> bool" where
  "shell_safe c \<longleftrightarrow> (let n = of_char c :: nat in
     48 \<le> n \<and> n \<le> 57 \<or> 65 \<le> n \<and> n \<le> 90 \<or> 97 \<le> n \<and> n \<le> 122 \<or> c \<in> set ''_@%+=:,./-'')"

lemma safe_set: "list_all shell_safe ''abcdefghijklmnopqrstuvwxyzABCDEFGHIJKLMNOPQRSTUVWXYZ0123456789_@%+=:,./-''"
  by code_simp

lemmas safe_chars [simp] = safe_set [unfolded list.pred_inject(2)]

definition escape_quotes :: "string \<Rightarrow> string" where
  "escape_quotes s = concat (map (\<lambda>c. if c = squote then [squote, dquote, squote, dquote, squote] else [c]) s)"

definition shlex_quote :: "string \<Rightarrow> string" where
  "shlex_quote s = (if s = [] then [squote, squote] else if list_all shell_safe s then s
     else squote # escape_quotes s @ [squote])"

section \<open>Words of a line\<close>

datatype quoting = Bare | Single | Double

text \<open>The word that is read so far, if one has begun, and the rest of the line.\<close>

definition begun :: "string option \<Rightarrow> string" where
  "begun w = (case w of None \<Rightarrow> [] | Some s \<Rightarrow> s)"

fun read_words :: "quoting \<Rightarrow> string option \<Rightarrow> string \<Rightarrow> string list option" where
  "read_words Bare w [] = Some (case w of None \<Rightarrow> [] | Some s \<Rightarrow> [s])"
| "read_words Bare w (c # cs) =
     (if c = CHR '' '' then
        (case w of None \<Rightarrow> read_words Bare None cs | Some s \<Rightarrow> map_option (Cons s) (read_words Bare None cs))
      else if c = squote then read_words Single (Some (begun w)) cs
      else if c = dquote then read_words Double (Some (begun w)) cs
      else if shell_safe c then read_words Bare (Some (begun w @ [c])) cs
      else None)"
| "read_words Single w [] = None"
| "read_words Single w (c # cs) =
     (if c = squote then read_words Bare w cs else read_words Single (Some (begun w @ [c])) cs)"
| "read_words Double w [] = None"
| "read_words Double w (c # cs) =
     (if c = dquote then read_words Bare w cs
      else if c \<in> {CHR ''$'', CHR 0x60, CHR 0x5C} then None
      else read_words Double (Some (begun w @ [c])) cs)"

definition shell_words :: "string \<Rightarrow> string list option" where
  "shell_words line = read_words Bare None line"

section \<open>Quoted words are read back\<close>

text \<open>A text that the shell takes for a part of a word, whatever stands around it.\<close>

definition reads_as :: "string \<Rightarrow> string \<Rightarrow> bool" where
  "reads_as x y \<longleftrightarrow> (\<forall>w rest. read_words Bare w (x @ rest) = read_words Bare (Some (begun w @ y)) rest)"

lemma begun_simps [simp]: "begun None = []" "begun (Some s) = s"
  by (simp_all add: begun_def)

lemma safe_plain: "shell_safe c \<Longrightarrow> c \<noteq> CHR '' '' \<and> c \<noteq> squote \<and> c \<noteq> dquote"
  by (auto simp: shell_safe_def)

lemma reads_safe:
  assumes "s \<noteq> []" "list_all shell_safe s"
  shows "reads_as s s"
proof -
  have "list_all shell_safe s \<Longrightarrow> s \<noteq> [] \<Longrightarrow> read_words Bare w (s @ rest) = read_words Bare (Some (begun w @ s)) rest" for w rest
  proof (induction s arbitrary: w)
    case (Cons c s)
    then show ?case
      using safe_plain [of c] by (cases s) auto
  qed simp
  then show ?thesis
    using assms by (simp add: reads_as_def)
qed

lemma reads_append: "reads_as x y \<Longrightarrow> reads_as x' y' \<Longrightarrow> reads_as (x @ x') (y @ y')"
  by (simp add: reads_as_def)

lemma read_escaped:
  "read_words Single (Some w) (escape_quotes s @ squote # rest) = read_words Bare (Some (w @ s)) rest"
  by (induction s arbitrary: w) (auto simp: escape_quotes_def)

lemma reads_quote: "reads_as (shlex_quote s) s"
proof (cases "s = [] \<or> \<not> list_all shell_safe s")
  case True
  then show ?thesis
    by (auto simp: shlex_quote_def reads_as_def read_escaped)
next
  case False
  then show ?thesis
    using reads_safe [of s] by (simp add: shlex_quote_def)
qed

lemma reads_words:
  assumes "list_all2 reads_as xs ys"
  shows "shell_words (join_with '' '' xs) = Some ys"
proof -
  have "list_all2 reads_as xs ys \<Longrightarrow> read_words Bare None (join_with '' '' xs) = Some ys"
  proof (induction xs arbitrary: ys)
    case (Cons x xs)
    then obtain y ys' where ys: "ys = y # ys'" "reads_as x y" "list_all2 reads_as xs ys'"
      by (auto simp: list_all2_Cons1)
    show ?case
    proof (cases xs)
      case Nil
      have "read_words Bare None (x @ []) = read_words Bare (Some y) []"
        using ys(2) unfolding reads_as_def by (metis append_Nil begun_simps(1))
      then show ?thesis
        using Nil ys by simp
    next
      case (Cons x' xs')
      then show ?thesis
        using ys Cons.IH [OF ys(3)] by (simp add: reads_as_def)
    qed
  qed simp
  then show ?thesis
    using assms by (simp add: shell_words_def)
qed

corollary quoted_words: "shell_words (join_with '' '' (map shlex_quote xs)) = Some xs"
  by (rule reads_words) (simp add: list.rel_map reads_quote list_all2_same)

end
