(* ===== verification/VlConfig.thy ===== *)
theory VlConfig
  imports Double Shell MemWords Results SimGate
begin

text \<open>
  The parameters of a run of \<^verbatim>\<open>run_verilator_mainline.py\<close>, the comparison with those of the board, and the
  command lines for the shell of WSL.
\<close>

section \<open>Parameters\<close>

text \<open>The \<^verbatim>\<open>BOARD_\<close> constants; the clock, a float of MHz in the environment, in Hz.\<close>

record mainline_board =
  vb_rs_depth :: int
  vb_fetch_buffer_depth :: int
  vb_core_hz :: nat
  vb_uart_baud :: nat
  vb_smt_mode :: int
  vb_dcache_mode :: string
  vb_loader_rom_profile :: string
  vb_header_gap :: int
  vb_payload_start_gap :: int
  vb_payload_gap :: int
  vb_payload_chunk_gap :: int
  vb_prefix_blocks :: int
  vb_dhrystone_runs :: int
  vb_runtime_profile :: string

text \<open>\<^verbatim>\<open>int(os.environ.get(name, default))\<close>, where no number is a \<^verbatim>\<open>ValueError\<close>.\<close>

definition int_var :: "environ \<Rightarrow> string \<Rightarrow> int \<Rightarrow> int option" where
  "int_var e name given = (case e name of None \<Rightarrow> Some given | Some s \<Rightarrow> py_int10 s)"

definition text_var :: "environ \<Rightarrow> string \<Rightarrow> string \<Rightarrow> string" where
  "text_var e name given = py_lower (py_strip (case e name of None \<Rightarrow> given | Some s \<Rightarrow> s))"

definition mainline_board_of :: "environ \<Rightarrow> nat \<Rightarrow> mainline_board option" where
  "mainline_board_of e core_hz =
     (case those (map (\<lambda>(name, given). int_var e name given)
        [(''AX7203_RS_DEPTH'', 48), (''AX7203_FETCH_BUFFER_DEPTH'', 16), (''AX7203_UART_BAUD'', 115200),
         (''AX7203_SMT_MODE'', 0), (''AX7203_VERILATOR_HEADER_GAP_CYCLES'', 16),
         (''AX7203_VERILATOR_PAYLOAD_START_GAP_CYCLES'', 2500), (''AX7203_VERILATOR_PAYLOAD_GAP_CYCLES'', 2500),
         (''AX7203_VERILATOR_PAYLOAD_CHUNK_GAP_CYCLES'', 40000), (''AX7203_VERILATOR_LOADER_PREFIX_BLOCKS'', 0),
         (''AX7203_DHRYSTONE_RUNS'', 5000)]) of
        Some [rs, fb, baud, smt, header, start, gap, chunk, blocks, runs] \<Rightarrow>
          if baud < 0 then None
          else Some \<lparr>vb_rs_depth = rs, vb_fetch_buffer_depth = fb, vb_core_hz = core_hz, vb_uart_baud = nat baud, vb_smt_mode = smt,
            vb_dcache_mode = text_var e ''AX7203_DCACHE_MODE'' ''read-only'',
            vb_loader_rom_profile = text_var e ''AX7203_LOADER_ROM_PROFILE'' ''board'', vb_header_gap = header,
            vb_payload_start_gap = start, vb_payload_gap = gap, vb_payload_chunk_gap = chunk, vb_prefix_blocks = blocks,
            vb_dhrystone_runs = runs, vb_runtime_profile = text_var e ''AX7203_BENCHMARK_RUNTIME_PROFILE'' ''board''\<rparr>
      | _ \<Rightarrow> None)"

text \<open>The arguments after parsing; clocks in Hz.\<close>

record mainline_args =
  va_mode :: string
  va_benchmark :: string
  va_linux_payload :: string
  va_runs :: int
  va_cpu_hz :: "nat option"
  va_core_hz :: "nat option"
  va_rs_depth :: int
  va_fetch_buffer_depth :: int
  va_uart_baud :: nat
  va_smt_mode :: int
  va_mock_latency :: int
  va_dcache_mode :: string
  va_loader_rom_profile :: string
  va_runtime_profile :: string
  va_max_cycles :: int
  va_header_gap :: int
  va_start_gap :: "int option"
  va_payload_gap :: int
  va_chunk_gap :: "int option"
  va_prefix_blocks :: int
  va_stuck_pc :: int
  va_stall_cycles :: int
  va_danger_instret :: int
  va_trace :: bool
  va_trace_on_stuck :: bool
  va_trace_start :: int
  va_trace_stop :: int
  va_trace_after_stuck :: int
  va_build_only :: bool
  va_require_match :: bool

text \<open>The clock and the gaps that are used, where some arguments may be left out.\<close>

definition cpu_hz_used :: "mainline_board \<Rightarrow> mainline_args \<Rightarrow> nat" where
  "cpu_hz_used vb a = (case va_core_hz a of
     Some hz \<Rightarrow> hz | None \<Rightarrow> (case va_cpu_hz a of Some hz \<Rightarrow> hz | None \<Rightarrow> vb_core_hz vb))"

definition check_clock :: "mainline_args \<Rightarrow> unit flow" where
  "check_clock a = require (\<forall>core \<in> set_option (va_core_hz a). \<forall>cpu \<in> set_option (va_cpu_hz a). cpu = core)
     (SystemExit ''--cpu-hz and --core-clk-mhz disagree'')"

definition start_gap :: "mainline_args \<Rightarrow> int" where
  "start_gap a = (case va_start_gap a of Some n \<Rightarrow> n | None \<Rightarrow> va_payload_gap a)"

definition chunk_gap :: "mainline_args \<Rightarrow> int" where
  "chunk_gap a = (case va_chunk_gap a of Some n \<Rightarrow> n | None \<Rightarrow> va_payload_gap a)"

section \<open>Comparison with the board\<close>

definition config_items :: "int \<Rightarrow> int \<Rightarrow> int \<Rightarrow> nat \<Rightarrow> nat \<Rightarrow> string \<Rightarrow> string \<Rightarrow> items" where
  "config_items smt rs_depth fetch_depth hz baud dcache rom_profile =
     [(''FPGA_MODE'', JInt 1), (''ENABLE_MEM_SUBSYS'', JInt 1), (''ENABLE_DDR3'', JInt 1), (''L2_PASSTHROUGH'', JInt 1),
      (''SMT_MODE'', JInt smt), (''ENABLE_ROCC_ACCEL'', JInt 0), (''RS_DEPTH'', JInt rs_depth),
      (''RS_IDX_W'', json_nat (derive_idx_width rs_depth)), (''FETCH_BUFFER_DEPTH'', JInt fetch_depth),
      (''CORE_CLK_MHZ'', JReal (str_mhz hz)), (''CPU_HZ'', json_nat hz), (''UART_BAUD'', json_nat baud),
      (''UART_CLK_DIV'', json_nat (derive_uart_clk_div hz baud)), (''CLK_WIZ_HALF_DIV'', json_nat (derive_clk_wiz_half_div hz)),
      (''DCACHE_MODE'', JStr dcache), (''LOADER_ROM_PROFILE'', JStr rom_profile)]"

definition benchmark_config :: "string \<Rightarrow> int \<Rightarrow> string \<Rightarrow> items" where
  "benchmark_config mode runs profile =
     (if mode = ''linux-preload'' then [] else [(''DHRYSTONE_RUNS'', JInt runs), (''BENCHMARK_RUNTIME_PROFILE'', JStr profile)])
     @ [(''VERILATOR_FAST_UART'', JInt 1)]"

definition loader_config :: "string \<Rightarrow> int \<Rightarrow> int \<Rightarrow> int \<Rightarrow> int \<Rightarrow> int \<Rightarrow> items" where
  "loader_config mode header start gap chunk blocks =
     (if mode = ''loader-semantic'' then
        [(''HEADER_GAP_CYCLES'', JInt header), (''PAYLOAD_START_GAP_CYCLES'', JInt start), (''PAYLOAD_GAP_CYCLES'', JInt gap),
         (''PAYLOAD_CHUNK_GAP_CYCLES'', JInt chunk), (''LOADER_PREFIX_BLOCKS'', JInt blocks)]
      else [])"

definition config_actual :: "mainline_board \<Rightarrow> mainline_args \<Rightarrow> items" where
  "config_actual vb a =
     config_items (va_smt_mode a) (va_rs_depth a) (va_fetch_buffer_depth a) (cpu_hz_used vb a) (va_uart_baud a) (va_dcache_mode a)
       (va_loader_rom_profile a)
     @ benchmark_config (va_mode a) (va_runs a) (va_runtime_profile a)
     @ loader_config (va_mode a) (va_header_gap a) (start_gap a) (va_payload_gap a) (chunk_gap a) (va_prefix_blocks a)"

definition config_expected :: "mainline_board \<Rightarrow> mainline_args \<Rightarrow> items" where
  "config_expected vb a =
     config_items (vb_smt_mode vb) (vb_rs_depth vb) (vb_fetch_buffer_depth vb) (vb_core_hz vb) (vb_uart_baud vb) (vb_dcache_mode vb)
       (vb_loader_rom_profile vb)
     @ benchmark_config (va_mode a) (vb_dhrystone_runs vb) (vb_runtime_profile vb)
     @ loader_config (va_mode a) (vb_header_gap vb) (vb_payload_start_gap vb) (vb_payload_gap vb) (vb_payload_chunk_gap vb)
         (vb_prefix_blocks vb)"

text \<open>Two clocks are told apart as floats of MHz, more than \<^verbatim>\<open>1.0e-6\<close> from each other; everything else by equality.\<close>

definition mhz_differ :: "nat \<Rightarrow> nat \<Rightarrow> bool" where
  "mhz_differ hz hz' = farther_than (double_div 1 1000000) (double_div hz 1000000) (double_div hz' 1000000)"

definition config_mismatches :: "mainline_board \<Rightarrow> mainline_args \<Rightarrow> string list" where
  "config_mismatches vb a =
     map (\<lambda>((key, expected), (_, actual)). key @ '': expected '' @ py_str expected @ '', actual '' @ py_str actual)
       (filter (\<lambda>((key, expected), (_, actual)).
          if key = ''CORE_CLK_MHZ'' then mhz_differ (cpu_hz_used vb a) (vb_core_hz vb) else actual \<noteq> expected)
        (zip (config_expected vb a) (config_actual vb a)))"

text \<open>A clock or a baud rate of zero is a division by zero.\<close>

definition board_config_for_args :: "mainline_board \<Rightarrow> mainline_args \<Rightarrow> items flow" where
  "board_config_for_args vb a =
     and_then (positive_hz (va_uart_baud a)) (\<lambda>_. and_then (positive_hz (cpu_hz_used vb a)) (\<lambda>_.
     and_then (positive_hz (vb_uart_baud vb)) (\<lambda>_. and_then (positive_hz (vb_core_hz vb)) (\<lambda>_.
     give [(''BoardConfigExpected'', JObj (config_expected vb a)), (''BoardConfigActual'', JObj (config_actual vb a)),
       (''BoardConfigMismatches'', json_words_list (config_mismatches vb a)),
       (''BoardConfigMatch'', JBool (config_mismatches vb a = []))]))))"

section \<open>The comparison decides\<close>

lemma mhz_differ_same: "\<not> mhz_differ hz hz"
  by (simp add: mhz_differ_def farther_same)

text \<open>
  C4. The parameters of a run match those of the board exactly when every parameter that the mode uses is the
  board's: the widths and divisors derived from them agree then as well, and a clock that differs is
  noticed although clocks are compared as floats, because its number of hertz is compared too.
\<close>

theorem board_config_match_iff:
  "config_mismatches vb a = [] \<longleftrightarrow>
     va_smt_mode a = vb_smt_mode vb \<and> va_rs_depth a = vb_rs_depth vb \<and> va_fetch_buffer_depth a = vb_fetch_buffer_depth vb
     \<and> cpu_hz_used vb a = vb_core_hz vb \<and> va_uart_baud a = vb_uart_baud vb \<and> va_dcache_mode a = vb_dcache_mode vb
     \<and> va_loader_rom_profile a = vb_loader_rom_profile vb
     \<and> (va_mode a \<noteq> ''linux-preload'' \<longrightarrow>
          va_runs a = vb_dhrystone_runs vb \<and> va_runtime_profile a = vb_runtime_profile vb)
     \<and> (va_mode a = ''loader-semantic'' \<longrightarrow>
          va_header_gap a = vb_header_gap vb \<and> start_gap a = vb_payload_start_gap vb \<and> va_payload_gap a = vb_payload_gap vb
          \<and> chunk_gap a = vb_payload_chunk_gap vb \<and> va_prefix_blocks a = vb_prefix_blocks vb)"
  unfolding config_mismatches_def map_is_Nil_conv filter_empty_conv config_expected_def config_actual_def
    config_items_def benchmark_config_def loader_config_def
  by (auto simp: mhz_differ_same json_nat_def)

definition default_board :: mainline_board where
  "default_board = \<lparr>vb_rs_depth = 48, vb_fetch_buffer_depth = 16, vb_core_hz = 25000000, vb_uart_baud = 115200, vb_smt_mode = 0,
     vb_dcache_mode = ''read-only'', vb_loader_rom_profile = ''board'', vb_header_gap = 16, vb_payload_start_gap = 2500,
     vb_payload_gap = 2500, vb_payload_chunk_gap = 40000, vb_prefix_blocks = 0, vb_dhrystone_runs = 5000,
     vb_runtime_profile = ''board''\<rparr>"

lemma default_board_read: "mainline_board_of Map.empty 25000000 = Some default_board"
proof -
  have "text_var Map.empty name s = s" if "s = ''board'' \<or> s = ''read-only''" for name s
    using that by (auto simp: text_var_def) code_simp+
  then show ?thesis
    by (simp add: mainline_board_of_def int_var_def default_board_def)
qed

text \<open>A preload run with the arguments left as they are, but for the mode of the data cache.\<close>

definition preload_args :: mainline_args where
  "preload_args = \<lparr>va_mode = ''preload'', va_benchmark = ''dhrystone'', va_linux_payload = ''C:/r/fw_payload.bin'', va_runs = 5000,
     va_cpu_hz = None, va_core_hz = None, va_rs_depth = 48, va_fetch_buffer_depth = 16, va_uart_baud = 115200, va_smt_mode = 0,
     va_mock_latency = 1, va_dcache_mode = ''read-only'', va_loader_rom_profile = ''board'', va_runtime_profile = ''board'',
     va_max_cycles = 20000000, va_header_gap = 16, va_start_gap = None, va_payload_gap = 2, va_chunk_gap = None,
     va_prefix_blocks = 0, va_stuck_pc = 256, va_stall_cycles = 200000, va_danger_instret = 1024, va_trace = False,
     va_trace_on_stuck = False, va_trace_start = 0, va_trace_stop = 0, va_trace_after_stuck = 4096, va_build_only = False,
     va_require_match = True\<rparr>"

lemma board_config_match_iff_witness:
  "config_mismatches default_board preload_args = [] \<and> config_mismatches default_board (preload_args\<lparr>va_core_hz := Some 25000001\<rparr>) \<noteq> []
   \<and> config_mismatches default_board (preload_args\<lparr>va_mode := ''loader-semantic''\<rparr>) \<noteq> []"
  unfolding board_config_match_iff by (simp add: default_board_def preload_args_def cpu_hz_used_def start_gap_def)

end
