(* ===== verification/VlRun.thy ===== *)
theory VlRun
  imports VlConfig Stall Images
begin

text \<open>
  What \<^verbatim>\<open>run_verilator_mainline.py\<close> runs: programs in WSL, the scripts that build the images, Verilator and the
  simulator it makes.  Paths are those of Windows, a drive letter and a path from its root, written with slashes throughout.
\<close>

section \<open>Programs in WSL\<close>

text \<open>
  The decoders of the Python library, and how the output of a program falls into its two streams, the text it
  wrote to the first and the text it wrote to the second.
\<close>

record wsl =
  utf16_replace :: "bytes \<Rightarrow> string"
  utf8_replace :: "bytes \<Rightarrow> string"
  utf8_strict :: "bytes \<Rightarrow> string option"
  gbk_strict :: "bytes \<Rightarrow> string option"
  streams :: "string \<Rightarrow> string \<times> string"

definition decode_wsl_output :: "wsl \<Rightarrow> bytes \<Rightarrow> string" where
  "decode_wsl_output w data =
     (if data = [] then []
      else if count_list data 0 > max 4 (length data div 8) then utf16_replace w data
      else case utf8_strict w data of
          Some s \<Rightarrow> s
        | None \<Rightarrow> (case gbk_strict w data of Some s \<Rightarrow> s | None \<Rightarrow> utf8_replace w data))"

definition drive_letter :: "char \<Rightarrow> bool" where
  "drive_letter c \<longleftrightarrow> (let n = of_char c :: nat in 65 \<le> n \<and> n \<le> 90 \<or> 97 \<le> n \<and> n \<le> 122)"

text \<open>A path without a drive has nothing after \<^verbatim>\<open>":/"\<close>.\<close>

definition to_wsl_path :: "string \<Rightarrow> string flow" where
  "to_wsl_path p = (case p of
     d # c # s # tail \<Rightarrow>
       if drive_letter d \<and> c = CHR '':'' \<and> s = CHR ''/'' then give (''/mnt/'' @ py_lower [d] @ ''/'' @ tail) else raise_exc IndexError
   | _ \<Rightarrow> raise_exc IndexError)"

definition wsl_line :: "string \<Rightarrow> (string \<times> string) list \<Rightarrow> string \<Rightarrow> string" where
  "wsl_line dir env cmd = ''cd '' @ shlex_quote dir @ '' && ''
     @ (if env = [] then [] else join_with '' '' (map (\<lambda>(key, v). key @ ''='' @ shlex_quote v) env) @ '' '') @ cmd"

definition wsl_command :: "string \<Rightarrow> (string \<times> string) list \<Rightarrow> string \<Rightarrow> nat \<Rightarrow> command" where
  "wsl_command dir env cmd timeout =
     \<lparr>cmd_args = [''wsl.exe'', ''bash'', ''-lc'', wsl_line dir env cmd], cmd_cwd = None, cmd_env = None, cmd_log = [],
      cmd_timeout = Some timeout\<rparr>"

definition run_wsl ::
  "os \<Rightarrow> wsl \<Rightarrow> string \<Rightarrow> string \<Rightarrow> (string \<times> string) list \<Rightarrow> nat \<Rightarrow> (int \<times> string \<times> string) flow" where
  "run_wsl os w cmd cwd env timeout =
     and_then (to_wsl_path cwd) (\<lambda>dir.
     and_then (run_captured os (wsl_command dir env cmd timeout)) (\<lambda>(rc, out).
     case streams w out of (o1, o2) \<Rightarrow>
       give (rc, decode_wsl_output w (latin1_encode o1), decode_wsl_output w (latin1_encode o2))))"

definition program_there :: "os \<Rightarrow> string \<Rightarrow> unit flow" where
  "program_there os name = require (find_exe os name \<noteq> None) (SystemExit (''Missing required executable: '' @ name))"

fun which_required_wsl :: "os \<Rightarrow> wsl \<Rightarrow> string list \<Rightarrow> unit flow" where
  "which_required_wsl os w [] = give ()"
| "which_required_wsl os w (name # names) =
     and_then (run_wsl os w (''command -v '' @ shlex_quote name) (repo_root os) [] 30) (\<lambda>(rc, out, err).
     let shown = join_with newline (map py_strip (filter (\<lambda>part. py_strip part \<noteq> []) [out, err])) in
     and_then (require (rc = 0) (SystemExit (''Missing required WSL executable: '' @ name
       @ (if shown = [] then [] else newline @ ''WSL output:'' @ newline @ shown)))) (\<lambda>_.
     which_required_wsl os w names))"

section \<open>Sources and images\<close>

definition path_join :: "string \<Rightarrow> string \<Rightarrow> string" where
  "path_join dir p = (if absolute p then p else in_dir dir p)"

text \<open>A source is looked for below the repository and then among the RTL; one that is in neither place is left out.\<close>

definition find_source :: "os \<Rightarrow> string \<Rightarrow> string list flow" where
  "find_source os line =
     (let name = path_name line; candidate = path_join (repo_root os) line; rtl = in_dir (in_dir (repo_root os) ''rtl'') name in
      if line = [] \<or> take 2 line = ''//'' \<or> name = ''ddr3_mem_port.v'' then give []
      else and_then (look_file candidate) (\<lambda>t. and_then (look_file rtl) (\<lambda>t'.
        give (if t \<noteq> None then [candidate] else if t' \<noteq> None then [rtl] else []))))"

fun find_sources :: "os \<Rightarrow> string list \<Rightarrow> string list flow" where
  "find_sources os [] = give []"
| "find_sources os (line # rest) =
     and_then (find_source os (py_strip line)) (\<lambda>found. and_then (find_sources os rest) (\<lambda>more_found. give (found @ more_found)))"

definition load_rtl_sources :: "os \<Rightarrow> string list flow" where
  "load_rtl_sources os =
     (let beacon = in_dir (repo_root os) ''rtl/debug_beacon_tx.v'' in
      and_then (read_text (comp_test_file os ''rtl_files.txt'')) (\<lambda>t.
      and_then (find_sources os (splitlines t)) (\<lambda>sources.
      and_then (look_file beacon) (\<lambda>b.
      give (if b \<noteq> None \<and> beacon \<notin> set sources then sources @ [beacon] else sources)))))"

definition mainline_image_command :: "os \<Rightarrow> string \<Rightarrow> int \<Rightarrow> nat \<Rightarrow> bool \<Rightarrow> command" where
  "mainline_image_command os benchmark runs hz fast =
     \<lparr>cmd_args = [sys_executable os, in_dir (repo_root os) ''fpga/scripts/build_benchmark_image.py'', ''--benchmark'', benchmark,
        ''--cpu-hz'', dec_str hz, ''--ddr3-xip'', ''--emit-bin'', ''--manifest'']
        @ (if fast then [''--verilator-mainline''] else [])
        @ [''--dhrystone-runs'', str_int runs, ''--fixed-dhrystone-runs'', str_int runs],
      cmd_cwd = Some (repo_root os), cmd_env = None, cmd_log = [], cmd_timeout = Some 600\<rparr>"

text \<open>\<^verbatim>\<open>for key in ("elf", "bin")\<close>: the file is copied and the copy takes its place.\<close>

fun copy_outputs :: "string \<Rightarrow> items \<Rightarrow> string list \<Rightarrow> items \<Rightarrow> items flow" where
  "copy_outputs out_dir manifest [] cloned = give cloned"
| "copy_outputs out_dir manifest (key # keys) cloned =
     (case get_item key manifest of
        None \<Rightarrow> raise_exc KeyError
      | Some j \<Rightarrow>
          (let dst = in_dir out_dir (path_name (py_str j)) in
           and_then (copy_file (py_str j) dst) (\<lambda>_. copy_outputs out_dir manifest keys (set_item key (JStr dst) cloned))))"

definition mainline_image :: "os \<Rightarrow> string \<Rightarrow> int \<Rightarrow> nat \<Rightarrow> string \<Rightarrow> string \<Rightarrow> items flow" where
  "mainline_image os benchmark runs hz out_dir profile =
     and_then (require (profile = ''verilator-fast'' \<or> profile = ''board'')
       (SystemExit (''Unsupported benchmark runtime profile: '' @ profile))) (\<lambda>_.
     and_then (require (benchmark = ''dhrystone'')
       (SystemExit (''Unsupported benchmark for first-pass Verilator flow: '' @ benchmark))) (\<lambda>_.
     and_then (run_checked os (mainline_image_command os benchmark runs hz (profile = ''verilator-fast''))) (\<lambda>_.
     and_then (load_json (build_file os (''benchmark_images/'' @ benchmark @ ''/'' @ benchmark @ ''_ddr3.json''))) (\<lambda>j.
     and_then (as_dict j) (\<lambda>manifest.
     and_then (copy_outputs out_dir manifest [''elf'', ''bin''] manifest) (\<lambda>cloned.
     let manifest_path = in_dir out_dir (benchmark @ ''_ddr3.json'') in
     and_then (write_file manifest_path (json_dumps True (JObj cloned))) (\<lambda>_.
     give (set_item ''manifest'' (JStr manifest_path) cloned))))))))"

definition mainline_rom :: "os \<Rightarrow> string \<Rightarrow> string \<Rightarrow> unit flow" where
  "mainline_rom os mode rom_profile =
     and_then (require (mode = ''preload'' \<or> rom_profile = ''sim-fast'' \<or> rom_profile = ''board'')
       (SystemExit (''Unsupported loader ROM profile: '' @ rom_profile))) (\<lambda>_.
     and_then (run_checked os
       \<lparr>cmd_args = [sys_executable os, in_dir (repo_root os) ''fpga/scripts/build_rom_image.py'', ''--asm'',
            rom_file os (if mode = ''preload'' then ''test_verilator_ddr3_preload.s'' else ''test_fpga_ddr3_loader.s''),
            ''--merge-mem-subsys'']
          @ (if mode = ''preload'' then [''--march'', ''rv32i_zicsr'']
             else [''--define'', ''BOARD_BUILD=1''] @ (if rom_profile = ''sim-fast'' then [''--define'', ''SIM_FAST_STORE_DRAIN''] else [])),
        cmd_cwd = Some (repo_root os), cmd_env = None, cmd_log = [], cmd_timeout = Some 300\<rparr>) (\<lambda>_. give ()))"

section \<open>Verilator and its simulator\<close>

fun wsl_paths :: "string list \<Rightarrow> string list flow" where
  "wsl_paths [] = give []"
| "wsl_paths (p # ps) = and_then (to_wsl_path p) (\<lambda>q. and_then (wsl_paths ps) (\<lambda>qs. give (q # qs)))"

definition preload_mode :: "mainline_args \<Rightarrow> bool" where
  "preload_mode a \<longleftrightarrow> va_mode a = ''preload'' \<or> va_mode a = ''linux-preload''"

definition traced_run :: "mainline_args \<Rightarrow> bool" where
  "traced_run a \<longleftrightarrow> va_trace a \<or> va_trace_on_stuck a"

definition verilator_options :: "mainline_board \<Rightarrow> mainline_args \<Rightarrow> string list" where
  "verilator_options vb a =
     [''-DFPGA_MODE=1'', ''-DVERILATOR_MAINLINE=1'', ''-DVERILATOR_FAST_UART=1'', ''-DENABLE_MEM_SUBSYS=1'', ''-DENABLE_DDR3=1'',
      ''-DL2_PASSTHROUGH=1'', ''-DSMT_MODE='' @ str_int (va_smt_mode a), ''-DENABLE_ROCC_ACCEL=0'',
      ''-DFPGA_SCOREBOARD_RS_DEPTH='' @ str_int (va_rs_depth a),
      ''-DFPGA_SCOREBOARD_RS_IDX_W='' @ dec_str (derive_idx_width (va_rs_depth a)),
      ''-DFPGA_FETCH_BUFFER_DEPTH='' @ str_int (va_fetch_buffer_depth a),
      ''-DFPGA_CLK_WIZ_HALF_DIV='' @ dec_str (derive_clk_wiz_half_div (cpu_hz_used vb a)),
      ''-DFPGA_UART_CLK_DIV='' @ dec_str (derive_uart_clk_div (cpu_hz_used vb a) (va_uart_baud a))]
     @ (if va_dcache_mode a = ''passthrough'' then [''-DDCACHE_PASSTHROUGH=1'']
        else if va_dcache_mode a = ''registered-pt'' then [''-DDCACHE_REGISTERED_PT=1'']
        else if va_dcache_mode a = ''read-only'' then [''-DDCACHE_READ_ONLY=1''] else [])
     @ (if traced_run a then [''--trace-fst''] else [])
     @ (if preload_mode a then [''-DVERILATOR_MAINLINE_PRELOAD_BOOT=1''] else [])"

text \<open>Only the sources are quoted.\<close>

definition verilator_parts :: "(string \<Rightarrow> string) \<Rightarrow> mainline_board \<Rightarrow> mainline_args \<Rightarrow> string \<Rightarrow> string \<Rightarrow> string \<Rightarrow> string list \<Rightarrow> string list" where
  "verilator_parts quote vb a obj_dir rtl_dir vl_dir sources =
     [''verilator'', ''--cc'', ''--sv'', ''--exe'', ''--build'', ''--timing'', ''-j'', ''0'', ''--top-module'', ''verilator_mainline_top'',
      ''--Mdir'', obj_dir, ''-o'', ''sim_mainline'', ''-Wno-fatal'', ''-CFLAGS'', quote ''-std=c++17 -O2'',
      ''+incdir+'' @ rtl_dir, ''+incdir+'' @ vl_dir]
     @ verilator_options vb a @ map quote sources"

definition bench_dir_of :: "os \<Rightarrow> string" where
  "bench_dir_of os = comp_test_file os ''verilator''"

definition build_verilator_command :: "os \<Rightarrow> mainline_board \<Rightarrow> mainline_args \<Rightarrow> string \<Rightarrow> string flow" where
  "build_verilator_command os vb a obj_dir =
     and_then (load_rtl_sources os) (\<lambda>rtl.
     and_then (to_wsl_path obj_dir) (\<lambda>obj.
     and_then (to_wsl_path (in_dir (repo_root os) ''rtl'')) (\<lambda>rtl_dir.
     and_then (to_wsl_path (bench_dir_of os)) (\<lambda>bench.
     and_then (wsl_paths (rtl @ [in_dir (repo_root os) ''libs/REG_ARRAY/SRAM/ram_bfm.v'', comp_test_file os ''clk_wiz_0_stub.v'',
       in_dir (bench_dir_of os) ''mock_ddr3_mem.sv'', in_dir (bench_dir_of os) ''verilator_mainline_top.sv'',
       in_dir (bench_dir_of os) ''verilator_main.cpp''])) (\<lambda>sources.
     give (join_with '' '' (verilator_parts shlex_quote vb a obj rtl_dir bench sources)))))))"

text \<open>The paths of a simulation as WSL sees them.\<close>

record sim_paths =
  sp_exe :: string
  sp_payload :: string
  sp_summary :: string
  sp_uart_log :: string
  sp_trace :: string
  sp_preload :: string

definition number_options :: "mainline_args \<Rightarrow> int \<Rightarrow> int \<Rightarrow> (string \<times> int) list" where
  "number_options a entry load_addr =
     [(''--entry-pc'', entry), (''--payload-base'', load_addr), (''--max-cycles'', va_max_cycles a),
      (''--header-gap-cycles'', va_header_gap a), (''--payload-start-gap-cycles'', start_gap a),
      (''--payload-gap-cycles'', va_payload_gap a), (''--payload-chunk-gap-cycles'', chunk_gap a),
      (''--loader-prefix-blocks'', va_prefix_blocks a), (''--stuck-pc-threshold'', va_stuck_pc a),
      (''--stall-cycle-threshold'', va_stall_cycles a), (''--danger-window-instret-threshold'', va_danger_instret a)]"

definition trace_numbers :: "mainline_args \<Rightarrow> (string \<times> int) list" where
  "trace_numbers a = filter (\<lambda>(name, n). n \<noteq> 0)
     [(''--trace-start-cycle'', va_trace_start a), (''--trace-stop-cycle'', va_trace_stop a),
      (''--trace-after-stuck-cycles'', va_trace_after_stuck a)]"

definition option_words :: "(string \<Rightarrow> string) \<Rightarrow> (string \<times> int) list \<Rightarrow> string list" where
  "option_words quote options = concat (map (\<lambda>(name, n). [name, quote (str_int n)]) options)"

text \<open>The words of the command, with the quoting that is used for them.\<close>

definition sim_words :: "(string \<Rightarrow> string) \<Rightarrow> mainline_args \<Rightarrow> int \<Rightarrow> int \<Rightarrow> sim_paths \<Rightarrow> string list" where
  "sim_words quote a entry load_addr p =
     [quote (sp_exe p), ''--mode'', quote (va_mode a), ''--payload-bin'', quote (sp_payload p), ''--summary-json'',
      quote (sp_summary p), ''--uart-log'', quote (sp_uart_log p)]
     @ option_words quote (number_options a entry load_addr)
     @ [''+MOCK_DDR3_FORCE_LATENCY='' @ str_int (va_mock_latency a)]
     @ (if traced_run a then [''--trace-file'', quote (sp_trace p)] else [])
     @ (if va_trace a then [''--trace''] else []) @ (if va_trace_on_stuck a then [''--trace-on-stuck''] else [])
     @ option_words quote (trace_numbers a)
     @ (if preload_mode a then [''+MOCK_DDR3_PRELOAD_HEX='' @ quote (sp_preload p)] else [])"

definition sim_shell_command :: "mainline_args \<Rightarrow> int \<Rightarrow> int \<Rightarrow> sim_paths \<Rightarrow> string" where
  "sim_shell_command a entry load_addr p = join_with '' '' (sim_words shlex_quote a entry load_addr p)"

section \<open>What the shell makes of it\<close>

lemma safe_digits: "list_all shell_safe (dec_str n)" "list_all shell_safe (str_int i)"
proof -
  have "is_dec c \<Longrightarrow> shell_safe c" for c
    by (auto simp: is_dec_def digit_val_def shell_safe_def Let_def split: if_splits)
  then show nat: "list_all shell_safe (dec_str n)" for n
    using dec_str_digits [of n] by (auto simp: list_all_iff)
  show "list_all shell_safe (str_int i)"
    using nat by (simp add: str_int_def shell_safe_def)
qed

lemma dec_str_some: "dec_str n \<noteq> []" "str_int i \<noteq> []"
  using dec_str_digits by (auto simp: str_int_def)

text \<open>
  C39. The shell splits the command of the simulator into the words that are meant, whatever the paths and
  numbers are: blanks and quotes in a path cannot end a word or begin another.
\<close>

theorem sim_command_words:
  "shell_words (sim_shell_command a entry load_addr p) = Some (sim_words id a entry load_addr p)"
proof -
  have lit: "reads_as s s" if "s \<noteq> []" "list_all shell_safe s" for s
    using that by (rule reads_safe)
  have opts: "list_all2 reads_as (option_words shlex_quote xs) (option_words id xs)"
    if "list_all (\<lambda>(name, n). name \<noteq> [] \<and> list_all shell_safe name) xs" for xs
    using that by (induction xs) (auto simp: option_words_def reads_quote lit)
  have numbers: "list_all2 reads_as (option_words shlex_quote (number_options a entry load_addr)) (option_words id (number_options a entry load_addr))"
    by (rule opts) (simp add: number_options_def)
  have traces: "list_all2 reads_as (option_words shlex_quote (trace_numbers a)) (option_words id (trace_numbers a))"
    by (rule opts) (simp add: trace_numbers_def)
  have hex: "reads_as (''+MOCK_DDR3_PRELOAD_HEX='' @ shlex_quote s) (''+MOCK_DDR3_PRELOAD_HEX='' @ s)" for s
    by (intro reads_append lit reads_quote) simp_all
  have "list_all2 reads_as (sim_words shlex_quote a entry load_addr p) (sim_words id a entry load_addr p)"
    unfolding sim_words_def
    by (intro list_all2_appendI numbers traces)
      (auto intro!: lit simp: safe_digits dec_str_some reads_quote hex [simplified])
  then show ?thesis
    unfolding sim_shell_command_def by (rule reads_words)
qed

text \<open>
  The command of Verilator is read as it is meant when the directories hold no character that would have to be
  quoted, and otherwise not: a blank in the path of the build directory makes two words of it.
\<close>

lemma reads_options: "list_all2 reads_as (verilator_options vb a) (verilator_options vb a)"
  unfolding verilator_options_def by (auto intro!: reads_safe simp: safe_digits dec_str_some)

lemma reads_quoted: "list_all2 reads_as (map shlex_quote xs) xs"
  by (simp add: list.rel_map reads_quote list_all2_same)

lemma reads_safe_list: "list_all (\<lambda>s. s \<noteq> [] \<and> list_all shell_safe s) xs \<Longrightarrow> list_all2 reads_as xs xs"
  by (induction xs) (simp_all add: reads_safe)

text \<open>What stands before the directory of the build, and after it.\<close>

definition words_before :: "string list" where
  "words_before = [''verilator'', ''--cc'', ''--sv'', ''--exe'', ''--build'', ''--timing'', ''-j'', ''0'', ''--top-module'',
     ''verilator_mainline_top'', ''--Mdir'']"

definition words_after ::
  "(string \<Rightarrow> string) \<Rightarrow> mainline_board \<Rightarrow> mainline_args \<Rightarrow> string \<Rightarrow> string \<Rightarrow> string list \<Rightarrow> string list" where
  "words_after quote vb a rtl_dir vl_dir sources =
     [''-o'', ''sim_mainline'', ''-Wno-fatal'', ''-CFLAGS''] @ quote ''-std=c++17 -O2'' # (''+incdir+'' @ rtl_dir) # (''+incdir+'' @ vl_dir)
       # verilator_options vb a @ map quote sources"

lemma parts_split:
  "verilator_parts quote vb a obj_dir rtl_dir vl_dir sources = words_before @ obj_dir # words_after quote vb a rtl_dir vl_dir sources"
  by (simp add: verilator_parts_def words_before_def words_after_def)

lemma reads_before: "list_all2 reads_as words_before words_before"
  by (rule reads_safe_list) code_simp

lemma reads_after:
  assumes "list_all shell_safe rtl_dir" "list_all shell_safe vl_dir"
  shows "list_all2 reads_as (words_after shlex_quote vb a rtl_dir vl_dir sources) (words_after id vb a rtl_dir vl_dir sources)"
proof -
  have fixed: "list_all2 reads_as [''-o'', ''sim_mainline'', ''-Wno-fatal'', ''-CFLAGS''] [''-o'', ''sim_mainline'', ''-Wno-fatal'', ''-CFLAGS'']"
    by (rule reads_safe_list) code_simp
  have "list_all shell_safe ''+incdir+''"
    by code_simp
  then have incl: "reads_as (''+incdir+'' @ d) (''+incdir+'' @ d)" if "list_all shell_safe d" for d
    using that by (intro reads_safe) simp_all
  show ?thesis
    unfolding words_after_def
    by (intro list_all2_appendI fixed list_all2_Cons [THEN iffD2] conjI reads_options)
      (simp_all only: id_apply list.map_id0 reads_quote reads_quoted incl assms)
qed

lemma build_command_words:
  assumes "obj_dir \<noteq> []" "list_all shell_safe obj_dir" "list_all shell_safe rtl_dir" "list_all shell_safe vl_dir"
  shows "shell_words (join_with '' '' (verilator_parts shlex_quote vb a obj_dir rtl_dir vl_dir sources))
    = Some (verilator_parts id vb a obj_dir rtl_dir vl_dir sources)"
  unfolding parts_split using assms
  by (intro reads_words list_all2_appendI reads_before list_all2_Cons [THEN iffD2] conjI reads_after reads_safe)

lemma join_words: "join_with '' '' (xs @ (u @ '' '' @ v) # ys) = join_with '' '' (xs @ u # v # ys)"
proof (induction xs)
  case Nil
  show ?case by (cases ys) simp_all
next
  case (Cons x xs)
  then show ?case by (cases xs) simp_all
qed

lemma blank_in_build_directory:
  assumes "u \<noteq> []" "v \<noteq> []" "list_all shell_safe u" "list_all shell_safe v" "list_all shell_safe rtl_dir" "list_all shell_safe vl_dir"
  shows "shell_words (join_with '' '' (verilator_parts shlex_quote vb a (u @ '' '' @ v) rtl_dir vl_dir sources))
    \<noteq> Some (verilator_parts id vb a (u @ '' '' @ v) rtl_dir vl_dir sources)"
proof -
  have "shell_words (join_with '' '' (words_before @ u # v # words_after shlex_quote vb a rtl_dir vl_dir sources))
      = Some (words_before @ u # v # words_after id vb a rtl_dir vl_dir sources)"
    using assms
    by (intro reads_words list_all2_appendI reads_before list_all2_Cons [THEN iffD2] conjI reads_after reads_safe)
  then show ?thesis
    unfolding parts_split join_words by (auto dest: arg_cong [where f = length])
qed

end
