(* ===== verification/VlSummary.thy ===== *)
theory VlSummary
  imports VlRun MainSummary
begin

text \<open>
  The summary of a Verilator run: \<^verbatim>\<open>format_summary\<close>, and the instructions around the last program counter.  The
  values are those of the JSON the simulator writes.  A value that cannot be shown as a number is an error,
  \<^term>\<open>None\<close> here.
\<close>

section \<open>Lines\<close>

type_synonym piece = "items \<Rightarrow> string option"

definition says :: "string \<Rightarrow> piece" where
  "says t r = Some t"

text \<open>\<^verbatim>\<open>{summary.get(key, other)}\<close>, \<^verbatim>\<open>{int(summary.get(key, 0)):0nX}\<close> and \<^verbatim>\<open>{summary.get(key, 0):0nx}\<close>\<close>

definition cell :: "string \<Rightarrow> json \<Rightarrow> piece" where
  "cell key other r = Some (py_str (get_or r key other))"

definition hexed :: "nat \<Rightarrow> string \<Rightarrow> piece" where
  "hexed n key r = map_option (fmt_X_int n) (json_int (get_or r key (JInt 0)))"

definition raw_hexed :: "nat \<Rightarrow> string \<Rightarrow> piece" where
  "raw_hexed n key r = (case get_or r key (JInt 0) of
     JInt i \<Rightarrow> Some (py_lower (fmt_X_int n i)) | JBool b \<Rightarrow> Some (py_lower (fmt_X_int n (flag_int b))) | _ \<Rightarrow> None)"

definition line :: "piece list \<Rightarrow> piece" where
  "line ps r = map_option concat (those (map (\<lambda>p. p r) ps))"

definition rows :: "json \<Rightarrow> string list \<Rightarrow> piece list" where
  "rows other keys = map (\<lambda>key. line [says (key @ '': ''), cell key other]) keys"

section \<open>The table\<close>

text \<open>The parameters of the run.\<close>

definition list_item :: "items \<Rightarrow> string \<Rightarrow> json list" where
  "list_item r key = (case get_item key r of None \<Rightarrow> [] | Some (JList xs) \<Rightarrow> xs | Some j \<Rightarrow> [JStr (py_str j)])"

definition config_line :: "string \<Rightarrow> piece" where
  "config_line label r = Some (label @ '': '' @ join_with '', '' (map (\<lambda>key. key @ ''='' @ py_str (get_or (dict_of r label) key (JStr ''N/A'')))
     [''RS_DEPTH'', ''RS_IDX_W'', ''FETCH_BUFFER_DEPTH'', ''CORE_CLK_MHZ'', ''UART_BAUD'', ''UART_CLK_DIV'', ''CLK_WIZ_HALF_DIV'',
      ''SMT_MODE'', ''DCACHE_MODE'', ''LOADER_ROM_PROFILE'', ''DHRYSTONE_RUNS'', ''BENCHMARK_RUNTIME_PROFILE'', ''HEADER_GAP_CYCLES'',
      ''PAYLOAD_START_GAP_CYCLES'', ''PAYLOAD_GAP_CYCLES'', ''PAYLOAD_CHUNK_GAP_CYCLES'', ''LOADER_PREFIX_BLOCKS'']))"

definition mismatch_line :: piece where
  "mismatch_line r = Some (''BoardConfigMismatches: ''
     @ (let xs = list_item r ''BoardConfigMismatches'' in if xs = [] then ''none'' else join_with ''; '' (map py_str xs)))"

definition first_item :: "string \<Rightarrow> string list \<Rightarrow> json \<Rightarrow> piece" where
  "first_item label keys other r = Some (label @ '': '' @ py_str (first_of r keys other))"

definition mode_rows :: "string \<Rightarrow> string \<Rightarrow> int \<Rightarrow> piece list" where
  "mode_rows benchmark mode runs =
     [says (''Mode: '' @ mode)] @ rows (JStr ''full'') [''DCacheMode''] @ rows (JInt 1) [''MockLatency'']
     @ rows (JInt 16) [''HeaderGapCycles'']
     @ [first_item ''PayloadStartGapCycles'' [''PayloadStartGapCycles'', ''PayloadGapCycles''] (JInt 2)]
     @ rows (JInt 2) [''PayloadGapCycles'']
     @ [first_item ''PayloadChunkGapCycles'' [''PayloadChunkGapCycles'', ''PayloadGapCycles''] (JInt 2)]
     @ rows (JInt 0) [''LoaderPrefixBlocks''] @ rows (JStr ''board'') [''LoaderRomProfile'', ''BenchmarkRuntimeProfile'']
     @ rows (JBool False) [''BoardConfigMatch'']
     @ [mismatch_line, config_line ''BoardConfigExpected'', config_line ''BoardConfigActual'',
        says (''Benchmark: '' @ benchmark), says (''Runs: '' @ str_int runs)]
     @ rows (JInt runs) [''ConfiguredRuns'', ''EffectiveRuns'']"

text \<open>\<^verbatim>\<open>int(summary.get(key, 0) or 0)\<close>\<close>

definition int_or_zero :: "items \<Rightarrow> string \<Rightarrow> int option" where
  "int_or_zero r key = (let j = get_or r key (JInt 0) in if json_true j then json_int j else Some 0)"

text \<open>The verdict of the mode; without one of its own a preload run is judged by what it showed.\<close>

definition preload_passed :: "string \<Rightarrow> items \<Rightarrow> bool option" where
  "preload_passed mode r =
     (if mode = ''preload'' \<and> get_item ''ExitReason'' r = Some (JStr ''done'') \<and> get_bool r ''EntryReached''
         \<and> get_bool r ''BenchmarkStartSeen'' \<and> get_bool r ''BenchmarkDoneSeen'' \<and> \<not> get_bool r ''TrapSeen''
         \<and> \<not> get_bool r ''UnexpectedUartSeen''
      then map_option (\<lambda>n. n = 0) (int_or_zero r ''SpecMmioLoadViolationCount'')
      else Some False)"

definition pass_line :: "string \<Rightarrow> piece" where
  "pass_line mode r =
     (case (case get_or r ''PreloadBenchmarkPass'' JNull of JNull \<Rightarrow> map_option JBool (preload_passed mode r) | j \<Rightarrow> Some j) of
        None \<Rightarrow> None
      | Some pass \<Rightarrow> Some (if mode = ''preload'' then ''PreloadBenchmarkPass: '' @ py_str pass
          else if mode = ''linux-preload'' then ''LinuxPreloadPass: '' @ py_str (get_or r ''LinuxPreloadPass'' (JBool False))
          else ''LoaderSemanticPass: '' @ py_str (get_or r ''LoaderSemanticPass'' (JBool False))))"

text \<open>\<^verbatim>\<open>instret / budget_cycles\<close>, for a budget and a number of instructions that are not negative.\<close>

definition ratio_line :: "int \<Rightarrow> piece" where
  "ratio_line budget r = (case int_or_zero r ''InstRetired'' of
     None \<Rightarrow> None
   | Some n \<Rightarrow> Some (''GlobalIPCvsBudget: '' @ fmt_6f (if budget = 0 then (0, 0) else double_div (nat n) (nat budget))))"

text \<open>What the simulator has seen and counted.\<close>

definition end_rows :: "piece list" where
  "end_rows =
      rows (JBool False) [''VerilatorFixedRuns'']
      @ rows (JStr ''N/A'') [''ExitReason'']
      @ rows (JBool False) [''EntryReached'', ''BenchmarkStartSeen'', ''BenchmarkDoneSeen'']"

definition linux_rows :: "piece list" where
  "linux_rows =
      rows (JBool False) [''LinuxOpenSBISeen'', ''LinuxBootHartSeen'', ''LinuxKernelSeen'', ''LinuxInitSeen'',
        ''LinuxPassSeen'', ''LoaderPrefixPass'']
      @ rows (JInt 0) [''LoaderBlocksAcked'']
      @ rows (JBool False) [''TrapSeen'']
      @ rows (JInt 0) [''TrapCause'', ''Cycles'', ''InstRetired'', ''IPCx1000'']"

definition fetch_rows :: "piece list" where
  "fetch_rows =
      [line [says ''LastPcT0: 0x'', hexed 8 ''LastPcT0''],
      line [says ''LastPcT1: 0x'', hexed 8 ''LastPcT1''],
      line [says ''LastFetchPcPending: 0x'', hexed 8 ''LastFetchPcPending''],
      line [says ''LastFetchPcOut: 0x'', hexed 8 ''LastFetchPcOut''],
      line [says ''LastFetchIfInst: 0x'', hexed 8 ''LastFetchIfInst''],
      line [says ''LastFetchIfFlags: 0x'', hexed 2 ''LastFetchIfFlags''],
      line [says ''LastIcStateFlags: 0x'', hexed 2 ''LastIcStateFlags'']]
      @ rows (JInt 0) [''IcHighMissCount'', ''IcMemReqCount'', ''IcMemRespCount'', ''IcCpuRespCount'',
        ''InstrRetiredCount'']"

definition profile_rows :: "piece list" where
  "profile_rows =
      rows (JInt 0) [''BenchProfileCycles'', ''BenchDispatchStallCycles'', ''BenchSbStallCycles'',
        ''BenchStallIqIntFullCycles'', ''BenchStallIqMemFullCycles'', ''BenchStallIqMulFullCycles'',
        ''BenchStallIqDivFullCycles'', ''BenchStallRsTagEmptyCycles'', ''BenchStallRobFullCycles'',
        ''BenchStallPrfEmptyCycles'', ''BenchStallOtherDispatchCycles'', ''BenchSystemStallCycles'',
        ''BenchDisp1BlockedCycles'', ''BenchNoRetireLsuBusyCycles'', ''BenchLsuIdleCycles'', ''BenchLsuReqCycles'',
        ''BenchLsuWaitRespCycles'', ''BenchLsuRespCycles'', ''BenchLsuLoadAcceptCycles'', ''BenchLsuLoadRespCycles'',
        ''BenchLsuBackToBackLoadAcceptCycles'', ''BenchLsuForwardedLoadCycles'', ''BenchLsuLoadHazardCycles'',
        ''BenchLsuM1CooldownCycles'', ''BenchDcacheHitRespCycles'', ''BenchLsuCooldownSetCount'',
        ''BenchLsuCooldownSkippedL1HitCount'', ''BenchLsuMmioBlockedCycles'', ''SpecMmioLoadBlockedCycles'',
        ''SpecMmioLoadViolationCount'', ''MmioLoadAtRobHeadCount'', ''OlderStoreBlockedMmioLoadCycles'']"

definition rodata_rows :: "piece list" where
  "rodata_rows =
      rows (JBool False) [''RodataWriteSeen'']
      @ rows (JInt 0) [''RodataWriteCycle'']
      @ [line [says ''RodataWritePcT0: 0x'', raw_hexed 8 ''RodataWritePcT0''],
      line [says ''RodataWriteAddr: 0x'', raw_hexed 8 ''RodataWriteAddr''],
      line [says ''RodataWriteWdata: 0x'', raw_hexed 8 ''RodataWriteWdata''],
      line [says ''RodataWriteWen: 0x'', raw_hexed 0 ''RodataWriteWen'']]
      @ rows (JInt 0) [''RodataWriteOrderId'', ''RodataWriteTag'']"

definition rob_rows :: "piece list" where
  "rob_rows =
      rows (JInt 0) [''RobCommit0SeenCount'', ''RobCommit1SeenCount'', ''LastRobCommit0OrderId'',
        ''LastRobCommit1OrderId'', ''LastRobCountT0'', ''LastRobCountT1'']
      @ rows (JBool False) [''LastRobHeadFlushedT0'', ''LastRobHeadFlushedT1'', ''LastRobRecovering'']
      @ rows (JInt 0) [''LastRobRecoverTid'', ''LastRobRecoverPtr'', ''MemIssSeenCount'', ''P1WinnerCount'',
        ''P1MemWinnerCount'', ''Wb1MemCount'']
      @ rows (JBool False) [''LastP1WinnerValid'']
      @ rows (JInt 0) [''LastP1Winner'']
      @ rows (JBool False) [''LastMemFuBusy'']
      @ rows (JInt 0) [''LastMemFuOrderId'', ''LastMemFuTid'']
      @ rows (JBool False) [''LastMemIssueInhibit'', ''LastP1MemCandValid'']
      @ rows (JInt 0) [''LastP1MemCandOrderId'', ''LastP1MemCandTag'']
      @ rows (JBool False) [''LastP1MemCandRead'', ''LastP1MemCandWrite'', ''LastMemCandRawValid'',
        ''LastMemCandClear'', ''LastMemCandSet'', ''LastIqMemSelFound'']
      @ rows (JInt 0) [''LastIqMemSelIdx'']
      @ rows (JBool False) [''LastIqMemOldestStoreValidT0'', ''LastIqMemOldestStoreValidT1'']
      @ rows (JInt 0) [''LastIqMemOldestStoreOrderIdT0'', ''LastIqMemOldestStoreOrderIdT1'', ''LastIqMemStoreCountT0'',
        ''LastIqMemStoreCountT1'']
      @ rows (JBool False) [''LastFlush'']
      @ rows (JInt 0) [''LastFlushTid'']
      @ rows (JBool False) [''LastFlushOrderValid'']
      @ rows (JInt 0) [''LastFlushOrderId'']
      @ rows (JBool False) [''LastWb0Valid'']
      @ rows (JInt 0) [''LastWb0Tag'']
      @ rows (JBool False) [''LastWb0RegsWrite'', ''LastWb1Valid'']
      @ rows (JInt 0) [''LastWb1Tag'']
      @ rows (JBool False) [''LastWb1RegsWrite'']
      @ rows (JInt 0) [''LastWb1Fu'']"

definition uart_rows :: "piece list" where
  "uart_rows =
      rows (JInt 0) [''UartStatusLoadCount'', ''UartTxStoreCount'', ''UartTxByteSeenCount'']
      @ [line [says ''LastUartTxByte: 0x'', hexed 2 ''LastUartTxByte'']]
      @ rows (JBool False) [''UnexpectedUartSeen'']
      @ rows (JInt 0) [''UnexpectedUartCycle'', ''UnexpectedUartIndex'']
      @ [line [says ''UnexpectedUartExpected: 0x'', hexed 2 ''UnexpectedUartExpected''],
      line [says ''UnexpectedUartActual: 0x'', hexed 2 ''UnexpectedUartActual''],
      line [says ''UnexpectedUartPcT0: 0x'', hexed 8 ''UnexpectedUartPcT0''],
      line [says ''UnexpectedUartLsuReq: valid='', cell ''UnexpectedUartLsuReqValid'' (JBool False), says '' accept='',
        cell ''UnexpectedUartLsuReqAccept'' (JBool False), says '' order='', cell ''UnexpectedUartLsuReqOrderId'' (JInt
        0), says '' tag='', cell ''UnexpectedUartLsuReqTag'' (JInt 0), says '' addr=0x'', hexed 8
        ''UnexpectedUartLsuReqAddr'', says '' wdata=0x'', hexed 8 ''UnexpectedUartLsuReqWdata'', says '' func3='', cell
        ''UnexpectedUartLsuReqFunc3'' (JInt 0), says '' wen='', cell ''UnexpectedUartLsuReqWen'' (JBool False)],
      line [says ''UnexpectedUartM1Req: valid='', cell ''UnexpectedUartM1ReqValid'' (JBool False), says '' ready='',
        cell ''UnexpectedUartM1ReqReady'' (JBool False), says '' addr=0x'', hexed 8 ''UnexpectedUartM1ReqAddr'', says
        '' wdata=0x'', hexed 8 ''UnexpectedUartM1ReqWdata'', says '' wen=0x'', hexed 0 ''UnexpectedUartM1ReqWen'', says
        '' write='', cell ''UnexpectedUartM1ReqWrite'' (JBool False)],
      line [says ''UnexpectedUartWB: wb0_valid='', cell ''UnexpectedUartWb0Valid'' (JBool False), says '' wb0_tag='',
        cell ''UnexpectedUartWb0Tag'' (JInt 0), says '' wb0_data=0x'', hexed 8 ''UnexpectedUartWb0Data'', says
        '' wb1_valid='', cell ''UnexpectedUartWb1Valid'' (JBool False), says '' wb1_tag='', cell
        ''UnexpectedUartWb1Tag'' (JInt 0), says '' wb1_fu='', cell ''UnexpectedUartWb1Fu'' (JInt 0), says
        '' wb1_data=0x'', hexed 8 ''UnexpectedUartWb1Data'']]"

definition probe_rows :: "piece list" where
  "probe_rows =
      [line [says ''UartTxStoreProbeCaptured: '', cell ''BadUartStoreSeen'' (JBool False)],
      line [says ''UartTxStoreProbeCycle: '', cell ''BadUartStoreCycle'' (JInt 0)],
      line [says ''UartTxStoreProbe: pc=0x'', hexed 8 ''BadUartStorePc'', says '' addr=0x'', hexed 8
        ''BadUartStoreAddr'', says '' op_a=0x'', hexed 8 ''BadUartStoreOpA'', says '' op_b=0x'', hexed 8
        ''BadUartStoreOpB'', says '' imm=0x'', hexed 8 ''BadUartStoreImm'', says '' order='', cell
        ''BadUartStoreOrderId'' (JInt 0), says '' tag='', cell ''BadUartStoreTag'' (JInt 0), says '' func3='', cell
        ''BadUartStoreFunc3'' (JInt 0), says '' tid='', cell ''BadUartStoreTid'' (JInt 0)],
      line [says ''UartTxStoreProbeSrc: rd=x'', cell ''BadUartStoreRd'' (JInt 0), says '' rs1=x'', cell
        ''BadUartStoreRs1'' (JInt 0), says ''/p'', cell ''BadUartStorePrs1'' (JInt 0), says ''/tag'', cell
        ''BadUartStoreSrc1Tag'' (JInt 0), says '' rs2=x'', cell ''BadUartStoreRs2'' (JInt 0), says ''/p'', cell
        ''BadUartStorePrs2'' (JInt 0), says ''/tag'', cell ''BadUartStoreSrc2Tag'' (JInt 0)],
      line [says ''UartTxStoreProbeDataSrc: prf_a=0x'', hexed 8 ''BadUartStorePrfA'', says '' prf_b=0x'', hexed 8
        ''BadUartStorePrfB'', says '' tagbuf_a='', cell ''BadUartStoreTagbufAValid'' (JBool False), says '':0x'', hexed
        8 ''BadUartStoreTagbufAData'', says '' tagbuf_b='', cell ''BadUartStoreTagbufBValid'' (JBool False), says
        '':0x'', hexed 8 ''BadUartStoreTagbufBData'', says '' fwd_a='', cell ''BadUartStoreFwdA'' (JInt 0), says
        '' fwd_b='', cell ''BadUartStoreFwdB'' (JInt 0)],
      line [says ''UartTxStoreProbeSrc2LastWriter: pc=0x'', hexed 8 ''BadUartStoreSrc2LastPc'', says '' data=0x'', hexed
        8 ''BadUartStoreSrc2LastData'', says '' order='', cell ''BadUartStoreSrc2LastOrderId'' (JInt 0), says '' tag='',
        cell ''BadUartStoreSrc2LastTag'' (JInt 0), says '' rd=x'', cell ''BadUartStoreSrc2LastRd'' (JInt 0), says
        '' fu='', cell ''BadUartStoreSrc2LastFu'' (JInt 0)],
      line [says ''UartTxStoreProbeSrc2WriterSrc1: p'', cell ''BadUartStoreSrc2LastSrc1Prs'' (JInt 0), says
        '' last_pc=0x'', hexed 8 ''BadUartStoreSrc2LastSrc1Pc'', says '' data=0x'', hexed 8
        ''BadUartStoreSrc2LastSrc1Data'', says '' order='', cell ''BadUartStoreSrc2LastSrc1OrderId'' (JInt 0), says
        '' tag='', cell ''BadUartStoreSrc2LastSrc1Tag'' (JInt 0), says '' rd=x'', cell ''BadUartStoreSrc2LastSrc1Rd''
        (JInt 0), says '' fu='', cell ''BadUartStoreSrc2LastSrc1Fu'' (JInt 0)],
      line [says ''UartTxStoreProbeSrc2WriterSrc1Src1: p'', cell ''BadUartStoreSrc2LastSrc1Src1Prs'' (JInt 0), says
        '' last_pc=0x'', hexed 8 ''BadUartStoreSrc2LastSrc1Src1Pc'', says '' data=0x'', hexed 8
        ''BadUartStoreSrc2LastSrc1Src1Data'', says '' order='', cell ''BadUartStoreSrc2LastSrc1Src1OrderId'' (JInt 0),
        says '' tag='', cell ''BadUartStoreSrc2LastSrc1Src1Tag'' (JInt 0), says '' rd=x'', cell
        ''BadUartStoreSrc2LastSrc1Src1Rd'' (JInt 0), says '' fu='', cell ''BadUartStoreSrc2LastSrc1Src1Fu'' (JInt 0)]]"

definition strcpy_rows :: "piece list" where
  "strcpy_rows =
      rows (JBool False) [''StrcpyMvSeen'']
      @ rows (JInt 0) [''StrcpyMvCycle'']
      @ [line [says ''StrcpyMv: pc=0x'', hexed 8 ''StrcpyMvPc'', says '' op_a=0x'', hexed 8 ''StrcpyMvOpA'', says
        '' op_b=0x'', hexed 8 ''StrcpyMvOpB'', says '' order='', cell ''StrcpyMvOrderId'' (JInt 0), says '' tag='', cell
        ''StrcpyMvTag'' (JInt 0), says '' tid='', cell ''StrcpyMvTid'' (JInt 0), says '' rd=x'', cell ''StrcpyMvRd''
        (JInt 0), says ''/p'', cell ''StrcpyMvPrd'' (JInt 0)],
      line [says ''StrcpyMvSrc: rs1=x'', cell ''StrcpyMvRs1'' (JInt 0), says ''/p'', cell ''StrcpyMvPrs1'' (JInt 0),
        says ''/tag'', cell ''StrcpyMvSrc1Tag'' (JInt 0), says '' rs2=x'', cell ''StrcpyMvRs2'' (JInt 0), says ''/p'',
        cell ''StrcpyMvPrs2'' (JInt 0), says ''/tag'', cell ''StrcpyMvSrc2Tag'' (JInt 0)],
      line [says ''StrcpyMvDataSrc: prf_a=0x'', hexed 8 ''StrcpyMvPrfA'', says '' prf_b=0x'', hexed 8 ''StrcpyMvPrfB'',
        says '' tagbuf_a='', cell ''StrcpyMvTagbufAValid'' (JBool False), says '':0x'', hexed 8 ''StrcpyMvTagbufAData'',
        says '' tagbuf_b='', cell ''StrcpyMvTagbufBValid'' (JBool False), says '':0x'', hexed 8 ''StrcpyMvTagbufBData'',
        says '' fwd_a='', cell ''StrcpyMvFwdA'' (JInt 0), says '' fwd_b='', cell ''StrcpyMvFwdB'' (JInt 0)],
      line [says ''StrcpyMvPrfW: w0='', cell ''StrcpyMvPrfW0En'' (JBool False), says '' p'', cell ''StrcpyMvPrfW0Addr''
        (JInt 0), says ''=0x'', hexed 8 ''StrcpyMvPrfW0Data'', says '' w1='', cell ''StrcpyMvPrfW1En'' (JBool False),
        says '' p'', cell ''StrcpyMvPrfW1Addr'' (JInt 0), says ''=0x'', hexed 8 ''StrcpyMvPrfW1Data'']]"

definition first_store_rows :: "piece list" where
  "first_store_rows =
      [line [says ''MainLwA0: seen='', cell ''MainLwA0Seen'' (JBool False), says '' addr=0x'', hexed 8 ''MainLwA0Addr'',
        says '' base=0x'', hexed 8 ''MainLwA0Base'', says '' imm=0x'', hexed 8 ''MainLwA0Imm'', says '' order='', cell
        ''MainLwA0OrderId'' (JInt 0), says '' tag='', cell ''MainLwA0Tag'' (JInt 0), says '' rd_p'', cell
        ''MainLwA0Prd'' (JInt 0), says '' rs1_p'', cell ''MainLwA0Prs1'' (JInt 0)],
      line [says ''MainLwA0WB: seen='', cell ''MainLwA0WbSeen'' (JBool False), says '' data=0x'', hexed 8
        ''MainLwA0WbData'', says '' prd='', cell ''MainLwA0WbPrd'' (JInt 0)],
      line [says ''MainAddiA0: seen='', cell ''MainAddiA0Seen'' (JBool False), says '' op_a=0x'', hexed 8
        ''MainAddiA0OpA'', says '' result=0x'', hexed 8 ''MainAddiA0Result'', says '' order='', cell
        ''MainAddiA0OrderId'' (JInt 0), says '' tag='', cell ''MainAddiA0Tag'' (JInt 0), says '' rd_p'', cell
        ''MainAddiA0Prd'' (JInt 0), says '' rs1_p'', cell ''MainAddiA0Prs1'' (JInt 0), says '' src1_tag='', cell
        ''MainAddiA0Src1Tag'' (JInt 0)],
      line [says ''MainAddiA0DataSrc: prf_a=0x'', hexed 8 ''MainAddiA0PrfA'', says '' tagbuf_a='', cell
        ''MainAddiA0TagbufAValid'' (JBool False), says '':0x'', hexed 8 ''MainAddiA0TagbufAData''],
      line [says ''MainA0PrdLastWrite: count='', cell ''MainA0PrdWriteCount'' (JInt 0), says '' port='', cell
        ''MainA0PrdLastWritePort'' (JInt 0), says '' pc=0x'', hexed 8 ''MainA0PrdLastWritePc'', says '' order='', cell
        ''MainA0PrdLastWriteOrderId'' (JInt 0), says '' tag='', cell ''MainA0PrdLastWriteTag'' (JInt 0), says '' rd=x'',
        cell ''MainA0PrdLastWriteRd'' (JInt 0), says '' fu='', cell ''MainA0PrdLastWriteFu'' (JInt 0), says
        '' data=0x'', hexed 8 ''MainA0PrdLastWriteData''],
      line [says ''MainA0PrdFirstBadWrite: seen='', cell ''MainA0PrdFirstBadWriteSeen'' (JBool False), says '' port='',
        cell ''MainA0PrdFirstBadWritePort'' (JInt 0), says '' pc=0x'', hexed 8 ''MainA0PrdFirstBadWritePc'', says
        '' order='', cell ''MainA0PrdFirstBadWriteOrderId'' (JInt 0), says '' tag='', cell ''MainA0PrdFirstBadWriteTag''
        (JInt 0), says '' rd=x'', cell ''MainA0PrdFirstBadWriteRd'' (JInt 0), says '' fu='', cell
        ''MainA0PrdFirstBadWriteFu'' (JInt 0), says '' data=0x'', hexed 8 ''MainA0PrdFirstBadWriteData''],
      line [says ''MainA0PrdFirstFree: seen='', cell ''MainA0PrdFirstFreeSeen'' (JBool False), says '' port='', cell
        ''MainA0PrdFirstFreePort'' (JInt 0), says '' order='', cell ''MainA0PrdFirstFreeOrderId'' (JInt 0), says
        '' tag='', cell ''MainA0PrdFirstFreeTag'' (JInt 0), says '' rd=x'', cell ''MainA0PrdFirstFreeRd'' (JInt 0)],
      line [says ''MainAddiA0WB: seen='', cell ''MainAddiA0WbSeen'' (JBool False), says '' cycle='', cell
        ''MainAddiA0WbCycle'' (JInt 0), says '' port='', cell ''MainAddiA0WbPort'' (JInt 0), says '' tid='', cell
        ''MainAddiA0WbTid'' (JInt 0), says '' prd='', cell ''MainAddiA0WbPrd'' (JInt 0), says '' data=0x'', hexed 8
        ''MainAddiA0WbData'', says '' w0='', cell ''MainAddiA0WbW0En'' (JBool False), says '' p'', cell
        ''MainAddiA0WbW0Addr'' (JInt 0), says ''=0x'', hexed 8 ''MainAddiA0WbW0Data'', says '' w1='', cell
        ''MainAddiA0WbW1En'' (JBool False), says '' p'', cell ''MainAddiA0WbW1Addr'' (JInt 0), says ''=0x'', hexed 8
        ''MainAddiA0WbW1Data'']]"

definition memory_rows :: "piece list" where
  "memory_rows =
      rows (JInt 0) [''MockMemReads'', ''MockMemWrites'', ''MockMemRangeErrorCount'']
      @ [line [says ''MockMemLastRangeErrorAddr: 0x'', hexed 8 ''MockMemLastRangeErrorAddr'']]
      @ rows (JInt 0) [''MockMemUninitReadCount'', ''LsuReqSeenCount'', ''LsuReqAcceptCount'', ''LsuRespSeenCount'']
      @ rows (JBool False) [''LastLsuM1Cooldown'', ''LastLsuDrainHoldoff'', ''LastLsuSbDrainUrgent'',
        ''LastLsuSbHasPendingStores'', ''LastLsuSbMemWriteValid'', ''StoreBufferEmptyLast'']
      @ rows (JInt 0) [''StoreCountT0Last'', ''StoreCountT1Last'', ''M1ReqSeenCount'', ''M1ReqHandshakeCount'']
      @ [line [says ''LastM1ReqAddr: 0x'', hexed 8 ''LastM1ReqAddr'']]
      @ rows (JBool False) [''LastM1ReqWrite'']
      @ rows (JInt 0) [''LastInstretProgressCycle'', ''LastCommitProgressCycle'', ''LastLsuReqAcceptCycle'',
        ''LastM1ReqHandshakeCycle'', ''TraceStartCycle'', ''TraceStopCycle'', ''Ddr3ReqSeenCount'',
        ''Ddr3ReqHandshakeCount'', ''Ddr3RespSeenCount'', ''M0ReqSeenCount'', ''M0ReqHandshakeCount'',
        ''M0RespSeenCount'', ''LastM0ReqHandshakeCycle'', ''LastM0RespCycle'']
      @ [line [says ''LastDdr3ReqAddr: 0x'', hexed 8 ''LastDdr3ReqAddr''],
      line [says ''LastDdr3ReqWdata: 0x'', hexed 8 ''LastDdr3ReqWdata''],
      line [says ''LastDdr3RespData: 0x'', hexed 8 ''LastDdr3RespData''],
      line [says ''LastDdr3ReqWen: 0x'', hexed 0 ''LastDdr3ReqWen'']]
      @ rows (JBool False) [''LastDdr3ReqWrite'']
      @ [line [says ''LastM0ReqAddr: 0x'', hexed 8 ''LastM0ReqAddr''],
      line [says ''LastM0RespData: 0x'', hexed 8 ''LastM0RespData'']]
      @ rows (JBool False) [''LastM0RespLast'']
      @ rows (JInt 0) [''MemsubsysM0Ddr3RespSeenCount'']
      @ [line [says ''LastMemsubsysM0Ddr3RespData: 0x'', hexed 8 ''LastMemsubsysM0Ddr3RespData'']]
      @ rows (JBool False) [''LastMemsubsysM0Ddr3RespLast'']
      @ rows (JInt 0) [''LastMemsubsysDdr3ArbState'', ''LastMemsubsysDdr3M0WordIdx'']"

definition danger_rows :: "piece list" where
  "danger_rows =
      rows (JInt 0) [''DCacheMissEventCount'']
      @ rows (JBool False) [''LastDCacheMissEvent'', ''StuckPcSeen'']
      @ [line [says ''StuckPcValue: 0x'', hexed 8 ''StuckPcValue'']]
      @ rows (JInt 0) [''StuckPcRepeatCount'']
      @ rows (JBool False) [''RetireStallSeen'']
      @ rows (JInt 0) [''RetireStallCycles'']
      @ rows (JBool False) [''DangerWindowSeen'']
      @ [line [says ''DangerWindowEntryPc: 0x'', hexed 8 ''DangerWindowEntryPc'']]
      @ rows (JInt 0) [''DangerEntryCycle'', ''DangerEntryInstRet'', ''DangerLsuReqSeenDelta'',
        ''DangerLsuReqAcceptDelta'', ''DangerLsuRespSeenDelta'', ''DangerM1ReqSeenDelta'',
        ''DangerM1ReqHandshakeDelta'', ''DangerM0ReqSeenDelta'', ''DangerM0ReqHandshakeDelta'',
        ''DangerM0RespSeenDelta'', ''DangerMockMemWritesDelta'']
      @ [line [says ''LastM1ReqAddrAfterDanger: 0x'', hexed 8 ''LastM1ReqAddrAfterDanger'']]
      @ rows (JBool False) [''LastM1ReqWriteAfterDanger'']
      @ [line [says ''LastM0ReqAddrAfterDanger: 0x'', hexed 8 ''LastM0ReqAddrAfterDanger'']]
      @ rows (JBool False) [''LastPcDecodedAvailable'']
      @ rows (JStr []) [''LastPcDecodedInstruction'', ''LastPcDecodedContextPath'']
      @ rows (JInt 0) [''LoaderBytesInjected'']"


definition summary_rows :: "string \<Rightarrow> string \<Rightarrow> int \<Rightarrow> int \<Rightarrow> piece list" where
  "summary_rows benchmark mode runs budget =
     mode_rows benchmark mode runs @ end_rows @ [pass_line mode] @ linux_rows @ [ratio_line budget] @ fetch_rows @ profile_rows
     @ rodata_rows @ rob_rows @ uart_rows @ probe_rows @ strcpy_rows @ first_store_rows @ memory_rows @ danger_rows"

definition format_summary :: "items \<Rightarrow> string \<Rightarrow> string \<Rightarrow> int \<Rightarrow> int \<Rightarrow> string option" where
  "format_summary r benchmark mode runs budget =
     map_option render_lines (those (map (\<lambda>p. p r) (summary_rows benchmark mode runs budget)))"

end
