(* ===== verification/Verilator.thy ===== *)
theory Verilator
  imports VlSummary MainGates
begin

text \<open>
  \<^verbatim>\<open>main\<close> of \<^verbatim>\<open>run_verilator_mainline.py\<close>: the comparison with the board, the images, the simulator, its run and
  the summary of it.  Messages to the terminal are left out.
\<close>

section \<open>Instructions around the last program counter\<close>

definition address_text :: "int \<Rightarrow> string" where
  "address_text pc = py_lower (fmt_X_int 0 pc)"

definition disassemble_command :: "os \<Rightarrow> string \<Rightarrow> string \<Rightarrow> int \<Rightarrow> command" where
  "disassemble_command os objdump elf pc =
     \<lparr>cmd_args = [objdump, ''-d'', ''-S'', ''--start-address=0x'' @ address_text (max 0 (pc - 0x20)),
        ''--stop-address=0x'' @ address_text (pc + 0x20 + 4), elf],
      cmd_cwd = Some (repo_root os), cmd_env = None, cmd_log = [], cmd_timeout = Some 60\<rparr>"

text \<open>What is written for each address, and the instruction at the last program counter when it is found.\<close>

fun decode_targets :: "os \<Rightarrow> wsl \<Rightarrow> string \<Rightarrow> string \<Rightarrow> (string \<times> int) list \<Rightarrow> (string list \<times> string option) flow" where
  "decode_targets os w objdump elf [] = give ([], None)"
| "decode_targets os w objdump elf ((name, pc) # targets) =
     and_then (run_captured os (disassemble_command os objdump elf pc)) (\<lambda>(rc, out).
     and_then (decode_targets os w objdump elf targets) (\<lambda>(sections, found).
     case streams w out of (o1, o2) \<Rightarrow>
       give ([''===== '' @ name @ ''=0x'' @ fmt_X_int 8 pc @ '' ====='' @ newline, o1 @ o2] @ sections,
         if rc = 0 \<and> name = ''LastPcT0'' then find_instruction (address_text pc) (splitlines o1) else found)))"

definition pc_targets :: "items \<Rightarrow> (string \<times> int) list" where
  "pc_targets r =
     (let pc = get_int r ''LastPcT0''; pending = get_int r ''LastFetchPcPending'' in
      (''LastPcT0'', pc) # (if pending \<noteq> 0 \<and> pending \<noteq> pc then [(''LastFetchPcPending'', pending)] else []))"

definition decoded_items :: "string option \<Rightarrow> string \<Rightarrow> items" where
  "decoded_items found path =
     [(''LastPcDecodedAvailable'', JBool (found \<noteq> None)), (''LastPcDecodedInstruction'', JStr (case found of None \<Rightarrow> [] | Some i \<Rightarrow> i)),
      (''LastPcDecodedContextPath'', JStr path)]"

definition maybe_decode_pc_window :: "os \<Rightarrow> wsl \<Rightarrow> items \<Rightarrow> string \<Rightarrow> string \<Rightarrow> items flow" where
  "maybe_decode_pc_window os w r elf run_dir =
     and_then (look_file elf) (\<lambda>t.
     case find_exe os ''riscv-none-elf-objdump'' of
       None \<Rightarrow> give (decoded_items None [])
     | Some objdump \<Rightarrow>
         if t = None \<or> list_all (\<lambda>(name, pc). pc = 0) (pc_targets r) then give (decoded_items None [])
         else
           (let path = in_dir run_dir ''pc_window.objdump.txt'' in
            and_then (decode_targets os w objdump elf (pc_targets r)) (\<lambda>(sections, found).
            and_then (write_file path (join_with newline sections)) (\<lambda>_. give (decoded_items found path)))))"

section \<open>The directory of a run\<close>

definition gap_suffix :: "mainline_args \<Rightarrow> string" where
  "gap_suffix a =
     (if va_header_gap a \<noteq> 16 \<or> start_gap a \<noteq> 2 \<or> va_payload_gap a \<noteq> 2 \<or> chunk_gap a \<noteq> 2 \<or> va_prefix_blocks a \<noteq> 0
         \<or> va_loader_rom_profile a \<noteq> ''board''
      then ''_hg'' @ str_int (va_header_gap a) @ ''_psg'' @ str_int (start_gap a) @ ''_pg'' @ str_int (va_payload_gap a)
        @ ''_pcg'' @ str_int (chunk_gap a) @ ''_lp'' @ str_int (va_prefix_blocks a) @ ''_rom'' @ va_loader_rom_profile a
      else [])"

definition run_dir_of :: "os \<Rightarrow> mainline_args \<Rightarrow> string" where
  "run_dir_of os a = in_dir (in_dir (build_file os ''verilator/mainline'') (va_mode a))
     (va_benchmark a @ ''_runs'' @ str_int (va_runs a) @ ''_lat'' @ str_int (va_mock_latency a) @ ''_'' @ va_dcache_mode a @ gap_suffix a)"

definition run_file :: "os \<Rightarrow> mainline_args \<Rightarrow> string \<Rightarrow> string" where
  "run_file os a name = in_dir (run_dir_of os a) name"

definition obj_dir_of :: "os \<Rightarrow> mainline_args \<Rightarrow> string" where
  "obj_dir_of os a = run_file os a (if traced_run a then ''obj_dir_trace'' else ''obj_dir'')"

section \<open>Summaries\<close>

definition run_items :: "mainline_args \<Rightarrow> items" where
  "run_items a =
     [(''DCacheMode'', JStr (va_dcache_mode a)), (''MockLatency'', JInt (va_mock_latency a)),
      (''HeaderGapCycles'', JInt (va_header_gap a)), (''PayloadStartGapCycles'', JInt (start_gap a)),
      (''PayloadGapCycles'', JInt (va_payload_gap a)), (''PayloadChunkGapCycles'', JInt (chunk_gap a)),
      (''LoaderPrefixBlocks'', JInt (va_prefix_blocks a)), (''LoaderRomProfile'', JStr (va_loader_rom_profile a)),
      (''BenchmarkRuntimeProfile'', JStr (va_runtime_profile a))]"

definition count_items :: "mainline_args \<Rightarrow> items" where
  "count_items a = [(''ConfiguredRuns'', JInt (va_runs a)), (''EffectiveRuns'', JInt (va_runs a)),
     (''VerilatorFixedRuns'', JBool (va_benchmark a = ''dhrystone''))]"

definition write_summaries :: "os \<Rightarrow> mainline_args \<Rightarrow> items \<Rightarrow> unit flow" where
  "write_summaries os a r =
     and_then (write_file (run_file os a ''summary.json'') (json_dumps True (JObj r))) (\<lambda>_.
     case format_summary r (va_benchmark a) (va_mode a) (va_runs a) (va_max_cycles a) of
       None \<Rightarrow> raise_exc ValueError
     | Some t \<Rightarrow> write_file (run_file os a ''summary.txt'') t)"

text \<open>The summary of the simulator with the parameters of the run set in it.\<close>

definition sim_summary :: "mainline_args \<Rightarrow> items \<Rightarrow> items \<Rightarrow> items" where
  "sim_summary a config r =
     spread_items r (count_items a @ run_items a
       @ [(''TraceStartCycle'', JInt (va_trace_start a)), (''TraceStopCycle'', JInt (va_trace_stop a))] @ config)"

section \<open>The run\<close>

definition mainline_manifest :: "os \<Rightarrow> mainline_board \<Rightarrow> mainline_args \<Rightarrow> items flow" where
  "mainline_manifest os vb a =
     (if va_mode a = ''linux-preload'' then
        and_then (look_file (va_linux_payload a)) (\<lambda>t.
        and_then (require (t \<noteq> None) (SystemExit (''Linux payload not found: '' @ va_linux_payload a
          @ ''. Build it with software/linux/scripts/build_linux_payload.sh after Linux/OpenSBI sources are ready.''))) (\<lambda>_.
        and_then (mainline_rom os ''preload'' (va_loader_rom_profile a)) (\<lambda>_.
        give [(''elf'', JStr (run_file os a ''fw_payload.elf'')), (''bin'', JStr (va_linux_payload a)), (''entry'', JInt 0x80000000),
          (''load_addr'', JInt 0x80000000)])))
      else
        and_then (mainline_image os (va_benchmark a) (va_runs a) (cpu_hz_used vb a) (run_dir_of os a) (va_runtime_profile a)) (\<lambda>kvs.
        and_then (mainline_rom os (va_mode a) (va_loader_rom_profile a)) (\<lambda>_. give kvs)))"

definition text_item :: "string \<Rightarrow> items \<Rightarrow> string flow" where
  "text_item key kvs = (case get_item key kvs of None \<Rightarrow> raise_exc KeyError | Some j \<Rightarrow> give (py_str j))"

definition int_item :: "string \<Rightarrow> items \<Rightarrow> int flow" where
  "int_item key kvs = (case get_item key kvs of None \<Rightarrow> raise_exc KeyError
     | Some j \<Rightarrow> (case json_int j of None \<Rightarrow> raise_exc ValueError | Some i \<Rightarrow> give i))"

text \<open>\<^verbatim>\<open>payload_preload.hex\<close> and its path, for the modes that fill the memory beforehand.\<close>

definition preload_file :: "os \<Rightarrow> mainline_args \<Rightarrow> items \<Rightarrow> string flow" where
  "preload_file os a manifest =
     (if preload_mode a then
        and_then (text_item ''bin'' manifest) (\<lambda>p. and_then (read_text p) (\<lambda>t.
        and_then (write_file (run_file os a ''payload_preload.hex'') (write_preload_hex (latin1_encode t))) (\<lambda>_.
        to_wsl_path (run_file os a ''payload_preload.hex''))))
      else give [])"

definition sim_line :: "os \<Rightarrow> mainline_args \<Rightarrow> items \<Rightarrow> string \<Rightarrow> string flow" where
  "sim_line os a manifest preload =
     and_then (to_wsl_path (in_dir (obj_dir_of os a) ''sim_mainline'')) (\<lambda>exe.
     and_then (to_wsl_path (run_file os a ''summary.json'')) (\<lambda>summary.
     and_then (to_wsl_path (run_file os a ''uart.log'')) (\<lambda>uart.
     and_then (text_item ''bin'' manifest) (\<lambda>b. and_then (to_wsl_path b) (\<lambda>payload.
     and_then (int_item ''entry'' manifest) (\<lambda>entry. and_then (int_item ''load_addr'' manifest) (\<lambda>load_addr.
     and_then (if traced_run a then to_wsl_path (run_file os a ''trace.fst'') else give []) (\<lambda>trace.
     give (sim_shell_command a entry load_addr \<lparr>sp_exe = exe, sp_payload = payload, sp_summary = summary, sp_uart_log = uart,
       sp_trace = trace, sp_preload = preload\<rparr>)))))))))"

definition build_simulator :: "os \<Rightarrow> wsl \<Rightarrow> mainline_board \<Rightarrow> mainline_args \<Rightarrow> int flow" where
  "build_simulator os w vb a =
     and_then (build_verilator_command os vb a (obj_dir_of os a)) (\<lambda>cmd.
     and_then (run_wsl os w cmd (repo_root os) [] 3600) (\<lambda>(rc, out, err).
     and_then (write_file (run_file os a ''logs/01_build.log'') (out @ err)) (\<lambda>_. give rc)))"

definition run_simulator :: "os \<Rightarrow> wsl \<Rightarrow> mainline_args \<Rightarrow> items \<Rightarrow> string \<Rightarrow> int flow" where
  "run_simulator os w a manifest preload =
     and_then (sim_line os a manifest preload) (\<lambda>cmd.
     and_then (run_wsl os w cmd (ROM_DIR os) [] 3600) (\<lambda>(rc, out, err).
     and_then (write_file (run_file os a ''logs/02_run.log'') (out @ err)) (\<lambda>_. give rc)))"

text \<open>After a simulation: a failed one that left no summary has none; otherwise the summary is completed.\<close>

definition report_run :: "os \<Rightarrow> wsl \<Rightarrow> mainline_args \<Rightarrow> items \<Rightarrow> items \<Rightarrow> int \<Rightarrow> int flow" where
  "report_run os w a config manifest rc =
     and_then (look_file (run_file os a ''summary.json'')) (\<lambda>t.
     if rc \<noteq> 0 \<and> t = None then give rc
     else
       and_then (load_json (run_file os a ''summary.json'')) (\<lambda>j.
       and_then (as_dict j) (\<lambda>r.
       let r1 = sim_summary a config r in
       and_then (text_item ''elf'' manifest) (\<lambda>elf.
       and_then (maybe_decode_pc_window os w r1 elf (run_dir_of os a)) (\<lambda>found.
       and_then (write_summaries os a (spread_items r1 found)) (\<lambda>_. give rc))))))"

definition mainline_simulation :: "os \<Rightarrow> wsl \<Rightarrow> mainline_board \<Rightarrow> mainline_args \<Rightarrow> items \<Rightarrow> int flow" where
  "mainline_simulation os w vb a config =
     and_then (program_there os ''wsl'') (\<lambda>_.
     and_then (which_required_wsl os w [''verilator'', ''make'', ''g++'']) (\<lambda>_.
     and_then (mainline_manifest os vb a) (\<lambda>manifest.
     and_then (if traced_run a then remove_file (run_file os a ''trace.fst'') else give ()) (\<lambda>_.
     and_then (preload_file os a manifest) (\<lambda>preload.
     and_then (build_simulator os w vb a) (\<lambda>rc.
     if rc \<noteq> 0 then give rc
     else if va_build_only a then
       and_then (write_summaries os a (config @ (''BuildOnly'', JBool True) # run_items a @ count_items a)) (\<lambda>_. give 0)
     else and_then (run_simulator os w a manifest preload) (\<lambda>rc. report_run os w a config manifest rc)))))))"

definition mainline_main :: "os \<Rightarrow> wsl \<Rightarrow> mainline_board \<Rightarrow> mainline_args \<Rightarrow> int flow" where
  "mainline_main os w vb a =
     and_then (check_clock a) (\<lambda>_.
     and_then (board_config_for_args vb a) (\<lambda>config.
     if va_require_match a \<and> config_mismatches vb a \<noteq> [] then
       and_then (write_summaries os a (config @ run_items a @ count_items a)) (\<lambda>_. give 2)
     else mainline_simulation os w vb a config))"

end
