(* ===== verification/Spec2Isabelle.thy ===== *)
theory Spec2Isabelle
  imports LoaderDrive Step2 MemWords Stall EarlyDrive Capture TransportDrive Config Autodebug SimGate Validation Images MainPass VlGates
begin

text \<open>
  Verification development for the bring-up software of the \<^emph>\<open>sifang\<close> SMT RISC-V core.

  \<^bold>\<open>The program.\<close>  The repository holds the core (Verilog under \<^verbatim>\<open>rtl/\<close> and \<^verbatim>\<open>fpga/rtl/\<close>), the boot programs
  that run on it (\<^verbatim>\<open>rom/\<close>) and the Python software under \<^verbatim>\<open>fpga/scripts/\<close> that builds images, simulates, runs
  the synthesis tool, loads programs into a board over a serial line and decides from what comes back
  whether the board works.  This development models the Python software.  Its parts and their theories:

  \<^enum> \<^bold>\<open>Lines and bytes.\<close>  \<^verbatim>\<open>Prelude\<close> has Python's text and number operations that the code uses and the packing of
    32-bit words; \<^verbatim>\<open>Pattern\<close> is the matcher for the regular expressions of the scripts (sequences of
    literals and greedy runs); \<^verbatim>\<open>Json\<close> is what is used of \<^verbatim>\<open>json.dumps\<close> and \<^verbatim>\<open>json.loads\<close>.
  \<^enum> \<^bold>\<open>The loader protocol\<close> of \<^verbatim>\<open>run_fpga_benchmark_ddr3.py\<close>.  \<^verbatim>\<open>Uart\<close>: paced writes and the block transfer with
    acknowledges, checksums and retries.  \<^verbatim>\<open>Beacon\<close>: five-byte frames in the console stream, as a decoder of a
    whole capture and as a filter fed chunk by chunk.  \<^verbatim>\<open>LoaderEvents\<close>, \<^verbatim>\<open>EarlyAudit\<close>, \<^verbatim>\<open>Selftest\<close>, \<^verbatim>\<open>Step2\<close>: the
    reductions of decoded frames to the flags and verdicts of the four boot programs.  \<^verbatim>\<open>LogScan\<close>: what is searched
    in console texts and simulation logs.
  \<^enum> \<^bold>\<open>The host of a load.\<close>  \<^verbatim>\<open>SerialHost\<close> is the state the nested functions of the drives share (the port, the
    clock, the beacon filter, credits and replies); \<^verbatim>\<open>LoaderDrive\<close>, \<^verbatim>\<open>EarlyDrive\<close>, \<^verbatim>\<open>TransportDrive\<close> and \<^verbatim>\<open>Capture\<close>
    are \<^verbatim>\<open>drive_uart_loader\<close>, \<^verbatim>\<open>drive_uart_loader_early_audit\<close>, \<^verbatim>\<open>drive_uart_transport_sessions\<close> and the captures
    that only listen.
  \<^enum> \<^bold>\<open>Images.\<close>  \<^verbatim>\<open>HexImage\<close> and \<^verbatim>\<open>MemWords\<close>: the byte-addressed hex files, their readers
    (\<^verbatim>\<open>generate_coe.py\<close>, \<^verbatim>\<open>merge_hex_for_mem_subsys.py\<close>) and the words of the block memories; \<^verbatim>\<open>Images\<close>: the flows of
    \<^verbatim>\<open>build_rom_image.py\<close> and \<^verbatim>\<open>build_benchmark_image.py\<close> and the payload manifests.
  \<^enum> \<^bold>\<open>Stall analysis.\<close>  \<^verbatim>\<open>Vcd\<close> and \<^verbatim>\<open>Stall\<close>: \<^verbatim>\<open>analyze_verilator_stall.py\<close>, from the value-change dump to the
    report.
  \<^enum> \<^bold>\<open>Flows.\<close>  \<^verbatim>\<open>Config\<close>: options, derived widths and divisors and the environment of the synthesis tool.
    \<^verbatim>\<open>Flow\<close>: programs run with logs and time limits, files and exceptions; \<^verbatim>\<open>Block\<close>: \<^verbatim>\<open>try\<close> blocks over local
    variables and a background process.  \<^verbatim>\<open>Feedback\<close>, \<^verbatim>\<open>Autodebug\<close> and \<^verbatim>\<open>Validation\<close>: \<^verbatim>\<open>run_board_feedback.py\<close>,
    \<^verbatim>\<open>run_fpga_autodebug.py\<close> and \<^verbatim>\<open>run_fpga_mainline_validation.py\<close>.  \<^verbatim>\<open>SimGate\<close>: the simulations that come before a
    bitstream.  \<^verbatim>\<open>Board\<close> and \<^verbatim>\<open>BoardTrial\<close>: the serial port of a board, the drives with the files they leave, the
    early-audit trials and their sweep, the self-test and the benchmark on the board.
  \<^enum> \<^bold>\<open>The benchmark flow.\<close>  \<^verbatim>\<open>main\<close> of \<^verbatim>\<open>run_fpga_benchmark_ddr3.py\<close>, whole.  \<^verbatim>\<open>Results\<close>: what captures and analyses report, as the
    dicts the flow passes around.  \<^verbatim>\<open>MainModes\<close>: the arguments, the checks on them, and the runs that only use the board.
    \<^verbatim>\<open>MainBuild\<close>: tests, simulations, synthesis and implementation.  \<^verbatim>\<open>MainFlow\<close>: the board and the verdict.
    \<^verbatim>\<open>MainSummary\<close>: the summary and \<^verbatim>\<open>main\<close> itself.  \<^verbatim>\<open>MainGates\<close> shows that in every staged mode the board is
    programmed only after tests, synthesis and implementation ran to their end, in this order; \<^verbatim>\<open>MainPass\<close>, that a
    benchmark run that returns zero has loaded and run its program on the board with every check passed.
  \<^enum> \<^bold>\<open>Verilator runs.\<close>  \<^verbatim>\<open>run_verilator_mainline.py\<close>, whole.  \<^verbatim>\<open>VlConfig\<close>: the parameters of a run and their comparison
    with those of the board, which is shown to notice every difference; clocks are numbers of hertz, compared as the
    floats of megahertz that \<^verbatim>\<open>Double\<close> computes.  \<^verbatim>\<open>Shell\<close>: \<^verbatim>\<open>shlex.quote\<close> and how a shell splits a line into
    words.  \<^verbatim>\<open>VlRun\<close>: the commands, paths as Windows and WSL write them; the command of the simulator is split into the
    words that are meant.  The streams and decoders of the output of WSL are a parameter.  \<^verbatim>\<open>VlSummary\<close>: the summary, line
    by line.  \<^verbatim>\<open>Verilator\<close>: \<^verbatim>\<open>main\<close> after its arguments are parsed.  \<^verbatim>\<open>VlGates\<close> shows that a run that returns
    zero has run the simulator it has just built, and that parameters that differ from the board's are refused before
    anything is run.

  \<^bold>\<open>How the model corresponds to the code.\<close>  A definition has the name of the function it translates, or of the
  constant; nested functions and phases of a long function are definitions of their own, composed as the code composes
  them.  A dict with fixed keys is a record, one that is read from or written to a file a list of items.
  A function that raises returns a sum, its left side the exception; a flow is such a function of a
  \<^verbatim>\<open>machine\<close>, the files and the list of what was run.  Loops over data are structural recursions; a loop that waits has
  the clock in its state, every read takes time, and its termination is proved, so the functions are
  total.  No fuel is used except by the JSON reader, which takes twice the length of its text and two:
  \<^verbatim>\<open>json_roundtrip\<close> shows that this is enough for every text the writer produces.

  \<^bold>\<open>What is outside and how it enters.\<close>  The serial port is a script of reads, each with the time it takes and the bytes
  it gives; time is in microseconds.  Programs (compilers, simulators, the synthesis tool, other scripts) are a
  function of the record \<^verbatim>\<open>os\<close>, of everything run so far, of the command and of the files, to a result and new
  files; the theorems hold for every such function.  The board is a record of the same kind.  Clocks are
  in Hz where the code has MHz as a float.  Files hold characters below 256.  Directories, their creation and printed
  messages are not modelled.

  \<^bold>\<open>What the lemmas show.\<close>  For the protocol: the filter, the decoder and the encoder agree for every split of
  a stream into reads; the transfer writes exactly the blocks of the payload and ends for a stated reason;
  the drives write the header no more often than allowed and count what the board sent; each verdict is
  characterised by the frames it rests on.  For images: a written image reads back as the same bytes, and the words
  of the memories are its bytes.  For the stall analysis: the sampled waveform is the one the dump denotes, and the
  window found is the one asked for.  For the flows: \<^verbatim>\<open>follows\<close> and \<^verbatim>\<open>staged\<close> say that a flow runs a plan in order and
  goes on only past stages that passed; from them it follows that a board is programmed only after its
  simulations passed, that a reported pass is one, and that a failed stage is named truly, or where it is not.
  Locales state the contracts between the parts: the port a transfer writes to, the callbacks it waits by, and the
  invariants that every callback keeps; each is interpreted on the host states of the drives.

  \<^bold>\<open>Not modelled.\<close>  Argument parsing; printed messages; the conversion of FST waveforms; the download of the
  CoreMark sources; the test runners under \<^verbatim>\<open>verification/\<close> (process control and text filtering
  around other people's tests), the RISCOF plugin, and everything that is not Python: the RTL, the boot
  programs, and the Tcl and PowerShell scripts.
\<close>

end
